(* ===== verification/Prelude.thy ===== *)
theory Prelude
  imports Main "HOL-Library.Word"
begin

text \<open>
  Shared vocabulary of the development: the machine integer types of the SDK, the
  world-passing programs in which every function that performs a hostcall is written,
  and the generic lemmas on lists and words that several components use.

  A Go function that may fail returns \<open>Inl e\<close> for the error \<open>e\<close> and \<open>Inr x\<close> for a
  result.  A function that talks to the host takes the world as its last argument and
  returns the result with the world after the call.
\<close>

unbundle bit_operations_syntax

type_synonym u8 = "8 word"
type_synonym u16 = "16 word"
type_synonym u32 = "32 word"
type_synonym u64 = "64 word"

named_theorems go_consts \<open>unfolding rules of the numeric constants of the SDK\<close>
named_theorems prog_simps \<open>evaluation rules of world-passing programs\<close>

section \<open>World-passing programs\<close>

type_synonym ('w, 'a) prog = "'w \<Rightarrow> 'a \<times> 'w"

definition ret :: "'a \<Rightarrow> ('w, 'e + 'a) prog" where
  "ret x = (\<lambda>w. (Inr x, w))"

definition fail :: "'e \<Rightarrow> ('w, 'e + 'a) prog" where
  "fail e = (\<lambda>w. (Inl e, w))"

text \<open>
  \<open>check wrap m k\<close> is the Go idiom \<open>x, err := m(); if err != nil { return wrap(err) }; k(x)\<close>;
  \<open>attempt m h k\<close> is the same idiom with an arbitrary error branch; \<open>after m k\<close> runs
  \<open>m\<close> for its effect and result, whatever it is.
\<close>

definition attempt ::
  "('w, 'e + 'a) prog \<Rightarrow> ('e \<Rightarrow> ('w, 'b) prog) \<Rightarrow> ('a \<Rightarrow> ('w, 'b) prog) \<Rightarrow> ('w, 'b) prog" where
  "attempt m h k = (\<lambda>w. case m w of (Inl e, w') \<Rightarrow> h e w' | (Inr x, w') \<Rightarrow> k x w')"

definition check ::
  "('e \<Rightarrow> 'e) \<Rightarrow> ('w, 'e + 'a) prog \<Rightarrow> ('a \<Rightarrow> ('w, 'e + 'b) prog) \<Rightarrow> ('w, 'e + 'b) prog" where
  "check wrap m k = attempt m (\<lambda>e. fail (wrap e)) k"

definition after :: "('w, 'a) prog \<Rightarrow> ('a \<Rightarrow> ('w, 'b) prog) \<Rightarrow> ('w, 'b) prog" where
  "after m k = (\<lambda>w. case m w of (x, w') \<Rightarrow> k x w')"

definition give :: "'a \<Rightarrow> ('w, 'a) prog" where
  "give x = (\<lambda>w. (x, w))"

lemma ret_apply [simp, prog_simps]: "ret x w = (Inr x, w)"
  by (simp add: ret_def)

lemma fail_apply [simp, prog_simps]: "fail e w = (Inl e, w)"
  by (simp add: fail_def)

lemma give_apply [simp, prog_simps]: "give x w = (x, w)"
  by (simp add: give_def)

lemma after_apply [prog_simps]: "after m k w = (case m w of (x, w') \<Rightarrow> k x w')"
  by (simp add: after_def)

lemma attempt_apply [prog_simps]:
  "attempt m h k w = (case m w of (Inl e, w') \<Rightarrow> h e w' | (Inr x, w') \<Rightarrow> k x w')"
  by (simp add: attempt_def)

lemma check_apply [prog_simps]:
  "check wrap m k w = (case m w of (Inl e, w') \<Rightarrow> (Inl (wrap e), w') | (Inr x, w') \<Rightarrow> k x w')"
  by (auto simp: check_def attempt_def split: prod.splits sum.splits)

lemma check_Inr:
  "m w = (Inr x, w') \<Longrightarrow> check wrap m k w = k x w'"
  by (simp add: check_apply)

lemma check_Inl:
  "m w = (Inl e, w') \<Longrightarrow> check wrap m k w = (Inl (wrap e), w')"
  by (simp add: check_apply)

section \<open>Computations that may panic or not return\<close>

text \<open>
  \<open>Panic\<close> is a Go run-time panic.  A computation that may also loop for ever has type
  \<open>('w, 'a) comp\<close>: its value is \<open>None\<close> when it does not return.
\<close>

datatype 'a outcome = Done 'a | Panic

type_synonym ('w, 'a) comp = "'w \<Rightarrow> ('a outcome \<times> 'w) option"

definition and_then :: "('w, 'a) comp \<Rightarrow> ('a \<Rightarrow> ('w, 'b) comp) \<Rightarrow> ('w, 'b) comp" where
  "and_then m k = (\<lambda>w. case m w of
       None \<Rightarrow> None
     | Some (Panic, w') \<Rightarrow> Some (Panic, w')
     | Some (Done x, w') \<Rightarrow> k x w')"

definition finish :: "'a \<Rightarrow> ('w, 'a) comp" where
  "finish x = (\<lambda>w. Some (Done x, w))"

lemma finish_apply [simp]: "finish x w = Some (Done x, w)"
  by (simp add: finish_def)

lemma and_then_Done: "m w = Some (Done x, w') \<Longrightarrow> and_then m k w = k x w'"
  by (simp add: and_then_def)

lemma and_then_mono:
  "and_then m k w = Some (Done y, w'') \<Longrightarrow>
   \<exists>x w'. m w = Some (Done x, w') \<and> k x w' = Some (Done y, w'')"
  by (auto simp: and_then_def split: option.splits outcome.splits)

text \<open>
  The error idiom for such computations: \<open>try_c m h k\<close> runs \<open>h\<close> on the error of \<open>m\<close> and \<open>k\<close> on its
  result; \<open>check_c wrap m k\<close> returns the wrapped error; \<open>drop_error m k\<close> ignores the result.
\<close>

definition try_c :: "('w, 'e + 'a) comp \<Rightarrow> ('e \<Rightarrow> ('w, 'b) comp) \<Rightarrow> ('a \<Rightarrow> ('w, 'b) comp) \<Rightarrow> ('w, 'b) comp" where
  "try_c m h k = and_then m (\<lambda>r. case r of Inl e \<Rightarrow> h e | Inr x \<Rightarrow> k x)"

definition check_c :: "('e \<Rightarrow> 'e) \<Rightarrow> ('w, 'e + 'a) comp \<Rightarrow> ('a \<Rightarrow> ('w, 'e + 'b) comp) \<Rightarrow> ('w, 'e + 'b) comp" where
  "check_c wrap m k = try_c m (\<lambda>e. finish (Inl (wrap e))) k"

definition drop_error :: "('w, 'a) comp \<Rightarrow> ('w, 'b) comp \<Rightarrow> ('w, 'b) comp" where
  "drop_error m k = and_then m (\<lambda>_. k)"

definition panic :: "('w, 'a) comp" where
  "panic = (\<lambda>w. Some (Panic, w))"

definition lift :: "('w, 'a) prog \<Rightarrow> ('w, 'a) comp" where
  "lift p = (\<lambda>w. case p w of (x, w') \<Rightarrow> Some (Done x, w'))"

definition of_outcome :: "'a outcome \<Rightarrow> ('w, 'a) comp" where
  "of_outcome r = (\<lambda>w. Some (r, w))"

text \<open>\<open>defer d\<close>: \<open>d\<close> runs when \<open>m\<close> is left, by a return or by a panic.\<close>

definition defer_c :: "('w, 'b) comp \<Rightarrow> ('w, 'a) comp \<Rightarrow> ('w, 'a) comp" where
  "defer_c d m = (\<lambda>w. case m w of
       None \<Rightarrow> None
     | Some (r, w') \<Rightarrow> (case d w' of None \<Rightarrow> None | Some (_, w'') \<Rightarrow> Some (r, w'')))"

lemma try_c_Inr: "m w = Some (Done (Inr x), w') \<Longrightarrow> try_c m h k w = k x w'"
  by (simp add: try_c_def and_then_def)

lemma try_c_Inl: "m w = Some (Done (Inl e), w') \<Longrightarrow> try_c m h k w = h e w'"
  by (simp add: try_c_def and_then_def)

lemma check_c_Inr: "m w = Some (Done (Inr x), w') \<Longrightarrow> check_c wrap m k w = k x w'"
  by (simp add: check_c_def try_c_Inr)

lemma check_c_Inl: "m w = Some (Done (Inl e), w') \<Longrightarrow> check_c wrap m k w = Some (Done (Inl (wrap e)), w')"
  by (simp add: check_c_def try_c_Inl)

lemma drop_error_Done: "m w = Some (Done x, w') \<Longrightarrow> drop_error m k w = k w'"
  by (simp add: drop_error_def and_then_def)

lemma check_c_Done:
  "check_c wrap m k w = Some (Done (Inr y), w'') \<Longrightarrow>
   \<exists>x w'. m w = Some (Done (Inr x), w') \<and> k x w' = Some (Done (Inr y), w'')"
  by (auto simp: check_c_def try_c_def and_then_def split: option.splits outcome.splits sum.splits)

lemma panic_apply [simp]: "panic w = Some (Panic, w)"
  by (simp add: panic_def)

lemma lift_apply [simp]: "lift p w = (case p w of (x, w') \<Rightarrow> Some (Done x, w'))"
  by (simp add: lift_def)

lemma of_outcome_apply [simp]: "of_outcome r w = Some (r, w)"
  by (simp add: of_outcome_def)

text \<open>
  \<open>yields m x\<close>: in every world \<open>m\<close> returns the result \<open>x\<close>; \<open>fails m e\<close>: it returns the error \<open>e\<close>.
\<close>

definition yields :: "('w, 'e + 'a) comp \<Rightarrow> 'a \<Rightarrow> bool" where
  "yields m x \<longleftrightarrow> (\<forall>w. \<exists>w'. m w = Some (Done (Inr x), w'))"

definition fails :: "('w, 'e + 'a) comp \<Rightarrow> 'e \<Rightarrow> bool" where
  "fails m e \<longleftrightarrow> (\<forall>w. \<exists>w'. m w = Some (Done (Inl e), w'))"

lemma yieldsD: "yields m x \<Longrightarrow> \<exists>w'. m w = Some (Done (Inr x), w')"
  unfolding yields_def by blast

lemma failsD: "fails m e \<Longrightarrow> \<exists>w'. m w = Some (Done (Inl e), w')"
  unfolding fails_def by blast

lemma yields_finish: "yields (finish (Inr x)) x"
  by (simp add: yields_def)

lemma fails_finish: "fails (finish (Inl e)) e"
  by (simp add: fails_def)

lemma yields_try_c:
  assumes "yields m x" and "yields (k x) y" shows "yields (try_c m h k) y"
  unfolding yields_def
proof
  fix w
  obtain w1 where 1: "m w = Some (Done (Inr x), w1)" using assms(1) unfolding yields_def by blast
  obtain w2 where "k x w1 = Some (Done (Inr y), w2)" using assms(2) unfolding yields_def by blast
  with 1 show "\<exists>w'. try_c m h k w = Some (Done (Inr y), w')" by (simp add: try_c_Inr)
qed

lemma yields_try_c_error:
  assumes "fails m e" and "yields (h e) y" shows "yields (try_c m h k) y"
  unfolding yields_def
proof
  fix w
  obtain w1 where 1: "m w = Some (Done (Inl e), w1)" using assms(1) unfolding fails_def by blast
  obtain w2 where "h e w1 = Some (Done (Inr y), w2)" using assms(2) unfolding yields_def by blast
  with 1 show "\<exists>w'. try_c m h k w = Some (Done (Inr y), w')" by (simp add: try_c_Inl)
qed

lemma fails_try_c:
  assumes "yields m x" and "fails (k x) e" shows "fails (try_c m h k) e"
  unfolding fails_def
proof
  fix w
  obtain w1 where 1: "m w = Some (Done (Inr x), w1)" using assms(1) unfolding yields_def by blast
  obtain w2 where "k x w1 = Some (Done (Inl e), w2)" using assms(2) unfolding fails_def by blast
  with 1 show "\<exists>w'. try_c m h k w = Some (Done (Inl e), w')" by (simp add: try_c_Inr)
qed

lemma fails_try_c_error:
  assumes "fails m e" and "fails (h e) e'" shows "fails (try_c m h k) e'"
  unfolding fails_def
proof
  fix w
  obtain w1 where 1: "m w = Some (Done (Inl e), w1)" using assms(1) unfolding fails_def by blast
  obtain w2 where "h e w1 = Some (Done (Inl e'), w2)" using assms(2) unfolding fails_def by blast
  with 1 show "\<exists>w'. try_c m h k w = Some (Done (Inl e'), w')" by (simp add: try_c_Inl)
qed

lemma yields_check_c: "yields m x \<Longrightarrow> yields (k x) y \<Longrightarrow> yields (check_c f m k) y"
  unfolding check_c_def by (rule yields_try_c)

lemma fails_check_c: "yields m x \<Longrightarrow> fails (k x) e \<Longrightarrow> fails (check_c f m k) e"
  unfolding check_c_def by (rule fails_try_c)

lemma fails_check_c_error: "fails m e \<Longrightarrow> fails (check_c f m k) (f e)"
  unfolding check_c_def by (erule fails_try_c_error) (rule fails_finish)

text \<open>A loop that stops at the first error.\<close>

fun each_c :: "('k \<Rightarrow> ('w, 'e + 'a) comp) \<Rightarrow> 'k list \<Rightarrow> ('w, 'e + unit) comp" where
  "each_c f [] = finish (Inr ())"
| "each_c f (k # ks) = check_c id (f k) (\<lambda>_. each_c f ks)"

lemma yields_each_c: "(\<And>k. k \<in> set ks \<Longrightarrow> yields (f k) (g k)) \<Longrightarrow> yields (each_c f ks) ()"
proof (induction ks)
  case (Cons k ks)
  then show ?case by (simp add: yields_check_c [of "f k" "g k"])
qed (simp add: yields_finish)

section \<open>Words and lists\<close>

lemma word_or_and_absorb: "((a :: 'a::len word) OR b) AND b = b"
  by (rule bit_word_eqI) (auto simp: bit_simps)

lemma word_or_and_keep: "((a :: 'a::len word) OR b) AND c = (a AND c) OR (b AND c)"
  by (rule bit_word_eqI) (auto simp: bit_simps)

lemma word_clear_and: "((a :: 'a::len word) AND NOT b) AND b = 0"
  by (rule bit_word_eqI) (auto simp: bit_simps)

lemma word_clear_and_disjoint:
  "(b :: 'a::len word) AND c = 0 \<Longrightarrow> (a AND NOT b) AND c = a AND c"
proof (rule bit_word_eqI)
  fix n
  assume "b AND c = 0"
  then have "bit (b AND c) n = bit (0 :: 'a word) n" by simp
  then show "bit ((a AND NOT b) AND c) n = bit (a AND c) n" if "n < LENGTH('a)"
    using that by (auto simp: bit_simps)
qed

lemma word_or_keep:
  assumes "(a :: 'a::len word) AND f = f" shows "(a OR b) AND f = f"
proof (rule bit_word_eqI)
  fix n
  have "bit (a AND f) n = bit f n" using assms by simp
  then show "bit ((a OR b) AND f) n = bit f n" by (auto simp: bit_simps)
qed

lemma word_or_disjoint:
  assumes "(f :: 'a::len word) AND b = 0" shows "(a OR b) AND f = a AND f"
proof (rule bit_word_eqI)
  fix n
  have "bit (f AND b) n = bit (0 :: 'a word) n" using assms by simp
  then show "bit ((a OR b) AND f) n = bit (a AND f) n" by (auto simp: bit_simps)
qed

lemma word_clear_disjoint:
  assumes "(f :: 'a::len word) AND b = 0" shows "(a AND NOT b) AND f = a AND f"
  using word_clear_and_disjoint [of b f a] assms by (simp add: and.commute)

lemma u32_less [simp]: "unat (x :: u32) < 4294967296"
proof -
  have "unat x < 2 ^ LENGTH(32)" by (rule unsigned_less)
  then show ?thesis by simp
qed

lemma u64_less [simp]: "unat (x :: u64) < 18446744073709551616"
proof -
  have "unat x < 2 ^ LENGTH(64)" by (rule unsigned_less)
  then show ?thesis by simp
qed

lemma unat_of_nat_u32: "n < 2 ^ 32 \<Longrightarrow> unat (of_nat n :: u32) = n"
  by (simp add: unat_of_nat)

lemma filter_eq_distinct:
  "distinct xs \<Longrightarrow> filter (\<lambda>x. x = a) xs = (if a \<in> set xs then [a] else [])"
  by (induction xs) (auto simp: filter_empty_conv)

lemma take_length_append: "take (length xs) (xs @ ys) = xs"
  by simp

end
