(* ===== verification/GoStd.thy ===== *)
theory GoStd
  imports Prelude
begin

text \<open>
  The functions of Go's standard library that the modelled code calls, on Go strings as
  lists of bytes (\<open>char\<close> is a byte): \<open>strings.Index\<close> and \<open>strings.Split\<close> with a
  one-byte separator, \<open>strings.Join\<close>, \<open>strings.CutPrefix\<close>, \<open>bytes.Cut\<close>,
  \<open>strings.ToLower\<close>/\<open>ToUpper\<close> on ASCII, \<open>textproto.TrimString\<close>, \<open>strconv.Itoa\<close> and
  \<open>Atoi\<close>, \<open>hex.EncodeToString\<close> and \<open>textproto.CanonicalMIMEHeaderKey\<close>, with the facts
  about them that the components share.
\<close>

section \<open>Searching and splitting\<close>

text \<open>\<open>strings.Index(s, sep)\<close> for a separator of one byte: \<open>-1\<close> when it is absent.\<close>

fun index_byte :: "char \<Rightarrow> string \<Rightarrow> int" where
  "index_byte c [] = -1"
| "index_byte c (x # xs) =
     (if x = c then 0
      else if index_byte c xs < 0 then -1 else index_byte c xs + 1)"

text \<open>\<open>bytes.Cut(s, sep)\<close>: the text before and after the first separator, and whether it was found.\<close>

fun cut_byte :: "char \<Rightarrow> string \<Rightarrow> string \<times> string \<times> bool" where
  "cut_byte c [] = ([], [], False)"
| "cut_byte c (x # xs) =
     (if x = c then ([], xs, True)
      else case cut_byte c xs of (a, b, f) \<Rightarrow> (x # a, b, f))"

text \<open>\<open>strings.Split(s, sep)\<close> for a separator of one byte: always at least one part.\<close>

fun split_byte :: "char \<Rightarrow> string \<Rightarrow> string list" where
  "split_byte c [] = [[]]"
| "split_byte c (x # xs) =
     (if x = c then [] # split_byte c xs
      else case split_byte c xs of [] \<Rightarrow> [[x]] | p # ps \<Rightarrow> (x # p) # ps)"

fun str_join :: "string \<Rightarrow> string list \<Rightarrow> string" where
  "str_join sep [] = []"
| "str_join sep [x] = x"
| "str_join sep (x # y # ys) = x @ sep @ str_join sep (y # ys)"

fun cut_prefix :: "string \<Rightarrow> string \<Rightarrow> string \<times> bool" where
  "cut_prefix s p = (if take (length p) s = p then (drop (length p) s, True) else (s, False))"

declare cut_prefix.simps [simp del]

lemma cut_prefix_key: "cut_prefix h p = (k, True) \<longleftrightarrow> h = p @ k"
  by (auto simp: cut_prefix.simps) (metis append_take_drop_id)

lemma index_byte_ge: "- 1 \<le> index_byte c s"
  by (induction s) auto

lemma index_byte_neg [simp]: "index_byte c s < 0 \<longleftrightarrow> c \<notin> set s"
  by (induction s) auto

lemma index_byte_nonneg [simp]: "0 \<le> index_byte c s \<longleftrightarrow> c \<in> set s"
  by (metis index_byte_neg linorder_not_less)

lemma index_byte_append: "c \<notin> set a \<Longrightarrow> index_byte c (a @ c # b) = int (length a)"
  by (induction a) auto

lemma index_byte_split:
  assumes "c \<in> set s"
  shows "s = take (nat (index_byte c s)) s @ c # drop (nat (index_byte c s) + 1) s
    \<and> c \<notin> set (take (nat (index_byte c s)) s)"
proof -
  obtain a b where "s = a @ c # b" "c \<notin> set a"
    using assms by (metis split_list_first)
  then show ?thesis by (simp add: index_byte_append)
qed

lemma index_byte_less: "c \<in> set s \<Longrightarrow> nat (index_byte c s) < length s"
proof -
  assume "c \<in> set s"
  then obtain a b where "s = a @ c # b" "c \<notin> set a"
    by (metis split_list_first)
  then show ?thesis by (simp add: index_byte_append)
qed

lemma cut_byte_append [simp]: "c \<notin> set a \<Longrightarrow> cut_byte c (a @ c # b) = (a, b, True)"
  by (induction a) auto

lemma cut_byte_absent [simp]: "c \<notin> set a \<Longrightarrow> cut_byte c a = (a, [], False)"
  by (induction a) auto

lemma cut_byte_length: "cut_byte c s = (a, b, True) \<Longrightarrow> length b < length s"
  by (induction s arbitrary: a b) (auto split: if_splits prod.splits)

lemma split_byte_not_Nil [simp]: "split_byte c s \<noteq> []"
  by (induction s) (auto split: list.splits)

lemma split_byte_absent [simp]: "c \<notin> set s \<Longrightarrow> split_byte c s = [s]"
  by (induction s) auto

lemma split_byte_append [simp]:
  "c \<notin> set a \<Longrightarrow> split_byte c (a @ c # b) = a # split_byte c b"
  by (induction a) auto

lemma split_byte_parts: "p \<in> set (split_byte c s) \<Longrightarrow> c \<notin> set p"
proof (induction s arbitrary: p)
  case Nil
  then show ?case by simp
next
  case (Cons x xs)
  then show ?case by (cases "split_byte c xs") (auto split: if_splits)
qed

lemma split_byte_cons_join:
  "\<forall>p \<in> set ps. c \<notin> set p \<Longrightarrow> c \<notin> set a \<Longrightarrow>
   split_byte c (a @ concat (map (\<lambda>p. c # p) ps)) = a # ps"
  by (induction ps arbitrary: a) auto

lemma split_join:
  "xs \<noteq> [] \<Longrightarrow> \<forall>x \<in> set xs. c \<notin> set x \<Longrightarrow> split_byte c (str_join [c] xs) = xs"
  by (induction "[c]" xs rule: str_join.induct) simp_all

lemma join_split: "str_join [c] (split_byte c s) = s"
proof (induction s)
  case (Cons x xs)
  obtain p ps where sp: "split_byte c xs = p # ps" by (meson neq_Nil_conv split_byte_not_Nil)
  with Cons show ?case by (cases ps) auto
qed simp

section \<open>Case and white space\<close>

definition byte :: "char \<Rightarrow> nat" where
  "byte c = of_char c"

definition is_upper :: "char \<Rightarrow> bool" where
  "is_upper c \<longleftrightarrow> 65 \<le> byte c \<and> byte c \<le> 90"

definition is_lower :: "char \<Rightarrow> bool" where
  "is_lower c \<longleftrightarrow> 97 \<le> byte c \<and> byte c \<le> 122"

definition is_digit :: "char \<Rightarrow> bool" where
  "is_digit c \<longleftrightarrow> 48 \<le> byte c \<and> byte c \<le> 57"

definition lower_byte :: "char \<Rightarrow> char" where
  "lower_byte c = (if is_upper c then char_of (byte c + 32) else c)"

definition upper_byte :: "char \<Rightarrow> char" where
  "upper_byte c = (if is_lower c then char_of (byte c - 32) else c)"

definition ascii_lower :: "string \<Rightarrow> string" where
  "ascii_lower s = map lower_byte s"

definition ascii_upper :: "string \<Rightarrow> string" where
  "ascii_upper s = map upper_byte s"

lemma byte_lt_256 [simp]: "byte c < 256"
  by (simp add: byte_def)

lemma byte_eq_iff: "byte c = byte d \<longleftrightarrow> c = d"
  by (simp add: byte_def)

lemma byte_char_of [simp]: "byte (char_of n) = n mod 256"
  by (simp add: byte_def)

lemma byte_lower: "byte (lower_byte c) = (if is_upper c then byte c + 32 else byte c)"
  by (auto simp: lower_byte_def is_upper_def)

lemma byte_upper: "byte (upper_byte c) = (if is_lower c then byte c - 32 else byte c)"
  using byte_lt_256 [of c] by (auto simp: upper_byte_def is_lower_def simp del: byte_lt_256)

lemma lower_idem [simp]: "lower_byte (lower_byte c) = lower_byte c"
  by (simp add: byte_eq_iff [symmetric] byte_lower is_upper_def)

lemma upper_idem [simp]: "upper_byte (upper_byte c) = upper_byte c"
  by (auto simp: byte_eq_iff [symmetric] byte_upper is_lower_def)

lemma lower_upper [simp]: "lower_byte (upper_byte c) = lower_byte c"
  by (auto simp: byte_eq_iff [symmetric] byte_lower byte_upper is_lower_def is_upper_def)

lemma upper_lower [simp]: "upper_byte (lower_byte c) = upper_byte c"
  by (auto simp: byte_eq_iff [symmetric] byte_lower byte_upper is_lower_def is_upper_def)

lemma ascii_lower_idem [simp]: "ascii_lower (ascii_lower s) = ascii_lower s"
  by (simp add: ascii_lower_def)

definition ascii_space :: "char \<Rightarrow> bool" where
  "ascii_space c \<longleftrightarrow> c = CHR '' '' \<or> c = CHR 9 \<or> c = CHR 10 \<or> c = CHR 13"

text \<open>\<open>textproto.TrimString\<close> removes leading and trailing ASCII white space.\<close>

definition trim_string :: "string \<Rightarrow> string" where
  "trim_string s = rev (dropWhile ascii_space (rev (dropWhile ascii_space s)))"

lemma trim_string_Nil [simp]: "trim_string [] = []"
  by (simp add: trim_string_def)

lemma dropWhile_hd: "s = [] \<or> \<not> P (hd s) \<Longrightarrow> dropWhile P s = s"
  by (cases s) auto

lemma trim_string_id:
  "s = [] \<or> (\<not> ascii_space (hd s) \<and> \<not> ascii_space (last s)) \<Longrightarrow> trim_string s = s"
  by (auto simp: trim_string_def dropWhile_hd hd_rev)

lemma trim_string_space:
  "ascii_space c \<Longrightarrow> trim_string (c # s) = trim_string s"
  by (simp add: trim_string_def)

lemma length_trim_string: "length (trim_string s) \<le> length s"
proof -
  have "length (trim_string s) \<le> length (dropWhile ascii_space s)"
    using length_dropWhile_le [of ascii_space "rev (dropWhile ascii_space s)"]
    by (simp add: trim_string_def)
  also have "\<dots> \<le> length s" by (rule length_dropWhile_le)
  finally show ?thesis .
qed

lemma set_trim_string: "set (trim_string s) \<subseteq> set s"
  by (auto simp: trim_string_def dest!: set_dropWhileD)


section \<open>Decimal numbers\<close>

definition digit_char :: "nat \<Rightarrow> char" where
  "digit_char n = char_of (48 + n)"

fun nat_str :: "nat \<Rightarrow> string" where
  "nat_str n = (if n < 10 then [digit_char n] else nat_str (n div 10) @ [digit_char (n mod 10)])"

declare nat_str.simps [simp del]

text \<open>\<open>strconv.Itoa\<close> (and \<open>FormatInt\<close>, \<open>FormatUint\<close> in base 10).\<close>

definition itoa :: "int \<Rightarrow> string" where
  "itoa n = (if n < 0 then CHR ''-'' # nat_str (nat (- n)) else nat_str (nat n))"

fun digits_val :: "nat \<Rightarrow> string \<Rightarrow> nat option" where
  "digits_val acc [] = Some acc"
| "digits_val acc (c # cs) =
     (if is_digit c then digits_val (10 * acc + (byte c - 48)) cs else None)"

text \<open>
  \<open>strconv.Atoi\<close>: an optional sign, at least one digit, and a value in the range of a
  64-bit \<open>int\<close>; anything else is an error.
\<close>

definition atoi :: "string \<Rightarrow> int option" where
  "atoi s =
     (let neg = (s \<noteq> [] \<and> hd s = CHR ''-'');
          body = (if s \<noteq> [] \<and> (hd s = CHR ''-'' \<or> hd s = CHR ''+'') then tl s else s)
      in if body = [] then None
         else case digits_val 0 body of
           None \<Rightarrow> None
         | Some n \<Rightarrow>
             (let v = (if neg then - int n else int n)
              in if - (2 ^ 63) \<le> v \<and> v < 2 ^ 63 then Some v else None))"

lemma byte_digit_char [simp]: "n < 10 \<Longrightarrow> byte (digit_char n) = 48 + n"
  by (simp add: digit_char_def)

lemma is_digit_digit_char [simp]: "n < 10 \<Longrightarrow> is_digit (digit_char n)"
  by (simp add: is_digit_def)

lemma nat_str_not_Nil [simp]: "nat_str n \<noteq> []"
  by (subst nat_str.simps) simp

lemma nat_str_digits: "c \<in> set (nat_str n) \<Longrightarrow> is_digit c"
proof (induction n rule: nat_str.induct)
  case (1 n)
  then show ?case by (subst (asm) nat_str.simps) (auto split: if_splits)
qed

lemma digits_val_append:
  "digits_val acc (xs @ ys) =
     (case digits_val acc xs of None \<Rightarrow> None | Some a \<Rightarrow> digits_val a ys)"
  by (induction xs arbitrary: acc) auto

lemma digits_val_nat_str: "digits_val 0 (nat_str n) = Some n"
proof (induction n rule: nat_str.induct)
  case (1 n)
  then show ?case by (subst nat_str.simps) (auto simp: digits_val_append)
qed

lemma nat_str_hd: "hd (nat_str n) \<noteq> CHR ''-'' \<and> hd (nat_str n) \<noteq> CHR ''+''"
proof -
  have "is_digit (hd (nat_str n))" by (rule nat_str_digits [of _ n]) simp
  then show ?thesis by (auto simp: is_digit_def byte_def)
qed

lemma nat_str_first_nonzero:
  "0 < n \<Longrightarrow> hd (nat_str n) \<noteq> CHR ''0''"
proof (induction n rule: nat_str.induct)
  case (1 n)
  show ?case
  proof (cases "n < 10")
    case True
    then have "byte (digit_char n) = 48 + n" by simp
    moreover have "byte (CHR ''0'') = 48" by (simp add: byte_def)
    ultimately have "digit_char n \<noteq> CHR ''0''" using 1 by (auto simp: byte_eq_iff [symmetric])
    with True show ?thesis by (subst nat_str.simps) auto
  next
    case False
    with 1 show ?thesis by (subst nat_str.simps) (simp add: hd_append)
  qed
qed

lemma atoi_itoa: "- (2 ^ 63) \<le> n \<Longrightarrow> n < 2 ^ 63 \<Longrightarrow> atoi (itoa n) = Some n"
  using nat_str_hd [of "nat n"]
  by (auto simp: atoi_def itoa_def digits_val_nat_str Let_def)

lemma itoa_chars: "c \<in> set (itoa n) \<Longrightarrow> c = CHR ''-'' \<or> is_digit c"
  by (auto simp: itoa_def nat_str_digits split: if_splits)

section \<open>Hexadecimal\<close>

definition hex_digit :: "nat \<Rightarrow> char" where
  "hex_digit n = (if n < 10 then char_of (48 + n) else char_of (87 + n))"

text \<open>\<open>hex.EncodeToString\<close>: two lower-case digits per byte.\<close>

definition hex_encode :: "string \<Rightarrow> string" where
  "hex_encode s = concat (map (\<lambda>c. [hex_digit (byte c div 16), hex_digit (byte c mod 16)]) s)"

lemma length_hex_encode [simp]: "length (hex_encode s) = 2 * length s"
  by (induction s) (auto simp: hex_encode_def)

section \<open>Canonical MIME header keys\<close>

text \<open>
  The bytes of an RFC 7230 token: letters, digits and fifteen punctuation characters.
  \<open>textproto.CanonicalMIMEHeaderKey\<close> returns a key with any other byte unchanged, and
  otherwise writes the first letter and every letter after a hyphen in upper case and the
  rest in lower case.
\<close>

definition header_field_byte :: "char \<Rightarrow> bool" where
  "header_field_byte c \<longleftrightarrow>
     is_upper c \<or> is_lower c \<or> is_digit c \<or> c \<in> set ''!#$%&*+-.^_|~'' \<or> c = CHR 39 \<or> c = CHR 96"

fun canon_from :: "bool \<Rightarrow> string \<Rightarrow> string" where
  "canon_from up [] = []"
| "canon_from up (c # cs) =
     (let d = (if up then upper_byte c else lower_byte c) in d # canon_from (d = CHR ''-'') cs)"

definition canonical_mime_key :: "string \<Rightarrow> string" where
  "canonical_mime_key s = (if list_all header_field_byte s then canon_from True s else s)"

lemma lower_dash [simp]: "lower_byte c = CHR ''-'' \<longleftrightarrow> c = CHR ''-''"
proof -
  have "byte (CHR ''-'') = 45" by (simp add: byte_def)
  then show ?thesis
    by (auto simp: byte_eq_iff [symmetric] byte_lower is_upper_def)
qed

lemma upper_dash [simp]: "upper_byte c = CHR ''-'' \<longleftrightarrow> c = CHR ''-''"
proof -
  have "byte (CHR ''-'') = 45" by (simp add: byte_def)
  then show ?thesis
    by (auto simp: byte_eq_iff [symmetric] byte_upper is_lower_def)
qed

lemma canon_from_idem [simp]: "canon_from up (canon_from up s) = canon_from up s"
  by (induction s arbitrary: up) (auto simp: Let_def)

lemma canon_from_lower: "canon_from up (ascii_lower s) = canon_from up s"
  by (induction s arbitrary: up) (auto simp: Let_def ascii_lower_def)

lemma header_field_byte_lower [simp]: "header_field_byte (lower_byte c) = header_field_byte c"
proof (cases "is_upper c")
  case True
  then have "is_lower (lower_byte c)" by (auto simp: is_lower_def is_upper_def byte_lower)
  with True show ?thesis by (simp add: header_field_byte_def)
qed (simp add: lower_byte_def)

lemma header_field_byte_upper [simp]: "header_field_byte (upper_byte c) = header_field_byte c"
proof (cases "is_lower c")
  case True
  then have "is_upper (upper_byte c)" by (auto simp: is_lower_def is_upper_def byte_upper)
  with True show ?thesis by (simp add: header_field_byte_def)
qed (simp add: upper_byte_def)

lemma list_all_canon_from [simp]:
  "list_all header_field_byte (canon_from up s) = list_all header_field_byte s"
  by (induction up s rule: canon_from.induct) (auto simp: Let_def)

lemma canonical_mime_key_idem [simp]:
  "canonical_mime_key (canonical_mime_key s) = canonical_mime_key s"
  by (simp add: canonical_mime_key_def)

lemma list_all_ascii_lower [simp]:
  "list_all header_field_byte (ascii_lower s) = list_all header_field_byte s"
  by (induction s) (auto simp: ascii_lower_def)

lemma canonical_mime_key_lower:
  "list_all header_field_byte s \<Longrightarrow> canonical_mime_key (ascii_lower s) = canonical_mime_key s"
  by (simp add: canonical_mime_key_def canon_from_lower)

end
