(* ===== verification/Errors.thy ===== *)
theory Errors
  imports GoStd
begin

text \<open>
  The error vocabulary of \<open>internal/abi/fastly/types.go\<close>: host status codes, the detailed
  send errors, \<open>FastlyError\<close> and the walk \<open>IsFastlyError\<close> over an error chain, and the
  error codes of the KV store and of ACLs.  A Go \<open>error\<close> value is a \<open>goerr option\<close>, nil
  being \<open>None\<close>.  A function that may panic returns \<open>None\<close> for the panic.
\<close>

section \<open>Host status codes\<close>

type_synonym FastlyStatus = u32

definition FastlyStatusOK :: FastlyStatus where [simp]: "FastlyStatusOK = 0"
definition FastlyStatusError :: FastlyStatus where [simp]: "FastlyStatusError = 1"
definition FastlyStatusInval :: FastlyStatus where [simp]: "FastlyStatusInval = 2"
definition FastlyStatusBadf :: FastlyStatus where [simp]: "FastlyStatusBadf = 3"
definition FastlyStatusBufLen :: FastlyStatus where [simp]: "FastlyStatusBufLen = 4"
definition FastlyStatusUnsupported :: FastlyStatus where [simp]: "FastlyStatusUnsupported = 5"
definition FastlyStatusBadAlign :: FastlyStatus where [simp]: "FastlyStatusBadAlign = 6"
definition FastlyStatusHTTPInvalid :: FastlyStatus where [simp]: "FastlyStatusHTTPInvalid = 7"
definition FastlyStatusHTTPUser :: FastlyStatus where [simp]: "FastlyStatusHTTPUser = 8"
definition FastlyStatusHTTPIncomplete :: FastlyStatus where [simp]: "FastlyStatusHTTPIncomplete = 9"
definition FastlyStatusNone :: FastlyStatus where [simp]: "FastlyStatusNone = 10"
definition FastlyStatusHTTPHeadTooLarge :: FastlyStatus where [simp]: "FastlyStatusHTTPHeadTooLarge = 11"
definition FastlyStatusHTTPInvalidStatus :: FastlyStatus where [simp]: "FastlyStatusHTTPInvalidStatus = 12"
definition FastlyStatusLimitExceeded :: FastlyStatus where [simp]: "FastlyStatusLimitExceeded = 13"
definition FastlyStatusAgain :: FastlyStatus where [simp]: "FastlyStatusAgain = 14"

definition fastlyStatusNames :: "(FastlyStatus \<times> string) list" where
  "fastlyStatusNames =
    [(FastlyStatusOK, ''OK''),
     (FastlyStatusError, ''Error''),
     (FastlyStatusInval, ''Inval''),
     (FastlyStatusBadf, ''Badf''),
     (FastlyStatusBufLen, ''BufLen''),
     (FastlyStatusUnsupported, ''Unsupported''),
     (FastlyStatusBadAlign, ''BadAlign''),
     (FastlyStatusHTTPInvalid, ''HTTPInvalid''),
     (FastlyStatusHTTPUser, ''HTTPUser''),
     (FastlyStatusHTTPIncomplete, ''HTTPIncomplete''),
     (FastlyStatusNone, ''None''),
     (FastlyStatusHTTPHeadTooLarge, ''HTTPHeadTooLarge''),
     (FastlyStatusHTTPInvalidStatus, ''HTTPInvalidStatus''),
     (FastlyStatusLimitExceeded, ''LimitExceeded''),
     (FastlyStatusAgain, ''Again'')]"

definition FastlyStatus_String :: "FastlyStatus \<Rightarrow> string" where
  "FastlyStatus_String s =
     (case map_of fastlyStatusNames s of
        Some t \<Rightarrow> t
      | None \<Rightarrow> ''FastlyStatus('' @ itoa (uint s) @ '')'')"

section \<open>Send error details\<close>

type_synonym SendErrorDetailTag = u32

definition SendErrorDetailTagUninitialized :: SendErrorDetailTag where
  [simp]: "SendErrorDetailTagUninitialized = 0"
definition SendErrorDetailTagOK :: SendErrorDetailTag where
  [simp]: "SendErrorDetailTagOK = 1"
definition SendErrorDetailTagDNSTimeout :: SendErrorDetailTag where
  [simp]: "SendErrorDetailTagDNSTimeout = 2"
definition SendErrorDetailTagDNSError :: SendErrorDetailTag where
  [simp]: "SendErrorDetailTagDNSError = 3"
definition SendErrorDetailTagDestinationNotFound :: SendErrorDetailTag where
  [simp]: "SendErrorDetailTagDestinationNotFound = 4"
definition SendErrorDetailTagDestinationUnavailable :: SendErrorDetailTag where
  [simp]: "SendErrorDetailTagDestinationUnavailable = 5"
definition SendErrorDetailTagDestinationIPUnroutable :: SendErrorDetailTag where
  [simp]: "SendErrorDetailTagDestinationIPUnroutable = 6"
definition SendErrorDetailTagConnectionRefused :: SendErrorDetailTag where
  [simp]: "SendErrorDetailTagConnectionRefused = 7"
definition SendErrorDetailTagConnectionTerminated :: SendErrorDetailTag where
  [simp]: "SendErrorDetailTagConnectionTerminated = 8"
definition SendErrorDetailTagConnectionTimeout :: SendErrorDetailTag where
  [simp]: "SendErrorDetailTagConnectionTimeout = 9"
definition SendErrorDetailTagConnectionLimitReached :: SendErrorDetailTag where
  [simp]: "SendErrorDetailTagConnectionLimitReached = 10"
definition SendErrorDetailTagTLSCertificateError :: SendErrorDetailTag where
  [simp]: "SendErrorDetailTagTLSCertificateError = 11"
definition SendErrorDetailTagTLSConfigurationError :: SendErrorDetailTag where
  [simp]: "SendErrorDetailTagTLSConfigurationError = 12"
definition SendErrorDetailTagHTTPIncompleteResponse :: SendErrorDetailTag where
  [simp]: "SendErrorDetailTagHTTPIncompleteResponse = 13"
definition SendErrorDetailTagHTTPResponseHeaderSectionTooLarge :: SendErrorDetailTag where
  [simp]: "SendErrorDetailTagHTTPResponseHeaderSectionTooLarge = 14"
definition SendErrorDetailTagHTTPResponseBodyTooLarge :: SendErrorDetailTag where
  [simp]: "SendErrorDetailTagHTTPResponseBodyTooLarge = 15"
definition SendErrorDetailTagHTTPResponseTimeout :: SendErrorDetailTag where
  [simp]: "SendErrorDetailTagHTTPResponseTimeout = 16"
definition SendErrorDetailTagHTTPResponseStatusInvalid :: SendErrorDetailTag where
  [simp]: "SendErrorDetailTagHTTPResponseStatusInvalid = 17"
definition SendErrorDetailTagHTTPUpgradeFailed :: SendErrorDetailTag where
  [simp]: "SendErrorDetailTagHTTPUpgradeFailed = 18"
definition SendErrorDetailTagHTTPProtocolError :: SendErrorDetailTag where
  [simp]: "SendErrorDetailTagHTTPProtocolError = 19"
definition SendErrorDetailTagHTTPRequestCacheKeyInvalid :: SendErrorDetailTag where
  [simp]: "SendErrorDetailTagHTTPRequestCacheKeyInvalid = 20"
definition SendErrorDetailTagHTTPRequestURIInvalid :: SendErrorDetailTag where
  [simp]: "SendErrorDetailTagHTTPRequestURIInvalid = 21"
definition SendErrorDetailTagInternalError :: SendErrorDetailTag where
  [simp]: "SendErrorDetailTagInternalError = 22"
definition SendErrorDetailTagTLSAlertReceived :: SendErrorDetailTag where
  [simp]: "SendErrorDetailTagTLSAlertReceived = 23"
definition SendErrorDetailTagTLSProtocolError :: SendErrorDetailTag where
  [simp]: "SendErrorDetailTagTLSProtocolError = 24"
definition SendErrorDetailTagH2Error :: SendErrorDetailTag where
  [simp]: "SendErrorDetailTagH2Error = 25"

definition sendErrorDetailMaskReserved :: u32 where [simp]: "sendErrorDetailMaskReserved = 1"
definition sendErrorDetailMaskDNSErrorRCode :: u32 where [simp]: "sendErrorDetailMaskDNSErrorRCode = 2"
definition sendErrorDetailMaskDNSErrorInfo :: u32 where [simp]: "sendErrorDetailMaskDNSErrorInfo = 4"
definition sendErrorDetailMaskTLSAlertID :: u32 where [simp]: "sendErrorDetailMaskTLSAlertID = 8"
definition sendErrorDetailMaskH2Error :: u32 where [simp]: "sendErrorDetailMaskH2Error = 16"

record SendErrorDetail =
  Tag :: SendErrorDetailTag
  sedMask :: u32
  dnsErrorRCode :: u16
  dnsErrorInfoCode :: u16
  tlsAlertID :: u8
  h2ErrorFrame :: u8
  h2ErrorCode :: u32

definition newSendErrorDetail :: SendErrorDetail where
  "newSendErrorDetail =
     \<lparr>Tag = 0,
      sedMask = sendErrorDetailMaskDNSErrorRCode OR sendErrorDetailMaskDNSErrorInfo
                  OR sendErrorDetailMaskTLSAlertID,
      dnsErrorRCode = 0, dnsErrorInfoCode = 0, tlsAlertID = 0, h2ErrorFrame = 0, h2ErrorCode = 0\<rparr>"

definition sed_Cause :: "SendErrorDetail \<Rightarrow> SendErrorDetailTag" where
  "sed_Cause d = Tag d"

definition sed_valid :: "SendErrorDetail \<Rightarrow> bool" where
  "sed_valid d =
     (if Tag d = SendErrorDetailTagUninitialized then False
      else if Tag d = SendErrorDetailTagOK then False
      else True)"

definition tlsAlertTable :: "(u8 \<times> string) list" where
  "tlsAlertTable =
    [(0, ''close notify''),
     (10, ''unexpected message''),
     (20, ''bad record MAC''),
     (21, ''decryption failed''),
     (22, ''record overflow''),
     (30, ''decompression failure''),
     (40, ''handshake failure''),
     (41, ''no certificate''),
     (42, ''bad certificate''),
     (43, ''unsupported certificate''),
     (44, ''certificate revoked''),
     (45, ''certificate expired''),
     (46, ''certificate unknown''),
     (47, ''illegal parameter''),
     (48, ''unknown certificate authority''),
     (49, ''access denied''),
     (50, ''error decoding message''),
     (51, ''error decrypting message''),
     (60, ''export restriction''),
     (70, ''protocol version not supported''),
     (71, ''insufficient security level''),
     (80, ''internal error''),
     (86, ''inappropriate fallback''),
     (90, ''user canceled''),
     (100, ''no renegotiation''),
     (109, ''missing extension''),
     (110, ''unsupported extension''),
     (111, ''certificate unobtainable''),
     (112, ''unrecognized name''),
     (113, ''bad certificate status response''),
     (114, ''bad certificate hash value''),
     (115, ''unknown PSK identity''),
     (116, ''certificate required''),
     (120, ''no application protocol'')]"

definition tlsAlertString :: "u8 \<Rightarrow> string" where
  "tlsAlertString i = (case map_of tlsAlertTable i of Some t \<Rightarrow> t | None \<Rightarrow> itoa (uint i))"

definition sed_TLSAlertDescription :: "SendErrorDetail \<Rightarrow> string" where
  "sed_TLSAlertDescription d = tlsAlertString (tlsAlertID d)"

definition sendErrorTexts :: "(SendErrorDetailTag \<times> string) list" where
  "sendErrorTexts =
    [(SendErrorDetailTagDNSTimeout, ''DNS timeout''),
     (SendErrorDetailTagDestinationNotFound, ''destination not found''),
     (SendErrorDetailTagDestinationUnavailable, ''destination unavailable''),
     (SendErrorDetailTagDestinationIPUnroutable, ''destination IP unroutable''),
     (SendErrorDetailTagConnectionRefused, ''connection refused''),
     (SendErrorDetailTagConnectionTerminated, ''connection terminated''),
     (SendErrorDetailTagConnectionTimeout, ''connection timeout''),
     (SendErrorDetailTagConnectionLimitReached, ''connection limit reached''),
     (SendErrorDetailTagTLSCertificateError, ''TLS certificate error''),
     (SendErrorDetailTagTLSConfigurationError, ''TLS configuration error''),
     (SendErrorDetailTagHTTPIncompleteResponse, ''incomplete HTTP response''),
     (SendErrorDetailTagHTTPResponseHeaderSectionTooLarge, ''HTTP response header section too large''),
     (SendErrorDetailTagHTTPResponseBodyTooLarge, ''HTTP response body too large''),
     (SendErrorDetailTagHTTPResponseTimeout, ''HTTP response timeout''),
     (SendErrorDetailTagHTTPResponseStatusInvalid, ''HTTP response status invalid''),
     (SendErrorDetailTagHTTPUpgradeFailed, ''HTTP upgrade failed''),
     (SendErrorDetailTagHTTPProtocolError, ''HTTP protocol error''),
     (SendErrorDetailTagHTTPRequestCacheKeyInvalid, ''HTTP request cache key invalid''),
     (SendErrorDetailTagHTTPRequestURIInvalid, ''HTTP request URI invalid''),
     (SendErrorDetailTagInternalError, ''internal error''),
     (SendErrorDetailTagTLSProtocolError, ''TLS protocol error''),
     (SendErrorDetailTagH2Error, ''HTTP/2 error'')]"

text \<open>
  \<open>SendErrorDetail.String\<close> panics on the two tags that are not errors: \<open>None\<close> here.
\<close>

definition sed_String :: "SendErrorDetail \<Rightarrow> string option" where
  "sed_String d =
     (if Tag d = SendErrorDetailTagDNSError then
        Some (''DNS error (rcode='' @ itoa (uint (dnsErrorRCode d)) @ '', info_code=''
              @ itoa (uint (dnsErrorInfoCode d)) @ '')'')
      else if Tag d = SendErrorDetailTagTLSAlertReceived then
        Some (''TLS alert received ('' @ tlsAlertString (tlsAlertID d) @ '')'')
      else if Tag d = SendErrorDetailTagUninitialized then None
      else if Tag d = SendErrorDetailTagOK then None
      else case map_of sendErrorTexts (Tag d) of
        Some t \<Rightarrow> Some t
      | None \<Rightarrow> Some (''unknown error ('' @ itoa (uint (Tag d)) @ '')''))"

definition sed_Error :: "SendErrorDetail \<Rightarrow> string option" where
  "sed_Error d = map_option (\<lambda>s. ''send error: '' @ s) (sed_String d)"

section \<open>Error values\<close>

text \<open>
  \<open>Sentinel pkg text\<close> is a package-level \<open>errors.New\<close> variable; \<open>Text\<close> an error made on the
  spot; \<open>Wrap pre e post\<close> is \<open>fmt.Errorf("pre%wpost", e)\<close>; \<open>Joined\<close> is \<open>errors.Join\<close>.
  \<open>FastlyError\<close> carries its status and its \<open>Detail\<close>, which the SDK only ever sets to a
  \<open>SendErrorDetail\<close> (or leaves nil).
\<close>

datatype goerr =
    Sentinel string string
  | Text string
  | Wrap string goerr string
  | FastlyError FastlyStatus "SendErrorDetail option"
  | SendDetailErr SendErrorDetail
  | KVErr u32
  | ACLErr u32
  | ValidationErr string string
  | Joined "goerr list"

definition annotate :: "string \<Rightarrow> goerr \<Rightarrow> goerr" where
  "annotate t e = Wrap (t @ '': '') e []"

definition toError :: "FastlyStatus \<Rightarrow> goerr option" where
  "toError s = (if s = FastlyStatusOK then None else Some (FastlyError s None))"

definition toSendError :: "FastlyStatus \<Rightarrow> SendErrorDetail \<Rightarrow> goerr option" where
  "toSendError s d =
     (if s = FastlyStatusOK then None
      else if \<not> sed_valid d then Some (FastlyError s None)
      else Some (FastlyError s (Some d)))"

text \<open>\<open>IsFastlyError\<close> on a nil error is \<open>(0, false)\<close>; otherwise it walks the \<open>Unwrap\<close> chain.\<close>

fun is_fastly :: "goerr \<Rightarrow> FastlyStatus option" where
  "is_fastly (FastlyError s d) = Some s"
| "is_fastly (Wrap pre e post) = is_fastly e"
| "is_fastly _ = None"

definition IsFastlyError :: "goerr option \<Rightarrow> FastlyStatus \<times> bool" where
  "IsFastlyError err =
     (case err of
        None \<Rightarrow> (0, False)
      | Some e \<Rightarrow> (case is_fastly e of None \<Rightarrow> (0, False) | Some s \<Rightarrow> (s, True)))"

definition ignoreNoneError :: "goerr option \<Rightarrow> goerr option" where
  "ignoreNoneError err =
     (case IsFastlyError err of (status, ok) \<Rightarrow>
        if ok \<and> status = FastlyStatusNone then None else err)"

definition ignoreUnsupportedError :: "goerr option \<Rightarrow> goerr option" where
  "ignoreUnsupportedError err =
     (case IsFastlyError err of (status, ok) \<Rightarrow>
        if ok \<and> status = FastlyStatusUnsupported then None else err)"

definition FastlyError_Unwrap :: "SendErrorDetail option \<Rightarrow> goerr option" where
  "FastlyError_Unwrap detail = map_option SendDetailErr detail"

text \<open>\<open>FastlyError.Error\<close>: the detail's text when there is one, else the status name.\<close>

definition FastlyError_Error :: "FastlyStatus \<Rightarrow> SendErrorDetail option \<Rightarrow> string option" where
  "FastlyError_Error s detail =
     (case detail of
        Some d \<Rightarrow>
          (case sed_Error d of
             None \<Rightarrow> None
           | Some t \<Rightarrow> Some (if t \<noteq> [] then ''Fastly error: '' @ t
                            else ''Fastly error: '' @ FastlyStatus_String s))
      | None \<Rightarrow> Some (''Fastly error: '' @ FastlyStatus_String s))"

text \<open>
  \<open>errors.As(err, &se)\<close> for a \<open>SendError\<close>: the first send detail on the \<open>Unwrap\<close> chain
  (a joined error is searched in order).
\<close>

fun as_send_error :: "goerr \<Rightarrow> SendErrorDetail option" where
  "as_send_error (SendDetailErr d) = Some d"
| "as_send_error (FastlyError s d) = d"
| "as_send_error (Wrap pre e post) = as_send_error e"
| "as_send_error (Joined es) =
     foldr (\<lambda>e r. case as_send_error e of Some d \<Rightarrow> Some d | None \<Rightarrow> r) es None"
| "as_send_error _ = None"

definition maybeWrap :: "goerr option \<Rightarrow> string \<Rightarrow> goerr option" where
  "maybeWrap err annotation =
     (case err of None \<Rightarrow> None | Some e \<Rightarrow> Some (Wrap (annotation @ '': '') e []))"

section \<open>KV store and ACL error codes\<close>

definition KVErrorUninitialized :: u32 where [simp]: "KVErrorUninitialized = 0"
definition KVErrorOK :: u32 where [simp]: "KVErrorOK = 1"
definition KVErrorBadRequest :: u32 where [simp]: "KVErrorBadRequest = 2"
definition KVErrorNotFound :: u32 where [simp]: "KVErrorNotFound = 3"
definition KVErrorPreconditionFailed :: u32 where [simp]: "KVErrorPreconditionFailed = 4"
definition KVErrorPayloadTooLarge :: u32 where [simp]: "KVErrorPayloadTooLarge = 5"
definition KVErrorInternalError :: u32 where [simp]: "KVErrorInternalError = 6"
definition KVErrorTooManyRequests :: u32 where [simp]: "KVErrorTooManyRequests = 7"

definition KVError_Error :: "u32 \<Rightarrow> string" where
  "KVError_Error e =
     (case map_of
        [(KVErrorUninitialized, ''uninitialized''), (KVErrorOK, ''OK''),
         (KVErrorBadRequest, ''bad request''), (KVErrorNotFound, ''not found''),
         (KVErrorPreconditionFailed, ''precondition failed''),
         (KVErrorPayloadTooLarge, ''payload too large''),
         (KVErrorInternalError, ''internal error''),
         (KVErrorTooManyRequests, ''too many requests'')] e of
        Some t \<Rightarrow> t | None \<Rightarrow> ''unknown'')"

definition ACLErrorUninitialized :: u32 where [simp]: "ACLErrorUninitialized = 0"
definition ACLErrorOK :: u32 where [simp]: "ACLErrorOK = 1"
definition ACLErrorNoContent :: u32 where [simp]: "ACLErrorNoContent = 2"
definition ACLErrorTooManyRequests :: u32 where [simp]: "ACLErrorTooManyRequests = 3"

definition ACLError_Error :: "u32 \<Rightarrow> string" where
  "ACLError_Error e =
     (case map_of
        [(ACLErrorUninitialized, ''uninitialized''), (ACLErrorOK, ''ok''),
         (ACLErrorNoContent, ''no content''),
         (ACLErrorTooManyRequests, ''too many requests'')] e of
        Some t \<Rightarrow> t | None \<Rightarrow> ''unknown'')"

section \<open>Facts shared by the components\<close>

lemma toError_simps [simp]:
  "toError 0 = None"
  "toError s = None \<longleftrightarrow> s = 0"
  by (auto simp: toError_def)

lemma IsFastlyError_None [simp]: "IsFastlyError None = (0, False)"
  by (simp add: IsFastlyError_def)

lemma IsFastlyError_Some:
  "IsFastlyError (Some e) = (case is_fastly e of None \<Rightarrow> (0, False) | Some s \<Rightarrow> (s, True))"
  by (simp add: IsFastlyError_def)

lemma ignoreNoneError_None [simp]: "ignoreNoneError None = None"
  by (simp add: ignoreNoneError_def)

lemma ignoreNoneError_iff:
  "ignoreNoneError (Some e) = (if is_fastly e = Some FastlyStatusNone then None else Some e)"
  by (auto simp: ignoreNoneError_def IsFastlyError_def split: option.splits)

lemma sed_String_valid: "sed_valid d \<Longrightarrow> sed_String d \<noteq> None"
  by (auto simp: sed_valid_def sed_String_def split: if_splits option.splits)

text \<open>
  C35: no error that a send hostcall can produce panics when it is printed, and \<open>errors.As\<close>
  recovers from it exactly the detail the host reported, whatever annotations the SDK
  wraps around it: a valid detail is found, an invalid one is never attached.
\<close>

theorem send_error_printable_and_recoverable:
  assumes "toSendError s d = Some e"
  shows "s \<noteq> FastlyStatusOK
    \<and> (\<exists>det. e = FastlyError s det \<and> FastlyError_Error s det \<noteq> None)
    \<and> as_send_error (Wrap pre e post) = (if sed_valid d then Some d else None)
    \<and> IsFastlyError (Some (Wrap pre e post)) = (s, True)"
proof -
  have "sed_valid d \<Longrightarrow> FastlyError_Error s (Some d) \<noteq> None"
    using sed_String_valid [of d]
    by (auto simp: FastlyError_Error_def sed_Error_def split: option.splits)
  moreover have "FastlyError_Error s None \<noteq> None"
    by (simp add: FastlyError_Error_def)
  ultimately show ?thesis using assms
    by (cases "sed_valid d") (auto simp: toSendError_def IsFastlyError_def split: if_splits)
qed

theorem send_error_printable_and_recoverable_witness:
  "toSendError 1 (newSendErrorDetail\<lparr>Tag := 9\<rparr>) = Some (FastlyError 1 (Some (newSendErrorDetail\<lparr>Tag := 9\<rparr>)))
   \<and> as_send_error (Wrap ''poll: '' (FastlyError 1 (Some (newSendErrorDetail\<lparr>Tag := 9\<rparr>))) []) = Some (newSendErrorDetail\<lparr>Tag := 9\<rparr>)"
proof -
  have h: "toSendError 1 (newSendErrorDetail\<lparr>Tag := 9\<rparr>)
      = Some (FastlyError 1 (Some (newSendErrorDetail\<lparr>Tag := 9\<rparr>)))"
    by (simp add: toSendError_def sed_valid_def newSendErrorDetail_def)
  then show ?thesis
    using send_error_printable_and_recoverable [OF h, of "''poll: ''" "[]"] by simp
qed

end
