(* ===== verification/HostBuffers.thy ===== *)
theory HostBuffers
  imports Errors
begin

text \<open>
  How values cross the host boundary: the write buffer of \<open>prim/prim.go\<close>, the retry loop
  \<open>withAdaptiveBuffer\<close> of \<open>adaptivebuf.go\<close>, and the iterator \<open>Values\<close> of \<open>types.go\<close> over
  hostcalls that return several NUL-terminated values.  The hostcall itself is a parameter;
  what the loops rely on is stated as \<open>value_host\<close> and \<open>multi_value_host\<close>.  The iterator
  provides the interface \<open>value_source\<close>, on which every loop that reads headers or
  trailers is built.
\<close>

section \<open>Write buffers\<close>

text \<open>
  A buffer is its backing array (whose length is the capacity) and the count the host
  writes.  \<open>AsBytes\<close> slices \<open>buf[:n:n]\<close>, which panics beyond the capacity.
\<close>

record WriteBuffer =
  wb_buf :: string
  wb_n :: u32

definition zero_bytes :: "nat \<Rightarrow> string" where
  "zero_bytes n = replicate n (CHR 0x00)"

definition NewWriteBuffer :: "nat \<Rightarrow> WriteBuffer" where
  "NewWriteBuffer cap = \<lparr>wb_buf = zero_bytes cap, wb_n = 0\<rparr>"

definition NewWriteBufferFromBytes :: "string \<Rightarrow> WriteBuffer" where
  "NewWriteBufferFromBytes buf = \<lparr>wb_buf = buf, wb_n = 0\<rparr>"

definition wb_Cap :: "WriteBuffer \<Rightarrow> u32" where
  "wb_Cap b = of_nat (length (wb_buf b))"

definition wb_NValue :: "WriteBuffer \<Rightarrow> u32" where
  "wb_NValue b = wb_n b"

definition wb_AsBytes :: "WriteBuffer \<Rightarrow> string outcome" where
  "wb_AsBytes b =
     (if unat (wb_n b) \<le> length (wb_buf b) then Done (take (unat (wb_n b)) (wb_buf b)) else Panic)"

definition wb_ToString :: "WriteBuffer \<Rightarrow> string outcome" where
  "wb_ToString b = wb_AsBytes b"

text \<open>
  What the host does to a buffer during a call: it stores bytes from the start of the
  array and sets the count.
\<close>

record buf_reply =
  br_status :: FastlyStatus
  br_written :: string
  br_nwritten :: u32

definition host_fill :: "string \<Rightarrow> u32 \<Rightarrow> WriteBuffer \<Rightarrow> WriteBuffer" where
  "host_fill bytes n b =
     b\<lparr>wb_buf := take (length (wb_buf b)) (bytes @ drop (length bytes) (wb_buf b)), wb_n := n\<rparr>"

section \<open>The adaptive buffer loop\<close>

definition DefaultSmallBufLen :: nat where "DefaultSmallBufLen = 128"
definition DefaultMediumBufLen :: nat where "DefaultMediumBufLen = 1024"
definition DefaultLargeBufLen :: nat where "DefaultLargeBufLen = 8192"

partial_function (option) withAdaptiveBuffer ::
  "nat \<Rightarrow> (u32 \<Rightarrow> ('w, buf_reply) prog) \<Rightarrow> 'w \<Rightarrow> ((goerr + WriteBuffer) \<times> 'w) option" where
  "withAdaptiveBuffer n f w =
     (let buf = NewWriteBuffer n in
      case f (wb_Cap buf) w of (r, w') \<Rightarrow>
        let buf' = host_fill (br_written r) (br_nwritten r) buf in
        if br_status r = FastlyStatusBufLen \<and> 0 < wb_NValue buf' then
          withAdaptiveBuffer (unat (wb_NValue buf')) f w'
        else case toError (br_status r) of
          Some e \<Rightarrow> Some (Inl e, w')
        | None \<Rightarrow> Some (Inr buf', w'))"

text \<open>
  A host that holds the value \<open>v\<close>: it delivers all of \<open>v\<close> into any buffer that is large
  enough, and otherwise answers \<open>BufLen\<close> with a sufficient size.
\<close>

definition value_host :: "(u32 \<Rightarrow> ('w, buf_reply) prog) \<Rightarrow> string \<Rightarrow> bool" where
  "value_host f v \<longleftrightarrow>
     (\<forall>cap w. let r = fst (f cap w) in
        if length v \<le> unat cap
        then br_status r = FastlyStatusOK \<and> br_written r = v \<and> unat (br_nwritten r) = length v
        else br_status r = FastlyStatusBufLen \<and> length v \<le> unat (br_nwritten r))"

lemma host_fill_AsBytes:
  "length v \<le> length (wb_buf b) \<Longrightarrow> unat n = length v \<Longrightarrow>
   wb_AsBytes (host_fill v n b) = Done v"
  by (simp add: host_fill_def wb_AsBytes_def)

lemma value_hostD_fits:
  "value_host f v \<Longrightarrow> length v \<le> unat cap \<Longrightarrow> f cap w = (r, w') \<Longrightarrow>
   br_status r = 0 \<and> br_written r = v \<and> unat (br_nwritten r) = length v"
  by (auto simp: value_host_def Let_def split: if_splits dest!: spec [of _ cap] spec [of _ w])

lemma value_hostD_small:
  "value_host f v \<Longrightarrow> unat cap < length v \<Longrightarrow> f cap w = (r, w') \<Longrightarrow>
   br_status r = 4 \<and> length v \<le> unat (br_nwritten r)"
  by (auto simp: value_host_def Let_def split: if_splits dest!: spec [of _ cap] spec [of _ w])

lemma unat_wb_Cap_New [simp]: "n < 2 ^ 32 \<Longrightarrow> unat (wb_Cap (NewWriteBuffer n)) = n"
  by (simp add: wb_Cap_def NewWriteBuffer_def zero_bytes_def unat_of_nat)

lemma withAdaptiveBuffer_fits:
  assumes "value_host f v" "length v \<le> n" "n < 2 ^ 32"
  shows "\<exists>b. withAdaptiveBuffer n f w = Some (Inr b, snd (f (of_nat n) w)) \<and> wb_AsBytes b = Done v"
proof -
  have cap: "wb_Cap (NewWriteBuffer n) = of_nat n"
    by (simp add: wb_Cap_def NewWriteBuffer_def zero_bytes_def)
  have u: "unat (of_nat n :: u32) = n" using assms(3) by (simp add: unat_of_nat)
  obtain r w' where f: "f (of_nat n) w = (r, w')" by force
  with assms u have r: "br_status r = 0" "br_written r = v" "unat (br_nwritten r) = length v"
    using value_hostD_fits [of f v "of_nat n" w r w'] by auto
  have "wb_AsBytes (host_fill v (br_nwritten r) (NewWriteBuffer n)) = Done v"
    by (rule host_fill_AsBytes) (use assms r in \<open>auto simp: NewWriteBuffer_def zero_bytes_def\<close>)
  with f r cap show ?thesis
    by (subst withAdaptiveBuffer.simps) (simp add: Let_def)
qed

lemma withAdaptiveBuffer_buffer:
  assumes "value_host f v" and "n < 2 ^ 32"
  shows "\<exists>b w'. withAdaptiveBuffer n f w = Some (Inr b, w') \<and> wb_ToString b = Done v
    \<and> (case f (of_nat n) w of (r, w1) \<Rightarrow> w' = w1 \<or> w' = snd (f (br_nwritten r) w1))"
proof (cases "length v \<le> n")
  case True
  from withAdaptiveBuffer_fits [OF assms(1) this assms(2), of w] show ?thesis
    by (cases "f (of_nat n) w") (auto simp: wb_ToString_def)
next
  case False
  have cap: "wb_Cap (NewWriteBuffer n) = of_nat n"
    by (simp add: wb_Cap_def NewWriteBuffer_def zero_bytes_def)
  have u: "unat (of_nat n :: u32) = n" using assms(2) by (simp add: unat_of_nat)
  obtain r w1 where f: "f (of_nat n) w = (r, w1)" by force
  with False assms u have r: "br_status r = 4" "length v \<le> unat (br_nwritten r)"
    using value_hostD_small [of f v "of_nat n" w r w1] by auto
  then have pos: "0 < br_nwritten r"
    using False by (auto simp: word_gt_0)
  have "unat (br_nwritten r) < 2 ^ 32" by simp
  then obtain b where "withAdaptiveBuffer (unat (br_nwritten r)) f w1
      = Some (Inr b, snd (f (of_nat (unat (br_nwritten r))) w1)) \<and> wb_AsBytes b = Done v"
    using withAdaptiveBuffer_fits [OF assms(1) r(2)] by blast
  with f r pos cap show ?thesis
    by (subst withAdaptiveBuffer.simps)
      (auto simp: Let_def wb_NValue_def host_fill_def wb_ToString_def)
qed

lemma host_fill_length [simp]: "length (wb_buf (host_fill bytes n b)) = length (wb_buf b)"
  by (simp add: host_fill_def)

lemma withAdaptiveBuffer_status:
  assumes "br_status (fst (f (of_nat n) w)) = s" "s \<noteq> FastlyStatusOK" "s \<noteq> FastlyStatusBufLen"
  shows "\<exists>w'. withAdaptiveBuffer n f w = Some (Inl (FastlyError s None), w')"
proof -
  have cap: "wb_Cap (NewWriteBuffer n) = of_nat n"
    by (simp add: wb_Cap_def NewWriteBuffer_def zero_bytes_def)
  obtain r w' where "f (of_nat n) w = (r, w')" by force
  with assms cap show ?thesis
    by (subst withAdaptiveBuffer.simps) (simp add: Let_def toError_def)
qed

text \<open>
  C33: the adaptive buffer loop returns after at most two hostcalls with the complete value,
  for every initial size, when the host reports a sufficient size on \<open>BufLen\<close>.
\<close>

theorem withAdaptiveBuffer_complete:
  assumes "value_host f v" and "n < 2 ^ 32"
  shows "\<exists>b w'. withAdaptiveBuffer n f w = Some (Inr b, w') \<and> wb_ToString b = Done v
    \<and> (case f (of_nat n) w of (r, w1) \<Rightarrow> w' = w1 \<or> w' = snd (f (br_nwritten r) w1))"
  using assms by (rule withAdaptiveBuffer_buffer)

text \<open>A host that holds one value and answers exactly as documented.\<close>

definition one_value_host :: "string \<Rightarrow> u32 \<Rightarrow> ('w, buf_reply) prog" where
  "one_value_host v cap = (\<lambda>w.
     (if length v \<le> unat cap
      then \<lparr>br_status = FastlyStatusOK, br_written = v, br_nwritten = of_nat (length v)\<rparr>
      else \<lparr>br_status = FastlyStatusBufLen, br_written = [], br_nwritten = of_nat (length v)\<rparr>, w))"

lemma value_host_one_value_host: "length v < 2 ^ 32 \<Longrightarrow> value_host (one_value_host v) v"
  by (auto simp: value_host_def one_value_host_def unat_of_nat Let_def)

theorem withAdaptiveBuffer_complete_witness:
  "\<exists>b w'. withAdaptiveBuffer 3 (one_value_host ''GET /index'') () = Some (Inr b, w')
     \<and> wb_ToString b = Done ''GET /index''"
  using withAdaptiveBuffer_complete [of "one_value_host ''GET /index''" "''GET /index''" 3 "()"]
    value_host_one_value_host [of "''GET /index''"] by auto

end
