(* ===== verification/MultiValues.thy ===== *)
theory MultiValues
  imports HostBuffers
begin

text \<open>
  The iterator \<open>Values\<close> of \<open>internal/abi/fastly/types.go\<close>: a hostcall fills a buffer with
  NUL-terminated values and says where to continue; \<open>Next\<close> hands the values out one at a
  time.  The interface \<open>value_source\<close> states what a caller of \<open>Next\<close>/\<open>Bytes\<close>/\<open>Err\<close> may
  rely on, its loops are proved against it once, and the iterator is an instance for every
  host that keeps the documented contract \<open>multi_value_host\<close>.
\<close>

section \<open>The iterator\<close>

record mv_reply = buf_reply +
  mr_ending :: u64

type_synonym 'w multiValueHostcall = "u32 \<Rightarrow> u32 \<Rightarrow> ('w, mv_reply) prog"

definition isFinished :: "u64 \<Rightarrow> bool" where
  "isFinished r \<longleftrightarrow> sint r < 0"

definition toCursor :: "u64 \<Rightarrow> u32" where
  "toCursor r = ucast r"

record Values =
  v_buffer :: string
  v_cursor :: u32
  v_pending :: string
  v_value :: string
  v_finished :: bool
  v_err :: "goerr option"

definition newValues :: "nat \<Rightarrow> Values" where
  "newValues cap =
     \<lparr>v_buffer = zero_bytes cap, v_cursor = 0, v_pending = [], v_value = [],
      v_finished = False, v_err = None\<rparr>"

partial_function (option) nextValue ::
  "'w multiValueHostcall \<Rightarrow> Values \<Rightarrow> 'w \<Rightarrow> (Values outcome \<times> 'w) option" where
  "nextValue f v w =
     (let buf = NewWriteBufferFromBytes (v_buffer v) in
      case f (wb_Cap buf) (v_cursor v) w of (r, w') \<Rightarrow>
        let buf' = host_fill (br_written r) (br_nwritten r) buf;
            v1 = v\<lparr>v_buffer := wb_buf buf'\<rparr> in
        if br_status r = FastlyStatusBufLen \<and> 0 < wb_NValue buf' then
          nextValue f (v\<lparr>v_buffer := zero_bytes (unat (wb_NValue buf'))\<rparr>) w'
        else case toError (br_status r) of
          Some e \<Rightarrow> Some (Done (v1\<lparr>v_err := Some e\<rparr>), w')
        | None \<Rightarrow>
            (case wb_AsBytes buf' of
               Panic \<Rightarrow> Some (Panic, w')
             | Done bytes \<Rightarrow>
                 Some (Done (v1\<lparr>v_err := None, v_cursor := toCursor (mr_ending r),
                                v_finished := isFinished (mr_ending r),
                                v_pending := bytes\<rparr>), w')))"

text \<open>The second half of \<open>Next\<close>: find the first terminator and slide the windows.\<close>

definition advance :: "Values \<Rightarrow> bool \<times> Values" where
  "advance v =
     (case cut_byte (CHR 0x00) (v_pending v) of (val, rest, term) \<Rightarrow>
        let v' = v\<lparr>v_value := val, v_pending := rest\<rparr> in
        if \<not> term \<and> \<not> v_finished v
        then (term, v'\<lparr>v_err := Some (Text ''missing terminator'')\<rparr>)
        else (term, v'))"

definition Values_Next :: "'w multiValueHostcall \<Rightarrow> Values \<Rightarrow> ('w, bool \<times> Values) comp" where
  "Values_Next f v =
     (if v_err v \<noteq> None then finish (False, v)
      else if v_pending v = [] then
        if v_finished v then finish (False, v)
        else and_then (nextValue f v)
               (\<lambda>v'. if v_err v' \<noteq> None then finish (False, v') else finish (advance v'))
      else finish (advance v))"

definition Values_Err :: "Values \<Rightarrow> goerr option" where
  "Values_Err v = v_err v"

definition Values_Bytes :: "Values \<Rightarrow> string" where
  "Values_Bytes v = v_value v"

section \<open>The interface: a source of values\<close>

text \<open>
  The loop \<open>for it.Next() \{ body(it.Bytes()) \}\<close> of the callers.  The body updates an
  accumulator, may talk to the host and may return early with an error.
\<close>

partial_function (option) for_each ::
  "('i \<Rightarrow> ('w, bool \<times> 'i) comp) \<Rightarrow> ('i \<Rightarrow> 's) \<Rightarrow>
   ('s \<Rightarrow> 'a \<Rightarrow> ('w, goerr + 'a) comp) \<Rightarrow> 'i \<Rightarrow> 'a \<Rightarrow> 'w \<Rightarrow>
   ((goerr + 'i \<times> 'a) outcome \<times> 'w) option" where
  "for_each next bytes body it acc w =
     (case next it w of
        None \<Rightarrow> None
      | Some (Panic, w1) \<Rightarrow> Some (Panic, w1)
      | Some (Done (got, it'), w1) \<Rightarrow>
          if \<not> got then Some (Done (Inr (it', acc)), w1)
          else (case body (bytes it') acc w1 of
                  None \<Rightarrow> None
                | Some (Panic, w2) \<Rightarrow> Some (Panic, w2)
                | Some (Done (Inl e), w2) \<Rightarrow> Some (Done (Inl e), w2)
                | Some (Done (Inr acc'), w2) \<Rightarrow> for_each next bytes body it' acc' w2))"

locale value_source =
  fixes next_item :: "'i \<Rightarrow> ('w, bool \<times> 'i) comp"
    and item_bytes :: "'i \<Rightarrow> 's"
    and item_err :: "'i \<Rightarrow> goerr option"
    and rep :: "'i \<Rightarrow> 's list \<Rightarrow> bool"
  assumes next_more: "rep it (x # xs) \<Longrightarrow>
      \<exists>it' w'. next_item it w = Some (Done (True, it'), w') \<and> item_bytes it' = x \<and> rep it' xs"
    and next_done: "rep it [] \<Longrightarrow>
      \<exists>it' w'. next_item it w = Some (Done (False, it'), w') \<and> item_err it' = None \<and> rep it' []"
begin

text \<open>A loop whose body always succeeds visits every value once, in order, and ends without error.\<close>

lemma for_each_drains:
  assumes body: "\<And>x a w. x \<in> set xs \<Longrightarrow> \<exists>w'. body x a w = Some (Done (Inr (g x a)), w')"
    and "rep it xs"
  shows "\<exists>it' w'. for_each next_item item_bytes body it acc w = Some (Done (Inr (it', fold g xs acc)), w')
    \<and> item_err it' = None \<and> rep it' []"
  using assms
proof (induction xs arbitrary: it acc w)
  case Nil
  then obtain it' w' where "next_item it w = Some (Done (False, it'), w')"
    "item_err it' = None" "rep it' []"
    using next_done by blast
  then show ?case by (subst for_each.simps) simp
next
  case (Cons x xs)
  obtain it1 w1 where n: "next_item it w = Some (Done (True, it1), w1)"
    "item_bytes it1 = x" "rep it1 xs"
    using next_more [OF Cons.prems(2)] by blast
  obtain w2 where b: "body x acc w1 = Some (Done (Inr (g x acc)), w2)"
    using Cons.prems(1) by force
  have "\<exists>it' w'. for_each next_item item_bytes body it1 (g x acc) w2
      = Some (Done (Inr (it', fold g xs (g x acc))), w') \<and> item_err it' = None \<and> rep it' []"
    using Cons.prems(1) n(3) by (intro Cons.IH) auto
  with n b show ?case by (subst for_each.simps) simp
qed

text \<open>
  An early error of the body on a value is the result of the loop, after the values before
  it were processed.
\<close>

lemma for_each_stops:
  assumes ok: "\<And>y a w. y \<in> set ys \<Longrightarrow> \<exists>w'. body y a w = Some (Done (Inr (g y a)), w')"
    and bad: "\<And>a w. \<exists>w'. body x a w = Some (Done (Inl e), w')"
    and "rep it (ys @ x # zs)"
  shows "\<exists>w'. for_each next_item item_bytes body it acc w = Some (Done (Inl e), w')"
  using ok assms(3)
proof (induction ys arbitrary: it acc w)
  case Nil
  then obtain it1 w1 where n: "next_item it w = Some (Done (True, it1), w1)" "item_bytes it1 = x"
    using next_more by fastforce
  obtain w2 where "body x acc w1 = Some (Done (Inl e), w2)"
    using bad by blast
  with n show ?case by (subst for_each.simps) simp
next
  case (Cons y ys)
  have "rep it (y # ys @ x # zs)" using Cons.prems(2) by simp
  then obtain it1 w1 where n: "next_item it w = Some (Done (True, it1), w1)"
    "item_bytes it1 = y" "rep it1 (ys @ x # zs)"
    using next_more by blast
  obtain w2 where b: "body y acc w1 = Some (Done (Inr (g y acc)), w2)"
    using Cons.prems(1) by force
  have "\<exists>w'. for_each next_item item_bytes body it1 (g y acc) w2 = Some (Done (Inl e), w')"
    using Cons.prems(1) n(3) by (intro Cons.IH) auto
  with n b show ?case by (subst for_each.simps) simp
qed

end

section \<open>The host's side of the contract\<close>

text \<open>Every value is written with a terminating NUL byte.\<close>

definition terminated :: "string list \<Rightarrow> string" where
  "terminated vals = concat (map (\<lambda>v. v @ [CHR 0x00]) vals)"

text \<open>
  The documented behaviour of a multi-value hostcall that serves \<open>vals\<close>: from cursor \<open>c\<close>
  it writes some whole values (at least one when any is left and the next one fits), each
  with its terminator, and the ending cursor is \<open>-1\<close> after the last one; when the next
  value does not fit it answers \<open>BufLen\<close> with a sufficient size.  It never splits a value.
\<close>

definition serves :: "string list \<Rightarrow> nat \<Rightarrow> u32 \<Rightarrow> mv_reply \<Rightarrow> nat \<Rightarrow> bool" where
  "serves vals c cap r k \<longleftrightarrow>
     br_status r = FastlyStatusOK \<and> c + k \<le> length vals \<and> (c < length vals \<longrightarrow> 0 < k)
     \<and> br_written r = terminated (take k (drop c vals))
     \<and> unat (br_nwritten r) = length (br_written r)
     \<and> length (br_written r) \<le> unat cap
     \<and> mr_ending r = (if c + k = length vals then -1 else of_nat (c + k))"

definition multi_value_host :: "'w multiValueHostcall \<Rightarrow> string list \<Rightarrow> bool" where
  "multi_value_host f vals \<longleftrightarrow>
     length vals < 2 ^ 31 \<and> list_all (\<lambda>v. CHR 0x00 \<notin> set v) vals
     \<and> (\<forall>c cap w. c \<le> length vals \<longrightarrow>
          (let r = fst (f cap (of_nat c) w) in
           if c < length vals \<and> unat cap < length (vals ! c) + 1
           then br_status r = FastlyStatusBufLen \<and> length (vals ! c) + 1 \<le> unat (br_nwritten r)
           else \<exists>k. serves vals c cap r k))"

lemma terminated_simps [simp]:
  "terminated [] = []"
  "terminated (v # vs) = v @ CHR 0x00 # terminated vs"
  by (simp_all add: terminated_def)

lemma terminated_Nil_iff [simp]:
  "terminated vs = [] \<longleftrightarrow> vs = []"
  "[] = terminated vs \<longleftrightarrow> vs = []"
  by (cases vs; auto)+

text \<open>
  The state of the iterator against the values still to come: the pending window holds
  some whole values, the cursor points behind them.
\<close>

definition values_rep :: "'w multiValueHostcall \<Rightarrow> string list \<Rightarrow> Values \<Rightarrow> string list \<Rightarrow> bool" where
  "values_rep f vals v xs \<longleftrightarrow>
     multi_value_host f vals \<and> v_err v = None \<and> length (v_buffer v) < 2 ^ 32
     \<and> (\<exists>c ps. c \<le> length vals \<and> xs = ps @ drop c vals \<and> v_pending v = terminated ps
              \<and> list_all (\<lambda>p. CHR 0x00 \<notin> set p) ps
              \<and> (if v_finished v then c = length vals else v_cursor v = of_nat c))"

lemma isFinished_ending:
  assumes "n < 2 ^ 31"
  shows "isFinished (-1)" and "\<not> isFinished (of_nat n)" and "toCursor (of_nat n) = of_nat n"
proof -
  have n: "n < 2147483648" using assms by simp
  have "signed_take_bit 63 (int n) = int n"
    by (rule signed_take_bit_int_eq_self) (use n in auto)
  then have "sint (of_nat n :: u64) = int n"
    by (simp add: signed_of_nat)
  then show "\<not> isFinished (of_nat n)" by (simp add: isFinished_def)
  show "isFinished (-1)" by (simp add: isFinished_def)
  show "toCursor (of_nat n) = of_nat n"
  proof -
    have "take_bit 64 n = n" by (rule take_bit_nat_eq_self) (use n in simp)
    then show ?thesis by (simp add: toCursor_def unsigned_of_nat)
  qed
qed


text \<open>One hostcall that the host serves leaves the iterator in front of the values it wrote.\<close>

definition refilled :: "string list \<Rightarrow> nat \<Rightarrow> Values \<Rightarrow> nat \<Rightarrow> bool" where
  "refilled vals c v k \<longleftrightarrow>
     c + k \<le> length vals \<and> (c < length vals \<longrightarrow> 0 < k)
     \<and> v_err v = None \<and> length (v_buffer v) < 2 ^ 32
     \<and> v_pending v = terminated (take k (drop c vals))
     \<and> (if v_finished v then c + k = length vals else v_cursor v = of_nat (c + k) \<and> c + k < length vals)"

lemma length_host_fill [simp]: "length (wb_buf (host_fill bs n b)) = length (wb_buf b)"
  by (auto simp: host_fill_def)

lemma nextValue_served:
  assumes "serves vals c (of_nat (length (v_buffer v))) r k" "length vals < 2 ^ 31"
    and "f (of_nat (length (v_buffer v))) (v_cursor v) w = (r, w')" "length (v_buffer v) < 2 ^ 32"
  shows "\<exists>v'. nextValue f v w = Some (Done v', w') \<and> refilled vals c v' k"
proof -
  have cap: "unat (of_nat (length (v_buffer v)) :: u32) = length (v_buffer v)"
    using assms(4) by (simp add: unat_of_nat)
  define b where "b = host_fill (br_written r) (br_nwritten r) (NewWriteBufferFromBytes (v_buffer v))"
  have bytes: "wb_AsBytes b = Done (br_written r)"
    using assms(1) cap unfolding b_def
    by (intro host_fill_AsBytes) (auto simp: serves_def NewWriteBufferFromBytes_def)
  have len: "length (wb_buf b) = length (v_buffer v)"
    by (simp add: b_def NewWriteBufferFromBytes_def)
  have cur: "c + k < 2 ^ 31" using assms(1,2) by (auto simp: serves_def)
  have st: "br_status r = 0" using assms(1) by (simp add: serves_def)
  have "wb_Cap (NewWriteBufferFromBytes (v_buffer v)) = of_nat (length (v_buffer v))"
    by (simp add: wb_Cap_def NewWriteBufferFromBytes_def)
  then have "nextValue f v w = Some (Done (v\<lparr>v_buffer := wb_buf b, v_err := None,
      v_cursor := toCursor (mr_ending r), v_finished := isFinished (mr_ending r),
      v_pending := br_written r\<rparr>), w')"
    using assms(3) st bytes by (subst nextValue.simps) (simp add: Let_def b_def)
  then show ?thesis
    using assms(1,4) len isFinished_ending [OF cur]
    by (auto simp: refilled_def serves_def split: if_splits)
qed

lemma multi_value_hostD:
  assumes "multi_value_host f vals" "c \<le> length vals" "f cap (of_nat c) w = (r, w')"
  shows "if c < length vals \<and> unat cap < length (vals ! c) + 1
         then br_status r = 4 \<and> length (vals ! c) + 1 \<le> unat (br_nwritten r)
         else \<exists>k. serves vals c cap r k"
proof -
  have "let r = fst (f cap (of_nat c) w) in
      if c < length vals \<and> unat cap < length (vals ! c) + 1
      then br_status r = FastlyStatusBufLen \<and> length (vals ! c) + 1 \<le> unat (br_nwritten r)
      else \<exists>k. serves vals c cap r k"
    using assms(1,2) unfolding multi_value_host_def by blast
  then show ?thesis using assms(3) by (auto simp: Let_def split: if_splits)
qed

text \<open>Within two hostcalls the iterator has fresh values, or knows that there are none.\<close>

lemma nextValue_refills:
  assumes host: "multi_value_host f vals" and c: "c \<le> length vals"
    and v: "v_cursor v = of_nat c" "length (v_buffer v) < 2 ^ 32"
  shows "\<exists>v' w' k. nextValue f v w = Some (Done v', w') \<and> refilled vals c v' k"
proof -
  let ?cap = "of_nat (length (v_buffer v)) :: u32"
  have lv: "length vals < 2 ^ 31" using host by (simp add: multi_value_host_def)
  obtain r w1 where r: "f ?cap (of_nat c) w = (r, w1)" by force
  note reply = multi_value_hostD [OF host c r]
  show ?thesis
  proof (cases "c < length vals \<and> unat ?cap < length (vals ! c) + 1")
    case False
    with reply obtain k where "serves vals c ?cap r k" by auto
    with nextValue_served [OF this lv, of f w w1] r v show ?thesis by metis
  next
    case True
    with reply have st: "br_status r = 4" and n: "length (vals ! c) + 1 \<le> unat (br_nwritten r)"
      by auto
    let ?v = "v\<lparr>v_buffer := zero_bytes (unat (br_nwritten r))\<rparr>"
    have pos: "0 < br_nwritten r" using n by (auto simp: word_gt_0)
    have lenb: "length (v_buffer ?v) = unat (br_nwritten r)" by (simp add: zero_bytes_def)
    obtain r2 w2 where r2: "f (of_nat (length (v_buffer ?v))) (of_nat c) w1 = (r2, w2)" by force
    have "\<not> unat (of_nat (length (v_buffer ?v)) :: u32) < length (vals ! c) + 1"
      using n lenb by (simp add: unat_of_nat)
    with multi_value_hostD [OF host c r2] obtain k
      where "serves vals c (of_nat (length (v_buffer ?v))) r2 k" by auto
    moreover have "length (v_buffer ?v) < 2 ^ 32" using lenb by simp
    ultimately obtain v' where "nextValue f ?v w1 = Some (Done v', w2) \<and> refilled vals c v' k"
      using nextValue_served [of vals c ?v r2 k f w1 w2] lv r2 v(1) by auto
    moreover have "wb_Cap (NewWriteBufferFromBytes (v_buffer v)) = ?cap"
      by (simp add: wb_Cap_def NewWriteBufferFromBytes_def)
    ultimately have "nextValue f v w = Some (Done v', w2)"
      using r st pos v(1)
      by (subst nextValue.simps) (simp add: Let_def wb_NValue_def host_fill_def)
    with \<open>nextValue f ?v w1 = Some (Done v', w2) \<and> refilled vals c v' k\<close> show ?thesis by blast
  qed
qed

lemma advance_terminated:
  "v_pending v = terminated (p # ps) \<Longrightarrow> CHR 0x00 \<notin> set p \<Longrightarrow>
   advance v = (True, v\<lparr>v_value := p, v_pending := terminated ps\<rparr>)"
  by (simp add: advance_def)

lemma refilled_rep:
  assumes "refilled vals c v k" "multi_value_host f vals"
  shows "values_rep f vals v (drop c vals)"
proof -
  have "drop c vals = take k (drop c vals) @ drop (c + k) vals"
    by (metis append_take_drop_id drop_drop add.commute)
  moreover have "list_all (\<lambda>p. CHR 0x00 \<notin> set p) (take k (drop c vals))"
    using assms(2) by (auto simp: multi_value_host_def list_all_iff dest: in_set_takeD in_set_dropD)
  ultimately show ?thesis
    using assms unfolding values_rep_def refilled_def
    by (intro conjI exI [of _ "c + k"] exI [of _ "take k (drop c vals)"]) (auto split: if_splits)
qed

lemma rep_pending:
  assumes "values_rep f vals v xs" "v_pending v \<noteq> []"
  shows "\<exists>x ys v'. xs = x # ys \<and> advance v = (True, v') \<and> v_value v' = x \<and> values_rep f vals v' ys"
proof -
  obtain c ps where c: "c \<le> length vals" "xs = ps @ drop c vals" "v_pending v = terminated ps"
    "list_all (\<lambda>p. CHR 0x00 \<notin> set p) ps"
    "if v_finished v then c = length vals else v_cursor v = of_nat c"
    using assms(1) by (auto simp: values_rep_def)
  then obtain p qs where p: "ps = p # qs" using assms(2) by (cases ps) auto
  then have "advance v = (True, v\<lparr>v_value := p, v_pending := terminated qs\<rparr>)"
    using c by (intro advance_terminated) auto
  moreover have "values_rep f vals (v\<lparr>v_value := p, v_pending := terminated qs\<rparr>) (qs @ drop c vals)"
    using assms(1) c p by (auto simp: values_rep_def)
  ultimately show ?thesis using c(2) p by auto
qed

lemma values_next_more:
  assumes "values_rep f vals v (x # xs)"
  shows "\<exists>v' w'. Values_Next f v w = Some (Done (True, v'), w') \<and> Values_Bytes v' = x
    \<and> values_rep f vals v' xs"
proof (cases "v_pending v = []")
  case False
  with rep_pending [OF assms] assms show ?thesis
    by (auto simp: Values_Next_def Values_Bytes_def values_rep_def)
next
  case True
  then obtain c where c: "c \<le> length vals" "x # xs = drop c vals"
    "\<not> v_finished v" "v_cursor v = of_nat c" "length (v_buffer v) < 2 ^ 32"
    "multi_value_host f vals" "v_err v = None"
    using assms by (auto simp: values_rep_def split: if_splits)
  obtain v1 w1 k where n: "nextValue f v w = Some (Done v1, w1)" "refilled vals c v1 k"
    using nextValue_refills [OF c(6,1,4,5)] by blast
  have "c < length vals" using c(2) by (metis drop_all leI list.discI)
  then have pend: "v_pending v1 \<noteq> []" and err: "v_err v1 = None"
    using n(2) by (auto simp: refilled_def)
  have "values_rep f vals v1 (x # xs)"
    using refilled_rep [OF n(2) c(6)] c(2) by simp
  from rep_pending [OF this pend] n(1) err True c show ?thesis
    by (auto simp: Values_Next_def Values_Bytes_def and_then_def)
qed

lemma values_next_done:
  assumes "values_rep f vals v []"
  shows "\<exists>v' w'. Values_Next f v w = Some (Done (False, v'), w') \<and> Values_Err v' = None
    \<and> values_rep f vals v' []"
proof -
  have pend: "v_pending v = []" and err: "v_err v = None"
    using assms by (auto simp: values_rep_def)
  show ?thesis
  proof (cases "v_finished v")
    case True
    with assms pend err show ?thesis by (auto simp: Values_Next_def Values_Err_def)
  next
    case False
    then have c: "v_cursor v = of_nat (length vals)" "length (v_buffer v) < 2 ^ 32"
      "multi_value_host f vals"
      using assms by (auto simp: values_rep_def split: if_splits)
    obtain v1 w1 k where n: "nextValue f v w = Some (Done v1, w1)" "refilled vals (length vals) v1 k"
      using nextValue_refills [OF c(3) le_refl c(1,2)] by blast
    then have v1: "v_finished v1" "v_pending v1 = []" "v_err v1 = None"
      by (auto simp: refilled_def split: if_splits)
    then have adv: "advance v1 = (False, v1\<lparr>v_value := [], v_pending := []\<rparr>)"
      by (simp add: advance_def)
    have "values_rep f vals v1 []"
      using refilled_rep [OF n(2) c(3)] by simp
    then have "values_rep f vals (v1\<lparr>v_value := [], v_pending := []\<rparr>) []"
      using v1 by (auto simp: values_rep_def)
    with n(1) v1 adv pend err False show ?thesis
      by (auto simp: Values_Next_def Values_Err_def and_then_def)
  qed
qed

interpretation mv: value_source "Values_Next f" Values_Bytes Values_Err "values_rep f vals"
  for f :: "'w multiValueHostcall" and vals
  by unfold_locales (rule values_next_more values_next_done, assumption)+

lemma newValues_rep:
  "multi_value_host f vals \<Longrightarrow> cap < 2 ^ 32 \<Longrightarrow> values_rep f vals (newValues cap) vals"
  unfolding values_rep_def newValues_def
  by (simp add: zero_bytes_def) (rule exI [of _ 0], simp)

text \<open>A host that serves \<open>vals\<close> greedily: as many whole values as fit.\<close>

fun fit_values :: "nat \<Rightarrow> string list \<Rightarrow> string list" where
  "fit_values cap [] = []"
| "fit_values cap (v # vs) =
     (if length v + 1 \<le> cap then v # fit_values (cap - (length v + 1)) vs else [])"

definition greedy_host :: "string list \<Rightarrow> 'w multiValueHostcall" where
  "greedy_host vals cap cursor = (\<lambda>w.
     (let rest = drop (unat cursor) vals; now = fit_values (unat cap) rest;
          out = terminated now; c' = unat cursor + length now
      in if rest \<noteq> [] \<and> now = []
         then \<lparr>br_status = FastlyStatusBufLen, br_written = [],
               br_nwritten = of_nat (length (hd rest) + 1), mr_ending = 0\<rparr>
         else \<lparr>br_status = FastlyStatusOK, br_written = out, br_nwritten = of_nat (length out),
               mr_ending = (if c' = length vals then -1 else of_nat c')\<rparr>, w))"

lemma fit_values_take: "fit_values cap vs = take (length (fit_values cap vs)) vs"
  by (induction cap vs rule: fit_values.induct) auto

lemma fit_values_length: "length (terminated (fit_values cap vs)) \<le> cap"
  by (induction cap vs rule: fit_values.induct) auto

lemma multi_value_host_greedy:
  assumes "length vals < 2 ^ 31" "list_all (\<lambda>v. CHR 0x00 \<notin> set v \<and> length v < 2 ^ 31) vals"
  shows "multi_value_host (greedy_host vals) vals"
proof -
  have step: "if c < length vals \<and> unat cap < length (vals ! c) + 1
      then br_status r = FastlyStatusBufLen \<and> length (vals ! c) + 1 \<le> unat (br_nwritten r)
      else \<exists>k. serves vals c cap r k"
    if c: "c \<le> length vals" and r: "r = fst (greedy_host vals cap (of_nat c) w)" for c cap w r
  proof -
    have uc: "unat (of_nat c :: u32) = c" using c assms(1) by (simp add: unat_of_nat)
    show ?thesis
    proof (cases "c < length vals")
      case False
      with c have "c = length vals" by simp
      with r uc have "serves vals c cap r 0"
        by (simp add: greedy_host_def serves_def)
      with False show ?thesis by auto
    next
      case True
      then have d: "drop c vals = vals ! c # drop (Suc c) vals"
        by (simp add: Cons_nth_drop_Suc)
      have small: "length (vals ! c) < 2 ^ 31"
        using assms(2) True by (simp add: list_all_length)
      show ?thesis
      proof (cases "unat cap < length (vals ! c) + 1")
        case less: True
        then have "r = \<lparr>br_status = FastlyStatusBufLen, br_written = [],
            br_nwritten = of_nat (length (vals ! c) + 1), mr_ending = 0\<rparr>"
          using r uc d by (simp add: greedy_host_def Let_def)
        moreover have "unat (of_nat (length (vals ! c) + 1) :: u32) = length (vals ! c) + 1"
          by (rule unat_of_nat_u32) (use small in simp)
        ultimately show ?thesis using True less by simp
      next
        case False
        let ?now = "fit_values (unat cap) (drop c vals)"
        have now: "?now \<noteq> []" using d False by simp
        have tk: "?now = take (length ?now) (drop c vals)" by (rule fit_values_take)
        have le: "length (terminated ?now) \<le> unat cap" by (rule fit_values_length)
        then have u: "unat (of_nat (length (terminated ?now)) :: u32) = length (terminated ?now)"
          by (intro unat_of_nat_u32) (use u32_less [of cap] in \<open>simp del: u32_less\<close>)
        have len: "c + length ?now \<le> length vals"
          using arg_cong [OF tk, of length] c by simp
        have "r = \<lparr>br_status = FastlyStatusOK, br_written = terminated ?now,
            br_nwritten = of_nat (length (terminated ?now)),
            mr_ending = (if c + length ?now = length vals then -1 else of_nat (c + length ?now))\<rparr>"
          using r uc now by (simp add: greedy_host_def Let_def)
        then have "serves vals c cap r (length ?now)"
          using now le u len tk by (simp add: serves_def)
        with False show ?thesis by auto
      qed
    qed
  qed
  have serve: "\<forall>c cap w. c \<le> length vals \<longrightarrow>
      (let r = fst (greedy_host vals cap (of_nat c) w) in
       if c < length vals \<and> unat cap < length (vals ! c) + 1
       then br_status r = FastlyStatusBufLen \<and> length (vals ! c) + 1 \<le> unat (br_nwritten r)
       else \<exists>k. serves vals c cap r k)"
    unfolding Let_def by (intro allI impI) (rule step, assumption, rule refl)
  have "list_all (\<lambda>v. CHR 0x00 \<notin> set v) vals"
    using assms(2) by (auto simp: list_all_iff)
  with assms(1) serve show ?thesis
    unfolding multi_value_host_def by (simp only: simp_thms)
qed

text \<open>
  C13: a loop over a \<open>Values\<close> iterator visits exactly the host's values, complete and in
  order, whatever the initial capacity and however the host splits them over calls, and
  ends with a nil \<open>Err\<close>.
\<close>

theorem values_iterate_all:
  assumes "multi_value_host f vals" and "cap < 2 ^ 32"
  shows "\<exists>v' w'. for_each (Values_Next f) Values_Bytes
           (\<lambda>x acc. finish (Inr (acc @ [x]))) (newValues cap) [] w
         = Some (Done (Inr (v', vals)), w') \<and> Values_Err v' = None"
proof -
  have "fold (\<lambda>x acc. acc @ [x]) vals acc = acc @ vals" for acc :: "string list"
    by (induction vals arbitrary: acc) auto
  with mv.for_each_drains [OF _ newValues_rep [OF assms],
      of "\<lambda>x acc. finish (Inr (acc @ [x]))" "\<lambda>x acc. acc @ [x]" "[]" w]
  show ?thesis by auto
qed

theorem values_iterate_all_witness:
  "\<exists>v' w'. for_each (Values_Next (greedy_host [''host'', ''accept'', ''x'']))
       Values_Bytes (\<lambda>x acc. finish (Inr (acc @ [x]))) (newValues 5) [] ()
     = Some (Done (Inr (v', [''host'', ''accept'', ''x''])), w') \<and> Values_Err v' = None"
  by (rule values_iterate_all [OF multi_value_host_greedy]) simp_all

end
