(* ===== verification/Headers.thy ===== *)
theory Headers
  imports MultiValues "HOL-Library.AList"
begin

text \<open>
  \<open>fsthttp/headers.go\<close>: header collections keyed by canonical name, and the loop by which
  requests, responses and trailers are read from the host.  A Go map is an association
  list; its order is the iteration order, which Go leaves open, so every statement holds
  for all of them.  The interface \<open>header_store\<close> states what clients of \<open>Header\<close> rely on.
\<close>

section \<open>The interface\<close>

locale header_store =
  fixes canon :: "string \<Rightarrow> string"
    and hvalues :: "'h \<Rightarrow> string \<Rightarrow> string list"
    and hadd :: "'h \<Rightarrow> string \<Rightarrow> string \<Rightarrow> 'h"
    and hset :: "'h \<Rightarrow> string \<Rightarrow> string \<Rightarrow> 'h"
    and hdel :: "'h \<Rightarrow> string \<Rightarrow> 'h"
  assumes canon_idem: "canon (canon k) = canon k"
    and values_canon: "hvalues h (canon k) = hvalues h k"
    and values_add: "hvalues (hadd h k v) k' =
      (if canon k' = canon k then hvalues h k @ [v] else hvalues h k')"
    and values_set: "hvalues (hset h k v) k' = (if canon k' = canon k then [v] else hvalues h k')"
    and values_del: "hvalues (hdel h k) k' = (if canon k' = canon k then [] else hvalues h k')"
begin

lemma values_cong: "canon k = canon k' \<Longrightarrow> hvalues h k = hvalues h k'"
  by (metis values_canon)

lemma values_add_all:
  "hvalues (fold (\<lambda>v h. hadd h k v) vs h) k' =
     (if canon k' = canon k then hvalues h k @ vs else hvalues h k')"
proof (induction vs arbitrary: h)
  case Nil
  then show ?case by (auto dest: values_cong)
next
  case (Cons v vs)
  then show ?case by (simp add: values_add)
qed

text \<open>Adding pairs one by one files every value under its canonical name, in order.\<close>

lemma values_add_pairs:
  "hvalues (fold (\<lambda>k h. fold (\<lambda>v h. hadd h k v) (vs k) h) ks h) k' =
     hvalues h k' @ concat (map vs (filter (\<lambda>k. canon k' = canon k) ks))"
proof (induction ks arbitrary: h)
  case Nil
  then show ?case by simp
next
  case (Cons k ks)
  then show ?case
    using values_cong [of k k'] by (auto simp: values_add_all)
qed

lemma values_replace:
  "hvalues (fold (\<lambda>v h. hadd h k v) vs (hdel h k)) k' =
     (if canon k' = canon k then vs else hvalues h k')"
  by (simp add: values_add_all values_del)

lemma values_del_all:
  "hvalues (fold (\<lambda>k h. hdel h k) ks h) k' =
     (if canon k' \<in> canon ` set ks then [] else hvalues h k')"
  by (induction ks arbitrary: h) (auto simp: values_del)

end

section \<open>Header collections\<close>

type_synonym Header = "(string \<times> string list) list"

definition NewHeader :: Header where
  "NewHeader = []"

definition CanonicalHeaderKey :: "string \<Rightarrow> string" where
  "CanonicalHeaderKey s = canonical_mime_key s"

text \<open>Indexing a Go map of slices: a missing key reads as the nil slice.\<close>

definition hindex :: "Header \<Rightarrow> string \<Rightarrow> string list" where
  "hindex h k = (case map_of h k of None \<Rightarrow> [] | Some vs \<Rightarrow> vs)"

definition Header_Add :: "Header \<Rightarrow> string \<Rightarrow> string \<Rightarrow> Header" where
  "Header_Add h key value =
     (let key = CanonicalHeaderKey key in AList.update key (hindex h key @ [value]) h)"

definition Header_Del :: "Header \<Rightarrow> string \<Rightarrow> Header" where
  "Header_Del h key = (let key = CanonicalHeaderKey key in AList.delete key h)"

definition Header_Get :: "Header \<Rightarrow> string \<Rightarrow> string" where
  "Header_Get h key =
     (let key = CanonicalHeaderKey key in
      case hindex h key of [] \<Rightarrow> [] | v # _ \<Rightarrow> v)"

definition Header_Set :: "Header \<Rightarrow> string \<Rightarrow> string \<Rightarrow> Header" where
  "Header_Set h key value =
     (let key = CanonicalHeaderKey key in AList.update key [value] h)"

definition Header_Keys :: "Header \<Rightarrow> string list" where
  "Header_Keys h = map fst h"

definition Header_Values :: "Header \<Rightarrow> string \<Rightarrow> string list" where
  "Header_Values h key = (let key = CanonicalHeaderKey key in hindex h key)"

definition Header_Apply :: "Header \<Rightarrow> Header \<Rightarrow> Header" where
  "Header_Apply h hs =
     fold (\<lambda>key h. fold (\<lambda>value h. Header_Add h key value) (Header_Values hs key)
                     (Header_Del h key))
       (Header_Keys hs) h"

definition Header_Clone :: "Header \<Rightarrow> Header" where
  "Header_Clone h = Header_Apply NewHeader h"

definition Header_Reset :: "Header \<Rightarrow> Header \<Rightarrow> Header" where
  "Header_Reset h hs = Header_Apply (fold (\<lambda>key h. Header_Del h key) (Header_Keys h) h) hs"

text \<open>
  The type invariant that the methods of \<open>Header\<close> keep: a key occurs once and is canonical.
  Direct assignments to the Go map can break it.
\<close>

definition header_wf :: "Header \<Rightarrow> bool" where
  "header_wf h \<longleftrightarrow> distinct (map fst h) \<and> list_all (\<lambda>k. CanonicalHeaderKey k = k) (map fst h)"

lemma canonical_idem [simp]: "CanonicalHeaderKey (CanonicalHeaderKey k) = CanonicalHeaderKey k"
  by (simp add: CanonicalHeaderKey_def)

lemma hindex_update: "hindex (AList.update k v h) k' = (if k' = k then v else hindex h k')"
  by (simp add: hindex_def update_conv')

lemma hindex_delete: "hindex (AList.delete k h) k' = (if k' = k then [] else hindex h k')"
  by (simp add: hindex_def delete_conv')

lemma header_wf_New [simp]: "header_wf NewHeader"
  by (simp add: header_wf_def NewHeader_def)

lemma header_wf_update:
  "header_wf h \<Longrightarrow> header_wf (AList.update (CanonicalHeaderKey k) vs h)"
  by (auto simp: header_wf_def distinct_update dom_update list_all_iff)

lemma header_wf_Add: "header_wf h \<Longrightarrow> header_wf (Header_Add h k v)"
  by (simp add: Header_Add_def Let_def header_wf_update)

lemma header_wf_Set: "header_wf h \<Longrightarrow> header_wf (Header_Set h k v)"
  by (simp add: Header_Set_def Let_def header_wf_update)

lemma header_wf_Del: "header_wf h \<Longrightarrow> header_wf (Header_Del h k)"
  by (auto simp: header_wf_def Header_Del_def Let_def distinct_delete list_all_iff delete_keys distinct_removeAll)

interpretation hdr: header_store CanonicalHeaderKey Header_Values Header_Add Header_Set Header_Del
  by unfold_locales
    (auto simp: Header_Values_def Header_Add_def Header_Set_def Header_Del_def Let_def
      hindex_update hindex_delete)

lemma Header_Values_New [simp]: "Header_Values NewHeader k = []"
  by (simp add: Header_Values_def NewHeader_def hindex_def)

lemma Header_Get_Values: "Header_Get h k = (case Header_Values h k of [] \<Rightarrow> [] | v # _ \<Rightarrow> v)"
  by (simp add: Header_Get_def Header_Values_def)

text \<open>Names are case insensitive: for a key of valid header bytes only its lower-case form counts.\<close>

lemma canonical_case_insensitive:
  assumes "list_all header_field_byte a" "ascii_lower a = ascii_lower b"
  shows "CanonicalHeaderKey a = CanonicalHeaderKey b"
proof -
  have "list_all header_field_byte b" using assms by (metis list_all_ascii_lower)
  with assms show ?thesis
    unfolding CanonicalHeaderKey_def by (metis canonical_mime_key_lower)
qed

lemma header_wf_keys:
  "header_wf h \<Longrightarrow> filter (\<lambda>k. CanonicalHeaderKey k' = CanonicalHeaderKey k) (Header_Keys h)
     = (if CanonicalHeaderKey k' \<in> set (Header_Keys h) then [CanonicalHeaderKey k'] else [])"
proof -
  assume "header_wf h"
  then have d: "distinct (Header_Keys h)" and c: "\<And>k. k \<in> set (Header_Keys h) \<Longrightarrow> CanonicalHeaderKey k = k"
    by (auto simp: header_wf_def Header_Keys_def list_all_iff)
  have "filter (\<lambda>k. CanonicalHeaderKey k' = CanonicalHeaderKey k) (Header_Keys h)
      = filter (\<lambda>k. k = CanonicalHeaderKey k') (Header_Keys h)"
    by (rule filter_cong) (auto simp: c)
  also have "\<dots> = (if CanonicalHeaderKey k' \<in> set (Header_Keys h) then [CanonicalHeaderKey k'] else [])"
    using d by (rule filter_eq_distinct)
  finally show ?thesis .
qed


lemma hindex_canonical: "Header_Values h k = hindex h (CanonicalHeaderKey k)"
  by (simp add: Header_Values_def)

lemma hindex_not_key: "k \<notin> set (Header_Keys h) \<Longrightarrow> hindex h k = []"
proof -
  assume "k \<notin> set (Header_Keys h)"
  then have "map_of h k = None" by (simp add: map_of_eq_None_iff Header_Keys_def)
  then show ?thesis by (simp add: hindex_def)
qed

text \<open>
  Applying well-formed headers: each name they hold is replaced, every other name kept.
  The fold is over the iteration order of \<open>hs\<close>, so the result does not depend on it.
\<close>

lemma apply_fold_values:
  "Header_Values (fold (\<lambda>key h. fold (\<lambda>value h. Header_Add h key value) (Header_Values hs key)
       (Header_Del h key)) ks h) k
   = (if CanonicalHeaderKey k \<in> CanonicalHeaderKey ` set ks then Header_Values hs k
      else Header_Values h k)"
proof (induction ks arbitrary: h)
  case Nil
  then show ?case by simp
next
  case (Cons a ks)
  then show ?case
    using hdr.values_cong [of k a hs] by (auto simp: hdr.values_replace)
qed

lemma Header_Values_Apply:
  "header_wf hs \<Longrightarrow> Header_Values (Header_Apply h hs) k =
     (if CanonicalHeaderKey k \<in> set (Header_Keys hs) then Header_Values hs k else Header_Values h k)"
proof -
  assume "header_wf hs"
  then have "CanonicalHeaderKey ` set (Header_Keys hs) = set (Header_Keys hs)"
    by (force simp: header_wf_def Header_Keys_def list_all_iff)
  then show ?thesis by (simp add: Header_Apply_def apply_fold_values)
qed

lemma header_wf_fold_Add: "header_wf h \<Longrightarrow> header_wf (fold (\<lambda>v h. Header_Add h k v) vs h)"
  by (induction vs arbitrary: h) (auto simp: header_wf_Add)

lemma header_wf_Apply: "header_wf h \<Longrightarrow> header_wf (Header_Apply h hs)"
proof -
  have "header_wf h \<Longrightarrow> header_wf (fold (\<lambda>key h. fold (\<lambda>value h. Header_Add h key value)
      (Header_Values hs key) (Header_Del h key)) ks h)" for ks
    by (induction ks arbitrary: h) (auto simp: header_wf_fold_Add header_wf_Del)
  then show "header_wf h \<Longrightarrow> ?thesis" by (simp add: Header_Apply_def)
qed

text \<open>
  \<open>Clone\<close> and \<open>Reset\<close> produce, for every name, exactly the values of the source header,
  whatever the iteration order of the maps, and keep the invariant of the header type.
\<close>

lemma header_clone_reset:
  assumes "header_wf h" and "header_wf hs"
  shows "Header_Values (Header_Clone hs) k = Header_Values hs k
    \<and> Header_Values (Header_Reset h hs) k = Header_Values hs k
    \<and> header_wf (Header_Clone hs) \<and> header_wf (Header_Reset h hs)"
proof -
  have absent: "CanonicalHeaderKey k \<notin> set (Header_Keys hs) \<Longrightarrow> Header_Values hs k = []"
    by (simp add: hindex_canonical hindex_not_key)
  have cleared: "Header_Values (fold (\<lambda>key h. Header_Del h key) (Header_Keys h) h) k = []"
  proof (cases "CanonicalHeaderKey k \<in> CanonicalHeaderKey ` set (Header_Keys h)")
    case False
    then have "CanonicalHeaderKey k \<notin> set (Header_Keys h)"
      using canonical_idem by (metis imageI)
    then have "Header_Values h k = []" by (simp add: hindex_canonical hindex_not_key)
    with False show ?thesis by (simp add: hdr.values_del_all)
  qed (simp add: hdr.values_del_all)
  have wf: "header_wf h' \<Longrightarrow> header_wf (fold (\<lambda>key h. Header_Del h key) ks h')" for ks h'
    by (induction ks arbitrary: h') (auto simp: header_wf_Del)
  from assms absent cleared wf show ?thesis
    by (auto simp: Header_Clone_def Header_Reset_def Header_Values_Apply header_wf_Apply)
qed

lemma header_clone_reset_instance:
  "Header_Values (Header_Reset [(''Age'', [''1''])] [(''Vary'', [''a'', ''b''])]) ''vary'' = [''a'', ''b'']"
proof -
  have "header_wf [(''Age'', [''1''])]" "header_wf [(''Vary'', [''a'', ''b''])]"
    by code_simp+
  from header_clone_reset [OF this, of "''vary''"] show ?thesis by code_simp
qed

section \<open>Reading headers from the host\<close>

text \<open>
  The loop shared by \<open>newClientRequest\<close>, \<open>newResponse\<close> and \<open>Trailers\<close>: for every name the
  host lists, fetch its values and add them under that name.  \<open>what\<close> is the word of the
  error annotation (\<open>header\<close> or \<open>trailer\<close>).
\<close>

definition quoted :: "string \<Rightarrow> string" where
  "quoted s = [CHR 0x22] @ s @ [CHR 0x22]"

definition read_values ::
  "string \<Rightarrow> nat \<Rightarrow> (string \<Rightarrow> 'w multiValueHostcall) \<Rightarrow> string \<Rightarrow> Header \<Rightarrow> ('w, goerr + Header) comp" where
  "read_values what cap vals_call k header =
     and_then
       (for_each (Values_Next (vals_call k)) Values_Bytes
          (\<lambda>v header. finish (Inr (Header_Add header k v))) (newValues cap) header)
       (\<lambda>r. case r of
          Inl e \<Rightarrow> finish (Inl e)
        | Inr (vals, header') \<Rightarrow>
            (case Values_Err vals of
               Some e \<Rightarrow> finish (Inl (Wrap (''read '' @ what @ '' key '' @ quoted k @ '': '') e []))
             | None \<Rightarrow> finish (Inr header')))"

definition read_headers ::
  "string \<Rightarrow> nat \<Rightarrow> nat \<Rightarrow> 'w multiValueHostcall \<Rightarrow> (string \<Rightarrow> 'w multiValueHostcall) \<Rightarrow>
   ('w, goerr + goerr option \<times> Header) comp" where
  "read_headers what ncap vcap names_call vals_call =
     and_then
       (for_each (Values_Next names_call) Values_Bytes (read_values what vcap vals_call)
          (newValues ncap) NewHeader)
       (\<lambda>r. case r of
          Inl e \<Rightarrow> finish (Inl e)
        | Inr (keys, header) \<Rightarrow> finish (Inr (Values_Err keys, header)))"

definition header_host ::
  "'w multiValueHostcall \<Rightarrow> (string \<Rightarrow> 'w multiValueHostcall) \<Rightarrow> (string \<times> string list) list \<Rightarrow> bool" where
  "header_host names_call vals_call hs \<longleftrightarrow>
     distinct (map fst hs) \<and> multi_value_host names_call (map fst hs)
     \<and> (\<forall>(k, vs) \<in> set hs. multi_value_host (vals_call k) vs)"

lemma read_values_ok:
  assumes "multi_value_host (vals_call k) vs" "cap < 2 ^ 32"
  shows "\<exists>w'. read_values what cap vals_call k header w
      = Some (Done (Inr (fold (\<lambda>v h. Header_Add h k v) vs header)), w')"
proof -
  obtain it' w' where "for_each (Values_Next (vals_call k)) Values_Bytes
      (\<lambda>v header. finish (Inr (Header_Add header k v))) (newValues cap) header w
      = Some (Done (Inr (it', fold (\<lambda>v h. Header_Add h k v) vs header)), w')" "Values_Err it' = None"
    using mv.for_each_drains [OF _ newValues_rep [OF assms],
        of "\<lambda>v header. finish (Inr (Header_Add header k v))" "\<lambda>v h. Header_Add h k v" header w]
    by auto
  then show ?thesis by (simp add: read_values_def and_then_Done)
qed

text \<open>The loop reads every value of every name.\<close>

lemma read_headers_all:
  assumes "header_host names_call vals_call hs" and "ncap < 2 ^ 32" and "vcap < 2 ^ 32"
  shows "\<exists>header w'. read_headers what ncap vcap names_call vals_call w
        = Some (Done (Inr (None, header)), w')
    \<and> header_wf header
    \<and> (\<forall>k. Header_Values header k =
          concat (map snd (filter (\<lambda>(n, _). CanonicalHeaderKey k = CanonicalHeaderKey n) hs)))"
proof -
  let ?vs = "\<lambda>k. the (map_of hs k)"
  let ?g = "\<lambda>k h. fold (\<lambda>v h. Header_Add h k v) (?vs k) h"
  have d: "distinct (map fst hs)" using assms(1) by (simp add: header_host_def)
  have names: "multi_value_host names_call (map fst hs)" using assms(1) by (simp add: header_host_def)
  have body: "\<exists>w'. read_values what vcap vals_call k header w = Some (Done (Inr (?g k header)), w')"
    if k: "k \<in> set (map fst hs)" for k header w
  proof -
    obtain vs where "(k, vs) \<in> set hs" using k by auto
    with assms(1) d have "multi_value_host (vals_call k) vs" "map_of hs k = Some vs"
      by (auto simp: header_host_def)
    with read_values_ok [OF _ assms(3)] show ?thesis by fastforce
  qed
  obtain it' w' where loop: "for_each (Values_Next names_call) Values_Bytes
      (read_values what vcap vals_call) (newValues ncap) NewHeader w
      = Some (Done (Inr (it', fold ?g (map fst hs) NewHeader)), w')" "Values_Err it' = None"
    using mv.for_each_drains [where body = "read_values what vcap vals_call" and g = ?g
        and xs = "map fst hs", OF body newValues_rep [OF names assms(2)]] by blast
  let ?h = "fold ?g (map fst hs) NewHeader"
  have "header_wf h \<Longrightarrow> header_wf (fold ?g ks h)" for ks h
    by (induction ks arbitrary: h) (auto simp: header_wf_fold_Add)
  then have "header_wf ?h" by simp
  moreover have "map ?vs (filter (\<lambda>n. CanonicalHeaderKey k = CanonicalHeaderKey n) (map fst hs))
      = map snd (filter (\<lambda>(n, _). CanonicalHeaderKey k = CanonicalHeaderKey n) hs)" for k
    using d by (auto simp: filter_map o_def intro!: map_cong filter_cong)
  ultimately show ?thesis using loop
    by (simp add: read_headers_def and_then_Done hdr.values_add_pairs)
qed

text \<open>
  C14: reading headers from a host that keeps its contract returns, and for every name the
  result holds exactly the values the host lists under spellings of that name, in the
  host's order; nothing is lost to buffer sizes or to case.
\<close>

theorem read_headers_complete:
  assumes "header_host names_call vals_call hs" and "ncap < 2 ^ 32" and "vcap < 2 ^ 32"
  shows "\<exists>header w'. read_headers what ncap vcap names_call vals_call w
        = Some (Done (Inr (None, header)), w')
    \<and> header_wf header
    \<and> (\<forall>k. Header_Values header k =
          concat (map snd (filter (\<lambda>(n, _). CanonicalHeaderKey k = CanonicalHeaderKey n) hs)))"
  using assms by (rule read_headers_all)

theorem read_headers_complete_witness:
  "\<exists>header w'. read_headers ''header'' 8 4 (greedy_host [''accept'', ''x-id''])
       (\<lambda>k. greedy_host (if k = ''accept'' then [''a'', ''text/html''] else [''7'']))
       () = Some (Done (Inr (None, header)), w')
   \<and> header_wf header
   \<and> (\<forall>k. Header_Values header k =
         concat (map snd (filter (\<lambda>(n, _). CanonicalHeaderKey k = CanonicalHeaderKey n)
            [(''accept'', [''a'', ''text/html'']), (''x-id'', [''7''])])))"
proof (rule read_headers_complete)
  show "header_host (greedy_host [''accept'', ''x-id''])
       (\<lambda>k. greedy_host (if k = ''accept'' then [''a'', ''text/html''] else [''7'']))
       [(''accept'', [''a'', ''text/html'']), (''x-id'', [''7''])]"
    by (auto simp: header_host_def intro!: multi_value_host_greedy)
qed simp_all

end
