(* ===== verification/HttpABI.thy ===== *)
theory HttpABI
  imports Headers
begin

text \<open>
  The wrappers of \<open>internal/abi/fastly/http_guest.go\<close> around the hostcalls for HTTP
  requests, responses and bodies.  The hostcalls are the functions of a record that is a
  parameter of every definition; a call returns a status and its out parameters, and may
  change the world.  A handle is a \<open>u32\<close>; an \<open>HTTPBody\<close> also has its \<open>closable\<close> flag.
\<close>

section \<open>Calls\<close>

type_synonym handle = u32

definition invalidHandle :: handle where [simp]: "invalidHandle = 4294967294"

text \<open>\<open>call(...).toError()\<close> on the way to a result.\<close>

definition hostcall :: "('w, FastlyStatus \<times> 'a) prog \<Rightarrow> ('w, goerr + 'a) comp" where
  "hostcall f = (\<lambda>w. case f w of ((s, x), w') \<Rightarrow>
     Some (Done (case toError s of None \<Rightarrow> Inr x | Some e \<Rightarrow> Inl e), w'))"

definition send_hostcall :: "('w, FastlyStatus \<times> SendErrorDetail \<times> 'a) prog \<Rightarrow> ('w, goerr + 'a) comp" where
  "send_hostcall f = (\<lambda>w. case f w of ((s, d, x), w') \<Rightarrow>
     Some (Done (case toSendError s d of None \<Rightarrow> Inr x | Some e \<Rightarrow> Inl e), w'))"

text \<open>A hostcall that writes one value of unknown length, read as a string.\<close>

definition buffered :: "nat \<Rightarrow> (u32 \<Rightarrow> ('w, buf_reply) prog) \<Rightarrow> ('w, goerr + string) comp" where
  "buffered n f = (\<lambda>w. case withAdaptiveBuffer n f w of
       None \<Rightarrow> None
     | Some (Inl e, w') \<Rightarrow> Some (Done (Inl e), w')
     | Some (Inr b, w') \<Rightarrow>
         (case wb_ToString b of Panic \<Rightarrow> Some (Panic, w') | Done s \<Rightarrow> Some (Done (Inr s), w')))"

lemma hostcall_ok: "f w = ((0, x), w') \<Longrightarrow> hostcall f w = Some (Done (Inr x), w')"
  by (simp add: hostcall_def)

lemma hostcall_err: "f w = ((s, x), w') \<Longrightarrow> s \<noteq> 0 \<Longrightarrow> hostcall f w = Some (Done (Inl (FastlyError s None)), w')"
  by (simp add: hostcall_def toError_def)

lemma hostcall_cases:
  obtains x w' where "hostcall f w = Some (Done (Inr x), w')"
  | e w' where "hostcall f w = Some (Done (Inl e), w')"
  by (cases "f w"; cases "toError (fst (fst (f w)))") (auto simp: hostcall_def)

lemma buffered_ok:
  "value_host f v \<Longrightarrow> n < 2 ^ 32 \<Longrightarrow> \<exists>w'. buffered n f w = Some (Done (Inr v), w')"
  using withAdaptiveBuffer_buffer [of f v n w] by (auto simp: buffered_def)

lemma buffered_status:
  assumes "\<And>w. br_status (fst (f (of_nat n) w)) = s" "s \<noteq> FastlyStatusOK" "s \<noteq> FastlyStatusBufLen"
  shows "fails (buffered n f) (FastlyError s None)"
  unfolding fails_def
proof
  fix w show "\<exists>w'. buffered n f w = Some (Done (Inl (FastlyError s None)), w')"
    using withAdaptiveBuffer_status [of f n w s] assms by (auto simp: buffered_def)
qed

definition nonzero :: "u32 \<Rightarrow> bool" where "nonzero x \<longleftrightarrow> x \<noteq> 0"

definition map_result :: "('a \<Rightarrow> 'b) \<Rightarrow> ('w, goerr + 'a) comp \<Rightarrow> ('w, goerr + 'b) comp" where
  "map_result f m = check_c id m (\<lambda>x. finish (Inr (f x)))"

lemma map_result_Inr: "m w = Some (Done (Inr x), w') \<Longrightarrow> map_result f m w = Some (Done (Inr (f x)), w')"
  by (simp add: map_result_def check_c_Inr)

lemma map_result_Inl: "m w = Some (Done (Inl e), w') \<Longrightarrow> map_result f m w = Some (Done (Inl e), w')"
  by (simp add: map_result_def check_c_Inl)

lemma yields_map_result: "yields m x \<Longrightarrow> yields (map_result f m) (f x)"
  unfolding map_result_def by (erule yields_check_c) (rule yields_finish)

lemma fails_map_result: "fails m e \<Longrightarrow> fails (map_result f m) e"
  unfolding map_result_def by (drule fails_check_c_error [where f = id]) simp

text \<open>A hostcall that writes one value into a buffer of fixed size, without a second attempt.\<close>

definition fixed_buffer :: "nat \<Rightarrow> (u32 \<Rightarrow> ('w, buf_reply) prog) \<Rightarrow> ('w, goerr + string) comp" where
  "fixed_buffer n f = (\<lambda>w.
     let buf = NewWriteBuffer n in
     case f (wb_Cap buf) w of (r, w') \<Rightarrow>
       let buf = host_fill (br_written r) (br_nwritten r) buf in
       (case toError (br_status r) of
          Some e \<Rightarrow> Some (Done (Inl e), w')
        | None \<Rightarrow> (case wb_ToString buf of Panic \<Rightarrow> Some (Panic, w') | Done s \<Rightarrow> Some (Done (Inr s), w'))))"

lemma fixed_buffer_ok:
  assumes "value_host f v" "length v \<le> n" "n < 2 ^ 32"
  shows "\<exists>w'. fixed_buffer n f w = Some (Done (Inr v), w')"
proof -
  obtain r w' where c: "f (wb_Cap (NewWriteBuffer n)) w = (r, w')" by force
  have cap: "unat (wb_Cap (NewWriteBuffer n)) = n"
    using assms(3) by (simp add: wb_Cap_def NewWriteBuffer_def zero_bytes_def unat_of_nat)
  with assms c have r: "br_status r = FastlyStatusOK" "br_written r = v" "unat (br_nwritten r) = length v"
    using value_hostD_fits [of f v "wb_Cap (NewWriteBuffer n)" w r w'] by auto
  then show ?thesis using assms c
    by (simp add: fixed_buffer_def toError_def host_fill_def wb_ToString_def wb_AsBytes_def NewWriteBuffer_def
        zero_bytes_def)
qed

lemma yields_fixed_buffer: "value_host f v \<Longrightarrow> length v \<le> n \<Longrightarrow> n < 2 ^ 32 \<Longrightarrow> yields (fixed_buffer n f) v"
  unfolding yields_def by (blast intro: fixed_buffer_ok)

lemma yields_buffered: "value_host f v \<Longrightarrow> n < 2 ^ 32 \<Longrightarrow> yields (buffered n f) v"
  unfolding yields_def by (blast intro: buffered_ok)

text \<open>
  What a hostcall answers: a result in every world, or one status of a set of error statuses.
\<close>

definition answers :: "FastlyStatus set \<Rightarrow> ('w, FastlyStatus \<times> 'a) prog \<Rightarrow> 'a option \<Rightarrow> bool" where
  "answers silent p v \<longleftrightarrow> (\<forall>w. case v of
       Some x \<Rightarrow> fst (p w) = (FastlyStatusOK, x)
     | None \<Rightarrow> fst (fst (p w)) \<in> silent)"

lemma answers_Some: "answers silent p (Some x) \<Longrightarrow> yields (hostcall p) x"
  unfolding yields_def
proof
  fix w
  assume "answers silent p (Some x)"
  then have "p w = ((FastlyStatusOK, x), snd (p w))" by (simp add: answers_def prod_eq_iff)
  then show "\<exists>w'. hostcall p w = Some (Done (Inr x), w')" by (metis FastlyStatusOK_def hostcall_ok)
qed

lemma answers_one:
  assumes "answers {s} p None" "s \<noteq> FastlyStatusOK" shows "fails (hostcall p) (FastlyError s None)"
  unfolding fails_def
proof
  fix w
  have "p w = ((s, snd (fst (p w))), snd (p w))" using assms(1) by (simp add: answers_def prod_eq_iff)
  then show "\<exists>w'. hostcall p w = Some (Done (Inl (FastlyError s None)), w')"
    using assms(2) by (metis FastlyStatusOK_def hostcall_err)
qed

text \<open>
  The switches by which the packages turn a status into an error of their own: the cases in
  their order, an error for every other status when the switch has one, and the error as it is
  when it carries no status.
\<close>

definition unexpected_with :: "goerr \<Rightarrow> string \<Rightarrow> goerr" where
  "unexpected_with e t = Wrap [] e ('' ('' @ t @ '')'')"

definition status_switch :: "(FastlyStatus \<times> goerr) list \<Rightarrow> goerr option \<Rightarrow> goerr \<Rightarrow> goerr" where
  "status_switch cases unexpected err =
     (case IsFastlyError (Some err) of (status, ok) \<Rightarrow>
        if \<not> ok then err
        else case map_of cases status of
          Some e \<Rightarrow> e
        | None \<Rightarrow> (case unexpected of
            Some u \<Rightarrow> unexpected_with u (FastlyStatus_String status)
          | None \<Rightarrow> err))"

lemma status_switch_FastlyError:
  "status_switch cases unexpected (FastlyError s d) =
     (case map_of cases s of Some e \<Rightarrow> e
      | None \<Rightarrow> (case unexpected of Some u \<Rightarrow> unexpected_with u (FastlyStatus_String s) | None \<Rightarrow> FastlyError s d))"
  by (simp add: status_switch_def IsFastlyError_Some)

text \<open>A read whose error may be ignored; the value is then the zero value.\<close>

definition tolerate :: "(goerr option \<Rightarrow> goerr option) \<Rightarrow> 'a \<Rightarrow> ('w, goerr + 'a) comp \<Rightarrow> ('w, goerr + 'a) comp" where
  "tolerate ignore zero m =
     try_c m (\<lambda>e. case ignore (Some e) of Some e' \<Rightarrow> finish (Inl e') | None \<Rightarrow> finish (Inr zero))
       (\<lambda>x. finish (Inr x))"

lemma yields_tolerate: "yields m x \<Longrightarrow> yields (tolerate ignore z m) x"
  unfolding tolerate_def by (erule yields_try_c) (rule yields_finish)

lemma yields_tolerate_error: "fails m e \<Longrightarrow> ignore (Some e) = None \<Longrightarrow> yields (tolerate ignore z m) z"
  unfolding tolerate_def by (erule yields_try_c_error) (simp add: yields_finish)

text \<open>A hostcall that answers or has nothing, read with tolerance for the latter.\<close>

lemma yields_tolerate_answers:
  assumes "answers silent p v"
    and ignored: "\<And>s. s \<in> silent \<Longrightarrow> s \<noteq> FastlyStatusOK \<and> ignore (Some (FastlyError s None)) = None"
  shows "yields (tolerate ignore z (map_result g (hostcall p))) (case v of Some x \<Rightarrow> g x | None \<Rightarrow> z)"
proof (cases v)
  case (Some x)
  with assms show ?thesis by (auto intro: yields_tolerate yields_map_result answers_Some)
next
  case None
  show ?thesis unfolding yields_def
  proof
    fix w
    obtain s x w' where p: "p w = ((s, x), w')" by (metis surj_pair)
    with assms(1) None have "s \<in> silent" by (auto simp: answers_def dest!: spec [of _ w])
    with ignored have s: "s \<noteq> 0" "ignore (Some (FastlyError s None)) = None" by auto
    with p have "hostcall p w = Some (Done (Inl (FastlyError s None)), w')" by (simp add: hostcall_err)
    then have "map_result g (hostcall p) w = Some (Done (Inl (FastlyError s None)), w')" by (rule map_result_Inl)
    with s None show "\<exists>w'. tolerate ignore z (map_result g (hostcall p)) w
        = Some (Done (Inr (case v of Some x \<Rightarrow> g x | None \<Rightarrow> z)), w')"
      by (simp add: tolerate_def try_c_Inl)
  qed
qed

section \<open>The host\<close>

text \<open>
  The hostcalls, and one choice of the runtime: the order in which a loop ranges over a map, as the
  ranks of its keys.  Go leaves this order open, also from one loop to the next.
\<close>

record 'w http_calls =
  c_resp_new :: "('w, FastlyStatus \<times> handle) prog"
  c_resp_close :: "handle \<Rightarrow> ('w, FastlyStatus \<times> unit) prog"
  c_resp_header_names_get :: "handle \<Rightarrow> 'w multiValueHostcall"
  c_resp_header_value_get :: "handle \<Rightarrow> string \<Rightarrow> u32 \<Rightarrow> ('w, buf_reply) prog"
  c_resp_header_values_get :: "handle \<Rightarrow> string \<Rightarrow> 'w multiValueHostcall"
  c_resp_header_values_set :: "handle \<Rightarrow> string \<Rightarrow> string \<Rightarrow> ('w, FastlyStatus \<times> unit) prog"
  c_resp_header_remove :: "handle \<Rightarrow> string \<Rightarrow> ('w, FastlyStatus \<times> unit) prog"
  c_resp_status_get :: "handle \<Rightarrow> ('w, FastlyStatus \<times> u32) prog"
  c_resp_status_set :: "handle \<Rightarrow> u32 \<Rightarrow> ('w, FastlyStatus \<times> unit) prog"
  c_resp_framing_headers_mode_set :: "handle \<Rightarrow> u32 \<Rightarrow> ('w, FastlyStatus \<times> unit) prog"
  c_resp_send_downstream :: "handle \<Rightarrow> handle \<Rightarrow> u32 \<Rightarrow> ('w, FastlyStatus \<times> unit) prog"
  c_body_new :: "('w, FastlyStatus \<times> handle) prog"
  c_body_append :: "handle \<Rightarrow> handle \<Rightarrow> ('w, FastlyStatus \<times> unit) prog"
  c_body_read :: "handle \<Rightarrow> u32 \<Rightarrow> ('w, buf_reply) prog"
  c_body_write :: "handle \<Rightarrow> string \<Rightarrow> u32 \<Rightarrow> ('w, FastlyStatus \<times> u32) prog"
  c_body_close :: "handle \<Rightarrow> ('w, FastlyStatus \<times> unit) prog"
  c_body_abandon :: "handle \<Rightarrow> ('w, FastlyStatus \<times> unit) prog"
  c_body_known_length :: "handle \<Rightarrow> ('w, FastlyStatus \<times> u64) prog"
  c_body_trailer_append :: "handle \<Rightarrow> string \<Rightarrow> string \<Rightarrow> ('w, FastlyStatus \<times> unit) prog"
  c_body_trailer_names_get :: "handle \<Rightarrow> 'w multiValueHostcall"
  c_body_trailer_values_get :: "handle \<Rightarrow> string \<Rightarrow> 'w multiValueHostcall"
  c_req_new :: "('w, FastlyStatus \<times> handle) prog"
  c_req_method_get :: "handle \<Rightarrow> u32 \<Rightarrow> ('w, buf_reply) prog"
  c_req_method_set :: "handle \<Rightarrow> string \<Rightarrow> ('w, FastlyStatus \<times> unit) prog"
  c_req_uri_get :: "handle \<Rightarrow> u32 \<Rightarrow> ('w, buf_reply) prog"
  c_req_uri_set :: "handle \<Rightarrow> string \<Rightarrow> ('w, FastlyStatus \<times> unit) prog"
  c_req_header_values_set :: "handle \<Rightarrow> string \<Rightarrow> string \<Rightarrow> ('w, FastlyStatus \<times> unit) prog"
  c_req_cache_override_v2_set :: "handle \<Rightarrow> u32 \<Rightarrow> u32 \<Rightarrow> u32 \<Rightarrow> string \<Rightarrow> ('w, FastlyStatus \<times> unit) prog"
  c_req_auto_decompress_response_set :: "handle \<Rightarrow> u32 \<Rightarrow> ('w, FastlyStatus \<times> unit) prog"
  c_req_framing_headers_mode_set :: "handle \<Rightarrow> u32 \<Rightarrow> ('w, FastlyStatus \<times> unit) prog"
  c_req_send_v3 :: "handle \<Rightarrow> handle \<Rightarrow> string \<Rightarrow> SendErrorDetail \<Rightarrow>
      ('w, FastlyStatus \<times> SendErrorDetail \<times> handle \<times> handle) prog"
  c_req_send_async_v2 :: "handle \<Rightarrow> handle \<Rightarrow> string \<Rightarrow> u32 \<Rightarrow> ('w, FastlyStatus \<times> handle) prog"
  c_req_send_async_streaming :: "handle \<Rightarrow> handle \<Rightarrow> string \<Rightarrow> ('w, FastlyStatus \<times> handle) prog"
  c_pending_req_poll_v2 :: "handle \<Rightarrow> SendErrorDetail \<Rightarrow>
      ('w, FastlyStatus \<times> SendErrorDetail \<times> u32 \<times> handle \<times> handle) prog"
  c_pending_req_wait_v2 :: "handle \<Rightarrow> SendErrorDetail \<Rightarrow> handle \<Rightarrow> handle \<Rightarrow>
      ('w, FastlyStatus \<times> SendErrorDetail \<times> handle \<times> handle) prog"
  c_range_order :: "'w \<Rightarrow> string \<Rightarrow> nat"

text \<open>The entries of a map in the order in which a loop ranges over them: some order, each entry once.\<close>

definition map_range :: "'w http_calls \<Rightarrow> 'w \<Rightarrow> (string \<times> 'v) list \<Rightarrow> (string \<times> 'v) list" where
  "map_range host w m = sort_key (\<lambda>(k, v). c_range_order host w k) m"

lemma map_range_nil [simp]: "map_range host w [] = []"
  by (simp add: map_range_def)

lemma set_map_range [simp]: "set (map_range host w m) = set m"
  by (simp add: map_range_def)

lemma distinct_map_range: "distinct (map fst m) \<Longrightarrow> distinct (map fst (map_range host w m))"
  by (simp add: map_range_def distinct_map)

lemma map_of_map_range: "distinct (map fst m) \<Longrightarrow> map_of (map_range host w m) = map_of m"
  by (rule map_of_inject_set [THEN iffD2]) (simp_all add: distinct_map_range)

section \<open>Bodies\<close>

record HTTPBody =
  b_h :: handle
  b_closable :: bool

definition bodyWriteEndBack :: u32 where [simp]: "bodyWriteEndBack = 0"

definition NewHTTPBody :: "'w http_calls \<Rightarrow> ('w, goerr + HTTPBody) comp" where
  "NewHTTPBody host =
     check_c id (hostcall (c_body_new host))
       (\<lambda>h. finish (Inr \<lparr>b_h = h, b_closable = False\<rparr>))"

definition HTTPBody_Append :: "'w http_calls \<Rightarrow> HTTPBody \<Rightarrow> HTTPBody \<Rightarrow> ('w, goerr + unit) comp" where
  "HTTPBody_Append host b other = hostcall (c_body_append host (b_h b) (b_h other))"

text \<open>
  \<open>Read\<close> fills the slice \<open>p\<close> and returns the count, \<open>io.EOF\<close> for none; here the bytes read.
\<close>

definition EOF :: goerr where "EOF = Sentinel ''io'' ''EOF''"

definition HTTPBody_Read :: "'w http_calls \<Rightarrow> HTTPBody \<Rightarrow> nat \<Rightarrow> ('w, goerr + string) comp" where
  "HTTPBody_Read host b plen = (\<lambda>w.
     case c_body_read host (b_h b) (of_nat plen) w of (r, w') \<Rightarrow>
       (case toError (br_status r) of
          Some e \<Rightarrow> Some (Done (Inl e), w')
        | None \<Rightarrow>
            if br_nwritten r = 0 then Some (Done (Inl EOF), w')
            else Some (Done (Inr (take (unat (br_nwritten r)) (br_written r))), w')))"

text \<open>The loop of \<open>Write\<close> from offset \<open>n\<close>; a slice beyond the end of \<open>p\<close> cannot occur, the loop ends first.\<close>

partial_function (option) body_write_from ::
  "'w http_calls \<Rightarrow> handle \<Rightarrow> string \<Rightarrow> nat \<Rightarrow> 'w \<Rightarrow> ((nat \<times> goerr option) outcome \<times> 'w) option" where
  "body_write_from host h p n w =
     (if \<not> n < length p then Some (Done (n, None), w)
      else case c_body_write host h (drop n p) bodyWriteEndBack w of ((s, nWritten), w') \<Rightarrow>
        (case toError s of
           Some e \<Rightarrow> Some (Done (n, Some e), w')
         | None \<Rightarrow> body_write_from host h p (n + unat nWritten) w'))"

definition HTTPBody_Write :: "'w http_calls \<Rightarrow> HTTPBody \<Rightarrow> string \<Rightarrow> ('w, nat \<times> goerr option) comp" where
  "HTTPBody_Write host b p = body_write_from host (b_h b) p 0"

definition HTTPBody_Close :: "'w http_calls \<Rightarrow> HTTPBody \<Rightarrow> ('w, goerr + unit) comp" where
  "HTTPBody_Close host b =
     (if \<not> b_closable b then finish (Inr ()) else hostcall (c_body_close host (b_h b)))"

definition HTTPBody_Abandon :: "'w http_calls \<Rightarrow> HTTPBody \<Rightarrow> ('w, goerr + unit) comp" where
  "HTTPBody_Abandon host b =
     (if \<not> b_closable b then finish (Inr ()) else hostcall (c_body_abandon host (b_h b)))"

definition HTTPBody_Length :: "'w http_calls \<Rightarrow> HTTPBody \<Rightarrow> ('w, goerr + u64) comp" where
  "HTTPBody_Length host b = hostcall (c_body_known_length host (b_h b))"

definition HTTPBody_TrailerAppend :: "'w http_calls \<Rightarrow> HTTPBody \<Rightarrow> string \<Rightarrow> string \<Rightarrow> ('w, goerr + unit) comp" where
  "HTTPBody_TrailerAppend host b name value = hostcall (c_body_trailer_append host (b_h b) name value)"

section \<open>Responses\<close>

definition NewHTTPResponse :: "'w http_calls \<Rightarrow> ('w, goerr + handle) comp" where
  "NewHTTPResponse host = hostcall (c_resp_new host)"

definition HTTPResponse_Close :: "'w http_calls \<Rightarrow> handle \<Rightarrow> ('w, goerr + unit) comp" where
  "HTTPResponse_Close host h = hostcall (c_resp_close host h)"

definition HTTPResponse_GetHeaderValue :: "'w http_calls \<Rightarrow> handle \<Rightarrow> string \<Rightarrow> ('w, goerr + string) comp" where
  "HTTPResponse_GetHeaderValue host h name =
     buffered DefaultLargeBufLen (c_resp_header_value_get host h name)"

text \<open>Header values cross the boundary as one buffer, each value ended by a NUL byte.\<close>

definition nul_values :: "string list \<Rightarrow> string" where
  "nul_values values = concat (map (\<lambda>value. value @ [CHR 0x00]) values)"

definition HTTPResponse_SetHeaderValues ::
  "'w http_calls \<Rightarrow> handle \<Rightarrow> string \<Rightarrow> string list \<Rightarrow> ('w, goerr + unit) comp" where
  "HTTPResponse_SetHeaderValues host h name values =
     hostcall (c_resp_header_values_set host h name (nul_values values))"

definition HTTPResponse_RemoveHeader :: "'w http_calls \<Rightarrow> handle \<Rightarrow> string \<Rightarrow> ('w, goerr + unit) comp" where
  "HTTPResponse_RemoveHeader host h name = hostcall (c_resp_header_remove host h name)"

definition HTTPResponse_GetStatusCode :: "'w http_calls \<Rightarrow> handle \<Rightarrow> ('w, goerr + int) comp" where
  "HTTPResponse_GetStatusCode host h =
     check_c id (hostcall (c_resp_status_get host h)) (\<lambda>status. finish (Inr (uint status)))"

definition HTTPResponse_SetStatusCode :: "'w http_calls \<Rightarrow> handle \<Rightarrow> int \<Rightarrow> ('w, goerr + unit) comp" where
  "HTTPResponse_SetStatusCode host h code = hostcall (c_resp_status_set host h (of_int code))"

definition framingHeadersModeAutomatic :: u32 where [simp]: "framingHeadersModeAutomatic = 0"
definition framingHeadersModeManuallyFromHeaders :: u32 where [simp]: "framingHeadersModeManuallyFromHeaders = 1"

definition framing_mode :: "bool \<Rightarrow> u32" where
  "framing_mode manual =
     (if manual then framingHeadersModeManuallyFromHeaders else framingHeadersModeAutomatic)"

definition HTTPResponse_SetFramingHeadersMode :: "'w http_calls \<Rightarrow> handle \<Rightarrow> bool \<Rightarrow> ('w, goerr + unit) comp" where
  "HTTPResponse_SetFramingHeadersMode host h manual =
     hostcall (c_resp_framing_headers_mode_set host h (framing_mode manual))"

text \<open>On success of a streaming send the body becomes closable; the caller keeps the returned body.\<close>

definition HTTPResponse_SendDownstream ::
  "'w http_calls \<Rightarrow> handle \<Rightarrow> HTTPBody \<Rightarrow> bool \<Rightarrow> ('w, goerr + HTTPBody) comp" where
  "HTTPResponse_SendDownstream host h responseBody stream =
     check_c id (hostcall (c_resp_send_downstream host h (b_h responseBody) (if stream then 1 else 0)))
       (\<lambda>_. finish (Inr (if stream then responseBody\<lparr>b_closable := True\<rparr> else responseBody)))"

section \<open>Requests\<close>

definition NewHTTPRequest :: "'w http_calls \<Rightarrow> ('w, goerr + handle) comp" where
  "NewHTTPRequest host = hostcall (c_req_new host)"

definition HTTPRequest_GetMethod :: "'w http_calls \<Rightarrow> handle \<Rightarrow> ('w, goerr + string) comp" where
  "HTTPRequest_GetMethod host h = buffered DefaultSmallBufLen (c_req_method_get host h)"

definition HTTPRequest_SetMethod :: "'w http_calls \<Rightarrow> handle \<Rightarrow> string \<Rightarrow> ('w, goerr + unit) comp" where
  "HTTPRequest_SetMethod host h method = hostcall (c_req_method_set host h method)"

definition HTTPRequest_GetURI :: "'w http_calls \<Rightarrow> handle \<Rightarrow> ('w, goerr + string) comp" where
  "HTTPRequest_GetURI host h = buffered DefaultMediumBufLen (c_req_uri_get host h)"

definition HTTPRequest_SetURI :: "'w http_calls \<Rightarrow> handle \<Rightarrow> string \<Rightarrow> ('w, goerr + unit) comp" where
  "HTTPRequest_SetURI host h uri = hostcall (c_req_uri_set host h uri)"

definition HTTPRequest_SetHeaderValues ::
  "'w http_calls \<Rightarrow> handle \<Rightarrow> string \<Rightarrow> string list \<Rightarrow> ('w, goerr + unit) comp" where
  "HTTPRequest_SetHeaderValues host h name values =
     hostcall (c_req_header_values_set host h name (nul_values values))"

definition HTTPRequest_SetFramingHeadersMode :: "'w http_calls \<Rightarrow> handle \<Rightarrow> bool \<Rightarrow> ('w, goerr + unit) comp" where
  "HTTPRequest_SetFramingHeadersMode host h manual =
     hostcall (c_req_framing_headers_mode_set host h (framing_mode manual))"

definition contentsEncodingsGzip :: u32 where [simp]: "contentsEncodingsGzip = 1"

definition HTTPRequest_SetAutoDecompressResponse :: "'w http_calls \<Rightarrow> handle \<Rightarrow> bool \<Rightarrow> ('w, goerr + unit) comp" where
  "HTTPRequest_SetAutoDecompressResponse host h gzip =
     hostcall (c_req_auto_decompress_response_set host h (if gzip then 0 OR contentsEncodingsGzip else 0))"

definition cacheOverrideTagNone :: u32 where [simp]: "cacheOverrideTagNone = 0"
definition cacheOverrideTagPass :: u32 where [simp]: "cacheOverrideTagPass = 1"
definition cacheOverrideTagTTL :: u32 where [simp]: "cacheOverrideTagTTL = 2"
definition cacheOverrideTagStaleWhileRevalidate :: u32 where [simp]: "cacheOverrideTagStaleWhileRevalidate = 4"
definition cacheOverrideTagPCI :: u32 where [simp]: "cacheOverrideTagPCI = 8"

record CacheOverrideOptions =
  co_Pass :: bool
  co_PCI :: bool
  co_TTL :: u32
  co_StaleWhileRevalidate :: u32
  co_SurrogateKey :: string

definition cache_override_tag :: "CacheOverrideOptions \<Rightarrow> u32" where
  "cache_override_tag options =
     (let tag = 0 :: u32;
          tag = (if co_Pass options then tag OR cacheOverrideTagPass else tag);
          tag = (if co_PCI options then tag OR cacheOverrideTagPCI else tag);
          tag = (if 0 < co_TTL options then tag OR cacheOverrideTagTTL else tag);
          tag = (if 0 < co_StaleWhileRevalidate options
                 then tag OR cacheOverrideTagStaleWhileRevalidate else tag)
      in tag)"

definition HTTPRequest_SetCacheOverride ::
  "'w http_calls \<Rightarrow> handle \<Rightarrow> CacheOverrideOptions \<Rightarrow> ('w, goerr + unit) comp" where
  "HTTPRequest_SetCacheOverride host h options =
     hostcall (c_req_cache_override_v2_set host h (cache_override_tag options) (co_TTL options)
       (co_StaleWhileRevalidate options) (co_SurrogateKey options))"

definition HTTPRequest_SendV3 ::
  "'w http_calls \<Rightarrow> handle \<Rightarrow> HTTPBody \<Rightarrow> string \<Rightarrow> ('w, goerr + handle \<times> HTTPBody) comp" where
  "HTTPRequest_SendV3 host h requestBody backend =
     check_c id (send_hostcall (c_req_send_v3 host h (b_h requestBody) backend newSendErrorDetail))
       (\<lambda>(resp, body). finish (Inr (resp, \<lparr>b_h = body, b_closable = False\<rparr>)))"

definition HTTPRequest_SendAsyncV2 ::
  "'w http_calls \<Rightarrow> handle \<Rightarrow> HTTPBody \<Rightarrow> string \<Rightarrow> bool \<Rightarrow> ('w, goerr + handle) comp" where
  "HTTPRequest_SendAsyncV2 host h requestBody backend streaming =
     hostcall (c_req_send_async_v2 host h (b_h requestBody) backend (if streaming then 1 else 0))"

definition HTTPRequest_SendAsyncStreaming ::
  "'w http_calls \<Rightarrow> handle \<Rightarrow> HTTPBody \<Rightarrow> string \<Rightarrow> ('w, goerr + handle \<times> HTTPBody) comp" where
  "HTTPRequest_SendAsyncStreaming host h requestBody backend =
     check_c id (hostcall (c_req_send_async_streaming host h (b_h requestBody) backend))
       (\<lambda>pending. finish (Inr (pending, requestBody\<lparr>b_closable := True\<rparr>)))"

definition PendingRequest_Poll ::
  "'w http_calls \<Rightarrow> handle \<Rightarrow> ('w, goerr + (handle \<times> HTTPBody) option) comp" where
  "PendingRequest_Poll host h =
     check_c id (send_hostcall (c_pending_req_poll_v2 host h newSendErrorDetail))
       (\<lambda>(isDone, resp, body).
          finish (Inr (if 0 < isDone then Some (resp, \<lparr>b_h = body, b_closable = False\<rparr>) else None)))"

definition PendingRequest_Wait ::
  "'w http_calls \<Rightarrow> handle \<Rightarrow> ('w, goerr + handle \<times> HTTPBody) comp" where
  "PendingRequest_Wait host h =
     check_c (annotate ''response'') (NewHTTPResponse host) (\<lambda>resp.
     check_c (annotate ''response body'') (NewHTTPBody host) (\<lambda>respBody.
     check_c id (send_hostcall (c_pending_req_wait_v2 host h newSendErrorDetail resp (b_h respBody)))
       (\<lambda>(resp, body). finish (Inr (resp, respBody\<lparr>b_h := body\<rparr>)))))"

section \<open>A host that accepts everything\<close>

definition accept :: "'a \<Rightarrow> ('w, FastlyStatus \<times> 'a) prog" where
  "accept x = (\<lambda>w. ((FastlyStatusOK, x), w))"

text \<open>A concrete host for witnesses: every call succeeds, a write takes all bytes, nothing is stored.\<close>

definition accepting_host :: "'w http_calls" where
  "accepting_host =
     \<lparr>c_resp_new = accept 1,
      c_resp_close = (\<lambda>h. accept ()),
      c_resp_header_names_get = (\<lambda>h. greedy_host []),
      c_resp_header_value_get = (\<lambda>h k. one_value_host []),
      c_resp_header_values_get = (\<lambda>h k. greedy_host []),
      c_resp_header_values_set = (\<lambda>h k v. accept ()),
      c_resp_header_remove = (\<lambda>h k. accept ()),
      c_resp_status_get = (\<lambda>h. accept 200),
      c_resp_status_set = (\<lambda>h s. accept ()),
      c_resp_framing_headers_mode_set = (\<lambda>h m. accept ()),
      c_resp_send_downstream = (\<lambda>h b s. accept ()),
      c_body_new = accept 2,
      c_body_append = (\<lambda>d s. accept ()),
      c_body_read = (\<lambda>h n. one_value_host [] n),
      c_body_write = (\<lambda>h p e. accept (of_nat (length p))),
      c_body_close = (\<lambda>h. accept ()),
      c_body_abandon = (\<lambda>h. accept ()),
      c_body_known_length = (\<lambda>h. accept 0),
      c_body_trailer_append = (\<lambda>h k v. accept ()),
      c_body_trailer_names_get = (\<lambda>h. greedy_host []),
      c_body_trailer_values_get = (\<lambda>h k. greedy_host []),
      c_req_new = accept 3,
      c_req_method_get = (\<lambda>h. one_value_host ''GET''),
      c_req_method_set = (\<lambda>h m. accept ()),
      c_req_uri_get = (\<lambda>h. one_value_host ''/''),
      c_req_uri_set = (\<lambda>h u. accept ()),
      c_req_header_values_set = (\<lambda>h k v. accept ()),
      c_req_cache_override_v2_set = (\<lambda>h t a s k. accept ()),
      c_req_auto_decompress_response_set = (\<lambda>h e. accept ()),
      c_req_framing_headers_mode_set = (\<lambda>h m. accept ()),
      c_req_send_v3 = (\<lambda>h b n d. accept (d, 1, 2)),
      c_req_send_async_v2 = (\<lambda>h b n s. accept 4),
      c_req_send_async_streaming = (\<lambda>h b n. accept 4),
      c_pending_req_poll_v2 = (\<lambda>h d. accept (d, 1, 1, 2)),
      c_pending_req_wait_v2 = (\<lambda>h d r b. accept (d, r, b)),
      c_range_order = (\<lambda>w k. 0)\<rparr>"

end
