(* ===== verification/OptionMasks.thy ===== *)
theory OptionMasks
  imports HttpABI
begin

text \<open>
  The pattern of every option block that is passed to the host: a record of fields and a
  mask that says which of them are set.  The interface \<open>masked_option\<close> states what a setter
  of one field promises; the option types of the SDK interpret it for each of their setters.
\<close>

section \<open>Strings in an option block\<close>

text \<open>Strings the host can be told the length of.\<close>

definition sized :: "string \<Rightarrow> bool" where
  "sized s \<longleftrightarrow> length s < 2 ^ 32"

text \<open>
  A string is passed as a pointer and a 32-bit length; the host reads as many bytes as the
  length says.
\<close>

type_synonym sent_string = "string \<times> u32"

definition send_string :: "string \<Rightarrow> sent_string" where
  "send_string s = (s, of_nat (length s))"

definition received :: "sent_string \<Rightarrow> string" where
  "received x = take (unat (snd x)) (fst x)"

lemma received_send [simp]: "sized s \<Longrightarrow> received (send_string s) = s"
  by (simp add: received_def send_string_def sized_def unat_of_nat)

lemma received_empty [simp]: "received ([], n) = []"
  by (simp add: received_def)

section \<open>The interface\<close>

locale masked_option =
  fixes mask :: "'o \<Rightarrow> u32"
    and flag :: u32
    and set_opt :: "'v \<Rightarrow> 'o \<Rightarrow> 'o"
    and read_opt :: "'o \<Rightarrow> 'v"
    and valid_opt :: "'v \<Rightarrow> bool"
  assumes mask_set: "mask (set_opt v x) = mask x OR flag"
    and read_set: "valid_opt v \<Longrightarrow> read_opt (set_opt v x) = v"
    and set_set: "set_opt v (set_opt u x) = set_opt v x"
begin

lemma flag_is_set: "mask (set_opt v x) AND flag = flag"
  by (simp add: mask_set word_or_and_absorb)

lemma flags_kept: "mask x AND f = f \<Longrightarrow> mask (set_opt v x) AND f = f"
  by (simp add: mask_set word_or_keep)

lemma other_flags: "f AND flag = 0 \<Longrightarrow> mask (set_opt v x) AND f = mask x AND f"
  by (simp add: mask_set word_or_disjoint)

lemma last_set_wins: "vs \<noteq> [] \<Longrightarrow> fold set_opt vs x = set_opt (last vs) x"
proof (induction vs rule: rev_induct)
  case (snoc v vs)
  then show ?case by (cases "vs = []") (simp_all add: set_set)
qed simp

lemma read_last: "vs \<noteq> [] \<Longrightarrow> valid_opt (last vs) \<Longrightarrow> read_opt (fold set_opt vs x) = last vs"
  by (simp add: last_set_wins read_set)

end

text \<open>A boolean option that is only a bit of the mask, switched on and off.\<close>

locale flag_option =
  fixes mask :: "'o \<Rightarrow> u32"
    and flag :: u32
    and set_flag :: "bool \<Rightarrow> 'o \<Rightarrow> 'o"
  assumes mask_set_flag: "mask (set_flag b x) = (if b then mask x OR flag else mask x AND NOT flag)"
    and flag_nonzero: "flag \<noteq> 0"
begin

lemma flag_reads_back: "mask (set_flag b x) AND flag = flag \<longleftrightarrow> b"
  using flag_nonzero by (auto simp: mask_set_flag word_or_and_absorb word_clear_and)

lemma other_flags: "f AND flag = 0 \<Longrightarrow> mask (set_flag b x) AND f = mask x AND f"
  by (simp add: mask_set_flag word_or_disjoint word_clear_disjoint)

end

end
