(* ===== verification/Durations.thy ===== *)
theory Durations
  imports GoStd "HOL-Library.Signed_Division"
begin

text \<open>
  \<open>time.Duration\<close> as the option builders use it: a count of nanoseconds (an \<open>int64\<close> in Go, an
  \<open>int\<close> here), its conversions to milliseconds and seconds, and what is left of them in a
  32-bit field.
\<close>

section \<open>Durations\<close>

type_synonym Duration = int

definition Millisecond :: Duration where [simp]: "Millisecond = 1000000"
definition Second :: Duration where [simp]: "Second = 1000000000"

definition Milliseconds :: "Duration \<Rightarrow> int" where
  "Milliseconds d = d sdiv 1000000"

text \<open>\<open>prim.U32(t.Milliseconds())\<close> keeps the low 32 bits.\<close>

definition u32_ms :: "Duration \<Rightarrow> u32" where
  "u32_ms d = of_int (Milliseconds d)"

text \<open>
  \<open>prim.U32(t.Seconds())\<close> converts a \<open>float64\<close>.  For fewer than \<open>2 ^ 23\<close> seconds the fraction
  of a nanosecond is exact enough for truncation to give the whole seconds; for other values
  (negative, or so large that the fraction rounds up or the value does not fit) the result is
  what the parameter \<open>float_u32\<close> gives, as the Go specification leaves it to the implementation.
\<close>

definition u32_seconds :: "(Duration \<Rightarrow> u32) \<Rightarrow> Duration \<Rightarrow> u32" where
  "u32_seconds float_u32 d =
     (if 0 \<le> d \<and> d < 8388608 * Second then of_int (d div Second) else float_u32 d)"

lemma sdiv_pos: "0 \<le> (a :: int) \<Longrightarrow> 0 < b \<Longrightarrow> a sdiv b = a div b"
  by (cases "a = 0") (simp_all add: signed_divide_int_def sgn_if)

lemma u32_ms_exact:
  assumes "0 \<le> d" and "d < 4294967296 * Millisecond"
  shows "uint (u32_ms d) = d div Millisecond"
proof -
  have "d div 1000000 < 4294967296" using assms by (simp add: div_less_iff_less_mult)
  moreover have "0 \<le> d div 1000000" using assms(1) by (simp add: pos_imp_zdiv_nonneg_iff)
  ultimately show ?thesis
    using assms by (simp add: u32_ms_def Milliseconds_def sdiv_pos uint_word_of_int)
qed

lemma u32_seconds_exact:
  assumes "0 \<le> d" and "d < 8388608 * Second"
  shows "uint (u32_seconds f d) = d div Second"
proof -
  have "d div 1000000000 < 8388608" using assms by (simp add: div_less_iff_less_mult)
  moreover have "0 \<le> d div 1000000000" using assms(1) by (simp add: pos_imp_zdiv_nonneg_iff)
  ultimately show ?thesis using assms by (simp add: u32_seconds_def uint_word_of_int)
qed

text \<open>Durations a millisecond field can hold without loss.\<close>

definition whole_ms :: "Duration \<Rightarrow> bool" where
  "whole_ms d \<longleftrightarrow> 0 \<le> d \<and> d < 4294967296 * Millisecond \<and> d mod Millisecond = 0"

lemma whole_ms_u32: "whole_ms d \<Longrightarrow> uint (u32_ms d) * 1000000 = d"
  using u32_ms_exact [of d] by (auto simp: whole_ms_def)

end
