(* ===== verification/RequestABI.thy ===== *)
theory RequestABI
  imports OptionMasks Durations
begin

text \<open>
  The rest of \<open>internal/abi/fastly/http_guest.go\<close>: what the wrappers of \<open>HttpABI\<close> leave out, namely
  the downstream request (its client, its TLS data, what the edge knows about bots and proxies),
  the hand-over of a request to a proxy, header edits by name and protocol versions, and the
  option blocks of \<open>types.go\<close> these calls take.
\<close>

section \<open>Protocol versions\<close>

type_synonym HTTPVersion = u32

definition HTTPVersionHTTP09 :: HTTPVersion where [simp]: "HTTPVersionHTTP09 = 0"
definition HTTPVersionHTTP10 :: HTTPVersion where [simp]: "HTTPVersionHTTP10 = 1"
definition HTTPVersionHTTP11 :: HTTPVersion where [simp]: "HTTPVersionHTTP11 = 2"
definition HTTPVersionH2 :: HTTPVersion where [simp]: "HTTPVersionH2 = 3"
definition HTTPVersionH3 :: HTTPVersion where [simp]: "HTTPVersionH3 = 4"

definition splat :: "HTTPVersion \<Rightarrow> goerr + string \<times> int \<times> int" where
  "splat v =
     (if v = HTTPVersionHTTP09 then Inr (''HTTP/0.9'', 0, 9)
      else if v = HTTPVersionHTTP10 then Inr (''HTTP/1.0'', 1, 0)
      else if v = HTTPVersionHTTP11 then Inr (''HTTP/1.1'', 1, 1)
      else if v = HTTPVersionH2 then Inr (''HTTP/2.0'', 2, 0)
      else if v = HTTPVersionH3 then Inr (''HTTP/3.0'', 3, 0)
      else Inl (Text (''unknown protocol version '' @ nat_str (unat v))))"

section \<open>Option blocks\<close>

definition nextRequestOptionsMaskTimeout :: u32 where [simp]: "nextRequestOptionsMaskTimeout = 2"

record NextRequestOptions =
  nr_mask :: u32
  nr_timeoutMs :: u64

definition zero_next_request_options :: NextRequestOptions where
  "zero_next_request_options = \<lparr>nr_mask = 0, nr_timeoutMs = 0\<rparr>"

definition nr_Timeout :: "Duration \<Rightarrow> NextRequestOptions \<Rightarrow> NextRequestOptions" where
  "nr_Timeout t n =
     n\<lparr>nr_mask := nr_mask n OR nextRequestOptionsMaskTimeout, nr_timeoutMs := of_int (Milliseconds t)\<rparr>"

interpretation nr_to: masked_option nr_mask nextRequestOptionsMaskTimeout nr_Timeout
    "\<lambda>n. uint (nr_timeoutMs n) * Millisecond" "\<lambda>d. 0 \<le> d \<and> d < 18446744073709551616 * Millisecond \<and> Millisecond dvd d"
proof (unfold_locales)
  fix d :: Duration and n :: NextRequestOptions
  assume d: "0 \<le> d \<and> d < 18446744073709551616 * Millisecond \<and> Millisecond dvd d"
  then have "d < 18446744073709551616 * 1000000" "0 \<le> d" by simp_all
  then have "d div 1000000 < 18446744073709551616" "0 \<le> d div 1000000" by linarith+
  with d show "uint (nr_timeoutMs (nr_Timeout d n)) * Millisecond = d"
    by (simp add: nr_Timeout_def Milliseconds_def sdiv_pos uint_word_of_int)
qed (simp_all add: nr_Timeout_def)

definition inspectInfoFlagCorp :: u32 where [simp]: "inspectInfoFlagCorp = 2"
definition inspectInfoFlagWorkspace :: u32 where [simp]: "inspectInfoFlagWorkspace = 4"
definition inspectInfoFlagOverrideClientIP :: u32 where [simp]: "inspectInfoFlagOverrideClientIP = 8"

record InspectInfo =
  in_mask :: u32
  in_corp :: sent_string
  in_workspace :: sent_string
  in_overrideClientIP :: sent_string

definition zero_inspect_info :: InspectInfo where
  "zero_inspect_info = \<lparr>in_mask = 0, in_corp = ([], 0), in_workspace = ([], 0), in_overrideClientIP = ([], 0)\<rparr>"

definition in_Corp :: "string \<Rightarrow> InspectInfo \<Rightarrow> InspectInfo" where
  "in_Corp v i = i\<lparr>in_mask := in_mask i OR inspectInfoFlagCorp, in_corp := send_string v\<rparr>"

definition in_Workspace :: "string \<Rightarrow> InspectInfo \<Rightarrow> InspectInfo" where
  "in_Workspace v i = i\<lparr>in_mask := in_mask i OR inspectInfoFlagWorkspace, in_workspace := send_string v\<rparr>"

definition in_OverrideClientIP :: "string \<Rightarrow> InspectInfo \<Rightarrow> InspectInfo" where
  "in_OverrideClientIP v i =
     i\<lparr>in_mask := in_mask i OR inspectInfoFlagOverrideClientIP, in_overrideClientIP := send_string v\<rparr>"

interpretation in_co: masked_option in_mask inspectInfoFlagCorp in_Corp "\<lambda>i. received (in_corp i)" sized
  by unfold_locales (simp_all add: in_Corp_def)

interpretation in_ws: masked_option in_mask inspectInfoFlagWorkspace in_Workspace "\<lambda>i. received (in_workspace i)" sized
  by unfold_locales (simp_all add: in_Workspace_def)

interpretation in_ip: masked_option in_mask inspectInfoFlagOverrideClientIP in_OverrideClientIP
    "\<lambda>i. received (in_overrideClientIP i)" sized
  by unfold_locales (simp_all add: in_OverrideClientIP_def)

definition imageOptimizerTransformConfigOptionsSDKClaimsOpts :: u32 where
  [simp]: "imageOptimizerTransformConfigOptionsSDKClaimsOpts = 2"

section \<open>The host\<close>

record 'w request_calls =
  rq_close :: "handle \<Rightarrow> ('w, FastlyStatus \<times> unit) prog"
  rq_body_downstream_get :: "('w, FastlyStatus \<times> handle \<times> handle) prog"
  rq_header_names_get :: "handle \<Rightarrow> 'w multiValueHostcall"
  rq_header_value_get :: "handle \<Rightarrow> string \<Rightarrow> u32 \<Rightarrow> ('w, buf_reply) prog"
  rq_header_values_get :: "handle \<Rightarrow> string \<Rightarrow> 'w multiValueHostcall"
  rq_header_insert :: "handle \<Rightarrow> string \<Rightarrow> string \<Rightarrow> ('w, FastlyStatus \<times> unit) prog"
  rq_header_append :: "handle \<Rightarrow> string \<Rightarrow> string \<Rightarrow> ('w, FastlyStatus \<times> unit) prog"
  rq_header_remove :: "handle \<Rightarrow> string \<Rightarrow> ('w, FastlyStatus \<times> unit) prog"
  rq_version_get :: "handle \<Rightarrow> ('w, FastlyStatus \<times> HTTPVersion) prog"
  rq_version_set :: "handle \<Rightarrow> HTTPVersion \<Rightarrow> ('w, FastlyStatus \<times> unit) prog"
  rq_send_v2 :: "handle \<Rightarrow> handle \<Rightarrow> string \<Rightarrow> SendErrorDetail \<Rightarrow>
      ('w, FastlyStatus \<times> SendErrorDetail \<times> handle \<times> handle) prog"
  rq_send_async :: "handle \<Rightarrow> handle \<Rightarrow> string \<Rightarrow> ('w, FastlyStatus \<times> handle) prog"
  rq_image_opto :: "handle \<Rightarrow> handle \<Rightarrow> string \<Rightarrow> u32 \<Rightarrow> sent_string \<Rightarrow>
      ('w, FastlyStatus \<times> handle \<times> handle) prog"
  rq_redirect_to_websocket_proxy_v2 :: "handle \<Rightarrow> string \<Rightarrow> ('w, FastlyStatus \<times> unit) prog"
  rq_redirect_to_websocket_proxy :: "string \<Rightarrow> ('w, FastlyStatus \<times> unit) prog"
  rq_redirect_to_grip_proxy_v2 :: "handle \<Rightarrow> string \<Rightarrow> ('w, FastlyStatus \<times> unit) prog"
  rq_redirect_to_grip_proxy :: "string \<Rightarrow> ('w, FastlyStatus \<times> unit) prog"
  rq_inspect :: "handle \<Rightarrow> handle \<Rightarrow> InspectInfo \<Rightarrow> u32 \<Rightarrow> ('w, buf_reply) prog"
  rs_header_insert :: "handle \<Rightarrow> string \<Rightarrow> string \<Rightarrow> ('w, FastlyStatus \<times> unit) prog"
  rs_header_append :: "handle \<Rightarrow> string \<Rightarrow> string \<Rightarrow> ('w, FastlyStatus \<times> unit) prog"
  rs_version_get :: "handle \<Rightarrow> ('w, FastlyStatus \<times> HTTPVersion) prog"
  rs_version_set :: "handle \<Rightarrow> HTTPVersion \<Rightarrow> ('w, FastlyStatus \<times> unit) prog"
  rs_addr_dest_ip :: "handle \<Rightarrow> ('w, buf_reply) prog"
  rs_addr_dest_port :: "handle \<Rightarrow> ('w, FastlyStatus \<times> 16 word) prog"
  bd_trailer_value_get :: "handle \<Rightarrow> string \<Rightarrow> u32 \<Rightarrow> ('w, buf_reply) prog"

record 'w downstream_calls =
  ds_next_request :: "NextRequestOptions \<Rightarrow> ('w, FastlyStatus \<times> handle) prog"
  ds_next_request_wait :: "handle \<Rightarrow> ('w, FastlyStatus \<times> handle \<times> handle) prog"
  ds_next_request_abandon :: "handle \<Rightarrow> ('w, FastlyStatus \<times> unit) prog"
  ds_original_header_names :: "handle \<Rightarrow> 'w multiValueHostcall"
  ds_original_header_count :: "handle \<Rightarrow> ('w, FastlyStatus \<times> u32) prog"
  ds_client_ip_addr :: "handle \<Rightarrow> ('w, buf_reply) prog"
  ds_server_ip_addr :: "handle \<Rightarrow> ('w, buf_reply) prog"
  ds_h2_fingerprint :: "handle \<Rightarrow> u32 \<Rightarrow> ('w, buf_reply) prog"
  ds_request_id :: "handle \<Rightarrow> u32 \<Rightarrow> ('w, buf_reply) prog"
  ds_oh_fingerprint :: "handle \<Rightarrow> u32 \<Rightarrow> ('w, buf_reply) prog"
  ds_ddos_detected :: "handle \<Rightarrow> ('w, FastlyStatus \<times> bool) prog"
  ds_tls_cipher_openssl_name :: "handle \<Rightarrow> u32 \<Rightarrow> ('w, buf_reply) prog"
  ds_tls_protocol :: "handle \<Rightarrow> u32 \<Rightarrow> ('w, buf_reply) prog"
  ds_tls_client_hello :: "handle \<Rightarrow> u32 \<Rightarrow> ('w, buf_reply) prog"
  ds_tls_client_servername :: "handle \<Rightarrow> u32 \<Rightarrow> ('w, buf_reply) prog"
  ds_tls_raw_client_certificate :: "handle \<Rightarrow> u32 \<Rightarrow> ('w, buf_reply) prog"
  ds_tls_client_cert_verify_result :: "handle \<Rightarrow> ('w, FastlyStatus \<times> u32) prog"
  ds_tls_ja3_md5 :: "handle \<Rightarrow> ('w, buf_reply) prog"
  ds_tls_ja4 :: "handle \<Rightarrow> u32 \<Rightarrow> ('w, buf_reply) prog"
  ds_compliance_region :: "handle \<Rightarrow> u32 \<Rightarrow> ('w, buf_reply) prog"
  ds_fastly_key_is_valid :: "handle \<Rightarrow> ('w, FastlyStatus \<times> bool) prog"
  ds_resvpnproxy_is_anonymous :: "handle \<Rightarrow> ('w, FastlyStatus \<times> bool) prog"
  ds_resvpnproxy_is_anonymous_vpn :: "handle \<Rightarrow> ('w, FastlyStatus \<times> bool) prog"
  ds_resvpnproxy_is_hosting_provider :: "handle \<Rightarrow> ('w, FastlyStatus \<times> bool) prog"
  ds_resvpnproxy_is_proxy_over_vpn :: "handle \<Rightarrow> ('w, FastlyStatus \<times> bool) prog"
  ds_resvpnproxy_is_public_proxy :: "handle \<Rightarrow> ('w, FastlyStatus \<times> bool) prog"
  ds_resvpnproxy_is_relay_proxy :: "handle \<Rightarrow> ('w, FastlyStatus \<times> bool) prog"
  ds_resvpnproxy_is_residential_proxy :: "handle \<Rightarrow> ('w, FastlyStatus \<times> bool) prog"
  ds_resvpnproxy_is_smart_dns_proxy :: "handle \<Rightarrow> ('w, FastlyStatus \<times> bool) prog"
  ds_resvpnproxy_is_tor_exit_node :: "handle \<Rightarrow> ('w, FastlyStatus \<times> bool) prog"
  ds_resvpnproxy_is_vpn_datacenter :: "handle \<Rightarrow> ('w, FastlyStatus \<times> bool) prog"
  ds_resvpnproxy_vpn_service_name :: "handle \<Rightarrow> u32 \<Rightarrow> ('w, buf_reply) prog"
  ds_bot_analyzed :: "handle \<Rightarrow> ('w, FastlyStatus \<times> bool) prog"
  ds_bot_detected :: "handle \<Rightarrow> ('w, FastlyStatus \<times> bool) prog"
  ds_bot_name :: "handle \<Rightarrow> u32 \<Rightarrow> ('w, buf_reply) prog"
  ds_bot_category :: "handle \<Rightarrow> u32 \<Rightarrow> ('w, buf_reply) prog"
  ds_bot_category_kind :: "handle \<Rightarrow> ('w, FastlyStatus \<times> u32) prog"
  ds_bot_verified :: "handle \<Rightarrow> ('w, FastlyStatus \<times> bool) prog"

section \<open>Requests\<close>

text \<open>A handle of a body that is not being streamed.\<close>

definition plain_body :: "handle \<Rightarrow> HTTPBody" where
  "plain_body h = \<lparr>b_h = h, b_closable = False\<rparr>"

definition HTTPRequest_HandoffWebsocket :: "'w request_calls \<Rightarrow> handle \<Rightarrow> string \<Rightarrow> ('w, goerr + unit) comp" where
  "HTTPRequest_HandoffWebsocket rq h backend = hostcall (rq_redirect_to_websocket_proxy_v2 rq h backend)"

definition abi_HandoffWebsocket :: "'w request_calls \<Rightarrow> string \<Rightarrow> ('w, goerr + unit) comp" where
  "abi_HandoffWebsocket rq backend = hostcall (rq_redirect_to_websocket_proxy rq backend)"

definition HTTPRequest_HandoffFanout :: "'w request_calls \<Rightarrow> handle \<Rightarrow> string \<Rightarrow> ('w, goerr + unit) comp" where
  "HTTPRequest_HandoffFanout rq h backend = hostcall (rq_redirect_to_grip_proxy_v2 rq h backend)"

definition abi_HandoffFanout :: "'w request_calls \<Rightarrow> string \<Rightarrow> ('w, goerr + unit) comp" where
  "abi_HandoffFanout rq backend = hostcall (rq_redirect_to_grip_proxy rq backend)"

definition HTTPRequest_Close :: "'w request_calls \<Rightarrow> handle \<Rightarrow> ('w, goerr + unit) comp" where
  "HTTPRequest_Close rq h = hostcall (rq_close rq h)"

definition BodyDownstreamGet :: "'w request_calls \<Rightarrow> ('w, goerr + handle \<times> HTTPBody) comp" where
  "BodyDownstreamGet rq =
     map_result (\<lambda>(rh, bh). (rh, plain_body bh)) (hostcall (rq_body_downstream_get rq))"

definition HTTPRequest_GetHeaderNames :: "'w request_calls \<Rightarrow> handle \<Rightarrow> 'w multiValueHostcall \<times> Values" where
  "HTTPRequest_GetHeaderNames rq h = (rq_header_names_get rq h, newValues DefaultMediumBufLen)"

definition HTTPRequest_GetHeaderValue :: "'w request_calls \<Rightarrow> handle \<Rightarrow> string \<Rightarrow> ('w, goerr + string) comp" where
  "HTTPRequest_GetHeaderValue rq h name = buffered DefaultSmallBufLen (rq_header_value_get rq h name)"

definition HTTPRequest_GetHeaderValues ::
  "'w request_calls \<Rightarrow> handle \<Rightarrow> string \<Rightarrow> 'w multiValueHostcall \<times> Values" where
  "HTTPRequest_GetHeaderValues rq h name = (rq_header_values_get rq h name, newValues DefaultLargeBufLen)"

definition HTTPRequest_InsertHeader ::
  "'w request_calls \<Rightarrow> handle \<Rightarrow> string \<Rightarrow> string \<Rightarrow> ('w, goerr + unit) comp" where
  "HTTPRequest_InsertHeader rq h name v = hostcall (rq_header_insert rq h name v)"

definition HTTPRequest_AppendHeader ::
  "'w request_calls \<Rightarrow> handle \<Rightarrow> string \<Rightarrow> string \<Rightarrow> ('w, goerr + unit) comp" where
  "HTTPRequest_AppendHeader rq h name v = hostcall (rq_header_append rq h name v)"

definition HTTPRequest_RemoveHeader :: "'w request_calls \<Rightarrow> handle \<Rightarrow> string \<Rightarrow> ('w, goerr + unit) comp" where
  "HTTPRequest_RemoveHeader rq h name = hostcall (rq_header_remove rq h name)"

definition HTTPRequest_GetVersion ::
  "'w request_calls \<Rightarrow> handle \<Rightarrow> ('w, goerr + string \<times> int \<times> int) comp" where
  "HTTPRequest_GetVersion rq h = check_c id (hostcall (rq_version_get rq h)) (\<lambda>v. finish (splat v))"

definition HTTPRequest_SetVersion :: "'w request_calls \<Rightarrow> handle \<Rightarrow> HTTPVersion \<Rightarrow> ('w, goerr + unit) comp" where
  "HTTPRequest_SetVersion rq h v = hostcall (rq_version_set rq h v)"

definition HTTPRequest_Send ::
  "'w request_calls \<Rightarrow> handle \<Rightarrow> HTTPBody \<Rightarrow> string \<Rightarrow> ('w, goerr + handle \<times> HTTPBody) comp" where
  "HTTPRequest_Send rq h requestBody backend =
     map_result (\<lambda>(resp, body). (resp, plain_body body))
       (send_hostcall (rq_send_v2 rq h (b_h requestBody) backend newSendErrorDetail))"

definition HTTPRequest_SendAsync ::
  "'w request_calls \<Rightarrow> handle \<Rightarrow> HTTPBody \<Rightarrow> string \<Rightarrow> ('w, goerr + handle) comp" where
  "HTTPRequest_SendAsync rq h requestBody backend = hostcall (rq_send_async rq h (b_h requestBody) backend)"

definition HTTPRequest_SendToImageOpto ::
  "'w request_calls \<Rightarrow> handle \<Rightarrow> HTTPBody \<Rightarrow> string \<Rightarrow> string \<Rightarrow> ('w, goerr + handle \<times> HTTPBody) comp" where
  "HTTPRequest_SendToImageOpto rq h requestBody backend query =
     map_result (\<lambda>(resp, body). (resp, plain_body body))
       (hostcall (rq_image_opto rq h (b_h requestBody) backend
          imageOptimizerTransformConfigOptionsSDKClaimsOpts (send_string query)))"

definition HTTPRequest_Inspect ::
  "'w request_calls \<Rightarrow> handle \<Rightarrow> InspectInfo \<Rightarrow> HTTPBody \<Rightarrow> ('w, goerr + string) comp" where
  "HTTPRequest_Inspect rq h info b = buffered DefaultMediumBufLen (rq_inspect rq h (b_h b) info)"

section \<open>Bodies and responses\<close>

definition HTTPBody_GetTrailerNames :: "'w http_calls \<Rightarrow> HTTPBody \<Rightarrow> 'w multiValueHostcall \<times> Values" where
  "HTTPBody_GetTrailerNames host b = (c_body_trailer_names_get host (b_h b), newValues DefaultMediumBufLen)"

definition HTTPBody_GetTrailerValue :: "'w request_calls \<Rightarrow> HTTPBody \<Rightarrow> string \<Rightarrow> ('w, goerr + string) comp" where
  "HTTPBody_GetTrailerValue rq b name = buffered DefaultSmallBufLen (bd_trailer_value_get rq (b_h b) name)"

definition HTTPBody_GetTrailerValues ::
  "'w http_calls \<Rightarrow> HTTPBody \<Rightarrow> string \<Rightarrow> 'w multiValueHostcall \<times> Values" where
  "HTTPBody_GetTrailerValues host b name =
     (c_body_trailer_values_get host (b_h b) name, newValues DefaultLargeBufLen)"

definition HTTPResponse_GetHeaderNames :: "'w http_calls \<Rightarrow> handle \<Rightarrow> 'w multiValueHostcall \<times> Values" where
  "HTTPResponse_GetHeaderNames host h = (c_resp_header_names_get host h, newValues DefaultMediumBufLen)"

definition HTTPResponse_GetHeaderValues ::
  "'w http_calls \<Rightarrow> handle \<Rightarrow> string \<Rightarrow> 'w multiValueHostcall \<times> Values" where
  "HTTPResponse_GetHeaderValues host h name = (c_resp_header_values_get host h name, newValues DefaultLargeBufLen)"

definition HTTPResponse_InsertHeader ::
  "'w request_calls \<Rightarrow> handle \<Rightarrow> string \<Rightarrow> string \<Rightarrow> ('w, goerr + unit) comp" where
  "HTTPResponse_InsertHeader rq h name v = hostcall (rs_header_insert rq h name v)"

definition HTTPResponse_AppendHeader ::
  "'w request_calls \<Rightarrow> handle \<Rightarrow> string \<Rightarrow> string \<Rightarrow> ('w, goerr + unit) comp" where
  "HTTPResponse_AppendHeader rq h name v = hostcall (rs_header_append rq h name v)"

definition HTTPResponse_GetVersion ::
  "'w request_calls \<Rightarrow> handle \<Rightarrow> ('w, goerr + string \<times> int \<times> int) comp" where
  "HTTPResponse_GetVersion rq h = check_c id (hostcall (rs_version_get rq h)) (\<lambda>v. finish (splat v))"

definition HTTPResponse_SetVersion :: "'w request_calls \<Rightarrow> handle \<Rightarrow> HTTPVersion \<Rightarrow> ('w, goerr + unit) comp" where
  "HTTPResponse_SetVersion rq h v = hostcall (rs_version_set rq h v)"

text \<open>An address buffer always has 16 bytes; the host is not told so.\<close>

definition ipBufLen :: nat where "ipBufLen = 16"

definition HTTPResponse_GetAddrDestIP :: "'w request_calls \<Rightarrow> handle \<Rightarrow> ('w, goerr + string) comp" where
  "HTTPResponse_GetAddrDestIP rq h = fixed_buffer ipBufLen (\<lambda>_. rs_addr_dest_ip rq h)"

definition HTTPResponse_GetAddrDestPort :: "'w request_calls \<Rightarrow> handle \<Rightarrow> ('w, goerr + 16 word) comp" where
  "HTTPResponse_GetAddrDestPort rq h = hostcall (rs_addr_dest_port rq h)"

section \<open>The downstream request\<close>

definition DownstreamNextRequest :: "'w downstream_calls \<Rightarrow> NextRequestOptions \<Rightarrow> ('w, goerr + handle) comp" where
  "DownstreamNextRequest ds opts = hostcall (ds_next_request ds opts)"

definition HTTPRequestPromise_Wait :: "'w downstream_calls \<Rightarrow> handle \<Rightarrow> ('w, goerr + handle \<times> HTTPBody) comp" where
  "HTTPRequestPromise_Wait ds p =
     map_result (\<lambda>(rh, bh). (rh, plain_body bh)) (hostcall (ds_next_request_wait ds p))"

definition HTTPRequestPromise_Abandon :: "'w downstream_calls \<Rightarrow> handle \<Rightarrow> ('w, goerr + unit) comp" where
  "HTTPRequestPromise_Abandon ds p = hostcall (ds_next_request_abandon ds p)"

definition DownstreamOriginalHeaderNames :: "'w downstream_calls \<Rightarrow> handle \<Rightarrow> 'w multiValueHostcall \<times> Values" where
  "DownstreamOriginalHeaderNames ds h = (ds_original_header_names ds h, newValues DefaultMediumBufLen)"

definition DownstreamOriginalHeaderCount :: "'w downstream_calls \<Rightarrow> handle \<Rightarrow> ('w, goerr + int) comp" where
  "DownstreamOriginalHeaderCount ds h =
     map_result uint (hostcall (ds_original_header_count ds h))"

definition DownstreamClientIPAddr :: "'w downstream_calls \<Rightarrow> handle \<Rightarrow> ('w, goerr + string) comp" where
  "DownstreamClientIPAddr ds h =
     fixed_buffer ipBufLen (\<lambda>_. ds_client_ip_addr ds h)"

definition DownstreamServerIPAddr :: "'w downstream_calls \<Rightarrow> handle \<Rightarrow> ('w, goerr + string) comp" where
  "DownstreamServerIPAddr ds h =
     fixed_buffer ipBufLen (\<lambda>_. ds_server_ip_addr ds h)"

definition DownstreamH2Fingerprint :: "'w downstream_calls \<Rightarrow> handle \<Rightarrow> ('w, goerr + string) comp" where
  "DownstreamH2Fingerprint ds h =
     buffered DefaultSmallBufLen (ds_h2_fingerprint ds h)"

definition DownstreamRequestID :: "'w downstream_calls \<Rightarrow> handle \<Rightarrow> ('w, goerr + string) comp" where
  "DownstreamRequestID ds h =
     buffered DefaultSmallBufLen (ds_request_id ds h)"

definition DownstreamOHFingerprint :: "'w downstream_calls \<Rightarrow> handle \<Rightarrow> ('w, goerr + string) comp" where
  "DownstreamOHFingerprint ds h =
     buffered DefaultSmallBufLen (ds_oh_fingerprint ds h)"

definition DownstreamDDOSDetected :: "'w downstream_calls \<Rightarrow> handle \<Rightarrow> ('w, goerr + bool) comp" where
  "DownstreamDDOSDetected ds h =
     hostcall (ds_ddos_detected ds h)"

definition DownstreamTLSCipherOpenSSLName :: "'w downstream_calls \<Rightarrow> handle \<Rightarrow> ('w, goerr + string) comp" where
  "DownstreamTLSCipherOpenSSLName ds h =
     fixed_buffer DefaultSmallBufLen (ds_tls_cipher_openssl_name ds h)"

definition DownstreamTLSProtocol :: "'w downstream_calls \<Rightarrow> handle \<Rightarrow> ('w, goerr + string) comp" where
  "DownstreamTLSProtocol ds h =
     fixed_buffer DefaultSmallBufLen (ds_tls_protocol ds h)"

definition DownstreamTLSClientHello :: "'w downstream_calls \<Rightarrow> handle \<Rightarrow> ('w, goerr + string) comp" where
  "DownstreamTLSClientHello ds h =
     buffered DefaultLargeBufLen (ds_tls_client_hello ds h)"

definition DownstreamTLSClientServername :: "'w downstream_calls \<Rightarrow> handle \<Rightarrow> ('w, goerr + string) comp" where
  "DownstreamTLSClientServername ds h =
     buffered DefaultLargeBufLen (ds_tls_client_servername ds h)"

definition DownstreamTLSRawClientCertificate :: "'w downstream_calls \<Rightarrow> handle \<Rightarrow> ('w, goerr + string) comp" where
  "DownstreamTLSRawClientCertificate ds h =
     buffered DefaultLargeBufLen (ds_tls_raw_client_certificate ds h)"

definition DownstreamTLSClientCertVerifyResult :: "'w downstream_calls \<Rightarrow> handle \<Rightarrow> ('w, goerr + u32) comp" where
  "DownstreamTLSClientCertVerifyResult ds h =
     hostcall (ds_tls_client_cert_verify_result ds h)"

definition DownstreamTLSJA3MD5 :: "'w downstream_calls \<Rightarrow> handle \<Rightarrow> ('w, goerr + string) comp" where
  "DownstreamTLSJA3MD5 ds h =
     fixed_buffer 16 (\<lambda>_. ds_tls_ja3_md5 ds h)"

definition DownstreamTLSJA4 :: "'w downstream_calls \<Rightarrow> handle \<Rightarrow> ('w, goerr + string) comp" where
  "DownstreamTLSJA4 ds h =
     buffered DefaultSmallBufLen (ds_tls_ja4 ds h)"

definition DownstreamComplianceRegion :: "'w downstream_calls \<Rightarrow> handle \<Rightarrow> ('w, goerr + string) comp" where
  "DownstreamComplianceRegion ds h =
     buffered 4 (ds_compliance_region ds h)"

definition DownstreamFastlyKeyIsValid :: "'w downstream_calls \<Rightarrow> handle \<Rightarrow> ('w, goerr + bool) comp" where
  "DownstreamFastlyKeyIsValid ds h =
     hostcall (ds_fastly_key_is_valid ds h)"

definition DownstreamResVPNProxyIsAnonymous :: "'w downstream_calls \<Rightarrow> handle \<Rightarrow> ('w, goerr + bool) comp" where
  "DownstreamResVPNProxyIsAnonymous ds h =
     hostcall (ds_resvpnproxy_is_anonymous ds h)"

definition DownstreamResVPNProxyIsAnonymousVPN :: "'w downstream_calls \<Rightarrow> handle \<Rightarrow> ('w, goerr + bool) comp" where
  "DownstreamResVPNProxyIsAnonymousVPN ds h =
     hostcall (ds_resvpnproxy_is_anonymous_vpn ds h)"

definition DownstreamResVPNProxyIsHostingProvider :: "'w downstream_calls \<Rightarrow> handle \<Rightarrow> ('w, goerr + bool) comp" where
  "DownstreamResVPNProxyIsHostingProvider ds h =
     hostcall (ds_resvpnproxy_is_hosting_provider ds h)"

definition DownstreamResVPNProxyIsProxyOverVPN :: "'w downstream_calls \<Rightarrow> handle \<Rightarrow> ('w, goerr + bool) comp" where
  "DownstreamResVPNProxyIsProxyOverVPN ds h =
     hostcall (ds_resvpnproxy_is_proxy_over_vpn ds h)"

definition DownstreamResVPNProxyIsPublicProxy :: "'w downstream_calls \<Rightarrow> handle \<Rightarrow> ('w, goerr + bool) comp" where
  "DownstreamResVPNProxyIsPublicProxy ds h =
     hostcall (ds_resvpnproxy_is_public_proxy ds h)"

definition DownstreamResVPNProxyIsRelayProxy :: "'w downstream_calls \<Rightarrow> handle \<Rightarrow> ('w, goerr + bool) comp" where
  "DownstreamResVPNProxyIsRelayProxy ds h =
     hostcall (ds_resvpnproxy_is_relay_proxy ds h)"

definition DownstreamResVPNProxyIsResidentialProxy :: "'w downstream_calls \<Rightarrow> handle \<Rightarrow> ('w, goerr + bool) comp" where
  "DownstreamResVPNProxyIsResidentialProxy ds h =
     hostcall (ds_resvpnproxy_is_residential_proxy ds h)"

definition DownstreamResVPNProxyIsSmartDNSProxy :: "'w downstream_calls \<Rightarrow> handle \<Rightarrow> ('w, goerr + bool) comp" where
  "DownstreamResVPNProxyIsSmartDNSProxy ds h =
     hostcall (ds_resvpnproxy_is_smart_dns_proxy ds h)"

definition DownstreamResVPNProxyIsTorExitNode :: "'w downstream_calls \<Rightarrow> handle \<Rightarrow> ('w, goerr + bool) comp" where
  "DownstreamResVPNProxyIsTorExitNode ds h =
     hostcall (ds_resvpnproxy_is_tor_exit_node ds h)"

definition DownstreamResVPNProxyIsVPNDatacenter :: "'w downstream_calls \<Rightarrow> handle \<Rightarrow> ('w, goerr + bool) comp" where
  "DownstreamResVPNProxyIsVPNDatacenter ds h =
     hostcall (ds_resvpnproxy_is_vpn_datacenter ds h)"

definition DownstreamResVPNProxyVPNServiceName :: "'w downstream_calls \<Rightarrow> handle \<Rightarrow> ('w, goerr + string) comp" where
  "DownstreamResVPNProxyVPNServiceName ds h =
     try_c (buffered DefaultMediumBufLen (ds_resvpnproxy_vpn_service_name ds h))
       (\<lambda>e. case IsFastlyError (Some e) of (status, ok) \<Rightarrow>
          if ok \<and> status = FastlyStatusNone
          then finish (case toError status of Some e \<Rightarrow> Inl e | None \<Rightarrow> Inr [])
          else finish (Inl e))
       (\<lambda>v. finish (Inr v))"

definition DownstreamBotAnalyzed :: "'w downstream_calls \<Rightarrow> handle \<Rightarrow> ('w, goerr + bool) comp" where
  "DownstreamBotAnalyzed ds h =
     hostcall (ds_bot_analyzed ds h)"

definition DownstreamBotDetected :: "'w downstream_calls \<Rightarrow> handle \<Rightarrow> ('w, goerr + bool) comp" where
  "DownstreamBotDetected ds h =
     hostcall (ds_bot_detected ds h)"

definition DownstreamBotName :: "'w downstream_calls \<Rightarrow> handle \<Rightarrow> ('w, goerr + string) comp" where
  "DownstreamBotName ds h =
     buffered DefaultSmallBufLen (ds_bot_name ds h)"

definition DownstreamBotCategoryName :: "'w downstream_calls \<Rightarrow> handle \<Rightarrow> ('w, goerr + string) comp" where
  "DownstreamBotCategoryName ds h =
     buffered DefaultSmallBufLen (ds_bot_category ds h)"

definition DownstreamBotCategory :: "'w downstream_calls \<Rightarrow> handle \<Rightarrow> ('w, goerr + u32) comp" where
  "DownstreamBotCategory ds h =
     hostcall (ds_bot_category_kind ds h)"

definition DownstreamBotVerified :: "'w downstream_calls \<Rightarrow> handle \<Rightarrow> ('w, goerr + bool) comp" where
  "DownstreamBotVerified ds h =
     hostcall (ds_bot_verified ds h)"

section \<open>Hosts that accept everything\<close>

definition accepting_requests :: "'w request_calls" where
  "accepting_requests =
     \<lparr>rq_close = (\<lambda>x. accept ()),
      rq_body_downstream_get = accept (1, 2),
      rq_header_names_get = (\<lambda>x. greedy_host []),
      rq_header_value_get = (\<lambda>x y. one_value_host []),
      rq_header_values_get = (\<lambda>x y. greedy_host []),
      rq_header_insert = (\<lambda>x y z. accept ()),
      rq_header_append = (\<lambda>x y z. accept ()),
      rq_header_remove = (\<lambda>x y. accept ()),
      rq_version_get = (\<lambda>x. accept HTTPVersionHTTP11),
      rq_version_set = (\<lambda>x y. accept ()),
      rq_send_v2 = (\<lambda>x y z d. (\<lambda>w. ((FastlyStatusOK, d, 1, 2), w))),
      rq_send_async = (\<lambda>x y z. accept 4),
      rq_image_opto = (\<lambda>x y z u v. accept (1, 2)),
      rq_redirect_to_websocket_proxy_v2 = (\<lambda>x y. accept ()),
      rq_redirect_to_websocket_proxy = (\<lambda>x. accept ()),
      rq_redirect_to_grip_proxy_v2 = (\<lambda>x y. accept ()),
      rq_redirect_to_grip_proxy = (\<lambda>x. accept ()),
      rq_inspect = (\<lambda>x y z. one_value_host []),
      rs_header_insert = (\<lambda>x y z. accept ()),
      rs_header_append = (\<lambda>x y z. accept ()),
      rs_version_get = (\<lambda>x. accept HTTPVersionHTTP11),
      rs_version_set = (\<lambda>x y. accept ()),
      rs_addr_dest_ip = (\<lambda>x. one_value_host [] 16),
      rs_addr_dest_port = (\<lambda>x. accept 443),
      bd_trailer_value_get = (\<lambda>x y. one_value_host [])\<rparr>"

definition accepting_downstream :: "'w downstream_calls" where
  "accepting_downstream =
     \<lparr>ds_next_request = (\<lambda>x. accept 4),
      ds_next_request_wait = (\<lambda>x. accept (1, 2)),
      ds_next_request_abandon = (\<lambda>x. accept ()),
      ds_original_header_names = (\<lambda>x. greedy_host []),
      ds_original_header_count = (\<lambda>x. accept 0),
      ds_client_ip_addr = (\<lambda>x. one_value_host [] 16),
      ds_server_ip_addr = (\<lambda>x. one_value_host [] 16),
      ds_h2_fingerprint = (\<lambda>x. one_value_host []),
      ds_request_id = (\<lambda>x. one_value_host []),
      ds_oh_fingerprint = (\<lambda>x. one_value_host []),
      ds_ddos_detected = (\<lambda>x. accept False),
      ds_tls_cipher_openssl_name = (\<lambda>x. one_value_host []),
      ds_tls_protocol = (\<lambda>x. one_value_host []),
      ds_tls_client_hello = (\<lambda>x. one_value_host []),
      ds_tls_client_servername = (\<lambda>x. one_value_host []),
      ds_tls_raw_client_certificate = (\<lambda>x. one_value_host []),
      ds_tls_client_cert_verify_result = (\<lambda>x. accept 0),
      ds_tls_ja3_md5 = (\<lambda>x. one_value_host [] 16),
      ds_tls_ja4 = (\<lambda>x. one_value_host []),
      ds_compliance_region = (\<lambda>x. one_value_host []),
      ds_fastly_key_is_valid = (\<lambda>x. accept False),
      ds_resvpnproxy_is_anonymous = (\<lambda>x. accept False),
      ds_resvpnproxy_is_anonymous_vpn = (\<lambda>x. accept False),
      ds_resvpnproxy_is_hosting_provider = (\<lambda>x. accept False),
      ds_resvpnproxy_is_proxy_over_vpn = (\<lambda>x. accept False),
      ds_resvpnproxy_is_public_proxy = (\<lambda>x. accept False),
      ds_resvpnproxy_is_relay_proxy = (\<lambda>x. accept False),
      ds_resvpnproxy_is_residential_proxy = (\<lambda>x. accept False),
      ds_resvpnproxy_is_smart_dns_proxy = (\<lambda>x. accept False),
      ds_resvpnproxy_is_tor_exit_node = (\<lambda>x. accept False),
      ds_resvpnproxy_is_vpn_datacenter = (\<lambda>x. accept False),
      ds_resvpnproxy_vpn_service_name = (\<lambda>x. one_value_host []),
      ds_bot_analyzed = (\<lambda>x. accept False),
      ds_bot_detected = (\<lambda>x. accept False),
      ds_bot_name = (\<lambda>x. one_value_host []),
      ds_bot_category = (\<lambda>x. one_value_host []),
      ds_bot_category_kind = (\<lambda>x. accept 0),
      ds_bot_verified = (\<lambda>x. accept False)\<rparr>"

end
