(* ===== verification/Responses.thy ===== *)
theory Responses
  imports HttpABI
begin

text \<open>
  \<open>fsthttp/response.go\<close>, the client side: reading a response from its host handle, its
  trailers, and what a response tells about the cache.  A response carries the request it
  answers, of a type \<open>'q\<close> this theory does not look into; a body is the host's or any other
  reader, of a type \<open>'b\<close>.
\<close>

section \<open>Responses\<close>

datatype 'b ReadCloser = AbiBody HTTPBody | OtherBody 'b

type_synonym HTTPCacheStorageAction = u32

definition HTTPCacheStorageActionInsert :: HTTPCacheStorageAction where
  [simp]: "HTTPCacheStorageActionInsert = 0"
definition HTTPCacheStorageActionUpdate :: HTTPCacheStorageAction where
  [simp]: "HTTPCacheStorageActionUpdate = 1"
definition HTTPCacheStorageActionDoNotStore :: HTTPCacheStorageAction where
  [simp]: "HTTPCacheStorageActionDoNotStore = 2"
definition HTTPCacheStorageActionRecordUncacheable :: HTTPCacheStorageAction where
  [simp]: "HTTPCacheStorageActionRecordUncacheable = 3"
definition cacheStorageActionInvalid :: HTTPCacheStorageAction where
  [simp]: "cacheStorageActionInvalid = 0xffff"

text \<open>The SDK's view of the cache write options, in seconds.\<close>

record cacheWriteOptions =
  cw_maxAge :: u32
  cw_vary :: string
  cw_useVary :: bool
  cw_age :: u32
  cw_staleWhileRevalidate :: u32
  cw_surrogate :: string
  cw_length :: u64
  cw_useLength :: bool
  cw_sensitive :: bool
  cw_staleIfError :: u32

definition zero_write_options :: cacheWriteOptions where
  "zero_write_options =
     \<lparr>cw_maxAge = 0, cw_vary = [], cw_useVary = False, cw_age = 0, cw_staleWhileRevalidate = 0,
      cw_surrogate = [], cw_length = 0, cw_useLength = False, cw_sensitive = False, cw_staleIfError = 0\<rparr>"

record cacheResponse =
  cr_cacheWriteOptions :: cacheWriteOptions
  cr_storageAction :: HTTPCacheStorageAction
  cr_hits :: u64

record ('q, 'b) Response =
  rs_Request :: 'q
  rs_Backend :: string
  rs_StatusCode :: int
  rs_Header :: Header
  rs_Body :: "'b ReadCloser"
  rs_trailers :: "Header option"
  rs_maskedError :: "goerr option"
  rs_cacheResponse :: cacheResponse
  rs_abi :: handle

definition newResponse ::
  "'w http_calls \<Rightarrow> 'q \<Rightarrow> string \<Rightarrow> handle \<Rightarrow> HTTPBody \<Rightarrow> ('w, goerr + ('q, 'b) Response) comp" where
  "newResponse host req backend abiResp abiBody =
     check_c (annotate ''status code'') (HTTPResponse_GetStatusCode host abiResp) (\<lambda>code.
     check_c id
       (read_headers ''header'' DefaultMediumBufLen DefaultLargeBufLen
          (c_resp_header_names_get host abiResp) (c_resp_header_values_get host abiResp))
       (\<lambda>(keysErr, header).
          case keysErr of
            Some e \<Rightarrow> finish (Inl (annotate ''read header keys'' e))
          | None \<Rightarrow>
              finish (Inr \<lparr>rs_Request = req, rs_Backend = backend, rs_StatusCode = code,
                rs_Header = header, rs_Body = AbiBody abiBody, rs_trailers = None,
                rs_maskedError = None,
                rs_cacheResponse = \<lparr>cr_cacheWriteOptions = zero_write_options,
                  cr_storageAction = 0, cr_hits = 0\<rparr>,
                rs_abi = abiResp\<rparr>)))"

definition ErrTrailersNotReady :: goerr where
  "ErrTrailersNotReady = Sentinel ''fsthttp'' ''trailers not available''"

text \<open>\<open>Trailers\<close> also stores what it read in the response, which is returned with the result.\<close>

definition Response_Trailers ::
  "'w http_calls \<Rightarrow> ('q, 'b) Response \<Rightarrow> ('w, goerr + Header \<times> ('q, 'b) Response) comp" where
  "Response_Trailers host resp =
     (case rs_trailers resp of
        Some trailers \<Rightarrow> finish (Inr (trailers, resp))
      | None \<Rightarrow>
          (case rs_Body resp of
             OtherBody _ \<Rightarrow> finish (Inl (Text ''Response.Body is not an HTTP Response Body''))
           | AbiBody abiBody \<Rightarrow>
               check_c id
                 (read_headers ''trailer'' DefaultMediumBufLen DefaultLargeBufLen
                    (c_body_trailer_names_get host (b_h abiBody))
                    (c_body_trailer_values_get host (b_h abiBody)))
                 (\<lambda>(keysErr, trailers).
                    case keysErr of
                      Some e \<Rightarrow>
                        (case IsFastlyError (Some e) of (status, ok) \<Rightarrow>
                           if ok \<and> status = FastlyStatusAgain then finish (Inl ErrTrailersNotReady)
                           else finish (Inl (annotate ''read trailer keys'' e)))
                    | None \<Rightarrow> finish (Inr (trailers, resp\<lparr>rs_trailers := Some trailers\<rparr>)))))"

section \<open>What a response tells about the cache\<close>

definition fastlyDebug :: string where "fastlyDebug = ''fastly-debug''"
definition fastlyFF :: string where "fastlyFF = ''fastly-ff''"
definition surrogateControl :: string where "surrogateControl = ''surrogate-control''"
definition surrogateKey :: string where "surrogateKey = ''surrogate-key''"
definition xCache :: string where "xCache = ''x-cache''"
definition xCacheHits :: string where "xCacheHits = ''x-cache-hits''"

text \<open>\<open>int(hits)\<close> reinterprets the unsigned counter as a signed 64-bit integer.\<close>

definition updateFastlyCacheHeaders :: "Header \<Rightarrow> ('q, 'b) Response \<Rightarrow> ('q, 'b) Response" where
  "updateFastlyCacheHeaders reqHeader resp =
     (let hits = cr_hits (rs_cacheResponse resp);
          h = rs_Header resp;
          h = (if hits \<noteq> 0
               then Header_Add (Header_Add h xCache ''HIT'') xCacheHits (itoa (sint hits))
               else Header_Add (Header_Add h xCache ''MISS'') xCacheHits ''0'');
          shouldRemove = (Header_Get reqHeader fastlyFF = [] \<and> Header_Get reqHeader fastlyDebug = []);
          h = (if shouldRemove then Header_Del (Header_Del h surrogateKey) surrogateControl else h)
      in resp\<lparr>rs_Header := h\<rparr>)"

definition wasWrittenToCache :: "('q, 'b) Response \<Rightarrow> bool" where
  "wasWrittenToCache resp \<longleftrightarrow>
     cr_storageAction (rs_cacheResponse resp) = HTTPCacheStorageActionInsert
     \<or> cr_storageAction (rs_cacheResponse resp) = HTTPCacheStorageActionUpdate"

definition FromCache :: "('q, 'b) Response \<Rightarrow> bool" where
  "FromCache resp \<longleftrightarrow>
     \<not> wasWrittenToCache resp
     \<and> cr_storageAction (rs_cacheResponse resp) \<noteq> HTTPCacheStorageActionDoNotStore
     \<and> cr_storageAction (rs_cacheResponse resp) \<noteq> HTTPCacheStorageActionRecordUncacheable"

definition cached_option :: "(cacheWriteOptions \<Rightarrow> u32) \<Rightarrow> ('q, 'b) Response \<Rightarrow> u32 \<times> bool" where
  "cached_option f resp =
     (if wasWrittenToCache resp then (0, False)
      else (f (cr_cacheWriteOptions (rs_cacheResponse resp)), True))"

definition Response_TTL :: "('q, 'b) Response \<Rightarrow> u32 \<times> bool" where
  "Response_TTL resp = cached_option (\<lambda>o'. cw_maxAge o' - cw_age o') resp"

definition Response_Age :: "('q, 'b) Response \<Rightarrow> u32 \<times> bool" where
  "Response_Age resp = cached_option cw_age resp"

definition Response_StaleWhileRevalidate :: "('q, 'b) Response \<Rightarrow> u32 \<times> bool" where
  "Response_StaleWhileRevalidate resp = cached_option cw_staleWhileRevalidate resp"

definition Response_StaleIfError :: "('q, 'b) Response \<Rightarrow> u32 \<times> bool" where
  "Response_StaleIfError resp = cached_option cw_staleIfError resp"

definition Response_Vary :: "('q, 'b) Response \<Rightarrow> string" where
  "Response_Vary resp = cw_vary (cr_cacheWriteOptions (rs_cacheResponse resp))"

definition Response_SurrogateKeys :: "('q, 'b) Response \<Rightarrow> string" where
  "Response_SurrogateKeys resp = cw_surrogate (cr_cacheWriteOptions (rs_cacheResponse resp))"

text \<open>
  The time to live a cached response reports is its remaining freshness only while it is
  fresh; for a stale response (served while revalidating or on an error) the subtraction
  wraps around and reports more than \<open>2 ^ 32 - age\<close> seconds.
\<close>

lemma response_ttl:
  assumes "\<not> wasWrittenToCache resp" and "cr_cacheWriteOptions (rs_cacheResponse resp) = opts"
  shows "snd (Response_TTL resp)
    \<and> (cw_age opts \<le> cw_maxAge opts \<longrightarrow>
         unat (fst (Response_TTL resp)) = unat (cw_maxAge opts) - unat (cw_age opts))
    \<and> (cw_maxAge opts < cw_age opts \<longrightarrow>
         unat (fst (Response_TTL resp)) = 2 ^ 32 + unat (cw_maxAge opts) - unat (cw_age opts))"
proof -
  have ttl: "Response_TTL resp = (cw_maxAge opts - cw_age opts, True)"
    using assms by (simp add: Response_TTL_def cached_option_def)
  have "cw_age opts \<le> cw_maxAge opts \<Longrightarrow> unat (cw_maxAge opts - cw_age opts) = unat (cw_maxAge opts) - unat (cw_age opts)"
    by (rule unat_sub)
  moreover have "cw_maxAge opts < cw_age opts \<Longrightarrow>
      unat (cw_maxAge opts - cw_age opts) = 2 ^ 32 + unat (cw_maxAge opts) - unat (cw_age opts)"
    by (simp add: unat_sub_if' word_less_nat_alt)
  ultimately show ?thesis using ttl by simp
qed

lemma response_ttl_instance:
  "let resp = \<lparr>rs_Request = (), rs_Backend = ''b'', rs_StatusCode = 200, rs_Header = [],
      rs_Body = (OtherBody () :: unit ReadCloser), rs_trailers = None, rs_maskedError = None,
      rs_cacheResponse = \<lparr>cr_cacheWriteOptions = zero_write_options\<lparr>cw_maxAge := 60, cw_age := 61\<rparr>,
        cr_storageAction = cacheStorageActionInvalid, cr_hits = 1\<rparr>,
      rs_abi = 1\<rparr>
   in unat (fst (Response_TTL resp)) = 4294967295"
proof -
  let ?opts = "zero_write_options\<lparr>cw_maxAge := 60, cw_age := 61\<rparr>"
  let ?resp = "\<lparr>rs_Request = (), rs_Backend = ''b'', rs_StatusCode = 200, rs_Header = [],
      rs_Body = (OtherBody () :: unit ReadCloser), rs_trailers = None, rs_maskedError = None,
      rs_cacheResponse = \<lparr>cr_cacheWriteOptions = ?opts,
        cr_storageAction = cacheStorageActionInvalid, cr_hits = 1\<rparr>,
      rs_abi = 1\<rparr>"
  have "\<not> wasWrittenToCache ?resp" "cr_cacheWriteOptions (rs_cacheResponse ?resp) = ?opts"
    by (simp_all add: wasWrittenToCache_def)
  from response_ttl [OF this] show ?thesis by (simp add: Let_def zero_write_options_def)
qed

end
