(* ===== verification/HttpCacheABI.thy ===== *)
theory HttpCacheABI
  imports OptionMasks Responses
begin

text \<open>
  \<open>internal/abi/fastly/httpcache_guest.go\<close>: the option blocks of the HTTP cache and the
  wrappers of its hostcalls.  A pointer field of an option block points to the buffer stored
  beside it, so only the buffer and the length are modelled; what the host reads is the
  prefix of that length.
\<close>

section \<open>Lookup options\<close>

definition httpCacheLookupOptionsFlagOverrideKey :: u32 where [simp]: "httpCacheLookupOptionsFlagOverrideKey = 2"
definition httpCacheLookupOptionsFlagBackend :: u32 where [simp]: "httpCacheLookupOptionsFlagBackend = 4"

record HTTPCacheLookupOptions =
  hl_mask :: u32
  hl_overrideKey :: string
  hl_backend :: string

definition zero_lookup_options :: HTTPCacheLookupOptions where
  "zero_lookup_options = \<lparr>hl_mask = 0, hl_overrideKey = [], hl_backend = []\<rparr>"

definition hl_OverrideKey :: "string \<Rightarrow> HTTPCacheLookupOptions \<Rightarrow> HTTPCacheLookupOptions" where
  "hl_OverrideKey key x =
     x\<lparr>hl_overrideKey := key, hl_mask := hl_mask x OR httpCacheLookupOptionsFlagOverrideKey\<rparr>"

definition hl_Backend :: "string \<Rightarrow> HTTPCacheLookupOptions \<Rightarrow> HTTPCacheLookupOptions" where
  "hl_Backend backend x =
     x\<lparr>hl_backend := backend, hl_mask := hl_mask x OR httpCacheLookupOptionsFlagBackend\<rparr>"

interpretation hl_key: masked_option hl_mask httpCacheLookupOptionsFlagOverrideKey hl_OverrideKey hl_overrideKey "\<lambda>_. True"
  by unfold_locales (simp_all add: hl_OverrideKey_def)

interpretation hl_bk: masked_option hl_mask httpCacheLookupOptionsFlagBackend hl_Backend hl_backend "\<lambda>_. True"
  by unfold_locales (simp_all add: hl_Backend_def)

section \<open>Write options\<close>

definition httpCacheWriteOptionsFlagReserved :: u32 where [simp]: "httpCacheWriteOptionsFlagReserved = 1"
definition httpCacheWriteOptionsFlagVaryRule :: u32 where [simp]: "httpCacheWriteOptionsFlagVaryRule = 2"
definition httpCacheWriteOptionsFlagInitialAge :: u32 where [simp]: "httpCacheWriteOptionsFlagInitialAge = 4"
definition httpCacheWriteOptionsFlagStaleWhileRevalidate :: u32 where
  [simp]: "httpCacheWriteOptionsFlagStaleWhileRevalidate = 8"
definition httpCacheWriteOptionsFlagSurrogateKeys :: u32 where [simp]: "httpCacheWriteOptionsFlagSurrogateKeys = 16"
definition httpCacheWriteOptionsFlagLength :: u32 where [simp]: "httpCacheWriteOptionsFlagLength = 32"
definition httpCacheWriteOptionsFlagSensitiveData :: u32 where [simp]: "httpCacheWriteOptionsFlagSensitiveData = 64"
definition httpCacheWriteOptionsFlagStaleIfError :: u32 where [simp]: "httpCacheWriteOptionsFlagStaleIfError = 128"

record HTTPCacheWriteOptions =
  ho_mask :: u32
  ho_maxAgeNs :: u64
  ho_varyRuleLen :: u32
  ho_initialAgeNs :: u64
  ho_staleWhileRevalidateNs :: u64
  ho_surrogateKeysLen :: u32
  ho_length :: u64
  ho_staleIfErrorNs :: u64
  ho_vary :: "WriteBuffer option"
  ho_surrogate :: "WriteBuffer option"

definition zero_http_write_options :: HTTPCacheWriteOptions where
  "zero_http_write_options =
     \<lparr>ho_mask = 0, ho_maxAgeNs = 0, ho_varyRuleLen = 0, ho_initialAgeNs = 0,
      ho_staleWhileRevalidateNs = 0, ho_surrogateKeysLen = 0, ho_length = 0,
      ho_staleIfErrorNs = 0, ho_vary = None, ho_surrogate = None\<rparr>"

definition SetMaxAgeNs :: "u64 \<Rightarrow> HTTPCacheWriteOptions \<Rightarrow> HTTPCacheWriteOptions" where
  "SetMaxAgeNs maxAge x = x\<lparr>ho_maxAgeNs := maxAge\<rparr>"

definition MaxAgeNs :: "HTTPCacheWriteOptions \<Rightarrow> u64" where
  "MaxAgeNs x = ho_maxAgeNs x"

definition SetVaryRule :: "string \<Rightarrow> HTTPCacheWriteOptions \<Rightarrow> HTTPCacheWriteOptions" where
  "SetVaryRule rule x =
     x\<lparr>ho_vary := Some (NewWriteBufferFromBytes rule), ho_varyRuleLen := of_nat (length rule),
       ho_mask := ho_mask x OR httpCacheWriteOptionsFlagVaryRule\<rparr>"

text \<open>The value read back from a buffer; a nil buffer or a length beyond the capacity panics.\<close>

definition buffer_value :: "WriteBuffer option \<Rightarrow> u32 \<Rightarrow> string outcome" where
  "buffer_value b n = (case b of None \<Rightarrow> Panic | Some b \<Rightarrow> wb_ToString (b\<lparr>wb_n := n\<rparr>))"

definition VaryRule :: "HTTPCacheWriteOptions \<Rightarrow> (string \<times> bool) outcome" where
  "VaryRule x =
     (if ho_mask x AND httpCacheWriteOptionsFlagVaryRule = 0 then Done ([], False)
      else case buffer_value (ho_vary x) (ho_varyRuleLen x) of Panic \<Rightarrow> Panic | Done s \<Rightarrow> Done (s, True))"

definition SetInitialAgeNs :: "u64 \<Rightarrow> HTTPCacheWriteOptions \<Rightarrow> HTTPCacheWriteOptions" where
  "SetInitialAgeNs initialAge x =
     x\<lparr>ho_initialAgeNs := initialAge, ho_mask := ho_mask x OR httpCacheWriteOptionsFlagInitialAge\<rparr>"

definition InitialAgeNs :: "HTTPCacheWriteOptions \<Rightarrow> u64 \<times> bool" where
  "InitialAgeNs x =
     (ho_initialAgeNs x,
      ho_mask x AND httpCacheWriteOptionsFlagInitialAge = httpCacheWriteOptionsFlagInitialAge)"

definition SetStaleWhileRevalidateNs :: "u64 \<Rightarrow> HTTPCacheWriteOptions \<Rightarrow> HTTPCacheWriteOptions" where
  "SetStaleWhileRevalidateNs ns x =
     x\<lparr>ho_staleWhileRevalidateNs := ns,
       ho_mask := ho_mask x OR httpCacheWriteOptionsFlagStaleWhileRevalidate\<rparr>"

definition StaleWhileRevalidateNs :: "HTTPCacheWriteOptions \<Rightarrow> u64 \<times> bool" where
  "StaleWhileRevalidateNs x =
     (ho_staleWhileRevalidateNs x,
      ho_mask x AND httpCacheWriteOptionsFlagStaleWhileRevalidate
        = httpCacheWriteOptionsFlagStaleWhileRevalidate)"

definition SetSurrogateKeys :: "string \<Rightarrow> HTTPCacheWriteOptions \<Rightarrow> HTTPCacheWriteOptions" where
  "SetSurrogateKeys keys x =
     x\<lparr>ho_surrogate := Some (NewWriteBufferFromBytes keys), ho_surrogateKeysLen := of_nat (length keys),
       ho_mask := ho_mask x OR httpCacheWriteOptionsFlagSurrogateKeys\<rparr>"

definition SurrogateKeys :: "HTTPCacheWriteOptions \<Rightarrow> (string \<times> bool) outcome" where
  "SurrogateKeys x =
     (if ho_mask x AND httpCacheWriteOptionsFlagSurrogateKeys = 0 then Done ([], False)
      else case buffer_value (ho_surrogate x) (ho_surrogateKeysLen x) of
        Panic \<Rightarrow> Panic | Done s \<Rightarrow> Done (s, True))"

definition SetLength :: "u64 \<Rightarrow> HTTPCacheWriteOptions \<Rightarrow> HTTPCacheWriteOptions" where
  "SetLength len x =
     x\<lparr>ho_length := len, ho_mask := ho_mask x OR httpCacheWriteOptionsFlagLength\<rparr>"

definition Length :: "HTTPCacheWriteOptions \<Rightarrow> u64 \<times> bool" where
  "Length x =
     (ho_length x, ho_mask x AND httpCacheWriteOptionsFlagLength = httpCacheWriteOptionsFlagLength)"

definition SetSensitiveData :: "bool \<Rightarrow> HTTPCacheWriteOptions \<Rightarrow> HTTPCacheWriteOptions" where
  "SetSensitiveData b x =
     (if b then x\<lparr>ho_mask := ho_mask x OR httpCacheWriteOptionsFlagSensitiveData\<rparr>
      else x\<lparr>ho_mask := ho_mask x AND NOT httpCacheWriteOptionsFlagSensitiveData\<rparr>)"

definition SensitiveData :: "HTTPCacheWriteOptions \<Rightarrow> bool" where
  "SensitiveData x \<longleftrightarrow>
     ho_mask x AND httpCacheWriteOptionsFlagSensitiveData = httpCacheWriteOptionsFlagSensitiveData"

definition SetStaleIfErrorNs :: "u64 \<Rightarrow> HTTPCacheWriteOptions \<Rightarrow> HTTPCacheWriteOptions" where
  "SetStaleIfErrorNs staleNs x =
     x\<lparr>ho_staleIfErrorNs := staleNs, ho_mask := ho_mask x OR httpCacheWriteOptionsFlagStaleIfError\<rparr>"

definition StaleIfErrorNs :: "HTTPCacheWriteOptions \<Rightarrow> u64 \<times> bool" where
  "StaleIfErrorNs x =
     (ho_staleIfErrorNs x,
      ho_mask x AND httpCacheWriteOptionsFlagStaleIfError = httpCacheWriteOptionsFlagStaleIfError)"

definition FillConfigMask :: "HTTPCacheWriteOptions \<Rightarrow> HTTPCacheWriteOptions" where
  "FillConfigMask x =
     x\<lparr>ho_mask := 0 OR httpCacheWriteOptionsFlagReserved OR httpCacheWriteOptionsFlagVaryRule
        OR httpCacheWriteOptionsFlagInitialAge OR httpCacheWriteOptionsFlagStaleWhileRevalidate
        OR httpCacheWriteOptionsFlagSurrogateKeys OR httpCacheWriteOptionsFlagLength
        OR httpCacheWriteOptionsFlagSensitiveData OR httpCacheWriteOptionsFlagStaleIfError\<rparr>"

definition sent_vary :: "HTTPCacheWriteOptions \<Rightarrow> string" where
  "sent_vary x = (case ho_vary x of None \<Rightarrow> [] | Some b \<Rightarrow> take (unat (ho_varyRuleLen x)) (wb_buf b))"

definition sent_surrogate :: "HTTPCacheWriteOptions \<Rightarrow> string" where
  "sent_surrogate x =
     (case ho_surrogate x of None \<Rightarrow> [] | Some b \<Rightarrow> take (unat (ho_surrogateKeysLen x)) (wb_buf b))"

interpretation ho_age: masked_option ho_mask httpCacheWriteOptionsFlagInitialAge
    SetInitialAgeNs ho_initialAgeNs "\<lambda>_. True"
  by unfold_locales (simp_all add: SetInitialAgeNs_def)

interpretation ho_swr: masked_option ho_mask httpCacheWriteOptionsFlagStaleWhileRevalidate
    SetStaleWhileRevalidateNs ho_staleWhileRevalidateNs "\<lambda>_. True"
  by unfold_locales (simp_all add: SetStaleWhileRevalidateNs_def)

interpretation ho_len: masked_option ho_mask httpCacheWriteOptionsFlagLength SetLength ho_length "\<lambda>_. True"
  by unfold_locales (simp_all add: SetLength_def)

interpretation ho_sie: masked_option ho_mask httpCacheWriteOptionsFlagStaleIfError
    SetStaleIfErrorNs ho_staleIfErrorNs "\<lambda>_. True"
  by unfold_locales (simp_all add: SetStaleIfErrorNs_def)

interpretation ho_var: masked_option ho_mask httpCacheWriteOptionsFlagVaryRule SetVaryRule sent_vary sized
  by unfold_locales
    (simp_all add: SetVaryRule_def sent_vary_def NewWriteBufferFromBytes_def sized_def unat_of_nat)

interpretation ho_sur: masked_option ho_mask httpCacheWriteOptionsFlagSurrogateKeys
    SetSurrogateKeys sent_surrogate sized
  by unfold_locales
    (simp_all add: SetSurrogateKeys_def sent_surrogate_def NewWriteBufferFromBytes_def sized_def unat_of_nat)

interpretation ho_sens: flag_option ho_mask httpCacheWriteOptionsFlagSensitiveData SetSensitiveData
  by unfold_locales (simp_all add: SetSensitiveData_def)

section \<open>Hostcalls\<close>

record suggested_reply =
  sg_status :: FastlyStatus
  sg_mask :: u32
  sg_maxAgeNs :: u64
  sg_varyRuleLen :: u32
  sg_initialAgeNs :: u64
  sg_staleWhileRevalidateNs :: u64
  sg_surrogateKeysLen :: u32
  sg_length :: u64
  sg_staleIfErrorNs :: u64
  sg_vary :: string
  sg_surrogate :: string

record 'w httpcache_calls =
  c_is_request_cacheable :: "handle \<Rightarrow> ('w, FastlyStatus \<times> u32) prog"
  c_get_suggested_cache_key :: "handle \<Rightarrow> u32 \<Rightarrow> ('w, buf_reply) prog"
  c_transaction_lookup :: "handle \<Rightarrow> HTTPCacheLookupOptions \<Rightarrow> ('w, FastlyStatus \<times> handle) prog"
  c_transaction_insert :: "handle \<Rightarrow> handle \<Rightarrow> HTTPCacheWriteOptions \<Rightarrow> ('w, FastlyStatus \<times> handle) prog"
  c_transaction_insert_and_stream_back :: "handle \<Rightarrow> handle \<Rightarrow> HTTPCacheWriteOptions \<Rightarrow>
      ('w, FastlyStatus \<times> handle \<times> handle) prog"
  c_transaction_update :: "handle \<Rightarrow> handle \<Rightarrow> HTTPCacheWriteOptions \<Rightarrow> ('w, FastlyStatus \<times> unit) prog"
  c_transaction_update_and_return_fresh :: "handle \<Rightarrow> handle \<Rightarrow> HTTPCacheWriteOptions \<Rightarrow>
      ('w, FastlyStatus \<times> handle) prog"
  c_transaction_choose_stale :: "handle \<Rightarrow> ('w, FastlyStatus \<times> unit) prog"
  c_transaction_record_not_cacheable :: "handle \<Rightarrow> HTTPCacheWriteOptions \<Rightarrow> ('w, FastlyStatus \<times> unit) prog"
  c_transaction_abandon :: "handle \<Rightarrow> ('w, FastlyStatus \<times> unit) prog"
  c_transaction_close :: "handle \<Rightarrow> ('w, FastlyStatus \<times> unit) prog"
  c_get_suggested_backend_request :: "handle \<Rightarrow> ('w, FastlyStatus \<times> handle) prog"
  c_get_suggested_cache_options :: "handle \<Rightarrow> handle \<Rightarrow> u32 \<Rightarrow> u32 \<Rightarrow> u32 \<Rightarrow> ('w, suggested_reply) prog"
  c_prepare_response_for_storage :: "handle \<Rightarrow> handle \<Rightarrow> ('w, FastlyStatus \<times> u32 \<times> handle) prog"
  c_get_found_response :: "handle \<Rightarrow> u32 \<Rightarrow> ('w, FastlyStatus \<times> handle \<times> handle) prog"
  c_get_state :: "handle \<Rightarrow> ('w, FastlyStatus \<times> u32) prog"
  c_get_length :: "handle \<Rightarrow> ('w, FastlyStatus \<times> u64) prog"
  c_get_max_age_ns :: "handle \<Rightarrow> ('w, FastlyStatus \<times> u64) prog"
  c_get_stale_while_revalidate_ns :: "handle \<Rightarrow> ('w, FastlyStatus \<times> u64) prog"
  c_get_stale_if_error_ns :: "handle \<Rightarrow> ('w, FastlyStatus \<times> u64) prog"
  c_get_age_ns :: "handle \<Rightarrow> ('w, FastlyStatus \<times> u64) prog"
  c_get_hits :: "handle \<Rightarrow> ('w, FastlyStatus \<times> u64) prog"
  c_get_sensitive_data :: "handle \<Rightarrow> ('w, FastlyStatus \<times> u32) prog"
  c_get_surrogate_keys :: "handle \<Rightarrow> u32 \<Rightarrow> ('w, buf_reply) prog"
  c_get_vary_rule :: "handle \<Rightarrow> u32 \<Rightarrow> ('w, buf_reply) prog"

definition HTTPCacheIsRequestCacheable :: "'w httpcache_calls \<Rightarrow> handle \<Rightarrow> ('w, goerr + bool) comp" where
  "HTTPCacheIsRequestCacheable cache req =
     map_result (\<lambda>c. if c = 0 then False else True) (hostcall (c_is_request_cacheable cache req))"

text \<open>The cache key is 32 bytes by the host's documentation; the code reads any length.\<close>

definition HTTPCacheGetSuggestedCacheKey :: "'w httpcache_calls \<Rightarrow> handle \<Rightarrow> ('w, goerr + string) comp" where
  "HTTPCacheGetSuggestedCacheKey cache req = buffered 32 (c_get_suggested_cache_key cache req)"

definition HTTPCacheTransactionLookup ::
  "'w httpcache_calls \<Rightarrow> handle \<Rightarrow> HTTPCacheLookupOptions \<Rightarrow> ('w, goerr + handle) comp" where
  "HTTPCacheTransactionLookup cache req opts = hostcall (c_transaction_lookup cache req opts)"

definition HTTPCacheTransactionInsert ::
  "'w httpcache_calls \<Rightarrow> handle \<Rightarrow> handle \<Rightarrow> HTTPCacheWriteOptions \<Rightarrow> ('w, goerr + HTTPBody) comp" where
  "HTTPCacheTransactionInsert cache h resp opts =
     map_result (\<lambda>body. \<lparr>b_h = body, b_closable = True\<rparr>)
       (hostcall (c_transaction_insert cache h resp opts))"

definition HTTPCacheTransactionInsertAndStreamback ::
  "'w httpcache_calls \<Rightarrow> handle \<Rightarrow> handle \<Rightarrow> HTTPCacheWriteOptions \<Rightarrow> ('w, goerr + HTTPBody \<times> handle) comp" where
  "HTTPCacheTransactionInsertAndStreamback cache h resp opts =
     map_result (\<lambda>(body, newh). (\<lparr>b_h = body, b_closable = True\<rparr>, newh))
       (hostcall (c_transaction_insert_and_stream_back cache h resp opts))"

definition HTTPCacheTransactionUpdate ::
  "'w httpcache_calls \<Rightarrow> handle \<Rightarrow> handle \<Rightarrow> HTTPCacheWriteOptions \<Rightarrow> ('w, goerr + unit) comp" where
  "HTTPCacheTransactionUpdate cache h resp opts = hostcall (c_transaction_update cache h resp opts)"

definition HTTPCacheTransactionUpdateAndReturnFresh ::
  "'w httpcache_calls \<Rightarrow> handle \<Rightarrow> handle \<Rightarrow> HTTPCacheWriteOptions \<Rightarrow> ('w, goerr + handle) comp" where
  "HTTPCacheTransactionUpdateAndReturnFresh cache h resp opts =
     hostcall (c_transaction_update_and_return_fresh cache h resp opts)"

definition HTTPCacheTransactionChooseStale :: "'w httpcache_calls \<Rightarrow> handle \<Rightarrow> ('w, goerr + unit) comp" where
  "HTTPCacheTransactionChooseStale cache h = hostcall (c_transaction_choose_stale cache h)"

definition HTTPCacheTransactionRecordNotCacheable ::
  "'w httpcache_calls \<Rightarrow> handle \<Rightarrow> HTTPCacheWriteOptions \<Rightarrow> ('w, goerr + unit) comp" where
  "HTTPCacheTransactionRecordNotCacheable cache h opts =
     hostcall (c_transaction_record_not_cacheable cache h opts)"

definition HTTPCacheTransactionAbandon :: "'w httpcache_calls \<Rightarrow> handle \<Rightarrow> ('w, goerr + unit) comp" where
  "HTTPCacheTransactionAbandon cache h = hostcall (c_transaction_abandon cache h)"

definition HTTPCacheTransactionClose :: "'w httpcache_calls \<Rightarrow> handle \<Rightarrow> ('w, goerr + unit) comp" where
  "HTTPCacheTransactionClose cache h = hostcall (c_transaction_close cache h)"

definition HTTPCacheGetSuggestedBackendRequest :: "'w httpcache_calls \<Rightarrow> handle \<Rightarrow> ('w, goerr + handle) comp" where
  "HTTPCacheGetSuggestedBackendRequest cache h = hostcall (c_get_suggested_backend_request cache h)"

text \<open>
  The loop of \<open>HTTPCacheGetSuggestedCacheOptions\<close>: on \<open>BufLen\<close> the buffers named by the mask
  the host returned are allocated again with the lengths it asks for.  On success the mask of
  the result is the mask of the question.
\<close>

partial_function (option) suggested_from ::
  "'w httpcache_calls \<Rightarrow> handle \<Rightarrow> handle \<Rightarrow> u32 \<Rightarrow> nat \<Rightarrow> nat \<Rightarrow> 'w \<Rightarrow>
   ((goerr + HTTPCacheWriteOptions) outcome \<times> 'w) option" where
  "suggested_from cache h r inMask varyCap surrogateCap w =
     (case c_get_suggested_cache_options cache h r inMask (of_nat varyCap) (of_nat surrogateCap) w of
        (out, w') \<Rightarrow>
          if sg_status out = FastlyStatusBufLen then
            suggested_from cache h r inMask
              (if sg_mask out AND httpCacheWriteOptionsFlagVaryRule = httpCacheWriteOptionsFlagVaryRule
               then (if sg_varyRuleLen out = 0 then 1 else unat (sg_varyRuleLen out)) else varyCap)
              (if sg_mask out AND httpCacheWriteOptionsFlagSurrogateKeys = httpCacheWriteOptionsFlagSurrogateKeys
               then unat (sg_surrogateKeysLen out) else surrogateCap)
              w'
          else case toError (sg_status out) of
            Some e \<Rightarrow> Some (Done (Inl e), w')
          | None \<Rightarrow>
              Some (Done (Inr
                \<lparr>ho_mask = inMask, ho_maxAgeNs = sg_maxAgeNs out, ho_varyRuleLen = sg_varyRuleLen out,
                 ho_initialAgeNs = sg_initialAgeNs out,
                 ho_staleWhileRevalidateNs = sg_staleWhileRevalidateNs out,
                 ho_surrogateKeysLen = sg_surrogateKeysLen out, ho_length = sg_length out,
                 ho_staleIfErrorNs = sg_staleIfErrorNs out,
                 ho_vary = Some (host_fill (sg_vary out) 0 (NewWriteBuffer varyCap)),
                 ho_surrogate = Some (host_fill (sg_surrogate out) 0 (NewWriteBuffer surrogateCap))\<rparr>), w'))"

definition HTTPCacheGetSuggestedCacheOptions ::
  "'w httpcache_calls \<Rightarrow> handle \<Rightarrow> handle \<Rightarrow> HTTPCacheWriteOptions \<Rightarrow> ('w, goerr + HTTPCacheWriteOptions) comp" where
  "HTTPCacheGetSuggestedCacheOptions cache h r opts =
     suggested_from cache h r (ho_mask opts) DefaultSmallBufLen DefaultMediumBufLen"

definition HTTPCachePrepareResponseForStorage ::
  "'w httpcache_calls \<Rightarrow> handle \<Rightarrow> handle \<Rightarrow> ('w, goerr + HTTPCacheStorageAction \<times> handle) comp" where
  "HTTPCachePrepareResponseForStorage cache h r = hostcall (c_prepare_response_for_storage cache h r)"

definition HTTPCacheGetFoundResponse ::
  "'w httpcache_calls \<Rightarrow> handle \<Rightarrow> bool \<Rightarrow> ('w, goerr + handle \<times> HTTPBody) comp" where
  "HTTPCacheGetFoundResponse cache h transform =
     map_result (\<lambda>(r, b). (r, \<lparr>b_h = b, b_closable = False\<rparr>))
       (hostcall (c_get_found_response cache h (if transform then 1 else 0)))"

definition HTTPCacheGetState :: "'w httpcache_calls \<Rightarrow> handle \<Rightarrow> ('w, goerr + u32) comp" where
  "HTTPCacheGetState cache h = hostcall (c_get_state cache h)"

definition HTTPCacheGetLength :: "'w httpcache_calls \<Rightarrow> handle \<Rightarrow> ('w, goerr + u64) comp" where
  "HTTPCacheGetLength cache h = hostcall (c_get_length cache h)"

definition HTTPCacheGetMaxAgeNs :: "'w httpcache_calls \<Rightarrow> handle \<Rightarrow> ('w, goerr + u64) comp" where
  "HTTPCacheGetMaxAgeNs cache h = hostcall (c_get_max_age_ns cache h)"

definition HTTPCacheGetStaleWhileRevalidateNs :: "'w httpcache_calls \<Rightarrow> handle \<Rightarrow> ('w, goerr + u64) comp" where
  "HTTPCacheGetStaleWhileRevalidateNs cache h = hostcall (c_get_stale_while_revalidate_ns cache h)"

definition HTTPCacheGetStaleIfErrorNs :: "'w httpcache_calls \<Rightarrow> handle \<Rightarrow> ('w, goerr + u64) comp" where
  "HTTPCacheGetStaleIfErrorNs cache h = hostcall (c_get_stale_if_error_ns cache h)"

definition HTTPCacheGetAgeNs :: "'w httpcache_calls \<Rightarrow> handle \<Rightarrow> ('w, goerr + u64) comp" where
  "HTTPCacheGetAgeNs cache h = hostcall (c_get_age_ns cache h)"

definition HTTPCacheGetHits :: "'w httpcache_calls \<Rightarrow> handle \<Rightarrow> ('w, goerr + u64) comp" where
  "HTTPCacheGetHits cache h = hostcall (c_get_hits cache h)"

definition HTTPCacheGetSensitiveData :: "'w httpcache_calls \<Rightarrow> handle \<Rightarrow> ('w, goerr + bool) comp" where
  "HTTPCacheGetSensitiveData cache h = map_result nonzero (hostcall (c_get_sensitive_data cache h))"

definition HTTPCacheGetSurrogateKeys :: "'w httpcache_calls \<Rightarrow> handle \<Rightarrow> ('w, goerr + string) comp" where
  "HTTPCacheGetSurrogateKeys cache h = buffered DefaultMediumBufLen (c_get_surrogate_keys cache h)"

definition HTTPCacheGetVaryRule :: "'w httpcache_calls \<Rightarrow> handle \<Rightarrow> ('w, goerr + string) comp" where
  "HTTPCacheGetVaryRule cache h = buffered DefaultSmallBufLen (c_get_vary_rule cache h)"

section \<open>Lookup state\<close>

definition CacheLookupStateFound :: u32 where [simp]: "CacheLookupStateFound = 1"
definition CacheLookupStateUsable :: u32 where [simp]: "CacheLookupStateUsable = 2"
definition CacheLookupStateStale :: u32 where [simp]: "CacheLookupStateStale = 4"
definition CacheLookupStateMustInsertOrUpdate :: u32 where [simp]: "CacheLookupStateMustInsertOrUpdate = 8"
definition CacheLookupStateUsableIfError :: u32 where [simp]: "CacheLookupStateUsableIfError = 16"
definition CacheLookupStateCollapseError :: u32 where [simp]: "CacheLookupStateCollapseError = 32"

definition state_Has :: "u32 \<Rightarrow> u32 \<Rightarrow> bool" where
  "state_Has c m \<longleftrightarrow> c AND m = m"

text \<open>The mask of the suggested options is always the mask that was asked for.\<close>

lemma suggested_mask:
  "suggested_from cache h r m v s w = Some (Done (Inr out), w') \<Longrightarrow> ho_mask out = m"
proof -
  have "fst y = Done (Inr out) \<longrightarrow> ho_mask out = m"
    if "suggested_from cache h r m v s w = Some y" for y out
    using that
  proof (induction cache h r m v s w y arbitrary: out rule: suggested_from.raw_induct [rotated, consumes 1])
    case (1 self cache h r m v s w y)
    then show ?case by (auto split: prod.splits if_splits option.splits)
  qed
  then show "suggested_from cache h r m v s w = Some (Done (Inr out), w') \<Longrightarrow> ho_mask out = m"
    by fastforce
qed

section \<open>A cache for witnesses\<close>

text \<open>
  A cache that accepts every call: it suggests one minute of freshness and a \<open>vary\<close> rule, and
  has a fresh response to return.
\<close>

definition accepting_cache :: "'w httpcache_calls" where
  "accepting_cache =
     \<lparr>c_is_request_cacheable = (\<lambda>h. accept 1),
      c_get_suggested_cache_key = (\<lambda>h. one_value_host (replicate 32 (CHR 0x2A))),
      c_transaction_lookup = (\<lambda>h opts. accept 10),
      c_transaction_insert = (\<lambda>h r opts. accept 11),
      c_transaction_insert_and_stream_back = (\<lambda>h r opts. accept (11, 12)),
      c_transaction_update = (\<lambda>h r opts. accept ()),
      c_transaction_update_and_return_fresh = (\<lambda>h r opts. accept 12),
      c_transaction_choose_stale = (\<lambda>h. accept ()),
      c_transaction_record_not_cacheable = (\<lambda>h opts. accept ()),
      c_transaction_abandon = (\<lambda>h. accept ()),
      c_transaction_close = (\<lambda>h. accept ()),
      c_get_suggested_backend_request = (\<lambda>h. accept 3),
      c_get_suggested_cache_options = (\<lambda>h r m v s w.
        (\<lparr>sg_status = 0, sg_mask = 134, sg_maxAgeNs = 60000000000, sg_varyRuleLen = 6,
          sg_initialAgeNs = 0, sg_staleWhileRevalidateNs = 0, sg_surrogateKeysLen = 0, sg_length = 0,
          sg_staleIfErrorNs = 0, sg_vary = ''accept'', sg_surrogate = []\<rparr>, w)),
      c_prepare_response_for_storage = (\<lambda>h r. accept (0, r)),
      c_get_found_response = (\<lambda>h t. accept (1, 2)),
      c_get_state = (\<lambda>h. accept 3),
      c_get_length = (\<lambda>h. accept 5),
      c_get_max_age_ns = (\<lambda>h. accept 60000000000),
      c_get_stale_while_revalidate_ns = (\<lambda>h. accept 0),
      c_get_stale_if_error_ns = (\<lambda>h. accept 0),
      c_get_age_ns = (\<lambda>h. accept 1000000000),
      c_get_hits = (\<lambda>h. accept 1),
      c_get_sensitive_data = (\<lambda>h. accept 0),
      c_get_surrogate_keys = (\<lambda>h. one_value_host []),
      c_get_vary_rule = (\<lambda>h. one_value_host ''accept'')\<rparr>"

end
