(* ===== verification/Candidates.thy ===== *)
theory Candidates
  imports HttpCacheABI "HOL-Library.Signed_Division"
begin

text \<open>
  \<open>fsthttp/cache.go\<close>: cache write options in seconds and their ABI form, and the
  \<open>CandidateResponse\<close> that an \<open>AfterSend\<close> hook may change before it is stored.  The candidate
  is passed and returned, because asking for a suggested option stores the suggestions in it.
  The body transform is a function on bodies; \<open>io.Copy\<close> from a transformed body to the body
  being stored is a parameter.
\<close>

section \<open>Cache write options\<close>

text \<open>\<open>time.Duration\<close> is a signed 64-bit count of nanoseconds; its division truncates.\<close>

definition u64nsTou32s :: "u64 \<Rightarrow> u32" where
  "u64nsTou32s ns = of_int (sint ns sdiv 1000000000)"

definition u32sTou64ns :: "u32 \<Rightarrow> u64" where
  "u32sTou64ns s = ucast s * 1000000000"

definition flushToABI :: "cacheWriteOptions \<Rightarrow> HTTPCacheWriteOptions \<Rightarrow> HTTPCacheWriteOptions" where
  "flushToABI opts abi =
     SetStaleIfErrorNs (u32sTou64ns (cw_staleIfError opts))
     (SetSensitiveData (cw_sensitive opts)
     (SetSurrogateKeys (cw_surrogate opts)
     (SetStaleWhileRevalidateNs (u32sTou64ns (cw_staleWhileRevalidate opts))
     (SetInitialAgeNs (u32sTou64ns (cw_age opts))
     (SetVaryRule (cw_vary opts)
     (SetMaxAgeNs (u32sTou64ns (cw_maxAge opts)) abi))))))"

definition loadFromABI :: "HTTPCacheWriteOptions \<Rightarrow> cacheWriteOptions \<Rightarrow> cacheWriteOptions outcome" where
  "loadFromABI abi opts =
     (case VaryRule abi of
        Panic \<Rightarrow> Panic
      | Done (vary, useVary) \<Rightarrow>
          let opts = opts\<lparr>cw_maxAge := u64nsTou32s (MaxAgeNs abi), cw_vary := vary, cw_useVary := useVary\<rparr>;
              opts = (case InitialAgeNs abi of (ns, ok) \<Rightarrow>
                        if ok then opts\<lparr>cw_age := u64nsTou32s ns\<rparr> else opts);
              opts = (case StaleWhileRevalidateNs abi of (ns, ok) \<Rightarrow>
                        if ok then opts\<lparr>cw_staleWhileRevalidate := u64nsTou32s ns\<rparr> else opts)
          in case SurrogateKeys abi of
               Panic \<Rightarrow> Panic
             | Done (surrogate, _) \<Rightarrow>
                 let opts = opts\<lparr>cw_surrogate := surrogate\<rparr>;
                     opts = (case Length abi of (len, ok) \<Rightarrow> opts\<lparr>cw_length := len, cw_useLength := ok\<rparr>);
                     opts = opts\<lparr>cw_sensitive := SensitiveData abi\<rparr>
                 in Done (case StaleIfErrorNs abi of (ns, ok) \<Rightarrow>
                            if ok then opts\<lparr>cw_staleIfError := u64nsTou32s ns\<rparr> else opts))"

definition loadFromHandle ::
  "'w httpcache_calls \<Rightarrow> handle \<Rightarrow> cacheWriteOptions \<Rightarrow> ('w, goerr + cacheWriteOptions) comp" where
  "loadFromHandle cache c opts =
     check_c (annotate ''get max age'') (HTTPCacheGetMaxAgeNs cache c) (\<lambda>ns.
     let opts = opts\<lparr>cw_maxAge := u64nsTou32s ns\<rparr> in
     check_c (annotate ''get vary rule'') (HTTPCacheGetVaryRule cache c) (\<lambda>vary.
     let opts = opts\<lparr>cw_vary := vary\<rparr> in
     check_c (annotate ''get age'') (HTTPCacheGetAgeNs cache c) (\<lambda>ns.
     let opts = opts\<lparr>cw_age := u64nsTou32s ns\<rparr> in
     check_c (annotate ''get stale while revalidate'') (HTTPCacheGetStaleWhileRevalidateNs cache c) (\<lambda>ns.
     let opts = opts\<lparr>cw_staleWhileRevalidate := u64nsTou32s ns\<rparr> in
     check_c (annotate ''get surrogate keys'') (HTTPCacheGetSurrogateKeys cache c) (\<lambda>surrogate.
     let opts = opts\<lparr>cw_surrogate := surrogate\<rparr> in
     check_c id
       (try_c (HTTPCacheGetLength cache c)
          (\<lambda>e. case IsFastlyError (Some e) of (status, ok) \<Rightarrow>
                 if ok \<and> status = FastlyStatusNone
                 then finish (Inr (opts\<lparr>cw_length := 0, cw_useLength := False\<rparr>))
                 else finish (Inl (annotate ''get length'' e)))
          (\<lambda>ln. finish (Inr (opts\<lparr>cw_useLength := True, cw_length := ln\<rparr>)))) (\<lambda>opts.
     check_c (annotate ''get sensitive data'') (HTTPCacheGetSensitiveData cache c) (\<lambda>sensitive.
     let opts = opts\<lparr>cw_sensitive := sensitive\<rparr> in
     check_c (annotate ''get stale if error'') (HTTPCacheGetStaleIfErrorNs cache c) (\<lambda>ns.
     finish (Inr (opts\<lparr>cw_staleIfError := u64nsTou32s ns\<rparr>))))))))))"

section \<open>Found responses\<close>

definition httpCacheWait :: "'w httpcache_calls \<Rightarrow> handle \<Rightarrow> ('w, goerr + u32) comp" where
  "httpCacheWait cache c = check_c (annotate ''get state'') (HTTPCacheGetState cache c) (\<lambda>state. finish (Inr state))"

text \<open>\<open>None\<close> is the nil response: nothing usable is stored.\<close>

definition httpCacheGetFoundResponse ::
  "'w http_calls \<Rightarrow> 'w httpcache_calls \<Rightarrow> handle \<Rightarrow> 'q \<Rightarrow> string \<Rightarrow> bool \<Rightarrow> bool \<Rightarrow>
   ('w, goerr + ('q, 'b) Response option) comp" where
  "httpCacheGetFoundResponse host cache c req backend transformForClient wasHit =
     try_c (HTTPCacheGetFoundResponse cache c transformForClient)
       (\<lambda>e. case IsFastlyError (Some e) of (status, ok) \<Rightarrow>
              if ok \<and> status = FastlyStatusNone then finish (Inr None)
              else finish (Inl (annotate ''get found response'' e)))
       (\<lambda>(abiResp, abiBody).
          check_c (annotate ''get hits'')
            (if wasHit then HTTPCacheGetHits cache c else finish (Inr 0)) (\<lambda>hits.
          check_c (annotate ''load cache options from handle'')
            (loadFromHandle cache c zero_write_options) (\<lambda>opts.
          check_c (annotate ''new response'') (newResponse host req backend abiResp abiBody) (\<lambda>resp.
          finish (Inr (Some (resp\<lparr>rs_cacheResponse :=
            \<lparr>cr_cacheWriteOptions = opts, cr_storageAction = cacheStorageActionInvalid,
             cr_hits = hits\<rparr>\<rparr>)))))))"

section \<open>Candidate responses\<close>

record 'b CandidateResponse =
  cd_cacheHandle :: handle
  cd_abiResp :: handle
  cd_abiBody :: HTTPBody
  cd_suggested :: "cacheWriteOptions option"
  cd_suggestedStorageAction :: HTTPCacheStorageAction
  cd_overrideStorageAction :: HTTPCacheStorageAction
  cd_useStorageAction :: bool
  cd_overridePCI :: bool
  cd_usePCI :: bool
  cd_overrideStaleWhileRevalidate :: u32
  cd_useSWR :: bool
  cd_overrideStaleIfError :: u32
  cd_useSIE :: bool
  cd_extraSurrogateKeys :: string
  cd_overrideSurrogateKeys :: string
  cd_useSurrogate :: bool
  cd_overrideTTL :: u32
  cd_useTTL :: bool
  cd_overrideVary :: string
  cd_useVary :: bool
  cd_bodyTransform :: "(HTTPBody \<Rightarrow> 'b ReadCloser) option"

text \<open>The caching options of a request without its hooks (those belong to \<open>Send\<close>).\<close>

record CacheOptions =
  o_Pass :: bool
  o_PCI :: bool
  o_TTL :: u32
  o_StaleWhileRevalidate :: u32
  o_StaleIfError :: u32
  o_SurrogateKey :: string
  o_OverrideKey :: string

definition candidate_with ::
  "handle \<Rightarrow> CacheOptions \<Rightarrow> handle \<Rightarrow> HTTPBody \<Rightarrow> HTTPCacheStorageAction \<Rightarrow> 'b CandidateResponse" where
  "candidate_with c opts abiResp abiBody storageAction =
     \<lparr>cd_cacheHandle = c, cd_abiResp = abiResp, cd_abiBody = abiBody, cd_suggested = None,
      cd_suggestedStorageAction = storageAction, cd_overrideStorageAction = 0,
      cd_useStorageAction = False,
      cd_overridePCI = o_PCI opts, cd_usePCI = o_PCI opts,
      cd_overrideStaleWhileRevalidate = o_StaleWhileRevalidate opts,
      cd_useSWR = (o_StaleWhileRevalidate opts \<noteq> 0),
      cd_overrideStaleIfError = o_StaleIfError opts, cd_useSIE = (o_StaleIfError opts \<noteq> 0),
      cd_extraSurrogateKeys = o_SurrogateKey opts, cd_overrideSurrogateKeys = [],
      cd_useSurrogate = False,
      cd_overrideTTL = o_TTL opts, cd_useTTL = (o_TTL opts \<noteq> 0),
      cd_overrideVary = [], cd_useVary = False, cd_bodyTransform = None\<rparr>"

text \<open>A response that sets cookies is not stored by default.\<close>

definition cookie_action :: "(goerr + string) \<Rightarrow> HTTPCacheStorageAction \<Rightarrow> HTTPCacheStorageAction" where
  "cookie_action v storageAction =
     (case v of
        Inr v \<Rightarrow> if v \<noteq> [] \<and> storageAction \<noteq> HTTPCacheStorageActionDoNotStore
                 then HTTPCacheStorageActionRecordUncacheable else storageAction
      | Inl _ \<Rightarrow> storageAction)"

definition newCandidate ::
  "'w http_calls \<Rightarrow> 'w httpcache_calls \<Rightarrow> handle \<Rightarrow> CacheOptions \<Rightarrow> handle \<Rightarrow> HTTPBody \<Rightarrow>
   ('w, goerr + 'b CandidateResponse) comp" where
  "newCandidate host cache c opts abiResp abiBody =
     check_c (annotate ''prepare response for storage'')
       (HTTPCachePrepareResponseForStorage cache c abiResp) (\<lambda>(storageAction, abiResp).
     and_then (HTTPResponse_GetHeaderValue host abiResp ''set-cookie'') (\<lambda>v.
     finish (Inr (candidate_with c opts abiResp abiBody (cookie_action v storageAction)))))"

subsection \<open>Setters\<close>

definition SetCacheable :: "'b CandidateResponse \<Rightarrow> 'b CandidateResponse" where
  "SetCacheable c =
     (let c = (if \<not> cd_useStorageAction c
               then c\<lparr>cd_useStorageAction := True, cd_overrideStorageAction := cd_suggestedStorageAction c\<rparr>
               else c)
      in if cd_overrideStorageAction c \<noteq> HTTPCacheStorageActionUpdate
         then c\<lparr>cd_overrideStorageAction := HTTPCacheStorageActionInsert\<rparr> else c)"

definition SetUncacheable :: "'b CandidateResponse \<Rightarrow> 'b CandidateResponse" where
  "SetUncacheable c =
     c\<lparr>cd_useStorageAction := True, cd_overrideStorageAction := HTTPCacheStorageActionDoNotStore\<rparr>"

definition SetUncacheableDisableCollapsing :: "'b CandidateResponse \<Rightarrow> 'b CandidateResponse" where
  "SetUncacheableDisableCollapsing c =
     c\<lparr>cd_useStorageAction := True, cd_overrideStorageAction := HTTPCacheStorageActionRecordUncacheable\<rparr>"

definition SetTTL :: "u32 \<Rightarrow> 'b CandidateResponse \<Rightarrow> 'b CandidateResponse" where
  "SetTTL ttl c = c\<lparr>cd_overrideTTL := ttl, cd_useTTL := True\<rparr>"

definition SetStaleWhileRevalidate :: "u32 \<Rightarrow> 'b CandidateResponse \<Rightarrow> 'b CandidateResponse" where
  "SetStaleWhileRevalidate swr c = c\<lparr>cd_overrideStaleWhileRevalidate := swr, cd_useSWR := True\<rparr>"

definition SetStaleIfError :: "u32 \<Rightarrow> 'b CandidateResponse \<Rightarrow> 'b CandidateResponse" where
  "SetStaleIfError sie c = c\<lparr>cd_overrideStaleIfError := sie, cd_useSIE := True\<rparr>"

definition SetSensitive :: "bool \<Rightarrow> 'b CandidateResponse \<Rightarrow> 'b CandidateResponse" where
  "SetSensitive sensitive c = c\<lparr>cd_overridePCI := sensitive, cd_usePCI := True\<rparr>"

definition SetVary :: "string \<Rightarrow> 'b CandidateResponse \<Rightarrow> 'b CandidateResponse" where
  "SetVary vary c = c\<lparr>cd_overrideVary := vary, cd_useVary := True\<rparr>"

definition cd_SetSurrogateKeys :: "string \<Rightarrow> 'b CandidateResponse \<Rightarrow> 'b CandidateResponse" where
  "cd_SetSurrogateKeys keys c = c\<lparr>cd_overrideSurrogateKeys := keys, cd_useSurrogate := True\<rparr>"

text \<open>\<open>None\<close> is the nil function.\<close>

definition SetBodyTransform ::
  "(HTTPBody \<Rightarrow> 'b ReadCloser) option \<Rightarrow> 'b CandidateResponse \<Rightarrow> 'b CandidateResponse" where
  "SetBodyTransform fn c = c\<lparr>cd_bodyTransform := fn\<rparr>"

definition BodyTransform :: "'b CandidateResponse \<Rightarrow> (HTTPBody \<Rightarrow> 'b ReadCloser) option" where
  "BodyTransform c = cd_bodyTransform c"

subsection \<open>Suggested options\<close>

definition httpCacheGetSuggestedCacheWriteOptions ::
  "'w httpcache_calls \<Rightarrow> handle \<Rightarrow> handle \<Rightarrow> ('w, goerr + cacheWriteOptions) comp" where
  "httpCacheGetSuggestedCacheWriteOptions cache cacheHandle resp =
     check_c (annotate ''get suggested cache options'')
       (HTTPCacheGetSuggestedCacheOptions cache cacheHandle resp (FillConfigMask zero_http_write_options))
       (\<lambda>newABIOpts.
          and_then (of_outcome (loadFromABI newABIOpts zero_write_options)) (\<lambda>newOpts.
          finish (Inr newOpts)))"

definition join_key :: "string \<Rightarrow> string \<Rightarrow> string" where
  "join_key keys extra = (if keys \<noteq> [] then keys @ '' '' else keys) @ extra"

definition buildFreshSuggestedCacheWriteOptions ::
  "'w http_calls \<Rightarrow> 'w httpcache_calls \<Rightarrow> 'b CandidateResponse \<Rightarrow> ('w, goerr + cacheWriteOptions) comp" where
  "buildFreshSuggestedCacheWriteOptions host cache c =
     check_c id (httpCacheGetSuggestedCacheWriteOptions cache (cd_cacheHandle c) (cd_abiResp c)) (\<lambda>opts.
     let keys = cw_surrogate opts;
         keys = (if cd_extraSurrogateKeys c \<noteq> [] then join_key keys (cd_extraSurrogateKeys c) else keys)
     in check_c id
          (for_each (Values_Next (c_resp_header_values_get host (cd_abiResp c) surrogateKey)) Values_Bytes
             (\<lambda>v keys. finish (Inr (join_key keys v))) (newValues DefaultLargeBufLen) keys)
          (\<lambda>(vals, keys).
             case Values_Err vals of
               Some e \<Rightarrow> finish (Inl (annotate ''get header values'' e))
             | None \<Rightarrow> finish (Inr (opts\<lparr>cw_surrogate := keys\<rparr>))))"

definition getSuggestedCacheWriteOptions ::
  "'w http_calls \<Rightarrow> 'w httpcache_calls \<Rightarrow> 'b CandidateResponse \<Rightarrow>
   ('w, goerr + cacheWriteOptions \<times> 'b CandidateResponse) comp" where
  "getSuggestedCacheWriteOptions host cache c =
     (case cd_suggested c of
        Some opts \<Rightarrow> finish (Inr (opts, c))
      | None \<Rightarrow>
          check_c id (buildFreshSuggestedCacheWriteOptions host cache c) (\<lambda>opts.
          finish (Inr (opts, c\<lparr>cd_suggested := Some opts\<rparr>))))"

subsection \<open>Getters\<close>

text \<open>A getter of the shape: the override if there is one, else the suggestion.\<close>

definition override_or ::
  "'w http_calls \<Rightarrow> 'w httpcache_calls \<Rightarrow> ('b CandidateResponse \<Rightarrow> bool) \<Rightarrow>
   ('b CandidateResponse \<Rightarrow> 'v) \<Rightarrow> (cacheWriteOptions \<Rightarrow> 'v) \<Rightarrow> 'b CandidateResponse \<Rightarrow>
   ('w, goerr + 'v \<times> 'b CandidateResponse) comp" where
  "override_or host cache use override suggested c =
     (if use c then finish (Inr (override c, c))
      else check_c id (getSuggestedCacheWriteOptions host cache c) (\<lambda>(opts, c).
           finish (Inr (suggested opts, c))))"

definition cd_Age ::
  "'w http_calls \<Rightarrow> 'w httpcache_calls \<Rightarrow> 'b CandidateResponse \<Rightarrow> ('w, goerr + u32 \<times> 'b CandidateResponse) comp" where
  "cd_Age host cache c =
     check_c id (getSuggestedCacheWriteOptions host cache c) (\<lambda>(opts, c). finish (Inr (cw_age opts, c)))"

definition cd_MaxAge ::
  "'w http_calls \<Rightarrow> 'w httpcache_calls \<Rightarrow> 'b CandidateResponse \<Rightarrow> ('w, goerr + u32 \<times> 'b CandidateResponse) comp" where
  "cd_MaxAge host cache = override_or host cache cd_useTTL cd_overrideTTL cw_maxAge"

definition cd_TTLRemaining ::
  "'w http_calls \<Rightarrow> 'w httpcache_calls \<Rightarrow> 'b CandidateResponse \<Rightarrow> ('w, goerr + u32 \<times> 'b CandidateResponse) comp" where
  "cd_TTLRemaining host cache c =
     check_c id (getSuggestedCacheWriteOptions host cache c) (\<lambda>(opts, c).
     let maxAge = cw_maxAge opts; age = cw_age opts;
         maxAge = (if cd_useTTL c then cd_overrideTTL c else maxAge)
     in if maxAge \<le> age then finish (Inr (0, c)) else finish (Inr (maxAge - age, c)))"

definition cd_TTL ::
  "'w http_calls \<Rightarrow> 'w httpcache_calls \<Rightarrow> 'b CandidateResponse \<Rightarrow> ('w, goerr + u32 \<times> 'b CandidateResponse) comp" where
  "cd_TTL host cache c = cd_TTLRemaining host cache c"

definition cd_StaleWhileRevalidate ::
  "'w http_calls \<Rightarrow> 'w httpcache_calls \<Rightarrow> 'b CandidateResponse \<Rightarrow> ('w, goerr + u32 \<times> 'b CandidateResponse) comp" where
  "cd_StaleWhileRevalidate host cache =
     override_or host cache cd_useSWR cd_overrideStaleWhileRevalidate cw_staleWhileRevalidate"

definition cd_StaleIfError ::
  "'w http_calls \<Rightarrow> 'w httpcache_calls \<Rightarrow> 'b CandidateResponse \<Rightarrow> ('w, goerr + u32 \<times> 'b CandidateResponse) comp" where
  "cd_StaleIfError host cache = override_or host cache cd_useSIE cd_overrideStaleIfError cw_staleIfError"

definition cd_Sensitive ::
  "'w http_calls \<Rightarrow> 'w httpcache_calls \<Rightarrow> 'b CandidateResponse \<Rightarrow> ('w, goerr + bool \<times> 'b CandidateResponse) comp" where
  "cd_Sensitive host cache = override_or host cache cd_usePCI cd_overridePCI cw_sensitive"

definition cd_Vary ::
  "'w http_calls \<Rightarrow> 'w httpcache_calls \<Rightarrow> 'b CandidateResponse \<Rightarrow> ('w, goerr + string \<times> 'b CandidateResponse) comp" where
  "cd_Vary host cache = override_or host cache cd_useVary cd_overrideVary cw_vary"

definition cd_SurrogateKeys ::
  "'w http_calls \<Rightarrow> 'w httpcache_calls \<Rightarrow> 'b CandidateResponse \<Rightarrow> ('w, goerr + string \<times> 'b CandidateResponse) comp" where
  "cd_SurrogateKeys host cache = override_or host cache cd_useSurrogate cd_overrideSurrogateKeys cw_surrogate"

definition cd_SetHeader :: "'w http_calls \<Rightarrow> string \<Rightarrow> string \<Rightarrow> 'b CandidateResponse \<Rightarrow> ('w, goerr + unit) comp" where
  "cd_SetHeader host key value c =
     check_c (annotate ''set header value'') (HTTPResponse_SetHeaderValues host (cd_abiResp c) key [value])
       (\<lambda>_. finish (Inr ()))"

definition cd_DelHeader :: "'w http_calls \<Rightarrow> string \<Rightarrow> 'b CandidateResponse \<Rightarrow> ('w, goerr + unit) comp" where
  "cd_DelHeader host key c =
     check_c (annotate ''remove header'') (HTTPResponse_RemoveHeader host (cd_abiResp c) key) (\<lambda>_. finish (Inr ()))"

definition cd_Header :: "'w http_calls \<Rightarrow> string \<Rightarrow> 'b CandidateResponse \<Rightarrow> ('w, goerr + string) comp" where
  "cd_Header host key c =
     check_c (annotate ''get header'') (HTTPResponse_GetHeaderValue host (cd_abiResp c) key) (\<lambda>v. finish (Inr v))"

definition cd_SetStatus :: "'w http_calls \<Rightarrow> int \<Rightarrow> 'b CandidateResponse \<Rightarrow> ('w, goerr + unit) comp" where
  "cd_SetStatus host status c =
     check_c (annotate ''set status'') (HTTPResponse_SetStatusCode host (cd_abiResp c) status) (\<lambda>_. finish (Inr ()))"

definition cd_Status :: "'w http_calls \<Rightarrow> 'b CandidateResponse \<Rightarrow> ('w, goerr + int) comp" where
  "cd_Status host c =
     check_c (annotate ''get status'') (HTTPResponse_GetStatusCode host (cd_abiResp c)) (\<lambda>s. finish (Inr s))"

definition cd_IsStale :: "'w httpcache_calls \<Rightarrow> 'b CandidateResponse \<Rightarrow> ('w, goerr + bool) comp" where
  "cd_IsStale cache c =
     check_c (annotate ''get state'') (HTTPCacheGetState cache (cd_cacheHandle c)) (\<lambda>state.
     finish (Inr (state_Has state CacheLookupStateStale)))"

definition cd_StaleIfErrorAvailable :: "'w httpcache_calls \<Rightarrow> 'b CandidateResponse \<Rightarrow> ('w, bool) comp" where
  "cd_StaleIfErrorAvailable cache c =
     and_then (HTTPCacheGetState cache (cd_cacheHandle c)) (\<lambda>r.
     finish (state_Has (case r of Inr state \<Rightarrow> state | Inl _ \<Rightarrow> 0) CacheLookupStateUsableIfError))"

section \<open>Storing a candidate\<close>

text \<open>The options \<open>finalizeOptions\<close> decides on, given the suggestion and the known body length.\<close>

definition final_action :: "'b CandidateResponse \<Rightarrow> HTTPCacheStorageAction" where
  "final_action c = (if cd_useStorageAction c then cd_overrideStorageAction c else cd_suggestedStorageAction c)"

definition final_options :: "'b CandidateResponse \<Rightarrow> cacheWriteOptions \<Rightarrow> cacheWriteOptions" where
  "final_options c suggested =
     zero_write_options
       \<lparr>cw_maxAge := (if cd_useTTL c \<and> cw_age suggested \<le> cd_overrideTTL c
                      then cd_overrideTTL c - cw_age suggested else cw_maxAge suggested),
        cw_age := cw_age suggested,
        cw_staleWhileRevalidate := (if cd_useSWR c then cd_overrideStaleWhileRevalidate c
                                    else cw_staleWhileRevalidate suggested),
        cw_staleIfError := (if cd_useSIE c then cd_overrideStaleIfError c else cw_staleIfError suggested),
        cw_vary := (if cd_useVary c then cd_overrideVary c else cw_vary suggested),
        cw_surrogate := (if cd_useSurrogate c then cd_overrideSurrogateKeys c else cw_surrogate suggested),
        cw_sensitive := (if cd_usePCI c then cd_overridePCI c else cw_sensitive suggested)\<rparr>"

definition bodyHasKnownLength :: "'w http_calls \<Rightarrow> HTTPBody \<Rightarrow> ('w, u64 \<times> bool) comp" where
  "bodyHasKnownLength host body =
     and_then (HTTPBody_Length host body) (\<lambda>r.
     finish (case r of Inl _ \<Rightarrow> (0, False) | Inr l \<Rightarrow> (l, True)))"

definition finalizeOptions ::
  "'w http_calls \<Rightarrow> 'w httpcache_calls \<Rightarrow> 'b CandidateResponse \<Rightarrow>
   ('w, goerr + HTTPCacheStorageAction \<times> cacheWriteOptions \<times> HTTPCacheWriteOptions) comp" where
  "finalizeOptions host cache c =
     check_c id
       (case cd_suggested c of
          Some suggested \<Rightarrow> finish (Inr suggested)
        | None \<Rightarrow> buildFreshSuggestedCacheWriteOptions host cache c) (\<lambda>suggested.
     let opts = final_options c suggested in
     and_then
       (case cd_bodyTransform c of
          Some _ \<Rightarrow> finish opts
        | None \<Rightarrow>
            and_then (bodyHasKnownLength host (cd_abiBody c)) (\<lambda>(len, ok).
            finish (if ok then opts\<lparr>cw_length := len, cw_useLength := True\<rparr> else opts))) (\<lambda>opts.
     finish (Inr (final_action c, opts, flushToABI opts zero_http_write_options))))"

text \<open>Filling the body being stored: through the transform and \<open>io.Copy\<close>, or by appending.\<close>

type_synonym ('w, 'b) io_copy = "HTTPBody \<Rightarrow> 'b ReadCloser \<Rightarrow> ('w, nat \<times> goerr option) comp"

definition fill_body ::
  "'w http_calls \<Rightarrow> ('w, 'b) io_copy \<Rightarrow> string \<Rightarrow> 'b CandidateResponse \<Rightarrow> HTTPBody \<Rightarrow> ('w, goerr + unit) comp" where
  "fill_body host io_copy what c body =
     (case cd_bodyTransform c of
        Some fn \<Rightarrow>
          and_then (io_copy body (fn (cd_abiBody c))) (\<lambda>(n, err).
          case err of
            Some e \<Rightarrow> finish (Inl (annotate ''bodyTransform: io.Copy'' e))
          | None \<Rightarrow> drop_error (HTTPBody_Close host body) (finish (Inr ())))
      | None \<Rightarrow>
          check_c (annotate what) (HTTPBody_Append host body (cd_abiBody c)) (\<lambda>_.
          drop_error (HTTPBody_Close host body) (finish (Inr ()))))"

definition newResponseFromCandidate ::
  "'w http_calls \<Rightarrow> 'b CandidateResponse \<Rightarrow> 'q \<Rightarrow> cacheWriteOptions \<Rightarrow> ('w, goerr + ('q, 'b) Response) comp" where
  "newResponseFromCandidate host candidate req opts =
     check_c (annotate ''newResponse'')
       (newResponse host req [] (cd_abiResp candidate) (cd_abiBody candidate)) (\<lambda>resp.
     let resp = (case cd_bodyTransform candidate of
                   None \<Rightarrow> resp
                 | Some fn \<Rightarrow> resp\<lparr>rs_Body := fn (cd_abiBody candidate)\<rparr>)
     in finish (Inr (resp\<lparr>rs_cacheResponse := (rs_cacheResponse resp)\<lparr>cr_cacheWriteOptions := opts\<rparr>\<rparr>)))"

text \<open>The last assignment of \<open>applyAndStreamBack\<close> dereferences the response, which may be nil.\<close>

definition with_action ::
  "HTTPCacheStorageAction \<Rightarrow> ('q, 'b) Response option \<Rightarrow> ('w, goerr + ('q, 'b) Response) comp" where
  "with_action action resp =
     (case resp of
        None \<Rightarrow> panic
      | Some resp \<Rightarrow>
          finish (Inr (resp\<lparr>rs_cacheResponse := (rs_cacheResponse resp)\<lparr>cr_storageAction := action\<rparr>\<rparr>)))"

text \<open>What each storage action does once the options are final; the calls of \<open>applyAndStreamBack\<close>.\<close>

definition stream_action ::
  "'w http_calls \<Rightarrow> 'w httpcache_calls \<Rightarrow> ('w, 'b) io_copy \<Rightarrow> 'b CandidateResponse \<Rightarrow> 'q \<Rightarrow>
   HTTPCacheStorageAction \<Rightarrow> cacheWriteOptions \<Rightarrow> HTTPCacheWriteOptions \<Rightarrow> ('w, goerr + ('q, 'b) Response) comp" where
  "stream_action host cache io_copy c req action opts abiOpts =
     (if action = HTTPCacheStorageActionInsert then
       check_c (annotate ''cache transaction insert and stream back'')
         (HTTPCacheTransactionInsertAndStreamback cache (cd_cacheHandle c) (cd_abiResp c) abiOpts)
         (\<lambda>(body, readback).
            defer_c (HTTPCacheTransactionClose cache readback)
              (check_c id (fill_body host io_copy ''body.Append'' c body) (\<lambda>_.
               check_c (annotate ''cache get found response'')
                 (httpCacheGetFoundResponse host cache readback req [] False True) (\<lambda>resp.
               with_action action resp))))
      else if action = HTTPCacheStorageActionUpdate then
       check_c (annotate ''cache transaction update and return fresh'')
         (HTTPCacheTransactionUpdateAndReturnFresh cache (cd_cacheHandle c) (cd_abiResp c) abiOpts)
         (\<lambda>newch.
            defer_c (HTTPCacheTransactionClose cache newch)
              (check_c (annotate ''cache get found response'')
                 (httpCacheGetFoundResponse host cache newch req [] True True) (\<lambda>resp.
               with_action action resp)))
      else if action = HTTPCacheStorageActionDoNotStore then
       check_c (annotate ''cache transaction abandon'')
         (HTTPCacheTransactionAbandon cache (cd_cacheHandle c)) (\<lambda>_.
       check_c id (newResponseFromCandidate host c req opts) (\<lambda>resp.
       with_action action (Some resp)))
      else if action = HTTPCacheStorageActionRecordUncacheable then
       check_c (annotate ''cache transaction record not cacheable'')
         (HTTPCacheTransactionRecordNotCacheable cache (cd_cacheHandle c) abiOpts) (\<lambda>_.
       check_c id (newResponseFromCandidate host c req opts) (\<lambda>resp.
       with_action action (Some resp)))
      else with_action action None)"

definition applyAndStreamBack ::
  "'w http_calls \<Rightarrow> 'w httpcache_calls \<Rightarrow> ('w, 'b) io_copy \<Rightarrow> 'b CandidateResponse \<Rightarrow> 'q \<Rightarrow>
   ('w, goerr + ('q, 'b) Response) comp" where
  "applyAndStreamBack host cache io_copy c req =
     check_c (annotate ''finalize options'') (finalizeOptions host cache c) (\<lambda>(action, opts, abiOpts).
     stream_action host cache io_copy c req action opts abiOpts)"

definition background_action ::
  "'w http_calls \<Rightarrow> 'w httpcache_calls \<Rightarrow> ('w, 'b) io_copy \<Rightarrow> 'b CandidateResponse \<Rightarrow>
   HTTPCacheStorageAction \<Rightarrow> HTTPCacheWriteOptions \<Rightarrow> ('w, goerr + unit) comp" where
  "background_action host cache io_copy c action abiOpts =
     (if action = HTTPCacheStorageActionInsert then
       check_c (annotate ''cache transaction insert'')
         (HTTPCacheTransactionInsert cache (cd_cacheHandle c) (cd_abiResp c) abiOpts) (\<lambda>body.
       fill_body host io_copy ''body.Append()'' c body)
      else if action = HTTPCacheStorageActionUpdate then
       check_c (annotate ''cache transaction update'')
         (HTTPCacheTransactionUpdate cache (cd_cacheHandle c) (cd_abiResp c) abiOpts) (\<lambda>_. finish (Inr ()))
      else if action = HTTPCacheStorageActionDoNotStore then
       check_c (annotate ''cache transaction abandon'')
         (HTTPCacheTransactionAbandon cache (cd_cacheHandle c)) (\<lambda>_. finish (Inr ()))
      else if action = HTTPCacheStorageActionRecordUncacheable then
       check_c (annotate ''cache transaction record not cacheable'')
         (HTTPCacheTransactionRecordNotCacheable cache (cd_cacheHandle c) abiOpts) (\<lambda>_. finish (Inr ()))
      else finish (Inr ()))"

definition applyInBackground ::
  "'w http_calls \<Rightarrow> 'w httpcache_calls \<Rightarrow> ('w, 'b) io_copy \<Rightarrow> 'b CandidateResponse \<Rightarrow> ('w, goerr + unit) comp" where
  "applyInBackground host cache io_copy c =
     check_c id (finalizeOptions host cache c) (\<lambda>(action, opts, abiOpts).
     background_action host cache io_copy c action abiOpts)"

section \<open>Round trip of the write options\<close>

lemma sint_small: "unat (x :: u64) < 9223372036854775808 \<Longrightarrow> sint x = int (unat x)"
proof -
  assume "unat x < 9223372036854775808"
  then have "uint x < 9223372036854775808" unfolding uint_nat by linarith
  then have "signed_take_bit 63 (uint x) = uint x"
    by (intro signed_take_bit_int_eq_self) (simp_all add: order_trans [OF _ uint_ge_0])
  then show ?thesis by (simp add: sint_uint)
qed

lemma u32_bound: "unat (x :: u32) \<le> 4294967295"
  using u32_less [of x] by linarith

lemma u32sTou64ns_unat: "unat (u32sTou64ns s) = unat s * 1000000000"
proof -
  have "unat (ucast s :: u64) = unat s"
    using u32_bound [of s] by (simp add: unsigned_ucast_eq take_bit_nat_eq_self)
  moreover have "unat s * 1000000000 < 2 ^ 64" using u32_bound [of s] by simp
  ultimately show ?thesis by (simp add: u32sTou64ns_def unat_mult_lem [THEN iffD1])
qed

lemma sdiv_nonneg: "0 \<le> (k :: int) \<Longrightarrow> 0 < c \<Longrightarrow> (k * c) sdiv c = k"
  by (cases "k = 0") (simp_all add: signed_divide_int_def sgn_if mult_pos_pos abs_mult)

lemma seconds_roundtrip [simp]: "u64nsTou32s (u32sTou64ns s) = s"
proof -
  have "unat (u32sTou64ns s) < 9223372036854775808"
    using u32_bound [of s] unfolding u32sTou64ns_unat by linarith
  then have "sint (u32sTou64ns s) = int (unat s) * 1000000000"
    by (simp add: sint_small u32sTou64ns_unat)
  then show ?thesis unfolding u64nsTou32s_def by (simp only: sdiv_nonneg) simp
qed




section \<open>Overrides and suggestions\<close>

text \<open>
  The interface of an option of the candidate that has an override: the setter, the getter,
  the source of suggestions, and the value that is decided on when the candidate is stored.
\<close>

locale override_slot =
  fixes set_to :: "'v \<Rightarrow> 'c \<Rightarrow> 'c"
    and ask :: "'c \<Rightarrow> ('w, goerr + 'v \<times> 'c) comp"
    and suggest :: "'c \<Rightarrow> ('w, goerr + 's \<times> 'c) comp"
    and decide :: "'c \<Rightarrow> 's \<Rightarrow> 'v"
  assumes ask_set: "ask (set_to v c) w = Some (Done (Inr (v, set_to v c)), w)"
    and decide_set: "decide (set_to v c) s = v"
    and set_set: "set_to v (set_to u c) = set_to v c"
    and ask_agrees: "suggest c w = Some (Done (Inr (s, c1)), w1) \<Longrightarrow>
      \<exists>c2 w2. ask c w = Some (Done (Inr (decide c s, c2)), w2)"
begin

lemma last_override: "vs \<noteq> [] \<Longrightarrow> fold set_to vs c = set_to (last vs) c"
proof (induction vs rule: rev_induct)
  case (snoc v vs)
  then show ?case by (cases "vs = []") (simp_all add: set_set)
qed simp

lemma ask_last: "vs \<noteq> [] \<Longrightarrow> ask (fold set_to vs c) w = Some (Done (Inr (last vs, set_to (last vs) c)), w)"
  by (simp add: last_override ask_set)

lemma decide_last: "vs \<noteq> [] \<Longrightarrow> decide (fold set_to vs c) s = last vs"
  by (simp add: last_override decide_set)

end

lemma override_or_set: "use c \<Longrightarrow> override_or host cache use ov sg c w = Some (Done (Inr (ov c, c)), w)"
  by (simp add: override_or_def)

lemma override_or_suggested:
  "\<not> use c \<Longrightarrow> getSuggestedCacheWriteOptions host cache c w = Some (Done (Inr (s, c1)), w1) \<Longrightarrow>
   override_or host cache use ov sg c w = Some (Done (Inr (sg s, c1)), w1)"
  by (simp add: override_or_def check_c_Inr)

lemma override_or_agrees:
  assumes "getSuggestedCacheWriteOptions host cache c w = Some (Done (Inr (s, c1)), w1)"
    and "v = (if use c then ov c else sg s)"
  shows "\<exists>c2 w2. override_or host cache use ov sg c w = Some (Done (Inr (v, c2)), w2)"
proof (cases "use c")
  case True
  then show ?thesis by (simp add: assms(2) override_or_set)
next
  case False
  then show ?thesis using assms by (simp add: override_or_suggested)
qed

lemmas candidate_slot_simps = SetStaleWhileRevalidate_def SetStaleIfError_def SetSensitive_def SetVary_def
  cd_SetSurrogateKeys_def cd_StaleWhileRevalidate_def cd_StaleIfError_def cd_Sensitive_def cd_Vary_def
  cd_SurrogateKeys_def override_or_set final_options_def

interpretation swr: override_slot SetStaleWhileRevalidate "cd_StaleWhileRevalidate host cache"
    "getSuggestedCacheWriteOptions host cache" "\<lambda>c s. cw_staleWhileRevalidate (final_options c s)" for host cache
proof unfold_locales
  fix s c1 w1 c w
  assume "getSuggestedCacheWriteOptions host cache c w = Some (Done (Inr (s, c1)), w1)"
  then show "\<exists>c2 w2. cd_StaleWhileRevalidate host cache c w = Some (Done (Inr (cw_staleWhileRevalidate (final_options c s), c2)), w2)"
    unfolding cd_StaleWhileRevalidate_def by (rule override_or_agrees) (simp add: final_options_def)
qed (simp_all add: candidate_slot_simps)

interpretation sie: override_slot SetStaleIfError "cd_StaleIfError host cache"
    "getSuggestedCacheWriteOptions host cache" "\<lambda>c s. cw_staleIfError (final_options c s)" for host cache
proof unfold_locales
  fix s c1 w1 c w
  assume "getSuggestedCacheWriteOptions host cache c w = Some (Done (Inr (s, c1)), w1)"
  then show "\<exists>c2 w2. cd_StaleIfError host cache c w = Some (Done (Inr (cw_staleIfError (final_options c s), c2)), w2)"
    unfolding cd_StaleIfError_def by (rule override_or_agrees) (simp add: final_options_def)
qed (simp_all add: candidate_slot_simps)

interpretation sens: override_slot SetSensitive "cd_Sensitive host cache"
    "getSuggestedCacheWriteOptions host cache" "\<lambda>c s. cw_sensitive (final_options c s)" for host cache
proof unfold_locales
  fix s c1 w1 c w
  assume "getSuggestedCacheWriteOptions host cache c w = Some (Done (Inr (s, c1)), w1)"
  then show "\<exists>c2 w2. cd_Sensitive host cache c w = Some (Done (Inr (cw_sensitive (final_options c s), c2)), w2)"
    unfolding cd_Sensitive_def by (rule override_or_agrees) (simp add: final_options_def)
qed (simp_all add: candidate_slot_simps)

interpretation vary: override_slot SetVary "cd_Vary host cache"
    "getSuggestedCacheWriteOptions host cache" "\<lambda>c s. cw_vary (final_options c s)" for host cache
proof unfold_locales
  fix s c1 w1 c w
  assume "getSuggestedCacheWriteOptions host cache c w = Some (Done (Inr (s, c1)), w1)"
  then show "\<exists>c2 w2. cd_Vary host cache c w = Some (Done (Inr (cw_vary (final_options c s), c2)), w2)"
    unfolding cd_Vary_def by (rule override_or_agrees) (simp add: final_options_def)
qed (simp_all add: candidate_slot_simps)

interpretation surr: override_slot cd_SetSurrogateKeys "cd_SurrogateKeys host cache"
    "getSuggestedCacheWriteOptions host cache" "\<lambda>c s. cw_surrogate (final_options c s)" for host cache
proof unfold_locales
  fix s c1 w1 c w
  assume "getSuggestedCacheWriteOptions host cache c w = Some (Done (Inr (s, c1)), w1)"
  then show "\<exists>c2 w2. cd_SurrogateKeys host cache c w = Some (Done (Inr (cw_surrogate (final_options c s), c2)), w2)"
    unfolding cd_SurrogateKeys_def by (rule override_or_agrees) (simp add: final_options_def)
qed (simp_all add: candidate_slot_simps)


section \<open>What is stored\<close>

lemma finalizeOptions_suggested:
  assumes "getSuggestedCacheWriteOptions host cache c w = Some (Done (Inr (s, c1)), w1)"
  shows "finalizeOptions host cache c w
    = (let opts = final_options c s in
       and_then
         (case cd_bodyTransform c of
            Some _ \<Rightarrow> finish opts
          | None \<Rightarrow>
              and_then (bodyHasKnownLength host (cd_abiBody c)) (\<lambda>(len, ok).
              finish (if ok then opts\<lparr>cw_length := len, cw_useLength := True\<rparr> else opts))) (\<lambda>opts.
       finish (Inr (final_action c, opts, flushToABI opts zero_http_write_options)))) w1"
proof (cases "cd_suggested c")
  case None
  with assms have "buildFreshSuggestedCacheWriteOptions host cache c w = Some (Done (Inr s), w1)"
    by (auto simp: getSuggestedCacheWriteOptions_def dest!: check_c_Done)
  with None show ?thesis by (simp add: finalizeOptions_def check_c_Inr)
next
  case (Some o1)
  with assms have "s = o1" "w1 = w" by (auto simp: getSuggestedCacheWriteOptions_def)
  with Some show ?thesis by (simp add: finalizeOptions_def check_c_Inr)
qed

lemma bodyHasKnownLength_returns:
  obtains n w1 where "bodyHasKnownLength host b w = Some (Done (n, True), w1)"
  | w1 where "bodyHasKnownLength host b w = Some (Done (0, False), w1)"
  by (rule hostcall_cases [of "c_body_known_length host (b_h b)" w])
    (auto simp: bodyHasKnownLength_def HTTPBody_Length_def and_then_def)

lemma finalizeOptions_stores:
  assumes "getSuggestedCacheWriteOptions host cache c w = Some (Done (Inr (s, c1)), w1)"
  shows "\<exists>len known w2. finalizeOptions host cache c w =
      (let opts = (final_options c s)\<lparr>cw_length := len, cw_useLength := known\<rparr>
       in Some (Done (Inr (final_action c, opts, flushToABI opts zero_http_write_options)), w2))
    \<and> (known \<longrightarrow> cd_bodyTransform c = None)"
proof -
  have unknown: "final_options c s = (final_options c s)\<lparr>cw_length := 0, cw_useLength := False\<rparr>"
    by (simp add: final_options_def zero_write_options_def)
  show ?thesis
  proof (cases "cd_bodyTransform c")
    case (Some f)
    then show ?thesis unfolding finalizeOptions_suggested [OF assms]
      by (intro exI [of _ 0] exI [of _ False] exI [of _ w1])
        (simp add: Let_def and_then_def unknown [symmetric])
  next
    case None
    show ?thesis
    proof (rule bodyHasKnownLength_returns [of host "cd_abiBody c" w1])
      fix n w2
      assume "bodyHasKnownLength host (cd_abiBody c) w1 = Some (Done (n, True), w2)"
      with None show ?thesis unfolding finalizeOptions_suggested [OF assms]
        by (intro exI [of _ n] exI [of _ True] exI [of _ w2]) (simp add: Let_def and_then_def)
    next
      fix w2
      assume "bodyHasKnownLength host (cd_abiBody c) w1 = Some (Done (0, False), w2)"
      with None show ?thesis unfolding finalizeOptions_suggested [OF assms]
        by (intro exI [of _ 0] exI [of _ False] exI [of _ w2])
          (simp add: Let_def and_then_def unknown [symmetric])
    qed
  qed
qed

lemma suggested_stores:
  "getSuggestedCacheWriteOptions host cache c w = Some (Done (Inr (s, c1)), w1) \<Longrightarrow>
   c1 = c\<lparr>cd_suggested := Some s\<rparr>"
  by (cases "cd_suggested c") (auto simp: getSuggestedCacheWriteOptions_def dest!: check_c_Done)

lemma suggested_keeps_TTL:
  "getSuggestedCacheWriteOptions host cache c w = Some (Done (Inr (s, c1)), w1) \<Longrightarrow>
   cd_useTTL c1 = cd_useTTL c \<and> cd_overrideTTL c1 = cd_overrideTTL c"
  by (drule suggested_stores) simp

lemma ages_agree:
  assumes "getSuggestedCacheWriteOptions host cache c w = Some (Done (Inr (s, c1)), w1)"
  shows "\<exists>c2 w2. cd_Age host cache c w = Some (Done (Inr (cw_age s, c2)), w2)"
    and "\<exists>c2 w2. cd_MaxAge host cache c w
      = Some (Done (Inr (if cd_useTTL c then cd_overrideTTL c else cw_maxAge s, c2)), w2)"
    and "\<exists>c2 w2. cd_TTLRemaining host cache c w = Some (Done (Inr
      (let m = if cd_useTTL c then cd_overrideTTL c else cw_maxAge s in if m \<le> cw_age s then 0 else m - cw_age s, c2)), w2)"
proof -
  show "\<exists>c2 w2. cd_Age host cache c w = Some (Done (Inr (cw_age s, c2)), w2)"
    using assms by (simp add: cd_Age_def check_c_Inr)
  show "\<exists>c2 w2. cd_MaxAge host cache c w
      = Some (Done (Inr (if cd_useTTL c then cd_overrideTTL c else cw_maxAge s, c2)), w2)"
  proof (cases "cd_useTTL c")
    case True
    then show ?thesis by (simp add: cd_MaxAge_def override_or_def)
  next
    case False
    then show ?thesis unfolding cd_MaxAge_def by (subst override_or_suggested [OF _ assms]) simp_all
  qed
  show "\<exists>c2 w2. cd_TTLRemaining host cache c w = Some (Done (Inr
      (let m = if cd_useTTL c then cd_overrideTTL c else cw_maxAge s in if m \<le> cw_age s then 0 else m - cw_age s, c2)), w2)"
    using assms suggested_keeps_TTL [OF assms] by (simp add: cd_TTLRemaining_def check_c_Inr Let_def)
qed

text \<open>
  C22: when the suggestions can be had, \<open>finalizeOptions\<close> stores the chosen action with exactly the
  final options, adding the length of the body if it is known and not transformed; and the getters
  \<open>Age\<close>, \<open>StaleWhileRevalidate\<close>, \<open>StaleIfError\<close>, \<open>Sensitive\<close>, \<open>Vary\<close> and \<open>SurrogateKeys\<close> return what is
  stored.  The two about freshness do not in every case: \<open>MaxAge\<close> returns the override as it was set,
  or the suggestion, and \<open>TTL\<close> the part of it that remains, while the maximum age stored is the
  remaining part of the override, or the suggestion where there is no override or one below the age.
\<close>

theorem candidate_getters_agree:
  assumes "getSuggestedCacheWriteOptions host cache c w = Some (Done (Inr (s, c1)), w1)"
  shows "(\<exists>len known w2. finalizeOptions host cache c w =
      (let opts = (final_options c s)\<lparr>cw_length := len, cw_useLength := known\<rparr>
       in Some (Done (Inr (final_action c, opts, flushToABI opts zero_http_write_options)), w2))
      \<and> (known \<longrightarrow> cd_bodyTransform c = None))
    \<and> (\<exists>c2 w2. cd_StaleWhileRevalidate host cache c w
      = Some (Done (Inr (cw_staleWhileRevalidate (final_options c s), c2)), w2))
    \<and> (\<exists>c2 w2. cd_StaleIfError host cache c w
      = Some (Done (Inr (cw_staleIfError (final_options c s), c2)), w2))
    \<and> (\<exists>c2 w2. cd_Sensitive host cache c w
      = Some (Done (Inr (cw_sensitive (final_options c s), c2)), w2))
    \<and> (\<exists>c2 w2. cd_Vary host cache c w = Some (Done (Inr (cw_vary (final_options c s), c2)), w2))
    \<and> (\<exists>c2 w2. cd_SurrogateKeys host cache c w
      = Some (Done (Inr (cw_surrogate (final_options c s), c2)), w2))
    \<and> (\<exists>c2 w2. cd_Age host cache c w = Some (Done (Inr (cw_age (final_options c s), c2)), w2))
    \<and> (let m = if cd_useTTL c then cd_overrideTTL c else cw_maxAge s in
        (\<exists>c2 w2. cd_MaxAge host cache c w = Some (Done (Inr (m, c2)), w2))
      \<and> (\<exists>c2 w2. cd_TTLRemaining host cache c w
          = Some (Done (Inr (if m \<le> cw_age s then 0 else m - cw_age s, c2)), w2)))
    \<and> cw_maxAge (final_options c s)
        = (if cd_useTTL c \<and> cw_age s \<le> cd_overrideTTL c then cd_overrideTTL c - cw_age s else cw_maxAge s)"
proof -
  have "cw_age (final_options c s) = cw_age s" "cw_maxAge (final_options c s)
      = (if cd_useTTL c \<and> cw_age s \<le> cd_overrideTTL c then cd_overrideTTL c - cw_age s else cw_maxAge s)"
    by (auto simp: final_options_def)
  then show ?thesis
    unfolding Let_def using ages_agree [OF assms, unfolded Let_def]
    by (intro conjI finalizeOptions_stores [OF assms, unfolded Let_def] swr.ask_agrees [OF assms]
      sie.ask_agrees [OF assms] sens.ask_agrees [OF assms] vary.ask_agrees [OF assms] surr.ask_agrees [OF assms]) simp_all
qed

definition sample_options :: CacheOptions where
  "sample_options = \<lparr>o_Pass = False, o_PCI = True, o_TTL = 60, o_StaleWhileRevalidate = 0,
     o_StaleIfError = 0, o_SurrogateKey = ''k'', o_OverrideKey = []\<rparr>"

text \<open>A candidate that already holds its suggestions: an age of ten seconds.\<close>

definition sample_candidate :: "unit CandidateResponse" where
  "sample_candidate =
     (candidate_with 10 sample_options 1 \<lparr>b_h = 2, b_closable = False\<rparr> HTTPCacheStorageActionInsert)
     \<lparr>cd_suggested := Some (zero_write_options\<lparr>cw_age := 10, cw_maxAge := 100\<rparr>)\<rparr>"

lemma sample_suggestions:
  "getSuggestedCacheWriteOptions accepting_host accepting_cache sample_candidate ()
     = Some (Done (Inr (zero_write_options\<lparr>cw_age := 10, cw_maxAge := 100\<rparr>, sample_candidate)), ())"
  by (simp add: getSuggestedCacheWriteOptions_def sample_candidate_def)

theorem candidate_getters_agree_witness:
  "\<exists>c2 w2. cd_Sensitive accepting_host accepting_cache (sample_candidate :: unit CandidateResponse) () = Some (Done (Inr (True, c2)), w2)"
  using candidate_getters_agree [OF sample_suggestions]
  by (simp add: final_options_def sample_candidate_def candidate_with_def sample_options_def)

text \<open>
  the last value set for an option of the candidate is the one its getter returns and the
  one that is stored, whatever was suggested.
\<close>

lemma last_override_wins:
  assumes "us \<noteq> []" and "vs \<noteq> []" and "ks \<noteq> []"
  shows "cw_staleWhileRevalidate (final_options (fold SetStaleWhileRevalidate us c) s) = last us
    \<and> cw_staleIfError (final_options (fold SetStaleIfError us c) s) = last us
    \<and> cw_vary (final_options (fold SetVary vs c) s) = last vs
    \<and> cw_surrogate (final_options (fold cd_SetSurrogateKeys vs c) s) = last vs
    \<and> cw_sensitive (final_options (fold SetSensitive ks c) s) = last ks
    \<and> cd_Vary host cache (fold SetVary vs c) w = Some (Done (Inr (last vs, SetVary (last vs) c)), w)"
  by (intro conjI swr.decide_last [OF assms(1)] sie.decide_last [OF assms(1)] vary.decide_last [OF assms(2)]
      surr.decide_last [OF assms(2)] sens.decide_last [OF assms(3)] vary.ask_last [OF assms(2)])

section \<open>Freshness\<close>

lemma last_override_wins_instance:
  "cw_vary (final_options (fold SetVary [''accept'', ''cookie''] sample_candidate) zero_write_options) = ''cookie''"
  using last_override_wins [of "[1]" "[''accept'', ''cookie'']" "[True]" sample_candidate zero_write_options
    accepting_host accepting_cache "()"] by simp

lemma suggested_after_SetTTL:
  assumes "getSuggestedCacheWriteOptions host cache c w = Some (Done (Inr (s, c1)), w1)"
  shows "getSuggestedCacheWriteOptions host cache (SetTTL ttl c) w = Some (Done (Inr (s, SetTTL ttl c1)), w1)"
proof (cases "cd_suggested c")
  case None
  have "buildFreshSuggestedCacheWriteOptions host cache (SetTTL ttl c)
      = buildFreshSuggestedCacheWriteOptions host cache c"
    by (simp add: buildFreshSuggestedCacheWriteOptions_def SetTTL_def cong: if_cong)
  moreover have "buildFreshSuggestedCacheWriteOptions host cache c w = Some (Done (Inr s), w1)"
    using None assms by (auto simp: getSuggestedCacheWriteOptions_def dest!: check_c_Done)
  ultimately show ?thesis using None suggested_stores [OF assms]
    by (simp add: getSuggestedCacheWriteOptions_def check_c_Inr SetTTL_def)
next
  case (Some o1)
  with assms have "s = o1" "w1 = w" "c1 = c" by (auto simp: getSuggestedCacheWriteOptions_def)
  with Some show ?thesis by (simp add: getSuggestedCacheWriteOptions_def SetTTL_def)
qed

text \<open>
  C37: the time to live.  An override no smaller than the age is stored as the time that remains,
  and \<open>TTLRemaining\<close> returns the same; a smaller override makes \<open>TTLRemaining\<close> zero but is not
  stored, the suggested maximum age is.  \<open>MaxAge\<close> returns the override as it was set.
\<close>

theorem candidate_ttl:
  assumes "getSuggestedCacheWriteOptions host cache c w = Some (Done (Inr (s, c1)), w1)"
  shows "(\<exists>c2 w2. cd_TTLRemaining host cache (SetTTL ttl c) w
        = Some (Done (Inr (if ttl \<le> cw_age s then 0 else ttl - cw_age s, c2)), w2))
    \<and> cw_maxAge (final_options (SetTTL ttl c) s)
        = (if ttl < cw_age s then cw_maxAge s else ttl - cw_age s)
    \<and> cd_MaxAge host cache (SetTTL ttl c) w = Some (Done (Inr (ttl, SetTTL ttl c)), w)
    \<and> (\<not> cd_useTTL c \<longrightarrow>
         cd_MaxAge host cache c w = Some (Done (Inr (cw_maxAge s, c1)), w1)
       \<and> cw_maxAge (final_options c s) = cw_maxAge s
       \<and> cd_TTLRemaining host cache c w
           = Some (Done (Inr (if cw_maxAge s \<le> cw_age s then 0 else cw_maxAge s - cw_age s, c1)), w1))"
proof -
  have set: "cd_TTLRemaining host cache (SetTTL ttl c) w
        = Some (Done (Inr (if ttl \<le> cw_age s then 0 else ttl - cw_age s, SetTTL ttl c1)), w1)"
    using suggested_after_SetTTL [OF assms]
    by (simp add: cd_TTLRemaining_def check_c_Inr Let_def) (simp add: SetTTL_def)
  have unset: "cd_TTLRemaining host cache c w
      = Some (Done (Inr (if cw_maxAge s \<le> cw_age s then 0 else cw_maxAge s - cw_age s, c1)), w1)"
    if "\<not> cd_useTTL c"
    using that suggested_keeps_TTL [OF assms] assms by (simp add: cd_TTLRemaining_def check_c_Inr Let_def)
  have max: "cd_MaxAge host cache c w = Some (Done (Inr (cw_maxAge s, c1)), w1)" if "\<not> cd_useTTL c"
    unfolding cd_MaxAge_def by (rule override_or_suggested) (use that assms in simp_all)
  have max_set: "cd_MaxAge host cache (SetTTL ttl c) w = Some (Done (Inr (ttl, SetTTL ttl c)), w)"
    by (simp add: cd_MaxAge_def override_or_def SetTTL_def)
  have stored: "cw_maxAge (final_options (SetTTL ttl c) s) = (if ttl < cw_age s then cw_maxAge s else ttl - cw_age s)"
    by (auto simp: final_options_def SetTTL_def)
  have stored_unset: "cw_maxAge (final_options c s) = cw_maxAge s" if "\<not> cd_useTTL c"
    using that by (simp add: final_options_def)
  show ?thesis using set unset max max_set stored stored_unset by simp
qed

theorem candidate_ttl_witness:
  "cw_maxAge (final_options (SetTTL 5 sample_candidate) (zero_write_options\<lparr>cw_age := 10, cw_maxAge := 100\<rparr>)) = 100
   \<and> cw_maxAge (final_options (SetTTL 30 sample_candidate) (zero_write_options\<lparr>cw_age := 10, cw_maxAge := 100\<rparr>)) = 20"
  using candidate_ttl [OF sample_suggestions, of 5] candidate_ttl [OF sample_suggestions, of 30] by simp

section \<open>New candidates\<close>

lemma newCandidate_returns:
  assumes "newCandidate host cache h opts r b w = Some (Done (Inr c), w')"
  obtains a r' w1 v where "HTTPCachePrepareResponseForStorage cache h r w = Some (Done (Inr (a, r')), w1)"
    and "HTTPResponse_GetHeaderValue host r' ''set-cookie'' w1 = Some (Done v, w')"
    and "c = candidate_with h opts r' b (cookie_action v a)"
  using assms by (fastforce simp: newCandidate_def dest!: check_c_Done and_then_mono)

text \<open>
  A new candidate takes its overrides from the caching options of the request, each in use
  exactly when it is not zero; a response with a \<open>set-cookie\<close> header is not to be stored.
\<close>

lemma newCandidate_overrides:
  assumes "newCandidate host cache h opts r b w = Some (Done (Inr c), w')"
  shows "final_options c s = zero_write_options
      \<lparr>cw_maxAge := (if o_TTL opts \<noteq> 0 \<and> cw_age s \<le> o_TTL opts then o_TTL opts - cw_age s else cw_maxAge s),
       cw_age := cw_age s,
       cw_staleWhileRevalidate := (if o_StaleWhileRevalidate opts \<noteq> 0 then o_StaleWhileRevalidate opts
                                   else cw_staleWhileRevalidate s),
       cw_staleIfError := (if o_StaleIfError opts \<noteq> 0 then o_StaleIfError opts else cw_staleIfError s),
       cw_vary := cw_vary s, cw_surrogate := cw_surrogate s,
       cw_sensitive := (o_PCI opts \<or> cw_sensitive s)\<rparr>
    \<and> (\<exists>a r' w1 v. HTTPCachePrepareResponseForStorage cache h r w = Some (Done (Inr (a, r')), w1)
        \<and> HTTPResponse_GetHeaderValue host r' ''set-cookie'' w1 = Some (Done v, w')
        \<and> (final_action c = HTTPCacheStorageActionRecordUncacheable \<or> final_action c = a)
        \<and> ((\<exists>x xs. v = Inr (x # xs)) \<longrightarrow> final_action c = HTTPCacheStorageActionDoNotStore
             \<or> final_action c = HTTPCacheStorageActionRecordUncacheable))"
proof (rule newCandidate_returns [OF assms])
  fix a r' w1 v
  assume "HTTPCachePrepareResponseForStorage cache h r w = Some (Done (Inr (a, r')), w1)"
    "HTTPResponse_GetHeaderValue host r' ''set-cookie'' w1 = Some (Done v, w')"
    and c: "c = candidate_with h opts r' b (cookie_action v a)"
  moreover have "final_action c = cookie_action v a" by (simp add: c candidate_with_def final_action_def)
  moreover have "cookie_action v a = a \<or> cookie_action v a = HTTPCacheStorageActionRecordUncacheable"
    "(\<exists>x xs. v = Inr (x # xs)) \<Longrightarrow> cookie_action v a = HTTPCacheStorageActionDoNotStore
      \<or> cookie_action v a = HTTPCacheStorageActionRecordUncacheable"
    by (auto simp: cookie_action_def split: sum.splits)
  moreover have "final_options c s = zero_write_options
      \<lparr>cw_maxAge := (if o_TTL opts \<noteq> 0 \<and> cw_age s \<le> o_TTL opts then o_TTL opts - cw_age s else cw_maxAge s),
       cw_age := cw_age s,
       cw_staleWhileRevalidate := (if o_StaleWhileRevalidate opts \<noteq> 0 then o_StaleWhileRevalidate opts
                                   else cw_staleWhileRevalidate s),
       cw_staleIfError := (if o_StaleIfError opts \<noteq> 0 then o_StaleIfError opts else cw_staleIfError s),
       cw_vary := cw_vary s, cw_surrogate := cw_surrogate s,
       cw_sensitive := (o_PCI opts \<or> cw_sensitive s)\<rparr>"
    by (simp add: c candidate_with_def final_options_def)
  ultimately show ?thesis by metis
qed

lemma accepting_newCandidate:
  "\<exists>c :: unit CandidateResponse. newCandidate accepting_host accepting_cache 10 sample_options 1 \<lparr>b_h = 2, b_closable = False\<rparr> ()
     = Some (Done (Inr c), ())"
proof -
  obtain w' where "HTTPResponse_GetHeaderValue accepting_host 1 ''set-cookie'' () = Some (Done (Inr []), w')"
    using buffered_ok [OF value_host_one_value_host, of "[]" DefaultLargeBufLen "()"]
    by (auto simp: HTTPResponse_GetHeaderValue_def accepting_host_def DefaultLargeBufLen_def)
  then show ?thesis
    by (simp add: newCandidate_def HTTPCachePrepareResponseForStorage_def accepting_cache_def accept_def
        check_c_Inr [OF hostcall_ok] and_then_Done)
qed

lemma newCandidate_overrides_instance:
  "\<exists>c :: unit CandidateResponse.
     newCandidate accepting_host accepting_cache 10 sample_options 1 \<lparr>b_h = 2, b_closable = False\<rparr> () = Some (Done (Inr c), ())
     \<and> cw_maxAge (final_options c zero_write_options) = 60 \<and> cw_sensitive (final_options c zero_write_options)"
proof -
  from accepting_newCandidate obtain c :: "unit CandidateResponse" where
    c: "newCandidate accepting_host accepting_cache 10 sample_options 1 \<lparr>b_h = 2, b_closable = False\<rparr> () = Some (Done (Inr c), ())"
    by blast
  from newCandidate_overrides [OF c, of zero_write_options] c show ?thesis
    by (auto simp: sample_options_def zero_write_options_def)
qed

text \<open>
  C24: the suggested options always say that the response is sensitive and has a known length:
  \<open>HTTPCacheGetSuggestedCacheOptions\<close> returns the mask of its question, and the question has
  all bits set.
\<close>

theorem suggestions_always_sensitive:
  assumes "httpCacheGetSuggestedCacheWriteOptions cache h r w = Some (Done (Inr opts), w')"
  shows "cw_sensitive opts \<and> cw_useLength opts"
proof -
  obtain abi w1 where abi: "HTTPCacheGetSuggestedCacheOptions cache h r (FillConfigMask zero_http_write_options) w
      = Some (Done (Inr abi), w1)" and l: "loadFromABI abi zero_write_options = Done opts"
    using assms unfolding httpCacheGetSuggestedCacheWriteOptions_def
    by (fastforce dest!: check_c_Done and_then_mono)
  have "ho_mask abi = 255"
    using abi by (auto simp: HTTPCacheGetSuggestedCacheOptions_def FillConfigMask_def dest: suggested_mask)
  then show ?thesis using l
    by (auto simp: loadFromABI_def Length_def SensitiveData_def Let_def
        split: outcome.splits prod.splits)
qed

lemma accepting_suggestions:
  "\<exists>opts w'. httpCacheGetSuggestedCacheWriteOptions accepting_cache 10 1 () = Some (Done (Inr opts), w')"
  by (simp add: httpCacheGetSuggestedCacheWriteOptions_def HTTPCacheGetSuggestedCacheOptions_def check_c_def
      try_c_def and_then_def accepting_cache_def suggested_from.simps toError_def FillConfigMask_def loadFromABI_def
      VaryRule_def SurrogateKeys_def buffer_value_def host_fill_def NewWriteBuffer_def wb_ToString_def wb_AsBytes_def
      zero_bytes_def Let_def InitialAgeNs_def StaleWhileRevalidateNs_def StaleIfErrorNs_def Length_def
      DefaultSmallBufLen_def)

theorem suggestions_always_sensitive_witness:
  "\<exists>opts w'. httpCacheGetSuggestedCacheWriteOptions accepting_cache 10 1 () = Some (Done (Inr opts), w')
     \<and> cw_sensitive opts"
proof -
  from accepting_suggestions obtain opts w' where
    o: "httpCacheGetSuggestedCacheWriteOptions accepting_cache 10 1 () = Some (Done (Inr opts), w')" by blast
  from suggestions_always_sensitive [OF o] o show ?thesis by blast
qed

end
