(* ===== verification/BackendABI.thy ===== *)
theory BackendABI
  imports HttpABI OptionMasks Durations
begin

text \<open>
  The configuration of a dynamic backend as it is passed to the host (\<open>BackendConfigOptions\<close> of
  \<open>types.go\<close>) and the hostcalls of \<open>backends_guest.go\<close>.
\<close>

section \<open>The option block\<close>

definition backendConfigOptionsMaskReserved :: u32 where [simp]: "backendConfigOptionsMaskReserved = 1"
definition backendConfigOptionsMaskHostOverride :: u32 where [simp]: "backendConfigOptionsMaskHostOverride = 2"
definition backendConfigOptionsMaskConnectTimeout :: u32 where [simp]: "backendConfigOptionsMaskConnectTimeout = 4"
definition backendConfigOptionsMaskFirstByteTimeout :: u32 where [simp]: "backendConfigOptionsMaskFirstByteTimeout = 8"
definition backendConfigOptionsMaskBetweenBytesTimeout :: u32 where [simp]: "backendConfigOptionsMaskBetweenBytesTimeout = 16"
definition backendConfigOptionsMaskUseSSL :: u32 where [simp]: "backendConfigOptionsMaskUseSSL = 32"
definition backendConfigOptionsMaskSSLMinVersion :: u32 where [simp]: "backendConfigOptionsMaskSSLMinVersion = 64"
definition backendConfigOptionsMaskSSLMaxVersion :: u32 where [simp]: "backendConfigOptionsMaskSSLMaxVersion = 128"
definition backendConfigOptionsMaskCertHostname :: u32 where [simp]: "backendConfigOptionsMaskCertHostname = 256"
definition backendConfigOptionsMaskCACert :: u32 where [simp]: "backendConfigOptionsMaskCACert = 512"
definition backendConfigOptionsMaskCiphers :: u32 where [simp]: "backendConfigOptionsMaskCiphers = 1024"
definition backendConfigOptionsMaskSNIHostname :: u32 where [simp]: "backendConfigOptionsMaskSNIHostname = 2048"
definition backendConfigOptionsMaskDontPool :: u32 where [simp]: "backendConfigOptionsMaskDontPool = 4096"
definition backendConfigOptionsMaskClientCert :: u32 where [simp]: "backendConfigOptionsMaskClientCert = 8192"
definition backendConfigOptionsMaskGRPC :: u32 where [simp]: "backendConfigOptionsMaskGRPC = 16384"
definition backendConfigOptionsMaskKeepalive :: u32 where [simp]: "backendConfigOptionsMaskKeepalive = 32768"

record backendConfigOptions =
  bo_hostOverride :: sent_string
  bo_connectTimeoutMs :: u32
  bo_firstByteTimeout :: u32
  bo_betweenBytesTimeout :: u32
  bo_sslMinVersion :: u32
  bo_sslMaxVersion :: u32
  bo_certHostname :: sent_string
  bo_caCert :: sent_string
  bo_ciphers :: sent_string
  bo_sniHostname :: sent_string
  bo_clientCert :: sent_string
  bo_clientCertKey :: handle
  bo_httpKeepaliveTimeMs :: u32
  bo_tcpKeepaliveEnable :: u32
  bo_tcpKeepaliveIntervalSecs :: u32
  bo_tcpKeepaliveProbes :: u32
  bo_tcpKeepaliveTimeSecs :: u32

record BackendConfigOptions =
  bc_mask :: u32
  bc_opts :: backendConfigOptions

definition zero_backend_config :: BackendConfigOptions where
  "zero_backend_config =
     \<lparr>bc_mask = 0, bc_opts =
        \<lparr>bo_hostOverride = ([], 0), bo_connectTimeoutMs = 0, bo_firstByteTimeout = 0,
         bo_betweenBytesTimeout = 0, bo_sslMinVersion = 0, bo_sslMaxVersion = 0,
         bo_certHostname = ([], 0), bo_caCert = ([], 0), bo_ciphers = ([], 0), bo_sniHostname = ([], 0),
         bo_clientCert = ([], 0), bo_clientCertKey = 0, bo_httpKeepaliveTimeMs = 0,
         bo_tcpKeepaliveEnable = 0, bo_tcpKeepaliveIntervalSecs = 0, bo_tcpKeepaliveProbes = 0,
         bo_tcpKeepaliveTimeSecs = 0\<rparr>\<rparr>"

text \<open>The shape of a setter: a bit of the mask and an update of the fields.\<close>

definition bc_put :: "u32 \<Rightarrow> (backendConfigOptions \<Rightarrow> backendConfigOptions) \<Rightarrow> BackendConfigOptions \<Rightarrow> BackendConfigOptions" where
  "bc_put flag f b = b\<lparr>bc_mask := bc_mask b OR flag, bc_opts := f (bc_opts b)\<rparr>"

definition bc_switch :: "u32 \<Rightarrow> bool \<Rightarrow> BackendConfigOptions \<Rightarrow> BackendConfigOptions" where
  "bc_switch flag v b =
     (if v then b\<lparr>bc_mask := bc_mask b OR flag\<rparr> else b\<lparr>bc_mask := bc_mask b AND NOT flag\<rparr>)"

definition bc_HostOverride :: "string \<Rightarrow> BackendConfigOptions \<Rightarrow> BackendConfigOptions" where
  "bc_HostOverride s = bc_put backendConfigOptionsMaskHostOverride (bo_hostOverride_update (\<lambda>_. send_string s))"

definition bc_CertHostname :: "string \<Rightarrow> BackendConfigOptions \<Rightarrow> BackendConfigOptions" where
  "bc_CertHostname s = bc_put backendConfigOptionsMaskCertHostname (bo_certHostname_update (\<lambda>_. send_string s))"

definition bc_CACert :: "string \<Rightarrow> BackendConfigOptions \<Rightarrow> BackendConfigOptions" where
  "bc_CACert s = bc_put backendConfigOptionsMaskCACert (bo_caCert_update (\<lambda>_. send_string s))"

definition bc_Ciphers :: "string \<Rightarrow> BackendConfigOptions \<Rightarrow> BackendConfigOptions" where
  "bc_Ciphers s = bc_put backendConfigOptionsMaskCiphers (bo_ciphers_update (\<lambda>_. send_string s))"

definition bc_SNIHostname :: "string \<Rightarrow> BackendConfigOptions \<Rightarrow> BackendConfigOptions" where
  "bc_SNIHostname s = bc_put backendConfigOptionsMaskSNIHostname (bo_sniHostname_update (\<lambda>_. send_string s))"

definition bc_ConnectTimeout :: "Duration \<Rightarrow> BackendConfigOptions \<Rightarrow> BackendConfigOptions" where
  "bc_ConnectTimeout t = bc_put backendConfigOptionsMaskConnectTimeout (bo_connectTimeoutMs_update (\<lambda>_. u32_ms t))"

definition bc_FirstByteTimeout :: "Duration \<Rightarrow> BackendConfigOptions \<Rightarrow> BackendConfigOptions" where
  "bc_FirstByteTimeout t = bc_put backendConfigOptionsMaskFirstByteTimeout (bo_firstByteTimeout_update (\<lambda>_. u32_ms t))"

definition bc_BetweenBytesTimeout :: "Duration \<Rightarrow> BackendConfigOptions \<Rightarrow> BackendConfigOptions" where
  "bc_BetweenBytesTimeout t = bc_put backendConfigOptionsMaskBetweenBytesTimeout (bo_betweenBytesTimeout_update (\<lambda>_. u32_ms t))"

definition bc_UseSSL :: "bool \<Rightarrow> BackendConfigOptions \<Rightarrow> BackendConfigOptions" where
  "bc_UseSSL v = bc_switch backendConfigOptionsMaskUseSSL v"

definition bc_SSLMinVersion :: "u32 \<Rightarrow> BackendConfigOptions \<Rightarrow> BackendConfigOptions" where
  "bc_SSLMinVersion v = bc_put backendConfigOptionsMaskSSLMinVersion (bo_sslMinVersion_update (\<lambda>_. v))"

definition bc_SSLMaxVersion :: "u32 \<Rightarrow> BackendConfigOptions \<Rightarrow> BackendConfigOptions" where
  "bc_SSLMaxVersion v = bc_put backendConfigOptionsMaskSSLMaxVersion (bo_sslMaxVersion_update (\<lambda>_. v))"

definition bc_PoolConnections :: "bool \<Rightarrow> BackendConfigOptions \<Rightarrow> BackendConfigOptions" where
  "bc_PoolConnections poolingOn = bc_switch backendConfigOptionsMaskDontPool (\<not> poolingOn)"

definition bc_ClientCert :: "string \<Rightarrow> handle \<Rightarrow> BackendConfigOptions \<Rightarrow> BackendConfigOptions" where
  "bc_ClientCert certificate key = 
     bc_put backendConfigOptionsMaskClientCert
       (\<lambda>o'. o'\<lparr>bo_clientCert := send_string certificate, bo_clientCertKey := key\<rparr>)"

definition bc_UseGRPC :: "bool \<Rightarrow> BackendConfigOptions \<Rightarrow> BackendConfigOptions" where
  "bc_UseGRPC v = bc_switch backendConfigOptionsMaskGRPC v"

definition bc_HTTPKeepaliveTime :: "Duration \<Rightarrow> BackendConfigOptions \<Rightarrow> BackendConfigOptions" where
  "bc_HTTPKeepaliveTime t = bc_put backendConfigOptionsMaskKeepalive (bo_httpKeepaliveTimeMs_update (\<lambda>_. u32_ms t))"

definition bc_TCPKeepaliveEnable :: "bool \<Rightarrow> BackendConfigOptions \<Rightarrow> BackendConfigOptions" where
  "bc_TCPKeepaliveEnable v = 
     bc_put backendConfigOptionsMaskKeepalive (bo_tcpKeepaliveEnable_update (\<lambda>_. if v then 1 else 0))"

definition bc_TCPKeepaliveInterval :: "(Duration \<Rightarrow> u32) \<Rightarrow> Duration \<Rightarrow> BackendConfigOptions \<Rightarrow> BackendConfigOptions" where
  "bc_TCPKeepaliveInterval float_u32 t = 
     bc_put backendConfigOptionsMaskKeepalive
       (\<lambda>o'. o'\<lparr>bo_tcpKeepaliveEnable := 1, bo_tcpKeepaliveIntervalSecs := u32_seconds float_u32 t\<rparr>)"

definition bc_TCPKeepaliveProbes :: "u32 \<Rightarrow> BackendConfigOptions \<Rightarrow> BackendConfigOptions" where
  "bc_TCPKeepaliveProbes count b = 
     (if 0 < count then
        bc_put backendConfigOptionsMaskKeepalive
          (\<lambda>o'. o'\<lparr>bo_tcpKeepaliveEnable := 1, bo_tcpKeepaliveProbes := count\<rparr>) b
      else b)"

definition bc_TCPKeepaliveTime :: "(Duration \<Rightarrow> u32) \<Rightarrow> Duration \<Rightarrow> BackendConfigOptions \<Rightarrow> BackendConfigOptions" where
  "bc_TCPKeepaliveTime float_u32 t = 
     bc_put backendConfigOptionsMaskKeepalive
       (\<lambda>o'. o'\<lparr>bo_tcpKeepaliveEnable := 1, bo_tcpKeepaliveTimeSecs := u32_seconds float_u32 t\<rparr>)"

lemmas bc_setter_defs = bc_put_def bc_switch_def bc_HostOverride_def bc_CertHostname_def bc_CACert_def bc_Ciphers_def bc_SNIHostname_def bc_ConnectTimeout_def bc_FirstByteTimeout_def bc_BetweenBytesTimeout_def bc_UseSSL_def bc_SSLMinVersion_def bc_SSLMaxVersion_def bc_PoolConnections_def bc_ClientCert_def bc_UseGRPC_def bc_HTTPKeepaliveTime_def bc_TCPKeepaliveEnable_def bc_TCPKeepaliveInterval_def bc_TCPKeepaliveProbes_def bc_TCPKeepaliveTime_def

text \<open>The setters are instances of the option block interface.\<close>

interpretation bk_hostOverride: masked_option bc_mask backendConfigOptionsMaskHostOverride bc_HostOverride
    "\<lambda>b. received (bo_hostOverride (bc_opts b))" sized
  by unfold_locales (simp_all add: bc_setter_defs)

interpretation bk_certHostname: masked_option bc_mask backendConfigOptionsMaskCertHostname bc_CertHostname
    "\<lambda>b. received (bo_certHostname (bc_opts b))" sized
  by unfold_locales (simp_all add: bc_setter_defs)

interpretation bk_caCert: masked_option bc_mask backendConfigOptionsMaskCACert bc_CACert
    "\<lambda>b. received (bo_caCert (bc_opts b))" sized
  by unfold_locales (simp_all add: bc_setter_defs)

interpretation bk_ciphers: masked_option bc_mask backendConfigOptionsMaskCiphers bc_Ciphers
    "\<lambda>b. received (bo_ciphers (bc_opts b))" sized
  by unfold_locales (simp_all add: bc_setter_defs)

interpretation bk_sniHostname: masked_option bc_mask backendConfigOptionsMaskSNIHostname bc_SNIHostname
    "\<lambda>b. received (bo_sniHostname (bc_opts b))" sized
  by unfold_locales (simp_all add: bc_setter_defs)

interpretation bk_connectTimeoutMs: masked_option bc_mask backendConfigOptionsMaskConnectTimeout bc_ConnectTimeout
    "\<lambda>b. uint (bo_connectTimeoutMs (bc_opts b)) * Millisecond" whole_ms
  by unfold_locales (simp_all add: bc_setter_defs whole_ms_u32)

interpretation bk_firstByteTimeout: masked_option bc_mask backendConfigOptionsMaskFirstByteTimeout bc_FirstByteTimeout
    "\<lambda>b. uint (bo_firstByteTimeout (bc_opts b)) * Millisecond" whole_ms
  by unfold_locales (simp_all add: bc_setter_defs whole_ms_u32)

interpretation bk_betweenBytesTimeout: masked_option bc_mask backendConfigOptionsMaskBetweenBytesTimeout bc_BetweenBytesTimeout
    "\<lambda>b. uint (bo_betweenBytesTimeout (bc_opts b)) * Millisecond" whole_ms
  by unfold_locales (simp_all add: bc_setter_defs whole_ms_u32)

interpretation bk_sslMinVersion: masked_option bc_mask backendConfigOptionsMaskSSLMinVersion bc_SSLMinVersion "\<lambda>b. bo_sslMinVersion (bc_opts b)" "\<lambda>_. True"
  by unfold_locales (simp_all add: bc_setter_defs)

interpretation bk_sslMaxVersion: masked_option bc_mask backendConfigOptionsMaskSSLMaxVersion bc_SSLMaxVersion "\<lambda>b. bo_sslMaxVersion (bc_opts b)" "\<lambda>_. True"
  by unfold_locales (simp_all add: bc_setter_defs)

interpretation bk_clientCert: masked_option bc_mask backendConfigOptionsMaskClientCert "\<lambda>(c, k). bc_ClientCert c k"
    "\<lambda>b. (received (bo_clientCert (bc_opts b)), bo_clientCertKey (bc_opts b))" "\<lambda>(c, k). sized c"
  by unfold_locales (auto simp: bc_setter_defs)

interpretation bk_ssl: flag_option bc_mask backendConfigOptionsMaskUseSSL bc_UseSSL
  by unfold_locales (simp_all add: bc_setter_defs)

interpretation bk_grpc: flag_option bc_mask backendConfigOptionsMaskGRPC bc_UseGRPC
  by unfold_locales (simp_all add: bc_setter_defs)

interpretation bk_pool: flag_option bc_mask backendConfigOptionsMaskDontPool "\<lambda>v. bc_PoolConnections (\<not> v)"
  by unfold_locales (simp_all add: bc_setter_defs)

section \<open>Hostcalls\<close>

definition dnsBufLen :: nat where "dnsBufLen = 256"

record 'w backend_calls =
  c_register_dynamic_backend :: "string \<Rightarrow> string \<Rightarrow> BackendConfigOptions \<Rightarrow> ('w, FastlyStatus \<times> unit) prog"
  c_backend_exists :: "string \<Rightarrow> ('w, FastlyStatus \<times> u32) prog"
  c_backend_is_healthy :: "string \<Rightarrow> ('w, FastlyStatus \<times> u32) prog"
  c_backend_is_dynamic :: "string \<Rightarrow> ('w, FastlyStatus \<times> u32) prog"
  c_backend_get_host :: "string \<Rightarrow> u32 \<Rightarrow> ('w, buf_reply) prog"
  c_backend_get_override_host :: "string \<Rightarrow> u32 \<Rightarrow> ('w, buf_reply) prog"
  c_backend_get_port :: "string \<Rightarrow> ('w, FastlyStatus \<times> u32) prog"
  c_backend_get_connect_timeout_ms :: "string \<Rightarrow> ('w, FastlyStatus \<times> u32) prog"
  c_backend_get_first_byte_timeout_ms :: "string \<Rightarrow> ('w, FastlyStatus \<times> u32) prog"
  c_backend_get_between_bytes_timeout_ms :: "string \<Rightarrow> ('w, FastlyStatus \<times> u32) prog"
  c_backend_is_ssl :: "string \<Rightarrow> ('w, FastlyStatus \<times> u32) prog"
  c_backend_get_ssl_min_version :: "string \<Rightarrow> ('w, FastlyStatus \<times> u32) prog"
  c_backend_get_ssl_max_version :: "string \<Rightarrow> ('w, FastlyStatus \<times> u32) prog"

definition abi_RegisterDynamicBackend ::
  "'w backend_calls \<Rightarrow> string \<Rightarrow> string \<Rightarrow> BackendConfigOptions \<Rightarrow> ('w, goerr + unit) comp" where
  "abi_RegisterDynamicBackend bk name target opts = hostcall (c_register_dynamic_backend bk name target opts)"

text \<open>\<open>time.Duration(timeout) * time.Millisecond\<close> of a 32-bit count does not overflow.\<close>

definition ms_duration :: "u32 \<Rightarrow> Duration" where
  "ms_duration t = uint t * Millisecond"

definition BackendExists :: "'w backend_calls \<Rightarrow> string \<Rightarrow> ('w, goerr + bool) comp" where
  "BackendExists bk name = map_result nonzero (hostcall (c_backend_exists bk name))"

definition BackendIsHealthy :: "'w backend_calls \<Rightarrow> string \<Rightarrow> ('w, goerr + u32) comp" where
  "BackendIsHealthy bk name = map_result id (hostcall (c_backend_is_healthy bk name))"

definition BackendIsDynamic :: "'w backend_calls \<Rightarrow> string \<Rightarrow> ('w, goerr + bool) comp" where
  "BackendIsDynamic bk name = map_result nonzero (hostcall (c_backend_is_dynamic bk name))"

definition BackendGetPort :: "'w backend_calls \<Rightarrow> string \<Rightarrow> ('w, goerr + int) comp" where
  "BackendGetPort bk name = map_result uint (hostcall (c_backend_get_port bk name))"

definition BackendGetConnectTimeout :: "'w backend_calls \<Rightarrow> string \<Rightarrow> ('w, goerr + Duration) comp" where
  "BackendGetConnectTimeout bk name = map_result ms_duration (hostcall (c_backend_get_connect_timeout_ms bk name))"

definition BackendGetFirstByteTimeout :: "'w backend_calls \<Rightarrow> string \<Rightarrow> ('w, goerr + Duration) comp" where
  "BackendGetFirstByteTimeout bk name = map_result ms_duration (hostcall (c_backend_get_first_byte_timeout_ms bk name))"

definition BackendGetBetweenBytesTimeout :: "'w backend_calls \<Rightarrow> string \<Rightarrow> ('w, goerr + Duration) comp" where
  "BackendGetBetweenBytesTimeout bk name = map_result ms_duration (hostcall (c_backend_get_between_bytes_timeout_ms bk name))"

definition BackendIsSSL :: "'w backend_calls \<Rightarrow> string \<Rightarrow> ('w, goerr + bool) comp" where
  "BackendIsSSL bk name = map_result nonzero (hostcall (c_backend_is_ssl bk name))"

definition BackendGetSSLMinVersion :: "'w backend_calls \<Rightarrow> string \<Rightarrow> ('w, goerr + u32) comp" where
  "BackendGetSSLMinVersion bk name = map_result id (hostcall (c_backend_get_ssl_min_version bk name))"

definition BackendGetSSLMaxVersion :: "'w backend_calls \<Rightarrow> string \<Rightarrow> ('w, goerr + u32) comp" where
  "BackendGetSSLMaxVersion bk name = map_result id (hostcall (c_backend_get_ssl_max_version bk name))"

definition BackendGetHost :: "'w backend_calls \<Rightarrow> string \<Rightarrow> ('w, goerr + string) comp" where
  "BackendGetHost bk name = fixed_buffer dnsBufLen (c_backend_get_host bk name)"

definition BackendGetOverrideHost :: "'w backend_calls \<Rightarrow> string \<Rightarrow> ('w, goerr + string) comp" where
  "BackendGetOverrideHost bk name = fixed_buffer dnsBufLen (c_backend_get_override_host bk name)"

end
