(* ===== verification/Backends.thy ===== *)
theory Backends
  imports BackendABI
begin

text \<open>
  Dynamic backends, \<open>fsthttp/backend.go\<close>: the option builder with its validation, registration
  and the configuration read back from the host.
\<close>

section \<open>The option builder\<close>

definition ErrDynamicBackendDisallowed :: goerr where
  "ErrDynamicBackendDisallowed = Sentinel ''fsthttp'' ''dynamic backends not supported for this service''"
definition ErrBackendNameInUse :: goerr where
  "ErrBackendNameInUse = Sentinel ''fsthttp'' ''backend name already in use''"
definition ErrBackendNotFound :: goerr where
  "ErrBackendNotFound = Sentinel ''fsthttp'' ''backend not found''"
definition ErrUnexpected :: goerr where
  "ErrUnexpected = Sentinel ''fsthttp'' ''unexpected error''"

definition maxBackendTimeout :: Duration where
  "maxBackendTimeout = 4294967296 * Millisecond"

record BackendOptions =
  be_abi :: BackendConfigOptions
  be_err :: "goerr list"

definition NewBackendOptions :: BackendOptions where
  "NewBackendOptions = \<lparr>be_abi = zero_backend_config, be_err = []\<rparr>"

definition be_fail :: "string \<Rightarrow> string \<Rightarrow> BackendOptions \<Rightarrow> BackendOptions" where
  "be_fail field reason b = b\<lparr>be_err := be_err b @ [ValidationErr field reason]\<rparr>"

definition be_set :: "(BackendConfigOptions \<Rightarrow> BackendConfigOptions) \<Rightarrow> BackendOptions \<Rightarrow> BackendOptions" where
  "be_set f b = b\<lparr>be_abi := f (be_abi b)\<rparr>"

definition be_HostOverride :: "string \<Rightarrow> BackendOptions \<Rightarrow> BackendOptions" where
  "be_HostOverride host b = be_set (bc_HostOverride host) b"

definition be_ConnectTimeout :: "Duration \<Rightarrow> BackendOptions \<Rightarrow> BackendOptions" where
  "be_ConnectTimeout t b =
     (if maxBackendTimeout < t then be_fail ''ConnectTimeout'' ''too large'' b
      else be_set (bc_ConnectTimeout t) b)"

definition be_FirstByteTimeout :: "Duration \<Rightarrow> BackendOptions \<Rightarrow> BackendOptions" where
  "be_FirstByteTimeout t b =
     (if maxBackendTimeout < t then be_fail ''FirstByteTimeout'' ''too large'' b
      else be_set (bc_FirstByteTimeout t) b)"

definition be_BetweenBytesTimeout :: "Duration \<Rightarrow> BackendOptions \<Rightarrow> BackendOptions" where
  "be_BetweenBytesTimeout t b =
     (if maxBackendTimeout < t then be_fail ''BetweenBytesTimeout'' ''too large'' b
      else be_set (bc_BetweenBytesTimeout t) b)"

definition be_UseSSL :: "bool \<Rightarrow> BackendOptions \<Rightarrow> BackendOptions" where
  "be_UseSSL v b = be_set (bc_UseSSL v) b"

definition be_SSLMinVersion :: "u32 \<Rightarrow> BackendOptions \<Rightarrow> BackendOptions" where
  "be_SSLMinVersion v b = be_set (bc_SSLMinVersion v) (be_set (bc_UseSSL True) b)"

definition be_SSLMaxVersion :: "u32 \<Rightarrow> BackendOptions \<Rightarrow> BackendOptions" where
  "be_SSLMaxVersion v b = be_set (bc_SSLMaxVersion v) (be_set (bc_UseSSL True) b)"

definition be_CertHostname :: "string \<Rightarrow> BackendOptions \<Rightarrow> BackendOptions" where
  "be_CertHostname host b =
     (if host = [] then be_fail ''CertHostname'' ''field cannot be blank'' b
      else be_set (bc_CertHostname host) (be_set (bc_UseSSL True) b))"

definition be_CACert :: "string \<Rightarrow> BackendOptions \<Rightarrow> BackendOptions" where
  "be_CACert cert b =
     (if cert = [] then be_fail ''CACert'' ''field cannot be blank'' b
      else be_set (bc_CACert cert) (be_set (bc_UseSSL True) b))"

definition be_Ciphers :: "string \<Rightarrow> BackendOptions \<Rightarrow> BackendOptions" where
  "be_Ciphers ciphers b =
     (if ciphers = [] then be_fail ''Ciphers'' ''field cannot be blank'' b
      else be_set (bc_Ciphers ciphers) (be_set (bc_UseSSL True) b))"

definition be_SNIHostname :: "string \<Rightarrow> BackendOptions \<Rightarrow> BackendOptions" where
  "be_SNIHostname host b =
     (if host = [] then be_fail ''SNIHostname'' ''field cannot be blank'' b
      else be_set (bc_SNIHostname host) (be_set (bc_UseSSL True) b))"

definition be_ClientCertificate :: "string \<Rightarrow> handle \<Rightarrow> BackendOptions \<Rightarrow> BackendOptions" where
  "be_ClientCertificate certificate key b =
     (if certificate = [] then be_fail ''ClientCertificate'' ''field cannot be blank'' b
      else be_set (bc_ClientCert certificate key) (be_set (bc_UseSSL True) b))"

definition be_PoolConnections :: "bool \<Rightarrow> BackendOptions \<Rightarrow> BackendOptions" where
  "be_PoolConnections poolingOn b = be_set (bc_PoolConnections poolingOn) b"

definition be_HTTPKeepaliveTime :: "Duration \<Rightarrow> BackendOptions \<Rightarrow> BackendOptions" where
  "be_HTTPKeepaliveTime t b =
     (if maxBackendTimeout < t then be_fail ''HTTPKeepaliveTime'' ''too large'' b
      else be_set (bc_HTTPKeepaliveTime t) b)"

definition be_TCPKeepaliveEnable :: "bool \<Rightarrow> BackendOptions \<Rightarrow> BackendOptions" where
  "be_TCPKeepaliveEnable enable b = be_set (bc_TCPKeepaliveEnable enable) b"

definition be_TCPKeepaliveInterval :: "(Duration \<Rightarrow> u32) \<Rightarrow> Duration \<Rightarrow> BackendOptions \<Rightarrow> BackendOptions" where
  "be_TCPKeepaliveInterval float_u32 interval b =
     be_set (bc_TCPKeepaliveInterval float_u32 (if interval < Second then Second else interval)) b"

definition be_TCPKeepaliveProbes :: "u32 \<Rightarrow> BackendOptions \<Rightarrow> BackendOptions" where
  "be_TCPKeepaliveProbes count b = be_set (bc_TCPKeepaliveProbes count) b"

text \<open>The error of a too large \<open>TCPKeepaliveTime\<close> names another field.\<close>

definition be_TCPKeepaliveTime :: "(Duration \<Rightarrow> u32) \<Rightarrow> Duration \<Rightarrow> BackendOptions \<Rightarrow> BackendOptions" where
  "be_TCPKeepaliveTime float_u32 interval b =
     (if maxBackendTimeout < interval then be_fail ''HTTPKeepaliveTime'' ''too large'' b
      else be_set (bc_TCPKeepaliveTime float_u32 interval) b)"

definition be_UseGRPC :: "bool \<Rightarrow> BackendOptions \<Rightarrow> BackendOptions" where
  "be_UseGRPC v b = be_set (bc_UseGRPC v) b"

section \<open>The builder against its specification\<close>

text \<open>The calls a client can make on the builder.\<close>

datatype backend_op =
    OpHost string | OpConnect Duration | OpFirstByte Duration | OpBetweenBytes Duration
  | OpSSL bool | OpSSLMin u32 | OpSSLMax u32 | OpCertHost string | OpCA string | OpCipher string
  | OpSNI string | OpClientCert string handle | OpPool bool | OpGRPC bool | OpHTTPKeepalive Duration
  | OpTCPEnable bool | OpTCPInterval Duration | OpTCPProbes u32 | OpTCPTime Duration

fun run_backend_op :: "(Duration \<Rightarrow> u32) \<Rightarrow> backend_op \<Rightarrow> BackendOptions \<Rightarrow> BackendOptions" where
  "run_backend_op fl (OpHost s) = be_HostOverride s"
| "run_backend_op fl (OpConnect t) = be_ConnectTimeout t"
| "run_backend_op fl (OpFirstByte t) = be_FirstByteTimeout t"
| "run_backend_op fl (OpBetweenBytes t) = be_BetweenBytesTimeout t"
| "run_backend_op fl (OpSSL v) = be_UseSSL v"
| "run_backend_op fl (OpSSLMin v) = be_SSLMinVersion v"
| "run_backend_op fl (OpSSLMax v) = be_SSLMaxVersion v"
| "run_backend_op fl (OpCertHost s) = be_CertHostname s"
| "run_backend_op fl (OpCA s) = be_CACert s"
| "run_backend_op fl (OpCipher s) = be_Ciphers s"
| "run_backend_op fl (OpSNI s) = be_SNIHostname s"
| "run_backend_op fl (OpClientCert c k) = be_ClientCertificate c k"
| "run_backend_op fl (OpPool v) = be_PoolConnections v"
| "run_backend_op fl (OpGRPC v) = be_UseGRPC v"
| "run_backend_op fl (OpHTTPKeepalive t) = be_HTTPKeepaliveTime t"
| "run_backend_op fl (OpTCPEnable v) = be_TCPKeepaliveEnable v"
| "run_backend_op fl (OpTCPInterval t) = be_TCPKeepaliveInterval fl t"
| "run_backend_op fl (OpTCPProbes n) = be_TCPKeepaliveProbes n"
| "run_backend_op fl (OpTCPTime t) = be_TCPKeepaliveTime fl t"

text \<open>What the host makes of an option block: a setting per bit of the mask.\<close>

record backend_settings =
  st_host :: "string option"
  st_connect :: "u32 option"
  st_first :: "u32 option"
  st_between :: "u32 option"
  st_ssl :: bool
  st_ssl_min :: "u32 option"
  st_ssl_max :: "u32 option"
  st_cert :: "string option"
  st_ca :: "string option"
  st_ciphers :: "string option"
  st_sni :: "string option"
  st_client :: "(string \<times> handle) option"
  st_pool :: bool
  st_grpc :: bool
  st_keepalive :: bool
  st_http_ms :: u32
  st_tcp :: u32
  st_tcp_interval :: u32
  st_tcp_probes :: u32
  st_tcp_time :: u32

definition present :: "bool \<Rightarrow> 'a \<Rightarrow> 'a option" where
  "present b x = (if b then Some x else None)"

definition settings :: "BackendConfigOptions \<Rightarrow> backend_settings" where
  "settings c = (let m = bc_mask c; o' = bc_opts c in
     \<lparr>st_host = present (bit m 1) (received (bo_hostOverride o')),
      st_connect = present (bit m 2) (bo_connectTimeoutMs o'),
      st_first = present (bit m 3) (bo_firstByteTimeout o'),
      st_between = present (bit m 4) (bo_betweenBytesTimeout o'),
      st_ssl = bit m 5,
      st_ssl_min = present (bit m 6) (bo_sslMinVersion o'),
      st_ssl_max = present (bit m 7) (bo_sslMaxVersion o'),
      st_cert = present (bit m 8) (received (bo_certHostname o')),
      st_ca = present (bit m 9) (received (bo_caCert o')),
      st_ciphers = present (bit m 10) (received (bo_ciphers o')),
      st_sni = present (bit m 11) (received (bo_sniHostname o')),
      st_client = present (bit m 13) (received (bo_clientCert o'), bo_clientCertKey o'),
      st_pool = (\<not> bit m 12),
      st_grpc = bit m 14,
      st_keepalive = bit m 15,
      st_http_ms = bo_httpKeepaliveTimeMs o',
      st_tcp = bo_tcpKeepaliveEnable o',
      st_tcp_interval = bo_tcpKeepaliveIntervalSecs o',
      st_tcp_probes = bo_tcpKeepaliveProbes o',
      st_tcp_time = bo_tcpKeepaliveTimeSecs o'\<rparr>)"

definition default_settings :: backend_settings where
  "default_settings =
     \<lparr>st_host = None, st_connect = None, st_first = None, st_between = None, st_ssl = False,
      st_ssl_min = None, st_ssl_max = None, st_cert = None, st_ca = None, st_ciphers = None,
      st_sni = None, st_client = None, st_pool = True, st_grpc = False, st_keepalive = False,
      st_http_ms = 0, st_tcp = 0, st_tcp_interval = 0, st_tcp_probes = 0, st_tcp_time = 0\<rparr>"

text \<open>The specification of a call: the setting it changes, or the complaint it adds.\<close>

definition spec_if :: "bool \<Rightarrow> string \<Rightarrow> string \<Rightarrow> (backend_settings \<Rightarrow> backend_settings) \<Rightarrow>
    backend_settings \<times> goerr list \<Rightarrow> backend_settings \<times> goerr list" where
  "spec_if ok field reason f x = (if ok then (f (fst x), snd x) else (fst x, snd x @ [ValidationErr field reason]))"

fun backend_spec :: "(Duration \<Rightarrow> u32) \<Rightarrow> backend_op \<Rightarrow> backend_settings \<times> goerr list \<Rightarrow> backend_settings \<times> goerr list" where
  "backend_spec fl (OpHost s) x = spec_if True [] [] (\<lambda>s'. s'\<lparr>st_host := Some s\<rparr>) x"
| "backend_spec fl (OpConnect t) x = spec_if (t \<le> maxBackendTimeout) ''ConnectTimeout'' ''too large'' (\<lambda>s. s\<lparr>st_connect := Some (u32_ms t)\<rparr>) x"
| "backend_spec fl (OpFirstByte t) x = spec_if (t \<le> maxBackendTimeout) ''FirstByteTimeout'' ''too large'' (\<lambda>s. s\<lparr>st_first := Some (u32_ms t)\<rparr>) x"
| "backend_spec fl (OpBetweenBytes t) x = spec_if (t \<le> maxBackendTimeout) ''BetweenBytesTimeout'' ''too large'' (\<lambda>s. s\<lparr>st_between := Some (u32_ms t)\<rparr>) x"
| "backend_spec fl (OpSSL v) x = spec_if True [] [] (\<lambda>s. s\<lparr>st_ssl := v\<rparr>) x"
| "backend_spec fl (OpSSLMin v) x = spec_if True [] [] (\<lambda>s. s\<lparr>st_ssl := True, st_ssl_min := Some v\<rparr>) x"
| "backend_spec fl (OpSSLMax v) x = spec_if True [] [] (\<lambda>s. s\<lparr>st_ssl := True, st_ssl_max := Some v\<rparr>) x"
| "backend_spec fl (OpCertHost h) x = spec_if (h \<noteq> []) ''CertHostname'' ''field cannot be blank'' (\<lambda>s. s\<lparr>st_ssl := True, st_cert := Some h\<rparr>) x"
| "backend_spec fl (OpCA c) x = spec_if (c \<noteq> []) ''CACert'' ''field cannot be blank'' (\<lambda>s. s\<lparr>st_ssl := True, st_ca := Some c\<rparr>) x"
| "backend_spec fl (OpCipher c) x = spec_if (c \<noteq> []) ''Ciphers'' ''field cannot be blank'' (\<lambda>s. s\<lparr>st_ssl := True, st_ciphers := Some c\<rparr>) x"
| "backend_spec fl (OpSNI h) x = spec_if (h \<noteq> []) ''SNIHostname'' ''field cannot be blank'' (\<lambda>s. s\<lparr>st_ssl := True, st_sni := Some h\<rparr>) x"
| "backend_spec fl (OpClientCert c k) x = spec_if (c \<noteq> []) ''ClientCertificate'' ''field cannot be blank'' (\<lambda>s. s\<lparr>st_ssl := True, st_client := Some (c, k)\<rparr>) x"
| "backend_spec fl (OpPool v) x = spec_if True [] [] (\<lambda>s. s\<lparr>st_pool := v\<rparr>) x"
| "backend_spec fl (OpGRPC v) x = spec_if True [] [] (\<lambda>s. s\<lparr>st_grpc := v\<rparr>) x"
| "backend_spec fl (OpHTTPKeepalive t) x = spec_if (t \<le> maxBackendTimeout) ''HTTPKeepaliveTime'' ''too large'' (\<lambda>s. s\<lparr>st_keepalive := True, st_http_ms := u32_ms t\<rparr>) x"
| "backend_spec fl (OpTCPEnable v) x = spec_if True [] [] (\<lambda>s. s\<lparr>st_keepalive := True, st_tcp := (if v then 1 else 0)\<rparr>) x"
| "backend_spec fl (OpTCPInterval t) x = spec_if True [] [] (\<lambda>s. s\<lparr>st_keepalive := True, st_tcp := 1, st_tcp_interval := u32_seconds fl (max Second t)\<rparr>) x"
| "backend_spec fl (OpTCPProbes n) x = spec_if True [] [] (\<lambda>s. if n = 0 then s else s\<lparr>st_keepalive := True, st_tcp := 1, st_tcp_probes := n\<rparr>) x"
| "backend_spec fl (OpTCPTime t) x = spec_if (t \<le> maxBackendTimeout) ''HTTPKeepaliveTime'' ''too large'' (\<lambda>s. s\<lparr>st_keepalive := True, st_tcp := 1, st_tcp_time := u32_seconds fl t\<rparr>) x"

fun sized_op :: "backend_op \<Rightarrow> bool" where
  "sized_op (OpHost s) = sized s"
| "sized_op (OpCertHost s) = sized s"
| "sized_op (OpCA s) = sized s"
| "sized_op (OpCipher s) = sized s"
| "sized_op (OpSNI s) = sized s"
| "sized_op (OpClientCert c k) = sized c"
| "sized_op _ = True"

definition abs_backend :: "BackendOptions \<Rightarrow> backend_settings \<times> goerr list" where
  "abs_backend b = (settings (be_abi b), be_err b)"

lemma settings_put:
  "settings (bc_put flag f c) = settings \<lparr>bc_mask = bc_mask c OR flag, bc_opts = f (bc_opts c)\<rparr>"
  by (simp add: settings_def bc_put_def)

lemmas be_setter_defs = be_set_def be_fail_def be_HostOverride_def be_ConnectTimeout_def
  be_FirstByteTimeout_def be_BetweenBytesTimeout_def be_UseSSL_def be_SSLMinVersion_def
  be_SSLMaxVersion_def be_CertHostname_def be_CACert_def be_Ciphers_def be_SNIHostname_def
  be_ClientCertificate_def be_PoolConnections_def be_HTTPKeepaliveTime_def be_TCPKeepaliveEnable_def
  be_TCPKeepaliveInterval_def be_TCPKeepaliveProbes_def be_TCPKeepaliveTime_def be_UseGRPC_def

lemma backend_op_refines:
  "sized_op a \<Longrightarrow> abs_backend (run_backend_op fl a b) = backend_spec fl a (abs_backend b)"
  by (cases a)
    (simp_all add: abs_backend_def be_setter_defs spec_if_def settings_def Let_def bc_setter_defs
      bit_simps present_def not_less max_def word_gt_0 not_le)

text \<open>
  C25: a chain of builder calls produces exactly the settings and the complaints that the
  specification gives, call by call: later values replace earlier ones, a rejected value leaves
  the settings alone, and every TLS parameter switches TLS on.
\<close>

theorem backend_builder_refines:
  assumes "list_all sized_op ops"
  shows "abs_backend (fold (run_backend_op fl) ops NewBackendOptions)
    = fold (backend_spec fl) ops (default_settings, [])"
proof -
  have "list_all sized_op ops \<Longrightarrow> abs_backend (fold (run_backend_op fl) ops b) = fold (backend_spec fl) ops (abs_backend b)" for b
    by (induction ops arbitrary: b) (simp_all add: backend_op_refines)
  moreover have "abs_backend NewBackendOptions = (default_settings, [])"
    by (simp add: abs_backend_def NewBackendOptions_def settings_def zero_backend_config_def present_def default_settings_def)
  ultimately show ?thesis using assms by simp
qed

theorem backend_builder_refines_witness:
  "abs_backend (fold (run_backend_op (\<lambda>_. 0)) [OpHost ''a'', OpConnect 5000000, OpCA [], OpHost ''b''] NewBackendOptions)
     = (default_settings\<lparr>st_host := Some ''b'', st_connect := Some 5\<rparr>, [ValidationErr ''CACert'' ''field cannot be blank''])"
proof -
  have "list_all sized_op [OpHost ''a'', OpConnect 5000000, OpCA [], OpHost ''b'']" by (simp add: sized_def)
  from backend_builder_refines [OF this, of "\<lambda>_. 0"] show ?thesis
    by (simp add: spec_if_def maxBackendTimeout_def u32_ms_def Milliseconds_def sdiv_pos default_settings_def)
qed

text \<open>
  The rule of a setter that takes a timeout in milliseconds: more than \<open>2 ^ 32\<close> milliseconds is
  refused, with an error in the name of a field, and changes nothing else; any other timeout is
  accepted, marked as present and sent as its whole milliseconds.  Just \<open>2 ^ 32\<close> milliseconds arrive
  as zero, and a negative timeout as its milliseconds modulo \<open>2 ^ 32\<close>.
\<close>

definition timeout_rule ::
  "(Duration \<Rightarrow> BackendOptions \<Rightarrow> BackendOptions) \<Rightarrow> string \<Rightarrow> u32 \<Rightarrow> (backendConfigOptions \<Rightarrow> u32) \<Rightarrow> bool" where
  "timeout_rule setter name flag field \<longleftrightarrow> (\<forall>t b.
     if 2 ^ 32 * Millisecond < t
     then setter t b = b\<lparr>be_err := be_err b @ [ValidationErr name ''too large'']\<rparr>
     else be_err (setter t b) = be_err b
       \<and> bc_mask (be_abi (setter t b)) = bc_mask (be_abi b) OR flag
       \<and> uint (field (bc_opts (be_abi (setter t b)))) =
           (if t < 0 then (- (- t div Millisecond)) mod 2 ^ 32
            else if t = 2 ^ 32 * Millisecond then 0
            else t div Millisecond))"

lemma u32_ms_value:
  assumes "t \<le> 2 ^ 32 * Millisecond"
  shows "uint (u32_ms t) = (if t < 0 then (- (- t div Millisecond)) mod 2 ^ 32
    else if t = 2 ^ 32 * Millisecond then 0 else t div Millisecond)"
proof -
  have "t sdiv 1000000 = - (- t div 1000000)" if "t < 0"
    using that by (simp add: signed_divide_int_def)
  then have "uint (u32_ms t) = (- (- t div Millisecond)) mod 2 ^ 32" if "t < 0"
    using that unfolding u32_ms_def Milliseconds_def uint_word_of_int by simp
  moreover have "uint (u32_ms t) = t div Millisecond" if "0 \<le> t" "t \<noteq> 2 ^ 32 * Millisecond"
    using that assms by (intro u32_ms_exact) simp_all
  moreover have "u32_ms (2 ^ 32 * Millisecond) = 0"
    by (simp add: u32_ms_def Milliseconds_def sdiv_pos)
  ultimately show ?thesis by auto
qed

lemma timeout_ruleI:
  assumes "\<And>t b. setter t b = (if maxBackendTimeout < t then be_fail name ''too large'' b
      else be_set (bc_put flag (f (\<lambda>_. u32_ms t))) b)" and "\<And>v o'. field (f (\<lambda>_. v) o') = v"
  shows "timeout_rule setter name flag field"
  by (simp add: timeout_rule_def assms be_fail_def be_set_def bc_put_def maxBackendTimeout_def u32_ms_value [simplified])

text \<open>
  C38: the bound on timeouts.  The four timeouts in milliseconds (to connect, to the first byte,
  between bytes, and of idle connections) keep the rule, for every duration.  The keepalive time of
  TCP, in seconds, is bounded alike, but its error names \<open>HTTPKeepaliveTime\<close>; within the bound it is
  sent as what the conversion of its seconds gives, and switches TCP keepalive on.
\<close>

theorem backend_timeout_bounds:
  "timeout_rule be_ConnectTimeout ''ConnectTimeout'' backendConfigOptionsMaskConnectTimeout bo_connectTimeoutMs
   \<and> timeout_rule be_FirstByteTimeout ''FirstByteTimeout'' backendConfigOptionsMaskFirstByteTimeout bo_firstByteTimeout
   \<and> timeout_rule be_BetweenBytesTimeout ''BetweenBytesTimeout'' backendConfigOptionsMaskBetweenBytesTimeout bo_betweenBytesTimeout
   \<and> timeout_rule be_HTTPKeepaliveTime ''HTTPKeepaliveTime'' backendConfigOptionsMaskKeepalive bo_httpKeepaliveTimeMs
   \<and> (if 2 ^ 32 * Millisecond < t
      then be_TCPKeepaliveTime fl t b = b\<lparr>be_err := be_err b @ [ValidationErr ''HTTPKeepaliveTime'' ''too large'']\<rparr>
      else be_err (be_TCPKeepaliveTime fl t b) = be_err b
        \<and> bc_mask (be_abi (be_TCPKeepaliveTime fl t b)) = bc_mask (be_abi b) OR backendConfigOptionsMaskKeepalive
        \<and> bo_tcpKeepaliveEnable (bc_opts (be_abi (be_TCPKeepaliveTime fl t b))) = 1
        \<and> bo_tcpKeepaliveTimeSecs (bc_opts (be_abi (be_TCPKeepaliveTime fl t b))) = u32_seconds fl t)"
proof (intro conjI)
  show "timeout_rule be_ConnectTimeout ''ConnectTimeout'' backendConfigOptionsMaskConnectTimeout bo_connectTimeoutMs"
    by (rule timeout_ruleI [where f = bo_connectTimeoutMs_update]) (simp_all add: be_ConnectTimeout_def bc_ConnectTimeout_def)
  show "timeout_rule be_FirstByteTimeout ''FirstByteTimeout'' backendConfigOptionsMaskFirstByteTimeout bo_firstByteTimeout"
    by (rule timeout_ruleI [where f = bo_firstByteTimeout_update]) (simp_all add: be_FirstByteTimeout_def bc_FirstByteTimeout_def)
  show "timeout_rule be_BetweenBytesTimeout ''BetweenBytesTimeout'' backendConfigOptionsMaskBetweenBytesTimeout bo_betweenBytesTimeout"
    by (rule timeout_ruleI [where f = bo_betweenBytesTimeout_update])
      (simp_all add: be_BetweenBytesTimeout_def bc_BetweenBytesTimeout_def)
  show "timeout_rule be_HTTPKeepaliveTime ''HTTPKeepaliveTime'' backendConfigOptionsMaskKeepalive bo_httpKeepaliveTimeMs"
    by (rule timeout_ruleI [where f = bo_httpKeepaliveTimeMs_update]) (simp_all add: be_HTTPKeepaliveTime_def bc_HTTPKeepaliveTime_def)
qed (simp add: be_TCPKeepaliveTime_def be_fail_def be_set_def bc_TCPKeepaliveTime_def bc_put_def maxBackendTimeout_def)

theorem backend_timeout_bounds_witness:
  "uint (bo_connectTimeoutMs (bc_opts (be_abi (be_ConnectTimeout (1500 * Millisecond) NewBackendOptions)))) = 1500
   \<and> uint (bo_connectTimeoutMs (bc_opts (be_abi (be_ConnectTimeout (2 ^ 32 * Millisecond) NewBackendOptions)))) = 0
   \<and> uint (bo_firstByteTimeout (bc_opts (be_abi (be_FirstByteTimeout (- Second) NewBackendOptions)))) = 4294966296
   \<and> be_err (be_BetweenBytesTimeout (2 ^ 33 * Millisecond) NewBackendOptions) = [ValidationErr ''BetweenBytesTimeout'' ''too large'']"
  using backend_timeout_bounds [of 0 "\<lambda>_. 0" NewBackendOptions]
  by (simp add: timeout_rule_def) (simp add: NewBackendOptions_def)

section \<open>Backends\<close>

record Backend =
  ba_name :: string
  ba_target :: string
  ba_dynamic :: bool
  ba_hostOverride :: string
  ba_connectTimeout :: Duration
  ba_firstByteTimeout :: Duration
  ba_betweenBytesTimeout :: Duration
  ba_isSSL :: bool
  ba_sslMinVersion :: u32
  ba_sslMaxVersion :: u32

definition named_backend :: "string \<Rightarrow> string \<Rightarrow> Backend" where
  "named_backend name target =
     \<lparr>ba_name = name, ba_target = target, ba_dynamic = False, ba_hostOverride = [], ba_connectTimeout = 0,
      ba_firstByteTimeout = 0, ba_betweenBytesTimeout = 0, ba_isSSL = False, ba_sslMinVersion = 0,
      ba_sslMaxVersion = 0\<rparr>"

definition ignore_both :: "goerr option \<Rightarrow> goerr option" where
  "ignore_both err = ignoreUnsupportedError (ignoreNoneError err)"

text \<open>\<open>populateConfig\<close> fills the backend it is called on; callers use it only when it succeeds.\<close>

definition populateConfig :: "'w backend_calls \<Rightarrow> Backend \<Rightarrow> ('w, goerr + Backend) comp" where
  "populateConfig bk b =
     (let name = ba_name b in
      check_c id (tolerate ignoreNoneError False (BackendIsDynamic bk name)) (\<lambda>dynamic.
      let b = b\<lparr>ba_dynamic := dynamic\<rparr> in
      check_c id (tolerate ignoreNoneError [] (BackendGetHost bk name)) (\<lambda>host.
      check_c id (tolerate ignoreNoneError 0 (BackendGetPort bk name)) (\<lambda>port.
      let b = b\<lparr>ba_target := host @ '':'' @ itoa port\<rparr> in
      check_c id (tolerate ignoreNoneError [] (BackendGetOverrideHost bk name)) (\<lambda>hostOverride.
      let b = b\<lparr>ba_hostOverride := hostOverride\<rparr> in
      check_c id (tolerate ignore_both 0 (BackendGetConnectTimeout bk name)) (\<lambda>t.
      let b = b\<lparr>ba_connectTimeout := t\<rparr> in
      check_c id (tolerate ignore_both 0 (BackendGetFirstByteTimeout bk name)) (\<lambda>t.
      let b = b\<lparr>ba_firstByteTimeout := t\<rparr> in
      check_c id (tolerate ignore_both 0 (BackendGetBetweenBytesTimeout bk name)) (\<lambda>t.
      let b = b\<lparr>ba_betweenBytesTimeout := t\<rparr> in
      check_c id (tolerate ignoreNoneError False (BackendIsSSL bk name)) (\<lambda>ssl.
      let b = b\<lparr>ba_isSSL := ssl\<rparr> in
      if ssl then
        check_c id (tolerate ignore_both 0 (BackendGetSSLMaxVersion bk name)) (\<lambda>v.
        let b = b\<lparr>ba_sslMaxVersion := v\<rparr> in
        check_c id (tolerate ignore_both 0 (BackendGetSSLMinVersion bk name)) (\<lambda>v.
        finish (Inr (b\<lparr>ba_sslMinVersion := v\<rparr>))))
      else finish (Inr b))))))))))"

definition BackendFromName :: "'w backend_calls \<Rightarrow> string \<Rightarrow> ('w, goerr + Backend) comp" where
  "BackendFromName bk name =
     check_c id (BackendExists bk name) (\<lambda>exists.
     if \<not> exists then finish (Inl ErrBackendNotFound)
     else populateConfig bk (named_backend name []))"

definition Backend_Health :: "'w backend_calls \<Rightarrow> Backend \<Rightarrow> ('w, goerr + u32) comp" where
  "Backend_Health bk b = check_c id (BackendIsHealthy bk (ba_name b)) (\<lambda>v. finish (Inr v))"

definition BackendHealthUnknown :: u32 where [simp]: "BackendHealthUnknown = 0"
definition BackendHealthHealthy :: u32 where [simp]: "BackendHealthHealthy = 1"
definition BackendHealthUnhealthy :: u32 where [simp]: "BackendHealthUnhealthy = 2"

definition BackendHealth_String :: "u32 \<Rightarrow> string" where
  "BackendHealth_String h =
     (if h = BackendHealthHealthy then ''healthy''
      else if h = BackendHealthUnhealthy then ''unhealthy'' else ''unknown'')"

text \<open>\<open>None\<close> is a nil options pointer.\<close>

definition register_error :: "goerr \<Rightarrow> goerr" where
  "register_error err =
     (case IsFastlyError (Some err) of (status, ok) \<Rightarrow>
        if ok \<and> status = FastlyStatusUnsupported then ErrDynamicBackendDisallowed
        else if ok \<and> status = FastlyStatusError then ErrBackendNameInUse
        else if ok then Wrap [] ErrUnexpected ('' ('' @ FastlyStatus_String status @ '')'')
        else err)"

definition RegisterDynamicBackend ::
  "'w backend_calls \<Rightarrow> string \<Rightarrow> string \<Rightarrow> BackendOptions option \<Rightarrow> ('w, goerr + Backend) comp" where
  "RegisterDynamicBackend bk name target options =
     (let abiOpts = (case options of Some o' \<Rightarrow> be_abi o' | None \<Rightarrow> zero_backend_config) in
      case options of
        Some o' \<Rightarrow>
          if be_err o' \<noteq> [] then finish (Inl (Joined (be_err o')))
          else check_c register_error (abi_RegisterDynamicBackend bk name target abiOpts)
                 (\<lambda>_. populateConfig bk (named_backend name target))
      | None \<Rightarrow> check_c register_error (abi_RegisterDynamicBackend bk name target abiOpts)
                 (\<lambda>_. populateConfig bk (named_backend name target)))"

section \<open>Reading a backend back\<close>

text \<open>
  A host that keeps the configuration of one backend: every getter answers from \<open>cfg\<close>, or with
  an error that \<open>populateConfig\<close> may ignore where the configuration has nothing.
\<close>

record backend_facts =
  bf_dynamic :: bool
  bf_host :: string
  bf_port :: u32
  bf_override :: "string option"
  bf_connect :: "u32 option"
  bf_first :: "u32 option"
  bf_between :: "u32 option"
  bf_ssl :: bool
  bf_ssl_min :: "u32 option"
  bf_ssl_max :: "u32 option"

definition flag_word :: "bool \<Rightarrow> u32" where "flag_word b = (if b then 1 else 0)"

definition backend_host :: "'w backend_calls \<Rightarrow> string \<Rightarrow> backend_facts \<Rightarrow> bool" where
  "backend_host bk name f \<longleftrightarrow>
     answers {} (c_backend_is_dynamic bk name) (Some (flag_word (bf_dynamic f)))
   \<and> value_host (c_backend_get_host bk name) (bf_host f) \<and> length (bf_host f) \<le> dnsBufLen
   \<and> answers {} (c_backend_get_port bk name) (Some (bf_port f))
   \<and> (case bf_override f of
        Some h \<Rightarrow> value_host (c_backend_get_override_host bk name) h \<and> length h \<le> dnsBufLen
      | None \<Rightarrow> \<forall>n w. br_status (fst (c_backend_get_override_host bk name n w)) = FastlyStatusNone)
   \<and> answers {FastlyStatusNone, FastlyStatusUnsupported} (c_backend_get_connect_timeout_ms bk name) (bf_connect f)
   \<and> answers {FastlyStatusNone, FastlyStatusUnsupported} (c_backend_get_first_byte_timeout_ms bk name) (bf_first f)
   \<and> answers {FastlyStatusNone, FastlyStatusUnsupported} (c_backend_get_between_bytes_timeout_ms bk name) (bf_between f)
   \<and> answers {} (c_backend_is_ssl bk name) (Some (flag_word (bf_ssl f)))
   \<and> answers {FastlyStatusNone, FastlyStatusUnsupported} (c_backend_get_ssl_max_version bk name) (bf_ssl_max f)
   \<and> answers {FastlyStatusNone, FastlyStatusUnsupported} (c_backend_get_ssl_min_version bk name) (bf_ssl_min f)"

definition get_or :: "'a \<Rightarrow> 'a option \<Rightarrow> 'a" where
  "get_or z v = (case v of Some x \<Rightarrow> x | None \<Rightarrow> z)"

definition backend_of :: "string \<Rightarrow> backend_facts \<Rightarrow> Backend" where
  "backend_of name f =
     \<lparr>ba_name = name, ba_target = bf_host f @ '':'' @ itoa (uint (bf_port f)), ba_dynamic = bf_dynamic f,
      ba_hostOverride = get_or [] (bf_override f),
      ba_connectTimeout = uint (get_or 0 (bf_connect f)) * Millisecond,
      ba_firstByteTimeout = uint (get_or 0 (bf_first f)) * Millisecond,
      ba_betweenBytesTimeout = uint (get_or 0 (bf_between f)) * Millisecond,
      ba_isSSL = bf_ssl f,
      ba_sslMinVersion = (if bf_ssl f then get_or 0 (bf_ssl_min f) else 0),
      ba_sslMaxVersion = (if bf_ssl f then get_or 0 (bf_ssl_max f) else 0)\<rparr>"

lemma fails_fixed_buffer:
  assumes "\<And>n w. br_status (fst (f n w)) = s" and "s \<noteq> FastlyStatusOK"
  shows "fails (fixed_buffer n f) (FastlyError s None)"
  unfolding fails_def
proof
  fix w
  obtain r w' where "f (wb_Cap (NewWriteBuffer n)) w = (r, w')" by force
  moreover from this assms have "br_status r = s" "s \<noteq> 0" by (metis fst_conv, simp)
  ultimately show "\<exists>w'. fixed_buffer n f w = Some (Done (Inl (FastlyError s None)), w')"
    by (simp add: fixed_buffer_def toError_def Let_def)
qed

lemma ignored_statuses:
  "s \<in> {FastlyStatusNone, FastlyStatusUnsupported} \<Longrightarrow>
   s \<noteq> FastlyStatusOK \<and> ignore_both (Some (FastlyError s None)) = None"
  by (auto simp: ignore_both_def ignoreNoneError_def ignoreUnsupportedError_def IsFastlyError_def)

lemma populateConfig_reads:
  assumes "backend_host bk name f"
  shows "yields (populateConfig bk (named_backend name target)) (backend_of name f)"
proof -
  note h = assms [unfolded backend_host_def]
  have ms: "yields (tolerate ignore_both 0 (map_result ms_duration (hostcall p))) (uint (get_or 0 v) * Millisecond)"
    if "answers {FastlyStatusNone, FastlyStatusUnsupported} p v" for p :: "('a, FastlyStatus \<times> u32) prog" and v
    using yields_tolerate_answers [OF that ignored_statuses, where g = ms_duration and z = 0]
    by (cases v) (simp_all add: get_or_def ms_duration_def)
  have ver: "yields (tolerate ignore_both 0 (map_result id (hostcall p))) (get_or 0 v)"
    if "answers {FastlyStatusNone, FastlyStatusUnsupported} p v" for p :: "('a, FastlyStatus \<times> u32) prog" and v
    using yields_tolerate_answers [OF that ignored_statuses, where g = id and z = 0]
    by (cases v) (simp_all add: get_or_def)
  have flag: "yields (tolerate ignoreNoneError False (map_result nonzero (hostcall p))) b"
    if "answers {} p (Some (flag_word b))" for p :: "('a, FastlyStatus \<times> u32) prog" and b
    using yields_tolerate_answers [OF that, where g = nonzero and z = False and ignore = ignoreNoneError]
    by (cases b) (auto simp: nonzero_def flag_word_def)
  have port: "yields (tolerate ignoreNoneError 0 (BackendGetPort bk name)) (uint (bf_port f))"
    unfolding BackendGetPort_def using h by (auto intro: yields_tolerate yields_map_result answers_Some)
  have host: "yields (tolerate ignoreNoneError [] (BackendGetHost bk name)) (bf_host f)"
    unfolding BackendGetHost_def using h by (intro yields_tolerate yields_fixed_buffer) (simp_all add: dnsBufLen_def)
  have over: "yields (tolerate ignoreNoneError [] (BackendGetOverrideHost bk name)) (get_or [] (bf_override f))"
    unfolding BackendGetOverrideHost_def
  proof (cases "bf_override f")
    case None
    with h have "fails (fixed_buffer dnsBufLen (c_backend_get_override_host bk name)) (FastlyError FastlyStatusNone None)"
      by (intro fails_fixed_buffer) simp_all
    then have "yields (tolerate ignoreNoneError [] (fixed_buffer dnsBufLen (c_backend_get_override_host bk name))) []"
      by (rule yields_tolerate_error) (simp add: ignoreNoneError_def IsFastlyError_def)
    with None show "yields (tolerate ignoreNoneError [] (fixed_buffer dnsBufLen (c_backend_get_override_host bk name)))
        (get_or [] (bf_override f))" by (simp add: get_or_def)
  next
    case (Some v)
    with h have "yields (tolerate ignoreNoneError [] (fixed_buffer dnsBufLen (c_backend_get_override_host bk name))) v"
      by (intro yields_tolerate yields_fixed_buffer) (simp_all add: dnsBufLen_def)
    with Some show "yields (tolerate ignoreNoneError [] (fixed_buffer dnsBufLen (c_backend_get_override_host bk name)))
        (get_or [] (bf_override f))" by (simp add: get_or_def)
  qed
  have fields: "yields (tolerate ignoreNoneError False (BackendIsDynamic bk name)) (bf_dynamic f)"
    "yields (tolerate ignoreNoneError False (BackendIsSSL bk name)) (bf_ssl f)"
    "yields (tolerate ignore_both 0 (BackendGetConnectTimeout bk name)) (uint (get_or 0 (bf_connect f)) * Millisecond)"
    "yields (tolerate ignore_both 0 (BackendGetFirstByteTimeout bk name)) (uint (get_or 0 (bf_first f)) * Millisecond)"
    "yields (tolerate ignore_both 0 (BackendGetBetweenBytesTimeout bk name)) (uint (get_or 0 (bf_between f)) * Millisecond)"
    "yields (tolerate ignore_both 0 (BackendGetSSLMaxVersion bk name)) (get_or 0 (bf_ssl_max f))"
    "yields (tolerate ignore_both 0 (BackendGetSSLMinVersion bk name)) (get_or 0 (bf_ssl_min f))"
    using h by (auto simp: BackendIsDynamic_def BackendIsSSL_def BackendGetConnectTimeout_def
        BackendGetFirstByteTimeout_def BackendGetBetweenBytesTimeout_def BackendGetSSLMaxVersion_def
        BackendGetSSLMinVersion_def simp del: Millisecond_def intro!: flag ms ver)
  show ?thesis
    unfolding populateConfig_def Let_def
    by (rule yields_check_c, (simp add: named_backend_def, rule fields host port over))+
      (auto simp: named_backend_def backend_of_def intro!: yields_check_c fields yields_finish)
qed

text \<open>
  C26: registration and lookup.  Options with complaints are refused with all complaints joined
  and without a hostcall; otherwise a registered backend, like one looked up by name, has
  exactly the configuration the host holds, with zero values for what the host has not; an
  unknown name is \<open>ErrBackendNotFound\<close>.
\<close>

theorem backend_read_back:
  assumes "backend_host bk name f"
  shows "(be_err o' = [] \<longrightarrow> answers {} (c_register_dynamic_backend bk name target (be_abi o')) (Some ()) \<longrightarrow>
        yields (RegisterDynamicBackend bk name target (Some o')) (backend_of name f))
    \<and> (be_err o' \<noteq> [] \<longrightarrow>
        RegisterDynamicBackend bk name target (Some o') w = Some (Done (Inl (Joined (be_err o'))), w))
    \<and> (answers {} (c_backend_exists bk name) (Some (flag_word known)) \<longrightarrow>
        (if known then yields (BackendFromName bk name) (backend_of name f)
         else fails (BackendFromName bk name) ErrBackendNotFound))"
proof -
  have reg: "yields (RegisterDynamicBackend bk name target (Some o')) (backend_of name f)"
    if "be_err o' = []" "answers {} (c_register_dynamic_backend bk name target (be_abi o')) (Some ())"
    using that populateConfig_reads [OF assms]
    by (simp add: RegisterDynamicBackend_def abi_RegisterDynamicBackend_def yields_check_c [OF answers_Some])
  have ex: "yields (BackendExists bk name) known" if "answers {} (c_backend_exists bk name) (Some (flag_word known))"
    using yields_map_result [OF answers_Some [OF that], of nonzero]
    by (simp add: BackendExists_def nonzero_def flag_word_def split: if_splits)
  have "if known then yields (BackendFromName bk name) (backend_of name f)
      else fails (BackendFromName bk name) ErrBackendNotFound"
    if "answers {} (c_backend_exists bk name) (Some (flag_word known))"
    unfolding BackendFromName_def using ex [OF that] populateConfig_reads [OF assms]
    by (auto intro!: yields_check_c fails_check_c fails_finish)
  with reg show ?thesis by (auto simp: RegisterDynamicBackend_def)
qed

text \<open>A host with one backend \<open>origin\<close>.\<close>

definition origin_facts :: backend_facts where
  "origin_facts = \<lparr>bf_dynamic = True, bf_host = ''example.com'', bf_port = 443, bf_override = None,
     bf_connect = Some 1000, bf_first = None, bf_between = None, bf_ssl = False, bf_ssl_min = None, bf_ssl_max = None\<rparr>"

definition origin_calls :: "unit backend_calls" where
  "origin_calls =
     \<lparr>c_register_dynamic_backend = (\<lambda>n t o'. accept ()),
      c_backend_exists = (\<lambda>n. accept (if n = ''origin'' then 1 else 0)),
      c_backend_is_healthy = (\<lambda>n. accept 1),
      c_backend_is_dynamic = (\<lambda>n. accept 1),
      c_backend_get_host = (\<lambda>n. one_value_host ''example.com''),
      c_backend_get_override_host = (\<lambda>n cap w. (\<lparr>br_status = FastlyStatusNone, br_written = [], br_nwritten = 0\<rparr>, w)),
      c_backend_get_port = (\<lambda>n. accept 443),
      c_backend_get_connect_timeout_ms = (\<lambda>n. accept 1000),
      c_backend_get_first_byte_timeout_ms = (\<lambda>n w. ((FastlyStatusUnsupported, 0), w)),
      c_backend_get_between_bytes_timeout_ms = (\<lambda>n w. ((FastlyStatusNone, 0), w)),
      c_backend_is_ssl = (\<lambda>n. accept 0),
      c_backend_get_ssl_min_version = (\<lambda>n w. ((FastlyStatusNone, 0), w)),
      c_backend_get_ssl_max_version = (\<lambda>n w. ((FastlyStatusNone, 0), w))\<rparr>"

lemma origin_host: "backend_host origin_calls ''origin'' origin_facts"
  using value_host_one_value_host [of "''example.com''"]
  by (simp add: backend_host_def origin_calls_def origin_facts_def answers_def accept_def flag_word_def dnsBufLen_def)

theorem backend_read_back_witness:
  "yields (RegisterDynamicBackend origin_calls ''origin'' ''example.com:443'' (Some NewBackendOptions))
     (named_backend ''origin'' ''example.com:443''\<lparr>ba_dynamic := True, ba_connectTimeout := 1000000000\<rparr>)"
proof -
  have "answers {} (c_register_dynamic_backend origin_calls ''origin'' ''example.com:443'' (be_abi NewBackendOptions)) (Some ())"
    by (simp add: answers_def origin_calls_def accept_def)
  moreover have "backend_of ''origin'' origin_facts
      = named_backend ''origin'' ''example.com:443''\<lparr>ba_dynamic := True, ba_connectTimeout := 1000000000\<rparr>"
    by (simp add: backend_of_def origin_facts_def named_backend_def get_or_def itoa_def) (code_simp)
  ultimately show ?thesis
    using backend_read_back [OF origin_host, of NewBackendOptions "''example.com:443''"]
    by (simp add: NewBackendOptions_def)
qed

text \<open>
  a refusal by the host is reported as the error of its status: unsupported, name in use,
  and otherwise an unexpected error that names the status; \<open>errors.Is\<close> finds the sentinel.
\<close>

lemma backend_register_errors:
  assumes "be_err o' = []" and "s \<noteq> FastlyStatusOK"
    and "answers {s} (c_register_dynamic_backend bk name target (be_abi o')) None"
  shows "fails (RegisterDynamicBackend bk name target (Some o'))
    (if s = FastlyStatusUnsupported then ErrDynamicBackendDisallowed
     else if s = FastlyStatusError then ErrBackendNameInUse
     else Wrap [] ErrUnexpected ('' ('' @ FastlyStatus_String s @ '')''))"
proof -
  have "fails (RegisterDynamicBackend bk name target (Some o')) (register_error (FastlyError s None))"
    using assms by (simp add: RegisterDynamicBackend_def abi_RegisterDynamicBackend_def
        fails_check_c_error [OF answers_one])
  then show ?thesis by (simp add: register_error_def IsFastlyError_def split: if_splits)
qed

lemma backend_register_errors_instance:
  "fails (RegisterDynamicBackend (origin_calls\<lparr>c_register_dynamic_backend := (\<lambda>n t o' w. ((FastlyStatusError, ()), w))\<rparr>)
     ''origin'' ''example.com'' (Some NewBackendOptions)) ErrBackendNameInUse"
  using backend_register_errors [of NewBackendOptions FastlyStatusError
    "origin_calls\<lparr>c_register_dynamic_backend := (\<lambda>n t o' w. ((FastlyStatusError, ()), w))\<rparr>" "''origin''" "''example.com''"]
  by (simp add: NewBackendOptions_def answers_def)

end
