(* ===== verification/Cookies.thy ===== *)
theory Cookies
  imports Headers
begin

text \<open>
  \<open>fsthttp/cookie.go\<close>: the cookie type, its serialisation \<open>String\<close>, the sanitizers, the
  validity checks, and the parsers of \<open>Set-Cookie\<close> and \<open>Cookie\<close> headers; with
  \<open>Request.Cookies\<close>, \<open>Cookie\<close> and \<open>AddCookie\<close> of \<open>request.go\<close>.

  Times are values of a type \<open>'t\<close> with the operations of Go's \<open>time\<close> package that the code
  calls (\<open>Year\<close>, \<open>Parse\<close>, \<open>AppendFormat\<close>, the zero time), collected in a record.  Log output
  of the sanitizers is not modelled.  \<open>strings.IndexFunc\<close> decodes runes; a rune outside ASCII
  is never a token rune, so testing the bytes gives the same answer.
\<close>

section \<open>Tokens and byte classes\<close>

definition isTokenTable :: string where
  "isTokenTable =
     ''!#$%&'' @ [CHR 39] @ ''*+-.0123456789ABCDEFGHIJKLMNOPQRSTUWVXYZ^_'' @ [CHR 96]
     @ ''abcdefghijklmnopqrstuvwxyz|~''"

definition isTokenRune :: "char \<Rightarrow> bool" where
  "isTokenRune r \<longleftrightarrow> List.member isTokenTable r"

definition isNotToken :: "char \<Rightarrow> bool" where
  "isNotToken r \<longleftrightarrow> \<not> isTokenRune r"

definition isCookieNameValid :: "string \<Rightarrow> bool" where
  "isCookieNameValid raw \<longleftrightarrow> raw \<noteq> [] \<and> \<not> list_ex isNotToken raw"

definition validCookieValueByte :: "char \<Rightarrow> bool" where
  "validCookieValueByte b \<longleftrightarrow>
     32 \<le> byte b \<and> byte b < 127 \<and> b \<noteq> CHR 0x22 \<and> b \<noteq> CHR '';'' \<and> b \<noteq> CHR 0x5C"

definition validCookiePathByte :: "char \<Rightarrow> bool" where
  "validCookiePathByte b \<longleftrightarrow> 32 \<le> byte b \<and> byte b < 127 \<and> b \<noteq> CHR '';''"

definition isPrint :: "string \<Rightarrow> bool" where
  "isPrint s \<longleftrightarrow> list_all (\<lambda>c. \<not> (byte c < 32 \<or> 126 < byte c)) s"

definition toLower :: "string \<Rightarrow> string \<times> bool" where
  "toLower s = (if \<not> isPrint s then ([], False) else (ascii_lower s, True))"

section \<open>Sanitizers and domain names\<close>

definition sanitizeOrWarn :: "(char \<Rightarrow> bool) \<Rightarrow> string \<Rightarrow> string" where
  "sanitizeOrWarn valid v = (if list_all valid v then v else filter valid v)"

definition sanitizeCookieName :: "string \<Rightarrow> string" where
  "sanitizeCookieName n = map (\<lambda>c. if c = CHR 10 \<or> c = CHR 13 then CHR ''-'' else c) n"

definition sanitizeCookieValue :: "string \<Rightarrow> string" where
  "sanitizeCookieValue v =
     (let v = sanitizeOrWarn validCookieValueByte v in
      if v = [] then v
      else if 0 \<le> index_byte (CHR '' '') v \<or> 0 \<le> index_byte (CHR '','') v
      then [CHR 0x22] @ v @ [CHR 0x22] else v)"

definition sanitizeCookiePath :: "string \<Rightarrow> string" where
  "sanitizeCookiePath v = sanitizeOrWarn validCookiePathByte v"

definition parseCookieValue :: "string \<Rightarrow> bool \<Rightarrow> string option" where
  "parseCookieValue raw allowDoubleQuote =
     (let raw = (if allowDoubleQuote \<and> 1 < length raw \<and> hd raw = CHR 0x22 \<and> last raw = CHR 0x22
                 then butlast (tl raw) else raw)
      in if list_all validCookieValueByte raw then Some raw else None)"

text \<open>The scan of \<open>isCookieDomainName\<close>: previous byte, letter seen, length of the current label.\<close>

fun domain_scan :: "char \<Rightarrow> bool \<Rightarrow> nat \<Rightarrow> string \<Rightarrow> bool" where
  "domain_scan prev ok partlen [] =
     (if prev = CHR ''-'' \<or> 63 < partlen then False else ok)"
| "domain_scan prev ok partlen (c # cs) =
     (if is_lower c \<or> is_upper c then domain_scan c True (partlen + 1) cs
      else if is_digit c then domain_scan c ok (partlen + 1) cs
      else if c = CHR ''-'' then
        (if prev = CHR ''.'' then False else domain_scan c ok (partlen + 1) cs)
      else if c = CHR ''.'' then
        (if prev = CHR ''.'' \<or> prev = CHR ''-'' then False
         else if 63 < partlen \<or> partlen = 0 then False
         else domain_scan c ok 0 cs)
      else False)"

definition isCookieDomainName :: "string \<Rightarrow> bool" where
  "isCookieDomainName s =
     (if s = [] then False
      else if 255 < length s then False
      else let s = (if hd s = CHR ''.'' then tl s else s)
           in domain_scan (CHR ''.'') False 0 s)"

text \<open>
  \<open>net.ParseIP\<close> on a string without a colon: four decimal fields up to 255, without
  leading zeros.
\<close>

definition ipv4_field :: "string \<Rightarrow> bool" where
  "ipv4_field p \<longleftrightarrow> p \<noteq> [] \<and> length p \<le> 3 \<and> (hd p = CHR ''0'' \<longrightarrow> length p = 1)
     \<and> (case digits_val 0 p of None \<Rightarrow> False | Some n \<Rightarrow> n \<le> 255)"

definition parse_ipv4 :: "string \<Rightarrow> bool" where
  "parse_ipv4 v \<longleftrightarrow> length (split_byte (CHR ''.'') v) = 4 \<and> list_all ipv4_field (split_byte (CHR ''.'') v)"

definition validCookieDomain :: "string \<Rightarrow> bool" where
  "validCookieDomain v =
     (if isCookieDomainName v then True
      else if CHR '':'' \<notin> set v \<and> parse_ipv4 v then True
      else False)"

section \<open>Cookies\<close>

record 't time_ops =
  tm_year :: "'t \<Rightarrow> int"
  tm_zero :: 't
  tm_format :: "'t \<Rightarrow> string"
  tm_parse :: "string \<Rightarrow> string \<Rightarrow> 't option"

definition TimeFormat :: string where
  "TimeFormat = ''Mon, 02 Jan 2006 15:04:05 GMT''"

definition RFC1123 :: string where
  "RFC1123 = ''Mon, 02 Jan 2006 15:04:05 MST''"

definition cookieDashTime :: string where
  "cookieDashTime = ''Mon, 02-Jan-2006 15:04:05 MST''"

definition SameSiteDefaultMode :: int where [simp]: "SameSiteDefaultMode = 1"
definition SameSiteLaxMode :: int where [simp]: "SameSiteLaxMode = 2"
definition SameSiteStrictMode :: int where [simp]: "SameSiteStrictMode = 3"
definition SameSiteNoneMode :: int where [simp]: "SameSiteNoneMode = 4"

record 't Cookie =
  c_Name :: string
  c_Value :: string
  c_Path :: string
  c_Domain :: string
  c_Expires :: 't
  c_RawExpires :: string
  c_MaxAge :: int
  c_Secure :: bool
  c_HttpOnly :: bool
  c_SameSite :: int
  c_Raw :: string
  c_Unparsed :: "string list"

definition new_cookie :: "'t time_ops \<Rightarrow> string \<Rightarrow> string \<Rightarrow> string \<Rightarrow> 't Cookie" where
  "new_cookie tm name value raw =
     \<lparr>c_Name = name, c_Value = value, c_Path = [], c_Domain = [], c_Expires = tm_zero tm,
      c_RawExpires = [], c_MaxAge = 0, c_Secure = False, c_HttpOnly = False, c_SameSite = 0,
      c_Raw = raw, c_Unparsed = []\<rparr>"

definition validCookieExpires :: "'t time_ops \<Rightarrow> 't \<Rightarrow> bool" where
  "validCookieExpires tm t \<longleftrightarrow> 1601 \<le> tm_year tm t"

text \<open>\<open>Cookie.String\<close>; \<open>None\<close> is the nil pointer.\<close>

definition Cookie_String :: "'t time_ops \<Rightarrow> 't Cookie option \<Rightarrow> string" where
  "Cookie_String tm cp =
     (case cp of
        None \<Rightarrow> []
      | Some c \<Rightarrow>
          if \<not> isCookieNameValid (c_Name c) then []
          else
            c_Name c @ ''='' @ sanitizeCookieValue (c_Value c)
            @ (if 0 < length (c_Path c) then ''; Path='' @ sanitizeCookiePath (c_Path c) else [])
            @ (if 0 < length (c_Domain c) then
                 if validCookieDomain (c_Domain c) then
                   ''; Domain='' @ (if hd (c_Domain c) = CHR ''.'' then tl (c_Domain c) else c_Domain c)
                 else []
               else [])
            @ (if validCookieExpires tm (c_Expires c)
               then ''; Expires='' @ tm_format tm (c_Expires c) else [])
            @ (if 0 < c_MaxAge c then ''; Max-Age='' @ itoa (c_MaxAge c)
               else if c_MaxAge c < 0 then ''; Max-Age=0''
               else [])
            @ (if c_HttpOnly c then ''; HttpOnly'' else [])
            @ (if c_Secure c then ''; Secure'' else [])
            @ (if c_SameSite c = SameSiteDefaultMode then []
               else if c_SameSite c = SameSiteNoneMode then ''; SameSite=None''
               else if c_SameSite c = SameSiteLaxMode then ''; SameSite=Lax''
               else if c_SameSite c = SameSiteStrictMode then ''; SameSite=Strict''
               else []))"

definition SetCookie :: "'t time_ops \<Rightarrow> Header \<Rightarrow> 't Cookie option \<Rightarrow> Header" where
  "SetCookie tm h cookie =
     (let v = Cookie_String tm cookie in
      if v \<noteq> [] then Header_Add h ''Set-Cookie'' v else h)"

definition Cookie_Valid :: "'t time_ops \<Rightarrow> 't Cookie option \<Rightarrow> goerr option" where
  "Cookie_Valid tm cp =
     (case cp of
        None \<Rightarrow> Some (Text ''fsthttp: nil Cookie'')
      | Some c \<Rightarrow>
          if \<not> isCookieNameValid (c_Name c) then Some (Text ''fsthttp: invalid Cookie.Name'')
          else if \<not> validCookieExpires tm (c_Expires c) then Some (Text ''fsthttp: invalid Cookie.Expires'')
          else case find (\<lambda>b. \<not> validCookieValueByte b) (c_Value c) of
            Some b \<Rightarrow> Some (Text (''fsthttp: invalid byte '' @ quoted [b] @ '' in Cookie.Value''))
          | None \<Rightarrow>
              (case find (\<lambda>b. \<not> validCookiePathByte b) (c_Path c) of
                 Some b \<Rightarrow> Some (Text (''fsthttp: invalid byte '' @ quoted [b] @ '' in Cookie.Path''))
               | None \<Rightarrow>
                   if 0 < length (c_Domain c) \<and> \<not> validCookieDomain (c_Domain c)
                   then Some (Text ''fsthttp: invalid Cookie.Domain'')
                   else None))"

section \<open>Parsing Set-Cookie\<close>

text \<open>
  The \<open>switch\<close> of \<open>readSetCookies\<close> on a lower-case attribute name, and one turn of its loop:
  a part of the line applied to the cookie read so far.
\<close>

definition cookie_switch :: "'t time_ops \<Rightarrow> string \<Rightarrow> string \<Rightarrow> string \<Rightarrow> 't Cookie \<Rightarrow> 't Cookie" where
  "cookie_switch tm lowerAttr val part c =
     (let unparsed = c\<lparr>c_Unparsed := c_Unparsed c @ [part]\<rparr> in
      if lowerAttr = ''samesite'' then
        (case toLower val of (lowerVal, ascii) \<Rightarrow>
           if \<not> ascii then c\<lparr>c_SameSite := SameSiteDefaultMode\<rparr>
           else if lowerVal = ''lax'' then c\<lparr>c_SameSite := SameSiteLaxMode\<rparr>
           else if lowerVal = ''strict'' then c\<lparr>c_SameSite := SameSiteStrictMode\<rparr>
           else if lowerVal = ''none'' then c\<lparr>c_SameSite := SameSiteNoneMode\<rparr>
           else c\<lparr>c_SameSite := SameSiteDefaultMode\<rparr>)
      else if lowerAttr = ''secure'' then c\<lparr>c_Secure := True\<rparr>
      else if lowerAttr = ''httponly'' then c\<lparr>c_HttpOnly := True\<rparr>
      else if lowerAttr = ''domain'' then c\<lparr>c_Domain := val\<rparr>
      else if lowerAttr = ''max-age'' then
        (case atoi val of
           None \<Rightarrow> unparsed
         | Some secs \<Rightarrow>
             if secs \<noteq> 0 \<and> hd val = CHR ''0'' then unparsed
             else c\<lparr>c_MaxAge := (if secs \<le> 0 then -1 else secs)\<rparr>)
      else if lowerAttr = ''expires'' then
        (case tm_parse tm RFC1123 val of
           Some t \<Rightarrow> c\<lparr>c_RawExpires := val, c_Expires := t\<rparr>
         | None \<Rightarrow>
             (case tm_parse tm cookieDashTime val of
                Some t \<Rightarrow> c\<lparr>c_RawExpires := val, c_Expires := t\<rparr>
              | None \<Rightarrow> c\<lparr>c_RawExpires := val, c_Expires := tm_zero tm,
                          c_Unparsed := c_Unparsed c @ [part]\<rparr>))
      else if lowerAttr = ''path'' then c\<lparr>c_Path := val\<rparr>
      else unparsed)"

definition cookie_attr :: "'t time_ops \<Rightarrow> string \<Rightarrow> 't Cookie \<Rightarrow> 't Cookie" where
  "cookie_attr tm part c =
     (let part = trim_string part in
      if length part = 0 then c
      else
        let j = index_byte (CHR ''='') part;
            attr = (if 0 \<le> j then take (nat j) part else part);
            val = (if 0 \<le> j then drop (nat j + 1) part else [])
        in case toLower attr of (lowerAttr, isASCII) \<Rightarrow>
          if \<not> isASCII then c
          else case parseCookieValue val False of
            None \<Rightarrow> c\<lparr>c_Unparsed := c_Unparsed c @ [part]\<rparr>
          | Some val \<Rightarrow> cookie_switch tm lowerAttr val part c)"

definition read_set_cookie :: "'t time_ops \<Rightarrow> string \<Rightarrow> 't Cookie option" where
  "read_set_cookie tm line =
     (let parts = split_byte (CHR '';'') (trim_string line) in
      if length parts = 1 \<and> hd parts = [] then None
      else
        let p0 = trim_string (hd parts); j = index_byte (CHR ''='') p0 in
        if j < 0 then None
        else
          let name = take (nat j) p0; value = drop (nat j + 1) p0 in
          if \<not> isCookieNameValid name then None
          else case parseCookieValue value True of
            None \<Rightarrow> None
          | Some value \<Rightarrow> Some (fold (cookie_attr tm) (tl parts) (new_cookie tm name value line)))"

definition readSetCookies :: "'t time_ops \<Rightarrow> Header \<Rightarrow> 't Cookie list" where
  "readSetCookies tm h = List.map_filter (read_set_cookie tm) (hindex h ''Set-Cookie'')"

section \<open>Parsing Cookie\<close>

definition cookie_part :: "'t time_ops \<Rightarrow> string \<Rightarrow> string \<Rightarrow> 't Cookie option" where
  "cookie_part tm filt part =
     (let part = trim_string part in
      if length part = 0 then None
      else
        let j = index_byte (CHR ''='') part;
            name = (if 0 \<le> j then take (nat j) part else part);
            val = (if 0 \<le> j then drop (nat j + 1) part else [])
        in if \<not> isCookieNameValid name then None
           else if filt \<noteq> [] \<and> filt \<noteq> name then None
           else map_option (\<lambda>val. new_cookie tm name val []) (parseCookieValue val True))"

function cookie_line :: "'t time_ops \<Rightarrow> string \<Rightarrow> string \<Rightarrow> 't Cookie list" where
  "cookie_line tm filt line =
     (if length line = 0 then []
      else
        let splitIndex = index_byte (CHR '';'') line;
            part = (if 0 < splitIndex then take (nat splitIndex) line else line);
            rest = (if 0 < splitIndex then drop (nat splitIndex + 1) line else [])
        in (case cookie_part tm filt part of None \<Rightarrow> [] | Some c \<Rightarrow> [c])
           @ cookie_line tm filt rest)"
  by pat_completeness auto
termination
  by (relation "measure (\<lambda>(tm, filt, line). length line)") auto

declare cookie_line.simps [simp del]

definition readCookies :: "'t time_ops \<Rightarrow> Header \<Rightarrow> string \<Rightarrow> 't Cookie list" where
  "readCookies tm h filt =
     (let lines = hindex h ''Cookie'' in
      concat (map (\<lambda>line. cookie_line tm filt (trim_string line)) lines))"

definition ErrNoCookie :: goerr where
  "ErrNoCookie = Sentinel ''fsthttp'' ''fsthttp: named cookie not present''"

definition Request_Cookies :: "'t time_ops \<Rightarrow> Header \<Rightarrow> 't Cookie list" where
  "Request_Cookies tm header = readCookies tm header []"

definition Request_Cookie :: "'t time_ops \<Rightarrow> Header \<Rightarrow> string \<Rightarrow> goerr + 't Cookie" where
  "Request_Cookie tm header name =
     (case readCookies tm header name of c # _ \<Rightarrow> Inr c | [] \<Rightarrow> Inl ErrNoCookie)"

definition Request_AddCookie :: "Header \<Rightarrow> 't Cookie \<Rightarrow> Header" where
  "Request_AddCookie header c =
     (let s = sanitizeCookieName (c_Name c) @ ''='' @ sanitizeCookieValue (c_Value c);
          old = Header_Get header ''Cookie''
      in if old \<noteq> [] then Header_Set header ''Cookie'' (old @ ''; '' @ s)
         else Header_Set header ''Cookie'' s)"


section \<open>What a cookie line is made of\<close>

lemmas byte_simps = validCookieValueByte_def validCookiePathByte_def ascii_space_def byte_def

lemma validCookieValueByte_sep: "validCookieValueByte c \<Longrightarrow> c \<noteq> CHR '';''"
  by (simp add: validCookieValueByte_def)

lemma isTokenTable_value: "c \<in> set isTokenTable \<Longrightarrow> validCookieValueByte c \<and> \<not> ascii_space c \<and> c \<noteq> CHR ''=''"
proof -
  have "list_all (\<lambda>c. validCookieValueByte c \<and> \<not> ascii_space c \<and> c \<noteq> CHR ''='') isTokenTable"
    by code_simp
  then show "c \<in> set isTokenTable \<Longrightarrow> ?thesis" by (simp add: list_all_iff)
qed

lemma isCookieNameValid_iff:
  "isCookieNameValid n \<longleftrightarrow> n \<noteq> [] \<and> (\<forall>c \<in> set n. c \<in> set isTokenTable)"
  by (auto simp: isCookieNameValid_def isNotToken_def isTokenRune_def list_ex_iff)

lemma name_valid_chars:
  "isCookieNameValid n \<Longrightarrow> n \<noteq> [] \<and> CHR ''='' \<notin> set n \<and> CHR '';'' \<notin> set n
     \<and> \<not> ascii_space (hd n) \<and> (\<forall>c \<in> set n. validCookieValueByte c)"
  using isTokenTable_value validCookieValueByte_sep hd_in_set
  by (metis isCookieNameValid_iff)

text \<open>The parts that \<open>Cookie.String\<close> writes after the name and value, without their semicolons.\<close>

definition cookie_parts :: "'t time_ops \<Rightarrow> 't Cookie \<Rightarrow> string list" where
  "cookie_parts tm c =
     (if c_Path c \<noteq> [] then ['' Path='' @ sanitizeCookiePath (c_Path c)] else [])
     @ (if c_Domain c \<noteq> [] \<and> validCookieDomain (c_Domain c)
        then ['' Domain='' @ (if hd (c_Domain c) = CHR ''.'' then tl (c_Domain c) else c_Domain c)] else [])
     @ (if validCookieExpires tm (c_Expires c) then ['' Expires='' @ tm_format tm (c_Expires c)] else [])
     @ (if 0 < c_MaxAge c then ['' Max-Age='' @ itoa (c_MaxAge c)]
        else if c_MaxAge c < 0 then ['' Max-Age=0''] else [])
     @ (if c_HttpOnly c then ['' HttpOnly''] else [])
     @ (if c_Secure c then ['' Secure''] else [])
     @ (if c_SameSite c = 4 then ['' SameSite=None''] else if c_SameSite c = 2 then ['' SameSite=Lax'']
        else if c_SameSite c = 3 then ['' SameSite=Strict''] else [])"

lemma Cookie_String_parts:
  "isCookieNameValid (c_Name c) \<Longrightarrow>
   Cookie_String tm (Some c) = (c_Name c @ ''='' @ sanitizeCookieValue (c_Value c))
     @ concat (map (\<lambda>p. CHR '';'' # p) (cookie_parts tm c))"
  by (simp add: Cookie_String_def cookie_parts_def)

section \<open>Reading one attribute back\<close>


lemma cookie_attr_value:
  assumes key: "key \<noteq> []" "CHR ''='' \<notin> set key" "list_all (\<lambda>c. 32 < byte c \<and> byte c < 127) key"
    and val: "list_all validCookieValueByte val" "val = [] \<or> \<not> ascii_space (last val)"
  shows "cookie_attr tm (CHR '' '' # key @ ''='' @ val) c
    = cookie_switch tm (ascii_lower key) val (key @ ''='' @ val) c"
proof -
  have "byte (hd key) > 32" using key by (cases key) auto
  then have "\<not> ascii_space (hd key)" by (auto simp: byte_simps)
  with key val have "trim_string (key @ ''='' @ val) = key @ ''='' @ val"
    by (intro trim_string_id) (auto simp: ascii_space_def)
  then have t: "trim_string (CHR '' '' # key @ ''='' @ val) = key @ ''='' @ val"
    by (simp add: trim_string_space ascii_space_def)
  have "isPrint key" using key(3) by (auto simp: isPrint_def list_all_iff)
  with t val(1) key show ?thesis
    by (simp add: cookie_attr_def Let_def index_byte_append toLower_def parseCookieValue_def)
qed

lemma cookie_attr_flag:
  assumes key: "key \<noteq> []" "CHR ''='' \<notin> set key" "list_all (\<lambda>c. 32 < byte c \<and> byte c < 127) key"
  shows "cookie_attr tm (CHR '' '' # key) c = cookie_switch tm (ascii_lower key) [] key c"
proof -
  have "\<And>x. x \<in> set key \<Longrightarrow> \<not> ascii_space x" using key(3) by (auto simp: byte_simps list_all_iff)
  then have "trim_string key = key" using key(1) by (intro trim_string_id) auto
  then have t: "trim_string (CHR '' '' # key) = key"
    by (simp add: trim_string_space ascii_space_def)
  have "isPrint key" using key(3) by (auto simp: isPrint_def list_all_iff)
  with t key show ?thesis
    by (simp add: cookie_attr_def Let_def toLower_def parseCookieValue_def)
qed

lemma lower_names:
  "ascii_lower ''Path'' = ''path''" "ascii_lower ''Domain'' = ''domain''"
  "ascii_lower ''Expires'' = ''expires''" "ascii_lower ''Max-Age'' = ''max-age''"
  "ascii_lower ''HttpOnly'' = ''httponly''" "ascii_lower ''Secure'' = ''secure''"
  "ascii_lower ''SameSite'' = ''samesite''" "toLower ''None'' = (''none'', True)"
  "toLower ''Lax'' = (''lax'', True)" "toLower ''Strict'' = (''strict'', True)"
  by code_simp+

lemma attr_path:
  "list_all validCookieValueByte v \<Longrightarrow> v = [] \<or> \<not> ascii_space (last v) \<Longrightarrow>
   cookie_attr tm ('' Path='' @ v) c = c\<lparr>c_Path := v\<rparr>"
  using cookie_attr_value [of "''Path''" v tm c]
  by (simp add: cookie_switch_def lower_names byte_def)

lemma attr_domain:
  "list_all validCookieValueByte v \<Longrightarrow> v = [] \<or> \<not> ascii_space (last v) \<Longrightarrow>
   cookie_attr tm ('' Domain='' @ v) c = c\<lparr>c_Domain := v\<rparr>"
  using cookie_attr_value [of "''Domain''" v tm c]
  by (simp add: cookie_switch_def lower_names byte_def)

lemma attr_expires:
  "list_all validCookieValueByte v \<Longrightarrow> v = [] \<or> \<not> ascii_space (last v) \<Longrightarrow> tm_parse tm RFC1123 v = Some t \<Longrightarrow>
   cookie_attr tm ('' Expires='' @ v) c = c\<lparr>c_RawExpires := v, c_Expires := t\<rparr>"
  using cookie_attr_value [of "''Expires''" v tm c]
  by (simp add: cookie_switch_def lower_names byte_def)

lemma digit_value_byte: "is_digit c \<Longrightarrow> validCookieValueByte c \<and> \<not> ascii_space c"
  by (auto simp: is_digit_def byte_simps)

lemma attr_max_age:
  assumes "0 < n" "n < 2 ^ 63"
  shows "cookie_attr tm ('' Max-Age='' @ itoa n) c = c\<lparr>c_MaxAge := n\<rparr>"
proof -
  have i: "itoa n = nat_str (nat n)" using assms by (simp add: itoa_def)
  then have "list_all validCookieValueByte (itoa n)" "\<not> ascii_space (last (itoa n))"
    using nat_str_digits digit_value_byte by (auto simp: list_all_iff) (metis last_in_set nat_str_not_Nil)
  moreover have "atoi (itoa n) = Some n" using assms by (intro atoi_itoa) auto
  moreover have "hd (itoa n) \<noteq> CHR ''0''" using assms nat_str_first_nonzero [of "nat n"] i by simp
  ultimately show ?thesis
    using cookie_attr_value [of "''Max-Age''" "itoa n" tm c] assms
    by (simp add: cookie_switch_def lower_names byte_def)
qed

lemma attr_max_age_0: "cookie_attr tm '' Max-Age=0'' c = c\<lparr>c_MaxAge := -1\<rparr>"
proof -
  have "atoi ''0'' = Some 0" by code_simp
  then show ?thesis
    using cookie_attr_value [of "''Max-Age''" "''0''" tm c]
    by (simp add: cookie_switch_def lower_names byte_simps)
qed

lemma attr_flags:
  "cookie_attr tm '' HttpOnly'' c = c\<lparr>c_HttpOnly := True\<rparr>"
  "cookie_attr tm '' Secure'' c = c\<lparr>c_Secure := True\<rparr>"
  using cookie_attr_flag [of "''HttpOnly''" tm c] cookie_attr_flag [of "''Secure''" tm c]
  by (simp_all add: cookie_switch_def lower_names byte_def)

lemma attr_samesite:
  "cookie_attr tm '' SameSite=None'' c = c\<lparr>c_SameSite := 4\<rparr>"
  "cookie_attr tm '' SameSite=Lax'' c = c\<lparr>c_SameSite := 2\<rparr>"
  "cookie_attr tm '' SameSite=Strict'' c = c\<lparr>c_SameSite := 3\<rparr>"
  using cookie_attr_value [of "''SameSite''" "''None''" tm c]
    cookie_attr_value [of "''SameSite''" "''Lax''" tm c]
    cookie_attr_value [of "''SameSite''" "''Strict''" tm c]
  by (simp_all add: cookie_switch_def lower_names byte_simps)

section \<open>Domains\<close>

lemma digits_val_digits: "digits_val acc s = Some n \<Longrightarrow> c \<in> set s \<Longrightarrow> is_digit c"
  by (induction s arbitrary: acc) (auto split: if_splits)

lemma set_split_byte: "set s \<subseteq> insert c (\<Union> (set ` set (split_byte c s)))"
proof (induction s)
  case (Cons x xs)
  then show ?case by (cases "split_byte c xs") (auto split: if_splits)
qed simp

definition domain_byte :: "char \<Rightarrow> bool" where
  "domain_byte c \<longleftrightarrow> is_lower c \<or> is_upper c \<or> is_digit c \<or> c = CHR ''-'' \<or> c = CHR ''.''"

lemma domain_scan_bytes: "domain_scan p ok n s \<Longrightarrow> c \<in> set s \<Longrightarrow> domain_byte c"
  by (induction p ok n s rule: domain_scan.induct) (auto simp: domain_byte_def split: if_splits)

lemma isCookieDomainName_bytes:
  assumes "isCookieDomainName s" "c \<in> set s" shows "domain_byte c"
proof (cases "hd s = CHR ''.''")
  case True
  with assms have "c = CHR ''.'' \<or> c \<in> set (tl s)" by (cases s) auto
  moreover have "domain_scan (CHR ''.'') False 0 (tl s)"
    using assms True by (auto simp: isCookieDomainName_def split: if_splits)
  ultimately show ?thesis
    by (auto intro: domain_scan_bytes) (simp add: domain_byte_def)
next
  case False
  with assms have "domain_scan (CHR ''.'') False 0 s"
    by (auto simp: isCookieDomainName_def split: if_splits)
  with assms show ?thesis by (auto intro: domain_scan_bytes)
qed

lemma parse_ipv4_bytes:
  assumes "parse_ipv4 s" "c \<in> set s" shows "domain_byte c"
proof (cases "c = CHR ''.''")
  case False
  with assms(2) set_split_byte [of s "CHR ''.''"] obtain p
    where p: "p \<in> set (split_byte (CHR ''.'') s)" "c \<in> set p" by auto
  with assms(1) have "ipv4_field p" by (auto simp: parse_ipv4_def list_all_iff)
  then obtain n where "digits_val 0 p = Some n" by (auto simp: ipv4_field_def split: option.splits)
  with p show ?thesis by (auto simp: domain_byte_def intro: digits_val_digits)
qed (simp add: domain_byte_def)

lemma validCookieDomain_bytes: "validCookieDomain d \<Longrightarrow> c \<in> set d \<Longrightarrow> domain_byte c"
  using isCookieDomainName_bytes parse_ipv4_bytes
  by (auto simp: validCookieDomain_def split: if_splits)

lemma domain_byte_value: "domain_byte c \<Longrightarrow> validCookieValueByte c \<and> \<not> ascii_space c"
  by (auto simp: domain_byte_def is_lower_def is_upper_def is_digit_def byte_simps)

section \<open>Reading back what \<open>String\<close> wrote\<close>

definition sent_domain :: "'t Cookie \<Rightarrow> string" where
  "sent_domain c = (if c_Domain c \<noteq> [] \<and> hd (c_Domain c) = CHR ''.'' then tl (c_Domain c) else c_Domain c)"

text \<open>What a reader of the serialised cookie must see: the cookie with its defaults normalised.\<close>

definition cookie_normal :: "'t time_ops \<Rightarrow> 't Cookie \<Rightarrow> string \<Rightarrow> 't Cookie" where
  "cookie_normal tm c line =
     \<lparr>c_Name = c_Name c, c_Value = c_Value c, c_Path = c_Path c,
      c_Domain = (if c_Domain c \<noteq> [] \<and> validCookieDomain (c_Domain c) then sent_domain c else []),
      c_Expires = (if validCookieExpires tm (c_Expires c) then c_Expires c else tm_zero tm),
      c_RawExpires = (if validCookieExpires tm (c_Expires c) then tm_format tm (c_Expires c) else []),
      c_MaxAge = (if 0 < c_MaxAge c then c_MaxAge c else if c_MaxAge c < 0 then -1 else 0),
      c_Secure = c_Secure c, c_HttpOnly = c_HttpOnly c,
      c_SameSite = (if c_SameSite c \<in> {2, 3, 4} then c_SameSite c else 0),
      c_Raw = line, c_Unparsed = []\<rparr>"

text \<open>A cookie that can be sent without loss.\<close>

definition cookie_sendable :: "'t time_ops \<Rightarrow> 't Cookie \<Rightarrow> bool" where
  "cookie_sendable tm c \<longleftrightarrow>
     isCookieNameValid (c_Name c) \<and> list_all validCookieValueByte (c_Value c)
     \<and> list_all validCookieValueByte (c_Path c) \<and> (c_Path c = [] \<or> last (c_Path c) \<noteq> CHR '' '')
     \<and> c_MaxAge c < 2 ^ 63"

text \<open>
  What \<open>time\<close> promises of the header layout: formatting a time of year 1601 or later gives
  printable bytes without separators, and parsing them gives the time back.
\<close>

definition http_time_host :: "'t time_ops \<Rightarrow> 't \<Rightarrow> bool" where
  "http_time_host tm t \<longleftrightarrow>
     (1601 \<le> tm_year tm t \<longrightarrow>
        tm_format tm t \<noteq> [] \<and> list_all validCookieValueByte (tm_format tm t)
        \<and> last (tm_format tm t) \<noteq> CHR '' '' \<and> tm_parse tm RFC1123 (tm_format tm t) = Some t)"

lemma value_byte_space: "validCookieValueByte c \<Longrightarrow> ascii_space c \<longleftrightarrow> c = CHR '' ''"
  by (auto simp: byte_simps)

lemma list_all_last: "list_all P xs \<Longrightarrow> xs \<noteq> [] \<Longrightarrow> P (last xs)"
  by (simp add: list_all_iff)

lemma sent_domain_ok:
  assumes "validCookieDomain (c_Domain c)"
  shows "list_all validCookieValueByte (sent_domain c)
    \<and> (sent_domain c = [] \<or> \<not> ascii_space (last (sent_domain c)))"
proof -
  have "set (sent_domain c) \<subseteq> set (c_Domain c)"
    by (cases "c_Domain c") (auto simp: sent_domain_def)
  then have "\<And>x. x \<in> set (sent_domain c) \<Longrightarrow> validCookieValueByte x \<and> \<not> ascii_space x"
    using assms validCookieDomain_bytes domain_byte_value by blast
  then show ?thesis using last_in_set by (auto simp: list_all_iff)
qed

lemma fold_cookie_parts:
  assumes "cookie_sendable tm c" "http_time_host tm (c_Expires c)"
  shows "fold (cookie_attr tm) (cookie_parts tm c) (new_cookie tm (c_Name c) (c_Value c) line)
    = cookie_normal tm c line"
proof -
  have path: "fold (cookie_attr tm)
      (if c_Path c \<noteq> [] then ['' Path='' @ sanitizeCookiePath (c_Path c)] else []) d
      = d\<lparr>c_Path := if c_Path c \<noteq> [] then c_Path c else c_Path d\<rparr>" for d
  proof -
    have "list_all validCookiePathByte (c_Path c)"
      using assms(1) by (auto simp: cookie_sendable_def byte_simps list_all_iff)
    then have "sanitizeCookiePath (c_Path c) = c_Path c"
      by (simp add: sanitizeCookiePath_def sanitizeOrWarn_def)
    moreover have "c_Path c = [] \<or> \<not> ascii_space (last (c_Path c))"
      using assms(1) by (auto simp: cookie_sendable_def value_byte_space list_all_last)
    ultimately show ?thesis using assms(1) attr_path [of "c_Path c" tm d]
      by (simp add: cookie_sendable_def)
  qed
  have domain: "fold (cookie_attr tm)
      (if c_Domain c \<noteq> [] \<and> validCookieDomain (c_Domain c)
       then ['' Domain='' @ (if hd (c_Domain c) = CHR ''.'' then tl (c_Domain c) else c_Domain c)] else []) d
      = d\<lparr>c_Domain := if c_Domain c \<noteq> [] \<and> validCookieDomain (c_Domain c) then sent_domain c else c_Domain d\<rparr>" for d
  proof (cases "c_Domain c \<noteq> [] \<and> validCookieDomain (c_Domain c)")
    case True
    then have "(if hd (c_Domain c) = CHR ''.'' then tl (c_Domain c) else c_Domain c) = sent_domain c"
      by (simp add: sent_domain_def)
    with True attr_domain [of "sent_domain c" tm d] sent_domain_ok [of c] show ?thesis by simp
  qed auto
  have expires: "fold (cookie_attr tm)
      (if validCookieExpires tm (c_Expires c) then ['' Expires='' @ tm_format tm (c_Expires c)] else []) d
      = d\<lparr>c_RawExpires := if validCookieExpires tm (c_Expires c) then tm_format tm (c_Expires c) else c_RawExpires d,
          c_Expires := if validCookieExpires tm (c_Expires c) then c_Expires c else c_Expires d\<rparr>" for d
    using attr_expires [of "tm_format tm (c_Expires c)" tm "c_Expires c" d] assms(2)
    by (auto simp: http_time_host_def validCookieExpires_def value_byte_space list_all_last)
  have maxage: "fold (cookie_attr tm)
      (if 0 < c_MaxAge c then ['' Max-Age='' @ itoa (c_MaxAge c)]
        else if c_MaxAge c < 0 then ['' Max-Age=0''] else []) d
      = d\<lparr>c_MaxAge := if 0 < c_MaxAge c then c_MaxAge c else if c_MaxAge c < 0 then -1 else c_MaxAge d\<rparr>" for d
    using attr_max_age [of "c_MaxAge c" tm d] attr_max_age_0 [of tm d] assms(1)
    by (simp add: cookie_sendable_def)
  have flags: "fold (cookie_attr tm) (if c_HttpOnly c then ['' HttpOnly''] else []) d
      = d\<lparr>c_HttpOnly := if c_HttpOnly c then True else c_HttpOnly d\<rparr>"
    "fold (cookie_attr tm) (if c_Secure c then ['' Secure''] else []) d
      = d\<lparr>c_Secure := if c_Secure c then True else c_Secure d\<rparr>" for d
    by (simp_all add: attr_flags)
  have samesite: "fold (cookie_attr tm) (if c_SameSite c = 4 then ['' SameSite=None'']
        else if c_SameSite c = 2 then ['' SameSite=Lax'']
        else if c_SameSite c = 3 then ['' SameSite=Strict''] else []) d
      = d\<lparr>c_SameSite := if c_SameSite c \<in> {2, 3, 4} then c_SameSite c else c_SameSite d\<rparr>" for d
    by (simp add: attr_samesite)
  show ?thesis
    unfolding cookie_parts_def fold_append o_def path domain expires maxage flags samesite
    by (simp add: new_cookie_def cookie_normal_def)
qed


lemma sanitizeCookieValue_valid:
  "list_all validCookieValueByte v \<Longrightarrow>
   sanitizeCookieValue v = (if CHR '' '' \<in> set v \<or> CHR '','' \<in> set v then CHR 0x22 # v @ [CHR 0x22] else v)"
  by (auto simp: sanitizeCookieValue_def sanitizeOrWarn_def Let_def)

lemma parse_sanitized:
  "list_all validCookieValueByte v \<Longrightarrow> parseCookieValue (sanitizeCookieValue v) True = Some v"
proof -
  assume v: "list_all validCookieValueByte v"
  then have "v \<noteq> [] \<Longrightarrow> hd v \<noteq> CHR 0x22" by (cases v) (auto simp: validCookieValueByte_def)
  with v show ?thesis
    by (cases "v = []") (auto simp: sanitizeCookieValue_valid parseCookieValue_def)
qed

lemma sanitized_ends:
  assumes "list_all validCookieValueByte v"
  shows "sanitizeCookieValue v = [] \<or> \<not> ascii_space (last (sanitizeCookieValue v))"
    and "CHR '';'' \<notin> set (sanitizeCookieValue v)"
proof -
  show "sanitizeCookieValue v = [] \<or> \<not> ascii_space (last (sanitizeCookieValue v))"
  proof (cases "CHR '' '' \<in> set v \<or> CHR '','' \<in> set v")
    case False
    then have "v = [] \<or> last v \<noteq> CHR '' ''" using last_in_set by fastforce
    with assms False show ?thesis
      by (auto simp: sanitizeCookieValue_valid value_byte_space list_all_last)
  qed (use assms in \<open>auto simp: sanitizeCookieValue_valid ascii_space_def\<close>)
  show "CHR '';'' \<notin> set (sanitizeCookieValue v)"
    using assms validCookieValueByte_sep by (auto simp: sanitizeCookieValue_valid list_all_iff)
qed

text \<open>The name-value pair shared by both headers survives trimming and splitting at \<open>=\<close>.\<close>

lemma trim_pair:
  assumes "isCookieNameValid n" "list_all validCookieValueByte v"
  shows "trim_string (n @ ''='' @ sanitizeCookieValue v) = n @ ''='' @ sanitizeCookieValue v"
  using name_valid_chars [OF assms(1)] sanitized_ends [OF assms(2)]
  by (intro trim_string_id) (auto simp: ascii_space_def)

lemma cookie_parts_ok:
  assumes "cookie_sendable tm c" "http_time_host tm (c_Expires c)" "p \<in> set (cookie_parts tm c)"
  shows "CHR '';'' \<notin> set p \<and> p \<noteq> [] \<and> \<not> ascii_space (last p)"
proof -
  have path: "sanitizeCookiePath (c_Path c) = c_Path c"
    using assms(1) by (auto simp: cookie_sendable_def sanitizeCookiePath_def sanitizeOrWarn_def
        byte_simps list_all_iff)
  have item: "CHR '';'' \<notin> set (k @ ''='' @ v) \<and> k @ ''='' @ v \<noteq> [] \<and> \<not> ascii_space (last (k @ ''='' @ v))"
    if "CHR '';'' \<notin> set k" "list_all validCookieValueByte v" "v = [] \<or> \<not> ascii_space (last v)" for k v
    using that validCookieValueByte_sep by (auto simp: list_all_iff ascii_space_def)
  have age: "list_all validCookieValueByte (itoa (c_MaxAge c)) \<and> \<not> ascii_space (last (itoa (c_MaxAge c)))"
    if "0 < c_MaxAge c"
  proof -
    have "itoa (c_MaxAge c) = nat_str (nat (c_MaxAge c))" using that by (simp add: itoa_def)
    then show ?thesis using nat_str_digits digit_value_byte last_in_set nat_str_not_Nil
      by (metis list_all_iff)
  qed
  have "p \<in> set (if c_Path c \<noteq> [] then ['' Path'' @ ''='' @ c_Path c] else [])
    \<or> p \<in> set (if c_Domain c \<noteq> [] \<and> validCookieDomain (c_Domain c) then ['' Domain'' @ ''='' @ sent_domain c] else [])
    \<or> p \<in> set (if validCookieExpires tm (c_Expires c) then ['' Expires'' @ ''='' @ tm_format tm (c_Expires c)] else [])
    \<or> p \<in> set (if 0 < c_MaxAge c then ['' Max-Age'' @ ''='' @ itoa (c_MaxAge c)] else [])
    \<or> p \<in> {'' Max-Age=0'', '' HttpOnly'', '' Secure'', '' SameSite=None'', '' SameSite=Lax'', '' SameSite=Strict''}"
    using assms(3) by (auto simp: cookie_parts_def path sent_domain_def split: if_splits)
  then show ?thesis
  proof (elim disjE)
    assume "p \<in> set (if c_Path c \<noteq> [] then ['' Path'' @ ''='' @ c_Path c] else [])"
    then show ?thesis using assms(1) item [of "'' Path''" "c_Path c"]
      by (auto simp: cookie_sendable_def value_byte_space list_all_last split: if_splits)
  next
    assume "p \<in> set (if c_Domain c \<noteq> [] \<and> validCookieDomain (c_Domain c)
        then ['' Domain'' @ ''='' @ sent_domain c] else [])"
    then show ?thesis using sent_domain_ok [of c] item [of "'' Domain''" "sent_domain c"]
      by (auto split: if_splits)
  next
    assume "p \<in> set (if validCookieExpires tm (c_Expires c)
        then ['' Expires'' @ ''='' @ tm_format tm (c_Expires c)] else [])"
    then show ?thesis using assms(2) item [of "'' Expires''" "tm_format tm (c_Expires c)"]
      by (auto simp: http_time_host_def validCookieExpires_def value_byte_space list_all_last split: if_splits)
  next
    assume "p \<in> set (if 0 < c_MaxAge c then ['' Max-Age'' @ ''='' @ itoa (c_MaxAge c)] else [])"
    then show ?thesis using age item [of "'' Max-Age''" "itoa (c_MaxAge c)"]
      by (auto split: if_splits)
  qed (auto simp: ascii_space_def)
qed

lemma trim_line:
  assumes "\<forall>p \<in> set ps. p \<noteq> [] \<and> \<not> ascii_space (last p)"
    and "nv \<noteq> []" "\<not> ascii_space (hd nv)" "\<not> ascii_space (last nv)"
  shows "trim_string (nv @ concat (map (\<lambda>p. CHR '';'' # p) ps))
    = nv @ concat (map (\<lambda>p. CHR '';'' # p) ps)"
proof -
  have "\<not> ascii_space (last (nv @ concat (map (\<lambda>p. CHR '';'' # p) ps)))"
    using assms by (induction ps rule: rev_induct) auto
  moreover have "\<not> ascii_space (hd (nv @ concat (map (\<lambda>p. CHR '';'' # p) ps)))"
    using assms by (simp add: hd_append)
  ultimately show ?thesis by (intro trim_string_id) blast
qed

lemma pair_ends:
  assumes "isCookieNameValid n" "list_all validCookieValueByte v"
  shows "\<not> ascii_space (hd (n @ ''='' @ sanitizeCookieValue v))"
    and "\<not> ascii_space (last (n @ ''='' @ sanitizeCookieValue v))"
  using name_valid_chars [OF assms(1)] sanitized_ends [OF assms(2)]
  by (auto simp: ascii_space_def)

text \<open>
  C17: a cookie whose bytes need no sanitizing, written by \<open>SetCookie\<close> and read back by
  \<open>readSetCookies\<close>, is the same cookie up to the documented normalisations (a leading dot of
  the domain dropped, an invalid domain or time omitted, a negative \<open>MaxAge\<close> read as \<open>-1\<close>,
  the default \<open>SameSite\<close> not sent); nothing is left unparsed.
\<close>

theorem cookie_roundtrip:
  assumes "cookie_sendable tm c" and "http_time_host tm (c_Expires c)"
  shows "readSetCookies tm (SetCookie tm NewHeader (Some c))
    = [cookie_normal tm c (Cookie_String tm (Some c))]"
proof -
  let ?line = "Cookie_String tm (Some c)"
  let ?nv = "c_Name c @ ''='' @ sanitizeCookieValue (c_Value c)"
  have ok: "isCookieNameValid (c_Name c)" "list_all validCookieValueByte (c_Value c)"
    using assms(1) by (auto simp: cookie_sendable_def)
  have line: "?line = ?nv @ concat (map (\<lambda>p. CHR '';'' # p) (cookie_parts tm c))"
    by (rule Cookie_String_parts [OF ok(1)])
  have trim: "trim_string ?line = ?line"
    unfolding line using cookie_parts_ok [OF assms] pair_ends [OF ok] by (intro trim_line) auto
  have "split_byte (CHR '';'') ?line = ?nv # cookie_parts tm c"
    unfolding line using cookie_parts_ok [OF assms] name_valid_chars [OF ok(1)] sanitized_ends [OF ok(2)]
    by (intro split_byte_cons_join) auto
  then have split: "split_byte (CHR '';'') (trim_string ?line) = ?nv # cookie_parts tm c"
    by (simp add: trim)
  have j: "index_byte (CHR ''='') ?nv = int (length (c_Name c))"
    using name_valid_chars [OF ok(1)] by (simp add: index_byte_append)
  have "read_set_cookie tm ?line = Some (cookie_normal tm c ?line)"
    using ok j by (simp add: read_set_cookie_def split trim_pair [simplified] Let_def parse_sanitized
        fold_cookie_parts [OF assms])
  moreover have "hindex (SetCookie tm NewHeader (Some c)) ''Set-Cookie'' = [?line]"
  proof -
    have "?line \<noteq> []" using line ok name_valid_chars by auto
    moreover have "CanonicalHeaderKey ''Set-Cookie'' = ''Set-Cookie''" by code_simp
    ultimately show ?thesis
      by (simp add: SetCookie_def Header_Add_def hindex_update) (simp add: hindex_def NewHeader_def)
  qed
  ultimately show ?thesis by (simp add: readSetCookies_def map_filter_def)
qed

text \<open>Times as numbers of years, written in decimal: an instance of the time operations.\<close>

definition year_ops :: "int time_ops" where
  "year_ops = \<lparr>tm_year = (\<lambda>t. t), tm_zero = 1, tm_format = itoa, tm_parse = (\<lambda>layout s. atoi s)\<rparr>"

theorem cookie_roundtrip_witness:
  "let c = (new_cookie year_ops ''sid'' ''a b'' [])
      \<lparr>c_Path := ''/x'', c_Domain := ''.e.co'', c_Expires := 2030, c_MaxAge := -5, c_SameSite := 3\<rparr>
   in readSetCookies year_ops (SetCookie year_ops NewHeader (Some c))
     = [cookie_normal year_ops c (Cookie_String year_ops (Some c))]"
proof -
  let ?c = "(new_cookie year_ops ''sid'' ''a b'' [])
      \<lparr>c_Path := ''/x'', c_Domain := ''.e.co'', c_Expires := 2030, c_MaxAge := -5, c_SameSite := 3\<rparr>"
  have "cookie_sendable year_ops ?c" by code_simp
  moreover have "http_time_host year_ops (c_Expires ?c)" by code_simp
  ultimately show ?thesis unfolding Let_def by (rule cookie_roundtrip)
qed

section \<open>The Cookie header of a request\<close>

definition pair_string :: "string \<times> string \<Rightarrow> string" where
  "pair_string p = fst p @ ''='' @ sanitizeCookieValue (snd p)"

definition pair_ok :: "string \<times> string \<Rightarrow> bool" where
  "pair_ok p \<longleftrightarrow> isCookieNameValid (fst p) \<and> list_all validCookieValueByte (snd p)"

lemma pair_string_ok:
  "pair_ok p \<Longrightarrow> pair_string p \<noteq> [] \<and> CHR '';'' \<notin> set (pair_string p)
     \<and> \<not> ascii_space (hd (pair_string p)) \<and> \<not> ascii_space (last (pair_string p))"
  using name_valid_chars [of "fst p"] sanitized_ends(2) [of "snd p"] pair_ends [of "fst p" "snd p"]
  by (auto simp: pair_ok_def pair_string_def)

lemma cookie_part_pair:
  assumes "pair_ok p" "sp \<in> {[], '' ''}"
  shows "cookie_part tm filt (sp @ pair_string p) =
    (if filt \<noteq> [] \<and> filt \<noteq> fst p then None else Some (new_cookie tm (fst p) (snd p) []))"
proof -
  have "trim_string (sp @ pair_string p) = pair_string p"
    using assms pair_string_ok [OF assms(1)]
    by (auto simp: trim_string_space trim_string_id ascii_space_def)
  moreover have "index_byte (CHR ''='') (pair_string p) = int (length (fst p))"
    using assms(1) name_valid_chars [of "fst p"]
    by (simp add: pair_string_def pair_ok_def index_byte_append)
  moreover have "CHR ''='' \<in> set (pair_string p)" by (simp add: pair_string_def)
  moreover have "take (length (fst p)) (pair_string p) = fst p"
    "drop (length (fst p) + 1) (pair_string p) = sanitizeCookieValue (snd p)"
    by (simp_all add: pair_string_def)
  ultimately show ?thesis
    using assms(1) pair_string_ok [OF assms(1)]
    by (simp add: cookie_part_def Let_def pair_ok_def parse_sanitized)
qed

lemma cookie_line_Nil [simp]: "cookie_line tm filt [] = []"
  by (simp add: cookie_line.simps)

lemma cookie_line_last:
  assumes "CHR '';'' \<notin> set a" "a \<noteq> []"
  shows "cookie_line tm filt a = (case cookie_part tm filt a of None \<Rightarrow> [] | Some c \<Rightarrow> [c])"
proof -
  have "\<not> 0 < index_byte (CHR '';'') a" using assms index_byte_neg [of "CHR '';''" a] by linarith
  with assms show ?thesis by (simp add: cookie_line.simps [of tm filt a] Let_def)
qed

lemma cookie_line_step:
  assumes "CHR '';'' \<notin> set a" "a \<noteq> []"
  shows "cookie_line tm filt (a @ CHR '';'' # rest)
    = (case cookie_part tm filt a of None \<Rightarrow> [] | Some c \<Rightarrow> [c]) @ cookie_line tm filt rest"
proof -
  have "index_byte (CHR '';'') (a @ CHR '';'' # rest) = int (length a)"
    by (rule index_byte_append [OF assms(1)])
  with assms(2) show ?thesis
    by (simp add: cookie_line.simps [of tm filt "a @ CHR '';'' # rest"] Let_def)
qed

lemma cookie_part_case:
  assumes "pair_ok p" "sp \<in> {[], '' ''}"
  shows "(case cookie_part tm filt (sp @ pair_string p) of None \<Rightarrow> [] | Some c \<Rightarrow> [c])
    = map (\<lambda>p. new_cookie tm (fst p) (snd p) []) (filter (\<lambda>p. filt = [] \<or> fst p = filt) [p])"
  unfolding cookie_part_pair [OF assms] by auto

lemma cookie_line_pairs:
  assumes "\<forall>p \<in> set (p # ps). pair_ok p" "sp \<in> {[], '' ''}"
  shows "cookie_line tm filt (sp @ pair_string p @ concat (map (\<lambda>p. ''; '' @ pair_string p) ps))
    = map (\<lambda>p. new_cookie tm (fst p) (snd p) [])
        (filter (\<lambda>p. filt = [] \<or> fst p = filt) (p # ps))"
  using assms
proof (induction ps arbitrary: p sp)
  case Nil
  then have p: "pair_ok p" by simp
  have "CHR '';'' \<notin> set (sp @ pair_string p)" "sp @ pair_string p \<noteq> []"
    using Nil pair_string_ok [OF p] by auto
  from cookie_line_last [OF this, of tm filt] cookie_part_case [OF p Nil.prems(2), of tm filt]
  show ?case by (simp only: list.map concat.simps append_Nil2)
next
  case (Cons q qs)
  then have p: "pair_ok p" by simp
  let ?rest = "'' '' @ pair_string q @ concat (map (\<lambda>p. ''; '' @ pair_string p) qs)"
  have s: "CHR '';'' \<notin> set (sp @ pair_string p)" "sp @ pair_string p \<noteq> []"
    using Cons.prems pair_string_ok [OF p] by auto
  have line: "sp @ pair_string p @ concat (map (\<lambda>p. ''; '' @ pair_string p) (q # qs))
      = (sp @ pair_string p) @ CHR '';'' # ?rest" by simp
  have "cookie_line tm filt ?rest = map (\<lambda>p. new_cookie tm (fst p) (snd p) [])
        (filter (\<lambda>p. filt = [] \<or> fst p = filt) (q # qs))"
    using Cons.prems by (intro Cons.IH) auto
  then show ?case
    unfolding line cookie_line_step [OF s] cookie_part_case [OF p Cons.prems(2)]
    by (simp only: filter.simps list.map append.simps split: if_split) simp
qed

lemma cookie_header_values:
  assumes "Header_Values h ''Cookie'' = []" "\<forall>c \<in> set cs. pair_ok (c_Name c, c_Value c)" "cs \<noteq> []"
  shows "Header_Values (fold (\<lambda>c h. Request_AddCookie h c) cs h) ''Cookie''
    = [pair_string (c_Name (hd cs), c_Value (hd cs))
        @ concat (map (\<lambda>c. ''; '' @ pair_string (c_Name c, c_Value c)) (tl cs))]"
proof -
  have name: "sanitizeCookieName n = n" if n: "isCookieNameValid n" for n
  proof -
    have "x \<noteq> CHR 10 \<and> x \<noteq> CHR 13" if x: "x \<in> set n" for x
    proof -
      have "validCookieValueByte x" using name_valid_chars [OF n] x by blast
      then show ?thesis by (auto simp: byte_simps)
    qed
    then show ?thesis unfolding sanitizeCookieName_def by (intro map_idI) auto
  qed
  show ?thesis using assms
  proof (induction cs rule: rev_induct)
    case (snoc c cs)
    have s: "sanitizeCookieName (c_Name c) @ ''='' @ sanitizeCookieValue (c_Value c) = pair_string (c_Name c, c_Value c)"
      using snoc.prems name by (simp add: pair_string_def pair_ok_def)
    show ?case
    proof (cases "cs = []")
      case True
      with snoc.prems s show ?thesis
        by (simp add: Request_AddCookie_def Header_Get_Values hdr.values_set)
    next
      case False
      then have ih: "Header_Values (fold (\<lambda>c h. Request_AddCookie h c) cs h) ''Cookie''
        = [pair_string (c_Name (hd cs), c_Value (hd cs))
          @ concat (map (\<lambda>c. ''; '' @ pair_string (c_Name c, c_Value c)) (tl cs))]"
        using snoc by simp
      have "pair_string (c_Name (hd cs), c_Value (hd cs)) \<noteq> []" by (simp add: pair_string_def)
      with ih s False show ?thesis
        by (simp add: Request_AddCookie_def Header_Get_Values hdr.values_set Let_def)
    qed
  qed simp
qed

text \<open>
  C18: cookies put on a request with \<open>AddCookie\<close> are all returned by \<open>Cookies\<close>, in order and
  with their values, spaces and commas included; \<open>Cookie\<close> returns the first of the given name
  and \<open>ErrNoCookie\<close> exactly when there is none.
\<close>

theorem request_cookies_roundtrip:
  assumes "Header_Values h ''Cookie'' = []" "\<forall>c \<in> set cs. pair_ok (c_Name c, c_Value c)"
    and "name \<noteq> []"
  shows "let h' = fold (\<lambda>c h. Request_AddCookie h c) cs h;
             sent = map (\<lambda>c. new_cookie tm (c_Name c) (c_Value c) []) cs
    in Request_Cookies tm h' = sent
      \<and> Request_Cookie tm h' name =
          (case find (\<lambda>c. c_Name c = name) sent of None \<Rightarrow> Inl ErrNoCookie | Some c \<Rightarrow> Inr c)"
proof -
  let ?h = "fold (\<lambda>c h. Request_AddCookie h c) cs h"
  let ?new = "\<lambda>c. new_cookie tm (c_Name c) (c_Value c) []"
  have canon: "CanonicalHeaderKey ''Cookie'' = ''Cookie''" by code_simp
  have read: "readCookies tm ?h filt
      = map ?new (filter (\<lambda>c. filt = [] \<or> c_Name c = filt) cs)" for filt
  proof (cases cs)
    case Nil
    with assms(1) canon show ?thesis by (simp add: readCookies_def hindex_canonical)
  next
    case (Cons c ds)
    let ?pr = "\<lambda>c. (c_Name c, c_Value c)"
    let ?line = "pair_string (?pr c) @ concat (map (\<lambda>c. ''; '' @ pair_string (?pr c)) ds)"
    have v: "hindex ?h ''Cookie'' = [?line]"
      using cookie_header_values [OF assms(1,2)] Cons canon by (simp add: hindex_canonical)
    have "trim_string ?line = ?line"
    proof -
      have "?line = pair_string (?pr c) @ concat (map (\<lambda>p. CHR '';'' # p) (map (\<lambda>c. '' '' @ pair_string (?pr c)) ds))"
        by (simp add: o_def)
      then show ?thesis
        using assms(2) Cons pair_string_ok by (simp only:) (rule trim_line, auto)
    qed
    with v show ?thesis
      using cookie_line_pairs [of "?pr c" "map ?pr ds" "[]" tm filt] assms(2) Cons
      by (simp add: readCookies_def o_def filter_map) 
  qed
  have "find (\<lambda>c. c_Name c = name) (map ?new cs) = map_option ?new (find (\<lambda>c. c_Name c = name) cs)"
    by (induction cs) (auto simp: new_cookie_def)
  moreover have "filter (\<lambda>c. c_Name c = name) cs = []
      \<or> (\<exists>c ds. filter (\<lambda>c. c_Name c = name) cs = c # ds)" by (cases "filter (\<lambda>c. c_Name c = name) cs") auto
  moreover have "find (\<lambda>c. c_Name c = name) cs
      = (case filter (\<lambda>c. c_Name c = name) cs of [] \<Rightarrow> None | c # _ \<Rightarrow> Some c)"
    by (induction cs) auto
  ultimately show ?thesis
    using assms(3) by (auto simp: Let_def Request_Cookies_def Request_Cookie_def read)
qed

theorem request_cookies_roundtrip_witness:
  "let cs = [new_cookie year_ops ''a'' ''1'' [], new_cookie year_ops ''b'' ''x, y'' []];
       h' = fold (\<lambda>c h. Request_AddCookie h c) cs NewHeader
   in Request_Cookies year_ops h' = map (\<lambda>c. new_cookie year_ops (c_Name c) (c_Value c) []) cs
     \<and> Request_Cookie year_ops h' ''z'' =
         (case find (\<lambda>c. c_Name c = ''z'') (map (\<lambda>c. new_cookie year_ops (c_Name c) (c_Value c) []) cs) of
            None \<Rightarrow> Inl ErrNoCookie | Some c \<Rightarrow> Inr c)"
proof -
  let ?cs = "[new_cookie year_ops ''a'' ''1'' [], new_cookie year_ops ''b'' ''x, y'' []]"
  have "\<forall>c \<in> set ?cs. pair_ok (c_Name c, c_Value c)" by code_simp
  from request_cookies_roundtrip [OF Header_Values_New this, of "''z''" year_ops]
  show ?thesis unfolding Let_def by blast
qed

section \<open>No injection\<close>

lemma sanitizeOrWarn_valid: "c \<in> set (sanitizeOrWarn ok v) \<Longrightarrow> ok c"
  by (auto simp: sanitizeOrWarn_def list_all_iff split: if_splits)

lemma sanitizeCookieValue_chars:
  "c \<in> set (sanitizeCookieValue v) \<Longrightarrow> validCookieValueByte c \<or> c = CHR 0x22"
  using sanitizeOrWarn_valid [of c validCookieValueByte v]
  by (auto simp: sanitizeCookieValue_def Let_def split: if_splits)

definition attr_byte :: "char \<Rightarrow> bool" where
  "attr_byte c \<longleftrightarrow> 32 \<le> byte c \<and> byte c \<le> 126 \<and> c \<noteq> CHR '';''"

lemma attr_byte_path: "validCookiePathByte c \<Longrightarrow> attr_byte c"
  by (auto simp: attr_byte_def validCookiePathByte_def)

lemma attr_byte_value: "validCookieValueByte c \<Longrightarrow> attr_byte c"
  by (auto simp: attr_byte_def validCookieValueByte_def)

lemma attr_byte_domain: "domain_byte c \<Longrightarrow> attr_byte c"
  using domain_byte_value attr_byte_value by blast

lemma attr_byte_digits: "\<forall>c \<in> set (itoa n). attr_byte c"
proof
  fix c assume "c \<in> set (itoa n)"
  from itoa_chars [OF this] show "attr_byte c"
    using digit_value_byte attr_byte_value by (auto simp: attr_byte_def byte_def)
qed

lemma attr_byte_literals:
  "list_all (\<lambda>s. list_all attr_byte s)
     ['' Path='', '' Domain='', '' Expires='', '' Max-Age='', '' Max-Age=0'', '' HttpOnly'', '' Secure'',
      '' SameSite=None'', '' SameSite=Lax'', '' SameSite=Strict'', ''='']"
  by code_simp

lemma cookie_parts_attr_bytes:
  assumes "list_all attr_byte (tm_format tm (c_Expires c))" "p \<in> set (cookie_parts tm c)"
  shows "list_all attr_byte p"
proof -
  have path: "list_all attr_byte (sanitizeCookiePath (c_Path c))"
    using sanitizeOrWarn_valid attr_byte_path by (force simp: sanitizeCookiePath_def list_all_iff)
  have domain: "validCookieDomain (c_Domain c) \<Longrightarrow> list_all attr_byte (c_Domain c)"
    using validCookieDomain_bytes attr_byte_domain by (simp add: list_all_iff)
  then have domain': "validCookieDomain (c_Domain c) \<Longrightarrow> list_all attr_byte (tl (c_Domain c))"
    by (cases "c_Domain c") auto
  have age: "list_all attr_byte (itoa (c_MaxAge c))" using attr_byte_digits by (simp add: list_all_iff)
  show ?thesis
    using assms path domain domain' age attr_byte_literals
    by (auto simp: cookie_parts_def split: if_splits)
qed

text \<open>
  C16: whatever bytes the fields of a cookie hold, the \<open>Set-Cookie\<close> line has exactly the
  attributes that \<open>String\<close> wrote, all of printable ASCII: no field can add an attribute or a
  line.  The value \<open>AddCookie\<close> stores has no carriage return or line feed either.
\<close>

theorem cookie_no_injection:
  assumes "isCookieNameValid (c_Name c)" and "list_all attr_byte (tm_format tm (c_Expires c))"
  shows "split_byte (CHR '';'') (Cookie_String tm (Some c))
      = (c_Name c @ ''='' @ sanitizeCookieValue (c_Value c)) # cookie_parts tm c
    \<and> isPrint (Cookie_String tm (Some c))
    \<and> (\<forall>x \<in> set (sanitizeCookieName n @ ''='' @ sanitizeCookieValue v). x \<noteq> CHR 10 \<and> x \<noteq> CHR 13)"
proof -
  let ?nv = "c_Name c @ ''='' @ sanitizeCookieValue (c_Value c)"
  have nv: "list_all attr_byte ?nv"
  proof -
    have "attr_byte x" if "x \<in> set (sanitizeCookieValue u)" for x u
      using sanitizeCookieValue_chars [OF that] attr_byte_value by (auto simp: attr_byte_def byte_def)
    moreover have "attr_byte x" if "x \<in> set (c_Name c)" for x
      using name_valid_chars [OF assms(1)] that attr_byte_value by blast
    moreover have "attr_byte (CHR ''='')" by code_simp
    ultimately show ?thesis unfolding list_all_iff by auto
  qed
  have parts: "\<forall>p \<in> set (cookie_parts tm c). list_all attr_byte p"
    using cookie_parts_attr_bytes [OF assms(2)] by blast
  have semi: "list_all attr_byte s \<Longrightarrow> CHR '';'' \<notin> set s" for s
    by (auto simp: attr_byte_def list_all_iff)
  have line: "Cookie_String tm (Some c) = ?nv @ concat (map (\<lambda>p. CHR '';'' # p) (cookie_parts tm c))"
    by (rule Cookie_String_parts [OF assms(1)])
  have "split_byte (CHR '';'') (Cookie_String tm (Some c)) = ?nv # cookie_parts tm c"
    unfolding line using nv parts semi by (intro split_byte_cons_join) blast+
  moreover have "isPrint (Cookie_String tm (Some c))"
  proof -
    have "x = CHR '';'' \<or> attr_byte x" if "x \<in> set (Cookie_String tm (Some c))" for x
      using that nv parts unfolding line by (auto simp: list_all_iff split: if_splits)
    then show ?thesis by (force simp: isPrint_def attr_byte_def list_all_iff byte_def)
  qed
  moreover have "x \<noteq> CHR 10 \<and> x \<noteq> CHR 13"
    if "x \<in> set (sanitizeCookieName n @ ''='' @ sanitizeCookieValue v)" for x
    using that sanitizeCookieValue_chars [of x v]
    by (auto simp: sanitizeCookieName_def byte_simps split: if_splits)
  ultimately show ?thesis by blast
qed

theorem cookie_no_injection_witness:
  "let c = (new_cookie year_ops ''sid'' ''x; Path=/'' [])\<lparr>c_Path := [CHR ''/'', CHR 10, CHR ''a'']\<rparr>
   in split_byte (CHR '';'') (Cookie_String year_ops (Some c))
      = (c_Name c @ ''='' @ sanitizeCookieValue (c_Value c)) # cookie_parts year_ops c"
proof -
  let ?c = "(new_cookie year_ops ''sid'' ''x; Path=/'' [])\<lparr>c_Path := [CHR ''/'', CHR 10, CHR ''a'']\<rparr>"
  have "isCookieNameValid (c_Name ?c)" "list_all attr_byte (tm_format year_ops (c_Expires ?c))"
    by code_simp+
  from cookie_no_injection [OF this, of "[]" "[]"] show ?thesis unfolding Let_def by blast
qed

text \<open>
  \<open>Valid\<close> tests the expiry time unconditionally, so it rejects every cookie whose \<open>Expires\<close>
  was never set (the zero time is in year 1).
\<close>

theorem cookie_valid_needs_expires:
  assumes "tm_year tm (tm_zero tm) = 1" and "isCookieNameValid (c_Name c)" and "c_Expires c = tm_zero tm"
  shows "Cookie_Valid tm (Some c) = Some (Text ''fsthttp: invalid Cookie.Expires'')"
  using assms by (simp add: Cookie_Valid_def validCookieExpires_def)

end
