(* ===== verification/Requests.thy ===== *)
theory Requests
  imports RequestABI Candidates Backends Cookies
begin

text \<open>
  \<open>fsthttp/request.go\<close>: the request, its copies and bodies, and the part of sending that is
  common to all paths: making the host's request, setting its options and copying the body.
  A request is passed and returned wherever the code assigns to its fields, also when the code
  returns an error.  The hooks of \<open>CacheOptions\<close> are names of a type \<open>'k\<close>, since a hook is a
  function on the request that holds it; a function of the environment says what they do.
\<close>

section \<open>Bodies of requests\<close>

text \<open>
  An \<open>io.Reader\<close> by what the code asks about it: is it the host's body, one of the in-memory
  readers (\<open>bytes.Buffer\<close>, \<open>bytes.Reader\<close>, \<open>strings.Reader\<close>, none of which can be closed), or
  any other reader, with or without a \<open>Close\<close> method.
\<close>

datatype 'b reader =
    HostReader HTTPBody
  | MemReader 'b
  | ClosingReader 'b
  | PlainReader 'b

fun is_ReadCloser :: "'b reader \<Rightarrow> bool" where
  "is_ReadCloser (HostReader b) = True"
| "is_ReadCloser (MemReader r) = False"
| "is_ReadCloser (ClosingReader r) = True"
| "is_ReadCloser (PlainReader r) = False"

datatype 'b request_body = AsCloser "'b reader" | nopCloser "'b reader"

definition read_closer :: "'b reader option \<Rightarrow> 'b request_body option" where
  "read_closer body = map_option (\<lambda>r. if is_ReadCloser r then AsCloser r else nopCloser r) body"

fun underlyingReaderFrom :: "'b request_body option \<Rightarrow> 'b reader option" where
  "underlyingReaderFrom None = None"
| "underlyingReaderFrom (Some (nopCloser r)) = Some r"
| "underlyingReaderFrom (Some (AsCloser r)) = Some r"

text \<open>The host's body, when that is what the interface value holds.\<close>

fun body_is_abi :: "'b request_body option \<Rightarrow> HTTPBody option" where
  "body_is_abi (Some (AsCloser (HostReader b))) = Some b"
| "body_is_abi _ = None"

definition abiBodyFrom :: "'w http_calls \<Rightarrow> 'b request_body option \<Rightarrow> ('w, goerr + HTTPBody) comp" where
  "abiBodyFrom host rc =
     (case body_is_abi rc of
        Some b \<Rightarrow> finish (Inr b)
      | None \<Rightarrow> check_c id (NewHTTPBody host) (\<lambda>b. finish (Inr b)))"

text \<open>The sizes for which a request is sent in one piece: none, in memory, or already with the host.\<close>

definition streams :: "'b request_body option \<Rightarrow> bool" where
  "streams body =
     (case underlyingReaderFrom body of
        None \<Rightarrow> False | Some (MemReader r) \<Rightarrow> False | Some (HostReader b) \<Rightarrow> False | Some _ \<Rightarrow> True)"

section \<open>Requests\<close>

record URL =
  u_Scheme :: string
  u_Opaque :: string
  u_User :: "string option"
  u_Host :: string
  u_Path :: string
  u_RawPath :: string
  u_ForceQuery :: bool
  u_RawQuery :: string
  u_Fragment :: string
  u_RawFragment :: string

definition cloneURL :: "URL \<Rightarrow> URL" where
  "cloneURL u =
     \<lparr>u_Scheme = u_Scheme u, u_Opaque = u_Opaque u, u_User = None, u_Host = u_Host u, u_Path = u_Path u,
      u_RawPath = u_RawPath u, u_ForceQuery = u_ForceQuery u, u_RawQuery = u_RawQuery u,
      u_Fragment = u_Fragment u, u_RawFragment = u_RawFragment u\<rparr>"

record TLSInfo =
  tls_Protocol :: string
  tls_ClientHello :: string
  tls_ClientSNI :: string
  tls_CipherOpenSSLName :: string
  tls_JA3MD5 :: string
  tls_JA4 :: string

definition zero_tls_info :: TLSInfo where
  "zero_tls_info = \<lparr>tls_Protocol = [], tls_ClientHello = [], tls_ClientSNI = [], tls_CipherOpenSSLName = [],
     tls_JA3MD5 = [], tls_JA4 = []\<rparr>"

text \<open>\<open>None\<close> is the nil slice: no certificate was given.\<close>

record TLSClientCertificateInfo =
  tc_RawClientCertificate :: "string option"
  tc_VerifyResult :: u32

record FastlyMeta =
  fm_SandboxID :: string
  fm_RequestID :: string
  fm_H2 :: string
  fm_OH :: string
  fm_DDOSDetected :: bool
  fm_FastlyKeyIsValid :: bool
  fm_SandboxRequests :: int

record ('b, 'k, 'i) Request =
  q_Method :: string
  q_URL :: URL
  q_Proto :: string
  q_ProtoMajor :: int
  q_ProtoMinor :: int
  q_Header :: Header
  q_CacheOptions :: CacheOptions
  q_BeforeSend :: "'k option"
  q_AfterSend :: "'k option"
  q_Body :: "'b request_body option"
  q_Host :: string
  q_RemoteAddr :: string
  q_ServerAddr :: string
  q_TLSInfo :: TLSInfo
  q_clientCertificate :: "TLSClientCertificateInfo option"
  q_fastlyMeta :: "FastlyMeta option"
  q_SendPollInterval :: Duration
  q_SendPollIntervalFn :: "(int \<Rightarrow> Duration) option"
  q_Gzip :: bool
  q_ManualFramingMode :: bool
  q_ImageOptimizerOptions :: "'i option"
  q_sent :: bool
  q_abi_req :: "handle option"
  q_abi_body :: "HTTPBody option"
  q_downstream_req :: "handle option"
  q_downstream_body :: "HTTPBody option"
  q_sandboxRequests :: int

definition zero_cache_options :: CacheOptions where
  "zero_cache_options = \<lparr>o_Pass = False, o_PCI = False, o_TTL = 0, o_StaleWhileRevalidate = 0, o_StaleIfError = 0,
     o_SurrogateKey = [], o_OverrideKey = []\<rparr>"

definition request_with ::
  "string \<Rightarrow> URL \<Rightarrow> Header \<Rightarrow> 'b request_body option \<Rightarrow> string \<Rightarrow> ('b, 'k, 'i) Request" where
  "request_with method u header body h =
     \<lparr>q_Method = method, q_URL = u, q_Proto = [], q_ProtoMajor = 0, q_ProtoMinor = 0, q_Header = header,
      q_CacheOptions = zero_cache_options, q_BeforeSend = None, q_AfterSend = None, q_Body = body, q_Host = h,
      q_RemoteAddr = [], q_ServerAddr = [], q_TLSInfo = zero_tls_info, q_clientCertificate = None,
      q_fastlyMeta = None, q_SendPollInterval = 0, q_SendPollIntervalFn = None, q_Gzip = False,
      q_ManualFramingMode = False, q_ImageOptimizerOptions = None, q_sent = False, q_abi_req = None,
      q_abi_body = None, q_downstream_req = None, q_downstream_body = None, q_sandboxRequests = 0\<rparr>"

definition NewRequest ::
  "(string \<Rightarrow> goerr + URL) \<Rightarrow> string \<Rightarrow> string \<Rightarrow> 'b reader option \<Rightarrow> goerr + ('b, 'k, 'i) Request" where
  "NewRequest url_parse method uri body =
     (case url_parse uri of
        Inl e \<Rightarrow> Inl e
      | Inr u \<Rightarrow> Inr (request_with method u NewHeader (read_closer body) (u_Host u)))"

definition Request_Clone :: "('b, 'k, 'i) Request \<Rightarrow> ('b, 'k, 'i) Request" where
  "Request_Clone req =
     (request_with (q_Method req) (cloneURL (q_URL req)) (Header_Clone (q_Header req)) None (u_Host (q_URL req)))
       \<lparr>q_Proto := q_Proto req, q_ProtoMajor := q_ProtoMajor req, q_ProtoMinor := q_ProtoMinor req,
        q_CacheOptions := q_CacheOptions req, q_BeforeSend := q_BeforeSend req, q_AfterSend := q_AfterSend req,
        q_RemoteAddr := q_RemoteAddr req, q_TLSInfo := q_TLSInfo req,
        q_SendPollInterval := q_SendPollInterval req, q_SendPollIntervalFn := q_SendPollIntervalFn req,
        q_Gzip := q_Gzip req, q_ManualFramingMode := q_ManualFramingMode req\<rparr>"

text \<open>\<open>SetBody\<close> ignores the error of a new host body; the body is then nil.\<close>

definition result_option :: "goerr + 'a \<Rightarrow> 'a option" where
  "result_option r = (case r of Inl e \<Rightarrow> None | Inr x \<Rightarrow> Some x)"

definition SetBody ::
  "'w http_calls \<Rightarrow> 'b reader option \<Rightarrow> ('b, 'k, 'i) Request \<Rightarrow> ('w, ('b, 'k, 'i) Request) comp" where
  "SetBody host body req =
     (let req = req\<lparr>q_Body := read_closer body\<rparr> in
      if q_abi_body req \<noteq> None
      then and_then (abiBodyFrom host (q_Body req)) (\<lambda>r. finish (req\<lparr>q_abi_body := result_option r\<rparr>))
      else finish req)"

definition CloneWithBody ::
  "'w http_calls \<Rightarrow> 'b reader option \<Rightarrow> ('b, 'k, 'i) Request \<Rightarrow> ('w, ('b, 'k, 'i) Request) comp" where
  "CloneWithBody host body req = SetBody host body (Request_Clone req)"

text \<open>A method call on a nil pointer panics where the method reads a field.\<close>

definition non_nil :: "'a option \<Rightarrow> ('a \<Rightarrow> ('w, 'b) comp) \<Rightarrow> ('w, 'b) comp" where
  "non_nil p k = (case p of None \<Rightarrow> panic | Some x \<Rightarrow> k x)"

definition Request_Close ::
  "'w http_calls \<Rightarrow> 'w request_calls \<Rightarrow> ('b, 'k, 'i) Request \<Rightarrow> ('w, goerr + unit) comp" where
  "Request_Close host rq req =
     non_nil (q_abi_req req) (\<lambda>h.
     check_c id (HTTPRequest_Close rq h) (\<lambda>_.
     non_nil (q_abi_body req) (\<lambda>b.
     check_c id (HTTPBody_Close host b) (\<lambda>_. finish (Inr ())))))"

section \<open>Computations on a request\<close>

text \<open>
  Steps of a method that assigns to its receiver: every result comes with the state at the
  \<open>return\<close>.  \<open>fallible\<close> is a call that leaves the state alone, \<open>stateful\<close> one that changes it.
\<close>

definition fallible ::
  "(goerr \<Rightarrow> goerr) \<Rightarrow> ('w, goerr + 'a) comp \<Rightarrow> 's \<Rightarrow> ('a \<Rightarrow> ('w, (goerr + 'b) \<times> 's) comp) \<Rightarrow>
   ('w, (goerr + 'b) \<times> 's) comp" where
  "fallible f m s k = try_c m (\<lambda>e. finish (Inl (f e), s)) k"

definition stateful ::
  "(goerr \<Rightarrow> goerr) \<Rightarrow> ('w, (goerr + 'a) \<times> 's) comp \<Rightarrow> ('a \<Rightarrow> 's \<Rightarrow> ('w, (goerr + 'b) \<times> 's) comp) \<Rightarrow>
   ('w, (goerr + 'b) \<times> 's) comp" where
  "stateful f m k =
     and_then m (\<lambda>(r, s). case r of Inl e \<Rightarrow> finish (Inl (f e), s) | Inr x \<Rightarrow> k x s)"

section \<open>The host's request\<close>

definition constructABIRequest ::
  "'w http_calls \<Rightarrow> (URL \<Rightarrow> string) \<Rightarrow> ('b, 'k, 'i) Request \<Rightarrow>
   ('w, (goerr + unit) \<times> ('b, 'k, 'i) Request) comp" where
  "constructABIRequest host url_string req =
     stateful id
       (if q_abi_req req \<noteq> None then finish (Inr (), req)
        else fallible (annotate ''construct request'') (NewHTTPRequest host) req (\<lambda>abiReq.
             fallible (annotate ''set method'') (HTTPRequest_SetMethod host abiReq (q_Method req)) req (\<lambda>_.
             fallible (annotate ''set URL'') (HTTPRequest_SetURI host abiReq (url_string (q_URL req))) req (\<lambda>_.
             finish (Inr (), req\<lparr>q_abi_req := Some abiReq\<rparr>)))))
       (\<lambda>_ req.
        if q_abi_body req \<noteq> None then finish (Inr (), req)
        else fallible (annotate ''get body'') (abiBodyFrom host (q_Body req)) req (\<lambda>b.
             finish (Inr (), req\<lparr>q_abi_body := Some b\<rparr>)))"

definition cache_override_of :: "CacheOptions \<Rightarrow> CacheOverrideOptions" where
  "cache_override_of opts =
     \<lparr>co_Pass = o_Pass opts, co_PCI = o_PCI opts, co_TTL = o_TTL opts,
      co_StaleWhileRevalidate = o_StaleWhileRevalidate opts, co_SurrogateKey = o_SurrogateKey opts\<rparr>"

definition bad_key_length :: "string \<Rightarrow> goerr" where
  "bad_key_length key = Text (''bad length for OverrideKey: '' @ nat_str (length key) @ '' != 32'')"

definition set_headers :: "'w http_calls \<Rightarrow> handle \<Rightarrow> Header \<Rightarrow> ('w, goerr + unit) comp" where
  "set_headers host abiReq header =
     each_c (\<lambda>key. check_c (annotate ''set headers'')
              (HTTPRequest_SetHeaderValues host abiReq key (Header_Values header key)) (\<lambda>_. finish (Inr ())))
       (Header_Keys header)"

definition set_cache_key :: "'w http_calls \<Rightarrow> handle \<Rightarrow> string \<Rightarrow> ('w, goerr + unit) comp" where
  "set_cache_key host abiReq key =
     (if key = [] then finish (Inr ())
      else if length key \<noteq> 32 then finish (Inl (bad_key_length key))
      else check_c (annotate ''set headers cache-key'')
             (HTTPRequest_SetHeaderValues host abiReq ''fastly-xqd-cache-key'' [ascii_upper (hex_encode key)])
             (\<lambda>_. finish (Inr ())))"

definition setABIRequestOptions ::
  "'w http_calls \<Rightarrow> ('b, 'k, 'i) Request \<Rightarrow> ('w, goerr + unit) comp" where
  "setABIRequestOptions host req =
     non_nil (q_abi_req req) (\<lambda>abiReq.
     check_c (annotate ''set auto decompress response'')
       (HTTPRequest_SetAutoDecompressResponse host abiReq (q_Gzip req)) (\<lambda>_.
     check_c (annotate ''set framing headers mode'')
       (HTTPRequest_SetFramingHeadersMode host abiReq (q_ManualFramingMode req)) (\<lambda>_.
     check_c (annotate ''set cache options'')
       (HTTPRequest_SetCacheOverride host abiReq (cache_override_of (q_CacheOptions req))) (\<lambda>_.
     check_c id (set_headers host abiReq (q_Header req)) (\<lambda>_.
     set_cache_key host abiReq (o_OverrideKey (q_CacheOptions req)))))))"

definition ConstructABIRequest ::
  "'w http_calls \<Rightarrow> (URL \<Rightarrow> string) \<Rightarrow> ('b, 'k, 'i) Request \<Rightarrow>
   ('w, (goerr + unit) \<times> ('b, 'k, 'i) Request) comp" where
  "ConstructABIRequest host url_string req =
     stateful id (constructABIRequest host url_string req) (\<lambda>_ req.
     and_then (setABIRequestOptions host req) (\<lambda>r. finish (r, req)))"

definition Request_ABI :: "('b, 'k, 'i) Request \<Rightarrow> handle option \<times> HTTPBody option" where
  "Request_ABI req = (q_abi_req req, q_abi_body req)"

section \<open>Copying the body\<close>

text \<open>
  What the code needs from the user's readers: \<open>io.Copy\<close> from one into a host body, and \<open>Close\<close>
  (of the wrapped reader; the \<open>Close\<close> of a \<open>nopCloser\<close> returns nil).
\<close>

type_synonym ('w, 'b) reader_copy = "HTTPBody \<Rightarrow> 'b reader \<Rightarrow> ('w, nat \<times> goerr option) comp"
type_synonym ('w, 'b) reader_close = "'b reader \<Rightarrow> ('w, goerr option) comp"

fun close_user_body :: "('w, 'b) reader_close \<Rightarrow> 'b request_body \<Rightarrow> ('w, goerr option) comp" where
  "close_user_body user_close (nopCloser r) = finish None"
| "close_user_body user_close (AsCloser r) = user_close r"

definition error_of :: "goerr + 'a \<Rightarrow> goerr option" where
  "error_of r = (case r of Inl e \<Rightarrow> Some e | Inr x \<Rightarrow> None)"

text \<open>The messages \<open>copyBody\<close> sends on the error channel, in order; the channel has room for all three.\<close>

definition copyBody ::
  "'w http_calls \<Rightarrow> ('w, 'b) reader_copy \<Rightarrow> ('w, 'b) reader_close \<Rightarrow> ('b, 'k, 'i) Request \<Rightarrow>
   ('w, goerr option list) comp" where
  "copyBody host io_copy user_close req =
     non_nil (q_abi_body req) (\<lambda>abiBody.
     case q_Body req of
       Some rc \<Rightarrow>
         if body_is_abi (Some rc) \<noteq> None
         then and_then (HTTPBody_Close host abiBody) (\<lambda>r.
              finish [maybeWrap (error_of r) ''close request body''])
         else and_then (io_copy abiBody (the (underlyingReaderFrom (Some rc)))) (\<lambda>(n, copyErr).
              and_then (close_user_body user_close rc) (\<lambda>closeErr.
              if copyErr = None
              then and_then (HTTPBody_Close host abiBody) (\<lambda>r.
                   finish [maybeWrap copyErr ''copy body'', maybeWrap closeErr ''close user body'',
                           maybeWrap (error_of r) ''close request body''])
              else and_then (HTTPBody_Abandon host abiBody) (\<lambda>r.
                   finish [maybeWrap copyErr ''copy body'', maybeWrap closeErr ''close user body'',
                           maybeWrap (error_of r) ''abandon request body''])))
     | None \<Rightarrow>
         and_then (HTTPBody_Close host abiBody) (\<lambda>r.
         finish [maybeWrap (error_of r) ''close request body'']))"

end
