(* ===== verification/Sending.thy ===== *)
theory Sending
  imports Requests
begin

text \<open>
  \<open>Send\<close> of \<open>fsthttp/request.go\<close> and \<open>newCandidateFromPendingBackendCaching\<close> of
  \<open>fsthttp/cache.go\<close>: the choice between the host's cache and the SDK's, the loop that polls a
  pending request, and the cache transaction of a request the SDK caches itself.
\<close>

section \<open>What sending depends on\<close>

text \<open>
  The host, the functions of other packages that sending calls, and what the runtime decides:
  the hooks by their names (a hook gets the request and may replace its fields; the header map
  it is given is the map of the original request, whose content after the call is the last
  component), the error of the context at each turn of the poll loop if it is done by then, and
  the choice \<open>select\<close> makes when both the context and the error channel are ready.
\<close>

record ('w, 'b, 'k, 'i) sending =
  s_http :: "'w http_calls"
  s_req :: "'w request_calls"
  s_cache :: "'w httpcache_calls"
  s_url_parse :: "string \<Rightarrow> goerr + URL"
  s_url_string :: "URL \<Rightarrow> string"
  s_query :: "'i \<Rightarrow> goerr + string"
  s_copy :: "('w, 'b) reader_copy"
  s_user_close :: "('w, 'b) reader_close"
  s_transform_copy :: "('w, 'b) io_copy"
  s_before :: "'k \<Rightarrow> ('b, 'k, 'i) Request \<Rightarrow> ('w, goerr option \<times> ('b, 'k, 'i) Request \<times> Header) comp"
  s_after :: "'k \<Rightarrow> 'b CandidateResponse \<Rightarrow> ('w, goerr option \<times> 'b CandidateResponse) comp"
  s_sleep :: "Duration \<Rightarrow> ('w, unit) prog"
  s_ctx :: "nat \<Rightarrow> goerr option"
  s_choose_ctx :: "nat \<Rightarrow> bool"

section \<open>Polling\<close>

definition safePollInterval :: "Duration \<Rightarrow> Duration" where
  "safePollInterval d =
     (let lo = 1 * Millisecond; hi = 1 * Second
      in if d < lo then lo else if hi < d then hi else d)"

text \<open>The goroutine that copies a streamed body first runs when the loop sleeps.\<close>

definition run_job :: "('w, goerr option list) comp option \<Rightarrow> ('w, goerr option list) comp" where
  "run_job job = (case job of None \<Rightarrow> finish [] | Some m \<Rightarrow> m)"

text \<open>
  One turn \<open>n\<close> of the loop: \<open>select\<close> takes a ready case, and \<open>default\<close> only when none is.
  \<open>iter\<close> counts the polls, \<open>queue\<close> is the content of the error channel.
\<close>

partial_function (option) poll_loop ::
  "('w, 'b, 'k, 'i) sending \<Rightarrow> handle \<Rightarrow> (int \<Rightarrow> Duration) \<Rightarrow> nat \<Rightarrow> int \<Rightarrow> goerr option list \<Rightarrow>
   ('w, goerr option list) comp option \<Rightarrow> 'w \<Rightarrow> ((goerr + handle \<times> HTTPBody) outcome \<times> 'w) option" where
  "poll_loop env pending pollIntervalFn n iter queue job w =
     (if s_ctx env n \<noteq> None \<and> (queue = [] \<or> s_choose_ctx env n)
      then Some (Done (Inl (the (s_ctx env n))), w)
      else case queue of
        Some err # queue' \<Rightarrow> Some (Done (Inl err), w)
      | None # queue' \<Rightarrow> poll_loop env pending pollIntervalFn (Suc n) iter queue' job w
      | [] \<Rightarrow>
          (case PendingRequest_Poll (s_http env) pending w of
             None \<Rightarrow> None
           | Some (Panic, w') \<Rightarrow> Some (Panic, w')
           | Some (Done (Inl err), w') \<Rightarrow> Some (Done (Inl err), w')
           | Some (Done (Inr (Some r)), w') \<Rightarrow> Some (Done (Inr r), w')
           | Some (Done (Inr None), w') \<Rightarrow>
               (case s_sleep env (safePollInterval (pollIntervalFn iter)) w' of (_, w'') \<Rightarrow>
                  (case run_job job w'' of
                     None \<Rightarrow> None
                   | Some (Panic, w''') \<Rightarrow> Some (Panic, w''')
                   | Some (Done msgs, w''') \<Rightarrow>
                       poll_loop env pending pollIntervalFn (Suc n) (iter + 1) msgs None w'''))))"

definition pendingToABIResponse ::
  "('w, 'b, 'k, 'i) sending \<Rightarrow> goerr option list \<Rightarrow> ('w, goerr option list) comp option \<Rightarrow> handle \<Rightarrow>
   (int \<Rightarrow> Duration) \<Rightarrow> ('w, goerr + handle \<times> HTTPBody) comp" where
  "pendingToABIResponse env errc job abiPending pollIntervalFn =
     poll_loop env abiPending pollIntervalFn 0 0 errc job"

definition newResponseFromABIPending ::
  "('w, 'b, 'k, 'i) sending \<Rightarrow> ('b, 'k, 'i) Request \<Rightarrow> string \<Rightarrow> handle \<Rightarrow> goerr option list \<Rightarrow>
   ('w, goerr option list) comp option \<Rightarrow> ('w, goerr + (('b, 'k, 'i) Request, 'b) Response) comp" where
  "newResponseFromABIPending env req backend abiPending errc job =
     (let pollIntervalFn = (case q_SendPollIntervalFn req of
            None \<Rightarrow> (\<lambda>n. q_SendPollInterval req) | Some f \<Rightarrow> f)
      in check_c (annotate ''poll'') (pendingToABIResponse env errc job abiPending pollIntervalFn)
           (\<lambda>(abiResp, abiRespBody).
         check_c (annotate ''construct response'') (newResponse (s_http env) req backend abiResp abiRespBody)
           (\<lambda>resp. finish (Inr resp))))"

section \<open>The choice of the cache\<close>

definition mustUseGuestCaching :: "('b, 'k, 'i) Request \<Rightarrow> bool" where
  "mustUseGuestCaching req \<longleftrightarrow> q_BeforeSend req \<noteq> None \<or> q_AfterSend req \<noteq> None"

definition mustUseHostCaching ::
  "'w httpcache_calls \<Rightarrow> ('b, 'k, 'i) Request \<Rightarrow> ('w, goerr + bool) comp" where
  "mustUseHostCaching cache req =
     non_nil (q_abi_req req) (\<lambda>h.
     check_c id (HTTPCacheIsRequestCacheable cache h) (\<lambda>ok. finish (Inr (\<not> ok))))"

definition ErrCachingNotSupported :: goerr where
  "ErrCachingNotSupported = Sentinel ''fsthttp'' ''fsthttp: caching not supported''"

text \<open>The package variable \<open>useGuestCaching\<close> is passed and returned.\<close>

definition shouldUseGuestCaching ::
  "'w httpcache_calls \<Rightarrow> ('b, 'k, 'i) Request \<Rightarrow> bool \<Rightarrow> ('w, (goerr + bool) \<times> bool) comp" where
  "shouldUseGuestCaching cache req useGuestCaching =
     (if \<not> useGuestCaching then
        (if mustUseGuestCaching req then finish (Inl ErrCachingNotSupported, useGuestCaching)
         else finish (Inr False, useGuestCaching))
      else if o_Pass (q_CacheOptions req) then finish (Inr False, useGuestCaching)
      else if q_Method req = ''PURGE'' then finish (Inr False, useGuestCaching)
      else if q_ImageOptimizerOptions req \<noteq> None then finish (Inr False, useGuestCaching)
      else try_c (mustUseHostCaching cache req)
        (\<lambda>e. case IsFastlyError (Some e) of (status, ok) \<Rightarrow>
               if ok \<and> status = FastlyStatusUnsupported then finish (Inr False, False)
               else finish (Inl e, useGuestCaching))
        (\<lambda>must.
           if must then
             (if mustUseGuestCaching req then finish (Inl ErrCachingNotSupported, useGuestCaching)
              else finish (Inr False, useGuestCaching))
           else finish (Inr True, useGuestCaching)))"

section \<open>Requests to the backend on behalf of the cache\<close>

definition sendWithoutCaching ::
  "'w http_calls \<Rightarrow> ('b, 'k, 'i) Request \<Rightarrow> string \<Rightarrow> ('w, goerr + handle \<times> HTTPBody) comp" where
  "sendWithoutCaching host req backend =
     non_nil (q_abi_body req) (\<lambda>body.
     non_nil (q_abi_req req) (\<lambda>h.
     check_c (annotate ''send v3'') (HTTPRequest_SendV3 host h body backend) (\<lambda>r. finish (Inr r))))"

definition sendAsyncWithoutCaching ::
  "'w http_calls \<Rightarrow> ('b, 'k, 'i) Request \<Rightarrow> string \<Rightarrow> ('w, goerr + handle) comp" where
  "sendAsyncWithoutCaching host req backend =
     non_nil (q_abi_body req) (\<lambda>body.
     non_nil (q_abi_req req) (\<lambda>h.
     check_c (annotate ''send async'') (HTTPRequest_SendAsyncV2 host h body backend False)
       (\<lambda>p. finish (Inr p))))"

text \<open>The error of \<open>NewRequest\<close> is dropped, and the nil request it leaves is assigned to.\<close>

definition newRequestFromHandle ::
  "('w, 'b, 'k, 'i) sending \<Rightarrow> handle \<Rightarrow> ('b, 'k, 'i) Request \<Rightarrow> ('w, goerr + ('b, 'k, 'i) Request) comp" where
  "newRequestFromHandle env reqh orig =
     check_c id (HTTPRequest_GetMethod (s_http env) reqh) (\<lambda>method.
     check_c id (HTTPRequest_GetURI (s_http env) reqh) (\<lambda>url.
     case s_url_parse env url of
       Inl e \<Rightarrow> panic
     | Inr u \<Rightarrow>
         and_then (abiBodyFrom (s_http env) (q_Body orig)) (\<lambda>b.
         finish (Inr ((request_with method u (q_Header orig) (q_Body orig) (u_Host u))
           \<lparr>q_CacheOptions := q_CacheOptions orig, q_BeforeSend := q_BeforeSend orig,
            q_AfterSend := q_AfterSend orig, q_abi_req := Some reqh, q_abi_body := result_option b\<rparr>)))))"

record ('b, 'k, 'i) pendingBackendRequestForCaching =
  pb_cacheHandle :: handle
  pb_pending :: handle
  pb_afterSend :: "'k option"
  pb_cacheOptions :: CacheOptions
  pb_req :: "('b, 'k, 'i) Request"

text \<open>
  The hook gets the new request; the header map is shared with the original request, which is
  returned with the map's content.  The copy's messages on the error channel are never read.
\<close>

definition run_before ::
  "('w, 'b, 'k, 'i) sending \<Rightarrow> ('b, 'k, 'i) Request \<Rightarrow> ('w, goerr option \<times> ('b, 'k, 'i) Request \<times> Header) comp" where
  "run_before env suggReq =
     (case q_BeforeSend suggReq of
        None \<Rightarrow> finish (None, suggReq, q_Header suggReq)
      | Some k \<Rightarrow> s_before env k suggReq)"

definition sendAsyncForCaching ::
  "('w, 'b, 'k, 'i) sending \<Rightarrow> ('b, 'k, 'i) Request \<Rightarrow> handle \<Rightarrow> string \<Rightarrow>
   ('w, (goerr + ('b, 'k, 'i) pendingBackendRequestForCaching) \<times> ('b, 'k, 'i) Request) comp" where
  "sendAsyncForCaching env req cacheHandle backend =
     fallible (annotate ''get suggested backend request'')
       (HTTPCacheGetSuggestedBackendRequest (s_cache env) cacheHandle) req (\<lambda>reqh.
     fallible id (newRequestFromHandle env reqh req) req (\<lambda>suggReq.
     and_then (run_before env suggReq) (\<lambda>(err, suggReq, header).
     let req = req\<lparr>q_Header := header\<rparr> in
     case err of
       Some e \<Rightarrow> finish (Inl e, req)
     | None \<Rightarrow>
         fallible id (setABIRequestOptions (s_http env) suggReq) req (\<lambda>_.
         and_then (copyBody (s_http env) (s_copy env) (s_user_close env) suggReq) (\<lambda>errc.
         fallible id (sendAsyncWithoutCaching (s_http env) suggReq backend) req (\<lambda>abiPending.
         finish (Inr \<lparr>pb_cacheHandle = cacheHandle, pb_pending = abiPending,
                     pb_afterSend = q_AfterSend req, pb_cacheOptions = q_CacheOptions suggReq,
                     pb_req = suggReq\<rparr>, req)))))))"

definition run_after ::
  "('w, 'b, 'k, 'i) sending \<Rightarrow> 'k option \<Rightarrow> 'b CandidateResponse \<Rightarrow> ('w, goerr option \<times> 'b CandidateResponse) comp" where
  "run_after env fn candidate =
     (case fn of None \<Rightarrow> finish (None, candidate) | Some k \<Rightarrow> s_after env k candidate)"

definition newCandidateFromPendingBackendCaching ::
  "('w, 'b, 'k, 'i) sending \<Rightarrow> ('b, 'k, 'i) pendingBackendRequestForCaching \<Rightarrow>
   ('w, goerr + 'b CandidateResponse) comp" where
  "newCandidateFromPendingBackendCaching env pending =
     check_c id (PendingRequest_Wait (s_http env) (pb_pending pending)) (\<lambda>(abiResp, abiBody).
     check_c (annotate ''new candidate'')
       (newCandidate (s_http env) (s_cache env) (pb_cacheHandle pending) (pb_cacheOptions pending) abiResp abiBody)
       (\<lambda>candidate.
     and_then (run_after env (pb_afterSend pending) candidate) (\<lambda>(err, candidate).
     case err of
       Some e \<Rightarrow> finish (Inl (annotate ''after send'' e))
     | None \<Rightarrow> finish (Inr candidate))))"

section \<open>Sending with the SDK's cache\<close>

text \<open>
  A deferred call that the function can call off: \<open>cacheHandle\<close> is set to nil after the last
  step that can panic, so a panic always finds it set.
\<close>

definition defer_unless :: "('w, 'b) comp \<Rightarrow> ('w, 'a \<times> bool) comp \<Rightarrow> ('w, 'a) comp" where
  "defer_unless d m = (\<lambda>w. case m w of
       None \<Rightarrow> None
     | Some (Panic, w1) \<Rightarrow> (case d w1 of None \<Rightarrow> None | Some (_, w2) \<Rightarrow> Some (Panic, w2))
     | Some (Done (x, off), w1) \<Rightarrow>
         if off then Some (Done x, w1)
         else (case d w1 of None \<Rightarrow> None | Some (_, w2) \<Rightarrow> Some (Done x, w2)))"

definition ErrRequestCollapse :: goerr where
  "ErrRequestCollapse = Sentinel ''fsthttp'' ''error during request collapse''"

text \<open>A response, and the revalidation that has been started in the background, if any.\<close>

type_synonym ('b, 'k, 'i) sent =
  "(('b, 'k, 'i) Request, 'b) Response \<times> ('b, 'k, 'i) pendingBackendRequestForCaching option"

text \<open>The goroutine of a revalidation; its result is not reported.\<close>

definition revalidate ::
  "('w, 'b, 'k, 'i) sending \<Rightarrow> ('b, 'k, 'i) pendingBackendRequestForCaching \<Rightarrow> ('w, unit) comp" where
  "revalidate env pending =
     try_c (newCandidateFromPendingBackendCaching env pending)
       (\<lambda>err. finish ())
       (\<lambda>candidate.
          drop_error (applyInBackground (s_http env) (s_cache env) (s_transform_copy env) candidate)
            (drop_error (HTTPCacheTransactionClose (s_cache env) (pb_cacheHandle pending)) (finish ())))"

text \<open>Results of the part with an open transaction: with the request, and whether the handle is called off.\<close>

definition closing :: "(goerr + 'a) \<times> 's \<Rightarrow> ('w, ((goerr + 'a) \<times> 's) \<times> bool) comp" where
  "closing r = finish (r, False)"

definition found_response ::
  "('w, 'b, 'k, 'i) sending \<Rightarrow> ('b, 'k, 'i) Request \<Rightarrow> handle \<Rightarrow> string \<Rightarrow> u32 \<Rightarrow>
   (('b, 'k, 'i) Request, 'b) Response \<Rightarrow>
   ('w, ((goerr + ('b, 'k, 'i) sent) \<times> ('b, 'k, 'i) Request) \<times> bool) comp" where
  "found_response env req cacheHandle backend state resp =
     and_then
       (if state_Has state CacheLookupStateMustInsertOrUpdate
        then and_then (sendAsyncForCaching env req cacheHandle backend)
               (\<lambda>(r, req). finish (map_sum id Some r, req))
        else finish (Inr None, req))
       (\<lambda>(r, req).
          case r of
            Inl e \<Rightarrow> closing (Inl e, req)
          | Inr job \<Rightarrow>
              let resp = (if state_Has state CacheLookupStateUsableIfError
                          then resp\<lparr>rs_maskedError := Some ErrRequestCollapse\<rparr> else resp);
                  resp = updateFastlyCacheHeaders (q_Header req) resp
              in finish ((Inr (resp, job), req), job \<noteq> None))"

definition stale_response ::
  "('w, 'b, 'k, 'i) sending \<Rightarrow> ('b, 'k, 'i) Request \<Rightarrow> handle \<Rightarrow> string \<Rightarrow> goerr \<Rightarrow>
   ('w, ((goerr + ('b, 'k, 'i) sent) \<times> ('b, 'k, 'i) Request) \<times> bool) comp" where
  "stale_response env req cacheHandle backend err =
     drop_error (HTTPCacheTransactionChooseStale (s_cache env) cacheHandle)
     (try_c (httpCacheGetFoundResponse (s_http env) (s_cache env) cacheHandle req backend True False)
        (\<lambda>foundErr. closing (Inl foundErr, req))
        (\<lambda>resp. non_nil resp (\<lambda>resp.
           let resp = updateFastlyCacheHeaders (q_Header req) (resp\<lparr>rs_maskedError := Some err\<rparr>)
           in closing (Inr (resp, None), req))))"

definition missing_response ::
  "('w, 'b, 'k, 'i) sending \<Rightarrow> ('b, 'k, 'i) Request \<Rightarrow> handle \<Rightarrow> string \<Rightarrow> u32 \<Rightarrow>
   ('w, ((goerr + ('b, 'k, 'i) sent) \<times> ('b, 'k, 'i) Request) \<times> bool) comp" where
  "missing_response env req cacheHandle backend state =
     and_then (sendAsyncForCaching env req cacheHandle backend) (\<lambda>(r, req).
     case r of
       Inl e \<Rightarrow> closing (Inl e, req)
     | Inr pending \<Rightarrow>
         try_c (newCandidateFromPendingBackendCaching env pending)
           (\<lambda>err. if state_Has state CacheLookupStateUsableIfError
                  then stale_response env req cacheHandle backend err
                  else closing (Inl err, req))
           (\<lambda>candidate.
              try_c (applyAndStreamBack (s_http env) (s_cache env) (s_transform_copy env) candidate req)
                (\<lambda>err. closing (Inl err, req))
                (\<lambda>resp. finish ((Inr (updateFastlyCacheHeaders (q_Header req) resp, None), req), True))))"

definition passed_response ::
  "('w, 'b, 'k, 'i) sending \<Rightarrow> (goerr \<Rightarrow> goerr) \<Rightarrow> ('b, 'k, 'i) Request \<Rightarrow> string \<Rightarrow>
   ('w, goerr + ('b, 'k, 'i) sent) comp" where
  "passed_response env wrap req backend =
     check_c id (sendWithoutCaching (s_http env) req backend) (\<lambda>(abiResp, abiBody).
     check_c wrap (newResponse (s_http env) req backend abiResp abiBody) (\<lambda>resp.
     finish (Inr (updateFastlyCacheHeaders (q_Header req) resp, None))))"

definition with_transaction ::
  "('w, 'b, 'k, 'i) sending \<Rightarrow> ('b, 'k, 'i) Request \<Rightarrow> handle \<Rightarrow> string \<Rightarrow>
   ('w, ((goerr + ('b, 'k, 'i) sent) \<times> ('b, 'k, 'i) Request) \<times> bool) comp" where
  "with_transaction env req cacheHandle backend =
     try_c (httpCacheWait (s_cache env) cacheHandle) (\<lambda>e. closing (Inl e, req)) (\<lambda>state.
     try_c (httpCacheGetFoundResponse (s_http env) (s_cache env) cacheHandle req backend True True)
       (\<lambda>e. closing (Inl e, req)) (\<lambda>resp.
     case resp of
       Some resp \<Rightarrow> found_response env req cacheHandle backend state resp
     | None \<Rightarrow>
         if state_Has state CacheLookupStateMustInsertOrUpdate
         then missing_response env req cacheHandle backend state
         else and_then (passed_response env id req backend) (\<lambda>r. closing (r, req))))"

text \<open>\<open>%v\<close> prints the error, which is a status of the host without details.\<close>

definition not_cacheable :: "goerr \<Rightarrow> goerr" where
  "not_cacheable e =
     Text (''request not cacheable: '' @ (case IsFastlyError (Some e) of (status, _) \<Rightarrow>
             the (FastlyError_Error status None)))"

definition lookup_options :: "string \<Rightarrow> string \<Rightarrow> HTTPCacheLookupOptions" where
  "lookup_options key backend =
     hl_Backend backend (if key \<noteq> [] then hl_OverrideKey key zero_lookup_options else zero_lookup_options)"

definition sendWithGuestCache ::
  "('w, 'b, 'k, 'i) sending \<Rightarrow> ('b, 'k, 'i) Request \<Rightarrow> string \<Rightarrow>
   ('w, (goerr + ('b, 'k, 'i) sent) \<times> ('b, 'k, 'i) Request) comp" where
  "sendWithGuestCache env req backend =
     non_nil (q_abi_req req) (\<lambda>h.
     fallible not_cacheable (HTTPCacheIsRequestCacheable (s_cache env) h) req (\<lambda>ok.
     if \<not> ok then and_then (passed_response env (annotate ''construct response'') req backend) (\<lambda>r. finish (r, req))
     else
       let key = o_OverrideKey (q_CacheOptions req) in
       if key \<noteq> [] \<and> length key \<noteq> 32 then finish (Inl (bad_key_length key), req)
       else
         let req = req\<lparr>q_CacheOptions := (q_CacheOptions req)\<lparr>o_OverrideKey := []\<rparr>\<rparr> in
         fallible (annotate ''cache transaction lookup'')
           (HTTPCacheTransactionLookup (s_cache env) h (lookup_options key backend)) req (\<lambda>cacheHandle.
         defer_unless (HTTPCacheTransactionClose (s_cache env) cacheHandle)
           (with_transaction env req cacheHandle backend))))"

section \<open>Send\<close>

definition sendToImageOpto ::
  "('w, 'b, 'k, 'i) sending \<Rightarrow> ('b, 'k, 'i) Request \<Rightarrow> 'i \<Rightarrow> string \<Rightarrow>
   ('w, goerr + (('b, 'k, 'i) Request, 'b) Response) comp" where
  "sendToImageOpto env req options backend =
     check_c id (finish (s_query env options)) (\<lambda>query.
     non_nil (q_abi_body req) (\<lambda>body.
     non_nil (q_abi_req req) (\<lambda>h.
     check_c id (HTTPRequest_SendToImageOpto (s_req env) h body backend query) (\<lambda>(abiResp, abiBody).
     check_c (annotate ''construct response'') (newResponse (s_http env) req backend abiResp abiBody)
       (\<lambda>resp. finish (Inr resp))))))"

text \<open>
  Sending through the host's cache.  A streamed body is copied by a goroutine, after the host
  has made the body closable; any other body is copied before the request is sent.
\<close>

definition begin_send ::
  "('w, 'b, 'k, 'i) sending \<Rightarrow> ('b, 'k, 'i) Request \<Rightarrow> string \<Rightarrow>
   ('w, (goerr + handle \<times> goerr option list \<times> ('w, goerr option list) comp option) \<times> ('b, 'k, 'i) Request) comp" where
  "begin_send env req backend =
     (if streams (q_Body req)
      then non_nil (q_abi_body req) (\<lambda>body.
           non_nil (q_abi_req req) (\<lambda>h.
           fallible id (HTTPRequest_SendAsyncStreaming (s_http env) h body backend) req (\<lambda>(pending, body).
           let req = req\<lparr>q_abi_body := Some body\<rparr>
           in finish (Inr (pending, [], Some (copyBody (s_http env) (s_copy env) (s_user_close env) req)), req))))
      else and_then (copyBody (s_http env) (s_copy env) (s_user_close env) req) (\<lambda>errc.
           non_nil (q_abi_body req) (\<lambda>body.
           non_nil (q_abi_req req) (\<lambda>h.
           fallible id (HTTPRequest_SendAsync (s_req env) h body backend) req (\<lambda>pending.
           finish (Inr (pending, errc, None), req))))))"

definition begin_send_error :: "goerr \<Rightarrow> goerr" where
  "begin_send_error err =
     (case IsFastlyError (Some err) of (status, ok) \<Rightarrow>
        if ok \<and> status = FastlyStatusInval then ErrBackendNotFound else annotate ''begin send'' err)"

definition send_with_host ::
  "('w, 'b, 'k, 'i) sending \<Rightarrow> ('b, 'k, 'i) Request \<Rightarrow> string \<Rightarrow>
   ('w, (goerr + ('b, 'k, 'i) sent) \<times> ('b, 'k, 'i) Request) comp" where
  "send_with_host env req backend =
     stateful begin_send_error (begin_send env (req\<lparr>q_sent := True\<rparr>) backend) (\<lambda>(abiPending, errc, job) req.
     fallible id (newResponseFromABIPending env req backend abiPending errc job) req (\<lambda>resp.
     finish (Inr (resp, None), req)))"

text \<open>\<open>Send\<close> changes the request and \<open>useGuestCaching\<close>.\<close>

definition prepare_send ::
  "('w, 'b, 'k, 'i) sending \<Rightarrow> ('b, 'k, 'i) Request \<Rightarrow> ('w, (goerr + unit) \<times> ('b, 'k, 'i) Request) comp" where
  "prepare_send env req =
     (if q_abi_req req = None \<and> q_abi_body req = None
      then ConstructABIRequest (s_http env) (s_url_string env) req
      else finish (Inr (), req))"

definition Request_Send ::
  "('w, 'b, 'k, 'i) sending \<Rightarrow> string \<Rightarrow> ('b, 'k, 'i) Request \<Rightarrow> bool \<Rightarrow>
   ('w, (goerr + ('b, 'k, 'i) sent) \<times> ('b, 'k, 'i) Request \<times> bool) comp" where
  "Request_Send env backend req useGuestCaching =
     (if q_sent req then finish (Inl (Text ''request already sent''), req, useGuestCaching)
      else and_then (prepare_send env req) (\<lambda>(r, req).
      case r of
        Inl e \<Rightarrow> finish (Inl e, req, useGuestCaching)
      | Inr _ \<Rightarrow>
          (case q_ImageOptimizerOptions req of
             Some options \<Rightarrow>
               and_then (sendToImageOpto env req options backend) (\<lambda>r.
               finish (case r of Inl e \<Rightarrow> Inl (annotate ''send to image optimizer'' e) | Inr resp \<Rightarrow> Inr (resp, None),
                       req, useGuestCaching))
           | None \<Rightarrow>
               and_then (shouldUseGuestCaching (s_cache env) req useGuestCaching) (\<lambda>(r, useGuestCaching).
               case r of
                 Inl e \<Rightarrow> finish (Inl e, req, useGuestCaching)
               | Inr True \<Rightarrow>
                   and_then (sendWithGuestCache env req backend) (\<lambda>(r, req).
                   finish (map_sum (annotate ''send with guest cache'') id r, req, useGuestCaching))
               | Inr False \<Rightarrow>
                   and_then (send_with_host env req backend) (\<lambda>(r, req).
                   finish (r, req, useGuestCaching))))))"

end
