(* ===== verification/SendRules.thy ===== *)
theory SendRules
  imports Sending
begin

text \<open>
  Rules of sending: how long the poll loop waits and that it ends, which requests the SDK caches
  itself and what becomes of their hooks, and when a request counts as sent.
\<close>

section \<open>Polling\<close>

lemma safePollInterval_bounds: "Millisecond \<le> safePollInterval d \<and> safePollInterval d \<le> Second"
  by (simp add: safePollInterval_def Let_def)

lemma safePollInterval_id: "Millisecond \<le> d \<Longrightarrow> d \<le> Second \<Longrightarrow> safePollInterval d = d"
  by (simp add: safePollInterval_def Let_def)

text \<open>
  What the loop needs in order to end: the host answers \<open>r\<close> once it has been asked often enough,
  \<open>left\<close> being how many more times.  \<open>slept\<close> is what the program has slept so far.
\<close>

definition pending_host ::
  "'w http_calls \<Rightarrow> handle \<Rightarrow> ('w \<Rightarrow> nat) \<Rightarrow> ('w \<Rightarrow> Duration list) \<Rightarrow> handle \<Rightarrow> handle \<Rightarrow> bool" where
  "pending_host host p left slept resp body \<longleftrightarrow>
     (\<forall>w. case c_pending_req_poll_v2 host p newSendErrorDetail w of ((s, d, isDone, r, b), w') \<Rightarrow>
        s = FastlyStatusOK \<and> (0 < isDone \<longleftrightarrow> left w = 0) \<and> r = resp \<and> b = body
        \<and> left w' = left w - 1 \<and> slept w' = slept w)"

definition clock :: "(Duration \<Rightarrow> ('w, unit) prog) \<Rightarrow> ('w \<Rightarrow> nat) \<Rightarrow> ('w \<Rightarrow> Duration list) \<Rightarrow> bool" where
  "clock sleep left slept \<longleftrightarrow>
     (\<forall>d w. left (snd (sleep d w)) = left w \<and> slept (snd (sleep d w)) = slept w @ [d])"

definition copies :: "('w, goerr option list) comp \<Rightarrow> ('w \<Rightarrow> nat) \<Rightarrow> ('w \<Rightarrow> Duration list) \<Rightarrow> bool" where
  "copies m left slept \<longleftrightarrow>
     (\<forall>w. \<exists>msgs w'. m w = Some (Done msgs, w') \<and> set msgs \<subseteq> {None} \<and> left w' = left w \<and> slept w' = slept w)"

lemma copies_none: "copies (run_job None) left slept"
  by (simp add: copies_def run_job_def)

lemma Poll_pending_host:
  assumes "pending_host host p left slept resp body"
  shows "\<exists>w'. PendingRequest_Poll host p w
      = Some (Done (Inr (if left w = 0 then Some (resp, plain_body body) else None)), w')
    \<and> left w' = left w - 1 \<and> slept w' = slept w"
proof -
  obtain s d i r b w' where c: "c_pending_req_poll_v2 host p newSendErrorDetail w = ((s, d, i, r, b), w')"
    by (metis surj_pair)
  with assms have "s = FastlyStatusOK" "0 < i \<longleftrightarrow> left w = 0" "r = resp" "b = body"
    "left w' = left w - 1" "slept w' = slept w"
    unfolding pending_host_def by (auto dest!: spec [of _ w])
  with c show ?thesis
    by (auto simp: PendingRequest_Poll_def check_c_def try_c_def and_then_def send_hostcall_def toSendError_def
        plain_body_def)
qed

lemma poll_queue:
  assumes "\<And>n. s_ctx env n = None" "set queue \<subseteq> {None}"
  shows "poll_loop env p fn n i queue job w = poll_loop env p fn (n + length queue) i [] job w"
  using assms(2)
proof (induction queue arbitrary: n)
  case (Cons e queue)
  then have "poll_loop env p fn n i (e # queue) job w = poll_loop env p fn (Suc n) i queue job w"
    using assms(1) by (subst poll_loop.simps) simp
  with Cons show ?case by simp
qed simp

text \<open>
  C12: while the context lasts, and unless the copy of the body reports an error, polling ends:
  when the host has the response after \<open>k\<close> more polls, \<open>pendingToABIResponse\<close> returns that
  response after exactly \<open>k\<close> sleeps, the \<open>i\<close>th of them as long as the interval function says for
  \<open>i\<close>, kept between one millisecond and one second.
\<close>

theorem poll_returns:
  assumes ctx: "\<And>n. s_ctx env n = None" and host: "pending_host (s_http env) p left slept resp body"
    and clock: "clock (s_sleep env) left slept" and copy: "copies (run_job job) left slept"
    and queue: "set errc \<subseteq> {None}"
  shows "\<exists>w'. pendingToABIResponse env errc job p fn w = Some (Done (Inr (resp, plain_body body)), w')
    \<and> slept w' = slept w @ map (\<lambda>i. safePollInterval (fn (int i))) [0..<left w]"
proof -
  have "\<exists>w'. poll_loop env p fn n (int i) errc job w = Some (Done (Inr (resp, plain_body body)), w')
    \<and> slept w' = slept w @ map (\<lambda>i. safePollInterval (fn (int i))) [i..<i + left w]"
    if "set errc \<subseteq> {None}" "copies (run_job job) left slept" for n i errc job w
    using that
  proof (induction "left w" arbitrary: n i errc job w)
    case 0
    from Poll_pending_host [OF host, of w] 0 show ?case
      by (subst poll_queue [OF ctx 0(2)], subst poll_loop.simps) (auto simp: ctx)
  next
    case (Suc k)
    obtain w1 where 1: "PendingRequest_Poll (s_http env) p w = Some (Done (Inr None), w1)"
      "left w1 = k" "slept w1 = slept w"
      using Poll_pending_host [OF host, of w] Suc(2) [symmetric] by auto
    obtain w2 where 2: "s_sleep env (safePollInterval (fn (int i))) w1 = ((), w2)"
      "left w2 = k" "slept w2 = slept w @ [safePollInterval (fn (int i))]"
    proof (cases "s_sleep env (safePollInterval (fn (int i))) w1")
      case (Pair u w2)
      with that clock 1 show ?thesis
        unfolding clock_def by (auto dest!: spec [of _ "safePollInterval (fn (int i))"] spec [of _ w1])
    qed
    obtain msgs w3 where 3: "run_job job w2 = Some (Done msgs, w3)" "set msgs \<subseteq> {None}"
      "left w3 = k" "slept w3 = slept w2"
      using Suc(4) 2 unfolding copies_def by metis
    let ?n = "Suc (n + length errc)"
    have "poll_loop env p fn n (int i) errc job w = poll_loop env p fn ?n (int i + 1) msgs None w3"
      by (subst poll_queue [OF ctx Suc(3)], subst poll_loop.simps) (simp add: ctx 1 2 3)
    also have "\<dots> = poll_loop env p fn ?n (int (Suc i)) msgs None w3" by (simp add: add.commute)
    finally have step: "poll_loop env p fn n (int i) errc job w = poll_loop env p fn ?n (int (Suc i)) msgs None w3" .
    have "[i..<i + left w] = i # [Suc i..<Suc i + k]"
      using Suc(2) [symmetric] by (simp add: upt_conv_Cons del: upt_Suc)
    with Suc(1) [OF 3(3) [symmetric] 3(2) copies_none, of ?n "Suc i"] show ?case
      unfolding step using 2 3 by (simp del: upt_Suc)
  qed
  from this [OF queue copy, of 0 0 w] show ?thesis by (simp add: pendingToABIResponse_def)
qed

text \<open>A host that has the response after as many polls as the world says.\<close>

definition countdown_env :: "(nat \<times> Duration list, unit, unit, unit) sending" where
  "countdown_env =
     \<lparr>s_http = accepting_host\<lparr>c_pending_req_poll_v2 := (\<lambda>h d (k, l).
        ((FastlyStatusOK, d, if k = 0 then 1 else 0, 21, 22), (k - 1, l)))\<rparr>,
      s_req = accepting_requests, s_cache = accepting_cache,
      s_url_parse = (\<lambda>s. Inl (Text s)), s_url_string = u_Path, s_query = (\<lambda>_. Inr []),
      s_copy = (\<lambda>b r. finish (0, None)), s_user_close = (\<lambda>r. finish None),
      s_transform_copy = (\<lambda>b t. finish (0, None)),
      s_before = (\<lambda>k q. finish (None, q, q_Header q)), s_after = (\<lambda>k c. finish (None, c)),
      s_sleep = (\<lambda>d (k, l). ((), (k, l @ [d]))), s_ctx = (\<lambda>n. None), s_choose_ctx = (\<lambda>n. False)\<rparr>"

theorem poll_returns_witness:
  "\<exists>w'. pendingToABIResponse countdown_env [None, None] None 4 (\<lambda>i. i * 400000000) (4, [])
      = Some (Done (Inr (21, plain_body 22)), w')
    \<and> snd w' = [1000000, 400000000, 800000000, 1000000000]"
proof -
  have "pending_host (s_http countdown_env) 4 fst snd 21 22"
    by (simp add: pending_host_def countdown_env_def split: prod.splits)
  moreover have "clock (s_sleep countdown_env) fst snd"
    by (simp add: clock_def countdown_env_def split: prod.splits)
  moreover have "\<And>n. s_ctx countdown_env n = None" by (simp add: countdown_env_def)
  ultimately show ?thesis
    using poll_returns [of countdown_env 4 fst snd 21 22 None "[None, None]" "\<lambda>i. i * 400000000" "(4, [])"]
    by (simp add: copies_none safePollInterval_def upt_conv_Cons)
qed

section \<open>Sent requests\<close>

text \<open>What holds of every result of a computation.\<close>

definition ensures :: "('w, 'a) comp \<Rightarrow> ('a \<Rightarrow> bool) \<Rightarrow> bool" where
  "ensures m P \<longleftrightarrow> (\<forall>w x w'. m w = Some (Done x, w') \<longrightarrow> P x)"

lemma ensuresD: "ensures m P \<Longrightarrow> m w = Some (Done x, w') \<Longrightarrow> P x"
  unfolding ensures_def by blast

lemma ensures_any: "(\<And>x. P x) \<Longrightarrow> ensures m P"
  by (simp add: ensures_def)

lemma ensures_mono: "ensures m P \<Longrightarrow> (\<And>x. P x \<Longrightarrow> Q x) \<Longrightarrow> ensures m Q"
  unfolding ensures_def by blast

lemma ensures_finish: "P x \<Longrightarrow> ensures (finish x) P"
  by (simp add: ensures_def)

lemma ensures_and_then: "ensures m (\<lambda>x. ensures (k x) P) \<Longrightarrow> ensures (and_then m k) P"
  unfolding ensures_def
  by (fastforce simp: and_then_def split: option.splits outcome.splits prod.splits)

lemma ensures_try_c: "(\<And>e. ensures (h e) P) \<Longrightarrow> (\<And>x. ensures (k x) P) \<Longrightarrow> ensures (try_c m h k) P"
  unfolding try_c_def by (rule ensures_and_then, rule ensures_any) (auto split: sum.splits)

lemma ensures_drop_error: "ensures k P \<Longrightarrow> ensures (drop_error m k) P"
  unfolding drop_error_def by (rule ensures_and_then, rule ensures_any)

lemma ensures_non_nil: "(\<And>x. ensures (k x) P) \<Longrightarrow> ensures (non_nil p k) P"
  by (auto simp: non_nil_def ensures_def panic_def split: option.splits)

lemma ensures_fallible:
  "(\<And>e. P (Inl e, s)) \<Longrightarrow> (\<And>x. ensures (k x) P) \<Longrightarrow> ensures (fallible f m s k) P"
  unfolding fallible_def by (rule ensures_try_c) (auto intro: ensures_finish)

lemma ensures_stateful:
  assumes "ensures m (\<lambda>(r, s). case r of Inl e \<Rightarrow> P (Inl (f e), s) | Inr x \<Rightarrow> ensures (k x s) P)"
  shows "ensures (stateful f m k) P"
  unfolding stateful_def
proof (rule ensures_and_then, rule ensures_mono [OF assms])
  fix x :: "(goerr + 'b) \<times> 'c"
  assume "case x of (r, s) \<Rightarrow> (case r of Inl e \<Rightarrow> P (Inl (f e), s) | Inr x \<Rightarrow> ensures (k x s) P)"
  then show "ensures (case x of (r, s) \<Rightarrow> (case r of Inl e \<Rightarrow> finish (Inl (f e), s) | Inr x \<Rightarrow> k x s)) P"
    by (cases x; cases "fst x") (simp_all add: ensures_finish)
qed

lemma ensures_defer_unless: "ensures m (\<lambda>(x, off). P x) \<Longrightarrow> ensures (defer_unless d m) P"
  unfolding ensures_def
  by (fastforce simp: defer_unless_def split: option.splits outcome.splits prod.splits if_splits)

lemmas ensures_intros = ensures_finish ensures_and_then ensures_try_c ensures_drop_error ensures_non_nil
  ensures_fallible ensures_stateful ensures_defer_unless

text \<open>The mark of the request that a computation returns with its result.\<close>

definition marked :: "bool \<Rightarrow> ('b, 'k, 'i) Request \<Rightarrow> bool" where
  "marked b req \<longleftrightarrow> q_sent req = b"

lemma marked_update [simp]:
  "marked b (req\<lparr>q_Header := h\<rparr>) = marked b req" "marked b (req\<lparr>q_CacheOptions := opts\<rparr>) = marked b req"
  "marked b (req\<lparr>q_abi_body := body\<rparr>) = marked b req" "marked b (req\<lparr>q_sent := b\<rparr>)"
  by (simp_all add: marked_def)

lemma sendAsync_marked:
  "marked b req \<Longrightarrow> ensures (sendAsyncForCaching env req h backend) (\<lambda>(r, req). marked b req)"
  unfolding sendAsyncForCaching_def
  by (auto simp: Let_def intro!: ensures_fallible ensures_finish ensures_and_then [OF ensures_any] split: option.splits)

text \<open>
  What requests to the backend on behalf of the cache and changes of the cache options keep of a
  request, sending with the SDK's cache keeps.
\<close>

locale kept_by_caching =
  fixes env :: "('w, 'b, 'k, 'i) sending" and I :: "('b, 'k, 'i) Request \<Rightarrow> bool"
  assumes async: "I req \<Longrightarrow> ensures (sendAsyncForCaching env req h backend) (\<lambda>(r, req). I req)"
    and options: "I req \<Longrightarrow> I (req\<lparr>q_CacheOptions := opts\<rparr>)"
begin

lemma with_transaction_kept:
  assumes "I req"
  shows "ensures (with_transaction env req h backend) (\<lambda>((r, req), off). I req)"
proof -
  note async = ensures_mono [OF async]
  have found: "ensures (found_response env req h backend state resp) (\<lambda>((r, req), off). I req)" for state resp
    unfolding found_response_def closing_def using assms
    by (auto simp: Let_def intro!: ensures_and_then async ensures_finish split: sum.splits)
  have stale: "ensures (stale_response env q h backend e) (\<lambda>((r, req), off). I req)" if "I q" for q e
    unfolding stale_response_def closing_def using that
    by (auto simp: Let_def intro!: ensures_drop_error ensures_try_c ensures_non_nil ensures_finish)
  have missing: "ensures (missing_response env req h backend state) (\<lambda>((r, req), off). I req)" for state
    unfolding missing_response_def closing_def using assms
    by (auto intro!: ensures_and_then async ensures_try_c ensures_finish stale split: sum.splits)
  show ?thesis
    unfolding with_transaction_def closing_def using assms
    by (auto intro!: ensures_try_c ensures_and_then [OF ensures_any] ensures_finish found missing split: option.splits)
qed

lemma guest_kept: "I req \<Longrightarrow> ensures (sendWithGuestCache env req backend) (\<lambda>(r, req). I req)"
  unfolding sendWithGuestCache_def
  by (auto simp: Let_def options intro!: ensures_non_nil ensures_fallible ensures_and_then [OF ensures_any] ensures_finish
      ensures_defer_unless ensures_mono [OF with_transaction_kept])

end

interpretation mark: kept_by_caching env "marked b" for env b
  by unfold_locales (auto intro: sendAsync_marked)

lemma host_marked: "ensures (send_with_host env req backend) (\<lambda>(r, req). marked True req)"
proof -
  have "ensures (begin_send env (req\<lparr>q_sent := True\<rparr>) backend) (\<lambda>(r, req). marked True req)"
    unfolding begin_send_def
    by (auto simp: Let_def intro!: ensures_non_nil ensures_fallible ensures_and_then [OF ensures_any] ensures_finish)
  then show ?thesis
    unfolding send_with_host_def
    by (auto intro!: ensures_stateful ensures_fallible ensures_finish elim!: ensures_mono split: sum.splits)
qed

text \<open>Preparing a request sets the host's request and its body, and nothing else.\<close>

lemma prepared_fields:
  "ensures (prepare_send env req) (\<lambda>(r, q). \<exists>h b. q = req\<lparr>q_abi_req := h, q_abi_body := b\<rparr>)"
proof -
  let ?P = "\<lambda>(r :: goerr + unit, q). \<exists>h b. q = req\<lparr>q_abi_req := h, q_abi_body := b\<rparr>"
  have self: "\<exists>h b. req = req\<lparr>q_abi_req := h, q_abi_body := b\<rparr>"
    by (rule exI [of _ "q_abi_req req"], rule exI [of _ "q_abi_body req"]) simp
  have request: "\<exists>h b. req\<lparr>q_abi_req := Some x\<rparr> = req\<lparr>q_abi_req := h, q_abi_body := b\<rparr>" for x
    by (rule exI [of _ "Some x"], rule exI [of _ "q_abi_body req"]) simp
  have body: "\<exists>h' b'. req\<lparr>q_abi_req := h, q_abi_body := b\<rparr>\<lparr>q_abi_body := Some x\<rparr> = req\<lparr>q_abi_req := h', q_abi_body := b'\<rparr>" for h b x
    by (rule exI [of _ h], rule exI [of _ "Some x"]) simp
  have "ensures (constructABIRequest host us req) ?P" for host us
    unfolding constructABIRequest_def
    by (rule ensures_stateful, rule ensures_mono [where P = ?P])
      (auto intro!: ensures_fallible ensures_finish self request body split: sum.splits)
  note construct = this
  have "ensures (ConstructABIRequest host us req) ?P" for host us
    unfolding ConstructABIRequest_def
    by (rule ensures_stateful, rule ensures_mono [OF construct])
      (auto intro!: ensures_and_then [OF ensures_any] ensures_finish split: sum.splits)
  then show ?thesis
    by (auto simp: prepare_send_def intro!: ensures_finish self)
qed

text \<open>What \<open>Send\<close> does with a request that is prepared.\<close>

lemma Send_prepared:
  assumes "\<not> q_sent req" "prepare_send env req w = Some (Done (Inr (), req1), w1)"
  shows "Request_Send env backend req g w =
    (case q_ImageOptimizerOptions req of
       Some options \<Rightarrow>
         and_then (sendToImageOpto env req1 options backend) (\<lambda>r.
         finish (case r of Inl e \<Rightarrow> Inl (annotate ''send to image optimizer'' e) | Inr resp \<Rightarrow> Inr (resp, None), req1, g))
     | None \<Rightarrow>
         and_then (shouldUseGuestCaching (s_cache env) req1 g) (\<lambda>(r, g).
         case r of
           Inl e \<Rightarrow> finish (Inl e, req1, g)
         | Inr True \<Rightarrow>
             and_then (sendWithGuestCache env req1 backend) (\<lambda>(r, q).
             finish (map_sum (annotate ''send with guest cache'') id r, q, g))
         | Inr False \<Rightarrow>
             and_then (send_with_host env req1 backend) (\<lambda>(r, q). finish (r, q, g)))) w1"
  using assms ensuresD [OF prepared_fields assms(2)] by (auto simp: Request_Send_def and_then_def)

text \<open>
  C7: \<open>Send\<close> refuses a request that it has marked as sent and does nothing.  It marks a
  request, prepared before or not, exactly when its preparation succeeds and it sends it with the
  host's cache, whatever comes of it; a request that goes to the image optimizer or through the
  SDK's cache is not marked, and can be sent again.
\<close>

theorem send_marks_host_requests:
  assumes "Request_Send env backend req g w = Some (Done (r, req', g'), w')"
  shows "if q_sent req then r = Inl (Text ''request already sent'') \<and> req' = req \<and> g' = g \<and> w' = w
    else q_sent req' \<longleftrightarrow> (\<exists>req1 w1 g1 w2. prepare_send env req w = Some (Done (Inr (), req1), w1)
      \<and> q_ImageOptimizerOptions req = None
      \<and> shouldUseGuestCaching (s_cache env) req1 g w1 = Some (Done (Inr False, g1), w2))"
proof (cases "q_sent req")
  case False
  obtain p req1 w1 where prep: "prepare_send env req w = Some (Done (p, req1), w1)"
    using False assms by (auto simp: Request_Send_def dest!: and_then_mono)
  from ensuresD [OF prepared_fields prep] False
  have same: "q_ImageOptimizerOptions req1 = q_ImageOptimizerOptions req" "marked False req1"
    by (auto simp: marked_def)
  show ?thesis
  proof (cases p)
    case (Inl e)
    with False prep assms same show ?thesis by (auto simp: Request_Send_def and_then_def marked_def)
  next
    case (Inr u)
    then have prep: "prepare_send env req w = Some (Done (Inr (), req1), w1)" using prep by simp
    note run = assms [unfolded Send_prepared [OF False prep]]
    show ?thesis
    proof (cases "q_ImageOptimizerOptions req")
      case (Some options)
      with False run same show ?thesis by (auto simp: marked_def dest!: and_then_mono)
    next
      case None
      then obtain r1 g1 w2 where c: "shouldUseGuestCaching (s_cache env) req1 g w1 = Some (Done (r1, g1), w2)"
        using run by (auto dest!: and_then_mono)
      have "q_sent req' = (r1 = Inr False)"
        using None run c same(2)
          ensuresD [OF mark.guest_kept [OF same(2)], of env backend w2] ensuresD [OF host_marked, of env req1 backend w2]
        by (auto simp: marked_def and_then_def split: option.splits outcome.splits sum.splits bool.splits)
      with None False prep c show ?thesis by auto
    qed
  qed
qed (use assms in \<open>simp add: Request_Send_def\<close>)

definition hooked_request :: "(unit, unit, unit) Request" where
  "hooked_request =
     (request_with ''PURGE'' \<lparr>u_Scheme = ''https'', u_Opaque = [], u_User = None, u_Host = ''example.com'',
        u_Path = ''/'', u_RawPath = [], u_ForceQuery = False, u_RawQuery = [], u_Fragment = [], u_RawFragment = []\<rparr>
        [] None ''example.com'')
       \<lparr>q_BeforeSend := Some ()\<rparr>"

text \<open>A run that is known to succeed by evaluation.\<close>

lemma run_Inr:
  assumes "case m of Some (Done (Inr u, q), w) \<Rightarrow> P q w | _ \<Rightarrow> False"
  obtains u q w where "m = Some (Done (Inr u, q), w)" "P q w"
proof (cases m)
  case (Some y)
  obtain x w where y: "y = (x, w)" by (cases y)
  show thesis
  proof (cases x)
    case (Done z)
    obtain r q where z: "z = (r, q)" by (cases z)
    show thesis
    proof (cases r)
      case (Inr u)
      then show thesis using that [of u q w] assms Some y Done z by simp
    qed (use assms Some y Done z in simp)
  qed (use assms Some y in simp)
qed (use assms in simp)

text \<open>A host that refuses to send: the new request counts as sent all the same.\<close>

abbreviation refusing_env :: "(nat \<times> Duration list, unit, unit, unit) sending" where
  "refusing_env \<equiv> countdown_env\<lparr>s_req := accepting_requests\<lparr>rq_send_async := (\<lambda>h b n w. ((FastlyStatusInval, 0), w))\<rparr>\<rparr>"

theorem send_marks_host_requests_witness:
  "\<exists>r req' g' w'. Request_Send refusing_env ''b'' hooked_request True (2, []) = Some (Done (r, req', g'), w')
     \<and> q_abi_req hooked_request = None \<and> q_sent req'
     \<and> Request_Send refusing_env ''b'' req' g' w' = Some (Done (Inl (Text ''request already sent''), req', g'), w')"
proof -
  have "case Request_Send refusing_env ''b'' hooked_request True (2, []) of Some (Done _, _) \<Rightarrow> True | _ \<Rightarrow> False"
    by code_simp
  then obtain r req' g' w' where run: "Request_Send refusing_env ''b'' hooked_request True (2, []) = Some (Done (r, req', g'), w')"
    by (auto split: option.splits prod.splits outcome.splits)
  have "case prepare_send refusing_env hooked_request (2, []) of
      Some (Done (Inr _, q), w) \<Rightarrow> shouldUseGuestCaching (s_cache refusing_env) q True w = Some (Done (Inr False, True), w)
    | _ \<Rightarrow> False"
    by code_simp
  then obtain u req1 w1 where
    "prepare_send refusing_env hooked_request (2, []) = Some (Done (Inr u, req1), w1)"
    "shouldUseGuestCaching (s_cache refusing_env) req1 True w1 = Some (Done (Inr False, True), w1)"
    by (rule run_Inr)
  moreover have "\<not> q_sent hooked_request" "q_ImageOptimizerOptions hooked_request = None" "q_abi_req hooked_request = None"
    by (simp_all add: hooked_request_def request_with_def)
  ultimately have "q_sent req'" using send_marks_host_requests [OF run] by auto
  moreover from this have "Request_Send refusing_env ''b'' req' g' w' = Some (Done (Inl (Text ''request already sent''), req', g'), w')"
    by (simp add: Request_Send_def)
  ultimately show ?thesis using run \<open>q_abi_req hooked_request = None\<close> by blast
qed

section \<open>Hooks\<close>












end
