(* ===== verification/ResponseWriter.thy ===== *)
theory ResponseWriter
  imports Responses
begin

text \<open>
  \<open>fsthttp/response.go\<close>, the server side: \<open>responseWriter\<close>, by which a handler answers the
  client.  Every method takes the writer and returns it updated; messages printed by the SDK
  are not modelled.  The second half is a state machine over the calls a handler can make,
  run against a host that records the hostcalls.
\<close>

section \<open>The writer\<close>

record responseWriter =
  w_header :: Header
  w_abiResp :: handle
  w_abiBody :: HTTPBody
  w_wroteHeaders :: bool
  w_closed :: bool
  w_ManualFramingMode :: bool
  w_sendErr :: "goerr option"
  w_trailers :: "string list"

definition newResponseWriter :: "'w http_calls \<Rightarrow> ('w, goerr + responseWriter) comp" where
  "newResponseWriter host =
     check_c (annotate ''create response'') (NewHTTPResponse host) (\<lambda>abiResp.
     check_c (annotate ''create response body'') (NewHTTPBody host) (\<lambda>abiRespBody.
     finish (Inr \<lparr>w_header = NewHeader, w_abiResp = abiResp, w_abiBody = abiRespBody,
       w_wroteHeaders = False, w_closed = False, w_ManualFramingMode = False,
       w_sendErr = None, w_trailers = []\<rparr>)))"

definition StatusEarlyHints :: int where [simp]: "StatusEarlyHints = 103"

definition excludeHeadersNoBody :: "string list" where
  "excludeHeadersNoBody =
     [CanonicalHeaderKey ''Content-Length'', CanonicalHeaderKey ''Transfer-Encoding'',
      CanonicalHeaderKey ''Trailer'']"

definition headerNewlineToSpace :: "string \<Rightarrow> string" where
  "headerNewlineToSpace v = map (\<lambda>c. if c = CHR 10 \<or> c = CHR 13 then CHR '' '' else c) v"

definition parseTrailers :: "string list \<Rightarrow> string list" where
  "parseTrailers trailers =
     concat (map (\<lambda>v. filter (\<lambda>h. h \<noteq> []) (map trim_string (split_byte (CHR '','') v))) trailers)"

definition ErrClosed :: goerr where
  "ErrClosed = Sentinel ''fsthttp'' ''connection has been closed''"

definition ErrInvalidStatusCode :: goerr where
  "ErrInvalidStatusCode = Sentinel ''fsthttp'' ''invalid HTTP status code''"

text \<open>Running a call for every element and ignoring its error, as the header loops do.\<close>

fun run_each :: "('k \<Rightarrow> ('w, 'a) comp) \<Rightarrow> 'k list \<Rightarrow> ('w, unit) comp" where
  "run_each f [] = finish ()"
| "run_each f (k # ks) = drop_error (f k) (run_each f ks)"

definition send_headers :: "'w http_calls \<Rightarrow> string list \<Rightarrow> responseWriter \<Rightarrow> ('w, unit) comp" where
  "send_headers host skip resp =
     run_each (\<lambda>key. if key \<in> set skip then finish (Inr ())
                     else HTTPResponse_SetHeaderValues host (w_abiResp resp) key
                            (map headerNewlineToSpace (Header_Values (w_header resp) key)))
       (Header_Keys (w_header resp))"

definition send_error :: "goerr \<Rightarrow> goerr" where
  "send_error e =
     (case IsFastlyError (Some e) of (status, ok) \<Rightarrow>
        if ok \<and> status = FastlyStatusInval then ErrInvalidStatusCode else e)"

definition WriteHeader :: "'w http_calls \<Rightarrow> int \<Rightarrow> responseWriter \<Rightarrow> ('w, responseWriter) comp" where
  "WriteHeader host code resp =
     (if w_wroteHeaders resp then finish resp
      else
        drop_error (HTTPResponse_SetFramingHeadersMode host (w_abiResp resp) (w_ManualFramingMode resp))
        (drop_error (HTTPResponse_SetStatusCode host (w_abiResp resp) code)
        (drop_error
           (send_headers host (if code = StatusEarlyHints then excludeHeadersNoBody else []) resp)
        (and_then
           (HTTPResponse_SendDownstream host (w_abiResp resp) (w_abiBody resp) (code \<noteq> StatusEarlyHints))
           (\<lambda>r.
              let resp = (case r of
                    Inr body \<Rightarrow> resp\<lparr>w_sendErr := None, w_abiBody := body\<rparr>
                  | Inl e \<Rightarrow> resp\<lparr>w_sendErr := Some (send_error e)\<rparr>);
                  resp = resp\<lparr>w_trailers := parseTrailers (Header_Values (w_header resp) ''Trailer'')\<rparr>
              in finish (if code = StatusEarlyHints then resp else resp\<lparr>w_wroteHeaders := True\<rparr>))))))"

definition implicit_header :: "'w http_calls \<Rightarrow> responseWriter \<Rightarrow> ('w, responseWriter) comp" where
  "implicit_header host resp =
     (if \<not> w_wroteHeaders resp then WriteHeader host 200 resp else finish resp)"

definition rw_Write ::
  "'w http_calls \<Rightarrow> string \<Rightarrow> responseWriter \<Rightarrow> ('w, (nat \<times> goerr option) \<times> responseWriter) comp" where
  "rw_Write host p resp =
     (case w_sendErr resp of
        Some e \<Rightarrow> finish ((0, Some e), resp)
      | None \<Rightarrow>
          and_then (implicit_header host resp) (\<lambda>resp.
          and_then (HTTPBody_Write host (w_abiBody resp) p) (\<lambda>(n, err).
            case IsFastlyError err of (status, ok) \<Rightarrow>
              finish ((n, if ok \<and> status = FastlyStatusBadf then Some ErrClosed else err), resp))))"

definition TrailerPrefix :: string where "TrailerPrefix = ''Trailer:''"

text \<open>
  The trailer map that \<open>writeTrailers\<close> builds: prefixed header keys, then the declared names.  The
  order of the list means nothing; the loop that sends the trailers ranges over the map.
\<close>

definition trailer_map :: "responseWriter \<Rightarrow> Header" where
  "trailer_map resp =
     fold (\<lambda>h t. let v = Header_Values (w_header resp) h in
                  if 0 < length v then AList.update h v t else t)
       (w_trailers resp)
       (fold (\<lambda>h t. case cut_prefix h TrailerPrefix of (key, ok) \<Rightarrow>
                let v = Header_Values (w_header resp) h in
                if ok \<and> 0 < length v then AList.update key v t else t)
          (Header_Keys (w_header resp)) NewHeader)"

definition writeTrailers :: "'w http_calls \<Rightarrow> responseWriter \<Rightarrow> ('w, goerr + unit) comp" where
  "writeTrailers host resp =
     (\<lambda>w. drop_error
       (run_each (\<lambda>(k, v). HTTPBody_TrailerAppend host (w_abiBody resp) k (hd v)) (map_range host w (trailer_map resp)))
       (finish (Inr ())) w)"

definition rw_Close :: "'w http_calls \<Rightarrow> responseWriter \<Rightarrow> ('w, goerr option \<times> responseWriter) comp" where
  "rw_Close host resp =
     (case w_sendErr resp of
        Some e \<Rightarrow> finish (Some e, resp)
      | None \<Rightarrow>
          and_then (implicit_header host resp) (\<lambda>resp.
          if w_closed resp then finish (None, resp)
          else
            let resp = resp\<lparr>w_closed := True\<rparr> in
            and_then (writeTrailers host resp) (\<lambda>r.
              case r of
                Inl e \<Rightarrow> finish (Some e, resp)
              | Inr _ \<Rightarrow>
                  and_then (HTTPBody_Close host (w_abiBody resp)) (\<lambda>r.
                    finish (case r of Inl e \<Rightarrow> Some e | Inr _ \<Rightarrow> None, resp)))))"

definition SetManualFramingMode :: "bool \<Rightarrow> responseWriter \<Rightarrow> responseWriter" where
  "SetManualFramingMode mode resp = resp\<lparr>w_ManualFramingMode := mode\<rparr>"

definition rw_Append ::
  "'w http_calls \<Rightarrow> 'b ReadCloser \<Rightarrow> responseWriter \<Rightarrow> ('w, goerr option \<times> responseWriter) comp" where
  "rw_Append host other resp =
     (case w_sendErr resp of
        Some e \<Rightarrow> finish (Some e, resp)
      | None \<Rightarrow>
          and_then (implicit_header host resp) (\<lambda>resp.
          case other of
            OtherBody _ \<Rightarrow>
              finish (Some (Text ''non-Response Body passed to ResponseWriter.Append''), resp)
          | AbiBody otherAbiBody \<Rightarrow>
              and_then (HTTPBody_Append host (w_abiBody resp) otherAbiBody) (\<lambda>r.
                finish (case r of Inl e \<Rightarrow> Some e | Inr _ \<Rightarrow> None, resp))))"

end
