(* ===== verification/WorldRelations.thy ===== *)
theory WorldRelations
  imports HttpCacheABI
begin

text \<open>
  What a computation may do to the world: \<open>keeps R m\<close> says that every run of \<open>m\<close> that returns
  relates the world before to the world after by \<open>R\<close>.  For a reflexive and transitive \<open>R\<close> the
  combinators and the loops of the SDK keep \<open>R\<close> when the calls they make do; the lemmas are
  proved once in the locale \<open>world_relation\<close>.
\<close>

section \<open>Keeping a relation\<close>

definition keeps :: "('w \<Rightarrow> 'w \<Rightarrow> bool) \<Rightarrow> ('w, 'a) comp \<Rightarrow> bool" where
  "keeps R m \<longleftrightarrow> (\<forall>w r w'. m w = Some (r, w') \<longrightarrow> R w w')"

definition keeps_prog :: "('w \<Rightarrow> 'w \<Rightarrow> bool) \<Rightarrow> ('w, 'a) prog \<Rightarrow> bool" where
  "keeps_prog R p \<longleftrightarrow> (\<forall>w. R w (snd (p w)))"

lemma keepsD: "keeps R m \<Longrightarrow> m w = Some (r, w') \<Longrightarrow> R w w'"
  unfolding keeps_def by blast

lemma keepsI: "(\<And>w r w'. m w = Some (r, w') \<Longrightarrow> R w w') \<Longrightarrow> keeps R m"
  unfolding keeps_def by blast

lemma keeps_progD: "keeps_prog R p \<Longrightarrow> p w = (x, w') \<Longrightarrow> R w w'"
  unfolding keeps_prog_def by (metis snd_conv)

lemma keeps_hostcall: "keeps_prog R p \<Longrightarrow> keeps R (hostcall p)"
  by (rule keepsI) (auto simp: hostcall_def dest: keeps_progD split: prod.splits)

lemma keeps_send_hostcall: "keeps_prog R p \<Longrightarrow> keeps R (send_hostcall p)"
  by (rule keepsI) (auto simp: send_hostcall_def dest: keeps_progD split: prod.splits)

locale world_relation =
  fixes R :: "'w \<Rightarrow> 'w \<Rightarrow> bool"
  assumes R_refl: "R w w"
    and R_trans: "R w w1 \<Longrightarrow> R w1 w2 \<Longrightarrow> R w w2"
begin

lemma keeps_pure: "keeps R (finish x)" "keeps R panic" "keeps R (of_outcome r)"
  by (auto simp: keeps_def R_refl)

lemma keeps_and_then:
  assumes m: "keeps R m" and k: "\<And>x. keeps R (k x)" shows "keeps R (and_then m k)"
proof (rule keepsI)
  fix w r w'
  assume "and_then m k w = Some (r, w')"
  then show "R w w'"
    by (auto simp: and_then_def split: option.splits outcome.splits prod.splits
        dest!: keepsD [OF m] keepsD [OF k] intro: R_trans)
qed

lemma keeps_try_c:
  "keeps R m \<Longrightarrow> (\<And>e. keeps R (h e)) \<Longrightarrow> (\<And>x. keeps R (k x)) \<Longrightarrow> keeps R (try_c m h k)"
  unfolding try_c_def by (rule keeps_and_then) (auto split: sum.splits)

lemma keeps_check_c: "keeps R m \<Longrightarrow> (\<And>x. keeps R (k x)) \<Longrightarrow> keeps R (check_c f m k)"
  unfolding check_c_def by (rule keeps_try_c) (auto intro: keeps_pure)

lemma keeps_drop_error: "keeps R m \<Longrightarrow> keeps R k \<Longrightarrow> keeps R (drop_error m k)"
  unfolding drop_error_def by (rule keeps_and_then)

lemma keeps_map_result: "keeps R m \<Longrightarrow> keeps R (map_result f m)"
  unfolding map_result_def by (rule keeps_check_c) (auto intro: keeps_pure)

lemma keeps_defer_c:
  assumes d: "keeps R d" and m: "keeps R m" shows "keeps R (defer_c d m)"
  by (rule keepsI) (auto simp: defer_c_def split: option.splits prod.splits
      dest!: keepsD [OF d] keepsD [OF m] intro: R_trans)

lemma keeps_for_each:
  assumes n: "\<And>it. keeps R (next it)" and b: "\<And>x a. keeps R (body x a)"
  shows "keeps R (for_each next bytes body it acc)"
proof -
  have "R w (snd y)"
    if "for_each next' bytes body' it acc w = Some y" "next' = next" "body' = body" for next' body' it acc w y
    using that
  proof (induction next' bytes body' it acc w y rule: for_each.raw_induct [rotated, consumes 1])
    case (1 self next' bytes body' it acc w y)
    from 1(2) show ?case
    proof (cases "next it w")
      case None
      with 1(2-4) show ?thesis by simp
    next
      case (Some p)
      obtain r w1 where p: "next it w = Some (r, w1)" using Some by (cases p) auto
      have R1: "R w w1" using keepsD [OF n p] .
      show ?thesis
      proof (cases r)
        case Panic
        with 1(2-4) p R1 show ?thesis by auto
      next
        case (Done gi)
        obtain got it' where gi: "gi = (got, it')" by force
        show ?thesis
        proof (cases got)
          case False
          with 1(2-4) p R1 Done gi show ?thesis by auto
        next
          case True
          with 1(2-4) p Done gi obtain r2 w2 where b2: "body (bytes it') acc w1 = Some (r2, w2)"
            by (auto split: option.splits)
          have R2: "R w w2" using R_trans [OF R1 keepsD [OF b b2]] .
          show ?thesis
          proof (cases "\<exists>a. r2 = Done (Inr a)")
            case True
            then obtain acc' where r2: "r2 = Done (Inr acc')" by blast
            with 1(2-4) p Done gi \<open>got\<close> b2 have "self next' bytes body' it' acc' w2 = Some y" by simp
            from R_trans [OF R2 1(1) [OF this 1(3,4)]] show ?thesis .
          next
            case False
            with 1(2-4) p Done gi \<open>got\<close> b2 R2 show ?thesis
              by (cases r2) (auto split: sum.splits)
          qed
        qed
      qed
    qed
  qed
  then show ?thesis by (intro keepsI) fastforce
qed

lemma keeps_nextValue:
  assumes f: "\<And>cap cur. keeps_prog R (f cap cur)"
  shows "keeps R (nextValue f v)"
proof -
  have "R w (snd y)" if "nextValue f' v w = Some y" "f' = f" for f' v w y
    using that
  proof (induction f' v w y rule: nextValue.raw_induct [rotated, consumes 1])
    case (1 self f' v w y)
    obtain r w1 where c: "f (wb_Cap (NewWriteBufferFromBytes (v_buffer v))) (v_cursor v) w = (r, w1)" by force
    have R1: "R w w1" using keeps_progD [OF f c] .
    show ?case using 1(2,3) c R1 1(1) [of f' _ w1 y] R_trans [OF R1]
      by (auto simp: Let_def split: if_splits option.splits outcome.splits)
  qed
  then show ?thesis by (intro keepsI) fastforce
qed

lemma keeps_Values_Next:
  "(\<And>cap cur. keeps_prog R (f cap cur)) \<Longrightarrow> keeps R (Values_Next f v)"
  unfolding Values_Next_def
  by (auto intro!: keeps_pure keeps_and_then keeps_nextValue)

lemma keeps_withAdaptiveBuffer:
  assumes f: "\<And>cap. keeps_prog R (f cap)" and "withAdaptiveBuffer n f w = Some y"
  shows "R w (snd y)"
proof -
  have "R w (snd y)" if "withAdaptiveBuffer n f' w = Some y" "f' = f" for n f' w y
    using that
  proof (induction n f' w y rule: withAdaptiveBuffer.raw_induct [rotated, consumes 1])
    case (1 self n f' w y)
    obtain r w1 where c: "f (wb_Cap (NewWriteBuffer n)) w = (r, w1)" by force
    have R1: "R w w1" using keeps_progD [OF f c] .
    show ?case using 1(2,3) c R1 1(1) [of _ f' w1 y] R_trans [OF R1]
      by (auto simp: Let_def split: if_splits option.splits)
  qed
  then show ?thesis using assms(2) by blast
qed

lemma keeps_buffered:
  assumes "\<And>cap. keeps_prog R (f cap)" shows "keeps R (buffered n f)"
proof (rule keepsI)
  fix w r w'
  assume "buffered n f w = Some (r, w')"
  then obtain y where "withAdaptiveBuffer n f w = Some (y, w')"
    by (auto simp: buffered_def split: option.splits prod.splits sum.splits outcome.splits)
  from keeps_withAdaptiveBuffer [OF assms this] show "R w w'" by simp
qed

lemma keeps_suggested:
  assumes f: "\<And>h r m v s. keeps_prog R (c_get_suggested_cache_options cache h r m v s)"
  shows "keeps R (suggested_from cache h r m v s)"
proof -
  have "R w (snd y)" if "suggested_from cache' h r m v s w = Some y" "cache' = cache" for cache' h r m v s w y
    using that
  proof (induction cache' h r m v s w y rule: suggested_from.raw_induct [rotated, consumes 1])
    case (1 self cache' h r m v s w y)
    obtain out w1 where c: "c_get_suggested_cache_options cache h r m (of_nat v) (of_nat s) w = (out, w1)" by force
    have R1: "R w w1" using keeps_progD [OF f c] .
    show ?case using 1(2,3) c R1 1(1) [of cache' _ _ _ _ _ w1 y] R_trans [OF R1]
      by (auto split: if_splits option.splits)
  qed
  then show ?thesis by (intro keepsI) fastforce
qed

lemma keeps_read_values:
  "(\<And>k cap cur. keeps_prog R (vals_call k cap cur)) \<Longrightarrow> keeps R (read_values what n vals_call k h)"
  unfolding read_values_def
  by (intro keeps_and_then keeps_for_each keeps_Values_Next)
    (auto intro!: keeps_pure split: sum.splits option.splits)

lemma keeps_read_headers:
  "(\<And>cap cur. keeps_prog R (names_call cap cur)) \<Longrightarrow> (\<And>k cap cur. keeps_prog R (vals_call k cap cur)) \<Longrightarrow>
   keeps R (read_headers what n m names_call vals_call)"
  unfolding read_headers_def
  by (intro keeps_and_then keeps_for_each keeps_Values_Next keeps_read_values)
    (auto intro!: keeps_pure split: sum.splits option.splits)

end

end
