(* ===== verification/Serving.thy ===== *)
theory Serving
  imports SendRules ResponseWriter WorldRelations
begin

text \<open>
  Serving: the request of a client (\<open>newClientRequest\<close> and what \<open>fsthttp/request.go\<close>, \<open>bot.go\<close> and
  \<open>resvpnproxy.go\<close> tell about it), and the loops of \<open>fsthttp/handle.go\<close> that serve one or many
  requests.
\<close>

section \<open>Addresses as text\<close>

text \<open>
  \<open>net.IP.String\<close>: four bytes (also embedded in sixteen) in dotted form, sixteen in hexadecimal
  groups, with the first longest run of at least two zero groups written as \<open>::\<close>.
\<close>

definition ip4_text :: "string \<Rightarrow> string" where
  "ip4_text ip = concat (map (\<lambda>i. (if i = 0 then [] else ''.'') @ nat_str (byte (ip ! i))) [0..<4])"

fun ip_groups :: "string \<Rightarrow> nat list" where
  "ip_groups (a # b # rest) = (256 * byte a + byte b) # ip_groups rest"
| "ip_groups _ = []"

fun hex_digits :: "nat \<Rightarrow> nat \<Rightarrow> string" where
  "hex_digits 0 n = []"
| "hex_digits (Suc k) n = (if n < 16 then [hex_digit n] else hex_digits k (n div 16) @ [hex_digit (n mod 16)])"

definition group_text :: "nat \<Rightarrow> string" where "group_text n = hex_digits 4 n"

definition zero_run :: "nat list \<Rightarrow> nat \<Rightarrow> nat" where
  "zero_run gs i = length (takeWhile (\<lambda>g. g = 0) (drop i gs))"

definition longest_run :: "nat list \<Rightarrow> nat \<times> nat" where
  "longest_run gs =
     fold (\<lambda>i (start, n). if n < zero_run gs i then (i, zero_run gs i) else (start, n)) [0..<length gs] (0, 1)"

fun join_groups :: "nat list \<Rightarrow> string" where
  "join_groups [] = []"
| "join_groups [g] = group_text g"
| "join_groups (g # gs) = group_text g @ '':'' @ join_groups gs"

definition ip6_text :: "string \<Rightarrow> string" where
  "ip6_text ip =
     (let gs = ip_groups ip; (start, n) = longest_run gs
      in if n < 2 then join_groups gs
         else join_groups (take start gs) @ ''::'' @ join_groups (drop (start + n) gs))"

definition v4_prefix :: string where
  "v4_prefix = replicate 10 (CHR 0x00) @ replicate 2 (CHR 0xFF)"

definition IP_String :: "string \<Rightarrow> string" where
  "IP_String ip =
     (if ip = [] then ''<nil>''
      else if length ip = 4 then ip4_text ip
      else if length ip = 16 then (if take 12 ip = v4_prefix then ip4_text (drop 12 ip) else ip6_text ip)
      else ''?'' @ hex_encode ip)"

section \<open>The client's request\<close>

definition downstream_tls ::
  "'w downstream_calls \<Rightarrow> handle \<Rightarrow> ('w, goerr + TLSInfo) comp" where
  "downstream_tls ds h =
     check_c (annotate ''get TLS protocol'') (DownstreamTLSProtocol ds h) (\<lambda>protocol.
     check_c (annotate ''get TLS client hello'') (DownstreamTLSClientHello ds h) (\<lambda>hello.
     check_c (annotate ''get TLS client servername'') (DownstreamTLSClientServername ds h) (\<lambda>sni.
     check_c (annotate ''get TLS cipher name'') (DownstreamTLSCipherOpenSSLName ds h) (\<lambda>cipher.
     check_c (annotate ''get TLS JA3 MD5'') (DownstreamTLSJA3MD5 ds h) (\<lambda>ja3.
     check_c (annotate ''get TLS JA4'') (DownstreamTLSJA4 ds h) (\<lambda>ja4.
     finish (Inr \<lparr>tls_Protocol = protocol, tls_ClientHello = hello, tls_ClientSNI = sni,
                 tls_CipherOpenSSLName = cipher, tls_JA3MD5 = ja3, tls_JA4 = ja4\<rparr>)))))))"

text \<open>
  What the functions of this theory call: the host, \<open>_parseRequestURI\<close>, which a program may set,
  the environment and the time since serving began, and the wait for revalidations that
  requests have started in the background.
\<close>

record 'w serving =
  v_http :: "'w http_calls"
  v_req :: "'w request_calls"
  v_down :: "'w downstream_calls"
  v_parse :: "string \<Rightarrow> goerr + URL"
  v_getenv :: "string \<Rightarrow> string"
  v_since :: "('w, Duration) prog"
  v_wait :: "('w, unit) comp"

definition client_request ::
  "handle \<Rightarrow> HTTPBody \<Rightarrow> string \<Rightarrow> URL \<Rightarrow> string \<times> int \<times> int \<Rightarrow> Header \<Rightarrow> string \<Rightarrow> string \<Rightarrow> TLSInfo \<Rightarrow>
   ('b, 'k, 'i) Request" where
  "client_request abiReq abiReqBody method u version header remoteAddr serverAddr tlsInfo =
     (request_with method u header (Some (AsCloser (HostReader abiReqBody))) (u_Host u))
       \<lparr>q_Proto := fst version, q_ProtoMajor := fst (snd version), q_ProtoMinor := snd (snd version),
        q_RemoteAddr := IP_String remoteAddr, q_ServerAddr := IP_String serverAddr, q_TLSInfo := tlsInfo,
        q_downstream_req := Some abiReq, q_downstream_body := Some abiReqBody\<rparr>"

definition newClientRequest ::
  "'w serving \<Rightarrow> handle \<Rightarrow> HTTPBody \<Rightarrow> ('w, goerr + ('b, 'k, 'i) Request) comp" where
  "newClientRequest env abiReq abiReqBody =
     check_c (annotate ''get method'') (HTTPRequest_GetMethod (v_http env) abiReq) (\<lambda>method.
     check_c (annotate ''get URI'') (HTTPRequest_GetURI (v_http env) abiReq) (\<lambda>uri.
     check_c (annotate ''parse URI'') (finish (v_parse env uri)) (\<lambda>u.
     check_c (annotate ''get protocol version'') (HTTPRequest_GetVersion (v_req env) abiReq) (\<lambda>version.
     check_c id
       (read_headers ''header'' DefaultMediumBufLen DefaultLargeBufLen
          (rq_header_names_get (v_req env) abiReq) (rq_header_values_get (v_req env) abiReq)) (\<lambda>(keysErr, header).
     case keysErr of
       Some e \<Rightarrow> finish (Inl (annotate ''read header keys'' e))
     | None \<Rightarrow>
     check_c (annotate ''get client IP'') (DownstreamClientIPAddr (v_down env) abiReq) (\<lambda>remoteAddr.
     check_c (annotate ''get server IP'') (DownstreamServerIPAddr (v_down env) abiReq) (\<lambda>serverAddr.
     check_c id
       (if u_Scheme u = ''https'' then downstream_tls (v_down env) abiReq else finish (Inr zero_tls_info)) (\<lambda>tlsInfo.
     finish (Inr (client_request abiReq abiReqBody method u version header remoteAddr serverAddr tlsInfo))))))))))"

text \<open>\<open>FastlyMeta\<close> and \<open>TLSClientCertificateInfo\<close> keep what they read in the request.\<close>

definition downstream_meta ::
  "'w serving \<Rightarrow> FastlyMeta \<Rightarrow> handle \<Rightarrow> ('w, goerr + FastlyMeta) comp" where
  "downstream_meta env m h =
     check_c (annotate ''get request ID'') (DownstreamRequestID (v_down env) h) (\<lambda>rid.
     check_c (annotate ''get H2 fingerprint'')
       (tolerate ignoreNoneError [] (DownstreamH2Fingerprint (v_down env) h)) (\<lambda>h2.
     check_c (annotate ''get OH fingerprint'')
       (tolerate ignoreNoneError [] (DownstreamOHFingerprint (v_down env) h)) (\<lambda>oh.
     check_c (annotate ''get ddos detected'') (DownstreamDDOSDetected (v_down env) h) (\<lambda>ddos.
     check_c (annotate ''get fastly key is valid'') (DownstreamFastlyKeyIsValid (v_down env) h) (\<lambda>valid.
     finish (Inr (m\<lparr>fm_RequestID := rid, fm_H2 := h2, fm_OH := oh, fm_DDOSDetected := ddos,
                    fm_FastlyKeyIsValid := valid\<rparr>)))))))"

definition Request_FastlyMeta ::
  "'w serving \<Rightarrow> ('b, 'k, 'i) Request \<Rightarrow> ('w, (goerr + FastlyMeta) \<times> ('b, 'k, 'i) Request) comp" where
  "Request_FastlyMeta env req =
     (case q_fastlyMeta req of
        Some m \<Rightarrow> finish (Inr m, req)
      | None \<Rightarrow>
          let m = \<lparr>fm_SandboxID = v_getenv env ''FASTLY_TRACE_ID'', fm_RequestID = [], fm_H2 = [], fm_OH = [],
                   fm_DDOSDetected = False, fm_FastlyKeyIsValid = False,
                   fm_SandboxRequests = q_sandboxRequests req\<rparr>
          in fallible id
               (case q_downstream_req req of None \<Rightarrow> finish (Inr m) | Some h \<Rightarrow> downstream_meta env m h) req (\<lambda>m.
             finish (Inr m, req\<lparr>q_fastlyMeta := Some m\<rparr>)))"

definition downstream_certificate ::
  "'w serving \<Rightarrow> handle \<Rightarrow> ('w, goerr + TLSClientCertificateInfo) comp" where
  "downstream_certificate env h =
     check_c (annotate ''get TLS raw client certificate'')
       (tolerate ignoreNoneError None (map_result Some (DownstreamTLSRawClientCertificate (v_down env) h))) (\<lambda>raw.
     if raw = None then finish (Inr \<lparr>tc_RawClientCertificate = None, tc_VerifyResult = 0\<rparr>)
     else check_c (annotate ''get TLS client certificate verify'')
            (DownstreamTLSClientCertVerifyResult (v_down env) h) (\<lambda>v.
          finish (Inr \<lparr>tc_RawClientCertificate = raw, tc_VerifyResult = v\<rparr>)))"

definition Request_TLSClientCertificateInfo ::
  "'w serving \<Rightarrow> ('b, 'k, 'i) Request \<Rightarrow> ('w, (goerr + TLSClientCertificateInfo) \<times> ('b, 'k, 'i) Request) comp" where
  "Request_TLSClientCertificateInfo env req =
     (case q_clientCertificate req of
        Some cert \<Rightarrow> finish (Inr cert, req)
      | None \<Rightarrow>
          fallible id
            (case q_downstream_req req of
               None \<Rightarrow> finish (Inr \<lparr>tc_RawClientCertificate = None, tc_VerifyResult = 0\<rparr>)
             | Some h \<Rightarrow> downstream_certificate env h) req (\<lambda>cert.
          finish (Inr cert, req\<lparr>q_clientCertificate := Some cert\<rparr>)))"

text \<open>The names of the verification results (\<open>internal/abi/fastly/types.go\<close>).\<close>

definition ClientCertificateVerifyResult_String :: "u32 \<Rightarrow> string" where
  "ClientCertificateVerifyResult_String c =
     (if c = 0 then ''Ok'' else if c = 1 then ''Bad Certificate'' else if c = 2 then ''Certificate Revoked''
      else if c = 3 then ''Certificate Expired'' else if c = 4 then ''Unknown CA''
      else if c = 5 then ''Certificate Missing'' else if c = 6 then ''Certificate Unknown''
      else ''Unknown result'')"

subsection \<open>Handing the request over\<close>

definition ErrHandoffNotSupported :: goerr where
  "ErrHandoffNotSupported = Sentinel ''fsthttp'' ''handoff not supported on this request''"

definition Request_HandoffWebsocket ::
  "'w request_calls \<Rightarrow> string \<Rightarrow> ('b, 'k, 'i) Request \<Rightarrow> ('w, goerr + unit) comp" where
  "Request_HandoffWebsocket rq backend r =
     (case q_downstream_req r of
        None \<Rightarrow> finish (Inl ErrHandoffNotSupported) | Some h \<Rightarrow> HTTPRequest_HandoffWebsocket rq h backend)"

definition Request_HandoffFanout ::
  "'w request_calls \<Rightarrow> string \<Rightarrow> ('b, 'k, 'i) Request \<Rightarrow> ('w, goerr + unit) comp" where
  "Request_HandoffFanout rq backend r =
     (case q_downstream_req r of
        None \<Rightarrow> finish (Inl ErrHandoffNotSupported) | Some h \<Rightarrow> HTTPRequest_HandoffFanout rq h backend)"

subsection \<open>Inspection\<close>

record InspectOptions =
  io_Corp :: string
  io_Workspace :: string
  io_OverrideClientIP :: string

record inspectJSON =
  ij_WafResponse :: int
  ij_RedirectURL :: string
  ij_Tags :: "string list"
  ij_Verdict :: string
  ij_DecisionMs :: int

record InspectResponse =
  ir_StatusCode :: int
  ir_RedirectURL :: string
  ir_Tags :: "string list"
  ir_Verdict :: string
  ir_DecisionTime :: Duration

definition IsRedirect :: "InspectResponse \<Rightarrow> bool" where
  "IsRedirect i \<longleftrightarrow> (300 \<le> ir_StatusCode i \<and> ir_StatusCode i \<le> 309) \<and> ir_RedirectURL i \<noteq> []"

definition inspect_info :: "InspectOptions option \<Rightarrow> InspectInfo" where
  "inspect_info opts =
     (case opts of
        None \<Rightarrow> zero_inspect_info
      | Some opts \<Rightarrow>
          let info = zero_inspect_info;
              info = (if io_Corp opts \<noteq> [] then in_Corp (io_Corp opts) info else info);
              info = (if io_Workspace opts \<noteq> [] then in_Workspace (io_Workspace opts) info else info)
          in if io_OverrideClientIP opts \<noteq> [] then in_OverrideClientIP (io_OverrideClientIP opts) info else info)"

text \<open>
  \<open>json.Unmarshal\<close> into the fields of \<open>inspectJSON\<close> is a parameter; the product of two 64-bit
  integers wraps around.
\<close>

definition Request_Inspect ::
  "'w request_calls \<Rightarrow> (string \<Rightarrow> goerr + inspectJSON) \<Rightarrow> InspectOptions option \<Rightarrow> ('b, 'k, 'i) Request \<Rightarrow>
   ('w, goerr + InspectResponse) comp" where
  "Request_Inspect rq unmarshal opts r =
     non_nil (q_downstream_req r) (\<lambda>h.
     non_nil (q_downstream_body r) (\<lambda>body.
     check_c id (HTTPRequest_Inspect rq h (inspect_info opts) body) (\<lambda>b.
     check_c id (finish (unmarshal b)) (\<lambda>response.
     finish (Inr \<lparr>ir_StatusCode = ij_WafResponse response, ir_RedirectURL = ij_RedirectURL response,
       ir_Tags = ij_Tags response, ir_Verdict = ij_Verdict response,
       ir_DecisionTime = sint (of_int (Millisecond * ij_DecisionMs response) :: u64)\<rparr>)))))"

section \<open>Bots and proxies\<close>

definition BotCategoryUnknown :: int where [simp]: "BotCategoryUnknown = -1"

definition BotCategory_names :: "(int \<times> string) list" where
  "BotCategory_names =
     [(0, ''None''), (1, ''Suspected''), (2, ''Accessibility''), (3, ''AICrawler''), (4, ''AIFetcher''),
      (5, ''ContentFetcher''), (6, ''MonitoringSiteTools''), (7, ''OnlineMarketing''), (8, ''PagePreview''),
      (9, ''PlatformIntegrations''), (10, ''Research''), (11, ''SearchEngineCrawler''),
      (12, ''SearchEngineSpecialization''), (13, ''SecurityTools''), (14, ''Headless'')]"

definition BotCategory_String :: "int \<Rightarrow> string" where
  "BotCategory_String c = (case map_of BotCategory_names c of Some s \<Rightarrow> s | None \<Rightarrow> ''Unknown'')"

record BotDetectionResult =
  bd_Analyzed :: bool
  bd_Detected :: bool
  bd_Name :: string
  bd_CategoryName :: string
  bd_Category :: int
  bd_Verified :: bool

definition zero_bot_result :: BotDetectionResult where
  "zero_bot_result = \<lparr>bd_Analyzed = False, bd_Detected = False, bd_Name = [], bd_CategoryName = [],
     bd_Category = 0, bd_Verified = False\<rparr>"

definition value_or :: "'a \<Rightarrow> goerr + 'a \<Rightarrow> 'a" where
  "value_or z r = (case r of Inl e \<Rightarrow> z | Inr x \<Rightarrow> x)"

definition first_error :: "goerr option \<Rightarrow> goerr + 'a \<Rightarrow> goerr option" where
  "first_error firstError r = (if firstError = None then error_of r else firstError)"

text \<open>
  The result and the first error, which come together.  The category of a failed call is
  \<open>BotCategoryUnknown\<close> only when it is the first error; otherwise it is the zero the call returned.
\<close>

definition BotDetection ::
  "'w downstream_calls \<Rightarrow> ('b, 'k, 'i) Request \<Rightarrow> ('w, BotDetectionResult \<times> goerr option) comp" where
  "BotDetection ds r =
     non_nil (q_downstream_req r) (\<lambda>h.
     try_c (DownstreamBotAnalyzed ds h) (\<lambda>e. finish (zero_bot_result, Some e)) (\<lambda>analyzed.
     let result = zero_bot_result\<lparr>bd_Analyzed := analyzed\<rparr> in
     if \<not> analyzed then finish (result, None)
     else try_c (DownstreamBotDetected ds h) (\<lambda>e. finish (zero_bot_result, Some e)) (\<lambda>detected.
     let result = result\<lparr>bd_Detected := detected\<rparr> in
     if \<not> detected then finish (result, None)
     else and_then (DownstreamBotName ds h) (\<lambda>name.
          let firstError = error_of name in
          and_then (DownstreamBotCategoryName ds h) (\<lambda>categoryName.
          let firstError = first_error firstError categoryName in
          and_then (DownstreamBotCategory ds h) (\<lambda>kind.
          let category = (if firstError = None \<and> error_of kind \<noteq> None then BotCategoryUnknown
                          else uint (value_or 0 kind));
              firstError = first_error firstError kind in
          and_then (DownstreamBotVerified ds h) (\<lambda>verified.
          finish (result\<lparr>bd_Name := value_or [] name, bd_CategoryName := value_or [] categoryName,
                    bd_Category := category, bd_Verified := value_or False verified\<rparr>,
                  first_error firstError verified))))))))"

record ResVPNProxyResult =
  vp_Available :: bool
  vp_IsAnonymous :: bool
  vp_IsAnonymousVPN :: bool
  vp_IsHostingProvider :: bool
  vp_IsProxyOverVPN :: bool
  vp_IsPublicProxy :: bool
  vp_IsRelayProxy :: bool
  vp_IsResidentialProxy :: bool
  vp_IsSmartDNSProxy :: bool
  vp_IsTorExitNode :: bool
  vp_IsVPNDatacenter :: bool
  vp_VPNServiceName :: string

definition zero_vpn_result :: ResVPNProxyResult where
  "zero_vpn_result = \<lparr>vp_Available = False, vp_IsAnonymous = False, vp_IsAnonymousVPN = False,
     vp_IsHostingProvider = False, vp_IsProxyOverVPN = False, vp_IsPublicProxy = False, vp_IsRelayProxy = False,
     vp_IsResidentialProxy = False, vp_IsSmartDNSProxy = False, vp_IsTorExitNode = False,
     vp_IsVPNDatacenter = False, vp_VPNServiceName = []\<rparr>"

definition ResVPNProxyData ::
  "'w downstream_calls \<Rightarrow> ('b, 'k, 'i) Request \<Rightarrow> ('w, goerr + ResVPNProxyResult) comp" where
  "ResVPNProxyData ds r =
     (case q_downstream_req r of
        None \<Rightarrow> finish (Inl (Text ''downstream request not available''))
      | Some h \<Rightarrow>
          try_c (DownstreamResVPNProxyIsAnonymous ds h)
            (\<lambda>e. case IsFastlyError (Some e) of (status, ok) \<Rightarrow>
                   if ok \<and> status = FastlyStatusNone then finish (Inr zero_vpn_result)
                   else finish (Inl (annotate ''is_anonymous'' e)))
            (\<lambda>anonymous.
          check_c (annotate ''is_anonymous_vpn'') (DownstreamResVPNProxyIsAnonymousVPN ds h) (\<lambda>anonymousVPN.
          check_c (annotate ''is_hosting_provider'') (DownstreamResVPNProxyIsHostingProvider ds h) (\<lambda>hosting.
          check_c (annotate ''is_proxy_over_vpn'') (DownstreamResVPNProxyIsProxyOverVPN ds h) (\<lambda>overVPN.
          check_c (annotate ''is_public_proxy'') (DownstreamResVPNProxyIsPublicProxy ds h) (\<lambda>public.
          check_c (annotate ''is_relay_proxy'') (DownstreamResVPNProxyIsRelayProxy ds h) (\<lambda>relay.
          check_c (annotate ''is_residential_proxy'') (DownstreamResVPNProxyIsResidentialProxy ds h) (\<lambda>residential.
          check_c (annotate ''is_smart_dns_proxy'') (DownstreamResVPNProxyIsSmartDNSProxy ds h) (\<lambda>smartDNS.
          check_c (annotate ''is_tor_exit_node'') (DownstreamResVPNProxyIsTorExitNode ds h) (\<lambda>tor.
          check_c (annotate ''is_vpn_datacenter'') (DownstreamResVPNProxyIsVPNDatacenter ds h) (\<lambda>datacenter.
          check_c (annotate ''vpn_service_name'') (DownstreamResVPNProxyVPNServiceName ds h) (\<lambda>name.
          finish (Inr \<lparr>vp_Available = True, vp_IsAnonymous = anonymous, vp_IsAnonymousVPN = anonymousVPN,
            vp_IsHostingProvider = hosting, vp_IsProxyOverVPN = overVPN, vp_IsPublicProxy = public,
            vp_IsRelayProxy = relay, vp_IsResidentialProxy = residential, vp_IsSmartDNSProxy = smartDNS,
            vp_IsTorExitNode = tor, vp_IsVPNDatacenter = datacenter, vp_VPNServiceName = name\<rparr>)))))))))))))"

section \<open>Serving\<close>

text \<open>
  A handler answers the request through the response writer, which is returned.  The panics of
  the code are \<open>panic\<close>; their texts are left out.
\<close>

type_synonym ('w, 'b, 'k, 'i) handler = "('b, 'k, 'i) Request \<Rightarrow> responseWriter \<Rightarrow> ('w, responseWriter) comp"

definition or_panic :: "('w, goerr + 'a) comp \<Rightarrow> ('a \<Rightarrow> ('w, 'b) comp) \<Rightarrow> ('w, 'b) comp" where
  "or_panic m k = try_c m (\<lambda>e. panic) k"

definition serve ::
  "'w serving \<Rightarrow> ('w, 'b, 'k, 'i) handler \<Rightarrow> handle \<Rightarrow> HTTPBody \<Rightarrow> int \<Rightarrow> ('w, unit) comp" where
  "serve env h abireq abibody sandboxRequests =
     or_panic (newClientRequest env abireq abibody) (\<lambda>clientRequest.
     let clientRequest = clientRequest\<lparr>q_sandboxRequests := sandboxRequests\<rparr> in
     or_panic (newResponseWriter (v_http env)) (\<lambda>clientResponseWriter.
     and_then (h clientRequest clientResponseWriter) (\<lambda>clientResponseWriter.
     if w_sendErr clientResponseWriter \<noteq> None then panic
     else and_then (rw_Close (v_http env) clientResponseWriter) (\<lambda>_. finish ()))))"

definition Serve :: "'w serving \<Rightarrow> ('w, 'b, 'k, 'i) handler \<Rightarrow> ('w, unit) comp" where
  "Serve env h =
     or_panic (BodyDownstreamGet (v_req env)) (\<lambda>(abireq, abibody).
     and_then (serve env h abireq abibody 1) (\<lambda>_. v_wait env))"

record 'w ServeManyOptions =
  so_NextTimeout :: Duration
  so_MaxLifetime :: Duration
  so_MaxRequests :: int
  so_Continue :: "('w, bool) prog option"

text \<open>The conditions to go on before request number \<open>n\<close>, in their order.\<close>

definition serve_more :: "'w serving \<Rightarrow> 'w ServeManyOptions \<Rightarrow> int \<Rightarrow> ('w, bool) prog" where
  "serve_more env opts n =
     (if so_MaxRequests opts \<noteq> 0 \<and> so_MaxRequests opts < n then give False
      else
        let continue = (case so_Continue opts of None \<Rightarrow> give True | Some f \<Rightarrow> f)
        in if so_MaxLifetime opts \<noteq> 0
           then after (v_since env) (\<lambda>d. if so_MaxLifetime opts < d then give False else continue)
           else continue)"

text \<open>The next request, or none when the host has no more.\<close>

definition next_request ::
  "'w serving \<Rightarrow> 'w ServeManyOptions \<Rightarrow> ('w, (handle \<times> HTTPBody) option) comp" where
  "next_request env opts =
     (let o' = (if so_NextTimeout opts \<noteq> 0 then nr_Timeout (so_NextTimeout opts) zero_next_request_options
                else zero_next_request_options)
      in or_panic (DownstreamNextRequest (v_down env) o') (\<lambda>promise.
         try_c (HTTPRequestPromise_Wait (v_down env) promise)
           (\<lambda>e. case IsFastlyError (Some e) of (status, ok) \<Rightarrow>
                  if ok \<and> status = FastlyStatusNone then finish None else panic)
           (\<lambda>r. finish (Some r))))"

partial_function (option) serve_loop ::
  "'w serving \<Rightarrow> ('w, 'b, 'k, 'i) handler \<Rightarrow> 'w ServeManyOptions \<Rightarrow> int \<Rightarrow> 'w \<Rightarrow> (unit outcome \<times> 'w) option" where
  "serve_loop env h opts n w =
     (case serve_more env opts n w of (go, w1) \<Rightarrow>
        if \<not> go then Some (Done (), w1)
        else (case next_request env opts w1 of
          None \<Rightarrow> None
        | Some (Panic, w2) \<Rightarrow> Some (Panic, w2)
        | Some (Done None, w2) \<Rightarrow> Some (Done (), w2)
        | Some (Done (Some (abireq, abibody)), w2) \<Rightarrow>
            (case serve env h abireq abibody n w2 of
               None \<Rightarrow> None
             | Some (Panic, w3) \<Rightarrow> Some (Panic, w3)
             | Some (Done _, w3) \<Rightarrow> serve_loop env h opts (n + 1) w3)))"

definition ServeMany ::
  "'w serving \<Rightarrow> ('w, 'b, 'k, 'i) handler \<Rightarrow> 'w ServeManyOptions \<Rightarrow> ('w, unit) comp" where
  "ServeMany env h opts =
     or_panic (BodyDownstreamGet (v_req env)) (\<lambda>(abireq, abibody).
     and_then (serve env h abireq abibody 1) (\<lambda>_.
     and_then (serve_loop env h opts 2) (\<lambda>_. v_wait env)))"

subsection \<open>The requests of a host\<close>

text \<open>
  A host that has \<open>left\<close> more requests for this sandbox; \<open>served\<close> is the list of the request numbers
  that the handler was given.
\<close>

definition request_source :: "'w serving \<Rightarrow> ('w \<Rightarrow> nat) \<Rightarrow> ('w \<Rightarrow> int list) \<Rightarrow> bool" where
  "request_source env left served \<longleftrightarrow>
     (\<forall>w. \<exists>r b w'. rq_body_downstream_get (v_req env) w = ((FastlyStatusOK, r, b), w')
        \<and> left w' = left w \<and> served w' = served w)
     \<and> (\<forall>o' w. \<exists>p w'. ds_next_request (v_down env) o' w = ((FastlyStatusOK, p), w')
        \<and> left w' = left w \<and> served w' = served w)
     \<and> (\<forall>p w. \<exists>s r b w'. ds_next_request_wait (v_down env) p w = ((s, r, b), w')
        \<and> s = (if left w = 0 then FastlyStatusNone else FastlyStatusOK)
        \<and> left w' = left w - 1 \<and> served w' = served w)
     \<and> (\<forall>w. \<exists>w'. v_wait env w = Some (Done (), w') \<and> left w' = left w \<and> served w' = served w)"

lemma next_request_source:
  assumes "request_source env left served"
  shows "\<exists>r w'. next_request env opts w = Some (Done (if left w = 0 then None else Some r), w')
    \<and> left w' = left w - 1 \<and> served w' = served w"
proof -
  let ?o = "if so_NextTimeout opts \<noteq> 0 then nr_Timeout (so_NextTimeout opts) zero_next_request_options
            else zero_next_request_options"
  obtain p w1 where 1: "ds_next_request (v_down env) ?o w = ((FastlyStatusOK, p), w1)"
    "left w1 = left w" "served w1 = served w"
    using assms unfolding request_source_def by blast
  obtain s r b w2 where 2: "ds_next_request_wait (v_down env) p w1 = ((s, r, b), w2)"
    "s = (if left w1 = 0 then FastlyStatusNone else FastlyStatusOK)" "left w2 = left w1 - 1" "served w2 = served w1"
    using assms unfolding request_source_def by blast
  have "DownstreamNextRequest (v_down env) ?o w = Some (Done (Inr p), w1)"
    using 1 by (simp add: DownstreamNextRequest_def hostcall_ok)
  moreover have "HTTPRequestPromise_Wait (v_down env) p w1
      = Some (Done (if left w = 0 then Inl (FastlyError FastlyStatusNone None) else Inr (r, plain_body b)), w2)"
    using 1 2 by (simp add: HTTPRequestPromise_Wait_def map_result_def check_c_def try_c_def and_then_def
        hostcall_def toError_def)
  ultimately show ?thesis using 1 2
    by (auto simp: next_request_def or_panic_def Let_def try_c_Inr try_c_Inl IsFastlyError_def
        intro!: exI [of _ "(r, plain_body b)"])
qed

subsection \<open>Serving one request returns\<close>

text \<open>A computation that returns in every world, and relates the worlds by \<open>R\<close>.\<close>

definition settles :: "('w \<Rightarrow> 'w \<Rightarrow> bool) \<Rightarrow> ('w, 'a) comp \<Rightarrow> bool" where
  "settles R m \<longleftrightarrow> (\<forall>w. \<exists>x w'. m w = Some (Done x, w') \<and> R w w')"

lemma settles_hostcall: "keeps_prog R p \<Longrightarrow> settles R (hostcall p)"
  unfolding settles_def
proof
  fix w
  assume k: "keeps_prog R p"
  obtain s x w' where c: "p w = ((s, x), w')" by (metis surj_pair)
  with keeps_progD [OF k c] show "\<exists>x w'. hostcall p w = Some (Done x, w') \<and> R w w'" by (simp add: hostcall_def)
qed

context world_relation
begin

lemma settles_finish: "settles R (finish x)"
  by (simp add: settles_def R_refl)

lemma settles_and_then:
  assumes "settles R m" "\<And>x. settles R (k x)" shows "settles R (and_then m k)"
  unfolding settles_def
proof
  fix w
  obtain x w1 where 1: "m w = Some (Done x, w1)" "R w w1" using assms(1) unfolding settles_def by blast
  obtain y w2 where 2: "k x w1 = Some (Done y, w2)" "R w1 w2" using assms(2) unfolding settles_def by blast
  from 1 2 show "\<exists>y w2. and_then m k w = Some (Done y, w2) \<and> R w w2"
    by (auto simp: and_then_Done intro: R_trans)
qed

lemma settles_drop_error: "settles R m \<Longrightarrow> settles R k \<Longrightarrow> settles R (drop_error m k)"
  unfolding drop_error_def by (rule settles_and_then)

lemma settles_check_c: "settles R m \<Longrightarrow> (\<And>x. settles R (k x)) \<Longrightarrow> settles R (check_c f m k)"
  unfolding check_c_def try_c_def by (rule settles_and_then) (auto intro: settles_finish split: sum.splits)

lemma settles_run_each: "(\<And>k. settles R (f k)) \<Longrightarrow> settles R (run_each f ks)"
  by (induction ks) (auto intro: settles_finish settles_drop_error)

lemma settles_at: "(\<And>w. settles R (m w)) \<Longrightarrow> settles R (\<lambda>w. m w w)"
  unfolding settles_def by blast

end

text \<open>A host that makes responses and bodies, and whose calls for a writer keep \<open>R\<close>, whatever they answer.\<close>

definition writer_host :: "('w \<Rightarrow> 'w \<Rightarrow> bool) \<Rightarrow> 'w http_calls \<Rightarrow> bool" where
  "writer_host R host \<longleftrightarrow>
     (\<forall>w. \<exists>r w'. c_resp_new host w = ((FastlyStatusOK, r), w') \<and> R w w')
     \<and> (\<forall>w. \<exists>b w'. c_body_new host w = ((FastlyStatusOK, b), w') \<and> R w w')
     \<and> (\<forall>h m. keeps_prog R (c_resp_framing_headers_mode_set host h m))
     \<and> (\<forall>h s. keeps_prog R (c_resp_status_set host h s))
     \<and> (\<forall>h k v. keeps_prog R (c_resp_header_values_set host h k v))
     \<and> (\<forall>h b s. keeps_prog R (c_resp_send_downstream host h b s))
     \<and> (\<forall>h k v. keeps_prog R (c_body_trailer_append host h k v))
     \<and> (\<forall>h. keeps_prog R (c_body_close host h))"

context world_relation
begin

lemma settles_WriteHeader:
  assumes "writer_host R host" shows "settles R (WriteHeader host code rw)"
proof -
  note calls = assms [unfolded writer_host_def]
  have framing: "settles R (HTTPResponse_SetFramingHeadersMode host h m)" for h m
    unfolding HTTPResponse_SetFramingHeadersMode_def using calls by (intro settles_hostcall) blast
  have status: "settles R (HTTPResponse_SetStatusCode host h c)" for h c
    unfolding HTTPResponse_SetStatusCode_def using calls by (intro settles_hostcall) blast
  have header: "settles R (HTTPResponse_SetHeaderValues host h k vs)" for h k vs
    unfolding HTTPResponse_SetHeaderValues_def using calls by (intro settles_hostcall) blast
  have headers: "settles R (send_headers host skip rw)" for skip
    unfolding send_headers_def by (rule settles_run_each) (simp add: header settles_finish)
  have send: "settles R (HTTPResponse_SendDownstream host h b st)" for h b st
    unfolding HTTPResponse_SendDownstream_def
    by (rule settles_check_c, rule settles_hostcall) (use calls in \<open>auto intro: settles_finish\<close>)
  show ?thesis
    unfolding WriteHeader_def
    by (auto simp: Let_def intro!: settles_drop_error [OF framing] settles_drop_error [OF status] settles_drop_error [OF headers]
        settles_and_then [OF send] settles_finish)
qed

lemma settles_Close:
  assumes "writer_host R host" shows "settles R (rw_Close host rw)"
proof -
  have header: "settles R (implicit_header host rw)"
    using settles_WriteHeader [OF assms] by (auto simp: implicit_header_def intro: settles_finish)
  have trailers: "settles R (writeTrailers host rw')" for rw'
    unfolding writeTrailers_def HTTPBody_TrailerAppend_def
    by (rule settles_at, rule settles_drop_error [OF settles_run_each settles_finish])
      (use assms in \<open>auto simp: writer_host_def intro!: settles_hostcall\<close>)
  have close: "settles R (HTTPBody_Close host b)" for b
    using assms by (auto simp: HTTPBody_Close_def writer_host_def intro!: settles_finish settles_hostcall)
  show ?thesis
    unfolding rw_Close_def
    by (auto simp: Let_def intro!: settles_finish settles_and_then header trailers close split: option.splits sum.splits)
qed

lemma newResponseWriter_settles:
  assumes "writer_host R host"
  shows "\<exists>rw w'. newResponseWriter host w = Some (Done (Inr rw), w') \<and> R w w' \<and> w_sendErr rw = None"
proof -
  obtain r w1 where 1: "c_resp_new host w = ((FastlyStatusOK, r), w1)" "R w w1"
    using assms unfolding writer_host_def by blast
  obtain b w2 where 2: "c_body_new host w1 = ((FastlyStatusOK, b), w2)" "R w1 w2"
    using assms unfolding writer_host_def by blast
  from 1 2 show ?thesis
    by (auto simp: newResponseWriter_def NewHTTPResponse_def NewHTTPBody_def check_c_def try_c_def and_then_def hostcall_def
        toError_def intro: R_trans)
qed

end

subsection \<open>How many requests are served\<close>

definition same_count :: "('w \<Rightarrow> nat) \<Rightarrow> ('w \<Rightarrow> int list) \<Rightarrow> 'w \<Rightarrow> 'w \<Rightarrow> bool" where
  "same_count left served w w' \<longleftrightarrow> left w' = left w \<and> served w' = served w"

interpretation count: world_relation "same_count left served" for left :: "'w \<Rightarrow> nat" and served
  by unfold_locales (simp_all add: same_count_def)

text \<open>
  The host tells what it is asked of every client (\<open>client_host\<close> says what that takes), and the
  handler returns, with the writer in order, and is recorded.
\<close>

definition knows_clients :: "('w \<Rightarrow> 'w \<Rightarrow> bool) \<Rightarrow> 'w serving \<Rightarrow> ('b, 'k, 'i) Request itself \<Rightarrow> bool" where
  "knows_clients R env T \<longleftrightarrow>
     (\<forall>r b w. \<exists>q w'. newClientRequest env r b w = Some (Done (Inr (q :: ('b, 'k, 'i) Request)), w') \<and> R w w')"

definition handles_all :: "('w, 'b, 'k, 'i) handler \<Rightarrow> ('w \<Rightarrow> nat) \<Rightarrow> ('w \<Rightarrow> int list) \<Rightarrow> bool" where
  "handles_all h left served \<longleftrightarrow>
     (\<forall>q rw w. w_sendErr rw = None \<longrightarrow> (\<exists>rw' w'. h q rw w = Some (Done rw', w') \<and> w_sendErr rw' = None
        \<and> left w' = left w \<and> served w' = served w @ [q_sandboxRequests q]))"

lemma serve_serves:
  fixes h :: "('w, 'b, 'k, 'i) handler"
  assumes "writer_host (same_count left served) (v_http env)" "handles_all h left served"
    and "knows_clients (same_count left served) env TYPE(('b, 'k, 'i) Request)"
  shows "\<exists>w'. serve env h r b n w = Some (Done (), w') \<and> left w' = left w \<and> served w' = served w @ [n]"
proof -
  obtain q w1 where 1: "newClientRequest env r b w = Some (Done (Inr (q :: ('b, 'k, 'i) Request)), w1)"
    "same_count left served w w1"
    using assms(3) unfolding knows_clients_def by blast
  obtain rw w2 where 2: "newResponseWriter (v_http env) w1 = Some (Done (Inr rw), w2)" "same_count left served w1 w2"
    "w_sendErr rw = None"
    using count.newResponseWriter_settles [OF assms(1)] by blast
  obtain rw' w3 where 3: "h (q\<lparr>q_sandboxRequests := n\<rparr>) rw w2 = Some (Done rw', w3)" "w_sendErr rw' = None"
    "left w3 = left w2" "served w3 = served w2 @ [n]"
    using assms(2) [unfolded handles_all_def, rule_format, OF 2(3), of "q\<lparr>q_sandboxRequests := n\<rparr>" w2] by auto
  obtain e w4 where 4: "rw_Close (v_http env) rw' w3 = Some (Done e, w4)" "same_count left served w3 w4"
    using count.settles_Close [OF assms(1)] unfolding settles_def by blast
  from 1 2 3 4 show ?thesis
    by (auto simp: serve_def or_panic_def try_c_Inr Let_def and_then_Done same_count_def)
qed

text \<open>
  What the options allow when \<open>k\<close> requests have been served: \<open>age k\<close> is then the time since the
  start, and \<open>go k\<close> what \<open>Continue\<close> answers.
\<close>

definition permits :: "'w ServeManyOptions \<Rightarrow> (nat \<Rightarrow> Duration) \<Rightarrow> (nat \<Rightarrow> bool) \<Rightarrow> nat \<Rightarrow> bool" where
  "permits opts age go k \<longleftrightarrow>
     (so_MaxRequests opts = 0 \<or> int k < so_MaxRequests opts)
     \<and> (so_MaxLifetime opts = 0 \<or> age k \<le> so_MaxLifetime opts)
     \<and> (so_Continue opts = None \<or> go k)"

definition keeps_time ::
  "'w serving \<Rightarrow> 'w ServeManyOptions \<Rightarrow> ('w \<Rightarrow> nat) \<Rightarrow> ('w \<Rightarrow> int list) \<Rightarrow> (nat \<Rightarrow> Duration) \<Rightarrow> (nat \<Rightarrow> bool) \<Rightarrow> bool" where
  "keeps_time env opts left served age go \<longleftrightarrow>
     (\<forall>w. \<exists>w'. v_since env w = (age (length (served w)), w') \<and> same_count left served w w')
     \<and> (\<forall>f w. so_Continue opts = Some f \<longrightarrow> (\<exists>w'. f w = (go (length (served w)), w') \<and> same_count left served w w'))"

lemma serve_more_permits:
  assumes "keeps_time env opts left served age go"
  shows "\<exists>w'. serve_more env opts (int (length (served w)) + 1) w = (permits opts age go (length (served w)), w')
    \<and> same_count left served w w'"
proof -
  let ?k = "length (served w)"
  obtain w1 where since: "v_since env w = (age ?k, w1)" "same_count left served w w1"
    using assms unfolding keeps_time_def by blast
  have goes: "\<exists>w'. (case so_Continue opts of None \<Rightarrow> give True | Some f \<Rightarrow> f) w2
      = (so_Continue opts = None \<or> go ?k, w') \<and> same_count left served w w'" if "same_count left served w w2" for w2
  proof (cases "so_Continue opts")
    case (Some f)
    then obtain w3 where "f w2 = (go (length (served w2)), w3)" "same_count left served w2 w3"
      using assms unfolding keeps_time_def by blast
    with Some that show ?thesis by (auto simp: same_count_def)
  qed (use that in \<open>simp add: give_apply\<close>)
  show ?thesis
    using since goes [OF since(2)] goes [OF count.R_refl]
    by (auto simp: serve_more_def permits_def Let_def give_apply after_def count.R_refl)
qed

lemma serve_loop_serves:
  fixes h :: "('w, 'b, 'k, 'i) handler"
  assumes "request_source env left served" "keeps_time env opts left served age go"
    and serve: "\<And>r b n w. \<exists>w'. serve env h r b n w = Some (Done (), w') \<and> left w' = left w \<and> served w' = served w @ [n]"
    and "length (served w) = k"
  shows "\<exists>m w'. serve_loop env h opts (int k + 1) w = Some (Done (), w')
    \<and> served w' = served w @ map int [Suc k..<Suc m] \<and> k \<le> m \<and> m \<le> k + left w
    \<and> (\<forall>j. k \<le> j \<and> j < m \<longrightarrow> permits opts age go j) \<and> (m < k + left w \<longrightarrow> \<not> permits opts age go m)"
  using assms(4)
proof (induction "left w" arbitrary: k w)
  case 0
  obtain w1 where 1: "serve_more env opts (int k + 1) w = (permits opts age go k, w1)" "same_count left served w w1"
    using serve_more_permits [OF assms(2), of w] 0 by auto
  obtain w2 where 2: "next_request env opts w1 = Some (Done None, w2)" "served w2 = served w1"
    using next_request_source [OF assms(1), of opts w1] 0 1(2) by (auto simp: same_count_def)
  from 1 2 0 show ?case
    by (intro exI [of _ k]) (subst serve_loop.simps, auto simp: same_count_def)
next
  case (Suc l)
  obtain w1 where 1: "serve_more env opts (int k + 1) w = (permits opts age go k, w1)" "same_count left served w w1"
    using serve_more_permits [OF assms(2), of w] Suc(3) by auto
  show ?case
  proof (cases "permits opts age go k")
    case False
    with 1 show ?thesis
      by (intro exI [of _ k]) (subst serve_loop.simps, auto simp: same_count_def)
  next
    case True
    obtain rb w2 where 2: "next_request env opts w1 = Some (Done (Some rb), w2)" "left w2 = l" "served w2 = served w"
      using next_request_source [OF assms(1), of opts w1] Suc(2) [symmetric] 1(2) by (auto simp: same_count_def)
    obtain w3 where 3: "serve env h (fst rb) (snd rb) (int k + 1) w2 = Some (Done (), w3)" "left w3 = l"
      "served w3 = served w @ [int k + 1]"
      using serve [of "fst rb" "snd rb" "int k + 1" w2] 2 by auto
    have step: "serve_loop env h opts (int k + 1) w = serve_loop env h opts (int (Suc k) + 1) w3"
      using True 1 2 3 by (subst serve_loop.simps) (cases rb, simp add: add.commute add.left_commute)
    have "length (served w3) = Suc k" using 3 Suc(3) by simp
    from Suc(1) [OF 3(2) [symmetric] this] obtain m w' where
      m: "serve_loop env h opts (int (Suc k) + 1) w3 = Some (Done (), w')"
        "served w' = served w3 @ map int [Suc (Suc k)..<Suc m]" "Suc k \<le> m" "m \<le> Suc k + left w3"
        "\<forall>j. Suc k \<le> j \<and> j < m \<longrightarrow> permits opts age go j" "m < Suc k + left w3 \<longrightarrow> \<not> permits opts age go m"
      by blast
    have seq: "(int k + 1) # map int [Suc (Suc k)..<Suc m] = map int [Suc k..<Suc m]"
      using m(3) by (simp add: upt_conv_Cons [of "Suc k" "Suc m"] del: upt_Suc)
    have more: "\<forall>j. k \<le> j \<and> j < m \<longrightarrow> permits opts age go j"
      using m(5) True by (metis Suc_leI le_neq_implies_less)
    show ?thesis
      unfolding step using m 3 Suc(2) more
      by (intro exI [of _ m] exI [of _ w']) (simp add: seq [symmetric] del: upt_Suc)
  qed
qed

text \<open>
  C9: \<open>ServeMany\<close> serves as many requests as the host has and the options allow.  On a host that
  has \<open>left\<close> more requests for this sandbox and with a handler that returns, it returns, and the
  handler has been called for the requests number \<open>1, 2, \<dots>, m\<close> in order, one after the other:
  always for the first; then as long as fewer than \<open>MaxRequests\<close> were served (no bound when that
  is zero), the time since the start does not exceed \<open>MaxLifetime\<close> (when that is not zero),
  \<open>Continue\<close> says so (when it is given), and the host has another one; and it stops at the first
  of these that fails.
\<close>

theorem serve_many_serves:
  fixes h :: "('w, 'b, 'k, 'i) handler"
  assumes "request_source env left served" and "served w = []"
    and "writer_host (same_count left served) (v_http env)" and "handles_all h left served"
    and "knows_clients (same_count left served) env TYPE(('b, 'k, 'i) Request)"
    and "keeps_time env opts left served age go"
  shows "\<exists>m w'. ServeMany env h opts w = Some (Done (), w')
    \<and> served w' = map int [1..<Suc m] \<and> 1 \<le> m \<and> m \<le> 1 + left w
    \<and> (\<forall>k. 1 \<le> k \<and> k < m \<longrightarrow> permits opts age go k) \<and> (m < 1 + left w \<longrightarrow> \<not> permits opts age go m)"
proof -
  note serve = serve_serves [OF assms(3,4,5)]
  obtain r b w1 where 1: "rq_body_downstream_get (v_req env) w = ((FastlyStatusOK, r, b), w1)"
    "left w1 = left w" "served w1 = served w"
    using assms(1) unfolding request_source_def by blast
  obtain w2 where 2: "serve env h r (plain_body b) 1 w1 = Some (Done (), w2)" "left w2 = left w1"
    "served w2 = served w1 @ [1]"
    using serve by blast
  have "length (served w2) = 1" using 1 2 assms(2) by simp
  from serve_loop_serves [OF assms(1,6) serve this] obtain m w3 where
    3: "serve_loop env h opts 2 w2 = Some (Done (), w3)" "served w3 = served w2 @ map int [Suc 1..<Suc m]"
      "1 \<le> m" "m \<le> 1 + left w2"
      "\<forall>j. 1 \<le> j \<and> j < m \<longrightarrow> permits opts age go j" "m < 1 + left w2 \<longrightarrow> \<not> permits opts age go m"
    by auto
  obtain w4 where 4: "v_wait env w3 = Some (Done (), w4)" "served w4 = served w3"
    using assms(1) unfolding request_source_def by blast
  have "ServeMany env h opts w = Some (Done (), w4)"
    using 1 2 3 4
    by (simp add: ServeMany_def or_panic_def BodyDownstreamGet_def try_c_def and_then_def map_result_def check_c_def
        hostcall_def toError_def)
  moreover have "map int [1..<Suc m] = 1 # map int [Suc 1..<Suc m]"
    using 3(3) by (simp add: upt_conv_Cons [of "Suc 0" "Suc m"] del: upt_Suc)
  ultimately show ?thesis using 1 2 3 4 assms(2) by (intro exI [of _ m] exI [of _ w4]) simp
qed

section \<open>What a client request holds\<close>

text \<open>Computations that return a value with \<open>P\<close>, whatever the world.\<close>

definition reaches :: "('w, goerr + 'a) comp \<Rightarrow> ('a \<Rightarrow> bool) \<Rightarrow> bool" where
  "reaches m P \<longleftrightarrow> (\<forall>w. \<exists>x w'. m w = Some (Done (Inr x), w') \<and> P x)"

lemma reaches_yields: "yields m x \<Longrightarrow> P x \<Longrightarrow> reaches m P"
  unfolding reaches_def yields_def by blast

lemma reaches_finish: "P x \<Longrightarrow> reaches (finish (Inr x)) P"
  by (simp add: reaches_def)

lemma reaches_check_c:
  assumes "reaches m Q" "\<And>x. Q x \<Longrightarrow> reaches (k x) P" shows "reaches (check_c f m k) P"
  unfolding reaches_def
proof
  fix w
  obtain x w1 where "m w = Some (Done (Inr x), w1)" "Q x" using assms(1) unfolding reaches_def by blast
  with assms(2) [of x] show "\<exists>y w'. check_c f m k w = Some (Done (Inr y), w') \<and> P y"
    unfolding reaches_def by (auto simp: check_c_Inr)
qed

lemma reaches_check_yields: "yields m x \<Longrightarrow> reaches (k x) P \<Longrightarrow> reaches (check_c f m k) P"
  by (rule reaches_check_c [where Q = "\<lambda>y. y = x"]) (auto intro: reaches_yields)

text \<open>A call that writes an address or a digest into a buffer of known size.\<close>

definition sized_call :: "('w, buf_reply) prog \<Rightarrow> string \<Rightarrow> bool" where
  "sized_call p v \<longleftrightarrow> (\<forall>w. let r = fst (p w) in
     br_status r = FastlyStatusOK \<and> br_written r = v \<and> unat (br_nwritten r) = length v)"

lemma yields_sized_call:
  assumes "sized_call p v" "length v \<le> n" shows "yields (fixed_buffer n (\<lambda>_. p)) v"
  unfolding yields_def
proof
  fix w
  obtain r w' where c: "p w = (r, w')" by force
  with assms(1) have "br_status r = FastlyStatusOK" "br_written r = v" "unat (br_nwritten r) = length v"
    by (auto simp: sized_call_def Let_def dest!: spec [of _ w])
  with c assms(2) show "\<exists>w'. fixed_buffer n (\<lambda>_. p) w = Some (Done (Inr v), w')"
    by (simp add: fixed_buffer_def Let_def toError_def host_fill_def wb_ToString_def wb_AsBytes_def
        NewWriteBuffer_def zero_bytes_def)
qed

text \<open>What the host knows of a TLS connection.\<close>

definition tls_host :: "'w downstream_calls \<Rightarrow> handle \<Rightarrow> TLSInfo \<Rightarrow> bool" where
  "tls_host ds h info \<longleftrightarrow>
     value_host (ds_tls_protocol ds h) (tls_Protocol info) \<and> length (tls_Protocol info) \<le> DefaultSmallBufLen
     \<and> value_host (ds_tls_client_hello ds h) (tls_ClientHello info)
     \<and> value_host (ds_tls_client_servername ds h) (tls_ClientSNI info)
     \<and> value_host (ds_tls_cipher_openssl_name ds h) (tls_CipherOpenSSLName info)
     \<and> length (tls_CipherOpenSSLName info) \<le> DefaultSmallBufLen
     \<and> sized_call (ds_tls_ja3_md5 ds h) (tls_JA3MD5 info) \<and> length (tls_JA3MD5 info) \<le> 16
     \<and> value_host (ds_tls_ja4 ds h) (tls_JA4 info)"

lemma yields_downstream_tls: "tls_host ds h info \<Longrightarrow> yields (downstream_tls ds h) info"
  unfolding downstream_tls_def DownstreamTLSProtocol_def DownstreamTLSClientHello_def
    DownstreamTLSClientServername_def DownstreamTLSCipherOpenSSLName_def DownstreamTLSJA3MD5_def DownstreamTLSJA4_def
  by (cases info)
    (auto simp: tls_host_def DefaultSmallBufLen_def DefaultLargeBufLen_def
      intro!: yields_check_c [OF yields_fixed_buffer] yields_check_c [OF yields_buffered]
        yields_check_c [OF yields_sized_call] yields_finish)

definition client_host ::
  "'w serving \<Rightarrow> handle \<Rightarrow> string \<Rightarrow> string \<Rightarrow> HTTPVersion \<Rightarrow> (string \<times> string list) list \<Rightarrow> string \<Rightarrow> string \<Rightarrow> bool" where
  "client_host env h method uri v headers remote server \<longleftrightarrow>
     value_host (c_req_method_get (v_http env) h) method \<and> value_host (c_req_uri_get (v_http env) h) uri
     \<and> answers {} (rq_version_get (v_req env) h) (Some v)
     \<and> header_host (rq_header_names_get (v_req env) h) (rq_header_values_get (v_req env) h) headers
     \<and> sized_call (ds_client_ip_addr (v_down env) h) remote \<and> length remote \<le> ipBufLen
     \<and> sized_call (ds_server_ip_addr (v_down env) h) server \<and> length server \<le> ipBufLen"

text \<open>Each part of the request is read from the host in turn.\<close>

lemma client_request_reads:
  assumes host: "client_host env h method uri v headers remote server"
    and parse: "v_parse env uri = Inr u" and version: "splat v = Inr version"
    and tls: "u_Scheme u = ''https'' \<Longrightarrow> tls_host (v_down env) h info"
  shows "reaches (newClientRequest env h body) (\<lambda>req.
     q_Method req = method \<and> q_URL req = u \<and> q_Host req = u_Host u
     \<and> (q_Proto req, q_ProtoMajor req, q_ProtoMinor req) = version
     \<and> header_wf (q_Header req)
     \<and> (\<forall>k. Header_Values (q_Header req) k =
          concat (map snd (filter (\<lambda>(n, _). CanonicalHeaderKey k = CanonicalHeaderKey n) headers)))
     \<and> q_RemoteAddr req = IP_String remote \<and> q_ServerAddr req = IP_String server
     \<and> q_TLSInfo req = (if u_Scheme u = ''https'' then info else zero_tls_info)
     \<and> q_Body req = Some (AsCloser (HostReader body)) \<and> q_downstream_req req = Some h \<and> \<not> q_sent req)"
proof -
  let ?P = "\<lambda>(e, header). e = (None :: goerr option) \<and> header_wf header \<and> (\<forall>k. Header_Values header k =
          concat (map snd (filter (\<lambda>(n, _). CanonicalHeaderKey k = CanonicalHeaderKey n) headers)))"
  have headers: "reaches (read_headers ''header'' DefaultMediumBufLen DefaultLargeBufLen
       (rq_header_names_get (v_req env) h) (rq_header_values_get (v_req env) h)) ?P"
    unfolding reaches_def
    using read_headers_all [of "rq_header_names_get (v_req env) h" "rq_header_values_get (v_req env) h" headers
        DefaultMediumBufLen DefaultLargeBufLen "''header''"] host
    by (simp add: client_host_def DefaultMediumBufLen_def DefaultLargeBufLen_def)
  have version': "yields (HTTPRequest_GetVersion (v_req env) h) version"
    unfolding HTTPRequest_GetVersion_def
    by (rule yields_check_c [OF answers_Some]) (use host version in \<open>auto simp: client_host_def intro: yields_finish\<close>)
  have https: "u_Scheme u = ''https'' \<Longrightarrow> yields (downstream_tls (v_down env) h) info"
    using tls by (simp add: yields_downstream_tls)
  have http: "yields (finish (Inr zero_tls_info)) zero_tls_info" by (simp add: yields_finish)
  have parse': "yields (finish (v_parse env uri)) u" using parse by (simp add: yields_finish)
  show ?thesis
    unfolding newClientRequest_def HTTPRequest_GetMethod_def HTTPRequest_GetURI_def
      DownstreamClientIPAddr_def DownstreamServerIPAddr_def
    using host
    by (auto simp: client_host_def client_request_def request_with_def DefaultSmallBufLen_def DefaultMediumBufLen_def
        intro!: reaches_check_yields [OF yields_buffered] reaches_check_yields [OF parse']
          reaches_check_yields [OF version'] reaches_check_c [OF headers [unfolded DefaultMediumBufLen_def]]
          reaches_check_yields [OF yields_sized_call] reaches_check_yields [OF https] reaches_check_yields [OF http] reaches_finish)
qed

text \<open>
  C8: the request of a client holds what the host knows of it: the method, the parsed URI and
  its host, the version, every header value under its canonical name in the host's order,
  both addresses as text, and the TLS data exactly when the scheme is \<open>https\<close>; its body is the
  host's, and it has not been sent.
\<close>

theorem client_request_complete:
  assumes host: "client_host env h method uri v headers remote server"
    and parse: "v_parse env uri = Inr u" and version: "splat v = Inr version"
    and tls: "u_Scheme u = ''https'' \<Longrightarrow> tls_host (v_down env) h info"
  shows "reaches (newClientRequest env h body) (\<lambda>req.
     q_Method req = method \<and> q_URL req = u \<and> q_Host req = u_Host u
     \<and> (q_Proto req, q_ProtoMajor req, q_ProtoMinor req) = version
     \<and> header_wf (q_Header req)
     \<and> (\<forall>k. Header_Values (q_Header req) k =
          concat (map snd (filter (\<lambda>(n, _). CanonicalHeaderKey k = CanonicalHeaderKey n) headers)))
     \<and> q_RemoteAddr req = IP_String remote \<and> q_ServerAddr req = IP_String server
     \<and> q_TLSInfo req = (if u_Scheme u = ''https'' then info else zero_tls_info)
     \<and> q_Body req = Some (AsCloser (HostReader body)) \<and> q_downstream_req req = Some h \<and> \<not> q_sent req)"
  using assms by (rule client_request_reads)

section \<open>A host that serves\<close>

text \<open>A client on an unencrypted connection from 127.0.0.1, on a host that has as many more requests as the world says.\<close>

definition local_address :: string where
  "local_address = [CHR 0x7F, CHR 0x00, CHR 0x00, CHR 0x01]"

definition plain_url :: URL where
  "plain_url = \<lparr>u_Scheme = ''http'', u_Opaque = [], u_User = None, u_Host = ''example.com'', u_Path = ''/'',
     u_RawPath = [], u_ForceQuery = False, u_RawQuery = [], u_Fragment = [], u_RawFragment = []\<rparr>"

definition counting_env :: "(nat \<times> int list) serving" where
  "counting_env =
     \<lparr>v_http = accepting_host, v_req = accepting_requests,
      v_down = accepting_downstream
        \<lparr>ds_client_ip_addr := (\<lambda>h. one_value_host local_address 16),
         ds_next_request_wait := (\<lambda>p (k, l). ((if k = 0 then FastlyStatusNone else FastlyStatusOK, 1, 2), (k - 1, l)))\<rparr>,
      v_parse = (\<lambda>s. Inr plain_url), v_getenv = (\<lambda>s. []), v_since = (\<lambda>w. (0, w)), v_wait = finish ()\<rparr>"

lemma IP_String_local: "IP_String local_address = ''127.0.0.1''"
  by code_simp

lemma sized_one_value: "length v \<le> unat n \<Longrightarrow> length v < 2 ^ 32 \<Longrightarrow> sized_call (one_value_host v n) v"
  by (simp add: sized_call_def one_value_host_def unat_of_nat)

lemma counting_client_host:
  "client_host counting_env h ''GET'' ''/'' HTTPVersionHTTP11 [] local_address []"
  by (auto simp: client_host_def counting_env_def accepting_host_def accepting_requests_def accepting_downstream_def
      answers_def accept_def header_host_def ipBufLen_def local_address_def
      intro!: value_host_one_value_host multi_value_host_greedy sized_one_value)

theorem client_request_complete_witness:
  "\<exists>req w'. newClientRequest counting_env 1 (plain_body 2) (0, []) = Some (Done (Inr req), w')
     \<and> q_RemoteAddr req = ''127.0.0.1'' \<and> q_Method req = ''GET'' \<and> q_Proto req = ''HTTP/1.1''"
proof -
  have "v_parse counting_env ''/'' = Inr plain_url" "splat HTTPVersionHTTP11 = Inr (''HTTP/1.1'', 1, 1)"
    "u_Scheme plain_url \<noteq> ''https''"
    by (simp_all add: counting_env_def splat_def plain_url_def)
  from client_request_complete [of counting_env 1 _ _ _ _ _ _ _ _ zero_tls_info "plain_body 2",
      OF counting_client_host this(1,2)] this(3)
  have "reaches (newClientRequest counting_env 1 (plain_body 2)) (\<lambda>req.
      q_RemoteAddr req = ''127.0.0.1'' \<and> q_Method req = ''GET'' \<and> q_Proto req = ''HTTP/1.1'')"
    unfolding reaches_def IP_String_local by fastforce
  then show ?thesis unfolding reaches_def by blast
qed

text \<open>The calls of this host leave the world as it is.\<close>

interpretation still: world_relation "(=)"
  by unfold_locales simp_all

lemma still_calls: "keeps_prog (=) (accept x)" "keeps_prog (=) (one_value_host v n)" "keeps_prog (=) (greedy_host vs c k)"
  by (simp_all add: keeps_prog_def accept_def one_value_host_def greedy_host_def Let_def)

lemma still_fixed_buffer: "(\<And>c. keeps_prog (=) (f c)) \<Longrightarrow> keeps (=) (fixed_buffer n f)"
  by (rule keepsI) (auto simp: fixed_buffer_def Let_def dest: keeps_progD split: prod.splits option.splits outcome.splits)

lemma counting_calls:
  "v_http counting_env = accepting_host" "v_req counting_env = accepting_requests"
  "ds_client_ip_addr (v_down counting_env) = (\<lambda>h. one_value_host local_address 16)"
  "ds_server_ip_addr (v_down counting_env) = (\<lambda>h. one_value_host [] 16)"
  "c_req_method_get accepting_host = (\<lambda>h. one_value_host ''GET'')"
  "c_req_uri_get accepting_host = (\<lambda>h. one_value_host ''/'')"
  "rq_version_get accepting_requests = (\<lambda>h. accept HTTPVersionHTTP11)"
  "rq_header_names_get accepting_requests = (\<lambda>h. greedy_host [])"
  "rq_header_values_get accepting_requests = (\<lambda>h k. greedy_host [])"
  by (simp_all add: counting_env_def accepting_host_def accepting_requests_def accepting_downstream_def fun_eq_iff)

lemma still_downstream: "keeps (=) (downstream_tls (v_down counting_env) h)"
  unfolding downstream_tls_def DownstreamTLSProtocol_def DownstreamTLSClientHello_def
    DownstreamTLSClientServername_def DownstreamTLSCipherOpenSSLName_def DownstreamTLSJA3MD5_def DownstreamTLSJA4_def
  by (auto simp: counting_env_def accepting_downstream_def
      intro!: still.keeps_check_c still.keeps_buffered still.keeps_pure still_calls still_fixed_buffer)

lemma still_client_request: "keeps (=) (newClientRequest counting_env h b)"
  unfolding newClientRequest_def HTTPRequest_GetMethod_def HTTPRequest_GetURI_def HTTPRequest_GetVersion_def
    DownstreamClientIPAddr_def DownstreamServerIPAddr_def
  by (auto simp: counting_calls
      intro!: still.keeps_check_c still.keeps_buffered still.keeps_pure still.keeps_read_headers keeps_hostcall
        still_calls still_fixed_buffer still_downstream split: option.splits)

text \<open>A handler that answers nothing and records the number of its request.\<close>

definition counting_handler :: "(nat \<times> int list, unit, unit, unit) handler" where
  "counting_handler req rw = (\<lambda>(k, l). Some (Done rw, (k, l @ [q_sandboxRequests req])))"

text \<open>A clock that has run ten seconds for every request, and a \<open>Continue\<close> that asks for four.\<close>

definition ticking_env :: "(nat \<times> int list) serving" where
  "ticking_env = counting_env\<lparr>v_since := (\<lambda>(k, l). (int (length l) * 10 * Second, (k, l)))\<rparr>"

definition four_times :: "(nat \<times> int list, bool) prog" where
  "four_times = (\<lambda>(k, l). (length l < 4, (k, l)))"

lemma ticking_client: "newClientRequest ticking_env r b = newClientRequest counting_env r b"
  by (simp add: newClientRequest_def ticking_env_def cong: option.case_cong if_cong)

lemma counting_clients:
  "knows_clients (same_count fst snd) ticking_env TYPE((unit, unit, unit) Request)"
  unfolding knows_clients_def ticking_client
proof (intro allI)
  fix r b and w :: "nat \<times> int list"
  have parse: "v_parse counting_env ''/'' = Inr plain_url" and v: "splat HTTPVersionHTTP11 = Inr (''HTTP/1.1'', 1, 1)"
    and s: "u_Scheme plain_url \<noteq> ''https''"
    by (simp_all add: counting_env_def splat_def plain_url_def)
  obtain q w' where r: "newClientRequest counting_env r b w = Some (Done (Inr (q :: (unit, unit, unit) Request)), w')"
    using client_request_reads [of counting_env r _ _ _ _ _ _ _ _ zero_tls_info b, OF counting_client_host parse v] s
    unfolding reaches_def by (metis (no_types, lifting))
  with keepsD [OF still_client_request r]
  show "\<exists>q w'. newClientRequest counting_env r b w = Some (Done (Inr (q :: (unit, unit, unit) Request)), w')
      \<and> same_count fst snd w w'"
    by (auto simp: same_count_def)
qed

lemma accepting_writer: "(\<And>w. R w w) \<Longrightarrow> writer_host R accepting_host"
  by (auto simp: writer_host_def accepting_host_def accept_def keeps_prog_def)

theorem serve_many_serves_witness:
  "\<exists>w'. ServeMany ticking_env counting_handler
      \<lparr>so_NextTimeout = 0, so_MaxLifetime = 25 * Second, so_MaxRequests = 5, so_Continue = Some four_times\<rparr> (7, [])
     = Some (Done (), w') \<and> snd w' = [1, 2, 3]"
proof -
  let ?opts = "\<lparr>so_NextTimeout = 0, so_MaxLifetime = 25 * Second, so_MaxRequests = 5, so_Continue = Some four_times\<rparr>"
  let ?age = "\<lambda>k. int k * 10 * Second"
  let ?go = "\<lambda>k :: nat. k < 4"
  have "request_source ticking_env fst snd"
    by (auto simp: request_source_def ticking_env_def counting_env_def accepting_requests_def accepting_downstream_def
        accept_def)
  moreover have "writer_host (same_count fst snd) (v_http ticking_env)"
    by (simp add: ticking_env_def counting_env_def accepting_writer same_count_def)
  moreover have "handles_all counting_handler fst snd"
    by (auto simp: handles_all_def counting_handler_def)
  moreover have "keeps_time ticking_env ?opts fst snd ?age ?go"
    by (auto simp: keeps_time_def ticking_env_def four_times_def same_count_def)
  ultimately obtain m w' where m: "ServeMany ticking_env counting_handler ?opts (7, []) = Some (Done (), w')"
    "snd w' = map int [1..<Suc m]" "1 \<le> m" "\<forall>k. 1 \<le> k \<and> k < m \<longrightarrow> permits ?opts ?age ?go k"
    "m < 8 \<longrightarrow> \<not> permits ?opts ?age ?go m"
    using serve_many_serves [of ticking_env fst snd "(7, [])" counting_handler ?opts ?age ?go, OF _ _ _ _ counting_clients] by auto
  have "\<not> 3 < m" using m(4) [rule_format, of 3] by (auto simp: permits_def)
  moreover have "\<not> m < 3" using m(3,5) by (auto simp: permits_def)
  ultimately have "m = 3" by simp
  with m show ?thesis by (auto simp: upt_rec)
qed

end
