(* ===== verification/RequestStates.thy ===== *)
theory RequestStates
  imports Serving
begin

text \<open>
  The form every request keeps, whatever is done to it: an invariant of the requests a program can
  get hold of, by rule induction over the operations that make and change them.
\<close>

section \<open>Well-formed requests\<close>

text \<open>
  The header map has canonical keys; a body of the host comes with a request of the host, as a
  client's body does with a client's request; and a request that was sent has a request of the
  host.  A request is paired when a request of the host also comes with a body: it always is, as
  long as the host makes the bodies it is asked for.
\<close>

definition request_wf :: "('b, 'k, 'i) Request \<Rightarrow> bool" where
  "request_wf q \<longleftrightarrow> header_wf (q_Header q)
     \<and> (q_abi_body q \<noteq> None \<longrightarrow> q_abi_req q \<noteq> None)
     \<and> (q_downstream_req q = None \<longleftrightarrow> q_downstream_body q = None)
     \<and> (q_sent q \<longrightarrow> q_abi_req q \<noteq> None)"

definition paired :: "('b, 'k, 'i) Request \<Rightarrow> bool" where
  "paired q \<longleftrightarrow> (q_abi_req q = None \<longleftrightarrow> q_abi_body q = None)"

text \<open>The two together, the second where \<open>p\<close> holds, for requests in general and prepared ones.\<close>

definition wf_if :: "bool \<Rightarrow> ('b, 'k, 'i) Request \<Rightarrow> bool" where
  "wf_if p q \<longleftrightarrow> request_wf q \<and> (p \<longrightarrow> paired q)"

definition ready :: "bool \<Rightarrow> ('b, 'k, 'i) Request \<Rightarrow> bool" where
  "ready p q \<longleftrightarrow> wf_if p q \<and> q_abi_req q \<noteq> None"

lemmas wf_defs = wf_if_def request_wf_def paired_def

lemma ready_wf: "ready p q \<Longrightarrow> wf_if p q"
  by (simp add: ready_def)

lemma ready_update:
  "ready p q \<Longrightarrow> header_wf h \<Longrightarrow> ready p (q\<lparr>q_Header := h\<rparr>)"
  "ready p q \<Longrightarrow> ready p (q\<lparr>q_CacheOptions := opts\<rparr>)"
  "ready p q \<Longrightarrow> ready p (q\<lparr>q_sent := s\<rparr>)"
  "ready p q \<Longrightarrow> ready p (q\<lparr>q_abi_body := Some b\<rparr>)"
  by (auto simp: ready_def wf_defs)

section \<open>Results that are not errors\<close>

definition on_ok :: "('a \<Rightarrow> bool) \<Rightarrow> goerr + 'a \<Rightarrow> bool" where
  "on_ok P r \<longleftrightarrow> (case r of Inl e \<Rightarrow> True | Inr x \<Rightarrow> P x)"

lemma on_ok_simps [simp]: "on_ok P (Inl e)" "on_ok P (Inr x) \<longleftrightarrow> P x"
  by (simp_all add: on_ok_def)

lemma ensures_check_ok:
  "ensures m (on_ok P) \<Longrightarrow> (\<And>x. P x \<Longrightarrow> ensures (k x) (on_ok Q)) \<Longrightarrow> ensures (check_c f m k) (on_ok Q)"
  unfolding check_c_def try_c_def
  by (rule ensures_and_then, erule ensures_mono) (auto simp: ensures_finish split: sum.splits)

lemma ensures_check_any: "(\<And>x. ensures (k x) (on_ok Q)) \<Longrightarrow> ensures (check_c f m k) (on_ok Q)"
  by (rule ensures_check_ok [where P = "\<lambda>x. True"]) (auto simp: ensures_def on_ok_def split: sum.splits)

lemma ensures_for_each:
  assumes body: "\<And>s a. I a \<Longrightarrow> ensures (body s a) (on_ok I)" and "I acc"
  shows "ensures (for_each next bytes body it acc) (on_ok (\<lambda>(it', a). I a))"
proof -
  have inv: "\<forall>x w'. y = (Done x, w') \<longrightarrow> on_ok (\<lambda>(it', a). I a) x"
    if "for_each next' bytes' body' it acc w = Some y" "body' = body" "I acc" for next' bytes' body' it acc w y
    using that
  proof (induction next' bytes' body' it acc w y rule: for_each.raw_induct [rotated, consumes 1])
    case (1 self next' bytes' body' it acc w y)
    show ?case
    proof (cases "next' it w")
      case (Some r)
      then obtain o1 w1 where r: "next' it w = Some (o1, w1)" by (cases r) auto
      show ?thesis
      proof (cases o1)
        case (Done p)
        then obtain got it' where p: "o1 = Done (got, it')" by (cases p) auto
        show ?thesis
        proof (cases got)
          case True
          then obtain o2 w2 where b: "body' (bytes' it') acc w1 = Some (o2, w2)"
            using 1(2) r p by (auto split: option.splits)
          show ?thesis
          proof (cases "\<exists>acc'. o2 = Done (Inr acc')")
            case True
            then obtain acc' where acc': "o2 = Done (Inr acc')" by blast
            then have "I acc'" using ensuresD [OF body] b 1(3,4) by fastforce
            moreover have "self next' bytes' body' it' acc' w2 = Some y"
              using 1(2) r p b acc' \<open>got\<close> by simp
            ultimately show ?thesis using 1(1) [of next' bytes' body' it' acc' w2 y] 1(3) by blast
          next
            case False
            then show ?thesis using 1(2) r p b \<open>got\<close> by (auto split: outcome.splits sum.splits)
          qed
        qed (use 1(2,4) r p in auto)
      qed (use 1(2) r in auto)
    qed (use 1(2) in simp)
  qed
  show ?thesis
    unfolding ensures_def
  proof (intro allI impI)
    fix w x w' assume "for_each next bytes body it acc w = Some (Done x, w')"
    from inv [OF this refl assms(2)] show "on_ok (\<lambda>(it', a). I a) x" by simp
  qed
qed

lemma read_values_wf: "header_wf h \<Longrightarrow> ensures (read_values what cap vals_call k h) (on_ok header_wf)"
  unfolding read_values_def
  by (rule ensures_and_then, rule ensures_mono, rule ensures_for_each [where I = header_wf])
    (auto simp: header_wf_Add intro!: ensures_finish split: sum.splits option.splits)

lemma read_headers_wf: "ensures (read_headers what ncap vcap names_call vals_call) (on_ok (\<lambda>(e, h). header_wf h))"
  unfolding read_headers_def
  by (rule ensures_and_then, rule ensures_mono, rule ensures_for_each [where I = header_wf])
    (auto intro!: ensures_finish read_values_wf split: sum.splits)

section \<open>The operations\<close>

lemma wf_NewRequest: "NewRequest url_parse m u b = Inr q \<Longrightarrow> wf_if p q"
  by (auto simp: NewRequest_def request_with_def wf_defs split: sum.splits)

lemma wf_client_request:
  "header_wf h \<Longrightarrow> wf_if p (client_request r b m u v h remote server tls)"
  by (simp add: client_request_def request_with_def wf_defs)

lemma wf_newClientRequest: "ensures (newClientRequest env r b) (on_ok (wf_if p))"
  unfolding newClientRequest_def
  by (auto intro!: ensures_check_any ensures_check_ok [OF read_headers_wf] ensures_finish wf_client_request
      split: option.splits)

lemma wf_Clone: "header_wf (q_Header q) \<Longrightarrow> wf_if p (Request_Clone q)"
  by (simp add: Request_Clone_def request_with_def wf_defs Header_Clone_def header_wf_Apply)

text \<open>The host can always make a body, which it may answer in different ways.\<close>

definition makes_bodies :: "'w http_calls \<Rightarrow> bool" where
  "makes_bodies host \<longleftrightarrow> (\<forall>w. fst (fst (c_body_new host w)) = FastlyStatusOK)"

lemma makes_bodies_abiBody:
  assumes "makes_bodies host" shows "ensures (abiBodyFrom host b) (\<lambda>r. \<exists>x. r = Inr x)"
proof -
  have "\<exists>x. r = Inr x" if "NewHTTPBody host w = Some (Done r, w')" for r w w'
  proof -
    obtain s h w1 where "c_body_new host w = ((s, h), w1)" by (metis surj_pair)
    moreover from this have "s = FastlyStatusOK" using assms by (auto simp: makes_bodies_def dest!: spec [of _ w])
    ultimately show ?thesis using that by (auto simp: NewHTTPBody_def check_c_def try_c_def and_then_def hostcall_def)
  qed
  then show ?thesis
    unfolding ensures_def abiBodyFrom_def
    by (auto simp: check_c_def try_c_def and_then_def split: option.splits outcome.splits sum.splits)
qed

lemma bodies_if:
  assumes "p \<Longrightarrow> makes_bodies host" shows "ensures (abiBodyFrom host b) (\<lambda>r. p \<longrightarrow> (\<exists>x. r = Inr x))"
  using makes_bodies_abiBody [of host b] assms by (cases p) (auto intro: ensures_any)

lemma wf_SetBody:
  assumes "p \<Longrightarrow> makes_bodies host" "wf_if p q"
  shows "ensures (SetBody host b q) (wf_if p)"
  unfolding SetBody_def Let_def
  using assms(2)
  by (auto simp: wf_defs result_option_def intro!: ensures_and_then ensures_mono [OF bodies_if [OF assms(1)]]
      ensures_finish)

lemma wf_construct:
  assumes "p \<Longrightarrow> makes_bodies host" "wf_if p q"
  shows "ensures (constructABIRequest host url_string q)
    (\<lambda>(r, q'). wf_if p q' \<and> (r = Inr () \<longrightarrow> ready p q' \<and> q_abi_body q' \<noteq> None))"
proof -
  have body: "ensures (fallible f (abiBodyFrom host b) s k) P"
    if "\<And>x. ensures (k x) P" "\<And>e. \<not> p \<Longrightarrow> P (Inl (f e), s)"
    for f b s k and P :: "(goerr + unit) \<times> ('b, 'k, 'i) Request \<Rightarrow> bool"
    unfolding fallible_def try_c_def
    by (rule ensures_and_then, rule ensures_mono [OF bodies_if [OF assms(1)]])
      (use that in \<open>auto intro: ensures_finish split: sum.splits\<close>)
  show ?thesis
    unfolding constructABIRequest_def
    using assms(2)
    by (auto simp: wf_defs ready_def intro!: ensures_stateful ensures_fallible ensures_finish body)
qed

lemma wf_prepare:
  assumes "p \<Longrightarrow> makes_bodies (s_http env)" "wf_if p q"
  shows "ensures (prepare_send env q) (\<lambda>(r, q'). wf_if p q'
    \<and> (r = Inr () \<longrightarrow> ready p q' \<and> (q_abi_body q' = None \<longleftrightarrow> q_abi_req q \<noteq> None \<and> q_abi_body q = None)))"
proof (cases "q_abi_req q = None \<and> q_abi_body q = None")
  case True
  show ?thesis
    unfolding prepare_send_def ConstructABIRequest_def if_P [OF True]
    by (rule ensures_stateful, rule ensures_mono [OF wf_construct [OF assms]])
      (use True in \<open>auto intro!: ensures_and_then [OF ensures_any] ensures_finish dest: ready_wf split: sum.splits\<close>)
next
  case False
  then have "q_abi_req q \<noteq> None" "ready p q" using assms(2) by (auto simp: ready_def wf_defs)
  with False show ?thesis by (auto simp: prepare_send_def intro!: ensures_finish dest: ready_wf)
qed

subsection \<open>Sending\<close>

text \<open>A hook leaves the header map it shares with the original request in order.\<close>

definition hooks_keep_headers :: "('w, 'b, 'k, 'i) sending \<Rightarrow> bool" where
  "hooks_keep_headers env \<longleftrightarrow>
     (\<forall>k q. header_wf (q_Header q) \<longrightarrow> ensures (s_before env k q) (\<lambda>(e, q', h). header_wf h))"

lemma ensures_fallible_ok:
  assumes "ensures m (on_ok P)" "\<And>e. Q (Inl (f e), s)" "\<And>x. P x \<Longrightarrow> ensures (k x) Q"
  shows "ensures (fallible f m s k) Q"
  unfolding fallible_def try_c_def
  by (rule ensures_and_then, rule ensures_mono [OF assms(1)]) (use assms(2,3) in \<open>auto intro: ensures_finish split: sum.splits\<close>)

lemma ensures_then_ok: "ensures m P \<Longrightarrow> (\<And>x. P x \<Longrightarrow> ensures (k x) Q) \<Longrightarrow> ensures (and_then m k) Q"
  by (rule ensures_and_then) (rule ensures_mono)

lemma suggested_header: "ensures (newRequestFromHandle env h q) (on_ok (\<lambda>s. q_Header s = q_Header q))"
  unfolding newRequestFromHandle_def
  by (auto simp: request_with_def ensures_def [of panic] intro!: ensures_check_any ensures_and_then [OF ensures_any] ensures_finish
      split: sum.splits)

lemma ready_async:
  assumes "hooks_keep_headers env" "ready p q"
  shows "ensures (sendAsyncForCaching env q h backend) (\<lambda>(r, q'). ready p q')"
proof -
  have "header_wf (q_Header q)" using assms(2) by (simp add: ready_def wf_defs)
  then have before: "ensures (run_before env s) (\<lambda>(e, s', h). header_wf h)" if "q_Header s = q_Header q" for s
    using that assms(1) by (auto simp: run_before_def hooks_keep_headers_def intro!: ensures_finish split: option.splits)
  have copy: "ensures (copyBody host c d s) (\<lambda>x. True)" for host c d s by (rule ensures_any) simp
  show ?thesis
    unfolding sendAsyncForCaching_def using assms(2)
    by (auto simp: Let_def ready_update intro!: ensures_fallible_ok [OF suggested_header] ensures_then_ok [OF before]
        ensures_then_ok [OF copy] ensures_fallible [where m = "HTTPCacheGetSuggestedBackendRequest c h" for c h]
        ensures_fallible [where m = "setABIRequestOptions host s" for host s]
        ensures_fallible [where m = "sendAsyncWithoutCaching host s b" for host s b] ensures_finish split: option.splits)
qed

interpretation prepared: kept_by_caching env "\<lambda>q. hooks_keep_headers env \<longrightarrow> ready p q" for env p
  by unfold_locales (cases "hooks_keep_headers env"; auto intro: ready_async ready_update ensures_any)+

lemma ready_guest:
  assumes "hooks_keep_headers env" "ready p q"
  shows "ensures (sendWithGuestCache env q backend) (\<lambda>(r, q'). ready p q')"
  by (rule ensures_mono [OF prepared.guest_kept]) (use assms in auto)

lemma ready_host:
  assumes "ready p q" shows "ensures (send_with_host env q backend) (\<lambda>(r, q'). ready p q')"
proof -
  have copy: "ensures (copyBody host c d s) (\<lambda>x. True)" for host c d s by (rule ensures_any) simp
  have "ensures (begin_send env (q\<lparr>q_sent := True\<rparr>) backend) (\<lambda>(r, q'). ready p q')"
    unfolding begin_send_def using assms
    by (auto simp: Let_def ready_update intro!: ensures_non_nil ensures_fallible ensures_then_ok [OF copy] ensures_finish)
  then show ?thesis
    unfolding send_with_host_def
    by (auto intro!: ensures_stateful ensures_fallible ensures_finish elim!: ensures_mono split: sum.splits)
qed

lemma wf_Send:
  assumes "p \<Longrightarrow> makes_bodies (s_http env)" "hooks_keep_headers env" "wf_if p q"
  shows "ensures (Request_Send env backend q g) (\<lambda>(r, q', g'). wf_if p q')"
proof -
  note any = ensures_and_then [OF ensures_any]
  have image: "ensures (sendToImageOpto env s opts backend) (\<lambda>x. True)" for s opts by (rule ensures_any) simp
  have choose: "ensures (shouldUseGuestCaching c s g) (\<lambda>x. True)" for c s by (rule ensures_any) simp
  have rest: "ensures (case q_ImageOptimizerOptions s of
       Some options \<Rightarrow>
         and_then (sendToImageOpto env s options backend) (\<lambda>r.
         finish (case r of Inl e \<Rightarrow> Inl (annotate ''send to image optimizer'' e) | Inr resp \<Rightarrow> Inr (resp, None), s, g))
     | None \<Rightarrow>
         and_then (shouldUseGuestCaching (s_cache env) s g) (\<lambda>(r, g).
         case r of
           Inl e \<Rightarrow> finish (Inl e, s, g)
         | Inr True \<Rightarrow>
             and_then (sendWithGuestCache env s backend) (\<lambda>(r, s).
             finish (map_sum (annotate ''send with guest cache'') id r, s, g))
         | Inr False \<Rightarrow>
             and_then (send_with_host env s backend) (\<lambda>(r, s). finish (r, s, g)))) (\<lambda>(r, q', g'). wf_if p q')"
    if s: "ready p s" for s
    using s
    by (auto intro!: ensures_then_ok [OF image] ensures_then_ok [OF choose] ensures_then_ok [OF ready_guest [OF assms(2) s]]
        ensures_then_ok [OF ready_host [OF s]] ensures_finish dest: ready_wf split: option.splits sum.splits bool.splits)
  show ?thesis
    unfolding Request_Send_def using assms(3)
    by (auto intro!: ensures_then_ok [OF wf_prepare [OF assms(1,3)]] ensures_finish rest split: sum.splits)
qed

section \<open>All requests\<close>

text \<open>
  The requests a program can get: new ones and those of clients, copies, and what the operations
  and assignments to the exported fields make of them.  A \<open>Header\<close> is only changed by its methods,
  which keep it in order.
\<close>

inductive obtained :: "('w, 'b, 'k, 'i) sending \<Rightarrow> 'w serving \<Rightarrow> ('b, 'k, 'i) Request \<Rightarrow> bool" for env serv where
  obtained_new: "NewRequest (s_url_parse env) method uri body = Inr q \<Longrightarrow> obtained env serv q"
| obtained_client: "newClientRequest serv r b w = Some (Done (Inr q), w') \<Longrightarrow> obtained env serv q"
| obtained_clone: "obtained env serv q \<Longrightarrow> obtained env serv (Request_Clone q)"
| obtained_body: "obtained env serv q \<Longrightarrow> SetBody (s_http env) body q w = Some (Done q', w') \<Longrightarrow> obtained env serv q'"
| obtained_fields: "obtained env serv q \<Longrightarrow> header_wf h \<Longrightarrow>
    obtained env serv (q\<lparr>q_Method := method, q_URL := u, q_Header := h, q_CacheOptions := opts, q_BeforeSend := before,
      q_AfterSend := aft, q_Gzip := gzip, q_ManualFramingMode := manual, q_ImageOptimizerOptions := img\<rparr>)"
| obtained_construct: "obtained env serv q \<Longrightarrow>
    ConstructABIRequest (s_http env) (s_url_string env) q w = Some (Done (r, q'), w') \<Longrightarrow> obtained env serv q'"
| obtained_send: "obtained env serv q \<Longrightarrow> Request_Send env backend q g w = Some (Done (x, q', g'), w') \<Longrightarrow> obtained env serv q'"

lemma wf_ConstructABIRequest:
  assumes "p \<Longrightarrow> makes_bodies host" "wf_if p q"
  shows "ensures (ConstructABIRequest host url_string q) (\<lambda>(r, q'). wf_if p q')"
  unfolding ConstructABIRequest_def
  by (rule ensures_stateful, rule ensures_mono [OF wf_construct [OF assms]])
    (auto intro!: ensures_and_then [OF ensures_any] ensures_finish dest: ready_wf split: sum.splits)

lemma wf_obtained:
  assumes "obtained env serv q" and "p \<Longrightarrow> makes_bodies (s_http env)" and "hooks_keep_headers env"
  shows "wf_if p q"
  using assms(1)
proof induction
  case obtained_new
  then show ?case by (rule wf_NewRequest)
next
  case obtained_client
  then show ?case using ensuresD [OF wf_newClientRequest [where p = p]] by fastforce
next
  case obtained_clone
  then show ?case by (intro wf_Clone) (simp add: wf_defs)
next
  case obtained_body
  then show ?case using ensuresD [OF wf_SetBody [OF assms(2)]] by blast
next
  case obtained_fields
  then show ?case unfolding wf_defs by fastforce
next
  case obtained_construct
  then show ?case using ensuresD [OF wf_ConstructABIRequest [OF assms(2)]] by fastforce
next
  case obtained_send
  then show ?case using ensuresD [OF wf_Send [OF assms(2,3)]] by fastforce
qed

text \<open>
  C6: every request a program can get is well formed, however often and with whatever result
  it was sent: its header map has canonical keys, a body of the host comes with a request of the
  host, a client's body with a client's request, and a request that was sent has a request of the
  host.  When preparing \<open>Send\<close> succeeds the request of the host is there, and the body too,
  unless the request had already been given to the host without a body: the state that is left
  behind when the host fails to make a body, and the only one in which \<open>Send\<close> goes on without.
  On a host that makes the bodies it is asked for, no request gets into that state.  The hooks a
  program gives must leave the header map they share with the request in order.
\<close>

theorem requests_well_formed:
  assumes "obtained env serv q" and "hooks_keep_headers env"
  shows "request_wf q
    \<and> (makes_bodies (s_http env) \<longrightarrow> (q_abi_req q = None \<longleftrightarrow> q_abi_body q = None))
    \<and> ensures (prepare_send env q) (\<lambda>(r, q'). r = Inr () \<longrightarrow> q_abi_req q' \<noteq> None
         \<and> (q_abi_body q' = None \<longleftrightarrow> q_abi_req q \<noteq> None \<and> q_abi_body q = None))"
proof (intro conjI)
  have weak: "wf_if False q" by (rule wf_obtained [OF assms(1) _ assms(2)]) simp
  then show "request_wf q" by (simp add: wf_if_def)
  show "makes_bodies (s_http env) \<longrightarrow> (q_abi_req q = None \<longleftrightarrow> q_abi_body q = None)"
    using wf_obtained [OF assms(1) _ assms(2), of True] by (simp add: wf_if_def paired_def)
  show "ensures (prepare_send env q) (\<lambda>(r, q'). r = Inr () \<longrightarrow> q_abi_req q' \<noteq> None
      \<and> (q_abi_body q' = None \<longleftrightarrow> q_abi_req q \<noteq> None \<and> q_abi_body q = None))"
    by (rule ensures_mono [OF wf_prepare [OF _ weak]]) (auto simp: ready_def)
qed

text \<open>What happens in that state: \<open>Send\<close> panics on a request whose body could not be made the last time.\<close>

lemma send_without_body_panics:
  assumes "\<not> q_sent q" and "q_abi_req q = Some h" and "q_abi_body q = None" and "q_ImageOptimizerOptions q = None"
    and "shouldUseGuestCaching (s_cache env) q g w = Some (Done (Inr False, g'), w')"
  shows "Request_Send env backend q g w = Some (Panic, w')"
  using assms
  by (simp add: Request_Send_def prepare_send_def and_then_def send_with_host_def begin_send_def stateful_def
      non_nil_def copyBody_def)

text \<open>
  A copy of a new request with a body, and the same request after the host has failed to make a
  body for it: it has the host's request and no body.
\<close>

definition bodyless_env :: "(nat \<times> Duration list, unit, unit, unit) sending" where
  "bodyless_env = countdown_env\<lparr>s_url_parse := (\<lambda>s. Inr plain_url),
     s_http := (s_http countdown_env)\<lparr>c_body_new := (\<lambda>w. ((FastlyStatusError, 0), w))\<rparr>\<rparr>"

theorem requests_well_formed_witness:
  "let q = request_with ''POST'' plain_url NewHeader (read_closer (Some (MemReader ()))) ''example.com'';
       given = q\<lparr>q_abi_req := Some 3\<rparr>
   in obtained bodyless_env counting_env (Request_Clone q) \<and> request_wf (Request_Clone q)
     \<and> obtained bodyless_env counting_env given \<and> request_wf given \<and> \<not> paired given
     \<and> ensures (prepare_send bodyless_env given) (\<lambda>(r, q'). r = Inr () \<longrightarrow> q_abi_body q' = None)"
proof -
  let ?q = "request_with ''POST'' plain_url NewHeader (read_closer (Some (MemReader ()))) ''example.com'' :: (unit, unit, unit) Request"
  let ?given = "?q\<lparr>q_abi_req := Some 3\<rparr>"
  have q: "obtained bodyless_env counting_env ?q"
    by (rule obtained_new [of bodyless_env "''POST''" "[]" "Some (MemReader ())"])
      (simp add: NewRequest_def plain_url_def bodyless_env_def)
  then have clone: "obtained bodyless_env counting_env (Request_Clone ?q)" by (rule obtained_clone)
  have given: "obtained bodyless_env counting_env ?given"
    by (rule obtained_construct [OF q, where w = "(1, [])"])
      (simp add: ConstructABIRequest_def constructABIRequest_def stateful_def fallible_def try_c_def check_c_def and_then_def
        hostcall_def NewHTTPRequest_def HTTPRequest_SetMethod_def HTTPRequest_SetURI_def abiBodyFrom_def NewHTTPBody_def
        toError_def finish_def bodyless_env_def countdown_env_def accepting_host_def accept_def request_with_def read_closer_def)
  have hooks: "hooks_keep_headers bodyless_env"
    by (auto simp: hooks_keep_headers_def bodyless_env_def countdown_env_def intro: ensures_finish)
  have "\<not> paired ?given" by (simp add: paired_def request_with_def)
  then show ?thesis
    unfolding Let_def
    using clone given requests_well_formed [OF clone hooks] requests_well_formed [OF given hooks]
    by (auto simp: request_with_def elim!: ensures_mono)
qed

end
