(* ===== verification/Transports.thy ===== *)
theory Transports
  imports Serving
begin

text \<open>
  The rest of package \<open>fsthttp\<close>: status texts (\<open>status.go\<close>), values in contexts (\<open>context.go\<close>), the
  transport that lets an \<open>http.Client\<close> send to backends (\<open>transport.go\<close>), and the adapter that lets
  an \<open>http.Handler\<close> serve (\<open>adapter.go\<close>).
\<close>

section \<open>Status texts\<close>

definition StatusInternalServerError :: int where "StatusInternalServerError = 500"

definition statusText :: "(int \<times> string) list" where
  "statusText =
     [(100, ''Continue''), (101, ''Switching Protocols''), (102, ''Processing''), (103, ''Early Hints''),
      (200, ''OK''), (201, ''Created''), (202, ''Accepted''), (203, ''Non-Authoritative Information''),
      (204, ''No Content''), (205, ''Reset Content''), (206, ''Partial Content''), (207, ''Multi-Status''),
      (208, ''Already Reported''), (226, ''IM Used''), (300, ''Multiple Choices''),
      (301, ''Moved Permanently''), (302, ''Found''), (303, ''See Other''), (304, ''Not Modified''),
      (305, ''Use Proxy''), (307, ''Temporary Redirect''), (308, ''Permanent Redirect''),
      (400, ''Bad Request''), (401, ''Unauthorized''), (402, ''Payment Required''), (403, ''Forbidden''),
      (404, ''Not Found''), (405, ''Method Not Allowed''), (406, ''Not Acceptable''),
      (407, ''Proxy Authentication Required''), (408, ''Request Timeout''), (409, ''Conflict''),
      (410, ''Gone''), (411, ''Length Required''), (412, ''Precondition Failed''),
      (413, ''Request Entity Too Large''), (414, ''Request URI Too Long''),
      (415, ''Unsupported Media Type''), (416, ''Requested Range Not Satisfiable''),
      (417, ''Expectation Failed''), (418, ''I'm a teapot''), (421, ''Misdirected Request''),
      (422, ''Unprocessable Entity''), (423, ''Locked''), (424, ''Failed Dependency''), (425, ''Too Early''),
      (426, ''Upgrade Required''), (428, ''Precondition Required''), (429, ''Too Many Requests''),
      (431, ''Request Header Fields Too Large''), (451, ''Unavailable For Legal Reasons''),
      (500, ''Internal Server Error''), (501, ''Not Implemented''), (502, ''Bad Gateway''),
      (503, ''Service Unavailable''), (504, ''Gateway Timeout''), (505, ''HTTP Version Not Supported''),
      (506, ''Variant Also Negotiates''), (507, ''Insufficient Storage''), (508, ''Loop Detected''),
      (510, ''Not Extended''), (511, ''Network Authentication Required'')]"

definition StatusText :: "int \<Rightarrow> string" where
  "StatusText code = (case map_of statusText code of Some t \<Rightarrow> t | None \<Rightarrow> [])"

section \<open>Contexts\<close>

text \<open>A context is a base with values around it; each kind of value has a key of its own.\<close>

datatype ('q, 'p) context_value = RequestValue 'q | WriterValue responseWriter | ResponseValue 'p

datatype ('c, 'q, 'p) go_context = BaseContext 'c | WithValue "('c, 'q, 'p) go_context" "('q, 'p) context_value"

fun RequestFromContext :: "('c, 'q, 'p) go_context \<Rightarrow> 'q option" where
  "RequestFromContext (WithValue ctx (RequestValue req)) = Some req"
| "RequestFromContext (WithValue ctx _) = RequestFromContext ctx"
| "RequestFromContext (BaseContext c) = None"

fun ResponseWriterFromContext :: "('c, 'q, 'p) go_context \<Rightarrow> responseWriter option" where
  "ResponseWriterFromContext (WithValue ctx (WriterValue w)) = Some w"
| "ResponseWriterFromContext (WithValue ctx _) = ResponseWriterFromContext ctx"
| "ResponseWriterFromContext (BaseContext c) = None"

fun ResponseFromContext :: "('c, 'q, 'p) go_context \<Rightarrow> 'p option" where
  "ResponseFromContext (WithValue ctx (ResponseValue resp)) = Some resp"
| "ResponseFromContext (WithValue ctx _) = ResponseFromContext ctx"
| "ResponseFromContext (BaseContext c) = None"

definition contextWithRequest :: "('c, 'q, 'p) go_context \<Rightarrow> 'q \<Rightarrow> ('c, 'q, 'p) go_context" where
  "contextWithRequest ctx req = WithValue ctx (RequestValue req)"

definition contextWithResponseWriter :: "('c, 'q, 'p) go_context \<Rightarrow> responseWriter \<Rightarrow> ('c, 'q, 'p) go_context" where
  "contextWithResponseWriter ctx w = WithValue ctx (WriterValue w)"

definition contextWithResponse :: "('c, 'q, 'p) go_context \<Rightarrow> 'p \<Rightarrow> ('c, 'q, 'p) go_context" where
  "contextWithResponse ctx resp = WithValue ctx (ResponseValue resp)"

section \<open>Requests of net/http\<close>

text \<open>The fields of \<open>http.Request\<close> and \<open>http.Response\<close> that the code reads or sets.\<close>

record ('c, 'b, 'k, 'i) http_request =
  hr_ctx :: "('c, ('b, 'k, 'i) Request, (('b, 'k, 'i) Request, 'b) Response) go_context"
  hr_Method :: string
  hr_URL :: URL
  hr_Proto :: string
  hr_ProtoMajor :: int
  hr_ProtoMinor :: int
  hr_Header :: Header
  hr_Body :: "'b reader option"
  hr_Host :: string
  hr_RemoteAddr :: string
  hr_ContentLength :: int

record ('c, 'b, 'k, 'i) http_response =
  hp_Request :: "('c, 'b, 'k, 'i) http_request"
  hp_StatusCode :: int
  hp_Header :: Header
  hp_Body :: "'b ReadCloser"

section \<open>The transport\<close>

text \<open>
  Host names are ASCII, as \<open>url.Parse\<close> leaves them, so \<open>strings.ToLower\<close> is \<open>ascii_lower\<close>.  The
  callback gets the request and may replace its fields.
\<close>

record ('w, 'b, 'k, 'i) Transport =
  tp_defaultBackend :: string
  tp_backends :: "string \<rightharpoonup> string"
  tp_Request :: "(('b, 'k, 'i) Request \<Rightarrow> ('w, goerr option \<times> ('b, 'k, 'i) Request) comp) option"

definition NewTransport :: "string \<Rightarrow> ('w, 'b, 'k, 'i) Transport" where
  "NewTransport backend = \<lparr>tp_defaultBackend = backend, tp_backends = Map.empty, tp_Request = None\<rparr>"

definition AddHostBackend :: "string \<Rightarrow> string \<Rightarrow> ('w, 'b, 'k, 'i) Transport \<Rightarrow> ('w, 'b, 'k, 'i) Transport" where
  "AddHostBackend host backend t = t\<lparr>tp_backends := (tp_backends t)(ascii_lower host \<mapsto> backend)\<rparr>"

definition getBackend :: "('w, 'b, 'k, 'i) Transport \<Rightarrow> string \<Rightarrow> string" where
  "getBackend t host =
     (case tp_backends t (ascii_lower host) of Some backend \<Rightarrow> backend | None \<Rightarrow> tp_defaultBackend t)"

definition http_of ::
  "('c, 'b, 'k, 'i) http_request \<Rightarrow> ('b, 'k, 'i) Request \<Rightarrow> (('b, 'k, 'i) Request, 'b) Response \<Rightarrow>
   ('c, 'b, 'k, 'i) http_response" where
  "http_of req freq fresp =
     (let ctx = contextWithResponse (contextWithRequest (hr_ctx req) freq) fresp
      in \<lparr>hp_Request = req\<lparr>hr_ctx := ctx\<rparr>, hp_StatusCode = rs_StatusCode fresp,
          hp_Header = Header_Clone (rs_Header fresp), hp_Body = rs_Body fresp\<rparr>)"

text \<open>A revalidation in the background is returned with the response, as for \<open>Send\<close>.\<close>

definition RoundTrip ::
  "('w, 'b, 'k, 'i) sending \<Rightarrow> ('w, 'b, 'k, 'i) Transport \<Rightarrow> ('c, 'b, 'k, 'i) http_request \<Rightarrow> bool \<Rightarrow>
   ('w, (goerr + ('c, 'b, 'k, 'i) http_response \<times> ('b, 'k, 'i) pendingBackendRequestForCaching option) \<times> bool) comp" where
  "RoundTrip env t req useGuestCaching =
     (case NewRequest (s_url_parse env) (hr_Method req) (s_url_string env (hr_URL req)) (hr_Body req) of
        Inl e \<Rightarrow> finish (Inl e, useGuestCaching)
      | Inr freq \<Rightarrow>
          and_then
            (case tp_Request t of
               None \<Rightarrow> finish (None, freq\<lparr>q_Header := Header_Clone (hr_Header req)\<rparr>)
             | Some f \<Rightarrow> f (freq\<lparr>q_Header := Header_Clone (hr_Header req)\<rparr>))
            (\<lambda>(err, freq).
               case err of
                 Some e \<Rightarrow> finish (Inl e, useGuestCaching)
               | None \<Rightarrow>
                   and_then (Request_Send env (getBackend t (u_Host (hr_URL req))) freq useGuestCaching)
                     (\<lambda>(r, freq, useGuestCaching).
                        finish (map_sum id (\<lambda>(fresp, job). (http_of req freq fresp, job)) r, useGuestCaching))))"

section \<open>The adapter\<close>

text \<open>
  \<open>http.NewRequestWithContext\<close> is a parameter.  The handler gets the fields it returns together with
  those the adapter sets, and the writer, whose header map it shares.
\<close>

definition adapted_request ::
  "('c, 'b, 'k, 'i) http_request \<Rightarrow> ('b, 'k, 'i) Request \<Rightarrow> ('c, 'b, 'k, 'i) http_request" where
  "adapted_request hr r =
     hr\<lparr>hr_Proto := q_Proto r, hr_ProtoMajor := q_ProtoMajor r, hr_ProtoMinor := q_ProtoMinor r,
        hr_Header := Header_Clone (q_Header r), hr_Host := q_Host r, hr_RemoteAddr := q_RemoteAddr r,
        hr_ContentLength := -1\<rparr>"

definition Adapt ::
  "'w http_calls \<Rightarrow> (URL \<Rightarrow> string) \<Rightarrow>
   (('c, ('b, 'k, 'i) Request, (('b, 'k, 'i) Request, 'b) Response) go_context \<Rightarrow> string \<Rightarrow> string \<Rightarrow>
      'b request_body option \<Rightarrow> goerr + ('c, 'b, 'k, 'i) http_request) \<Rightarrow>
   (responseWriter \<Rightarrow> ('c, 'b, 'k, 'i) http_request \<Rightarrow> ('w, responseWriter) comp) \<Rightarrow>
   ('c, ('b, 'k, 'i) Request, (('b, 'k, 'i) Request, 'b) Response) go_context \<Rightarrow> ('w, 'b, 'k, 'i) handler" where
  "Adapt host url_string new_request h ctx r w =
     (let ctx = contextWithResponseWriter (contextWithRequest ctx r) w
      in case new_request ctx (q_Method r) (url_string (q_URL r)) (q_Body r) of
           Inl e \<Rightarrow> WriteHeader host StatusInternalServerError w
         | Inr hr \<Rightarrow> h w (adapted_request hr r))"

section \<open>Rules\<close>

text \<open>The innermost value of a kind is the one found, and the other kinds are not disturbed.\<close>

lemma context_values:
  "RequestFromContext (contextWithRequest ctx q) = Some q"
  "RequestFromContext (contextWithResponseWriter ctx w) = RequestFromContext ctx"
  "RequestFromContext (contextWithResponse ctx p) = RequestFromContext ctx"
  "ResponseWriterFromContext (contextWithResponseWriter ctx w) = Some w"
  "ResponseWriterFromContext (contextWithRequest ctx q) = ResponseWriterFromContext ctx"
  "ResponseWriterFromContext (contextWithResponse ctx p) = ResponseWriterFromContext ctx"
  "ResponseFromContext (contextWithResponse ctx p) = Some p"
  "ResponseFromContext (contextWithRequest ctx q) = ResponseFromContext ctx"
  "ResponseFromContext (contextWithResponseWriter ctx w) = ResponseFromContext ctx"
  by (simp_all add: contextWithRequest_def contextWithResponseWriter_def contextWithResponse_def)

lemma getBackend_Add:
  "getBackend (AddHostBackend h b t) host = (if ascii_lower h = ascii_lower host then b else getBackend t host)"
  by (simp add: getBackend_def AddHostBackend_def split: option.split)

text \<open>The last backend given for a host, in whatever case, is the one requests to it use.\<close>

lemma getBackend_adds:
  "getBackend (fold (\<lambda>(h, b). AddHostBackend h b) adds (NewTransport d)) host =
     (case map_of (rev (map (\<lambda>(h, b). (ascii_lower h, b)) adds)) (ascii_lower host) of Some b \<Rightarrow> b | None \<Rightarrow> d)"
proof (induction adds rule: rev_induct)
  case (snoc a adds)
  then show ?case by (cases a) (auto simp: getBackend_Add)
qed (simp add: getBackend_def NewTransport_def)

end
