(* ===== verification/BodyReading.thy ===== *)
theory BodyReading
  imports HttpABI
begin

text \<open>
  Reading a body to its end: \<open>io.ReadAll\<close> on an \<open>HTTPBody\<close>, as the KV store and the caches use
  it.  How much free space the growing slice has before each read is left to the runtime; it is
  the parameter \<open>space\<close>, a function of the number of bytes read so far.
\<close>

section \<open>\<open>io.ReadAll\<close>\<close>

partial_function (option) read_all ::
  "'w http_calls \<Rightarrow> (nat \<Rightarrow> nat) \<Rightarrow> HTTPBody \<Rightarrow> string \<Rightarrow> 'w \<Rightarrow> ((goerr + string) outcome \<times> 'w) option" where
  "read_all host space b acc w =
     (case HTTPBody_Read host b (space (length acc)) w of
        None \<Rightarrow> None
      | Some (Panic, w') \<Rightarrow> Some (Panic, w')
      | Some (Done (Inl e), w') \<Rightarrow> if e = EOF then Some (Done (Inr acc), w') else Some (Done (Inl e), w')
      | Some (Done (Inr s), w') \<Rightarrow> read_all host space b (acc @ s) w')"

definition ReadAll :: "'w http_calls \<Rightarrow> (nat \<Rightarrow> nat) \<Rightarrow> HTTPBody \<Rightarrow> ('w, goerr + string) comp" where
  "ReadAll host space b = read_all host space b []"

text \<open>
  A host whose body \<open>h\<close> still holds \<open>content w\<close>: a read takes a prefix of it, of at least one
  byte unless nothing is left, and leaves the rest.
\<close>

definition body_source :: "'w http_calls \<Rightarrow> handle \<Rightarrow> ('w \<Rightarrow> string) \<Rightarrow> bool" where
  "body_source host h content \<longleftrightarrow>
     (\<forall>n w. 0 < unat n \<longrightarrow> (case c_body_read host h n w of (r, w') \<Rightarrow>
        br_status r = FastlyStatusOK
        \<and> unat (br_nwritten r) \<le> unat n
        \<and> length (br_written r) = unat (br_nwritten r)
        \<and> content w = br_written r @ content w'
        \<and> (br_nwritten r = 0 \<longrightarrow> content w = [])))"

lemma body_source_read:
  assumes "body_source host (b_h b) content" "0 < n" "n < 2 ^ 32"
  shows "(content w = [] \<and> (\<exists>w'. HTTPBody_Read host b n w = Some (Done (Inl EOF), w') \<and> content w' = []))
    \<or> (\<exists>s w'. s \<noteq> [] \<and> content w = s @ content w' \<and> HTTPBody_Read host b n w = Some (Done (Inr s), w'))"
proof -
  obtain r w' where c: "c_body_read host (b_h b) (of_nat n) w = (r, w')" by force
  have n: "unat (of_nat n :: u32) = n" using assms(3) by (simp add: unat_of_nat)
  have "0 < unat (of_nat n :: u32)" using n assms(2) by simp
  with assms(1) c have r: "br_status r = 0" "unat (br_nwritten r) \<le> n"
    "length (br_written r) = unat (br_nwritten r)" "content w = br_written r @ content w'"
    "br_nwritten r = 0 \<longrightarrow> content w = []"
    using n unfolding body_source_def by (fastforce dest!: spec [of _ "of_nat n"] spec [of _ w])+
  show ?thesis
  proof (cases "br_nwritten r = 0")
    case True
    with r c show ?thesis by (auto simp: HTTPBody_Read_def toError_def)
  next
    case False
    then have "br_written r \<noteq> []" using r(3) by (auto simp: unat_eq_0)
    with False r c show ?thesis by (auto simp: HTTPBody_Read_def toError_def)
  qed
qed

text \<open>
  \<open>io.ReadAll\<close> on a body returns, after finitely many reads, everything the body holds,
  however its buffer grows and however the host cuts the content.
\<close>

lemma read_all_content:
  assumes "body_source host (b_h b) content" and "\<And>k. 0 < space k \<and> space k < 2 ^ 32"
  shows "\<exists>w'. ReadAll host space b w = Some (Done (Inr (content w)), w') \<and> content w' = []"
proof -
  have "\<exists>w'. read_all host space b acc w = Some (Done (Inr (acc @ content w)), w') \<and> content w' = []" for acc w
  proof (induction "length (content w)" arbitrary: acc w rule: less_induct)
    case less
    have sp: "0 < space (length acc)" "space (length acc) < 2 ^ 32" using assms(2) by auto
    from body_source_read [OF assms(1) sp, of w] show ?case
    proof (elim disjE conjE exE)
      fix w'
      assume "content w = []" "HTTPBody_Read host b (space (length acc)) w = Some (Done (Inl EOF), w')" "content w' = []"
      then show ?thesis by (subst read_all.simps) simp
    next
      fix s w'
      assume s: "s \<noteq> []" "content w = s @ content w'"
        "HTTPBody_Read host b (space (length acc)) w = Some (Done (Inr s), w')"
      then have "length (content w') < length (content w)" by simp
      from less [OF this, of "acc @ s"] s show ?thesis by (subst read_all.simps) simp
    qed
  qed
  from this [of "[]" w] show ?thesis by (simp add: ReadAll_def)
qed

text \<open>A host with one body whose content is the world, read a byte at a time.\<close>

definition dripping_host :: "string http_calls \<Rightarrow> string http_calls" where
  "dripping_host host = host\<lparr>c_body_read := (\<lambda>h n w.
     (\<lparr>br_status = FastlyStatusOK, br_written = take 1 w, br_nwritten = of_nat (length (take 1 w))\<rparr>, drop 1 w))\<rparr>"

lemma dripping_source: "body_source (dripping_host host) h (\<lambda>w. w)"
  unfolding body_source_def
proof (intro allI impI)
  fix n :: u32 and w :: string
  assume "0 < unat n"
  then show "case c_body_read (dripping_host host) h n w of (r, w') \<Rightarrow>
      br_status r = FastlyStatusOK \<and> unat (br_nwritten r) \<le> unat n
      \<and> length (br_written r) = unat (br_nwritten r) \<and> w = br_written r @ w'
      \<and> (br_nwritten r = 0 \<longrightarrow> w = [])"
    by (cases w) (simp_all add: dripping_host_def)
qed

lemma read_all_content_instance:
  "\<exists>w'. ReadAll (dripping_host host) (\<lambda>_. 512) \<lparr>b_h = 7, b_closable = False\<rparr> ''abc'' = Some (Done (Inr ''abc''), w')"
  using read_all_content [where host = "dripping_host host" and content = "\<lambda>w. w" and w = "''abc''"
      and b = "\<lparr>b_h = 7, b_closable = False\<rparr>" and space = "\<lambda>_. 512", OF dripping_source] by auto

end
