(* ===== verification/EventLogs.thy ===== *)
theory EventLogs
  imports HttpABI
begin

text \<open>
  Hosts that keep a record of some of their calls, and a calculus for the record a computation
  leaves: \<open>emits m Q\<close> says that every run of \<open>m\<close> that ends with the outcome \<open>r\<close> appends events
  \<open>es\<close> with \<open>Q r es\<close>.  The rules compute \<open>Q\<close> backwards through the combinators of \<open>Prelude\<close>.
\<close>

section \<open>Recording hostcalls\<close>

definition logged :: "'e \<Rightarrow> ('w, 'a) prog \<Rightarrow> ('w \<times> 'e list, 'a) prog" where
  "logged ev p = (\<lambda>(w, l). case p w of (x, w') \<Rightarrow> (x, (w', l @ [ev])))"

definition unlogged :: "('w, 'a) prog \<Rightarrow> ('w \<times> 'e list, 'a) prog" where
  "unlogged p = (\<lambda>(w, l). case p w of (x, w') \<Rightarrow> (x, (w', l)))"

text \<open>A call that is recorded, with its results, when it succeeds.\<close>

definition noting :: "('a \<Rightarrow> 'e list) \<Rightarrow> ('w, FastlyStatus \<times> 'a) prog \<Rightarrow> ('w \<times> 'e list, FastlyStatus \<times> 'a) prog" where
  "noting f p = (\<lambda>(w, l). case p w of ((s, x), w') \<Rightarrow>
     ((s, x), (w', if s = FastlyStatusOK then l @ f x else l)))"

text \<open>A host whose calls do not appear in the record of the transaction calls.\<close>

definition silent :: "'w http_calls \<Rightarrow> ('w \<times> 'e list) http_calls" where
  "silent host =
     \<lparr>c_resp_new = unlogged (c_resp_new host),
      c_resp_close = (\<lambda>h. unlogged (c_resp_close host h)),
      c_resp_header_names_get = (\<lambda>h n c. unlogged (c_resp_header_names_get host h n c)),
      c_resp_header_value_get = (\<lambda>h k n. unlogged (c_resp_header_value_get host h k n)),
      c_resp_header_values_get = (\<lambda>h k n c. unlogged (c_resp_header_values_get host h k n c)),
      c_resp_header_values_set = (\<lambda>h k v. unlogged (c_resp_header_values_set host h k v)),
      c_resp_header_remove = (\<lambda>h k. unlogged (c_resp_header_remove host h k)),
      c_resp_status_get = (\<lambda>h. unlogged (c_resp_status_get host h)),
      c_resp_status_set = (\<lambda>h s. unlogged (c_resp_status_set host h s)),
      c_resp_framing_headers_mode_set = (\<lambda>h m. unlogged (c_resp_framing_headers_mode_set host h m)),
      c_resp_send_downstream = (\<lambda>h b s. unlogged (c_resp_send_downstream host h b s)),
      c_body_new = unlogged (c_body_new host),
      c_body_append = (\<lambda>d s. unlogged (c_body_append host d s)),
      c_body_read = (\<lambda>h n. unlogged (c_body_read host h n)),
      c_body_write = (\<lambda>h p e. unlogged (c_body_write host h p e)),
      c_body_close = (\<lambda>h. unlogged (c_body_close host h)),
      c_body_abandon = (\<lambda>h. unlogged (c_body_abandon host h)),
      c_body_known_length = (\<lambda>h. unlogged (c_body_known_length host h)),
      c_body_trailer_append = (\<lambda>h k v. unlogged (c_body_trailer_append host h k v)),
      c_body_trailer_names_get = (\<lambda>h n c. unlogged (c_body_trailer_names_get host h n c)),
      c_body_trailer_values_get = (\<lambda>h k n c. unlogged (c_body_trailer_values_get host h k n c)),
      c_req_new = unlogged (c_req_new host),
      c_req_method_get = (\<lambda>h n. unlogged (c_req_method_get host h n)),
      c_req_method_set = (\<lambda>h m. unlogged (c_req_method_set host h m)),
      c_req_uri_get = (\<lambda>h n. unlogged (c_req_uri_get host h n)),
      c_req_uri_set = (\<lambda>h u. unlogged (c_req_uri_set host h u)),
      c_req_header_values_set = (\<lambda>h k v. unlogged (c_req_header_values_set host h k v)),
      c_req_cache_override_v2_set = (\<lambda>h t a s k. unlogged (c_req_cache_override_v2_set host h t a s k)),
      c_req_auto_decompress_response_set = (\<lambda>h e. unlogged (c_req_auto_decompress_response_set host h e)),
      c_req_framing_headers_mode_set = (\<lambda>h m. unlogged (c_req_framing_headers_mode_set host h m)),
      c_req_send_v3 = (\<lambda>h b n d. unlogged (c_req_send_v3 host h b n d)),
      c_req_send_async_v2 = (\<lambda>h b n s. unlogged (c_req_send_async_v2 host h b n s)),
      c_req_send_async_streaming = (\<lambda>h b n. unlogged (c_req_send_async_streaming host h b n)),
      c_pending_req_poll_v2 = (\<lambda>h d. unlogged (c_pending_req_poll_v2 host h d)),
      c_pending_req_wait_v2 = (\<lambda>h d r b. unlogged (c_pending_req_wait_v2 host h d r b)),
      c_range_order = (\<lambda>(w, l). c_range_order host w)\<rparr>"

section \<open>The events of a computation\<close>

definition emits :: "('w \<times> 'e list, 'a) comp \<Rightarrow> ('a outcome \<Rightarrow> 'e list \<Rightarrow> bool) \<Rightarrow> bool" where
  "emits m Q \<longleftrightarrow> (\<forall>w l r w' l'. m (w, l) = Some (r, (w', l')) \<longrightarrow> (\<exists>es. l' = l @ es \<and> Q r es))"

text \<open>A computation that leaves no events and does not panic.\<close>

definition quiet :: "('w \<times> 'e list, 'a) comp \<Rightarrow> bool" where
  "quiet m \<longleftrightarrow> emits m (\<lambda>r es. es = [] \<and> r \<noteq> Panic)"

lemma emitsI: "(\<And>w l r w' l'. m (w, l) = Some (r, (w', l')) \<Longrightarrow> \<exists>es. l' = l @ es \<and> Q r es) \<Longrightarrow> emits m Q"
  unfolding emits_def by blast

lemma emitsD: "emits m Q \<Longrightarrow> m (w, l) = Some (r, (w', l')) \<Longrightarrow> \<exists>es. l' = l @ es \<and> Q r es"
  unfolding emits_def by blast

lemma emits_mono: "emits m P \<Longrightarrow> (\<And>r es. P r es \<Longrightarrow> Q r es) \<Longrightarrow> emits m Q"
  unfolding emits_def by blast

lemma emits_quiet: "quiet m \<Longrightarrow> (\<And>x. Q (Done x) []) \<Longrightarrow> emits m Q"
  unfolding quiet_def by (erule emits_mono) (metis outcome.exhaust)

lemma emits_finish: "Q (Done x) [] \<Longrightarrow> emits (finish x) Q"
  by (simp add: emits_def)

lemma emits_panic: "Q Panic [] \<Longrightarrow> emits panic Q"
  by (simp add: emits_def)

lemma emits_and_then:
  assumes "emits m (\<lambda>r es. case r of
      Panic \<Rightarrow> Q Panic es | Done x \<Rightarrow> emits (k x) (\<lambda>r' es'. Q r' (es @ es')))"
  shows "emits (and_then m k) Q"
proof (rule emitsI)
  fix w l r w' l'
  assume a: "and_then m k (w, l) = Some (r, (w', l'))"
  then obtain r1 w1 l1 where 1: "m (w, l) = Some (r1, (w1, l1))"
    by (auto simp: and_then_def split: option.splits)
  from emitsD [OF assms 1] obtain es where es: "l1 = l @ es"
    "case r1 of Panic \<Rightarrow> Q Panic es | Done x \<Rightarrow> emits (k x) (\<lambda>r' es'. Q r' (es @ es'))" by blast
  show "\<exists>es. l' = l @ es \<and> Q r es"
  proof (cases r1)
    case Panic
    with a 1 es show ?thesis by (auto simp: and_then_def)
  next
    case (Done x)
    with a 1 have "k x (w1, l1) = Some (r, (w', l'))" by (simp add: and_then_def)
    with es Done emitsD [of "k x" _ w1 l1 r w' l'] show ?thesis by fastforce
  qed
qed

lemma emits_try_c:
  assumes "emits m (\<lambda>r es. case r of
      Panic \<Rightarrow> Q Panic es
    | Done (Inl e) \<Rightarrow> emits (h e) (\<lambda>r' es'. Q r' (es @ es'))
    | Done (Inr x) \<Rightarrow> emits (k x) (\<lambda>r' es'. Q r' (es @ es')))"
  shows "emits (try_c m h k) Q"
  unfolding try_c_def
  by (rule emits_and_then, rule emits_mono [OF assms]) (auto split: outcome.splits sum.splits)

lemma emits_check_c:
  assumes "emits m (\<lambda>r es. case r of
      Panic \<Rightarrow> Q Panic es
    | Done (Inl e) \<Rightarrow> Q (Done (Inl (f e))) es
    | Done (Inr x) \<Rightarrow> emits (k x) (\<lambda>r' es'. Q r' (es @ es')))"
  shows "emits (check_c f m k) Q"
  unfolding check_c_def
  by (rule emits_try_c, rule emits_mono [OF assms])
    (auto split: outcome.splits sum.splits intro: emits_finish)

lemma emits_drop_error:
  assumes "emits m (\<lambda>r es. case r of
      Panic \<Rightarrow> Q Panic es | Done x \<Rightarrow> emits k (\<lambda>r' es'. Q r' (es @ es')))"
  shows "emits (drop_error m k) Q"
  unfolding drop_error_def by (rule emits_and_then [OF assms])

lemma emits_defer_c:
  assumes "emits m (\<lambda>r es. emits d (\<lambda>_ es'. Q r (es @ es')))"
  shows "emits (defer_c d m) Q"
proof (rule emitsI)
  fix w l r w' l'
  assume a: "defer_c d m (w, l) = Some (r, (w', l'))"
  then obtain r1 w1 l1 where 1: "m (w, l) = Some (r1, (w1, l1))"
    by (auto simp: defer_c_def split: option.splits)
  from emitsD [OF assms 1] obtain es where es: "l1 = l @ es" "emits d (\<lambda>_ es'. Q r1 (es @ es'))" by blast
  from a 1 obtain r2 where "d (w1, l1) = Some (r2, (w', l'))" "r1 = r"
    by (auto simp: defer_c_def split: option.splits)
  with es emitsD [OF es(2), of w1 l1 r2 w' l'] show "\<exists>es. l' = l @ es \<and> Q r es" by auto
qed

lemma emits_map_result:
  assumes "emits m (\<lambda>r es. case r of
      Panic \<Rightarrow> Q Panic es | Done (Inl e) \<Rightarrow> Q (Done (Inl e)) es | Done (Inr x) \<Rightarrow> Q (Done (Inr (f x))) es)"
  shows "emits (map_result f m) Q"
  unfolding map_result_def
  by (rule emits_check_c, rule emits_mono [OF assms])
    (auto split: outcome.splits sum.splits intro: emits_finish)

lemma emits_unlogged:
  "(\<And>x. Q (Done (Inr x)) []) \<Longrightarrow> (\<And>e. Q (Done (Inl e)) []) \<Longrightarrow> emits (hostcall (unlogged p)) Q"
  by (rule emitsI) (auto simp: hostcall_def unlogged_def split: prod.splits option.splits)

lemma emits_logged:
  "(\<And>x. Q (Done (Inr x)) [ev]) \<Longrightarrow> (\<And>e. Q (Done (Inl e)) [ev]) \<Longrightarrow> emits (hostcall (logged ev p)) Q"
  by (rule emitsI) (auto simp: hostcall_def logged_def split: prod.splits option.splits)

lemma emits_noting:
  "(\<And>x. Q (Done (Inr x)) (f x)) \<Longrightarrow> (\<And>e. Q (Done (Inl e)) []) \<Longrightarrow> emits (hostcall (noting f p)) Q"
  by (rule emitsI) (auto simp: hostcall_def noting_def toError_def split: prod.splits option.splits if_splits)

section \<open>Computations without events\<close>

lemma quiet_finish: "quiet (finish x)"
  by (simp add: quiet_def emits_finish)

lemma quiet_unlogged: "quiet (hostcall (unlogged p))"
  unfolding quiet_def by (rule emits_unlogged) simp_all

lemma quiet_and_then: "quiet m \<Longrightarrow> (\<And>x. quiet (k x)) \<Longrightarrow> quiet (and_then m k)"
  unfolding quiet_def
  by (rule emits_and_then, erule emits_mono) (auto split: outcome.splits elim: emits_mono)

lemma quiet_try_c: "quiet m \<Longrightarrow> (\<And>e. quiet (h e)) \<Longrightarrow> (\<And>x. quiet (k x)) \<Longrightarrow> quiet (try_c m h k)"
  unfolding try_c_def by (rule quiet_and_then) (auto split: sum.splits)

lemma quiet_check_c: "quiet m \<Longrightarrow> (\<And>x. quiet (k x)) \<Longrightarrow> quiet (check_c f m k)"
  unfolding check_c_def by (rule quiet_try_c) (auto intro: quiet_finish)

lemma quiet_drop_error: "quiet m \<Longrightarrow> quiet k \<Longrightarrow> quiet (drop_error m k)"
  unfolding drop_error_def by (rule quiet_and_then)

lemma quiet_map_result: "quiet m \<Longrightarrow> quiet (map_result f m)"
  unfolding map_result_def by (rule quiet_check_c) (auto intro: quiet_finish)

lemma quiet_tolerate: "quiet m \<Longrightarrow> quiet (tolerate ignore z m)"
  unfolding tolerate_def by (rule quiet_try_c) (auto intro: quiet_finish split: option.splits)

lemmas quiet_intros = quiet_finish quiet_unlogged quiet_and_then quiet_try_c quiet_check_c
  quiet_drop_error quiet_map_result quiet_tolerate

end
