(* ===== verification/WriterStates.thy ===== *)
theory WriterStates
  imports ResponseWriter EventLogs
begin

text \<open>
  The life of a \<open>responseWriter\<close> as a state machine: a handler makes any sequence of calls on a
  new writer, against any host.  The host records the hostcalls on the response and its body,
  and the invariant states the protocol they follow.
\<close>

section \<open>Recording the hostcalls\<close>

datatype http_event =
    EvFraming u32
  | EvStatus u32
  | EvHeader string string
  | EvSend u32
  | EvBodyWrite string
  | EvBodyAppend handle
  | EvTrailer string string
  | EvBodyClose
  | EvReqMethod string
  | EvReqURI string
  | EvReqHeader string string

text \<open>A host that answers like \<open>host\<close> and records what the response, its body and requests receive.\<close>

definition recorded :: "'w http_calls \<Rightarrow> ('w \<times> http_event list) http_calls" where
  "recorded host =
     \<lparr>c_resp_new = unlogged (c_resp_new host),
      c_resp_close = (\<lambda>h. unlogged (c_resp_close host h)),
      c_resp_header_names_get = (\<lambda>h n c. unlogged (c_resp_header_names_get host h n c)),
      c_resp_header_value_get = (\<lambda>h k n. unlogged (c_resp_header_value_get host h k n)),
      c_resp_header_values_get = (\<lambda>h k n c. unlogged (c_resp_header_values_get host h k n c)),
      c_resp_header_values_set = (\<lambda>h k v. logged (EvHeader k v) (c_resp_header_values_set host h k v)),
      c_resp_header_remove = (\<lambda>h k. unlogged (c_resp_header_remove host h k)),
      c_resp_status_get = (\<lambda>h. unlogged (c_resp_status_get host h)),
      c_resp_status_set = (\<lambda>h s. logged (EvStatus s) (c_resp_status_set host h s)),
      c_resp_framing_headers_mode_set = (\<lambda>h m. logged (EvFraming m) (c_resp_framing_headers_mode_set host h m)),
      c_resp_send_downstream = (\<lambda>h b s. logged (EvSend s) (c_resp_send_downstream host h b s)),
      c_body_new = unlogged (c_body_new host),
      c_body_append = (\<lambda>d s. logged (EvBodyAppend s) (c_body_append host d s)),
      c_body_read = (\<lambda>h n. unlogged (c_body_read host h n)),
      c_body_write = (\<lambda>h p e. logged (EvBodyWrite p) (c_body_write host h p e)),
      c_body_close = (\<lambda>h. logged EvBodyClose (c_body_close host h)),
      c_body_abandon = (\<lambda>h. unlogged (c_body_abandon host h)),
      c_body_known_length = (\<lambda>h. unlogged (c_body_known_length host h)),
      c_body_trailer_append = (\<lambda>h k v. logged (EvTrailer k v) (c_body_trailer_append host h k v)),
      c_body_trailer_names_get = (\<lambda>h n c. unlogged (c_body_trailer_names_get host h n c)),
      c_body_trailer_values_get = (\<lambda>h k n c. unlogged (c_body_trailer_values_get host h k n c)),
      c_req_new = unlogged (c_req_new host),
      c_req_method_get = (\<lambda>h n. unlogged (c_req_method_get host h n)),
      c_req_method_set = (\<lambda>h m. logged (EvReqMethod m) (c_req_method_set host h m)),
      c_req_uri_get = (\<lambda>h n. unlogged (c_req_uri_get host h n)),
      c_req_uri_set = (\<lambda>h u. logged (EvReqURI u) (c_req_uri_set host h u)),
      c_req_header_values_set = (\<lambda>h k v. logged (EvReqHeader k v) (c_req_header_values_set host h k v)),
      c_req_cache_override_v2_set = (\<lambda>h t a s k. unlogged (c_req_cache_override_v2_set host h t a s k)),
      c_req_auto_decompress_response_set = (\<lambda>h e. unlogged (c_req_auto_decompress_response_set host h e)),
      c_req_framing_headers_mode_set = (\<lambda>h m. unlogged (c_req_framing_headers_mode_set host h m)),
      c_req_send_v3 = (\<lambda>h b n d. unlogged (c_req_send_v3 host h b n d)),
      c_req_send_async_v2 = (\<lambda>h b n s. unlogged (c_req_send_async_v2 host h b n s)),
      c_req_send_async_streaming = (\<lambda>h b n. unlogged (c_req_send_async_streaming host h b n)),
      c_pending_req_poll_v2 = (\<lambda>h d. unlogged (c_pending_req_poll_v2 host h d)),
      c_pending_req_wait_v2 = (\<lambda>h d r b. unlogged (c_pending_req_wait_v2 host h d r b)),
      c_range_order = (\<lambda>(w, l). c_range_order host w)\<rparr>"

text \<open>\<open>adds_only P m\<close>: whatever \<open>m\<close> does, it only appends events with \<open>P\<close> to the record.\<close>

definition adds_only :: "('e \<Rightarrow> bool) \<Rightarrow> ('w \<times> 'e list, 'a) comp \<Rightarrow> bool" where
  "adds_only P m \<longleftrightarrow> (\<forall>w l r w' l'. m (w, l) = Some (r, (w', l')) \<longrightarrow> (\<exists>evs. l' = l @ evs \<and> list_all P evs))"

lemma adds_onlyD: "adds_only P m \<Longrightarrow> m (w, l) = Some (r, (w', l')) \<Longrightarrow> \<exists>evs. l' = l @ evs \<and> list_all P evs"
  unfolding adds_only_def by blast

lemma adds_only_finish [intro]: "adds_only P (finish x)"
  by (simp add: adds_only_def)

lemma adds_only_hostcall [intro]: "P ev \<Longrightarrow> adds_only P (hostcall (logged ev p))"
  by (auto simp: adds_only_def hostcall_def logged_def split: prod.splits)

lemma adds_only_and_then [intro]:
  assumes m: "adds_only P m" and k: "\<And>x. adds_only P (k x)"
  shows "adds_only P (and_then m k)"
  unfolding adds_only_def
proof (intro allI impI)
  fix w l r w' l'
  assume a: "and_then m k (w, l) = Some (r, (w', l'))"
  then obtain x w1 l1 where 1: "m (w, l) = Some (x, (w1, l1))"
    by (auto simp: and_then_def split: option.splits)
  from adds_onlyD [OF m 1] obtain e1 where e1: "l1 = l @ e1" "list_all P e1" by blast
  show "\<exists>evs. l' = l @ evs \<and> list_all P evs"
  proof (cases x)
    case Panic
    with a 1 e1 show ?thesis by (auto simp: and_then_def)
  next
    case (Done y)
    with a 1 have "k y (w1, l1) = Some (r, (w', l'))" by (simp add: and_then_def)
    from adds_onlyD [OF k this] e1 show ?thesis by fastforce
  qed
qed

lemma adds_only_drop_error [intro]: "adds_only P m \<Longrightarrow> adds_only P k \<Longrightarrow> adds_only P (drop_error m k)"
  by (auto simp: drop_error_def)

lemma adds_only_run_each: "(\<And>k. k \<in> set ks \<Longrightarrow> adds_only P (f k)) \<Longrightarrow> adds_only P (run_each f ks)"
  by (induction ks) auto

text \<open>A computation that depends on the world it starts in.\<close>

lemma adds_only_at: "(\<And>w. adds_only P (m w)) \<Longrightarrow> adds_only P (\<lambda>w. m w w)"
  unfolding adds_only_def by blast

lemma run_each_returns:
  "(\<And>k w. \<exists>r w'. f k w = Some (Done r, w')) \<Longrightarrow> \<exists>w'. run_each f ks w = Some (Done (), w')"
proof (induction ks arbitrary: w)
  case (Cons k ks)
  obtain r w1 where "f k w = Some (Done r, w1)" using Cons.prems by blast
  with Cons show ?case by (simp add: drop_error_def and_then_def)
qed simp

lemma adds_only_body_write: "(\<And>p. P (EvBodyWrite p)) \<Longrightarrow> adds_only P (body_write_from (recorded host) h p n)"
proof -
  assume P: "\<And>p. P (EvBodyWrite p)"
  have "\<exists>evs. snd (snd r) = snd ww @ evs \<and> list_all P evs"
    if "body_write_from H h p n ww = Some r" "H = recorded host" for H r ww
    using that
  proof (induction H h p n ww r rule: body_write_from.raw_induct [rotated, consumes 1])
    case (1 self H h p n ww r)
    show ?case
    proof (cases "n < length p")
      case False
      with 1 show ?thesis by auto
    next
      case True
      obtain w l where ww: "ww = (w, l)" by force
      obtain s nw w' where c: "c_body_write host h (drop n p) bodyWriteEndBack w = ((s, nw), w')"
        by (metis surj_pair)
      then have c': "c_body_write H h (drop n p) bodyWriteEndBack ww
          = ((s, nw), (w', l @ [EvBodyWrite (drop n p)]))"
        using 1(3) ww by (simp add: recorded_def logged_def)
      show ?thesis
      proof (cases "toError s")
        case (Some e)
        with 1(2) True c' P ww show ?thesis by auto
      next
        case None
        with 1(2) True c' have a: "self H h p (n + unat nw) (w', l @ [EvBodyWrite (drop n p)]) = Some r"
          by simp
        from 1(1) [OF a 1(3)] obtain evs where
          "snd (snd r) = (l @ [EvBodyWrite (drop n p)]) @ evs" "list_all P evs" by auto
        then have "snd (snd r) = snd ww @ (EvBodyWrite (drop n p) # evs)
            \<and> list_all P (EvBodyWrite (drop n p) # evs)" using P ww by simp
        then show ?thesis by blast
      qed
    qed
  qed
  then show ?thesis unfolding adds_only_def by fastforce
qed

section \<open>The calls of a handler\<close>

datatype handler_op =
    OpHeaders Header
  | OpFraming bool
  | OpWriteHeader int
  | OpWrite string
  | OpAppend HTTPBody
  | OpAppendOther
  | OpClose

text \<open>A handler may change the header map in any way between calls.\<close>

definition run_op :: "'w http_calls \<Rightarrow> handler_op \<Rightarrow> responseWriter \<Rightarrow> ('w, responseWriter) comp" where
  "run_op host a rw =
     (case a of
        OpHeaders h \<Rightarrow> finish (rw\<lparr>w_header := h\<rparr>)
      | OpFraming mode \<Rightarrow> finish (SetManualFramingMode mode rw)
      | OpWriteHeader code \<Rightarrow> WriteHeader host code rw
      | OpWrite p \<Rightarrow> and_then (rw_Write host p rw) (\<lambda>r. finish (snd r))
      | OpAppend b \<Rightarrow> and_then (rw_Append host (AbiBody b :: unit ReadCloser) rw) (\<lambda>r. finish (snd r))
      | OpAppendOther \<Rightarrow> and_then (rw_Append host (OtherBody ()) rw) (\<lambda>r. finish (snd r))
      | OpClose \<Rightarrow> and_then (rw_Close host rw) (\<lambda>r. finish (snd r)))"

inductive writer_reach :: "'w http_calls \<Rightarrow> responseWriter \<times> 'w \<times> http_event list \<Rightarrow> bool"
  for host :: "'w http_calls" where
  writer_start:
    "newResponseWriter (recorded host) (w, []) = Some (Done (Inr rw), (w', log)) \<Longrightarrow>
     writer_reach host (rw, w', log)"
| writer_step:
    "writer_reach host (rw, w, log) \<Longrightarrow>
     run_op (recorded host) a rw (w, log) = Some (Done rw', (w', log')) \<Longrightarrow>
     writer_reach host (rw', w', log')"

text \<open>A handler that makes a list of calls on its response writer, which may depend on the request.\<close>

fun run_ops :: "'w http_calls \<Rightarrow> handler_op list \<Rightarrow> responseWriter \<Rightarrow> ('w, responseWriter) comp" where
  "run_ops host [] rw = finish rw"
| "run_ops host (a # ops) rw = and_then (run_op host a rw) (run_ops host ops)"

lemma run_ops_reach:
  "writer_reach host (rw, w, log) \<Longrightarrow> run_ops (recorded host) ops rw (w, log) = Some (Done rw', (w', log')) \<Longrightarrow>
   writer_reach host (rw', w', log')"
proof (induction ops arbitrary: rw w log)
  case (Cons a ops)
  from and_then_mono [OF Cons.prems(2) [unfolded run_ops.simps]] obtain rw1 w1 l1 where
    "run_op (recorded host) a rw (w, log) = Some (Done rw1, (w1, l1))"
    "run_ops (recorded host) ops rw1 (w1, l1) = Some (Done rw', (w', log'))" by auto
  with Cons show ?case by (blast intro: writer_step)
qed simp

section \<open>The protocol\<close>

definition clean_value :: "string \<Rightarrow> bool" where
  "clean_value v \<longleftrightarrow> CHR 10 \<notin> set v \<and> CHR 13 \<notin> set v"

fun head_event :: "http_event \<Rightarrow> bool" where
  "head_event (EvFraming m) = True"
| "head_event (EvStatus s) = True"
| "head_event (EvHeader k v) = clean_value v"
| "head_event (EvSend s) = (s = 0)"
| "head_event _ = False"

fun body_event :: "http_event \<Rightarrow> bool" where
  "body_event (EvBodyWrite p) = True"
| "body_event (EvBodyAppend h) = True"
| "body_event (EvTrailer k v) = True"
| "body_event EvBodyClose = True"
| "body_event _ = False"

definition closes :: "http_event list \<Rightarrow> nat" where
  "closes log = length (filter (\<lambda>e. e = EvBodyClose) log)"

definition writer_protocol :: "responseWriter \<Rightarrow> http_event list \<Rightarrow> bool" where
  "writer_protocol rw log \<longleftrightarrow>
     (if w_wroteHeaders rw
      then \<exists>head body. log = head @ [EvSend 1] @ body \<and> list_all head_event head \<and> list_all body_event body
      else list_all head_event log)
     \<and> closes log \<le> (if w_closed rw then 1 else 0)
     \<and> (w_closed rw \<longrightarrow> w_wroteHeaders rw)
     \<and> (b_closable (w_abiBody rw) \<longrightarrow> w_wroteHeaders rw)"

lemma closes_append [simp]: "closes (a @ b) = closes a + closes b"
  by (simp add: closes_def)

lemma closes_head: "list_all head_event evs \<Longrightarrow> closes evs = 0"
  by (auto simp: closes_def list_all_iff filter_empty_conv)

definition open_body :: "http_event \<Rightarrow> bool" where
  "open_body e \<longleftrightarrow> body_event e \<and> e \<noteq> EvBodyClose"

lemma open_body_list: "list_all open_body evs \<Longrightarrow> list_all body_event evs \<and> closes evs = 0"
  by (auto simp: open_body_def closes_def list_all_iff filter_empty_conv)

lemma clean_nul_values: "clean_value (nul_values (map headerNewlineToSpace vs))"
  by (induction vs) (auto simp: nul_values_def clean_value_def headerNewlineToSpace_def)

lemma adds_only_SetHeaderValues:
  "adds_only head_event (HTTPResponse_SetHeaderValues (recorded host) h k (map headerNewlineToSpace vs))"
  unfolding HTTPResponse_SetHeaderValues_def recorded_def http_calls.simps
  by (rule adds_only_hostcall) (simp add: clean_nul_values)

lemma adds_only_send_headers: "adds_only head_event (send_headers (recorded host) skip rw)"
  unfolding send_headers_def
  by (rule adds_only_run_each) (auto intro: adds_only_SetHeaderValues)

text \<open>The framing mode, the status and the headers: only head events, then the send.\<close>

lemma adds_only_framing: "adds_only head_event (HTTPResponse_SetFramingHeadersMode (recorded host) h m)"
  unfolding HTTPResponse_SetFramingHeadersMode_def recorded_def http_calls.simps
  by (rule adds_only_hostcall) simp

lemma adds_only_status: "adds_only head_event (HTTPResponse_SetStatusCode (recorded host) h c)"
  unfolding HTTPResponse_SetStatusCode_def recorded_def http_calls.simps
  by (rule adds_only_hostcall) simp

lemma SendDownstream_recorded:
  "\<exists>r w'. HTTPResponse_SendDownstream (recorded host) h b s (w, l)
      = Some (Done r, (w', l @ [EvSend (if s then 1 else 0)]))
    \<and> (\<forall>b'. r = Inr b' \<longrightarrow> b' = (if s then b\<lparr>b_closable := True\<rparr> else b))"
  by (cases "c_resp_send_downstream host h (b_h b) (if s then 1 else 0) w")
    (auto simp: HTTPResponse_SendDownstream_def check_c_def try_c_def and_then_def hostcall_def
      recorded_def logged_def split: option.splits)

lemma drop_error_Some:
  "drop_error m k w = Some (Done y, w'') \<Longrightarrow>
   \<exists>x w'. m w = Some (Done x, w') \<and> k w' = Some (Done y, w'')"
  by (auto simp: drop_error_def and_then_def split: option.splits outcome.splits)

lemma WriteHeader_recorded:
  assumes "WriteHeader (recorded host) code rw (w, log) = Some (Done rw', (w', log'))"
    and "\<not> w_wroteHeaders rw"
  shows "\<exists>evs. log' = log @ evs @ [EvSend (if code = 103 then 0 else 1)] \<and> list_all head_event evs
    \<and> w_wroteHeaders rw' = (code \<noteq> 103) \<and> w_closed rw' = w_closed rw
    \<and> (b_closable (w_abiBody rw') \<longrightarrow> b_closable (w_abiBody rw) \<or> code \<noteq> 103)
    \<and> w_header rw' = w_header rw"
proof -
  let ?H = "recorded host"
  let ?fr = "HTTPResponse_SetFramingHeadersMode ?H (w_abiResp rw) (w_ManualFramingMode rw)"
  let ?st = "HTTPResponse_SetStatusCode ?H (w_abiResp rw) code"
  let ?hd = "send_headers ?H (if code = StatusEarlyHints then excludeHeadersNoBody else []) rw"
  let ?send = "HTTPResponse_SendDownstream ?H (w_abiResp rw) (w_abiBody rw) (code \<noteq> StatusEarlyHints)"
  obtain x1 w1 l1 x2 w2 l2 x3 w3 l3 where
    1: "?fr (w, log) = Some (Done x1, (w1, l1))" and 2: "?st (w1, l1) = Some (Done x2, (w2, l2))"
    and 3: "?hd (w2, l2) = Some (Done x3, (w3, l3))"
    and rest: "and_then ?send (\<lambda>r.
              let resp = (case r of
                    Inr body \<Rightarrow> rw\<lparr>w_sendErr := None, w_abiBody := body\<rparr>
                  | Inl e \<Rightarrow> rw\<lparr>w_sendErr := Some (send_error e)\<rparr>);
                  resp = resp\<lparr>w_trailers := parseTrailers (Header_Values (w_header resp) ''Trailer'')\<rparr>
              in finish (if code = StatusEarlyHints then resp else resp\<lparr>w_wroteHeaders := True\<rparr>)) (w3, l3)
        = Some (Done rw', (w', log'))"
    using assms by (auto simp: WriteHeader_def dest!: drop_error_Some)
  obtain e1 e2 e3 where e: "l3 = log @ e1 @ e2 @ e3" "list_all head_event (e1 @ e2 @ e3)"
    using adds_onlyD [OF adds_only_framing 1] adds_onlyD [OF adds_only_status 2] adds_onlyD [OF adds_only_send_headers 3]
    by auto
  obtain r w4 where s: "?send (w3, l3) = Some (Done r, (w4, l3 @ [EvSend (if code \<noteq> StatusEarlyHints then 1 else 0)]))"
    "\<And>b'. r = Inr b' \<Longrightarrow> b' = (if code \<noteq> StatusEarlyHints then (w_abiBody rw)\<lparr>b_closable := True\<rparr> else w_abiBody rw)"
    using SendDownstream_recorded [of host "w_abiResp rw" "w_abiBody rw" "code \<noteq> StatusEarlyHints" w3 l3]
    by auto
  have "log' = log @ (e1 @ e2 @ e3) @ [EvSend (if code = 103 then 0 else 1)]"
    using rest s(1) e by (cases r) (auto simp: and_then_def Let_def)
  moreover have "w_wroteHeaders rw' = (code \<noteq> 103) \<and> w_closed rw' = w_closed rw
    \<and> (b_closable (w_abiBody rw') \<longrightarrow> b_closable (w_abiBody rw) \<or> code \<noteq> 103)
    \<and> w_header rw' = w_header rw"
    using rest s(1) s(2) assms(2) by (cases r; cases "code = 103") (auto simp: and_then_def Let_def)
  ultimately show ?thesis using e(2) by blast
qed


lemma protocol_WriteHeader:
  assumes "writer_protocol rw log" "WriteHeader (recorded host) code rw (w, log) = Some (Done rw', (w', log'))"
  shows "writer_protocol rw' log' \<and> (code \<noteq> 103 \<longrightarrow> w_wroteHeaders rw') \<and> w_closed rw' = w_closed rw"
proof (cases "w_wroteHeaders rw")
  case True
  with assms(2) have "rw' = rw" "log' = log" by (auto simp: WriteHeader_def)
  with assms(1) True show ?thesis by simp
next
  case False
  from WriteHeader_recorded [OF assms(2) False] obtain evs where
    e: "log' = log @ evs @ [EvSend (if code = 103 then 0 else 1)]" "list_all head_event evs"
    and rw': "w_wroteHeaders rw' = (code \<noteq> 103)" "w_closed rw' = w_closed rw"
      "b_closable (w_abiBody rw') \<longrightarrow> b_closable (w_abiBody rw) \<or> code \<noteq> 103" by blast
  have log: "list_all head_event log" "\<not> w_closed rw" "closes log = 0" "\<not> b_closable (w_abiBody rw)"
    using assms(1) False by (auto simp: writer_protocol_def)
  have "closes log' = 0" using e log closes_head [OF e(2)] by (simp add: closes_def)
  moreover have "code \<noteq> 103 \<Longrightarrow> \<exists>head body. log' = head @ [EvSend 1] @ body
      \<and> list_all head_event head \<and> list_all body_event body"
    using e log by (intro exI [of _ "log @ evs"] exI [of _ "[]"]) simp
  moreover have "code = 103 \<Longrightarrow> list_all head_event log'" using e log by simp
  ultimately show ?thesis using rw' log by (auto simp: writer_protocol_def)
qed

lemma protocol_implicit:
  assumes "writer_protocol rw log" "implicit_header (recorded host) rw (w, log) = Some (Done rw', (w', log'))"
  shows "writer_protocol rw' log' \<and> w_wroteHeaders rw' \<and> w_closed rw' = w_closed rw"
  using assms protocol_WriteHeader [OF assms(1), of host 200 w rw' w' log']
  by (auto simp: implicit_header_def split: if_splits)

lemma protocol_body:
  assumes "writer_protocol rw log" "w_wroteHeaders rw" "list_all open_body evs"
  shows "writer_protocol rw (log @ evs)"
proof -
  obtain head body where log: "log = head @ [EvSend 1] @ body" "list_all head_event head" "list_all body_event body"
    using assms(1,2) by (auto simp: writer_protocol_def)
  have "\<exists>h b. log @ evs = h @ [EvSend 1] @ b \<and> list_all head_event h \<and> list_all body_event b"
    using log open_body_list [OF assms(3)] by (intro exI [of _ head] exI [of _ "body @ evs"]) simp
  then show ?thesis using assms open_body_list [OF assms(3)] by (simp add: writer_protocol_def)
qed

lemma and_then_Some:
  "and_then m k w = Some (Done y, w'') \<Longrightarrow> \<exists>x w'. m w = Some (Done x, w') \<and> k x w' = Some (Done y, w'')"
  by (rule and_then_mono)

lemma adds_only_Write: "adds_only open_body (HTTPBody_Write (recorded host) b p)"
  unfolding HTTPBody_Write_def by (rule adds_only_body_write) (simp add: open_body_def)

lemma adds_only_Append: "adds_only open_body (HTTPBody_Append (recorded host) b other)"
  unfolding HTTPBody_Append_def recorded_def http_calls.simps
  by (rule adds_only_hostcall) (simp add: open_body_def)

lemma adds_only_trailers: "adds_only open_body (writeTrailers (recorded host) rw)"
  unfolding writeTrailers_def HTTPBody_TrailerAppend_def
  by (rule adds_only_at, rule adds_only_drop_error [OF adds_only_run_each adds_only_finish])
    (auto simp: recorded_def open_body_def intro!: adds_only_hostcall)

lemma protocol_Write:
  assumes "writer_protocol rw log" "rw_Write (recorded host) p rw (w, log) = Some (Done r, (w', log'))"
  shows "writer_protocol (snd r) log'"
proof (cases "w_sendErr rw")
  case (Some e)
  with assms show ?thesis by (auto simp: rw_Write_def)
next
  case None
  with assms(2) obtain rw1 w1 l1 n err where
    1: "implicit_header (recorded host) rw (w, log) = Some (Done rw1, (w1, l1))"
    and 2: "HTTPBody_Write (recorded host) (w_abiBody rw1) p (w1, l1) = Some (Done (n, err), (w', log'))"
    and r: "snd r = rw1"
    by (auto simp: rw_Write_def dest!: and_then_Some split: prod.splits)
  from adds_onlyD [OF adds_only_Write 2] obtain evs where "log' = l1 @ evs" "list_all open_body evs" by blast
  with protocol_implicit [OF assms(1) 1] protocol_body r show ?thesis by simp
qed

lemma protocol_Append:
  assumes "writer_protocol rw log" "rw_Append (recorded host) other rw (w, log) = Some (Done r, (w', log'))"
  shows "writer_protocol (snd r) log'"
proof (cases "w_sendErr rw")
  case (Some e)
  with assms show ?thesis by (auto simp: rw_Append_def)
next
  case None
  with assms(2) obtain rw1 w1 l1 where
    1: "implicit_header (recorded host) rw (w, log) = Some (Done rw1, (w1, l1))"
    and 2: "(case other of
            OtherBody _ \<Rightarrow>
              finish (Some (Text ''non-Response Body passed to ResponseWriter.Append''), rw1)
          | AbiBody otherAbiBody \<Rightarrow>
              and_then (HTTPBody_Append (recorded host) (w_abiBody rw1) otherAbiBody) (\<lambda>r.
                finish (case r of Inl e \<Rightarrow> Some e | Inr _ \<Rightarrow> None, rw1))) (w1, l1) = Some (Done r, (w', log'))"
    by (auto simp: rw_Append_def dest!: and_then_Some)
  note p1 = protocol_implicit [OF assms(1) 1]
  show ?thesis
  proof (cases other)
    case (OtherBody _)
    with 2 p1 show ?thesis by auto
  next
    case (AbiBody b)
    with 2 obtain x where 3: "HTTPBody_Append (recorded host) (w_abiBody rw1) b (w1, l1) = Some (Done x, (w', log'))"
      and r: "snd r = rw1"
      by (auto dest!: and_then_Some)
    from adds_onlyD [OF adds_only_Append 3] obtain evs where "log' = l1 @ evs" "list_all open_body evs" by blast
    with p1 protocol_body r show ?thesis by simp
  qed
qed

lemma HTTPBody_Close_recorded:
  assumes "HTTPBody_Close (recorded host) b (w, l) = Some (Done r, (w', l'))"
  shows "l' = l \<or> l' = l @ [EvBodyClose]"
proof (cases "b_closable b")
  case True
  with assms show ?thesis
    by (cases "c_body_close host (b_h b) w")
      (auto simp: HTTPBody_Close_def hostcall_def recorded_def logged_def)
qed (use assms in \<open>auto simp: HTTPBody_Close_def\<close>)

lemma protocol_Close:
  assumes "writer_protocol rw log" "rw_Close (recorded host) rw (w, log) = Some (Done r, (w', log'))"
  shows "writer_protocol (snd r) log'"
proof (cases "w_sendErr rw")
  case (Some e)
  with assms show ?thesis by (auto simp: rw_Close_def)
next
  case None
  with assms(2) obtain rw1 w1 l1 where
    1: "implicit_header (recorded host) rw (w, log) = Some (Done rw1, (w1, l1))"
    and 2: "(if w_closed rw1 then finish (None, rw1)
          else
            let resp = rw1\<lparr>w_closed := True\<rparr> in
            and_then (writeTrailers (recorded host) resp) (\<lambda>r.
              case r of
                Inl e \<Rightarrow> finish (Some e, resp)
              | Inr _ \<Rightarrow>
                  and_then (HTTPBody_Close (recorded host) (w_abiBody resp)) (\<lambda>r.
                    finish (case r of Inl e \<Rightarrow> Some e | Inr _ \<Rightarrow> None, resp)))) (w1, l1) = Some (Done r, (w', log'))"
    by (auto simp: rw_Close_def dest!: and_then_Some)
  note p1 = protocol_implicit [OF assms(1) 1]
  let ?rw = "rw1\<lparr>w_closed := True\<rparr>"
  show ?thesis
  proof (cases "w_closed rw1")
    case True
    with 2 p1 show ?thesis by auto
  next
    case False
    with 2 obtain t w2 l2 where 3: "writeTrailers (recorded host) ?rw (w1, l1) = Some (Done t, (w2, l2))"
      and 4: "(case t of
                Inl e \<Rightarrow> finish (Some e, ?rw)
              | Inr _ \<Rightarrow>
                  and_then (HTTPBody_Close (recorded host) (w_abiBody rw1)) (\<lambda>r.
                    finish (case r of Inl e \<Rightarrow> Some e | Inr _ \<Rightarrow> None, ?rw))) (w2, l2) = Some (Done r, (w', log'))"
      by (auto simp: Let_def dest!: and_then_Some)
    have p2: "writer_protocol ?rw l2" "w_wroteHeaders ?rw" "closes l2 = 0"
    proof -
      from adds_onlyD [OF adds_only_trailers 3] obtain evs where "l2 = l1 @ evs" "list_all open_body evs" by blast
      with protocol_body p1 have "writer_protocol rw1 l2" by simp
      then show "writer_protocol ?rw l2" "w_wroteHeaders ?rw" "closes l2 = 0"
        using False p1 by (auto simp: writer_protocol_def)
    qed
    have "snd r = ?rw \<and> (log' = l2 \<or> log' = l2 @ [EvBodyClose])"
    proof (cases t)
      case (Inl e)
      with 4 show ?thesis by auto
    next
      case (Inr u)
      with 4 show ?thesis by (auto dest!: and_then_Some HTTPBody_Close_recorded)
    qed
    moreover have "writer_protocol ?rw (l2 @ [EvBodyClose])"
    proof -
      obtain head body where "l2 = head @ [EvSend 1] @ body" "list_all head_event head" "list_all body_event body"
        using p2 by (auto simp: writer_protocol_def)
      then have "\<exists>h b. l2 @ [EvBodyClose] = h @ [EvSend 1] @ b \<and> list_all head_event h \<and> list_all body_event b"
        by (intro exI [of _ head] exI [of _ "body @ [EvBodyClose]"]) simp
      with p2 show ?thesis by (simp add: writer_protocol_def closes_def)
    qed
    ultimately show ?thesis using p2 by auto
  qed
qed

lemma protocol_op:
  assumes "writer_protocol rw log" "run_op (recorded host) a rw (w, log) = Some (Done rw', (w', log'))"
  shows "writer_protocol rw' log'"
proof (cases a)
  case (OpWrite p)
  with assms protocol_Write show ?thesis
    by (force simp: run_op_def dest!: and_then_Some)
next
  case (OpAppend b)
  with assms protocol_Append show ?thesis
    by (force simp: run_op_def dest!: and_then_Some)
next
  case OpAppendOther
  with assms protocol_Append show ?thesis
    by (force simp: run_op_def dest!: and_then_Some)
next
  case OpClose
  with assms protocol_Close show ?thesis
    by (force simp: run_op_def dest!: and_then_Some)
next
  case (OpWriteHeader code)
  with assms(2) have "WriteHeader (recorded host) code rw (w, log) = Some (Done rw', (w', log'))"
    by (simp add: run_op_def)
  from protocol_WriteHeader [OF assms(1) this] show ?thesis by simp
qed (use assms in \<open>auto simp: run_op_def writer_protocol_def SetManualFramingMode_def\<close>)

lemma newResponseWriter_recorded:
  assumes "newResponseWriter (recorded host) (w, []) = Some (Done (Inr rw), (w', log))"
  shows "log = [] \<and> \<not> w_wroteHeaders rw \<and> \<not> w_closed rw \<and> \<not> b_closable (w_abiBody rw)"
  using assms
  by (auto simp: newResponseWriter_def NewHTTPResponse_def NewHTTPBody_def check_c_def try_c_def
      and_then_def hostcall_def recorded_def unlogged_def
      split: option.splits outcome.splits sum.splits prod.splits)

text \<open>The protocol is an invariant of the states a handler can reach.\<close>

lemma writer_reach_protocol:
  assumes "writer_reach host (rw, w, log)"
  shows "writer_protocol rw log"
  using assms
proof (induction "(rw, w, log)" arbitrary: rw w log rule: writer_reach.induct)
  case (writer_start w rw w' log)
  from newResponseWriter_recorded [OF this] show ?case by (simp add: writer_protocol_def closes_def)
next
  case (writer_step rw w log a rw' w' log')
  from protocol_op [OF this(2,3)] show ?case .
qed

text \<open>
  C1: whatever calls a handler makes on its response writer and whatever the host answers,
  the hostcalls follow the protocol of a response: framing, status and headers (and early
  hints) first, at most one streaming send, body, trailers and close only after it, at most
  one close; and no header value that is sent contains a line break.
\<close>

theorem response_writer_protocol:
  assumes "writer_reach host (rw, w, log)"
  shows "writer_protocol rw log"
  using assms by (rule writer_reach_protocol)

definition rw_start :: responseWriter where
  "rw_start = \<lparr>w_header = [], w_abiResp = 1, w_abiBody = \<lparr>b_h = 2, b_closable = False\<rparr>,
      w_wroteHeaders = False, w_closed = False, w_ManualFramingMode = False, w_sendErr = None, w_trailers = []\<rparr>"

theorem response_writer_protocol_witness:
  "let log = [EvFraming 0, EvStatus 200, EvHeader ''Age'' [CHR ''1'', CHR '' '', CHR ''x'', CHR 0x00], EvSend 1,
              EvBodyWrite ''hi'', EvBodyClose];
       rw = rw_start\<lparr>w_header := [(''Age'', [[CHR ''1'', CHR 10, CHR ''x'']])],
              w_abiBody := \<lparr>b_h = 2, b_closable = True\<rparr>, w_wroteHeaders := True, w_closed := True\<rparr>
   in writer_reach accepting_host (rw, (), log) \<and> writer_protocol rw log"
proof -
  let ?h = "[(''Age'', [[CHR ''1'', CHR 10, CHR ''x'']])]"
  let ?l = "[EvFraming 0, EvStatus 200, EvHeader ''Age'' [CHR ''1'', CHR '' '', CHR ''x'', CHR 0x00], EvSend 1, EvBodyWrite ''hi'']"
  let ?rw1 = "rw_start\<lparr>w_header := ?h\<rparr>"
  let ?rw2 = "?rw1\<lparr>w_abiBody := \<lparr>b_h = 2, b_closable = True\<rparr>, w_wroteHeaders := True\<rparr>"
  let ?rw3 = "?rw2\<lparr>w_closed := True\<rparr>"
  have 0: "newResponseWriter (recorded accepting_host) ((), []) = Some (Done (Inr rw_start), ((), []))"
    by code_simp
  have 1: "run_op (recorded accepting_host) (OpHeaders ?h) rw_start ((), []) = Some (Done ?rw1, ((), []))"
    by code_simp
  let ?sent = "[EvFraming 0, EvStatus 200, EvHeader ''Age'' [CHR ''1'', CHR '' '', CHR ''x'', CHR 0x00], EvSend 1]"
  have 2: "run_op (recorded accepting_host) (OpWriteHeader 200) ?rw1 ((), []) = Some (Done ?rw2, ((), ?sent))"
    by code_simp
  have w: "run_op (recorded accepting_host) (OpWrite ''hi'') ?rw2 ((), l) = Some (Done ?rw2, ((), l @ [EvBodyWrite ''hi'']))" for l
    by (simp add: run_op_def rw_Write_def implicit_header_def HTTPBody_Write_def body_write_from.simps
        and_then_def recorded_def accepting_host_def accept_def logged_def rw_start_def)
  have w: "run_op (recorded accepting_host) (OpWrite ''hi'') ?rw2 ((), ?sent) = Some (Done ?rw2, ((), ?l))"
    using w [of ?sent] by simp
  have 3: "run_op (recorded accepting_host) OpClose ?rw2 ((), ?l) = Some (Done ?rw3, ((), ?l @ [EvBodyClose]))"
    by code_simp
  have "writer_reach accepting_host (?rw3, (), ?l @ [EvBodyClose])"
    by (rule writer_step [OF writer_step [OF writer_step [OF writer_step [OF writer_start [OF 0] 1] 2] w] 3])
  from this response_writer_protocol [OF this] show ?thesis by (simp add: Let_def)
qed

section \<open>Trailers\<close>


text \<open>The first value of every trailer, keyed by its name.\<close>

lemma trailer_map_declared:
  "map_of (fold (\<lambda>h t. let v = vals h in if 0 < length v then AList.update h v t else t) ns t) k =
     (if k \<in> set ns \<and> vals k \<noteq> [] then Some (vals k) else map_of t k)"
  by (induction ns arbitrary: t) (auto simp: Let_def update_conv')

lemma trailer_map_prefixed:
  "map_of (fold (\<lambda>h t. case cut_prefix h p of (key, ok) \<Rightarrow>
       let v = vals h in if ok \<and> 0 < length v then AList.update key v t else t) ks t) k =
     (if p @ k \<in> set ks \<and> vals (p @ k) \<noteq> [] then Some (vals (p @ k)) else map_of t k)"
proof (induction ks arbitrary: t)
  case (Cons h ks)
  obtain key ok where c: "cut_prefix h p = (key, ok)" by (metis surj_pair)
  show ?case
  proof (cases ok)
    case True
    with c have h: "h = p @ key" by (simp add: cut_prefix_key)
    have c: "cut_prefix (p @ key) p = (key, True)" using c True h by simp
    show ?thesis unfolding h fold.simps o_def c Cons.IH
      by (cases "k = key") (auto simp: Let_def update_conv')
  next
    case False
    then have "h \<noteq> p @ k" using c cut_prefix_key [of h p k] by auto
    with Cons c False show ?thesis by (simp add: Let_def del: cut_prefix.simps)
  qed
qed simp

lemma map_of_trailer_map:
  "map_of (trailer_map rw) k =
     (let vals = Header_Values (w_header rw) in
      if k \<in> set (w_trailers rw) \<and> vals k \<noteq> [] then Some (vals k)
      else if TrailerPrefix @ k \<in> set (Header_Keys (w_header rw)) \<and> vals (TrailerPrefix @ k) \<noteq> []
      then Some (vals (TrailerPrefix @ k)) else None)"
  unfolding trailer_map_def trailer_map_declared trailer_map_prefixed
  by (simp add: NewHeader_def Let_def)

lemma distinct_trailer_map: "distinct (map fst (trailer_map rw))"
proof -
  have step: "distinct (map fst (fold f xs t))"
    if "\<And>x t. distinct (map fst t) \<Longrightarrow> distinct (map fst (f x t))" "distinct (map fst t)"
    for f :: "'x \<Rightarrow> Header \<Rightarrow> Header" and xs t
    using that(2) by (induction xs arbitrary: t) (auto intro: that(1))
  show ?thesis unfolding trailer_map_def
    by (intro step) (auto simp: NewHeader_def Let_def distinct_update simp del: cut_prefix.simps split: prod.split)
qed

text \<open>\<open>records m evs\<close>: a call that returns and records exactly \<open>evs\<close>.\<close>

definition records :: "('w \<times> 'e list, 'a) comp \<Rightarrow> 'e list \<Rightarrow> bool" where
  "records m evs \<longleftrightarrow> (\<forall>w l. \<exists>r w'. m (w, l) = Some (Done r, (w', l @ evs)))"

lemma records_hostcall: "records (hostcall (logged ev p)) [ev]"
  unfolding records_def
proof (intro allI)
  fix w l
  obtain s x w' where "p w = ((s, x), w')" by (metis surj_pair)
  then show "\<exists>r w'. hostcall (logged ev p) (w, l) = Some (Done r, (w', l @ [ev]))"
    by (simp add: hostcall_def logged_def)
qed

lemma records_run_each:
  "(\<And>k. k \<in> set ks \<Longrightarrow> records (f k) [ev k]) \<Longrightarrow> records (run_each f ks) (map ev ks)"
proof (induction ks)
  case Nil
  then show ?case by (simp add: records_def)
next
  case (Cons k ks)
  show ?case unfolding records_def
  proof (intro allI)
    fix w l
    obtain r w1 where 1: "f k (w, l) = Some (Done r, (w1, l @ [ev k]))"
      using Cons.prems [of k] unfolding records_def by fastforce
    obtain r2 w2 where "run_each f ks (w1, l @ [ev k]) = Some (Done r2, (w2, (l @ [ev k]) @ map ev ks))"
      using Cons.IH Cons.prems unfolding records_def by (metis list.set_intros(2))
    with 1 show "\<exists>r w'. run_each f (k # ks) (w, l) = Some (Done r, (w', l @ map ev (k # ks)))"
      by (simp add: drop_error_Done)
  qed
qed

text \<open>The trailers as they are sent: each once, in the order of the range over the map.\<close>

lemma records_trailers:
  "\<exists>r w'. writeTrailers (recorded host) rw (w, l) = Some (Done (Inr r),
      (w', l @ map (\<lambda>(k, v). EvTrailer k (hd v)) (map_range host w (trailer_map rw))))"
proof -
  let ?ts = "map_range (recorded host) (w, l) (trailer_map rw)"
  have "records (run_each (\<lambda>(k, v). HTTPBody_TrailerAppend (recorded host) (w_abiBody rw) k (hd v)) ts)
    (map (\<lambda>(k, v). EvTrailer k (hd v)) ts)" for ts
    by (rule records_run_each)
      (auto simp: HTTPBody_TrailerAppend_def recorded_def intro!: records_hostcall)
  from this [unfolded records_def, rule_format, of ?ts w l] have
    "\<exists>r w'. writeTrailers (recorded host) rw (w, l) = Some (Done (Inr r), (w', l @ map (\<lambda>(k, v). EvTrailer k (hd v)) ?ts))"
    by (auto simp: writeTrailers_def drop_error_Done)
  moreover have "?ts = map_range host w (trailer_map rw)" by (simp add: map_range_def recorded_def)
  ultimately show ?thesis by simp
qed

text \<open>
  C15: closing a response whose preamble was sent and that is still open sends the first value of
  every trailer the handler asked for, once each and in some order, and nothing else, and then
  closes the body if it is a streaming one.  The handler asks for the names declared in the
  \<open>Trailer\<close> header when the preamble was sent, and for keys with the \<open>Trailer:\<close> prefix, the
  declared ones taking precedence, where there is a value.  Further values of a trailer are lost.
\<close>

theorem close_sends_trailers:
  assumes "w_sendErr rw = None" and "w_wroteHeaders rw" and "\<not> w_closed rw"
  shows "\<exists>trailers r w'.
    rw_Close (recorded host) rw (w, log)
      = Some (Done (r, rw\<lparr>w_closed := True\<rparr>),
          (w', log @ map (\<lambda>(k, v). EvTrailer k (hd v)) trailers
                   @ (if b_closable (w_abiBody rw) then [EvBodyClose] else [])))
    \<and> distinct (map fst trailers)
    \<and> (\<forall>k. map_of trailers k =
         (let vals = Header_Values (w_header rw) in
          if k \<in> set (w_trailers rw) \<and> vals k \<noteq> [] then Some (vals k)
          else if TrailerPrefix @ k \<in> set (Header_Keys (w_header rw)) \<and> vals (TrailerPrefix @ k) \<noteq> []
          then Some (vals (TrailerPrefix @ k)) else None))"
proof -
  let ?rw = "rw\<lparr>w_closed := True\<rparr>"
  let ?ts = "map_range host w (trailer_map rw)"
  let ?evs = "map (\<lambda>(k, v). EvTrailer k (hd v)) ?ts"
  have same: "trailer_map ?rw = trailer_map rw" by (simp add: trailer_map_def)
  obtain u w1 where 1: "writeTrailers (recorded host) ?rw (w, log) = Some (Done (Inr u), (w1, log @ ?evs))"
    using records_trailers [of host ?rw w log] unfolding same by blast
  have close: "\<exists>r2 w2. HTTPBody_Close (recorded host) (w_abiBody rw) (w1, log @ ?evs)
      = Some (Done r2, (w2, (log @ ?evs) @ (if b_closable (w_abiBody rw) then [EvBodyClose] else [])))"
  proof (cases "b_closable (w_abiBody rw)")
    case True
    have "records (hostcall (logged EvBodyClose (c_body_close host (b_h (w_abiBody rw))))) [EvBodyClose]"
      by (rule records_hostcall)
    from this [unfolded records_def, rule_format, of w1 "log @ ?evs"] True show ?thesis
      by (simp add: HTTPBody_Close_def recorded_def)
  qed (simp add: HTTPBody_Close_def)
  from 1 close assms have "\<exists>r w'. rw_Close (recorded host) rw (w, log)
      = Some (Done (r, ?rw), (w', (log @ ?evs) @ (if b_closable (w_abiBody rw) then [EvBodyClose] else [])))"
    by (auto simp: rw_Close_def implicit_header_def Let_def and_then_def)
  then show ?thesis unfolding append_assoc
    using distinct_map_range [OF distinct_trailer_map, of host w rw] map_of_map_range [OF distinct_trailer_map, of host w rw]
      map_of_trailer_map [of rw]
    by (elim exE) (intro exI [of _ ?ts] exI conjI allI; simp)
qed

theorem close_sends_trailers_witness:
  "let rw = rw_start\<lparr>w_header := [(''Md5'', [''x'', ''y''])], w_wroteHeaders := True,
                w_abiBody := \<lparr>b_h = 2, b_closable = True\<rparr>, w_trailers := [''Md5'']\<rparr>
   in \<exists>r w'. rw_Close (recorded accepting_host) rw ((), []) = Some (Done (r, rw\<lparr>w_closed := True\<rparr>),
        (w', [EvTrailer ''Md5'' ''x'', EvBodyClose]))"
proof -
  let ?rw = "rw_start\<lparr>w_header := [(''Md5'', [''x'', ''y''])], w_wroteHeaders := True,
                w_abiBody := \<lparr>b_h = 2, b_closable = True\<rparr>, w_trailers := [''Md5'']\<rparr>"
  have "w_sendErr ?rw = None" "w_wroteHeaders ?rw" "\<not> w_closed ?rw" by (simp_all add: rw_start_def)
  note closed = close_sends_trailers [OF this, of accepting_host "()" "[]"]
  have vals: "Header_Values [(''Md5'', [''x'', ''y''])] ''Md5'' = [''x'', ''y'']"
    "Header_Keys [(''Md5'', [''x'', ''y''])] = [''Md5'']" by code_simp+
  from closed obtain ts r w' where
    run: "rw_Close (recorded accepting_host) ?rw ((), []) = Some (Done (r, ?rw\<lparr>w_closed := True\<rparr>),
      (w', [] @ map (\<lambda>(k, v). EvTrailer k (hd v)) ts @ [EvBodyClose]))"
    and d: "distinct (map fst ts)"
    and m: "\<And>k. map_of ts k = (if k = ''Md5'' then Some [''x'', ''y''] else None)"
    by (auto simp: vals Let_def TrailerPrefix_def cong: conj_cong)
  have "map_of ts = map_of [(''Md5'', [''x'', ''y''])]" using m by (auto simp: fun_eq_iff)
  then have "set ts = {(''Md5'', [''x'', ''y''])}" using map_of_inject_set [OF d, of "[(''Md5'', [''x'', ''y''])]"] by simp
  moreover have "distinct ts" using d by (simp add: distinct_map)
  ultimately have "ts = [(''Md5'', [''x'', ''y''])]" by (cases ts; cases "tl ts"; auto)
  with run show ?thesis by (simp add: Let_def)
qed

end
