(* ===== verification/Recorders.thy ===== *)
theory Recorders
  imports Transports RequestStates BodyReading WriterStates Cookies
begin

text \<open>
  What is left of the response types: the accessors of \<open>Response\<close> (\<open>fsthttp/response.go\<close>), the helpers
  \<open>Error\<close> and \<open>NotFound\<close> (\<open>fsthttp/helpers.go\<close>), the deprecated package \<open>handoff\<close>, and the
  \<open>ResponseRecorder\<close> of \<open>fsttest/recorder.go\<close> that tests use in place of the response writer, with
  a proof of when the recorder shows what the host gets.
\<close>

section \<open>Accessors of a response\<close>

definition Response_Close :: "'w http_calls \<Rightarrow> ('q, 'b) Response \<Rightarrow> ('w, goerr + unit) comp" where
  "Response_Close host resp = HTTPResponse_Close host (rs_abi resp)"

definition Response_Cookies :: "'t time_ops \<Rightarrow> ('q, 'b) Response \<Rightarrow> 't Cookie list" where
  "Response_Cookies tm resp = readSetCookies tm (rs_Header resp)"

definition MaskedError :: "('q, 'b) Response \<Rightarrow> goerr option" where
  "MaskedError r = rs_maskedError r"

record netaddr =
  na_ip :: string
  na_port :: "16 word"

definition Response_RemoteAddr :: "'w request_calls \<Rightarrow> ('q, 'b) Response \<Rightarrow> ('w, goerr + netaddr) comp" where
  "Response_RemoteAddr rq resp =
     check_c (annotate ''get addr dest ip'') (HTTPResponse_GetAddrDestIP rq (rs_abi resp)) (\<lambda>ip.
     check_c (annotate ''get addr dest port'') (HTTPResponse_GetAddrDestPort rq (rs_abi resp)) (\<lambda>port.
     finish (Inr \<lparr>na_ip = ip, na_port = port\<rparr>)))"

definition netaddr_Network :: "netaddr \<Rightarrow> string" where
  "netaddr_Network n = ''tcp''"

text \<open>\<open>net.JoinHostPort\<close> puts a host with a colon, an IPv6 address, in brackets.\<close>

definition JoinHostPort :: "string \<Rightarrow> string \<Rightarrow> string" where
  "JoinHostPort host port =
     (if CHR '':'' \<in> set host then ''['' @ host @ '']:'' @ port else host @ '':'' @ port)"

definition netaddr_String :: "netaddr \<Rightarrow> string" where
  "netaddr_String n = JoinHostPort (IP_String (na_ip n)) (itoa (uint (na_port n)))"

section \<open>\<open>Error\<close> and \<open>NotFound\<close>\<close>

text \<open>\<open>fmt.Fprintln\<close> of a string makes one call of \<open>Write\<close>, with the string and a line break.\<close>

definition StatusNotFound :: int where "StatusNotFound = 404"

definition error_header :: "Header \<Rightarrow> Header" where
  "error_header h =
     Header_Set (Header_Set h ''Content-Type'' ''text/plain; charset=utf-8'') ''X-Content-Type-Options'' ''nosniff''"

definition reply_Error :: "'w http_calls \<Rightarrow> string \<Rightarrow> int \<Rightarrow> responseWriter \<Rightarrow> ('w, responseWriter) comp" where
  "reply_Error host error code w =
     and_then (WriteHeader host code (w\<lparr>w_header := error_header (w_header w)\<rparr>)) (\<lambda>w.
     and_then (rw_Write host (error @ [CHR 10]) w) (\<lambda>r. finish (snd r)))"

definition reply_NotFound :: "'w http_calls \<Rightarrow> responseWriter \<Rightarrow> ('w, responseWriter) comp" where
  "reply_NotFound host w = reply_Error host ''404 page not found'' StatusNotFound w"

section \<open>Package handoff\<close>

definition handoff_Websocket :: "'w request_calls \<Rightarrow> string \<Rightarrow> ('w, goerr + unit) comp" where
  "handoff_Websocket rq backend = abi_HandoffWebsocket rq backend"

definition handoff_Fanout :: "'w request_calls \<Rightarrow> string \<Rightarrow> ('w, goerr + unit) comp" where
  "handoff_Fanout rq backend = abi_HandoffFanout rq backend"

section \<open>The response recorder\<close>

record ResponseRecorder =
  rr_Code :: int
  rr_HeaderMap :: Header
  rr_Body :: string
  rr_headersSent :: bool

definition NewRecorder :: ResponseRecorder where
  "NewRecorder = \<lparr>rr_Code = 200, rr_HeaderMap = NewHeader, rr_Body = [], rr_headersSent = False\<rparr>"

text \<open>
  \<open>Header\<close> returns the map itself before the headers are sent and a copy after it: \<open>rr_Header\<close> is
  the content, and \<open>rr_mutate\<close> what a handler achieves that changes the returned map to \<open>h\<close>.
\<close>

definition rr_Header :: "ResponseRecorder \<Rightarrow> Header" where
  "rr_Header r = (if \<not> rr_headersSent r then rr_HeaderMap r else Header_Clone (rr_HeaderMap r))"

definition rr_mutate :: "Header \<Rightarrow> ResponseRecorder \<Rightarrow> ResponseRecorder" where
  "rr_mutate h r = (if \<not> rr_headersSent r then r\<lparr>rr_HeaderMap := h\<rparr> else r)"

definition rr_WriteHeader :: "int \<Rightarrow> ResponseRecorder \<Rightarrow> ResponseRecorder" where
  "rr_WriteHeader code r = (if \<not> rr_headersSent r then r\<lparr>rr_Code := code, rr_headersSent := True\<rparr> else r)"

definition rr_Write :: "string \<Rightarrow> ResponseRecorder \<Rightarrow> (nat \<times> goerr option) \<times> ResponseRecorder" where
  "rr_Write b r = ((length b, None), r\<lparr>rr_Body := rr_Body r @ b\<rparr>)"

definition rr_Close :: "ResponseRecorder \<Rightarrow> goerr option \<times> ResponseRecorder" where
  "rr_Close r = (None, r)"

definition rr_SetManualFramingMode :: "bool \<Rightarrow> ResponseRecorder \<Rightarrow> ResponseRecorder" where
  "rr_SetManualFramingMode v r = r"

text \<open>\<open>io.Copy\<close> reads 32 KiB at a time and writes what it gets; a write to the recorder never fails.\<close>

partial_function (option) rr_copy ::
  "'w http_calls \<Rightarrow> HTTPBody \<Rightarrow> ResponseRecorder \<Rightarrow> 'w \<Rightarrow> ((goerr option \<times> ResponseRecorder) outcome \<times> 'w) option" where
  "rr_copy host b r w =
     (case HTTPBody_Read host b 32768 w of
        None \<Rightarrow> None
      | Some (Panic, w') \<Rightarrow> Some (Panic, w')
      | Some (Done (Inl e), w') \<Rightarrow> Some (Done (if e = EOF then None else Some e, r), w')
      | Some (Done (Inr s), w') \<Rightarrow> rr_copy host b (snd (rr_Write s r)) w')"

definition rr_Append ::
  "'w http_calls \<Rightarrow> 'b ReadCloser \<Rightarrow> ResponseRecorder \<Rightarrow> ('w, goerr option \<times> ResponseRecorder) comp" where
  "rr_Append host other r =
     (case other of
        OtherBody _ \<Rightarrow> finish (Some (Text ''non-Response Body passed to ResponseWriter.Append''), r)
      | AbiBody b \<Rightarrow> rr_copy host b r)"

text \<open>The recorder under the calls of a handler, for a host that holds the appended bodies.\<close>

definition rr_op :: "'v http_calls \<Rightarrow> handler_op \<Rightarrow> ResponseRecorder \<Rightarrow> ('v, ResponseRecorder) comp" where
  "rr_op host a r =
     (case a of
        OpHeaders h \<Rightarrow> finish (rr_mutate h r)
      | OpFraming mode \<Rightarrow> finish (rr_SetManualFramingMode mode r)
      | OpWriteHeader code \<Rightarrow> finish (rr_WriteHeader code r)
      | OpWrite p \<Rightarrow> finish (snd (rr_Write p r))
      | OpAppend b \<Rightarrow> and_then (rr_Append host (AbiBody b :: unit ReadCloser) r) (\<lambda>x. finish (snd x))
      | OpAppendOther \<Rightarrow> and_then (rr_Append host (OtherBody ()) r) (\<lambda>x. finish (snd x))
      | OpClose \<Rightarrow> finish (snd (rr_Close r)))"

fun rr_ops :: "'v http_calls \<Rightarrow> handler_op list \<Rightarrow> ResponseRecorder \<Rightarrow> ('v, ResponseRecorder) comp" where
  "rr_ops host [] r = finish r"
| "rr_ops host (a # ops) r = and_then (rr_op host a r) (rr_ops host ops)"

section \<open>What the host gets as the head of a response\<close>

definition header_events :: "Header \<Rightarrow> http_event list" where
  "header_events h =
     map (\<lambda>k. EvHeader k (nul_values (map headerNewlineToSpace (Header_Values h k)))) (Header_Keys h)"

definition head_of :: "bool \<Rightarrow> int \<Rightarrow> Header \<Rightarrow> http_event list" where
  "head_of manual code h = EvFraming (framing_mode manual) # EvStatus (of_int code) # header_events h @ [EvSend 1]"

lemma recordsD: "records m evs \<Longrightarrow> \<exists>r w'. m (w, l) = Some (Done r, (w', l @ evs))"
  unfolding records_def by blast

lemma records_send_headers: "records (send_headers (recorded host) [] rw) (header_events (w_header rw))"
  unfolding send_headers_def header_events_def
  by (rule records_run_each) (simp add: HTTPResponse_SetHeaderValues_def recorded_def records_hostcall)

lemma WriteHeader_exact:
  assumes "\<not> w_wroteHeaders rw" "code \<noteq> 103"
    and "WriteHeader (recorded host) code rw (w, log) = Some (Done rw', (w', log'))"
  shows "log' = log @ head_of (w_ManualFramingMode rw) code (w_header rw) \<and> w_wroteHeaders rw'"
proof -
  have fr: "records (HTTPResponse_SetFramingHeadersMode (recorded host) h m) [EvFraming (framing_mode m)]" for h m
    unfolding HTTPResponse_SetFramingHeadersMode_def recorded_def http_calls.simps by (rule records_hostcall)
  have st: "records (HTTPResponse_SetStatusCode (recorded host) h c) [EvStatus (of_int c)]" for h c
    unfolding HTTPResponse_SetStatusCode_def recorded_def http_calls.simps by (rule records_hostcall)
  obtain x1 w1 where 1: "HTTPResponse_SetFramingHeadersMode (recorded host) (w_abiResp rw) (w_ManualFramingMode rw)
      (w, log) = Some (Done x1, (w1, log @ [EvFraming (framing_mode (w_ManualFramingMode rw))]))" (is "_ = Some (_, (_, ?l1))")
    using recordsD [OF fr] by blast
  obtain x2 w2 where 2: "HTTPResponse_SetStatusCode (recorded host) (w_abiResp rw) code (w1, ?l1)
      = Some (Done x2, (w2, ?l1 @ [EvStatus (of_int code)]))" (is "_ = Some (_, (_, ?l2))")
    using recordsD [OF st] by blast
  obtain x3 w3 where 3: "send_headers (recorded host) [] rw (w2, ?l2)
      = Some (Done x3, (w3, ?l2 @ header_events (w_header rw)))" (is "_ = Some (_, (_, ?l3))")
    using recordsD [OF records_send_headers [of host rw], of w2 ?l2] by blast
  obtain r w4 where "HTTPResponse_SendDownstream (recorded host) (w_abiResp rw) (w_abiBody rw) True (w3, ?l3)
      = Some (Done r, (w4, ?l3 @ [EvSend 1]))"
    using SendDownstream_recorded [of host "w_abiResp rw" "w_abiBody rw" True w3 ?l3] by auto
  with 1 2 3 assms show ?thesis
    by (auto simp: WriteHeader_def StatusEarlyHints_def drop_error_Done and_then_Done head_of_def Let_def)
qed

lemma finish_then: "and_then (finish x) k = k x"
  by (simp add: and_then_def fun_eq_iff)

text \<open>After the head only the body follows.\<close>

lemma implicit_sent: "w_wroteHeaders rw \<Longrightarrow> and_then (implicit_header host rw) k = k rw"
  by (simp add: implicit_header_def finish_then)

lemma adds_only_weaken: "adds_only P m \<Longrightarrow> (\<And>e. P e \<Longrightarrow> Q e) \<Longrightarrow> adds_only Q m"
  unfolding adds_only_def by (blast intro: list.pred_mono_strong)

lemma open_then_body: "adds_only open_body m \<Longrightarrow> adds_only body_event m"
  by (erule adds_only_weaken) (simp add: open_body_def)

lemma adds_only_Close: "adds_only body_event (HTTPBody_Close (recorded host) b)"
  unfolding HTTPBody_Close_def recorded_def http_calls.simps
  by (auto intro!: adds_only_hostcall)

lemmas body_calls = open_then_body [OF adds_only_Write] open_then_body [OF adds_only_Append]
  open_then_body [OF adds_only_trailers] adds_only_Close

lemma sent_calls:
  assumes "w_wroteHeaders rw"
  shows "adds_only body_event (rw_Write (recorded host) p rw)"
    and "adds_only body_event (rw_Append (recorded host) other rw)"
    and "adds_only body_event (rw_Close (recorded host) rw)"
  unfolding rw_Write_def rw_Append_def rw_Close_def
  by (auto simp: implicit_sent [OF assms] Let_def intro!: adds_only_and_then body_calls split: option.split sum.split prod.split ReadCloser.split)

lemma sent_adds_body: "w_wroteHeaders rw \<Longrightarrow> adds_only body_event (run_op (recorded host) a rw)"
  unfolding run_op_def
  by (cases a) (auto simp: WriteHeader_def intro!: sent_calls adds_only_and_then)

lemma ensures_any_then: "(\<And>x. ensures (k x) P) \<Longrightarrow> ensures (and_then m k) P"
  by (rule ensures_and_then, rule ensures_any)

lemma sent_calls_stay:
  assumes "w_wroteHeaders rw"
  shows "ensures (rw_Write host p rw) (\<lambda>x. w_wroteHeaders (snd x))"
    and "ensures (rw_Append host other rw) (\<lambda>x. w_wroteHeaders (snd x))"
    and "ensures (rw_Close host rw) (\<lambda>x. w_wroteHeaders (snd x))"
  unfolding rw_Write_def rw_Append_def rw_Close_def
  by (auto simp: implicit_sent [OF assms] assms Let_def intro!: ensures_finish ensures_any_then
      split: option.split sum.split prod.split ReadCloser.split)

lemma sent_stays: "w_wroteHeaders rw \<Longrightarrow> ensures (run_op host a rw) w_wroteHeaders"
  unfolding run_op_def
  by (cases a)
    (auto simp: WriteHeader_def SetManualFramingMode_def
      intro!: ensures_finish ensures_then_ok [OF sent_calls_stay(1)] ensures_then_ok [OF sent_calls_stay(2)]
        ensures_then_ok [OF sent_calls_stay(3)])

lemma sent_ops:
  assumes "w_wroteHeaders rw" "run_ops (recorded host) ops rw (w, log) = Some (Done rw', (w', log'))"
  shows "\<exists>body. log' = log @ body \<and> list_all body_event body"
  using assms
proof (induction ops arbitrary: rw w log)
  case (Cons a ops)
  from and_then_Some [OF Cons.prems(2) [unfolded run_ops.simps]] obtain rw1 w1 l1 where
    1: "run_op (recorded host) a rw (w, log) = Some (Done rw1, (w1, l1))"
    and 2: "run_ops (recorded host) ops rw1 (w1, l1) = Some (Done rw', (w', log'))" by auto
  obtain b1 where b1: "l1 = log @ b1" "list_all body_event b1"
    using adds_onlyD [OF sent_adds_body [OF Cons.prems(1)] 1] by blast
  have "w_wroteHeaders rw1" using ensuresD [OF sent_stays [OF Cons.prems(1)] 1] .
  from Cons.IH [OF this 2] b1 show ?case by auto
qed simp

section \<open>When the recorder shows what the host gets\<close>

text \<open>
  A handler that calls \<open>WriteHeader\<close>, not with the status of early hints, before it sends any of
  the body.
\<close>

fun explicit_header :: "handler_op list \<Rightarrow> bool" where
  "explicit_header (OpHeaders h # ops) = explicit_header ops"
| "explicit_header (OpFraming m # ops) = explicit_header ops"
| "explicit_header (OpWriteHeader code # ops) = (code \<noteq> 103)"
| "explicit_header _ = False"

text \<open>A recorder whose headers are sent keeps the status and the headers.\<close>

lemma rr_copy_keeps:
  "rr_copy host b r v = Some (Done (e, r'), v') \<Longrightarrow>
   rr_Code r' = rr_Code r \<and> rr_HeaderMap r' = rr_HeaderMap r \<and> rr_headersSent r' = rr_headersSent r"
proof -
  have "fst x = Done (e, r') \<Longrightarrow>
      rr_Code r' = rr_Code r \<and> rr_HeaderMap r' = rr_HeaderMap r \<and> rr_headersSent r' = rr_headersSent r"
    if "rr_copy host b r v = Some x" for x
    using that
  proof (induction host b r v x rule: rr_copy.raw_induct [rotated, consumes 1])
    case (1 self host b r v x)
    show ?case
    proof (cases "HTTPBody_Read host b 32768 v")
      case None
      with 1(2) show ?thesis by simp
    next
      case (Some y)
      then obtain o' v1 where y: "HTTPBody_Read host b 32768 v = Some (o', v1)" by (cases y) simp
      show ?thesis
      proof (cases o')
        case (Done res)
        show ?thesis
        proof (cases res)
          case (Inr t)
          with 1(2) y Done have "self host b (snd (rr_Write t r)) v1 = Some x" by simp
          from 1(1) [OF this 1(3)] show ?thesis by (simp add: rr_Write_def)
        qed (use 1(2,3) y Done in auto)
      qed (use 1(2,3) y in auto)
    qed
  qed
  then show "rr_copy host b r v = Some (Done (e, r'), v') \<Longrightarrow> ?thesis" by simp
qed

lemma rr_op_keeps:
  assumes "rr_headersSent r" "rr_op host a r v = Some (Done r', v')"
  shows "rr_Code r' = rr_Code r \<and> rr_HeaderMap r' = rr_HeaderMap r \<and> rr_headersSent r'"
  using assms unfolding rr_op_def
  by (cases a) (auto simp: rr_mutate_def rr_SetManualFramingMode_def rr_WriteHeader_def rr_Write_def rr_Close_def
    rr_Append_def dest!: and_then_Some rr_copy_keeps)

lemma rr_ops_keep:
  "rr_headersSent r \<Longrightarrow> rr_ops host ops r v = Some (Done r', v') \<Longrightarrow>
   rr_Code r' = rr_Code r \<and> rr_HeaderMap r' = rr_HeaderMap r \<and> rr_headersSent r'"
proof (induction ops arbitrary: r v)
  case (Cons a ops)
  from and_then_Some [OF Cons.prems(2) [unfolded rr_ops.simps]] obtain r1 v1 where
    "rr_op host a r v = Some (Done r1, v1)" "rr_ops host ops r1 v1 = Some (Done r', v')" by blast
  with Cons rr_op_keeps show ?case by metis
qed simp

text \<open>
  The recorder is faithful to such a handler: the status and the headers it shows are the ones the
  host gets when the same handler runs on a response writer.
\<close>

lemma recorder_faithful:
  assumes "explicit_header ops" "\<not> w_wroteHeaders rw" "\<not> rr_headersSent r" "w_header rw = rr_HeaderMap r"
    and "run_ops (recorded host) ops rw (w, log) = Some (Done rw', (w', log'))"
    and "rr_ops host' ops r v = Some (Done r', v')"
  shows "\<exists>manual body. log' = log @ head_of manual (rr_Code r') (rr_HeaderMap r') @ body \<and> list_all body_event body"
  using assms
proof (induction ops arbitrary: rw r w log v rule: explicit_header.induct)
  case (1 h ops)
  show ?case
    by (rule 1(1) [of "rw\<lparr>w_header := h\<rparr>" "r\<lparr>rr_HeaderMap := h\<rparr>" w log v])
      (use 1(2-) in \<open>simp_all add: run_op_def rr_op_def rr_mutate_def finish_then\<close>)
next
  case (2 m ops)
  show ?case
    by (rule 2(1) [of "SetManualFramingMode m rw" r w log v])
      (use 2(2-) in \<open>simp_all add: run_op_def rr_op_def SetManualFramingMode_def rr_SetManualFramingMode_def finish_then\<close>)
next
  case (3 code ops)
  from and_then_Some [OF 3(5) [unfolded run_ops.simps]] obtain rw1 w1 l1 where
    a: "WriteHeader (recorded host) code rw (w, log) = Some (Done rw1, (w1, l1))"
    and rest: "run_ops (recorded host) ops rw1 (w1, l1) = Some (Done rw', (w', log'))"
    by (auto simp: run_op_def)
  have rr: "rr_ops host' ops (rr_WriteHeader code r) v = Some (Done r', v')"
    using 3(6) by (simp add: rr_op_def finish_then)
  have kept: "rr_Code r' = code" "rr_HeaderMap r' = rr_HeaderMap r"
    using rr_ops_keep [OF _ rr] 3(3) by (simp_all add: rr_WriteHeader_def)
  have code: "code \<noteq> 103" using 3(1) by simp
  note head = WriteHeader_exact [OF 3(2) code a]
  then obtain body where "log' = l1 @ body" "list_all body_event body"
    using sent_ops [OF _ rest] by blast
  with head kept 3(4) show ?case by auto
qed simp_all

text \<open>
  It is not faithful to a handler that writes first: the response writer sends the status 200 with
  the first byte, and the recorder still takes the status of a later \<open>WriteHeader\<close>.
\<close>

lemma rw_Write_exact:
  assumes "\<not> w_wroteHeaders rw" "w_sendErr rw = None"
    and "rw_Write (recorded host) p rw (w, log) = Some (Done (x, rw'), (w', log'))"
  shows "\<exists>body. log' = log @ head_of (w_ManualFramingMode rw) 200 (w_header rw) @ body \<and> list_all body_event body
    \<and> w_wroteHeaders rw'"
proof -
  obtain rw1 w1 l1 where 1: "WriteHeader (recorded host) 200 rw (w, log) = Some (Done rw1, (w1, l1))"
    and 2: "and_then (HTTPBody_Write (recorded host) (w_abiBody rw1) p) (\<lambda>(n, err).
            case IsFastlyError err of (status, ok) \<Rightarrow>
              finish ((n, if ok \<and> status = FastlyStatusBadf then Some ErrClosed else err), rw1)) (w1, l1)
        = Some (Done (x, rw'), (w', log'))"
    using and_then_Some [of "WriteHeader (recorded host) 200 rw"] assms
    by (fastforce simp: rw_Write_def implicit_header_def)
  from and_then_Some [OF 2] obtain r w2 l2 where
    3: "HTTPBody_Write (recorded host) (w_abiBody rw1) p (w1, l1) = Some (Done r, (w2, l2))"
    and "rw' = rw1" "log' = l2" by (auto simp: case_prod_beta)
  moreover obtain body where "l2 = l1 @ body" "list_all body_event body"
    using adds_onlyD [OF body_calls(1) 3] by blast
  ultimately show ?thesis using WriteHeader_exact [OF assms(1) _ 1] by auto
qed

lemma recorder_misses_implicit_header:
  assumes "\<not> w_wroteHeaders rw" "w_sendErr rw = None"
    and "run_ops (recorded host) [OpWrite p, OpWriteHeader code] rw (w, log) = Some (Done rw', (w', log'))"
  shows "(\<exists>body. log' = log @ head_of (w_ManualFramingMode rw) 200 (w_header rw) @ body \<and> list_all body_event body)
    \<and> rr_ops host' [OpWrite p, OpWriteHeader code] NewRecorder v
      = Some (Done \<lparr>rr_Code = code, rr_HeaderMap = NewHeader, rr_Body = p, rr_headersSent = True\<rparr>, v)"
proof -
  obtain x rw1 w1 l1 where 1: "rw_Write (recorded host) p rw (w, log) = Some (Done (x, rw1), (w1, l1))"
    and 2: "WriteHeader (recorded host) code rw1 (w1, l1) = Some (Done rw', (w', log'))"
    using assms(3) by (auto simp: run_op_def dest!: and_then_Some)
  note sent = rw_Write_exact [OF assms(1,2) 1]
  then have "log' = l1" using 2 by (auto simp: WriteHeader_def)
  with sent show ?thesis
    by (auto simp: rr_op_def finish_then rr_Write_def rr_WriteHeader_def NewRecorder_def)
qed

text \<open>Appending a body records all of it.\<close>

lemma rr_Append_content:
  assumes "body_source host (b_h b) content"
  shows "\<exists>w'. rr_Append host (AbiBody b) r w = Some (Done (None, r\<lparr>rr_Body := rr_Body r @ content w\<rparr>), w')
    \<and> content w' = []"
proof -
  have "\<exists>w'. rr_copy host b r w = Some (Done (None, r\<lparr>rr_Body := rr_Body r @ content w\<rparr>), w') \<and> content w' = []"
  proof (induction "length (content w)" arbitrary: r w rule: less_induct)
    case less
    have "(0::nat) < 32768" "(32768::nat) < 2 ^ 32" by simp_all
    from body_source_read [OF assms this, of w] show ?case
    proof (elim disjE conjE exE)
      fix w'
      assume "content w = []" "HTTPBody_Read host b 32768 w = Some (Done (Inl EOF), w')" "content w' = []"
      then show ?thesis by (subst rr_copy.simps) simp
    next
      fix s w'
      assume s: "s \<noteq> []" "content w = s @ content w'" "HTTPBody_Read host b 32768 w = Some (Done (Inr s), w')"
      then have "length (content w') < length (content w)" by simp
      from less [OF this, of "snd (rr_Write s r)"] s show ?thesis
        by (subst rr_copy.simps) (simp add: rr_Write_def)
    qed
  qed
  then show ?thesis by (simp add: rr_Append_def)
qed

section \<open>Error replies\<close>

text \<open>
  \<open>Error\<close> on a writer that has sent nothing sends the status with the two headers, and then only the
  body; when the headers are already out, it sends nothing of the head again.
\<close>

lemma reply_Error_sends:
  assumes "code \<noteq> 103" and "reply_Error (recorded host) msg code rw (w, log) = Some (Done rw', (w', log'))"
  shows "\<exists>body. list_all body_event body \<and> w_wroteHeaders rw'
    \<and> log' = log @ (if w_wroteHeaders rw then [] else head_of (w_ManualFramingMode rw) code (error_header (w_header rw))) @ body"
proof -
  obtain rw1 w1 l1 where
    1: "WriteHeader (recorded host) code (rw\<lparr>w_header := error_header (w_header rw)\<rparr>) (w, log) = Some (Done rw1, (w1, l1))"
    and 2: "and_then (rw_Write (recorded host) (msg @ [CHR 10]) rw1) (\<lambda>r. finish (snd r)) (w1, l1) = Some (Done rw', (w', log'))"
    using and_then_Some [OF assms(2) [unfolded reply_Error_def]] by auto
  have head: "l1 = log @ (if w_wroteHeaders rw then [] else head_of (w_ManualFramingMode rw) code (error_header (w_header rw)))
      \<and> w_wroteHeaders rw1"
  proof (cases "w_wroteHeaders rw")
    case True
    with 1 show ?thesis by (auto simp: WriteHeader_def)
  next
    case False
    with WriteHeader_exact [OF _ assms(1) 1] show ?thesis by simp
  qed
  have op: "run_op (recorded host) (OpWrite (msg @ [CHR 10])) rw1 (w1, l1) = Some (Done rw', (w', log'))"
    using 2 by (simp add: run_op_def)
  obtain body where "log' = l1 @ body" "list_all body_event body"
    using adds_onlyD [OF sent_adds_body op] head by blast
  moreover have "w_wroteHeaders rw'" using ensuresD [OF sent_stays op] head by blast
  ultimately show ?thesis using head by auto
qed

end
