(* ===== verification/CacheProtocol.thy ===== *)
theory CacheProtocol
  imports Candidates WriterStates WorldRelations
begin

text \<open>
  What the two ways of storing a candidate do to its cache transaction.  The cache records the
  calls that change a transaction; the HTTP host and the copying of a transformed body leave
  that record alone.
\<close>

section \<open>Recording the transaction calls\<close>

datatype cache_event =
    EvInsert handle handle HTTPCacheWriteOptions
  | EvInsertBack handle handle HTTPCacheWriteOptions
  | EvUpdate handle handle HTTPCacheWriteOptions
  | EvUpdateFresh handle handle HTTPCacheWriteOptions
  | EvRecord handle HTTPCacheWriteOptions
  | EvAbandon handle
  | EvChooseStale handle
  | EvLookup handle HTTPCacheLookupOptions
  | EvClose handle

definition recorded_cache :: "'w httpcache_calls \<Rightarrow> ('w \<times> cache_event list) httpcache_calls" where
  "recorded_cache cache =
     \<lparr>c_is_request_cacheable = (\<lambda>h. unlogged (c_is_request_cacheable cache h)),
      c_get_suggested_cache_key = (\<lambda>h n. unlogged (c_get_suggested_cache_key cache h n)),
      c_transaction_lookup = (\<lambda>h opts. logged (EvLookup h opts) (c_transaction_lookup cache h opts)),
      c_transaction_insert = (\<lambda>h r opts. logged (EvInsert h r opts) (c_transaction_insert cache h r opts)),
      c_transaction_insert_and_stream_back = (\<lambda>h r opts.
        logged (EvInsertBack h r opts) (c_transaction_insert_and_stream_back cache h r opts)),
      c_transaction_update = (\<lambda>h r opts. logged (EvUpdate h r opts) (c_transaction_update cache h r opts)),
      c_transaction_update_and_return_fresh = (\<lambda>h r opts.
        logged (EvUpdateFresh h r opts) (c_transaction_update_and_return_fresh cache h r opts)),
      c_transaction_choose_stale = (\<lambda>h. logged (EvChooseStale h) (c_transaction_choose_stale cache h)),
      c_transaction_record_not_cacheable = (\<lambda>h opts.
        logged (EvRecord h opts) (c_transaction_record_not_cacheable cache h opts)),
      c_transaction_abandon = (\<lambda>h. logged (EvAbandon h) (c_transaction_abandon cache h)),
      c_transaction_close = (\<lambda>h. logged (EvClose h) (c_transaction_close cache h)),
      c_get_suggested_backend_request = (\<lambda>h. unlogged (c_get_suggested_backend_request cache h)),
      c_get_suggested_cache_options = (\<lambda>h r m v s. unlogged (c_get_suggested_cache_options cache h r m v s)),
      c_prepare_response_for_storage = (\<lambda>h r. unlogged (c_prepare_response_for_storage cache h r)),
      c_get_found_response = (\<lambda>h t. unlogged (c_get_found_response cache h t)),
      c_get_state = (\<lambda>h. unlogged (c_get_state cache h)),
      c_get_length = (\<lambda>h. unlogged (c_get_length cache h)),
      c_get_max_age_ns = (\<lambda>h. unlogged (c_get_max_age_ns cache h)),
      c_get_stale_while_revalidate_ns = (\<lambda>h. unlogged (c_get_stale_while_revalidate_ns cache h)),
      c_get_stale_if_error_ns = (\<lambda>h. unlogged (c_get_stale_if_error_ns cache h)),
      c_get_age_ns = (\<lambda>h. unlogged (c_get_age_ns cache h)),
      c_get_hits = (\<lambda>h. unlogged (c_get_hits cache h)),
      c_get_sensitive_data = (\<lambda>h. unlogged (c_get_sensitive_data cache h)),
      c_get_surrogate_keys = (\<lambda>h n. unlogged (c_get_surrogate_keys cache h n)),
      c_get_vary_rule = (\<lambda>h n. unlogged (c_get_vary_rule cache h n))\<rparr>"

text \<open>The calls after which the caller no longer owes the cache an answer for the transaction.\<close>

fun is_end :: "cache_event \<Rightarrow> bool" where
  "is_end (EvInsert h r opts) = True"
| "is_end (EvInsertBack h r opts) = True"
| "is_end (EvUpdate h r opts) = True"
| "is_end (EvUpdateFresh h r opts) = True"
| "is_end (EvRecord h opts) = True"
| "is_end (EvAbandon h) = True"
| "is_end _ = False"

definition same_ends :: "'w \<times> cache_event list \<Rightarrow> 'w \<times> cache_event list \<Rightarrow> bool" where
  "same_ends w w' \<longleftrightarrow> filter is_end (snd w') = filter is_end (snd w)"

interpretation ends: world_relation same_ends
  by unfold_locales (simp_all add: same_ends_def)

lemma keeps_unlogged [intro, simp]: "keeps_prog same_ends (unlogged p)"
  by (auto simp: keeps_prog_def same_ends_def unlogged_def split: prod.splits)

lemma keeps_logged [intro]: "\<not> is_end e \<Longrightarrow> keeps_prog same_ends (logged e p)"
  by (auto simp: keeps_prog_def same_ends_def logged_def split: prod.splits)

lemmas ends_intros = ends.keeps_pure ends.keeps_and_then ends.keeps_try_c ends.keeps_check_c
  ends.keeps_drop_error ends.keeps_map_result ends.keeps_defer_c ends.keeps_for_each
  ends.keeps_Values_Next ends.keeps_buffered ends.keeps_read_headers ends.keeps_suggested
  keeps_hostcall keeps_unlogged keeps_logged

section \<open>The parts that leave the transaction alone\<close>

lemma keeps_finalizeOptions: "keeps same_ends (finalizeOptions (silent host) (recorded_cache cache) c)"
  unfolding finalizeOptions_def buildFreshSuggestedCacheWriteOptions_def
    httpCacheGetSuggestedCacheWriteOptions_def HTTPCacheGetSuggestedCacheOptions_def
    bodyHasKnownLength_def HTTPBody_Length_def
  by (auto simp: Let_def silent_def recorded_cache_def intro!: ends_intros split: option.splits)

lemma keeps_newResponse: "keeps same_ends (newResponse (silent host) q b r body)"
  unfolding newResponse_def HTTPResponse_GetStatusCode_def
  by (auto simp: silent_def intro!: ends_intros split: option.splits)

lemma keeps_loadFromHandle: "keeps same_ends (loadFromHandle (recorded_cache cache) h opts)"
  unfolding loadFromHandle_def HTTPCacheGetMaxAgeNs_def HTTPCacheGetVaryRule_def HTTPCacheGetAgeNs_def
    HTTPCacheGetStaleWhileRevalidateNs_def HTTPCacheGetSurrogateKeys_def HTTPCacheGetLength_def
    HTTPCacheGetSensitiveData_def HTTPCacheGetStaleIfErrorNs_def
  by (auto simp: Let_def recorded_cache_def intro!: ends_intros split: prod.splits)

lemma keeps_get_found: "keeps same_ends (HTTPCacheGetFoundResponse (recorded_cache cache) h t)"
  unfolding HTTPCacheGetFoundResponse_def by (auto simp: recorded_cache_def intro!: ends_intros)

lemma keeps_get_hits: "keeps same_ends (HTTPCacheGetHits (recorded_cache cache) h)"
  unfolding HTTPCacheGetHits_def by (auto simp: recorded_cache_def intro!: ends_intros)

lemma keeps_tx_close: "keeps same_ends (HTTPCacheTransactionClose (recorded_cache cache) h)"
  unfolding HTTPCacheTransactionClose_def by (auto simp: recorded_cache_def intro!: ends_intros)

lemma keeps_found: "keeps same_ends (httpCacheGetFoundResponse (silent host) (recorded_cache cache) h q b t hit)"
  unfolding httpCacheGetFoundResponse_def
  by (auto intro!: ends_intros keeps_get_found keeps_get_hits keeps_newResponse keeps_loadFromHandle
      split: prod.splits)

lemma keeps_append: "keeps same_ends (HTTPBody_Append (silent host) b b')"
  unfolding HTTPBody_Append_def by (auto simp: silent_def intro!: ends_intros)

lemma keeps_body_close: "keeps same_ends (HTTPBody_Close (silent host) b)"
  unfolding HTTPBody_Close_def by (auto simp: silent_def intro!: ends_intros)

lemma keeps_fill_body:
  "(\<And>b t. keeps same_ends (io_copy b t)) \<Longrightarrow> keeps same_ends (fill_body (silent host) io_copy what c body)"
  unfolding fill_body_def
  by (auto intro!: ends_intros keeps_append keeps_body_close split: option.splits prod.splits)

lemma keeps_with_action: "keeps same_ends (with_action a resp)"
  unfolding with_action_def by (auto intro!: ends_intros split: option.splits)

lemma keeps_from_candidate: "keeps same_ends (newResponseFromCandidate (silent host) c q opts)"
  unfolding newResponseFromCandidate_def
  by (auto simp: Let_def intro!: ends_intros keeps_newResponse split: option.splits)

lemmas candidate_keeps = keeps_found keeps_fill_body keeps_with_action keeps_from_candidate keeps_tx_close

section \<open>Exactly one end\<close>

definition adds :: "cache_event list \<Rightarrow> ('w \<times> cache_event list, 'a) comp \<Rightarrow> bool" where
  "adds es m \<longleftrightarrow> keeps (\<lambda>w w'. filter is_end (snd w') = filter is_end (snd w) @ es) m"

lemma adds_none: "keeps same_ends m \<Longrightarrow> adds [] m"
  by (simp add: adds_def keeps_def same_ends_def)

lemma adds_hostcall: "is_end e \<Longrightarrow> adds [e] (hostcall (logged e p))"
  by (auto simp: adds_def logged_def hostcall_def intro!: keepsI split: prod.splits)

lemma adds_try_c:
  assumes m: "adds es m" and h: "\<And>e. keeps same_ends (h e)" and k: "\<And>x. keeps same_ends (k x)"
  shows "adds es (try_c m h k)"
  unfolding adds_def
proof (rule keepsI)
  fix w r w'
  assume a: "try_c m h k w = Some (r, w')"
  then obtain r1 w1 where 1: "m w = Some (r1, w1)"
    by (auto simp: try_c_def and_then_def split: option.splits)
  then have "filter is_end (snd w1) = filter is_end (snd w) @ es"
    using m unfolding adds_def by (rule keepsD [rotated])
  moreover have "same_ends w1 w'"
    using a 1 keepsD [OF h, of _ w1 r w'] keepsD [OF k, of _ w1 r w']
    by (auto simp: try_c_def and_then_def same_ends_def split: outcome.splits sum.splits)
  ultimately show "filter is_end (snd w') = filter is_end (snd w) @ es" by (simp add: same_ends_def)
qed

lemma adds_check_c: "adds es m \<Longrightarrow> (\<And>x. keeps same_ends (k x)) \<Longrightarrow> adds es (check_c f m k)"
  unfolding check_c_def by (rule adds_try_c) (auto intro: ends.keeps_pure)

lemma adds_map_result: "adds es m \<Longrightarrow> adds es (map_result f m)"
  unfolding map_result_def by (rule adds_check_c) (auto intro: ends.keeps_pure)

text \<open>The calls that the chosen action makes on the transaction of the candidate.\<close>

definition background_ends :: "'b CandidateResponse \<Rightarrow> HTTPCacheStorageAction \<Rightarrow> HTTPCacheWriteOptions \<Rightarrow> cache_event list" where
  "background_ends c a abi =
     (if a = HTTPCacheStorageActionInsert then [EvInsert (cd_cacheHandle c) (cd_abiResp c) abi]
      else if a = HTTPCacheStorageActionUpdate then [EvUpdate (cd_cacheHandle c) (cd_abiResp c) abi]
      else if a = HTTPCacheStorageActionDoNotStore then [EvAbandon (cd_cacheHandle c)]
      else if a = HTTPCacheStorageActionRecordUncacheable then [EvRecord (cd_cacheHandle c) abi]
      else [])"

definition streamed_ends :: "'b CandidateResponse \<Rightarrow> HTTPCacheStorageAction \<Rightarrow> HTTPCacheWriteOptions \<Rightarrow> cache_event list" where
  "streamed_ends c a abi =
     (if a = HTTPCacheStorageActionInsert then [EvInsertBack (cd_cacheHandle c) (cd_abiResp c) abi]
      else if a = HTTPCacheStorageActionUpdate then [EvUpdateFresh (cd_cacheHandle c) (cd_abiResp c) abi]
      else if a = HTTPCacheStorageActionDoNotStore then [EvAbandon (cd_cacheHandle c)]
      else if a = HTTPCacheStorageActionRecordUncacheable then [EvRecord (cd_cacheHandle c) abi]
      else [])"

definition finalized_ends ::
  "(HTTPCacheStorageAction \<Rightarrow> HTTPCacheWriteOptions \<Rightarrow> cache_event list) \<Rightarrow>
   ((goerr + HTTPCacheStorageAction \<times> cacheWriteOptions \<times> HTTPCacheWriteOptions) outcome \<times> 'w) option \<Rightarrow>
   cache_event list" where
  "finalized_ends f r = (case r of Some (Done (Inr (a, _, abi)), _) \<Rightarrow> f a abi | _ \<Rightarrow> [])"

lemma after_finalize:
  assumes run: "check_c wrap (finalizeOptions (silent host) (recorded_cache cache) c) k w = Some (r, w')"
    and k: "\<And>a opts abi. adds (f a abi) (k (a, opts, abi))"
  shows "filter is_end (snd w') = filter is_end (snd w)
    @ finalized_ends f (finalizeOptions (silent host) (recorded_cache cache) c w)"
proof -
  obtain r1 w1 where 1: "finalizeOptions (silent host) (recorded_cache cache) c w = Some (r1, w1)"
    using run by (auto simp: check_c_def try_c_def and_then_def split: option.splits)
  then have same: "filter is_end (snd w1) = filter is_end (snd w)"
    using keepsD [OF keeps_finalizeOptions 1] by (simp add: same_ends_def)
  show ?thesis
  proof (cases "\<exists>a opts abi. r1 = Done (Inr (a, opts, abi))")
    case True
    then obtain a opts abi where r1: "r1 = Done (Inr (a, opts, abi))" by blast
    then have "k (a, opts, abi) w1 = Some (r, w')" using run 1 by (simp add: check_c_Inr)
    then have "filter is_end (snd w') = filter is_end (snd w1) @ f a abi"
      using k [of a abi opts] unfolding adds_def by (rule keepsD [rotated])
    then show ?thesis using 1 r1 same by (simp add: finalized_ends_def)
  next
    case False
    then have "w' = w1" using run 1
      by (cases r1) (auto simp: check_c_def try_c_def and_then_def split: sum.splits)
    moreover have "finalized_ends f (Some (r1, w1)) = []"
      using False by (auto simp: finalized_ends_def split: outcome.splits sum.splits)
    ultimately show ?thesis using 1 same by simp
  qed
qed

text \<open>
  C5: storing a candidate in the background makes, when the options can be finalized, exactly
  the one call that ends its transaction that its storage action asks for, on its own handle,
  with the finalized options; when they cannot be finalized, none.
\<close>

theorem background_ends_once:
  assumes copy: "\<And>b t. keeps same_ends (io_copy b t)"
    and run: "applyInBackground (silent host) (recorded_cache cache) io_copy c w = Some (r, w')"
  shows "filter is_end (snd w') = filter is_end (snd w)
    @ finalized_ends (background_ends c) (finalizeOptions (silent host) (recorded_cache cache) c w)"
  using run unfolding applyInBackground_def
  by (rule after_finalize)
    (use copy in \<open>auto simp: background_action_def background_ends_def HTTPCacheTransactionInsert_def
        HTTPCacheTransactionUpdate_def HTTPCacheTransactionAbandon_def
        HTTPCacheTransactionRecordNotCacheable_def recorded_cache_def
      intro!: adds_check_c adds_map_result adds_hostcall adds_none keeps_fill_body ends.keeps_pure\<close>)

text \<open>
  C4: so does storing a candidate and streaming it back to the client.
\<close>

theorem streamed_ends_once:
  assumes copy: "\<And>b t. keeps same_ends (io_copy b t)"
    and run: "applyAndStreamBack (silent host) (recorded_cache cache) io_copy c q w = Some (r, w')"
  shows "filter is_end (snd w') = filter is_end (snd w)
    @ finalized_ends (streamed_ends c) (finalizeOptions (silent host) (recorded_cache cache) c w)"
  using run unfolding applyAndStreamBack_def
proof (rule after_finalize)
  have ends: "adds [EvInsertBack h r o'] (HTTPCacheTransactionInsertAndStreamback (recorded_cache cache) h r o')"
    "adds [EvUpdateFresh h r o'] (HTTPCacheTransactionUpdateAndReturnFresh (recorded_cache cache) h r o')"
    "adds [EvAbandon h] (HTTPCacheTransactionAbandon (recorded_cache cache) h)"
    "adds [EvRecord h o'] (HTTPCacheTransactionRecordNotCacheable (recorded_cache cache) h o')" for h r o'
    by (auto simp: HTTPCacheTransactionInsertAndStreamback_def HTTPCacheTransactionUpdateAndReturnFresh_def
        HTTPCacheTransactionAbandon_def HTTPCacheTransactionRecordNotCacheable_def recorded_cache_def
        intro!: adds_map_result adds_hostcall)
  show "adds (streamed_ends c a abi) (case (a, opts, abi) of (action, opts, abiOpts) \<Rightarrow>
      stream_action (silent host) (recorded_cache cache) io_copy c q action opts abiOpts)" for a opts abi
    using copy
    by (auto simp: stream_action_def streamed_ends_def
        intro!: adds_check_c ends adds_none ends.keeps_check_c ends.keeps_defer_c candidate_keeps
        split: prod.splits)
qed

text \<open>A cache and a candidate for which the calls can be seen.\<close>

lemma accepting_finalize:
  "\<exists>opts abi. finalizeOptions (silent accepting_host) (recorded_cache cache) sample_candidate ((), [])
    = Some (Done (Inr (HTTPCacheStorageActionInsert, opts, abi)), ((), []))"
  by (simp add: finalizeOptions_def sample_candidate_def candidate_with_def check_c_def try_c_def and_then_def
      bodyHasKnownLength_def HTTPBody_Length_def hostcall_def silent_def unlogged_def accepting_host_def accept_def
      toError_def final_action_def sample_options_def Let_def)

theorem background_ends_once_witness:
  "\<exists>r w' abi. applyInBackground (silent accepting_host) (recorded_cache accepting_cache)
       (\<lambda>b t. finish (0, None)) sample_candidate ((), []) = Some (r, w')
     \<and> filter is_end (snd w') = [EvInsert 10 1 abi]"
proof -
  obtain opts abi where f: "finalizeOptions (silent accepting_host) (recorded_cache accepting_cache) sample_candidate ((), [])
    = Some (Done (Inr (HTTPCacheStorageActionInsert, opts, abi)), ((), []))"
    using accepting_finalize by blast
  then obtain r w' where run: "applyInBackground (silent accepting_host) (recorded_cache accepting_cache)
       (\<lambda>b t. finish (0, None)) sample_candidate ((), []) = Some (r, w')"
    by (simp add: applyInBackground_def check_c_def try_c_def and_then_def background_action_def fill_body_def
      HTTPCacheTransactionInsert_def map_result_def hostcall_def recorded_cache_def accepting_cache_def logged_def accept_def
      sample_candidate_def candidate_with_def toError_def HTTPBody_Append_def silent_def unlogged_def accepting_host_def
      HTTPBody_Close_def drop_error_def)
  have copy: "keeps same_ends (finish (0, None) :: (unit \<times> cache_event list, nat \<times> goerr option) comp)"
    by (rule ends.keeps_pure)
  from background_ends_once [OF copy run] run f show ?thesis
    by (auto simp: finalized_ends_def background_ends_def sample_candidate_def candidate_with_def)
qed

text \<open>A cache that has nothing to return: the response of \<open>applyAndStreamBack\<close> is nil, and it panics.\<close>

definition empty_cache :: "unit httpcache_calls" where
  "empty_cache = accepting_cache\<lparr>c_get_found_response := (\<lambda>h t w. ((FastlyStatusNone, (0, 0)), w))\<rparr>"

theorem streamed_ends_once_witness:
  "\<exists>w' abi. applyAndStreamBack (silent accepting_host) (recorded_cache empty_cache)
       (\<lambda>b t. finish (0, None)) sample_candidate () ((), []) = Some (Panic, w')
     \<and> filter is_end (snd w') = [EvInsertBack 10 1 abi]"
proof -
  obtain opts abi where f: "finalizeOptions (silent accepting_host) (recorded_cache empty_cache) sample_candidate ((), [])
    = Some (Done (Inr (HTTPCacheStorageActionInsert, opts, abi)), ((), []))"
    using accepting_finalize by blast
  then obtain w' where run: "applyAndStreamBack (silent accepting_host) (recorded_cache empty_cache)
       (\<lambda>b t. finish (0, None)) sample_candidate () ((), []) = Some (Panic, w')"
    by (simp add: applyAndStreamBack_def check_c_def try_c_def and_then_def stream_action_def fill_body_def
      HTTPCacheTransactionInsertAndStreamback_def map_result_def hostcall_def recorded_cache_def empty_cache_def
      accepting_cache_def logged_def accept_def sample_candidate_def candidate_with_def toError_def HTTPBody_Append_def
      silent_def unlogged_def accepting_host_def HTTPBody_Close_def drop_error_def defer_c_def
      HTTPCacheTransactionClose_def httpCacheGetFoundResponse_def HTTPCacheGetFoundResponse_def with_action_def
      IsFastlyError_def)
  have copy: "keeps same_ends (finish (0, None) :: (unit \<times> cache_event list, nat \<times> goerr option) comp)"
    by (rule ends.keeps_pure)
  from streamed_ends_once [OF copy run] run f show ?thesis
    by (auto simp: finalized_ends_def streamed_ends_def sample_candidate_def candidate_with_def)
qed

end
