(* ===== verification/SendProtocol.thy ===== *)
theory SendProtocol
  imports CacheProtocol Sending "HOL-Library.Multiset"
begin

text \<open>
  What sending with the SDK's cache does to the handles of cache transactions: a cache that
  records which handles it gives out, which are closed, and which calls end a transaction.
\<close>

section \<open>Recording handles\<close>

datatype tx_event = TxOpen handle | TxClose handle | TxEnd

definition traced_cache :: "'w httpcache_calls \<Rightarrow> ('w \<times> tx_event list) httpcache_calls" where
  "traced_cache cache =
     \<lparr>c_is_request_cacheable = (\<lambda>h. unlogged (c_is_request_cacheable cache h)),
      c_get_suggested_cache_key = (\<lambda>h n. unlogged (c_get_suggested_cache_key cache h n)),
      c_transaction_lookup = (\<lambda>h opts. noting (\<lambda>t. [TxOpen t]) (c_transaction_lookup cache h opts)),
      c_transaction_insert = (\<lambda>h r opts. noting (\<lambda>_. [TxEnd]) (c_transaction_insert cache h r opts)),
      c_transaction_insert_and_stream_back = (\<lambda>h r opts.
        noting (\<lambda>(_, t). [TxEnd, TxOpen t]) (c_transaction_insert_and_stream_back cache h r opts)),
      c_transaction_update = (\<lambda>h r opts. noting (\<lambda>_. [TxEnd]) (c_transaction_update cache h r opts)),
      c_transaction_update_and_return_fresh = (\<lambda>h r opts.
        noting (\<lambda>t. [TxEnd, TxOpen t]) (c_transaction_update_and_return_fresh cache h r opts)),
      c_transaction_choose_stale = (\<lambda>h. unlogged (c_transaction_choose_stale cache h)),
      c_transaction_record_not_cacheable = (\<lambda>h opts.
        noting (\<lambda>_. [TxEnd]) (c_transaction_record_not_cacheable cache h opts)),
      c_transaction_abandon = (\<lambda>h. noting (\<lambda>_. [TxEnd]) (c_transaction_abandon cache h)),
      c_transaction_close = (\<lambda>h. logged (TxClose h) (c_transaction_close cache h)),
      c_get_suggested_backend_request = (\<lambda>h. unlogged (c_get_suggested_backend_request cache h)),
      c_get_suggested_cache_options = (\<lambda>h r m v s. unlogged (c_get_suggested_cache_options cache h r m v s)),
      c_prepare_response_for_storage = (\<lambda>h r. unlogged (c_prepare_response_for_storage cache h r)),
      c_get_found_response = (\<lambda>h t. unlogged (c_get_found_response cache h t)),
      c_get_state = (\<lambda>h. unlogged (c_get_state cache h)),
      c_get_length = (\<lambda>h. unlogged (c_get_length cache h)),
      c_get_max_age_ns = (\<lambda>h. unlogged (c_get_max_age_ns cache h)),
      c_get_stale_while_revalidate_ns = (\<lambda>h. unlogged (c_get_stale_while_revalidate_ns cache h)),
      c_get_stale_if_error_ns = (\<lambda>h. unlogged (c_get_stale_if_error_ns cache h)),
      c_get_age_ns = (\<lambda>h. unlogged (c_get_age_ns cache h)),
      c_get_hits = (\<lambda>h. unlogged (c_get_hits cache h)),
      c_get_sensitive_data = (\<lambda>h. unlogged (c_get_sensitive_data cache h)),
      c_get_surrogate_keys = (\<lambda>h n. unlogged (c_get_surrogate_keys cache h n)),
      c_get_vary_rule = (\<lambda>h n. unlogged (c_get_vary_rule cache h n))\<rparr>"

lemma traced_calls [simp]:
  "c_is_request_cacheable (traced_cache cache) h = unlogged (c_is_request_cacheable cache h)"
  "c_get_suggested_cache_key (traced_cache cache) h n = unlogged (c_get_suggested_cache_key cache h n)"
  "c_transaction_lookup (traced_cache cache) h lo = noting (\<lambda>t. [TxOpen t]) (c_transaction_lookup cache h lo)"
  "c_transaction_insert (traced_cache cache) h r opts = noting (\<lambda>_. [TxEnd]) (c_transaction_insert cache h r opts)"
  "c_transaction_insert_and_stream_back (traced_cache cache) h r opts = noting (\<lambda>(_, t). [TxEnd, TxOpen t]) (c_transaction_insert_and_stream_back cache h r opts)"
  "c_transaction_update (traced_cache cache) h r opts = noting (\<lambda>_. [TxEnd]) (c_transaction_update cache h r opts)"
  "c_transaction_update_and_return_fresh (traced_cache cache) h r opts = noting (\<lambda>t. [TxEnd, TxOpen t]) (c_transaction_update_and_return_fresh cache h r opts)"
  "c_transaction_choose_stale (traced_cache cache) h = unlogged (c_transaction_choose_stale cache h)"
  "c_transaction_record_not_cacheable (traced_cache cache) h opts = noting (\<lambda>_. [TxEnd]) (c_transaction_record_not_cacheable cache h opts)"
  "c_transaction_abandon (traced_cache cache) h = noting (\<lambda>_. [TxEnd]) (c_transaction_abandon cache h)"
  "c_transaction_close (traced_cache cache) h = logged (TxClose h) (c_transaction_close cache h)"
  "c_get_suggested_backend_request (traced_cache cache) h = unlogged (c_get_suggested_backend_request cache h)"
  "c_get_suggested_cache_options (traced_cache cache) h r m v s = unlogged (c_get_suggested_cache_options cache h r m v s)"
  "c_prepare_response_for_storage (traced_cache cache) h r = unlogged (c_prepare_response_for_storage cache h r)"
  "c_get_found_response (traced_cache cache) h t = unlogged (c_get_found_response cache h t)"
  "c_get_state (traced_cache cache) h = unlogged (c_get_state cache h)"
  "c_get_length (traced_cache cache) h = unlogged (c_get_length cache h)"
  "c_get_max_age_ns (traced_cache cache) h = unlogged (c_get_max_age_ns cache h)"
  "c_get_stale_while_revalidate_ns (traced_cache cache) h = unlogged (c_get_stale_while_revalidate_ns cache h)"
  "c_get_stale_if_error_ns (traced_cache cache) h = unlogged (c_get_stale_if_error_ns cache h)"
  "c_get_age_ns (traced_cache cache) h = unlogged (c_get_age_ns cache h)"
  "c_get_hits (traced_cache cache) h = unlogged (c_get_hits cache h)"
  "c_get_sensitive_data (traced_cache cache) h = unlogged (c_get_sensitive_data cache h)"
  "c_get_surrogate_keys (traced_cache cache) h n = unlogged (c_get_surrogate_keys cache h n)"
  "c_get_vary_rule (traced_cache cache) h n = unlogged (c_get_vary_rule cache h n)"
  by (simp_all add: traced_cache_def)

fun opened :: "tx_event list \<Rightarrow> handle multiset" where
  "opened [] = {#}"
| "opened (TxOpen h # es) = add_mset h (opened es)"
| "opened (_ # es) = opened es"

fun closed_handles :: "tx_event list \<Rightarrow> handle multiset" where
  "closed_handles [] = {#}"
| "closed_handles (TxClose h # es) = add_mset h (closed_handles es)"
| "closed_handles (_ # es) = closed_handles es"

lemma opened_append [simp]: "opened (es @ es') = opened es + opened es'"
  by (induction es rule: opened.induct) auto

lemma closed_append [simp]: "closed_handles (es @ es') = closed_handles es + closed_handles es'"
  by (induction es rule: closed_handles.induct) auto

definition balanced :: "tx_event list \<Rightarrow> bool" where
  "balanced es \<longleftrightarrow> opened es = closed_handles es"

lemma balanced_simps [simp]: "balanced []" "balanced [TxEnd]"
  "balanced es \<Longrightarrow> balanced es' \<Longrightarrow> balanced (es @ es')"
  by (simp_all add: balanced_def)

section \<open>Computations that leave the record alone\<close>

definition same_log :: "'w \<times> 'e list \<Rightarrow> 'w \<times> 'e list \<Rightarrow> bool" where
  "same_log w w' \<longleftrightarrow> snd w' = snd w"

interpretation logs: world_relation same_log
  by unfold_locales (simp_all add: same_log_def)

lemma log_unlogged [intro, simp]: "keeps_prog same_log (unlogged p)"
  by (auto simp: keeps_prog_def same_log_def unlogged_def split: prod.splits)

lemma emits_same_log: "keeps same_log m \<Longrightarrow> (\<And>r. Q r []) \<Longrightarrow> emits m Q"
  by (rule emitsI) (force simp: keeps_def same_log_def)

lemmas log_intros = logs.keeps_pure logs.keeps_and_then logs.keeps_try_c logs.keeps_check_c
  logs.keeps_drop_error logs.keeps_map_result logs.keeps_for_each
  logs.keeps_Values_Next logs.keeps_buffered logs.keeps_read_headers logs.keeps_suggested
  keeps_hostcall keeps_send_hostcall log_unlogged

lemma log_each_c: "(\<And>k. keeps same_log (f k)) \<Longrightarrow> keeps same_log (each_c f ks)"
  by (induction ks) (auto intro!: log_intros)

lemma log_finalizeOptions: "keeps same_log (finalizeOptions (silent host) (traced_cache cache) c)"
  unfolding finalizeOptions_def buildFreshSuggestedCacheWriteOptions_def
    httpCacheGetSuggestedCacheWriteOptions_def HTTPCacheGetSuggestedCacheOptions_def
    bodyHasKnownLength_def HTTPBody_Length_def
  by (auto simp: Let_def silent_def intro!: log_intros split: option.splits)

lemma log_newResponse: "keeps same_log (newResponse (silent host) q b r body)"
  unfolding newResponse_def HTTPResponse_GetStatusCode_def
  by (auto simp: silent_def intro!: log_intros split: option.splits)

lemma log_loadFromHandle: "keeps same_log (loadFromHandle (traced_cache cache) h opts)"
  unfolding loadFromHandle_def HTTPCacheGetMaxAgeNs_def HTTPCacheGetVaryRule_def HTTPCacheGetAgeNs_def
    HTTPCacheGetStaleWhileRevalidateNs_def HTTPCacheGetSurrogateKeys_def HTTPCacheGetLength_def
    HTTPCacheGetSensitiveData_def HTTPCacheGetStaleIfErrorNs_def
  by (auto simp: Let_def intro!: log_intros split: prod.splits)

lemma log_found: "keeps same_log (httpCacheGetFoundResponse (silent host) (traced_cache cache) h q b t hit)"
  unfolding httpCacheGetFoundResponse_def HTTPCacheGetFoundResponse_def HTTPCacheGetHits_def
  by (auto intro!: log_intros log_newResponse log_loadFromHandle
      split: prod.splits)

lemma log_bodies: "keeps same_log (HTTPBody_Append (silent host) b b')" "keeps same_log (HTTPBody_Close (silent host) b)"
  "keeps same_log (HTTPBody_Abandon (silent host) b)" "keeps same_log (NewHTTPBody (silent host))"
  unfolding HTTPBody_Append_def HTTPBody_Close_def HTTPBody_Abandon_def NewHTTPBody_def
  by (auto simp: silent_def intro!: log_intros)

lemma log_fill_body:
  "(\<And>b t. keeps same_log (io_copy b t)) \<Longrightarrow> keeps same_log (fill_body (silent host) io_copy what c body)"
  unfolding fill_body_def by (auto intro!: log_intros log_bodies split: option.splits prod.splits)

lemma log_with_action: "keeps same_log (with_action a resp)"
  unfolding with_action_def by (auto intro!: log_intros split: option.splits)

lemma log_from_candidate: "keeps same_log (newResponseFromCandidate (silent host) c q opts)"
  unfolding newResponseFromCandidate_def by (auto simp: Let_def intro!: log_intros log_newResponse split: option.splits)

lemma log_non_nil: "(\<And>x. keeps same_log (k x)) \<Longrightarrow> keeps same_log (non_nil p k)"
  unfolding non_nil_def by (auto intro: log_intros split: option.splits)

lemma log_fallible: "keeps same_log m \<Longrightarrow> (\<And>x. keeps same_log (k x)) \<Longrightarrow> keeps same_log (fallible f m s k)"
  unfolding fallible_def by (auto intro!: log_intros)

section \<open>Handles of one storage action\<close>

lemma emits_close: "emits (HTTPCacheTransactionClose (traced_cache cache) h) (\<lambda>r es. es = [TxClose h])"
  unfolding HTTPCacheTransactionClose_def by (auto intro: emits_logged)

lemma emits_non_nil: "Q Panic [] \<Longrightarrow> (\<And>x. p = Some x \<Longrightarrow> emits (k x) Q) \<Longrightarrow> emits (non_nil p k) Q"
  unfolding non_nil_def by (auto intro: emits_panic split: option.splits)

lemma emits_fallible:
  assumes "emits m (\<lambda>r es. case r of
      Panic \<Rightarrow> Q Panic es
    | Done (Inl e) \<Rightarrow> Q (Done (Inl (f e), s)) es
    | Done (Inr x) \<Rightarrow> emits (k x) (\<lambda>r' es'. Q r' (es @ es')))"
  shows "emits (fallible f m s k) Q"
  unfolding fallible_def
  by (rule emits_try_c, rule emits_mono [OF assms]) (auto split: outcome.splits sum.splits intro: emits_finish)

lemma emits_defer_unless:
  assumes "emits m (\<lambda>r es. case r of
      Panic \<Rightarrow> emits d (\<lambda>_ es'. Q Panic (es @ es'))
    | Done (x, off) \<Rightarrow> if off then Q (Done x) es else emits d (\<lambda>_ es'. Q (Done x) (es @ es')))"
  shows "emits (defer_unless d m) Q"
proof (rule emitsI)
  fix w l r w' l'
  assume a: "defer_unless d m (w, l) = Some (r, (w', l'))"
  then obtain r1 w1 l1 where 1: "m (w, l) = Some (r1, (w1, l1))"
    by (auto simp: defer_unless_def split: option.splits)
  from emitsD [OF assms 1] obtain es where es: "l1 = l @ es"
    "case r1 of Panic \<Rightarrow> emits d (\<lambda>_ es'. Q Panic (es @ es'))
     | Done (x, off) \<Rightarrow> if off then Q (Done x) es else emits d (\<lambda>_ es'. Q (Done x) (es @ es'))" by blast
  show "\<exists>es. l' = l @ es \<and> Q r es"
  proof (cases "r1 = Panic \<or> (\<exists>x. r1 = Done (x, False))")
    case True
    with a 1 obtain r2 where "d (w1, l1) = Some (r2, (w', l'))"
      "\<exists>es. l1 = l @ es \<and> emits d (\<lambda>_ es'. Q r (es @ es'))"
      using es by (auto simp: defer_unless_def split: option.splits)
    then show ?thesis by (auto dest: emitsD)
  next
    case False
    with a 1 es show ?thesis by (cases r1) (auto simp: defer_unless_def)
  qed
qed

text \<open>
  What streaming a candidate back does: the handles it opens are closed again, and when it
  succeeds it has made the call that ends the transaction.
\<close>

definition stored :: "(goerr + 'a) outcome \<Rightarrow> tx_event list \<Rightarrow> bool" where
  "stored r es \<longleftrightarrow> balanced es \<and> ((\<exists>x. r = Done (Inr x)) \<longrightarrow> TxEnd \<in> set es)"

lemma emits_stream_action:
  assumes "\<And>b t. keeps same_log (io_copy b t)"
  shows "emits (stream_action (silent host) (traced_cache cache) io_copy c q action opts abi) stored"
proof -
  have inner: "emits m (\<lambda>r es'. emits (HTTPCacheTransactionClose (traced_cache cache) h)
      (\<lambda>_ es''. stored r (([TxEnd, TxOpen h]) @ es' @ es'')))" if "keeps same_log m" for m h
    by (rule emits_same_log [OF that], rule emits_mono [OF emits_close]) (simp add: stored_def balanced_def)
  have last: "emits m (\<lambda>r es'. stored r ([TxEnd] @ es'))" if "keeps same_log m" for m
    by (rule emits_same_log [OF that]) (simp add: stored_def)
  have none: "emits (with_action action None) stored"
    by (simp add: with_action_def emits_panic stored_def)
  show ?thesis
    unfolding stream_action_def HTTPCacheTransactionInsertAndStreamback_def
      HTTPCacheTransactionUpdateAndReturnFresh_def HTTPCacheTransactionAbandon_def
      HTTPCacheTransactionRecordNotCacheable_def
    using assms
    by (auto simp: stored_def [of "Done (Inl _)"] simp del: append.simps
        intro!: emits_check_c emits_map_result emits_noting emits_defer_c none
          inner last log_intros log_fill_body
          log_found log_with_action log_from_candidate
        split: prod.splits)
qed

section \<open>Sending\<close>

definition unlogged_comp :: "('w, 'a) comp \<Rightarrow> ('w \<times> 'e list, 'a) comp" where
  "unlogged_comp m = (\<lambda>(w, l). case m w of None \<Rightarrow> None | Some (r, w') \<Rightarrow> Some (r, (w', l)))"

lemma log_unlogged_comp [intro, simp]: "keeps same_log (unlogged_comp m)"
  by (rule keepsI) (auto simp: unlogged_comp_def same_log_def split: option.splits)

text \<open>
  The same environment with the record of handles: hooks and copies do not make cache calls of
  their own.  \<open>rq\<close>, the calls of \<open>RequestABI\<close>, are not used where the SDK caches.
\<close>

definition traced :: "('w \<times> tx_event list) request_calls \<Rightarrow> ('w, 'b, 'k, 'i) sending \<Rightarrow>
    ('w \<times> tx_event list, 'b, 'k, 'i) sending" where
  "traced rq env =
     \<lparr>s_http = silent (s_http env), s_req = rq, s_cache = traced_cache (s_cache env),
      s_url_parse = s_url_parse env, s_url_string = s_url_string env, s_query = s_query env,
      s_copy = (\<lambda>b r. unlogged_comp (s_copy env b r)),
      s_user_close = (\<lambda>r. unlogged_comp (s_user_close env r)),
      s_transform_copy = (\<lambda>b t. unlogged_comp (s_transform_copy env b t)),
      s_before = (\<lambda>k q. unlogged_comp (s_before env k q)),
      s_after = (\<lambda>k c. unlogged_comp (s_after env k c)),
      s_sleep = (\<lambda>d. unlogged (s_sleep env d)), s_ctx = s_ctx env, s_choose_ctx = s_choose_ctx env\<rparr>"

lemma traced_fields [simp]:
  "s_http (traced rq env) = silent (s_http env)" "s_cache (traced rq env) = traced_cache (s_cache env)"
  "s_url_parse (traced rq env) = s_url_parse env"
  "s_copy (traced rq env) b r = unlogged_comp (s_copy env b r)"
  "s_user_close (traced rq env) r = unlogged_comp (s_user_close env r)"
  "s_transform_copy (traced rq env) b t = unlogged_comp (s_transform_copy env b t)"
  "s_before (traced rq env) k q = unlogged_comp (s_before env k q)"
  "s_after (traced rq env) k c = unlogged_comp (s_after env k c)"
  by (simp_all add: traced_def)

lemma log_abiBodyFrom: "keeps same_log (abiBodyFrom (silent host) rc)"
  unfolding abiBodyFrom_def by (auto intro!: log_intros log_bodies split: option.splits)

lemma log_setABIRequestOptions: "keeps same_log (setABIRequestOptions (silent host) req)"
  unfolding setABIRequestOptions_def set_headers_def set_cache_key_def HTTPRequest_SetAutoDecompressResponse_def
    HTTPRequest_SetFramingHeadersMode_def HTTPRequest_SetCacheOverride_def HTTPRequest_SetHeaderValues_def
  by (auto simp: silent_def intro!: log_non_nil log_intros log_each_c)

lemma log_copyBody:
  "(\<And>b r. keeps same_log (io_copy b r)) \<Longrightarrow> (\<And>r. keeps same_log (uc r)) \<Longrightarrow>
   keeps same_log (copyBody (silent host) io_copy uc req)"
proof -
  assume copy: "\<And>b r. keeps same_log (io_copy b r)" and close: "\<And>r. keeps same_log (uc r)"
  have "keeps same_log (close_user_body uc rc)" for rc
    by (cases rc) (auto intro: close log_intros)
  then show ?thesis unfolding copyBody_def
    by (auto intro!: log_non_nil log_intros log_bodies copy split: option.splits prod.splits)
qed

lemma log_newRequestFromHandle: "keeps same_log (newRequestFromHandle (traced rq env) h req)"
  unfolding newRequestFromHandle_def HTTPRequest_GetMethod_def HTTPRequest_GetURI_def
  by (auto intro!: log_intros log_abiBodyFrom split: sum.splits) (auto simp: silent_def)

lemma log_hooks: "keeps same_log (run_before (traced rq env) q)" "keeps same_log (run_after (traced rq env) fn c)"
  unfolding run_before_def run_after_def by (auto intro!: log_intros split: option.splits)

lemma log_sendAsyncForCaching: "keeps same_log (sendAsyncForCaching (traced rq env) req h b)"
  unfolding sendAsyncForCaching_def HTTPCacheGetSuggestedBackendRequest_def sendAsyncWithoutCaching_def
    HTTPRequest_SendAsyncV2_def
  by (auto simp: Let_def intro!: log_fallible log_intros log_newRequestFromHandle log_hooks
      log_setABIRequestOptions log_copyBody log_non_nil split: option.splits) (auto simp: silent_def)

lemma log_newCandidatePending: "keeps same_log (newCandidateFromPendingBackendCaching (traced rq env) p)"
  unfolding newCandidateFromPendingBackendCaching_def PendingRequest_Wait_def newCandidate_def
    HTTPCachePrepareResponseForStorage_def HTTPResponse_GetHeaderValue_def NewHTTPResponse_def
  by (auto intro!: log_intros log_bodies log_hooks split: option.splits) (auto simp: silent_def)

lemma log_passed: "keeps same_log (passed_response (traced rq env) f req b)"
  unfolding passed_response_def sendWithoutCaching_def HTTPRequest_SendV3_def
  by (auto intro!: log_intros log_non_nil log_newResponse) (auto simp: silent_def)

lemma log_stale: "keeps same_log (stale_response (traced rq env) req h b e)"
  unfolding stale_response_def HTTPCacheTransactionChooseStale_def closing_def
  by (auto simp: Let_def intro!: log_intros log_non_nil log_found)

lemma fallible_result:
  "fallible f m s k w = Some (Done (Inr x, s'), w') \<Longrightarrow>
   \<exists>y w1. m w = Some (Done (Inr y), w1) \<and> k y w1 = Some (Done (Inr x, s'), w')"
  by (auto simp: fallible_def try_c_def and_then_def split: option.splits outcome.splits sum.splits)

lemma sendAsync_handle:
  "sendAsyncForCaching env req h b w = Some (Done (Inr p, q), w') \<Longrightarrow> pb_cacheHandle p = h"
  unfolding sendAsyncForCaching_def
  by (fastforce dest!: fallible_result and_then_mono simp: Let_def split: option.splits)

definition tx_result :: "handle \<Rightarrow>
    (((goerr + ('b, 'k, 'i) sent) \<times> ('b, 'k, 'i) Request) \<times> bool) outcome \<Rightarrow> tx_event list \<Rightarrow> bool" where
  "tx_result h r es \<longleftrightarrow> balanced es \<and>
     (case r of
        Panic \<Rightarrow> True
      | Done ((Inl e, req), off) \<Rightarrow> \<not> off
      | Done ((Inr (resp, None), req), off) \<Rightarrow> off \<longleftrightarrow> TxEnd \<in> set es
      | Done ((Inr (resp, Some p), req), off) \<Rightarrow> off \<and> pb_cacheHandle p = h)"

lemma emits_sendAsync:
  assumes "Q Panic []" "\<And>e q. Q (Done (Inl e, q)) []" "\<And>p q. pb_cacheHandle p = h \<Longrightarrow> Q (Done (Inr p, q)) []"
  shows "emits (sendAsyncForCaching (traced rq env) req h b) Q"
proof (rule emitsI)
  fix w l r w' l'
  assume run: "sendAsyncForCaching (traced rq env) req h b (w, l) = Some (r, (w', l'))"
  have "l' = l" using keepsD [OF log_sendAsyncForCaching run] by (simp add: same_log_def)
  moreover have "Q r []"
  proof (cases r)
    case (Done rq')
    then show ?thesis using assms sendAsync_handle [of _ req h b "(w, l)"] run
      by (cases rq'; cases "fst rq'") auto
  qed (simp add: assms)
  ultimately show "\<exists>es. l' = l @ es \<and> Q r es" by simp
qed

lemma emits_found_response: "emits (found_response (traced rq env) req h b state resp) (tx_result h)"
  unfolding found_response_def
  by (auto simp: Let_def tx_result_def closing_def split: sum.splits
      intro!: emits_and_then emits_finish emits_sendAsync)

lemma log_chooseStale: "keeps same_log (HTTPCacheTransactionChooseStale (traced_cache cache) h)"
  unfolding HTTPCacheTransactionChooseStale_def by (auto intro!: log_intros)

lemma emits_stale_response: "emits (stale_response (traced rq env) req h b e) (tx_result h)"
  unfolding stale_response_def
  by (auto simp: tx_result_def closing_def Let_def split: outcome.splits sum.splits
      intro!: emits_drop_error emits_try_c emits_same_log [OF log_chooseStale] emits_same_log [OF log_found]
        emits_non_nil emits_finish)

lemma emits_applyAndStreamBack:
  assumes "\<And>b t. keeps same_log (io_copy b t)"
  shows "emits (applyAndStreamBack (silent host) (traced_cache cache) io_copy c q) stored"
  unfolding applyAndStreamBack_def
  by (rule emits_check_c, rule emits_same_log [OF log_finalizeOptions])
    (auto simp: stored_def split: outcome.splits sum.splits
      intro: emits_mono [OF emits_stream_action [OF assms]])

lemma emits_missing_response: "emits (missing_response (traced rq env) req h b state) (tx_result h)"
proof -
  have store: "emits (applyAndStreamBack (silent host) (traced_cache cache) (\<lambda>b t. unlogged_comp (io b t)) c q) stored"
    for host cache io c q
    by (rule emits_applyAndStreamBack) simp
  have copy: "s_transform_copy (traced rq env) = (\<lambda>b t. unlogged_comp (s_transform_copy env b t))"
    by (intro ext) simp
  show ?thesis
    unfolding missing_response_def copy
    by (auto simp: closing_def tx_result_def stored_def
        intro!: emits_and_then emits_sendAsync emits_try_c emits_same_log [OF log_newCandidatePending]
          emits_finish emits_mono [OF emits_stale_response] emits_mono [OF store]
        split: outcome.splits sum.splits option.splits)
qed

lemma emits_passed: "emits (passed_response (traced rq env) f req b)
    (\<lambda>r es. es = [] \<and> (\<forall>resp p. r \<noteq> Done (Inr (resp, Some p))))"
proof (rule emitsI)
  fix w l r w' l'
  assume run: "passed_response (traced rq env) f req b (w, l) = Some (r, (w', l'))"
  then have "\<forall>resp p. r \<noteq> Done (Inr (resp, Some p))"
    by (auto simp: passed_response_def check_c_def try_c_def and_then_def
        split: option.splits outcome.splits sum.splits)
  then show "\<exists>es. l' = l @ es \<and> es = [] \<and> (\<forall>resp p. r \<noteq> Done (Inr (resp, Some p)))"
    using keepsD [OF log_passed run] by (simp add: same_log_def)
qed

lemma emits_with_transaction: "emits (with_transaction (traced rq env) req h b) (tx_result h)"
proof -
  have wait: "keeps same_log (httpCacheWait (traced_cache cache) h)" for cache
    unfolding httpCacheWait_def HTTPCacheGetState_def by (auto intro!: log_intros)
  show ?thesis
    unfolding with_transaction_def
    by (auto simp: closing_def tx_result_def
        intro!: emits_try_c emits_same_log [OF wait] emits_same_log [OF log_found] emits_finish emits_and_then
          emits_mono [OF emits_passed] emits_mono [OF emits_found_response] emits_mono [OF emits_missing_response]
        split: outcome.splits sum.splits option.splits)
qed

text \<open>The handles a call of \<open>sendWithGuestCache\<close> leaves open, by its result and record.\<close>

definition left_open :: "((goerr + ('b, 'k, 'i) sent) \<times> ('b, 'k, 'i) Request) outcome \<Rightarrow> tx_event list \<Rightarrow> handle multiset" where
  "left_open r es =
     (case r of
        Done (Inr (resp, Some p), req) \<Rightarrow> {#pb_cacheHandle p#}
      | Done (Inr (resp, None), req) \<Rightarrow>
          if TxEnd \<in> set es then (case es of TxOpen h # _ \<Rightarrow> {#h#} | _ \<Rightarrow> {#}) else {#}
      | _ \<Rightarrow> {#})"

lemma emits_sendWithGuestCache:
  "emits (sendWithGuestCache (traced rq env) req b) (\<lambda>r es. opened es = closed_handles es + left_open r es)"
proof -
  have lookup: "emits (HTTPCacheTransactionLookup (traced_cache cache) h o')
      (\<lambda>r es. case r of Done (Inr t) \<Rightarrow> es = [TxOpen t] | Done (Inl e) \<Rightarrow> es = [] | Panic \<Rightarrow> False)" for cache h o'
    unfolding HTTPCacheTransactionLookup_def by (auto intro!: emits_noting)
  have cacheable: "keeps same_log (HTTPCacheIsRequestCacheable (traced_cache cache) h)" for cache h
    unfolding HTTPCacheIsRequestCacheable_def by (auto intro!: log_intros)
  show ?thesis
    unfolding sendWithGuestCache_def
    by (auto simp: Let_def left_open_def balanced_def tx_result_def
        intro!: emits_non_nil emits_fallible emits_same_log [OF cacheable] emits_and_then emits_mono [OF emits_passed]
          emits_mono [OF lookup] emits_defer_unless emits_mono [OF emits_with_transaction] emits_mono [OF emits_close]
          emits_finish
        split: outcome.splits sum.splits option.splits)
qed

text \<open>
  C3: a request the SDK caches itself closes the handle of its cache transaction exactly once
  when it returns an error, panics, or returns a cached, stale or uncached response.  It leaves
  the handle to the goroutine when it has started a revalidation, and it never closes the
  handle of a response it got from the backend and stored (or recorded as uncacheable).  Every
  other handle it opens on the way it closes.
\<close>

theorem guest_cache_handles:
  assumes "sendWithGuestCache (traced rq env) req backend (w, l) = Some (r, (w', l'))"
  shows "\<exists>es. l' = l @ es \<and> opened es = closed_handles es + left_open r es"
  using emitsD [OF emits_sendWithGuestCache assms] by blast

text \<open>A revalidation closes its handle exactly when it gets as far as a candidate.\<close>

lemma emits_background:
  "emits (applyInBackground (silent host) (traced_cache cache) (\<lambda>b t. unlogged_comp (io b t)) c) (\<lambda>r es. balanced es)"
  unfolding applyInBackground_def background_action_def HTTPCacheTransactionInsert_def HTTPCacheTransactionUpdate_def
    HTTPCacheTransactionAbandon_def HTTPCacheTransactionRecordNotCacheable_def
  by (auto intro!: emits_check_c emits_same_log [OF log_finalizeOptions] emits_map_result emits_noting emits_finish
      emits_same_log [OF log_fill_body] split: outcome.splits sum.splits)

theorem revalidation_handle:
  assumes "revalidate (traced rq env) p (w, l) = Some (Done (), (w', l'))"
  shows "\<exists>es. l' = l @ es \<and> closed_handles es = opened es +
    (case newCandidateFromPendingBackendCaching (traced rq env) p (w, l) of
       Some (Done (Inr c), _) \<Rightarrow> {#pb_cacheHandle p#} | _ \<Rightarrow> {#})"
proof -
  have copy: "s_transform_copy (traced rq env) = (\<lambda>b t. unlogged_comp (s_transform_copy env b t))"
    by (intro ext) simp
  obtain r1 w1 l1 where 1: "newCandidateFromPendingBackendCaching (traced rq env) p (w, l) = Some (r1, (w1, l1))"
    using assms by (auto simp: revalidate_def try_c_def and_then_def split: option.splits)
  have l1: "l1 = l" using keepsD [OF log_newCandidatePending 1] by (simp add: same_log_def)
  have store: "emits (drop_error (applyInBackground (s_http (traced rq env)) (s_cache (traced rq env))
        (s_transform_copy (traced rq env)) c)
      (drop_error (HTTPCacheTransactionClose (s_cache (traced rq env)) h) (finish ())))
      (\<lambda>r es. r = Done () \<longrightarrow> closed_handles es = opened es + {#h#})" for c h
    unfolding copy
    by (auto simp: balanced_def intro!: emits_drop_error emits_mono [OF emits_background] emits_mono [OF emits_close]
        emits_finish split: outcome.splits)
  show ?thesis
  proof (cases "\<exists>c. r1 = Done (Inr c)")
    case True
    then obtain c where "r1 = Done (Inr c)" by blast
    with assms 1 l1 store [of c "pb_cacheHandle p"] show ?thesis
      by (auto simp: revalidate_def try_c_Inr dest!: emitsD)
  next
    case False
    then have "l' = l" using assms 1 l1
      by (auto simp: revalidate_def try_c_def and_then_def split: outcome.splits sum.splits)
    with False 1 show ?thesis by (auto split: outcome.splits sum.splits)
  qed
qed

text \<open>An environment in which every call succeeds, and hosts that fail at one place.\<close>

definition sample_env :: "unit http_calls \<Rightarrow> unit httpcache_calls \<Rightarrow> (unit, unit, unit, unit) sending" where
  "sample_env host cache =
     \<lparr>s_http = host, s_req = accepting_requests, s_cache = cache,
      s_url_parse = (\<lambda>s. Inl (Text s)), s_url_string = u_Path, s_query = (\<lambda>_. Inr []),
      s_copy = (\<lambda>b r. finish (0, None)), s_user_close = (\<lambda>r. finish None),
      s_transform_copy = (\<lambda>b t. finish (0, None)),
      s_before = (\<lambda>k q. finish (None, q, q_Header q)), s_after = (\<lambda>k c. finish (None, c)),
      s_sleep = (\<lambda>d w. ((), w)), s_ctx = (\<lambda>n. None), s_choose_ctx = (\<lambda>n. False)\<rparr>"

definition sample_url :: URL where
  "sample_url = \<lparr>u_Scheme = ''https'', u_Opaque = [], u_User = None, u_Host = ''example.com'', u_Path = ''/'',
     u_RawPath = [], u_ForceQuery = False, u_RawQuery = [], u_Fragment = [], u_RawFragment = []\<rparr>"

definition sample_request :: "(unit, unit, unit) Request" where
  "sample_request = (request_with ''GET'' sample_url [] None ''example.com'')
     \<lparr>q_abi_req := Some 3, q_abi_body := Some (plain_body 2)\<rparr>"

definition stateless_cache :: "unit httpcache_calls" where
  "stateless_cache = accepting_cache\<lparr>c_get_state := (\<lambda>h w. ((FastlyStatusError, 0), w))\<rparr>"

theorem guest_cache_handles_witness:
  "\<exists>r req w'. sendWithGuestCache (traced accepting_requests (sample_env accepting_host stateless_cache)) sample_request ''b'' ((), [])
       = Some (Done (Inl r, req), w')
     \<and> opened (snd w') = {#10#} \<and> closed_handles (snd w') = {#10#}"
proof -
  obtain r req w' where run: "sendWithGuestCache (traced accepting_requests (sample_env accepting_host stateless_cache)) sample_request ''b'' ((), [])
      = Some (Done (Inl r, req), ((), w'))" and w': "w' = [TxOpen 10, TxClose 10]"
    by (simp add: sendWithGuestCache_def sample_request_def request_with_def zero_cache_options_def non_nil_def
        fallible_def try_c_def and_then_def HTTPCacheIsRequestCacheable_def map_result_def check_c_def hostcall_def
        sample_env_def stateless_cache_def accepting_cache_def unlogged_def accept_def toError_def Let_def
        HTTPCacheTransactionLookup_def noting_def defer_unless_def with_transaction_def httpCacheWait_def
        HTTPCacheGetState_def closing_def HTTPCacheTransactionClose_def logged_def)
  from guest_cache_handles [OF run] have "opened w' = closed_handles w'" by (simp add: left_open_def)
  with run w' show ?thesis by simp
qed

end
