(* ===== verification/HeaderTransport.thy ===== *)
theory HeaderTransport
  imports Recorders SendProtocol
begin

text \<open>
  From one program to another: a request or a response that one program builds, and that the host
  passes on as it was given, is the request or the response another program reads.  This composes
  the ways out (\<open>WriteHeader\<close>, \<open>ConstructABIRequest\<close>) and the ways in (\<open>newResponse\<close>,
  \<open>newClientRequest\<close>) through the blocks of values of the hostcalls.
\<close>

section \<open>Blocks of values\<close>

text \<open>The values of a block, each ended by a NUL byte; what is not ended is no value.\<close>

fun split_values :: "string \<Rightarrow> string \<Rightarrow> string list" where
  "split_values acc [] = []"
| "split_values acc (c # s) = (if c = CHR 0x00 then acc # split_values [] s else split_values (acc @ [c]) s)"

definition block_values :: "string \<Rightarrow> string list" where
  "block_values s = split_values [] s"

definition nul_free :: "string list \<Rightarrow> bool" where
  "nul_free vs \<longleftrightarrow> list_all (\<lambda>v. CHR 0x00 \<notin> set v) vs"

lemma split_values_ended: "CHR 0x00 \<notin> set v \<Longrightarrow> split_values acc (v @ CHR 0x00 # s) = (acc @ v) # split_values [] s"
  by (induction v arbitrary: acc) auto

lemma block_values_nul: "nul_free vs \<Longrightarrow> block_values (nul_values vs) = vs"
  by (induction vs) (auto simp: nul_values_def block_values_def nul_free_def split_values_ended)

text \<open>A NUL byte inside a value splits it: the other side reads a value that nobody set.\<close>

lemma nul_byte_adds_value:
  assumes "CHR 0x00 \<notin> set v" "CHR 0x00 \<notin> set v'"
  shows "block_values (nul_values [v @ CHR 0x00 # v']) = [v, v']"
  using assms by (simp add: nul_values_def block_values_def split_values_ended)

lemma nul_free_newlines: "nul_free (map headerNewlineToSpace vs) \<longleftrightarrow> nul_free vs"
  by (auto simp: nul_free_def headerNewlineToSpace_def list_all_iff image_iff split: if_splits)

text \<open>The names of a header are distinct, so filing its values by name gives them back.\<close>

lemma values_by_name:
  assumes "header_wf h" and "f [] = []"
  shows "concat (map snd (filter (\<lambda>(n, _). CanonicalHeaderKey k = CanonicalHeaderKey n)
      (map (\<lambda>n. (n, f (Header_Values h n))) (Header_Keys h)))) = f (Header_Values h k)"
proof -
  have "map snd (filter (\<lambda>(n, _). CanonicalHeaderKey k = CanonicalHeaderKey n)
      (map (\<lambda>n. (n, f (Header_Values h n))) (Header_Keys h)))
    = map (\<lambda>n. f (Header_Values h n)) (filter (\<lambda>n. CanonicalHeaderKey k = CanonicalHeaderKey n) (Header_Keys h))"
    by (simp add: filter_map o_def)
  then show ?thesis
    using header_wf_keys [OF assms(1), of k] hindex_not_key [of "CanonicalHeaderKey k" h] assms(2)
    by (simp add: hindex_canonical)
qed

text \<open>A header a program can send: no value has a NUL byte.\<close>

definition sendable :: "Header \<Rightarrow> bool" where
  "sendable h \<longleftrightarrow> header_wf h \<and> (\<forall>(k, vs) \<in> set h. nul_free vs)"

lemma sendable_values: "sendable h \<Longrightarrow> nul_free (Header_Values h k)"
  by (force simp: sendable_def hindex_canonical hindex_def nul_free_def split: option.split dest: map_of_SomeD)

section \<open>Responses\<close>

text \<open>The response that the events describe: its status and its headers.\<close>

fun sent_headers :: "http_event list \<Rightarrow> (string \<times> string list) list" where
  "sent_headers (EvHeader k b # es) = (k, block_values b) # sent_headers es"
| "sent_headers (_ # es) = sent_headers es"
| "sent_headers [] = []"

fun sent_status :: "http_event list \<Rightarrow> u32 option" where
  "sent_status (EvStatus s # es) = Some s"
| "sent_status (_ # es) = sent_status es"
| "sent_status [] = None"

lemma sent_headers_append [simp]: "sent_headers (xs @ ys) = sent_headers xs @ sent_headers ys"
  by (induction xs rule: sent_headers.induct) simp_all

lemma sent_headers_events:
  assumes "sendable h"
  shows "sent_headers (header_events h) = map (\<lambda>n. (n, map headerNewlineToSpace (Header_Values h n))) (Header_Keys h)"
proof -
  have "sent_headers (map (\<lambda>k. EvHeader k (nul_values (map headerNewlineToSpace (Header_Values h k)))) ks)
      = map (\<lambda>n. (n, map headerNewlineToSpace (Header_Values h n))) ks" for ks
    by (induction ks) (simp_all add: block_values_nul nul_free_newlines sendable_values [OF assms])
  then show ?thesis by (simp add: header_events_def)
qed

lemma sent_headers_body: "list_all body_event es \<Longrightarrow> sent_headers es = []"
  by (induction es rule: sent_headers.induct) simp_all

text \<open>A host that passes on the response described by \<open>es\<close>, under the handle \<open>h\<close>.\<close>

definition relays_response :: "'v http_calls \<Rightarrow> handle \<Rightarrow> http_event list \<Rightarrow> bool" where
  "relays_response host h es \<longleftrightarrow>
     (\<forall>s. sent_status es = Some s \<longrightarrow> answers {} (c_resp_status_get host h) (Some s))
     \<and> header_host (c_resp_header_names_get host h) (c_resp_header_values_get host h) (sent_headers es)"

lemma reaches_read_headers:
  assumes "header_host names_call vals_call hs" "ncap < 2 ^ 32" "vcap < 2 ^ 32"
  shows "reaches (read_headers what ncap vcap names_call vals_call) (\<lambda>(e, header). e = None \<and> header_wf header
    \<and> (\<forall>k. Header_Values header k =
          concat (map snd (filter (\<lambda>(n, _). CanonicalHeaderKey k = CanonicalHeaderKey n) hs))))"
  unfolding reaches_def using read_headers_all [OF assms] by auto

lemma reaches_mono: "reaches m P \<Longrightarrow> (\<And>x. P x \<Longrightarrow> Q x) \<Longrightarrow> reaches m Q"
  unfolding reaches_def by blast

text \<open>
  C10: a response arrives as it was written.  When a handler sends the head of a response and its
  host passes on what it got, the program that receives it reads the same status and, for every
  name, the same values in the same order, line breaks in them being replaced by spaces.
\<close>

theorem response_arrives:
  assumes "sendable (w_header rw)" "\<not> w_wroteHeaders rw" "code \<noteq> 103" "0 \<le> code" "code < 2 ^ 32"
    and "run_ops (recorded host) (OpWriteHeader code # ops) rw (w, []) = Some (Done rw', (w', log))"
    and "relays_response host' h log"
  shows "reaches (newResponse host' req backend h body) (\<lambda>resp. rs_StatusCode resp = code
    \<and> header_wf (rs_Header resp)
    \<and> (\<forall>k. Header_Values (rs_Header resp) k = map headerNewlineToSpace (Header_Values (w_header rw) k)))"
proof -
  obtain rw1 w1 l1 where
    "WriteHeader (recorded host) code rw (w, []) = Some (Done rw1, (w1, l1))"
    and rest: "run_ops (recorded host) ops rw1 (w1, l1) = Some (Done rw', (w', log))"
    using and_then_Some [OF assms(6) [unfolded run_ops.simps]] by (auto simp: run_op_def)
  from WriteHeader_exact [OF assms(2,3) this(1)] have
    l1: "l1 = head_of (w_ManualFramingMode rw) code (w_header rw)" "w_wroteHeaders rw1" by simp_all
  obtain es where log: "log = l1 @ es" "list_all body_event es"
    using sent_ops [OF l1(2) rest] by blast
  have hs: "sent_headers log
      = map (\<lambda>n. (n, map headerNewlineToSpace (Header_Values (w_header rw) n))) (Header_Keys (w_header rw))"
    using log l1 sent_headers_events [OF assms(1)] sent_headers_body by (simp add: head_of_def)
  have "sent_status log = Some (of_int code)" using log l1 by (simp add: head_of_def)
  with assms(7) have "answers {} (c_resp_status_get host' h) (Some (of_int code))"
    by (simp add: relays_response_def)
  then have code: "yields (HTTPResponse_GetStatusCode host' h) code"
    unfolding HTTPResponse_GetStatusCode_def
    by (rule yields_check_c [OF answers_Some]) (use assms(4,5) in \<open>simp add: yields_finish uint_word_of_int\<close>)
  have "header_host (c_resp_header_names_get host' h) (c_resp_header_values_get host' h) (sent_headers log)"
    using assms(7) by (simp add: relays_response_def)
  from reaches_read_headers [OF this, of DefaultMediumBufLen DefaultLargeBufLen "''header''"]
  have "reaches (read_headers ''header'' DefaultMediumBufLen DefaultLargeBufLen
      (c_resp_header_names_get host' h) (c_resp_header_values_get host' h)) (\<lambda>(e, header). e = None \<and> header_wf header
    \<and> (\<forall>k. Header_Values header k = map headerNewlineToSpace (Header_Values (w_header rw) k)))"
    using assms(1) unfolding hs sendable_def
    by (simp add: values_by_name DefaultMediumBufLen_def DefaultLargeBufLen_def)
  then show ?thesis
    unfolding newResponse_def
    by (auto intro!: reaches_check_yields [OF code] reaches_check_c reaches_finish)
qed

section \<open>Requests\<close>

fun sent_method :: "http_event list \<Rightarrow> string option" where
  "sent_method (EvReqMethod m # es) = Some m"
| "sent_method (_ # es) = sent_method es"
| "sent_method [] = None"

fun sent_uri :: "http_event list \<Rightarrow> string option" where
  "sent_uri (EvReqURI u # es) = Some u"
| "sent_uri (_ # es) = sent_uri es"
| "sent_uri [] = None"

fun sent_request_headers :: "http_event list \<Rightarrow> (string \<times> string list) list" where
  "sent_request_headers (EvReqHeader k b # es) = (k, block_values b) # sent_request_headers es"
| "sent_request_headers (_ # es) = sent_request_headers es"
| "sent_request_headers [] = []"

definition request_events :: "Header \<Rightarrow> http_event list" where
  "request_events h = map (\<lambda>k. EvReqHeader k (nul_values (Header_Values h k))) (Header_Keys h)"

lemma sent_request_headers_events:
  assumes "sendable h"
  shows "sent_request_headers (request_events h) = map (\<lambda>n. (n, Header_Values h n)) (Header_Keys h)"
proof -
  have "sent_request_headers (map (\<lambda>k. EvReqHeader k (nul_values (Header_Values h k))) ks)
      = map (\<lambda>n. (n, Header_Values h n)) ks" for ks
    by (induction ks) (simp_all add: block_values_nul sendable_values [OF assms])
  then show ?thesis by (simp add: request_events_def)
qed

text \<open>
  The option \<open>OverrideKey\<close> is sent as one more header, after the program's own.  It is addressed
  to the host, which may keep it or replace it: of this name nothing is said below when the option
  is set.
\<close>

definition cache_key_name :: string where
  "cache_key_name = ''fastly-xqd-cache-key''"

definition key_events :: "string \<Rightarrow> http_event list" where
  "key_events key = (if key = [] then [] else [EvReqHeader cache_key_name (nul_values [ascii_upper (hex_encode key)])])"

definition name_kept :: "CacheOptions \<Rightarrow> string \<Rightarrow> bool" where
  "name_kept opts k \<longleftrightarrow> o_OverrideKey opts = [] \<or> CanonicalHeaderKey k \<noteq> CanonicalHeaderKey cache_key_name"

text \<open>The values filed under a name.\<close>

definition filed :: "(string \<times> string list) list \<Rightarrow> string \<Rightarrow> string list" where
  "filed hs k = concat (map snd (filter (\<lambda>(n, _). CanonicalHeaderKey k = CanonicalHeaderKey n) hs))"

lemma filed_append: "filed (xs @ ys) k = filed xs k @ filed ys k"
  by (simp add: filed_def)

lemma filed_key_events: "name_kept opts k \<Longrightarrow> filed (sent_request_headers (key_events (o_OverrideKey opts))) k = []"
  by (auto simp: key_events_def name_kept_def filed_def)

lemma sent_request_headers_append [simp]:
  "sent_request_headers (xs @ ys) = sent_request_headers xs @ sent_request_headers ys"
  by (induction xs rule: sent_request_headers.induct) simp_all

text \<open>What making the host's request and setting its options leaves, when it succeeds.\<close>

lemma emits_stateful:
  assumes "emits m (\<lambda>r es. case r of
      Panic \<Rightarrow> Q Panic es
    | Done (Inl e, s) \<Rightarrow> Q (Done (Inl (f e), s)) es
    | Done (Inr x, s) \<Rightarrow> emits (k x s) (\<lambda>r' es'. Q r' (es @ es')))"
  shows "emits (stateful f m k) Q"
  unfolding stateful_def
  by (rule emits_and_then, rule emits_mono [OF assms]) (auto split: outcome.splits sum.splits intro: emits_finish)

lemma emits_each_c:
  assumes "\<And>k. emits (f k) (\<lambda>r es. \<forall>x. r = Done (Inr x) \<longrightarrow> es = [ev k])"
  shows "emits (each_c f ks) (\<lambda>r es. r = Done (Inr ()) \<longrightarrow> es = map ev ks)"
proof (induction ks)
  case Nil
  show ?case unfolding each_c.simps by (rule emits_finish) simp
next
  case (Cons k ks)
  show ?case unfolding each_c.simps
    by (rule emits_check_c, rule emits_mono [OF assms])
      (auto split: outcome.splits sum.splits intro: emits_mono [OF Cons.IH])
qed

lemma emits_set_headers:
  "emits (set_headers (recorded host) h header) (\<lambda>r es. r = Done (Inr ()) \<longrightarrow> es = request_events header)"
  unfolding set_headers_def request_events_def
  by (rule emits_each_c)
    (auto simp: HTTPRequest_SetHeaderValues_def recorded_def intro!: emits_check_c emits_logged emits_finish)

lemma quiet_setup:
  "quiet (HTTPRequest_SetAutoDecompressResponse (recorded host) h g)"
  "quiet (HTTPRequest_SetFramingHeadersMode (recorded host) h m)"
  "quiet (HTTPRequest_SetCacheOverride (recorded host) h c)"
  "quiet (NewHTTPRequest (recorded host))"
  "quiet (abiBodyFrom (recorded host) rc)"
  by (auto simp: HTTPRequest_SetAutoDecompressResponse_def HTTPRequest_SetFramingHeadersMode_def
      HTTPRequest_SetCacheOverride_def NewHTTPRequest_def abiBodyFrom_def NewHTTPBody_def recorded_def
      intro!: quiet_intros split: option.split)

lemma emits_check_quiet:
  assumes "quiet m" "\<And>e. Q (Done (Inl (f e))) []" "\<And>x. emits (k x) Q"
  shows "emits (check_c f m k) Q"
  by (rule emits_check_c, rule emits_quiet [OF assms(1)]) (use assms(2,3) in \<open>auto split: sum.splits\<close>)

lemma emits_fallible_quiet:
  assumes "quiet m" "\<And>e. Q (Done (Inl (f e), s)) []" "\<And>x. emits (k x) Q"
  shows "emits (fallible f m s k) Q"
  by (rule emits_fallible, rule emits_quiet [OF assms(1)]) (use assms(2,3) in \<open>auto split: sum.splits\<close>)

lemma emits_cache_key:
  "emits (set_cache_key (recorded host) h key) (\<lambda>r es. r = Done (Inr ()) \<longrightarrow> es = key_events key)"
  unfolding set_cache_key_def
  by (auto simp: HTTPRequest_SetHeaderValues_def recorded_def key_events_def cache_key_name_def
      intro!: emits_check_c emits_logged emits_finish)

lemma emits_options:
  "emits (setABIRequestOptions (recorded host) req) (\<lambda>r es. r = Done (Inr ()) \<longrightarrow>
     es = request_events (q_Header req) @ key_events (o_OverrideKey (q_CacheOptions req)))"
proof -
  have headers: "emits (check_c id (set_headers (recorded host) h (q_Header req)) (\<lambda>_. set_cache_key (recorded host) h key))
      (\<lambda>r es. r = Done (Inr ()) \<longrightarrow> es = request_events (q_Header req) @ key_events key)" for h key
    by (rule emits_check_c, rule emits_mono [OF emits_set_headers])
      (auto split: outcome.splits sum.splits intro: emits_mono [OF emits_cache_key])
  show ?thesis unfolding setABIRequestOptions_def
    by (intro emits_non_nil emits_check_quiet quiet_setup headers) simp_all
qed

lemma emits_construct:
  assumes "q_abi_req req = None"
  shows "emits (constructABIRequest (recorded host) us req)
    (\<lambda>r es. \<forall>req'. r = Done (Inr (), req') \<longrightarrow> es = [EvReqMethod (q_Method req), EvReqURI (us (q_URL req))]
       \<and> q_Header req' = q_Header req \<and> q_CacheOptions req' = q_CacheOptions req)"
proof -
  have m: "emits (HTTPRequest_SetMethod (recorded host) h x) (\<lambda>r es. r \<noteq> Panic \<and> es = [EvReqMethod x])"
    and u: "emits (HTTPRequest_SetURI (recorded host) h x) (\<lambda>r es. r \<noteq> Panic \<and> es = [EvReqURI x])" for h x
    by (auto simp: HTTPRequest_SetMethod_def HTTPRequest_SetURI_def recorded_def intro!: emits_logged)
  let ?Q = "\<lambda>r es. \<forall>req'. r = Done (Inr (), req') \<longrightarrow> es = [EvReqMethod (q_Method req), EvReqURI (us (q_URL req))]
       \<and> q_Header req' = q_Header req \<and> q_CacheOptions req' = q_CacheOptions req"
  have made: "emits (fallible (annotate ''construct request'') (NewHTTPRequest (recorded host)) req (\<lambda>abiReq.
             fallible (annotate ''set method'') (HTTPRequest_SetMethod (recorded host) abiReq (q_Method req)) req (\<lambda>_.
             fallible (annotate ''set URL'') (HTTPRequest_SetURI (recorded host) abiReq (us (q_URL req))) req (\<lambda>_.
             finish (Inr (), req\<lparr>q_abi_req := Some abiReq\<rparr>))))) (\<lambda>r es. r \<noteq> Panic \<and> ?Q r es)"
    by (rule emits_fallible_quiet [OF quiet_setup(4)], simp,
        rule emits_fallible, rule emits_mono [OF m], split outcome.split, simp, split sum.split, simp,
        intro allI impI, rule emits_fallible, rule emits_mono [OF u])
      (auto intro!: emits_finish split: outcome.splits sum.splits)
  have body: "emits (if q_abi_body q \<noteq> None then finish (Inr (), q)
        else fallible (annotate ''get body'') (abiBodyFrom (recorded host) (q_Body q)) q (\<lambda>b.
             finish (Inr (), q\<lparr>q_abi_body := Some b\<rparr>)))
      (\<lambda>r es. \<forall>q'. r = Done (Inr (), q') \<longrightarrow> es = [] \<and> q_Header q' = q_Header q \<and> q_CacheOptions q' = q_CacheOptions q)" for q
    by (auto intro!: emits_fallible_quiet quiet_setup emits_finish)
  show ?thesis unfolding constructABIRequest_def assms simp_thms if_False
  proof (rule emits_stateful, rule emits_mono [OF made])
    fix r es assume r: "r \<noteq> Panic \<and> ?Q r es"
    show "case r of Panic \<Rightarrow> ?Q Panic es | Done (Inl e, s) \<Rightarrow> ?Q (Done (Inl (id e), s)) es
      | Done (Inr x, s) \<Rightarrow> emits (if q_abi_body s \<noteq> None then finish (Inr (), s)
          else fallible (annotate ''get body'') (abiBodyFrom (recorded host) (q_Body s)) s (\<lambda>b.
             finish (Inr (), s\<lparr>q_abi_body := Some b\<rparr>))) (\<lambda>r' es'. ?Q r' (es @ es'))"
    proof (cases "\<exists>s. r = Done (Inr (), s)")
      case True
      then obtain s where s: "r = Done (Inr (), s)" by blast
      show ?thesis unfolding s outcome.case prod.case sum.case
        by (rule emits_mono [OF body [of s]]) (use r s in auto)
    qed (use r in \<open>auto split: outcome.splits sum.splits\<close>)
  qed
qed

lemma emits_ConstructABIRequest:
  fixes req :: "('b, 'k, 'i) Request"
  assumes "q_abi_req req = None"
  shows "emits (ConstructABIRequest (recorded host) us req)
    (\<lambda>r es. \<forall>req'. r = Done (Inr (), req') \<longrightarrow>
       es = EvReqMethod (q_Method req) # EvReqURI (us (q_URL req)) # request_events (q_Header req)
         @ key_events (o_OverrideKey (q_CacheOptions req)))"
proof -
  have options: "emits (and_then (setABIRequestOptions (recorded host) q) (\<lambda>r. finish (r, q)))
      (\<lambda>r es. \<forall>q'. r = Done (Inr (), q') \<longrightarrow> es = request_events (q_Header q) @ key_events (o_OverrideKey (q_CacheOptions q)))" for q
    by (rule emits_and_then, rule emits_mono [OF emits_options]) (auto intro!: emits_finish split: outcome.splits)
  let ?Q = "\<lambda>(r :: ((goerr + unit) \<times> ('b, 'k, 'i) Request) outcome) es. \<forall>req'. r = Done (Inr (), req') \<longrightarrow>
       es = EvReqMethod (q_Method req) # EvReqURI (us (q_URL req)) # request_events (q_Header req)
         @ key_events (o_OverrideKey (q_CacheOptions req))"
  show ?thesis unfolding ConstructABIRequest_def
  proof (rule emits_stateful, rule emits_mono [OF emits_construct [OF assms]])
    fix r :: "((goerr + unit) \<times> ('b, 'k, 'i) Request) outcome" and es
    assume r: "\<forall>req'. r = Done (Inr (), req') \<longrightarrow> es = [EvReqMethod (q_Method req), EvReqURI (us (q_URL req))]
       \<and> q_Header req' = q_Header req \<and> q_CacheOptions req' = q_CacheOptions req"
    show "case r of Panic \<Rightarrow> ?Q Panic es | Done (Inl e, s) \<Rightarrow> ?Q (Done (Inl (id e), s)) es
      | Done (Inr x, s) \<Rightarrow> emits (and_then (setABIRequestOptions (recorded host) s) (\<lambda>r. finish (r, s)))
          (\<lambda>r' es'. ?Q r' (es @ es'))"
    proof (cases "\<exists>s. r = Done (Inr (), s)")
      case True
      then obtain s where s: "r = Done (Inr (), s)" by blast
      from options show ?thesis unfolding s outcome.case prod.case sum.case
        by (rule emits_mono) (use r s in auto)
    qed (auto split: outcome.splits sum.splits)
  qed
qed

text \<open>
  A host that passes on the request described by \<open>es\<close>, as a request of a client with the handle
  \<open>h\<close>, with the values of the names \<open>kept\<close> as they were sent.
\<close>

definition relays_request ::
  "'v serving \<Rightarrow> handle \<Rightarrow> http_event list \<Rightarrow> (string \<Rightarrow> bool) \<Rightarrow> HTTPVersion \<Rightarrow> string \<Rightarrow> string \<Rightarrow> bool" where
  "relays_request serv h es kept v remote server \<longleftrightarrow>
     (\<forall>m u. sent_method es = Some m \<and> sent_uri es = Some u \<longrightarrow>
        (\<exists>hs. client_host serv h m u v hs remote server
          \<and> (\<forall>k. kept k \<longrightarrow> filed hs k = filed (sent_request_headers es) k)))"

text \<open>
  C11: a request arrives as it was built.  When one program makes the host's request of a
  \<open>Request\<close> and the host passes on what it got, the request that the serving program hands to its
  handler has the same method and, for every name, the same header values in the same order; only
  where an \<open>OverrideKey\<close> is set, nothing is said of the one name \<open>fastly-xqd-cache-key\<close>, which is
  addressed to the host.  Its URL and its host are what the serving program parses from the text of
  the original URL (the original, where parsing undoes printing), over \<open>https\<close> as over \<open>http\<close>; the
  TLS data are the host's exactly with \<open>https\<close>.
\<close>

theorem request_arrives:
  fixes req :: "('b, 'k, 'i) Request"
  assumes "sendable (q_Header req)" "q_abi_req req = None"
    and "ConstructABIRequest (recorded host) url_string req (w, []) = Some (Done (Inr (), req'), (w', es))"
    and "relays_request serv h es (name_kept (q_CacheOptions req)) v remote server"
    and "v_parse serv (url_string (q_URL req)) = Inr u" "splat v = Inr version"
    and "u_Scheme u = ''https'' \<Longrightarrow> tls_host (v_down serv) h info"
  shows "reaches (newClientRequest serv h body) (\<lambda>got :: ('b2, 'k2, 'i2) Request.
     q_Method got = q_Method req \<and> q_URL got = u \<and> q_Host got = u_Host u \<and> header_wf (q_Header got)
     \<and> q_TLSInfo got = (if u_Scheme u = ''https'' then info else zero_tls_info)
     \<and> (\<forall>k. name_kept (q_CacheOptions req) k \<longrightarrow> Header_Values (q_Header got) k = Header_Values (q_Header req) k))"
proof -
  obtain es' where es: "es = [] @ es'" "es' = EvReqMethod (q_Method req) # EvReqURI (url_string (q_URL req))
      # request_events (q_Header req) @ key_events (o_OverrideKey (q_CacheOptions req))"
    using emitsD [OF emits_ConstructABIRequest [OF assms(2)] assms(3)] by auto
  have ev: "es = EvReqMethod (q_Method req) # EvReqURI (url_string (q_URL req))
      # request_events (q_Header req) @ key_events (o_OverrideKey (q_CacheOptions req))"
    using es by simp
  have wf: "header_wf (q_Header req)" using assms(1) by (simp add: sendable_def)
  have own: "filed (sent_request_headers es) k = Header_Values (q_Header req) k"
    if "name_kept (q_CacheOptions req) k" for k
    using values_by_name [OF wf, of "\<lambda>vs. vs" k] filed_key_events [OF that]
    by (simp add: ev filed_append sent_request_headers_events [OF assms(1)]) (simp add: filed_def)
  obtain hs where host: "client_host serv h (q_Method req) (url_string (q_URL req)) v hs remote server"
    and hs: "\<And>k. name_kept (q_CacheOptions req) k \<Longrightarrow> filed hs k = filed (sent_request_headers es) k"
    using assms(4) unfolding relays_request_def by (auto simp: ev)
  show ?thesis
    by (rule reaches_mono [OF client_request_reads [OF host assms(5,6,7)]])
      (use hs own in \<open>auto simp: filed_def\<close>)
qed

section \<open>A host that relays\<close>

definition age_relay :: "unit http_calls" where
  "age_relay = accepting_host\<lparr>c_resp_status_get := (\<lambda>h. accept 404),
     c_resp_header_names_get := (\<lambda>h. greedy_host [''Age'']),
     c_resp_header_values_get := (\<lambda>h k. greedy_host [''1 x'', ''7''])\<rparr>"

theorem response_arrives_witness:
  "\<exists>resp w'. newResponse age_relay () ''origin'' 9 (plain_body 3) () = Some (Done (Inr (resp :: (unit, unit) Response)), w')
     \<and> rs_StatusCode resp = 404 \<and> Header_Values (rs_Header resp) ''age'' = [''1 x'', ''7'']"
proof -
  let ?rw = "rw_start\<lparr>w_header := [(''Age'', [[CHR ''1'', CHR 10, CHR ''x''], ''7''])]\<rparr>"
  let ?log = "[EvFraming 0, EvStatus 404, EvHeader ''Age'' [CHR ''1'', CHR '' '', CHR ''x'', CHR 0x00, CHR ''7'', CHR 0x00], EvSend 1]"
  let ?rw' = "?rw\<lparr>w_abiBody := \<lparr>b_h = 2, b_closable = True\<rparr>, w_wroteHeaders := True\<rparr>"
  have "sendable (w_header ?rw)" by code_simp
  moreover have "\<not> w_wroteHeaders ?rw" by (simp add: rw_start_def)
  moreover have "run_ops (recorded accepting_host) [OpWriteHeader 404] ?rw ((), []) = Some (Done ?rw', ((), ?log))"
    by code_simp
  moreover have "sent_headers ?log = [(''Age'', [''1 x'', ''7''])]" "sent_status ?log = Some 404" by code_simp+
  then have "relays_response age_relay 9 ?log"
    by (auto simp: relays_response_def age_relay_def answers_def accept_def header_host_def intro!: multi_value_host_greedy)
  moreover have "(404 :: int) \<noteq> 103" "(0 :: int) \<le> 404" "(404 :: int) < 2 ^ 32" by simp_all
  ultimately have "reaches (newResponse age_relay () ''origin'' 9 (plain_body 3)) (\<lambda>resp :: (unit, unit) Response. rs_StatusCode resp = 404
    \<and> header_wf (rs_Header resp)
    \<and> (\<forall>k. Header_Values (rs_Header resp) k = map headerNewlineToSpace (Header_Values (w_header ?rw) k)))"
    using response_arrives [of ?rw 404 accepting_host "[]" "()" ?rw' "()" ?log age_relay 9 "()" "''origin''" "plain_body 3"]
    by blast
  moreover have "map headerNewlineToSpace (Header_Values (w_header ?rw) ''age'') = [''1 x'', ''7'']" by code_simp
  ultimately show ?thesis unfolding reaches_def by metis
qed

text \<open>A request over \<open>https\<close> with a cache key of its own, which the host keeps to itself.\<close>

definition secure_url :: URL where
  "secure_url = plain_url\<lparr>u_Scheme := ''https''\<rparr>"

definition host_relay :: "unit serving" where
  "host_relay =
     \<lparr>v_http = accepting_host\<lparr>c_req_method_get := (\<lambda>h. one_value_host ''GET''), c_req_uri_get := (\<lambda>h. one_value_host ''/'')\<rparr>,
      v_req = accepting_requests\<lparr>rq_header_names_get := (\<lambda>h. greedy_host [''Accept'']),
        rq_header_values_get := (\<lambda>h k. greedy_host [''a'', ''b''])\<rparr>,
      v_down = accepting_downstream\<lparr>ds_client_ip_addr := (\<lambda>h. one_value_host local_address 16),
        ds_tls_protocol := (\<lambda>h. one_value_host ''TLSv1.3'')\<rparr>,
      v_parse = (\<lambda>s. Inr secure_url), v_getenv = (\<lambda>s. []), v_since = (\<lambda>w. (0, w)), v_wait = finish ()\<rparr>"

theorem request_arrives_witness:
  "\<exists>got w'. newClientRequest host_relay 5 (plain_body 6) () = Some (Done (Inr (got :: (unit, unit, unit) Request)), w')
     \<and> q_Method got = ''GET'' \<and> q_URL got = secure_url \<and> tls_Protocol (q_TLSInfo got) = ''TLSv1.3''
     \<and> Header_Values (q_Header got) ''accept'' = [''a'', ''b'']"
proof -
  let ?opts = "zero_cache_options\<lparr>o_OverrideKey := replicate 32 (CHR 0x4B)\<rparr>"
  let ?req = "(request_with ''GET'' secure_url [(''Accept'', [''a'', ''b''])] None ''example.com'')\<lparr>q_CacheOptions := ?opts\<rparr>
    :: (unit, unit, unit) Request"
  let ?es = "[EvReqMethod ''GET'', EvReqURI ''/'', EvReqHeader ''Accept'' [CHR ''a'', CHR 0x00, CHR ''b'', CHR 0x00],
    EvReqHeader cache_key_name (concat (replicate 32 ''4B'') @ [CHR 0x00])]"
  let ?info = "zero_tls_info\<lparr>tls_Protocol := ''TLSv1.3''\<rparr>"
  have "sendable (q_Header ?req)" by code_simp
  moreover have "q_abi_req ?req = None"
    by (simp add: request_with_def)
  moreover have "case ConstructABIRequest (recorded accepting_host) (\<lambda>u. ''/'') ?req ((), []) of
      Some (Done (Inr _, _), (_, l)) \<Rightarrow> l = ?es | _ \<Rightarrow> False"
    by code_simp
  then obtain req' where "ConstructABIRequest (recorded accepting_host) (\<lambda>u. ''/'') ?req ((), []) = Some (Done (Inr (), req'), ((), ?es))"
    by (auto split: option.splits prod.splits outcome.splits sum.splits)
  moreover have "relays_request host_relay 5 ?es (name_kept (q_CacheOptions ?req)) HTTPVersionHTTP11 local_address []"
  proof -
    have "client_host host_relay 5 ''GET'' ''/'' HTTPVersionHTTP11 [(''Accept'', [''a'', ''b''])] local_address []"
      by (auto simp: client_host_def host_relay_def accepting_requests_def accepting_downstream_def
        answers_def accept_def header_host_def ipBufLen_def local_address_def
        intro!: value_host_one_value_host multi_value_host_greedy sized_one_value)
    moreover have "sent_request_headers ?es = [(''Accept'', [''a'', ''b'']), (cache_key_name, [concat (replicate 32 ''4B'')])]"
      by code_simp
    moreover have "o_OverrideKey (q_CacheOptions ?req) \<noteq> []" by simp
    ultimately show ?thesis
      unfolding relays_request_def by (auto simp: name_kept_def filed_def)
  qed
  moreover have "v_parse host_relay ''/'' = Inr secure_url" "splat HTTPVersionHTTP11 = Inr (''HTTP/1.1'', 1, 1)"
    by (simp_all add: host_relay_def splat_def)
  moreover have "tls_host (v_down host_relay) 5 ?info"
    by (auto simp: tls_host_def host_relay_def accepting_downstream_def zero_tls_info_def DefaultSmallBufLen_def
        intro!: value_host_one_value_host sized_one_value)
  ultimately have "reaches (newClientRequest host_relay 5 (plain_body 6)) (\<lambda>got :: (unit, unit, unit) Request.
     q_Method got = q_Method ?req \<and> q_URL got = secure_url \<and> q_Host got = u_Host secure_url \<and> header_wf (q_Header got)
     \<and> q_TLSInfo got = (if u_Scheme secure_url = ''https'' then ?info else zero_tls_info)
     \<and> (\<forall>k. name_kept (q_CacheOptions ?req) k \<longrightarrow> Header_Values (q_Header got) k = Header_Values (q_Header ?req) k))"
    by (rule request_arrives)
  moreover have "Header_Values (q_Header ?req) ''accept'' = [''a'', ''b'']" "q_Method ?req = ''GET''"
    "name_kept (q_CacheOptions ?req) ''accept''" "u_Scheme secure_url = ''https''" by code_simp+
  ultimately show ?thesis unfolding reaches_def by fastforce
qed

end
