(* ===== verification/KVStore.thy ===== *)
theory KVStore
  imports OptionMasks
begin

text \<open>
  The KV store: the option blocks of \<open>types.go\<close>, the hostcalls of \<open>kvstore_guest.go\<close> and the
  package \<open>kvstore\<close>.  Every operation is two hostcalls, one that starts it and one that waits
  for its result.  \<open>json.Unmarshal\<close> into a page and \<open>io.Copy\<close> into a body are parameters.
\<close>

section \<open>Option blocks\<close>

definition kvInsertConfigFlagBackgroundFetch :: u32 where [simp]: "kvInsertConfigFlagBackgroundFetch = 2"
definition kvInsertConfigFlagMetadata :: u32 where [simp]: "kvInsertConfigFlagMetadata = 8"
definition kvInsertConfigFlagTTLSec :: u32 where [simp]: "kvInsertConfigFlagTTLSec = 16"
definition kvInsertConfigFlagIfGenerationMatch :: u32 where [simp]: "kvInsertConfigFlagIfGenerationMatch = 32"

definition KVInsertModeOverwrite :: u32 where [simp]: "KVInsertModeOverwrite = 0"
definition KVInsertModeAdd :: u32 where [simp]: "KVInsertModeAdd = 1"
definition KVInsertModeAppend :: u32 where [simp]: "KVInsertModeAppend = 2"
definition KVInsertModePrepend :: u32 where [simp]: "KVInsertModePrepend = 3"

record KVInsertConfig =
  ki_mask :: u32
  ki_mode :: u32
  ki_metadata :: sent_string
  ki_ttlSec :: u32
  ki_ifGenerationMatch :: u64

definition zero_insert_config :: KVInsertConfig where
  "zero_insert_config = \<lparr>ki_mask = 0, ki_mode = 0, ki_metadata = ([], 0), ki_ttlSec = 0, ki_ifGenerationMatch = 0\<rparr>"

definition ki_Mode :: "u32 \<Rightarrow> KVInsertConfig \<Rightarrow> KVInsertConfig" where
  "ki_Mode mode c = c\<lparr>ki_mode := mode\<rparr>"

definition ki_BackgroundFetch :: "KVInsertConfig \<Rightarrow> KVInsertConfig" where
  "ki_BackgroundFetch c = c\<lparr>ki_mask := ki_mask c OR kvInsertConfigFlagBackgroundFetch\<rparr>"

definition ki_Metadata :: "string \<Rightarrow> KVInsertConfig \<Rightarrow> KVInsertConfig" where
  "ki_Metadata meta c = c\<lparr>ki_mask := ki_mask c OR kvInsertConfigFlagMetadata, ki_metadata := send_string meta\<rparr>"

definition ki_TTLSec :: "u32 \<Rightarrow> KVInsertConfig \<Rightarrow> KVInsertConfig" where
  "ki_TTLSec seconds c = c\<lparr>ki_mask := ki_mask c OR kvInsertConfigFlagTTLSec, ki_ttlSec := seconds\<rparr>"

definition ki_IfGenerationMatch :: "u64 \<Rightarrow> KVInsertConfig \<Rightarrow> KVInsertConfig" where
  "ki_IfGenerationMatch generation c =
     c\<lparr>ki_mask := ki_mask c OR kvInsertConfigFlagIfGenerationMatch, ki_ifGenerationMatch := generation\<rparr>"

interpretation ki_meta: masked_option ki_mask kvInsertConfigFlagMetadata ki_Metadata "\<lambda>c. received (ki_metadata c)" sized
  by unfold_locales (simp_all add: ki_Metadata_def)

interpretation ki_ttl: masked_option ki_mask kvInsertConfigFlagTTLSec ki_TTLSec ki_ttlSec "\<lambda>_. True"
  by unfold_locales (simp_all add: ki_TTLSec_def)

interpretation ki_gen: masked_option ki_mask kvInsertConfigFlagIfGenerationMatch ki_IfGenerationMatch ki_ifGenerationMatch "\<lambda>_. True"
  by unfold_locales (simp_all add: ki_IfGenerationMatch_def)

definition kvListConfigFlagCursor :: u32 where [simp]: "kvListConfigFlagCursor = 2"
definition kvListConfigFlagLimit :: u32 where [simp]: "kvListConfigFlagLimit = 4"
definition kvListConfigFlagPrefix :: u32 where [simp]: "kvListConfigFlagPrefix = 8"

definition KVListModeStrong :: u32 where [simp]: "KVListModeStrong = 0"
definition KVListModeEventual :: u32 where [simp]: "KVListModeEventual = 1"

record KVListConfig =
  kl_mask :: u32
  kl_mode :: u32
  kl_cursor :: sent_string
  kl_limit :: u32
  kl_prefix :: sent_string

definition zero_list_config :: KVListConfig where
  "zero_list_config = \<lparr>kl_mask = 0, kl_mode = 0, kl_cursor = ([], 0), kl_limit = 0, kl_prefix = ([], 0)\<rparr>"

definition kl_Mode :: "u32 \<Rightarrow> KVListConfig \<Rightarrow> KVListConfig" where
  "kl_Mode mode c = c\<lparr>kl_mode := mode\<rparr>"

definition kl_Cursor :: "string \<Rightarrow> KVListConfig \<Rightarrow> KVListConfig" where
  "kl_Cursor cursor c = c\<lparr>kl_mask := kl_mask c OR kvListConfigFlagCursor, kl_cursor := send_string cursor\<rparr>"

definition kl_Limit :: "u32 \<Rightarrow> KVListConfig \<Rightarrow> KVListConfig" where
  "kl_Limit limit c = c\<lparr>kl_mask := kl_mask c OR kvListConfigFlagLimit, kl_limit := limit\<rparr>"

definition kl_Prefix :: "string \<Rightarrow> KVListConfig \<Rightarrow> KVListConfig" where
  "kl_Prefix prefix c = c\<lparr>kl_mask := kl_mask c OR kvListConfigFlagPrefix, kl_prefix := send_string prefix\<rparr>"

interpretation kl_cur: masked_option kl_mask kvListConfigFlagCursor kl_Cursor "\<lambda>c. received (kl_cursor c)" sized
  by unfold_locales (simp_all add: kl_Cursor_def)

interpretation kl_lim: masked_option kl_mask kvListConfigFlagLimit kl_Limit kl_limit "\<lambda>_. True"
  by unfold_locales (simp_all add: kl_Limit_def)

interpretation kl_pre: masked_option kl_mask kvListConfigFlagPrefix kl_Prefix "\<lambda>c. received (kl_prefix c)" sized
  by unfold_locales (simp_all add: kl_Prefix_def)

section \<open>Hostcalls\<close>

definition kvstoreMetadataMaxBufLen :: nat where "kvstoreMetadataMaxBufLen = 2000"

record kv_lookup_reply = buf_reply +
  kr_body :: handle
  kr_generation :: u64
  kr_kvErr :: u32

record 'w kv_calls =
  c_kv_open :: "string \<Rightarrow> ('w, FastlyStatus \<times> handle) prog"
  c_kv_lookup :: "handle \<Rightarrow> string \<Rightarrow> ('w, FastlyStatus \<times> handle) prog"
  c_kv_lookup_wait :: "handle \<Rightarrow> u32 \<Rightarrow> ('w, kv_lookup_reply) prog"
  c_kv_insert :: "handle \<Rightarrow> string \<Rightarrow> handle \<Rightarrow> KVInsertConfig \<Rightarrow> ('w, FastlyStatus \<times> handle) prog"
  c_kv_insert_wait :: "handle \<Rightarrow> ('w, FastlyStatus \<times> u32) prog"
  c_kv_delete :: "handle \<Rightarrow> string \<Rightarrow> ('w, FastlyStatus \<times> handle) prog"
  c_kv_delete_wait :: "handle \<Rightarrow> ('w, FastlyStatus \<times> u32) prog"
  c_kv_list :: "handle \<Rightarrow> KVListConfig \<Rightarrow> ('w, FastlyStatus \<times> handle) prog"
  c_kv_list_wait :: "handle \<Rightarrow> ('w, FastlyStatus \<times> handle \<times> u32) prog"

record KVLookupResult =
  kv_Body :: HTTPBody
  kv_Meta :: string
  kv_Generation :: u64

definition OpenKVStore :: "'w kv_calls \<Rightarrow> string \<Rightarrow> ('w, goerr + handle) comp" where
  "OpenKVStore kv name = hostcall (c_kv_open kv name)"

text \<open>A pending handle that the host left invalid counts as a generic error.\<close>

definition started :: "('w, FastlyStatus \<times> handle) prog \<Rightarrow> ('w, goerr + handle) comp" where
  "started p =
     check_c id (hostcall p) (\<lambda>h.
     if h = invalidHandle then finish (Inl (FastlyError FastlyStatusError None)) else finish (Inr h))"

text \<open>The error code that a wait returns beside its status.\<close>

definition kv_checked :: "u32 \<Rightarrow> 'a \<Rightarrow> ('w, goerr + 'a) comp" where
  "kv_checked kvErr x = (if kvErr \<noteq> KVErrorOK then finish (Inl (KVErr kvErr)) else finish (Inr x))"

definition KVStore_Lookup :: "'w kv_calls \<Rightarrow> handle \<Rightarrow> string \<Rightarrow> ('w, goerr + handle) comp" where
  "KVStore_Lookup kv h key = started (c_kv_lookup kv h key)"

definition KVStore_LookupWait :: "'w kv_calls \<Rightarrow> handle \<Rightarrow> ('w, goerr + KVLookupResult) comp" where
  "KVStore_LookupWait kv lookupH = (\<lambda>w.
     let meta = NewWriteBuffer kvstoreMetadataMaxBufLen in
     case c_kv_lookup_wait kv lookupH (wb_Cap meta) w of (r, w') \<Rightarrow>
       let meta = host_fill (br_written r) (br_nwritten r) meta in
       (case toError (br_status r) of
          Some e \<Rightarrow> Some (Done (Inl e), w')
        | None \<Rightarrow>
            if kr_kvErr r \<noteq> KVErrorOK then Some (Done (Inl (KVErr (kr_kvErr r))), w')
            else (case wb_AsBytes meta of
                    Panic \<Rightarrow> Some (Panic, w')
                  | Done bytes \<Rightarrow>
                      Some (Done (Inr \<lparr>kv_Body = \<lparr>b_h = kr_body r, b_closable = False\<rparr>, kv_Meta = bytes,
                                       kv_Generation = kr_generation r\<rparr>), w'))))"

definition KVStore_Insert ::
  "'w kv_calls \<Rightarrow> handle \<Rightarrow> string \<Rightarrow> HTTPBody \<Rightarrow> KVInsertConfig \<Rightarrow> ('w, goerr + handle) comp" where
  "KVStore_Insert kv h key body config = started (c_kv_insert kv h key (b_h body) config)"

definition KVStore_InsertWait :: "'w kv_calls \<Rightarrow> handle \<Rightarrow> ('w, goerr + unit) comp" where
  "KVStore_InsertWait kv insertH = check_c id (hostcall (c_kv_insert_wait kv insertH)) (\<lambda>e. kv_checked e ())"

definition KVStore_Delete :: "'w kv_calls \<Rightarrow> handle \<Rightarrow> string \<Rightarrow> ('w, goerr + handle) comp" where
  "KVStore_Delete kv h key = started (c_kv_delete kv h key)"

definition KVStore_DeleteWait :: "'w kv_calls \<Rightarrow> handle \<Rightarrow> ('w, goerr + unit) comp" where
  "KVStore_DeleteWait kv deleteH = check_c id (hostcall (c_kv_delete_wait kv deleteH)) (\<lambda>e. kv_checked e ())"

definition KVStore_List :: "'w kv_calls \<Rightarrow> handle \<Rightarrow> KVListConfig \<Rightarrow> ('w, goerr + handle) comp" where
  "KVStore_List kv h config = started (c_kv_list kv h config)"

definition KVStore_ListWait :: "'w kv_calls \<Rightarrow> handle \<Rightarrow> ('w, goerr + HTTPBody) comp" where
  "KVStore_ListWait kv listH =
     check_c id (hostcall (c_kv_list_wait kv listH)) (\<lambda>(b, e). kv_checked e \<lparr>b_h = b, b_closable = False\<rparr>)"

section \<open>Errors\<close>

definition kv_sentinel :: "string \<Rightarrow> goerr" where
  "kv_sentinel t = Sentinel ''kvstore'' (''kvstore: '' @ t)"

definition ErrStoreNotFound :: goerr where "ErrStoreNotFound = kv_sentinel ''store not found''"
definition ErrKeyNotFound :: goerr where "ErrKeyNotFound = kv_sentinel ''key not found''"
definition ErrInvalidKey :: goerr where "ErrInvalidKey = kv_sentinel ''invalid key''"
definition ErrTooManyRequests :: goerr where "ErrTooManyRequests = kv_sentinel ''too many requests''"
definition ErrBadRequest :: goerr where "ErrBadRequest = kv_sentinel ''bad request''"
definition ErrPreconditionFailed :: goerr where "ErrPreconditionFailed = kv_sentinel ''precondition failed''"
definition ErrPayloadTooLarge :: goerr where "ErrPayloadTooLarge = kv_sentinel ''payload too large''"
definition kv_ErrUnexpected :: goerr where "kv_ErrUnexpected = kv_sentinel ''unexpected error''"

text \<open>The array \<open>kvErrToErr\<close>, indexed by the error code.\<close>

definition kvErrToErr :: "goerr list" where
  "kvErrToErr = [kv_ErrUnexpected, kv_ErrUnexpected, ErrBadRequest, ErrKeyNotFound, ErrPreconditionFailed,
     ErrPayloadTooLarge, kv_ErrUnexpected, ErrTooManyRequests]"

definition mapFastlyErr :: "goerr \<Rightarrow> goerr" where
  "mapFastlyErr err =
     (case err of
        KVErr k \<Rightarrow>
          if k \<le> KVErrorTooManyRequests then kvErrToErr ! unat k
          else unexpected_with kv_ErrUnexpected (KVError_Error k)
      | _ \<Rightarrow>
          (case IsFastlyError (Some err) of (status, ok) \<Rightarrow>
             if ok \<and> status = FastlyStatusBadf then ErrStoreNotFound
             else if ok \<and> status = FastlyStatusInval then ErrInvalidKey
             else if ok then unexpected_with kv_ErrUnexpected (FastlyStatus_String status)
             else err))"

section \<open>Stores\<close>

definition kv_open_error :: "goerr \<Rightarrow> goerr" where
  "kv_open_error err =
     (case IsFastlyError (Some err) of (status, ok) \<Rightarrow>
        if ok \<and> status = FastlyStatusInval then ErrStoreNotFound
        else if ok then unexpected_with kv_ErrUnexpected (FastlyStatus_String status)
        else err)"

definition kv_Open :: "'w kv_calls \<Rightarrow> string \<Rightarrow> ('w, goerr + handle) comp" where
  "kv_Open kv name = check_c kv_open_error (OpenKVStore kv name) (\<lambda>h. finish (Inr h))"

text \<open>An entry: the body it reads from, and the string once it has been read.\<close>

record Entry =
  en_Reader :: HTTPBody
  en_s :: "string option"
  en_meta :: string
  en_generation :: u64

definition Store_Lookup :: "'w kv_calls \<Rightarrow> handle \<Rightarrow> string \<Rightarrow> ('w, goerr + Entry) comp" where
  "Store_Lookup kv s key =
     check_c mapFastlyErr (KVStore_Lookup kv s key) (\<lambda>h.
     check_c mapFastlyErr (KVStore_LookupWait kv h) (\<lambda>result.
     finish (Inr \<lparr>en_Reader = kv_Body result, en_s = None, en_meta = kv_Meta result,
                  en_generation = kv_Generation result\<rparr>)))"

text \<open>The configuration of an insert; nil metadata is \<open>None\<close>.\<close>

record InsertConfig =
  ic_Mode :: u32
  ic_BackgroundFetch :: bool
  ic_Metadata :: "string option"
  ic_TTLSec :: u32
  ic_IfGenerationMatch :: u64

definition insert_abi_config :: "InsertConfig option \<Rightarrow> KVInsertConfig" where
  "insert_abi_config config =
     (case config of
        None \<Rightarrow> zero_insert_config
      | Some c \<Rightarrow>
          let a = ki_Mode (ic_Mode c) zero_insert_config;
              a = (if ic_BackgroundFetch c then ki_BackgroundFetch a else a);
              a = (case ic_Metadata c of Some m \<Rightarrow> ki_Metadata m a | None \<Rightarrow> a);
              a = (if ic_TTLSec c \<noteq> 0 then ki_TTLSec (ic_TTLSec c) a else a);
              a = (if ic_IfGenerationMatch c \<noteq> 0 then ki_IfGenerationMatch (ic_IfGenerationMatch c) a else a)
          in a)"

datatype 'r kv_value = BodyValue HTTPBody | ReaderValue 'r

definition value_body ::
  "'w http_calls \<Rightarrow> (HTTPBody \<Rightarrow> 'r \<Rightarrow> ('w, nat \<times> goerr option) comp) \<Rightarrow> 'r kv_value \<Rightarrow> ('w, goerr + HTTPBody) comp" where
  "value_body host io_copy v =
     (case v of
        BodyValue b \<Rightarrow> finish (Inr b)
      | ReaderValue r \<Rightarrow>
          check_c id (NewHTTPBody host) (\<lambda>body.
          and_then (io_copy body r) (\<lambda>(n, err).
          case err of Some e \<Rightarrow> finish (Inl e) | None \<Rightarrow> finish (Inr body))))"

definition Store_InsertWithConfig ::
  "'w http_calls \<Rightarrow> 'w kv_calls \<Rightarrow> (HTTPBody \<Rightarrow> 'r \<Rightarrow> ('w, nat \<times> goerr option) comp) \<Rightarrow> handle \<Rightarrow> string \<Rightarrow>
   'r kv_value \<Rightarrow> InsertConfig option \<Rightarrow> ('w, goerr + unit) comp" where
  "Store_InsertWithConfig host kv io_copy s key v config =
     check_c id (value_body host io_copy v) (\<lambda>body.
     check_c mapFastlyErr (KVStore_Insert kv s key body (insert_abi_config config)) (\<lambda>h.
     check_c mapFastlyErr (KVStore_InsertWait kv h) (\<lambda>_. finish (Inr ()))))"

definition Store_Insert ::
  "'w http_calls \<Rightarrow> 'w kv_calls \<Rightarrow> (HTTPBody \<Rightarrow> 'r \<Rightarrow> ('w, nat \<times> goerr option) comp) \<Rightarrow> handle \<Rightarrow> string \<Rightarrow>
   'r kv_value \<Rightarrow> ('w, goerr + unit) comp" where
  "Store_Insert host kv io_copy s key v = Store_InsertWithConfig host kv io_copy s key v None"

definition Store_Delete :: "'w kv_calls \<Rightarrow> handle \<Rightarrow> string \<Rightarrow> ('w, goerr + unit) comp" where
  "Store_Delete kv s key =
     check_c mapFastlyErr (KVStore_Delete kv s key) (\<lambda>h.
     check_c mapFastlyErr (KVStore_DeleteWait kv h) (\<lambda>_. finish (Inr ())))"

end
