(* ===== verification/KVOperations.thy ===== *)
theory KVOperations
  imports KVStore BodyReading
begin

text \<open>
  Listing a KV store page by page, reading an entry as a string, and what the operations of the
  store promise.  A page is decoded by \<open>json.Unmarshal\<close>, the parameter \<open>unmarshal\<close>.
\<close>

section \<open>Pages\<close>

record ListMetadata =
  lm_Limit :: u32
  lm_NextCursor :: string
  lm_Prefix :: string
  lm_Mode :: string

record ListPage =
  lp_Data :: "string list"
  lp_Meta :: ListMetadata

definition consistencyString :: "u32 \<Rightarrow> string" where
  "consistencyString m = (if unat m < 2 then [''strong'', ''eventual''] ! unat m else ''unknown'')"

definition consistencyMode :: "string \<Rightarrow> u32" where
  "consistencyMode m =
     (if m = ''strong'' then KVListModeStrong
      else if m = ''eventual'' then KVListModeEventual else KVListModeStrong)"

record ListConfig =
  lc_Mode :: u32
  lc_Limit :: u32
  lc_Prefix :: string
  lc_Cursor :: string

record ListIter =
  li_kvstore :: handle
  li_page :: ListPage
  li_err :: "goerr option"

definition Store_List :: "handle \<Rightarrow> ListConfig option \<Rightarrow> ListIter" where
  "Store_List s config =
     (let c = (case config of Some c \<Rightarrow> c
               | None \<Rightarrow> \<lparr>lc_Mode = 0, lc_Limit = 0, lc_Prefix = [], lc_Cursor = []\<rparr>)
      in \<lparr>li_kvstore = s,
          li_page = \<lparr>lp_Data = [],
            lp_Meta = \<lparr>lm_Limit = lc_Limit c, lm_NextCursor = lc_Cursor c, lm_Prefix = lc_Prefix c,
                       lm_Mode = consistencyString (lc_Mode c)\<rparr>\<rparr>,
          li_err = None\<rparr>)"

definition list_abi_config :: "ListMetadata \<Rightarrow> KVListConfig" where
  "list_abi_config m =
     (let a = zero_list_config;
          a = (if lm_Mode m \<noteq> [] then kl_Mode (consistencyMode (lm_Mode m)) a else a);
          a = (if lm_Limit m \<noteq> 0 then kl_Limit (lm_Limit m) a else a);
          a = (if lm_Prefix m \<noteq> [] then kl_Prefix (lm_Prefix m) a else a);
          a = (if lm_NextCursor m \<noteq> [] then kl_Cursor (lm_NextCursor m) a else a)
      in a)"

text \<open>The request for the page after the one with metadata \<open>m\<close>.\<close>

definition fetch_page ::
  "'w http_calls \<Rightarrow> 'w kv_calls \<Rightarrow> (nat \<Rightarrow> nat) \<Rightarrow> (string \<Rightarrow> goerr + ListPage) \<Rightarrow> handle \<Rightarrow> ListMetadata \<Rightarrow>
   ('w, goerr + ListPage) comp" where
  "fetch_page host kv space unmarshal s m =
     check_c mapFastlyErr (KVStore_List kv s (list_abi_config m)) (\<lambda>h.
     check_c mapFastlyErr (KVStore_ListWait kv h) (\<lambda>body.
     check_c id (ReadAll host space body) (\<lambda>buf.
     finish (unmarshal buf))))"

definition ListIter_Next ::
  "'w http_calls \<Rightarrow> 'w kv_calls \<Rightarrow> (nat \<Rightarrow> nat) \<Rightarrow> (string \<Rightarrow> goerr + ListPage) \<Rightarrow> ListIter \<Rightarrow>
   ('w, bool \<times> ListIter) comp" where
  "ListIter_Next host kv space unmarshal it =
     (if li_err it \<noteq> None then finish (False, it)
      else if lm_NextCursor (lp_Meta (li_page it)) = [] \<and> lp_Data (li_page it) \<noteq> [] then finish (False, it)
      else try_c (fetch_page host kv space unmarshal (li_kvstore it) (lp_Meta (li_page it)))
        (\<lambda>e. finish (False, it\<lparr>li_err := Some e\<rparr>))
        (\<lambda>p. if lp_Data p = [] then finish (False, it) else finish (True, it\<lparr>li_page := p\<rparr>)))"

definition ListIter_Page :: "ListIter \<Rightarrow> ListPage" where "ListIter_Page it = li_page it"
definition ListIter_Err :: "ListIter \<Rightarrow> goerr option" where "ListIter_Err it = li_err it"

section \<open>Entries\<close>

definition Entry_String :: "'w http_calls \<Rightarrow> (nat \<Rightarrow> nat) \<Rightarrow> Entry \<Rightarrow> ('w, string \<times> Entry) comp" where
  "Entry_String host space e =
     (case en_s e of
        Some s \<Rightarrow> finish (s, e)
      | None \<Rightarrow>
          try_c (ReadAll host space (en_Reader e)) (\<lambda>err. finish ([], e))
            (\<lambda>b. finish (b, e\<lparr>en_s := Some b\<rparr>)))"

section \<open>What the host is told\<close>

text \<open>The reading of an insert configuration by the documentation of its mask.\<close>

definition insert_view :: "KVInsertConfig \<Rightarrow> u32 \<times> bool \<times> string option \<times> u32 option \<times> u64 option" where
  "insert_view c = (ki_mode c, bit (ki_mask c) 1,
     (if bit (ki_mask c) 3 then Some (received (ki_metadata c)) else None),
     (if bit (ki_mask c) 4 then Some (ki_ttlSec c) else None),
     (if bit (ki_mask c) 5 then Some (ki_ifGenerationMatch c) else None))"

lemma consistencyString_eventual: "consistencyString m = ''eventual'' \<longleftrightarrow> m = KVListModeEventual"
proof (cases "unat m < 2")
  case True
  then have "m = 0 \<or> m = 1" using less_2_cases by (fastforce simp: word_unat_eq_iff)
  then show ?thesis by (auto simp: consistencyString_def)
qed (auto simp: consistencyString_def)

definition list_view :: "KVListConfig \<Rightarrow> u32 \<times> string option \<times> u32 option \<times> string option" where
  "list_view c = (kl_mode c,
     (if bit (kl_mask c) 1 then Some (received (kl_cursor c)) else None),
     (if bit (kl_mask c) 2 then Some (kl_limit c) else None),
     (if bit (kl_mask c) 3 then Some (received (kl_prefix c)) else None))"

text \<open>
  the option blocks of inserts and listings say to the host exactly what the configuration
  says: a zero number, an empty string or nil metadata is not sent, anything else is.
\<close>

lemma kv_configs_exact:
  assumes "\<And>m. ic_Metadata c = Some m \<Longrightarrow> sized m" and "sized (lm_NextCursor lm)" and "sized (lm_Prefix lm)"
  shows "insert_view (insert_abi_config (Some c))
      = (ic_Mode c, ic_BackgroundFetch c, ic_Metadata c,
         if ic_TTLSec c = 0 then None else Some (ic_TTLSec c),
         if ic_IfGenerationMatch c = 0 then None else Some (ic_IfGenerationMatch c))
    \<and> list_view (list_abi_config lm)
      = (if lm_Mode lm = ''eventual'' then KVListModeEventual else KVListModeStrong,
         if lm_NextCursor lm = [] then None else Some (lm_NextCursor lm),
         if lm_Limit lm = 0 then None else Some (lm_Limit lm),
         if lm_Prefix lm = [] then None else Some (lm_Prefix lm))"
  using assms
  by (cases "ic_Metadata c")
    (simp_all add: insert_view_def list_view_def insert_abi_config_def list_abi_config_def Let_def zero_insert_config_def
      zero_list_config_def ki_Mode_def ki_BackgroundFetch_def ki_Metadata_def ki_TTLSec_def ki_IfGenerationMatch_def
      kl_Mode_def kl_Cursor_def kl_Limit_def kl_Prefix_def consistencyMode_def bit_simps)

section \<open>Listing visits every page\<close>

text \<open>
  The state of an iterator, in the proofs below: the pages it still has to give.  Each request,
  made with the metadata of the page before, yields the next page, which is not empty; the last
  page has no cursor, or the request after it yields an empty page.
\<close>

fun pages_left ::
  "(ListMetadata \<Rightarrow> ('w, goerr + ListPage) comp) \<Rightarrow> ListPage \<Rightarrow> ListPage list \<Rightarrow> bool" where
  "pages_left fetch cur [] \<longleftrightarrow>
     lm_NextCursor (lp_Meta cur) = [] \<and> lp_Data cur \<noteq> []
     \<or> (\<exists>p. yields (fetch (lp_Meta cur)) p \<and> lp_Data p = [])"
| "pages_left fetch cur (p # ps) \<longleftrightarrow>
     \<not> (lm_NextCursor (lp_Meta cur) = [] \<and> lp_Data cur \<noteq> [])
     \<and> yields (fetch (lp_Meta cur)) p \<and> lp_Data p \<noteq> [] \<and> pages_left fetch p ps"

definition list_rep ::
  "'w http_calls \<Rightarrow> 'w kv_calls \<Rightarrow> (nat \<Rightarrow> nat) \<Rightarrow> (string \<Rightarrow> goerr + ListPage) \<Rightarrow> ListIter \<Rightarrow> ListPage list \<Rightarrow> bool" where
  "list_rep host kv space um it ps \<longleftrightarrow>
     li_err it = None \<and> pages_left (fetch_page host kv space um (li_kvstore it)) (li_page it) ps"

lemma ListIter_Next_fetched:
  assumes "yields (fetch_page host kv space um (li_kvstore it) (lp_Meta (li_page it))) p"
    and "li_err it = None" and "\<not> (lm_NextCursor (lp_Meta (li_page it)) = [] \<and> lp_Data (li_page it) \<noteq> [])"
  shows "\<exists>w'. ListIter_Next host kv space um it w
    = Some (Done (if lp_Data p = [] then (False, it) else (True, it\<lparr>li_page := p\<rparr>)), w')"
proof -
  obtain w' where "fetch_page host kv space um (li_kvstore it) (lp_Meta (li_page it)) w = Some (Done (Inr p), w')"
    using assms(1) unfolding yields_def by blast
  with assms(2,3) show ?thesis by (simp add: ListIter_Next_def try_c_Inr)
qed

lemma list_next_more:
  assumes "list_rep host kv space um it (p # ps)"
  shows "\<exists>it' w'. ListIter_Next host kv space um it w = Some (Done (True, it'), w')
    \<and> ListIter_Page it' = p \<and> list_rep host kv space um it' ps"
proof -
  have y: "yields (fetch_page host kv space um (li_kvstore it) (lp_Meta (li_page it))) p"
    using assms by (simp add: list_rep_def)
  obtain w' where "ListIter_Next host kv space um it w = Some (Done (True, it\<lparr>li_page := p\<rparr>), w')"
    using ListIter_Next_fetched [OF y, of w] assms by (auto simp: list_rep_def)
  with assms show ?thesis by (auto simp: list_rep_def ListIter_Page_def)
qed

lemma list_next_done:
  assumes "list_rep host kv space um it []"
  shows "\<exists>it' w'. ListIter_Next host kv space um it w = Some (Done (False, it'), w')
    \<and> ListIter_Err it' = None \<and> list_rep host kv space um it' []"
proof (cases "lm_NextCursor (lp_Meta (li_page it)) = [] \<and> lp_Data (li_page it) \<noteq> []")
  case True
  with assms show ?thesis by (auto simp: ListIter_Next_def list_rep_def ListIter_Err_def)
next
  case False
  with assms obtain p where
    y: "yields (fetch_page host kv space um (li_kvstore it) (lp_Meta (li_page it))) p" and "lp_Data p = []"
    by (auto simp: list_rep_def)
  obtain w' where "ListIter_Next host kv space um it w = Some (Done (False, it), w')"
    using ListIter_Next_fetched [OF y, of w] assms False \<open>lp_Data p = []\<close> by (auto simp: list_rep_def)
  with assms show ?thesis by (auto simp: list_rep_def ListIter_Err_def)
qed

interpretation li: value_source "ListIter_Next host kv space um" ListIter_Page ListIter_Err "list_rep host kv space um"
  for host :: "'w http_calls" and kv :: "'w kv_calls" and space um
  by unfold_locales (rule list_next_more list_next_done, assumption)+

lemma iterates_pages:
  assumes "pages_left (fetch_page host kv space um s) (li_page (Store_List s config)) ps"
  shows "\<exists>it w'. for_each (ListIter_Next host kv space um) ListIter_Page
      (\<lambda>p keys. finish (Inr (keys @ lp_Data p))) (Store_List s config) [] w
      = Some (Done (Inr (it, concat (map lp_Data ps))), w') \<and> ListIter_Err it = None"
proof -
  have rep: "list_rep host kv space um (Store_List s config) ps"
    using assms by (simp add: list_rep_def Store_List_def Let_def)
  have f: "fold (\<lambda>p keys. keys @ lp_Data p) ps acc = acc @ concat (map lp_Data ps)" for acc
    by (induction ps arbitrary: acc) simp_all
  have body: "\<exists>w'. finish (Inr (a @ lp_Data x)) w = Some (Done (Inr (a @ lp_Data x)), w')" for x a w
    by simp
  from li.for_each_drains [of ps "\<lambda>p keys. finish (Inr (keys @ lp_Data p))" "\<lambda>p keys. keys @ lp_Data p",
      OF body rep, of "[]" w] show ?thesis unfolding f by auto
qed

subsection \<open>The pages of a store\<close>

text \<open>
  What the store holds, without the iterator: \<open>page cur\<close> is the page at a cursor, the empty one for
  the beginning, and a listing is the chain of pages by their cursors, up to a page without one.
\<close>

fun listing :: "(string \<Rightarrow> ListPage) \<Rightarrow> string \<Rightarrow> ListPage list \<Rightarrow> bool" where
  "listing page cur [] \<longleftrightarrow> False"
| "listing page cur (p # ps) \<longleftrightarrow> page cur = p
     \<and> (if ps = [] then lm_NextCursor (lp_Meta p) = []
        else lm_NextCursor (lp_Meta p) \<noteq> [] \<and> listing page (lm_NextCursor (lp_Meta p)) ps)"

text \<open>A host that answers a list request with a page: it starts, and its body is the text of the page.\<close>

definition answers_page ::
  "'w http_calls \<Rightarrow> 'w kv_calls \<Rightarrow> (string \<Rightarrow> goerr + ListPage) \<Rightarrow> handle \<Rightarrow> KVListConfig \<Rightarrow> ListPage \<Rightarrow> bool" where
  "answers_page host kv um s c p \<longleftrightarrow>
     (\<forall>w. \<exists>h w1 b w2 content. c_kv_list kv s c w = ((FastlyStatusOK, h), w1) \<and> h \<noteq> invalidHandle
        \<and> c_kv_list_wait kv h w1 = ((FastlyStatusOK, b, KVErrorOK), w2)
        \<and> body_source host b content \<and> um (content w2) = Inr p)"

text \<open>
  A host that serves these pages for a configuration: a request with its mode and prefix, and with
  the limit it asks for or one that a page reports, is answered with the page at the cursor of the
  request.  The metadata of a page repeat the mode and the prefix.
\<close>

definition list_asked :: "ListConfig option \<Rightarrow> ListConfig" where
  "list_asked config = (case config of Some c \<Rightarrow> c | None \<Rightarrow> \<lparr>lc_Mode = 0, lc_Limit = 0, lc_Prefix = [], lc_Cursor = []\<rparr>)"

definition serves_listing ::
  "'w http_calls \<Rightarrow> 'w kv_calls \<Rightarrow> (string \<Rightarrow> goerr + ListPage) \<Rightarrow> handle \<Rightarrow> ListConfig \<Rightarrow> (string \<Rightarrow> ListPage) \<Rightarrow> bool" where
  "serves_listing host kv um s a page \<longleftrightarrow>
     (\<forall>c cur lim. list_view c = (if lc_Mode a = KVListModeEventual then KVListModeEventual else KVListModeStrong,
          if cur = [] then None else Some cur,
          if lim = 0 then None else Some lim,
          if lc_Prefix a = [] then None else Some (lc_Prefix a))
        \<and> (lim = lc_Limit a \<or> (\<exists>cur'. lim = lm_Limit (lp_Meta (page cur'))))
        \<longrightarrow> answers_page host kv um s c (page cur))
     \<and> (\<forall>cur. (lm_Mode (lp_Meta (page cur)) = ''eventual'' \<longleftrightarrow> lc_Mode a = KVListModeEventual)
          \<and> lm_Prefix (lp_Meta (page cur)) = lc_Prefix a \<and> sized (lm_NextCursor (lp_Meta (page cur))))"

lemma answers_page_yields:
  assumes "answers_page host kv um s (list_abi_config m) p" and "\<And>k. 0 < space k \<and> space k < 2 ^ 32"
  shows "yields (fetch_page host kv space um s m) p"
  unfolding yields_def
proof
  fix w
  obtain h w1 b w2 content where r: "c_kv_list kv s (list_abi_config m) w = ((FastlyStatusOK, h), w1)" "h \<noteq> invalidHandle"
    "c_kv_list_wait kv h w1 = ((FastlyStatusOK, b, KVErrorOK), w2)" and src: "body_source host b content" "um (content w2) = Inr p"
    using assms(1) unfolding answers_page_def by blast
  obtain w3 where "ReadAll host space \<lparr>b_h = b, b_closable = False\<rparr> w2 = Some (Done (Inr (content w2)), w3)"
    using read_all_content [of host "\<lparr>b_h = b, b_closable = False\<rparr>" content space w2] src(1) assms(2) by auto
  with r src(2) show "\<exists>w'. fetch_page host kv space um s m w = Some (Done (Inr p), w')"
    by (simp add: fetch_page_def KVStore_List_def KVStore_ListWait_def started_def check_c_def try_c_def
        and_then_def hostcall_def toError_def kv_checked_def)
qed

text \<open>The iterator asks for the page at the cursor of the one it holds, whatever page that is.\<close>

lemma next_page:
  assumes "serves_listing host kv um s a page" and "\<And>k. 0 < space k \<and> space k < 2 ^ 32" and "sized (lc_Prefix a)"
    and "lm_Mode m = ''eventual'' \<longleftrightarrow> lc_Mode a = KVListModeEventual" and "lm_Prefix m = lc_Prefix a"
    and "sized (lm_NextCursor m)" and "lm_Limit m = lc_Limit a \<or> (\<exists>cur. lm_Limit m = lm_Limit (lp_Meta (page cur)))"
  shows "yields (fetch_page host kv space um s m) (page (lm_NextCursor m))"
proof (rule answers_page_yields [OF _ assms(2)])
  have "list_view (list_abi_config m) = (if lc_Mode a = KVListModeEventual then KVListModeEventual else KVListModeStrong,
      if lm_NextCursor m = [] then None else Some (lm_NextCursor m),
      if lm_Limit m = 0 then None else Some (lm_Limit m),
      if lc_Prefix a = [] then None else Some (lc_Prefix a))"
    using kv_configs_exact [of "\<lparr>ic_Mode = 0, ic_BackgroundFetch = False, ic_Metadata = None, ic_TTLSec = 0,
      ic_IfGenerationMatch = 0\<rparr>" m] assms(3,4,5,6) by simp
  then show "answers_page host kv um s (list_abi_config m) (page (lm_NextCursor m))"
    using assms(1,7) unfolding serves_listing_def by blast
qed

lemma listing_left:
  assumes serves: "serves_listing host kv um s a page" and space: "\<And>k. 0 < space k \<and> space k < 2 ^ 32"
    and prefix: "sized (lc_Prefix a)"
    and "listing page (lm_NextCursor (lp_Meta cur)) ps"
    and "yields (fetch_page host kv space um s (lp_Meta cur)) (page (lm_NextCursor (lp_Meta cur)))"
    and "lm_NextCursor (lp_Meta cur) \<noteq> [] \<or> lp_Data cur = []"
  shows "pages_left (fetch_page host kv space um s) cur (takeWhile (\<lambda>p. lp_Data p \<noteq> []) ps)"
  using assms(4,5,6)
proof (induction ps arbitrary: cur)
  case (Cons p ps)
  let ?m = "lp_Meta p"
  have p: "page (lm_NextCursor (lp_Meta cur)) = p" using Cons.prems(1) by (simp split: if_splits)
  have "yields (fetch_page host kv space um s ?m) (page (lm_NextCursor ?m))"
    by (rule next_page [OF serves space prefix]) (use serves p in \<open>auto simp: serves_listing_def\<close>)
  then have "pages_left (fetch_page host kv space um s) p (takeWhile (\<lambda>p. lp_Data p \<noteq> []) ps)" if "lp_Data p \<noteq> []"
    using Cons.IH [of p] Cons.prems(1) that by (cases "ps = []") auto
  then show ?case using Cons.prems(2,3) p by auto
qed simp

lemma keys_of_pages:
  "\<forall>p \<in> set (butlast ps). lp_Data p \<noteq> [] \<Longrightarrow>
   concat (map lp_Data (takeWhile (\<lambda>p. lp_Data p \<noteq> []) ps)) = concat (map lp_Data ps)"
  by (induction ps) (auto split: if_splits)

text \<open>
  C27: iterating over a listing terminates without an error and visits the pages of the store in
  the order of their cursors, each once, up to the first empty page; so if no page before the last
  is empty, the keys collected are the keys of all pages.  (An empty page ends the iteration even
  when it carries a cursor, and the keys behind it are lost.)
\<close>

theorem kv_list_complete:
  assumes "serves_listing host kv um s (list_asked config) page" and "listing page (lc_Cursor (list_asked config)) ps"
    and "sized (lc_Prefix (list_asked config))" and "sized (lc_Cursor (list_asked config))"
    and "\<And>k. 0 < space k \<and> space k < 2 ^ 32"
  shows "\<exists>it keys w'. for_each (ListIter_Next host kv space um) ListIter_Page
      (\<lambda>p keys. finish (Inr (keys @ lp_Data p))) (Store_List s config) [] w
      = Some (Done (Inr (it, keys)), w') \<and> ListIter_Err it = None
    \<and> keys = concat (map lp_Data (takeWhile (\<lambda>p. lp_Data p \<noteq> []) ps))
    \<and> ((\<forall>p \<in> set (butlast ps). lp_Data p \<noteq> []) \<longrightarrow> keys = concat (map lp_Data ps))"
proof -
  let ?it = "Store_List s config" and ?a = "list_asked config"
  have start: "lp_Data (li_page ?it) = []" "lm_NextCursor (lp_Meta (li_page ?it)) = lc_Cursor ?a"
    "lm_Prefix (lp_Meta (li_page ?it)) = lc_Prefix ?a" "lm_Limit (lp_Meta (li_page ?it)) = lc_Limit ?a"
    "lm_Mode (lp_Meta (li_page ?it)) = consistencyString (lc_Mode ?a)"
    by (simp_all add: Store_List_def list_asked_def Let_def split: option.split)
  have first: "yields (fetch_page host kv space um s (lp_Meta (li_page ?it))) (page (lm_NextCursor (lp_Meta (li_page ?it))))"
    by (rule next_page [OF assms(1,5,3)]) (use start assms(4) in \<open>simp_all add: consistencyString_eventual\<close>)
  have "listing page (lm_NextCursor (lp_Meta (li_page ?it))) ps"
    unfolding start(2) by (rule assms(2))
  then have left: "pages_left (fetch_page host kv space um s) (li_page ?it) (takeWhile (\<lambda>p. lp_Data p \<noteq> []) ps)"
    by (rule listing_left [OF assms(1,5,3) _ first]) (simp add: start(1))
  show ?thesis using iterates_pages [OF left, of w] keys_of_pages [of ps] by blast
qed

text \<open>
  An empty page ends the iteration without an error even when it carries a cursor; the keys
  behind that cursor are never asked for.
\<close>

lemma kv_list_empty_page:
  assumes "yields (fetch_page host kv space um (li_kvstore it) (lp_Meta (li_page it))) p" and "lp_Data p = []"
    and "li_err it = None"
  shows "\<exists>w'. ListIter_Next host kv space um it w = Some (Done (False, it), w')"
  using ListIter_Next_fetched [OF assms(1,3), of w] assms(2,3)
  by (cases "lm_NextCursor (lp_Meta (li_page it)) = [] \<and> lp_Data (li_page it) \<noteq> []")
    (auto simp: ListIter_Next_def)

section \<open>Entries read once\<close>

text \<open>
  \<open>String\<close> returns the whole content of the entry's body, and every later call returns the
  same string without reading.
\<close>

lemma entry_string_cached:
  assumes "body_source host (b_h (en_Reader e)) content" and "\<And>k. 0 < space k \<and> space k < 2 ^ 32"
    and "en_s e = None"
  shows "\<exists>e' w'. Entry_String host space e w = Some (Done (content w, e'), w')
    \<and> (\<forall>w2. Entry_String host space e' w2 = Some (Done (content w, e'), w2))
    \<and> en_meta e' = en_meta e \<and> en_generation e' = en_generation e"
proof -
  obtain w' where "ReadAll host space (en_Reader e) w = Some (Done (Inr (content w)), w')"
    using read_all_content [of host "en_Reader e" content space w] assms(1,2) by blast
  with assms(3) show ?thesis by (simp add: Entry_String_def try_c_Inr)
qed

section \<open>Results of the operations\<close>

definition kv_code_error :: "u32 \<Rightarrow> goerr" where
  "kv_code_error k =
     (if k = KVErrorBadRequest then ErrBadRequest else if k = KVErrorNotFound then ErrKeyNotFound
      else if k = KVErrorPreconditionFailed then ErrPreconditionFailed
      else if k = KVErrorPayloadTooLarge then ErrPayloadTooLarge
      else if k = KVErrorTooManyRequests then ErrTooManyRequests
      else if k \<le> KVErrorInternalError then kv_ErrUnexpected
      else unexpected_with kv_ErrUnexpected ''unknown'')"

definition kv_status_error :: "FastlyStatus \<Rightarrow> goerr" where
  "kv_status_error s =
     (if s = FastlyStatusBadf then ErrStoreNotFound else if s = FastlyStatusInval then ErrInvalidKey
      else unexpected_with kv_ErrUnexpected (FastlyStatus_String s))"

lemma u32_le_cases:
  assumes "(k :: u32) \<le> 7" obtains "k = 0" | "k = 1" | "k = 2" | "k = 3" | "k = 4" | "k = 5" | "k = 6" | "k = 7"
proof -
  have "unat k \<le> 7" using assms by (simp add: word_le_nat_alt)
  then have "unat k = 0 \<or> unat k = 1 \<or> unat k = 2 \<or> unat k = 3 \<or> unat k = 4 \<or> unat k = 5 \<or> unat k = 6 \<or> unat k = 7"
    by linarith
  then have "k = 0 \<or> k = 1 \<or> k = 2 \<or> k = 3 \<or> k = 4 \<or> k = 5 \<or> k = 6 \<or> k = 7"
    by (simp add: word_unat_eq_iff)
  then show ?thesis using that by blast
qed

lemma map_kv_code: "mapFastlyErr (KVErr k) = kv_code_error k"
proof (cases "k \<le> 7")
  case True
  then show ?thesis
    by (cases rule: u32_le_cases) (simp_all add: mapFastlyErr_def kv_code_error_def kvErrToErr_def)
next
  case False
  moreover have "\<not> k \<le> 6" using False by (simp add: word_le_nat_alt)
  ultimately have "k \<noteq> 0 \<and> k \<noteq> 1 \<and> k \<noteq> 2 \<and> k \<noteq> 3 \<and> k \<noteq> 4 \<and> k \<noteq> 5 \<and> k \<noteq> 6 \<and> k \<noteq> 7 \<and> \<not> k \<le> 6" by auto
  with False show ?thesis by (simp add: mapFastlyErr_def kv_code_error_def KVError_Error_def)
qed

lemma map_kv_status: "s \<noteq> 0 \<Longrightarrow> mapFastlyErr (FastlyError s d) = kv_status_error s"
  by (simp add: mapFastlyErr_def kv_status_error_def IsFastlyError_def)

lemma yields_started:
  assumes "answers {} p (Some h)" "h \<noteq> invalidHandle" shows "yields (started p) h"
proof -
  have "yields (if h = invalidHandle then finish (Inl (FastlyError FastlyStatusError None)) else finish (Inr h)) h"
    using assms(2) by (simp add: yields_finish)
  then show ?thesis unfolding started_def by (rule yields_check_c [OF answers_Some [OF assms(1)]])
qed

text \<open>
  What a write comes to: the host answers the start of it with a status and a handle, and the wait
  for that handle with a status and an error code.  The wait is only asked for after a start that
  went well.
\<close>

definition write_result :: "FastlyStatus \<Rightarrow> handle \<Rightarrow> FastlyStatus \<Rightarrow> u32 \<Rightarrow> goerr + unit" where
  "write_result st h wait_st k =
     (if st \<noteq> FastlyStatusOK then Inl (kv_status_error st)
      else if h = invalidHandle then Inl (kv_status_error FastlyStatusError)
      else if wait_st \<noteq> FastlyStatusOK then Inl (kv_status_error wait_st)
      else if k \<noteq> KVErrorOK then Inl (kv_code_error k)
      else Inr ())"

definition write_run ::
  "('w, FastlyStatus \<times> handle) prog \<Rightarrow> (handle \<Rightarrow> ('w, FastlyStatus \<times> u32) prog) \<Rightarrow> ('w, goerr + unit) comp" where
  "write_run start wait = (\<lambda>w.
     case start w of ((st, h), w1) \<Rightarrow>
     case wait h w1 of ((wait_st, k), w2) \<Rightarrow>
       Some (Done (write_result st h wait_st k), if st = FastlyStatusOK \<and> h \<noteq> invalidHandle then w2 else w1))"

lemma write_runs:
  "check_c mapFastlyErr (started start) (\<lambda>h.
   check_c mapFastlyErr (check_c id (hostcall (wait h)) (\<lambda>e. kv_checked e ())) (\<lambda>_. finish (Inr ()))) = write_run start wait"
  by (rule ext)
    (simp add: write_run_def write_result_def started_def check_c_def try_c_def and_then_def hostcall_def toError_def
      kv_checked_def map_kv_status map_kv_code finish_def split: prod.split)

lemma insert_runs:
  "Store_InsertWithConfig host kv io_copy s key v config =
     check_c id (value_body host io_copy v) (\<lambda>body.
     write_run (c_kv_insert kv s key (b_h body) (insert_abi_config config)) (c_kv_insert_wait kv))"
  by (simp only: Store_InsertWithConfig_def KVStore_Insert_def KVStore_InsertWait_def write_runs)

text \<open>
  C28: a delete or an insert returns exactly what the host says of it: the sentinel of the status
  where the start or the wait is refused, an unexpected error where there is no handle, the sentinel
  of the error code, and success exactly on the code for success.  The value of an insert is sent
  from the body it already is, or from a new body into which its reader is copied; where the host
  gives no body or the copy fails, that error is returned and no insert is started.
\<close>

theorem kv_write_outcome:
  "Store_Delete kv s key = write_run (c_kv_delete kv s key) (c_kv_delete_wait kv)
    \<and> Store_InsertWithConfig host kv io_copy s key (BodyValue b) config
      = write_run (c_kv_insert kv s key (b_h b) (insert_abi_config config)) (c_kv_insert_wait kv)
    \<and> Store_InsertWithConfig host kv io_copy s key (ReaderValue r) config w
      = (case c_body_new host w of ((st, h), w1) \<Rightarrow>
           if st \<noteq> FastlyStatusOK then Some (Done (Inl (FastlyError st None)), w1)
           else (case io_copy \<lparr>b_h = h, b_closable = False\<rparr> r w1 of
                   None \<Rightarrow> None
                 | Some (Panic, w2) \<Rightarrow> Some (Panic, w2)
                 | Some (Done (n, Some e), w2) \<Rightarrow> Some (Done (Inl e), w2)
                 | Some (Done (n, None), w2) \<Rightarrow>
                     write_run (c_kv_insert kv s key h (insert_abi_config config)) (c_kv_insert_wait kv) w2))"
proof (intro conjI)
  show "Store_Delete kv s key = write_run (c_kv_delete kv s key) (c_kv_delete_wait kv)"
    by (simp only: Store_Delete_def KVStore_Delete_def KVStore_DeleteWait_def write_runs)
  show "Store_InsertWithConfig host kv io_copy s key (BodyValue b) config
      = write_run (c_kv_insert kv s key (b_h b) (insert_abi_config config)) (c_kv_insert_wait kv)"
    by (rule ext) (simp add: insert_runs value_body_def check_c_def try_c_def and_then_def finish_def)
  show "Store_InsertWithConfig host kv io_copy s key (ReaderValue r) config w
      = (case c_body_new host w of ((st, h), w1) \<Rightarrow>
           if st \<noteq> FastlyStatusOK then Some (Done (Inl (FastlyError st None)), w1)
           else (case io_copy \<lparr>b_h = h, b_closable = False\<rparr> r w1 of
                   None \<Rightarrow> None
                 | Some (Panic, w2) \<Rightarrow> Some (Panic, w2)
                 | Some (Done (n, Some e), w2) \<Rightarrow> Some (Done (Inl e), w2)
                 | Some (Done (n, None), w2) \<Rightarrow>
                     write_run (c_kv_insert kv s key h (insert_abi_config config)) (c_kv_insert_wait kv) w2))"
    by (simp add: insert_runs value_body_def check_c_def try_c_def and_then_def finish_def NewHTTPBody_def hostcall_def
        toError_def split: prod.split option.split outcome.split)
qed

text \<open>
  C29: a lookup returns the entry the host found with its metadata and generation, the sentinel of
  the host's error code, or the error of its status; only metadata longer than the fixed buffer
  of 2000 bytes makes it panic.
\<close>

theorem kv_lookup_outcome:
  assumes "answers {} (c_kv_lookup kv s key) (Some h)" and "h \<noteq> invalidHandle"
    and r: "\<And>w. fst (c_kv_lookup_wait kv h 2000 w) = r"
    and "length (br_written r) = unat (br_nwritten r)"
  shows "\<exists>w'. Store_Lookup kv s key w = Some
    (if br_status r \<noteq> FastlyStatusOK then Done (Inl (kv_status_error (br_status r)))
     else if kr_kvErr r \<noteq> KVErrorOK then Done (Inl (kv_code_error (kr_kvErr r)))
     else if 2000 < unat (br_nwritten r) then Panic
     else Done (Inr \<lparr>en_Reader = \<lparr>b_h = kr_body r, b_closable = False\<rparr>, en_s = None,
       en_meta = br_written r, en_generation = kr_generation r\<rparr>), w')"
proof -
  obtain w1 where 1: "KVStore_Lookup kv s key w = Some (Done (Inr h), w1)"
    using yieldsD [OF yields_started [OF assms(1,2)]] by (auto simp: KVStore_Lookup_def)
  obtain w2 where 2: "c_kv_lookup_wait kv h 2000 w1 = (r, w2)" using r by (metis prod.collapse)
  have cap: "wb_Cap (NewWriteBuffer kvstoreMetadataMaxBufLen) = 2000"
    by (simp add: wb_Cap_def NewWriteBuffer_def zero_bytes_def kvstoreMetadataMaxBufLen_def)
  have bytes: "wb_AsBytes (host_fill (br_written r) (br_nwritten r) (NewWriteBuffer kvstoreMetadataMaxBufLen))
      = (if 2000 < unat (br_nwritten r) then Panic else Done (br_written r))"
    using assms(4) by (auto simp: wb_AsBytes_def host_fill_def NewWriteBuffer_def zero_bytes_def kvstoreMetadataMaxBufLen_def)
  show ?thesis
    using 1 2 by (simp add: Store_Lookup_def KVStore_LookupWait_def Let_def cap bytes check_c_def
        try_c_def and_then_def toError_def map_kv_status map_kv_code)
qed

section \<open>A store for witnesses\<close>

text \<open>
  A host whose world is the content of the one open body.  It lists two pages: the content of a
  page is the cursor it was asked for.
\<close>

definition cursor_kv :: "string kv_calls" where
  "cursor_kv =
     \<lparr>c_kv_open = (\<lambda>n. accept 1),
      c_kv_lookup = (\<lambda>s k. accept 2),
      c_kv_lookup_wait = (\<lambda>h n w. (\<lparr>br_status = FastlyStatusOK, br_written = ''m'', br_nwritten = 1,
         kr_body = 7, kr_generation = 3, kr_kvErr = KVErrorOK\<rparr>, w)),
      c_kv_insert = (\<lambda>s k b c. accept 3),
      c_kv_insert_wait = (\<lambda>h. accept KVErrorTooManyRequests),
      c_kv_delete = (\<lambda>s k. accept 4),
      c_kv_delete_wait = (\<lambda>h. accept KVErrorOK),
      c_kv_list = (\<lambda>s c w. ((FastlyStatusOK, 5), if bit (kl_mask c) 1 then received (kl_cursor c) else [])),
      c_kv_list_wait = (\<lambda>h. accept (7, KVErrorOK))\<rparr>"

definition two_pages :: "string \<Rightarrow> goerr + ListPage" where
  "two_pages buf =
     (if buf = [] then Inr \<lparr>lp_Data = [''a'', ''b''], lp_Meta = \<lparr>lm_Limit = 2, lm_NextCursor = ''x'', lm_Prefix = [], lm_Mode = []\<rparr>\<rparr>
      else Inr \<lparr>lp_Data = [''c''], lp_Meta = \<lparr>lm_Limit = 2, lm_NextCursor = [], lm_Prefix = [], lm_Mode = []\<rparr>\<rparr>)"

abbreviation drip :: "string http_calls" where
  "drip \<equiv> dripping_host accepting_host"

lemma cursor_serves:
  "serves_listing drip cursor_kv two_pages s (list_asked None) (\<lambda>cur. projr (two_pages cur))"
proof -
  have "answers_page drip cursor_kv two_pages s c (projr (two_pages cur))"
    if "(if bit (kl_mask c) 1 then Some (received (kl_cursor c)) else None) = (if cur = [] then None else Some cur)" for c cur
    using that dripping_source [of accepting_host 7]
    by (auto simp: answers_page_def cursor_kv_def accept_def two_pages_def split: if_splits intro!: exI [of _ "\<lambda>w. w"])
  moreover have "lm_Mode (lp_Meta (projr (two_pages cur))) \<noteq> ''eventual'' \<and> lm_Prefix (lp_Meta (projr (two_pages cur))) = []
      \<and> sized (lm_NextCursor (lp_Meta (projr (two_pages cur))))" for cur
    by (simp add: two_pages_def sized_def)
  ultimately show ?thesis by (simp add: serves_listing_def list_asked_def list_view_def)
qed

theorem kv_list_complete_witness:
  "\<exists>it w'. for_each (ListIter_Next drip cursor_kv (\<lambda>_. 512) two_pages) ListIter_Page
      (\<lambda>p keys. finish (Inr (keys @ lp_Data p))) (Store_List 1 None) [] ''w''
      = Some (Done (Inr (it, [''a'', ''b'', ''c''])), w')"
proof -
  have "listing (\<lambda>cur. projr (two_pages cur)) (lc_Cursor (list_asked None)) [projr (two_pages []), projr (two_pages ''x'')]"
    by (simp add: two_pages_def list_asked_def)
  from kv_list_complete [OF cursor_serves this, of "\<lambda>_. 512" 1 "''w''"] show ?thesis
    by (auto simp: list_asked_def sized_def two_pages_def)
qed

theorem kv_write_outcome_witness:
  "Store_Delete cursor_kv 1 ''k'' ''w'' = Some (Done (Inr ()), ''w'')
   \<and> Store_InsertWithConfig drip cursor_kv (\<lambda>b (r :: unit). finish (0, None)) 1 ''k'' (ReaderValue ()) None ''w''
     = Some (Done (Inl ErrTooManyRequests), ''w'')"
  using kv_write_outcome [of cursor_kv 1 "''k''" drip "\<lambda>b (r :: unit). finish (0, None)" undefined None "()" "''w''"]
  by (simp add: write_run_def write_result_def cursor_kv_def accept_def dripping_host_def accepting_host_def finish_def
      kv_code_error_def)

theorem kv_lookup_outcome_witness:
  "\<exists>w'. Store_Lookup cursor_kv 1 ''k'' [] = Some (Done (Inr \<lparr>en_Reader = \<lparr>b_h = 7, b_closable = False\<rparr>, en_s = None,
     en_meta = ''m'', en_generation = 3\<rparr>), w')"
proof -
  have d: "answers {} (c_kv_lookup cursor_kv 1 ''k'') (Some 2)" by (simp add: answers_def cursor_kv_def accept_def)
  show ?thesis
    using kv_lookup_outcome [OF d, of "\<lparr>br_status = FastlyStatusOK, br_written = ''m'', br_nwritten = 1,
         kr_body = 7, kr_generation = 3, kr_kvErr = KVErrorOK\<rparr>" "[]"] by (simp add: cursor_kv_def)
qed

lemma kv_configs_exact_instance:
  "insert_view (insert_abi_config (Some \<lparr>ic_Mode = KVInsertModeAdd, ic_BackgroundFetch = False, ic_Metadata = Some ''m'',
      ic_TTLSec = 0, ic_IfGenerationMatch = 9\<rparr>)) = (1, False, Some ''m'', None, Some 9)"
  using kv_configs_exact [of "\<lparr>ic_Mode = KVInsertModeAdd, ic_BackgroundFetch = False, ic_Metadata = Some ''m'',
      ic_TTLSec = 0, ic_IfGenerationMatch = 9\<rparr>" "\<lparr>lm_Limit = 0, lm_NextCursor = [], lm_Prefix = [], lm_Mode = []\<rparr>"]
  by (simp add: sized_def)

end
