(* ===== verification/Stores.thy ===== *)
theory Stores
  imports OptionMasks
begin

text \<open>
  The read-only stores.  A config store and an edge dictionary are read by the same two
  hostcalls in two ways: the config store retries with a larger buffer, the dictionary keeps one
  buffer for all its reads.  The interface \<open>lookup_store\<close> is what both promise.  The secret
  store hands out handles whose plaintext is read separately.
\<close>

section \<open>Hostcalls\<close>

record 'w store_calls =
  c_store_open :: "string \<Rightarrow> ('w, FastlyStatus \<times> handle) prog"
  c_store_get :: "handle \<Rightarrow> string \<Rightarrow> u32 \<Rightarrow> ('w, buf_reply) prog"

text \<open>The call that asks only whether a key exists passes no buffer and a capacity of zero.\<close>

definition has_status :: "FastlyStatus \<Rightarrow> goerr + bool" where
  "has_status status =
     (if status = FastlyStatusOK \<or> status = FastlyStatusBufLen then Inr True
      else if status = FastlyStatusNone then Inr False
      else (case toError status of Some e \<Rightarrow> Inl e | None \<Rightarrow> Inr False))"

definition store_has :: "'w store_calls \<Rightarrow> handle \<Rightarrow> string \<Rightarrow> ('w, goerr + bool) comp" where
  "store_has st h key = (\<lambda>w. case c_store_get st h key 0 w of (r, w') \<Rightarrow>
     Some (Done (has_status (br_status r)), w'))"

section \<open>Config stores\<close>

definition configstoreMaxKeyLen :: u32 where "configstoreMaxKeyLen = 255 * 3"

definition OpenConfigStore :: "'w store_calls \<Rightarrow> string \<Rightarrow> ('w, goerr + handle) comp" where
  "OpenConfigStore st name = hostcall (c_store_open st name)"

definition ConfigStore_GetBytes :: "'w store_calls \<Rightarrow> handle \<Rightarrow> string \<Rightarrow> ('w, goerr + string) comp" where
  "ConfigStore_GetBytes st c key =
     (if configstoreMaxKeyLen < of_nat (length key) then finish (Inl (FastlyError FastlyStatusInval None))
      else buffered DefaultSmallBufLen (c_store_get st c key))"

definition ConfigStore_Has :: "'w store_calls \<Rightarrow> handle \<Rightarrow> string \<Rightarrow> ('w, goerr + bool) comp" where
  "ConfigStore_Has st c key = store_has st c key"

definition cs_ErrStoreNotFound :: goerr where
  "cs_ErrStoreNotFound = Sentinel ''configstore'' ''config store not found''"
definition cs_ErrStoreNameEmpty :: goerr where
  "cs_ErrStoreNameEmpty = Sentinel ''configstore'' ''config store name was empty''"
definition cs_ErrStoreNameInvalid :: goerr where
  "cs_ErrStoreNameInvalid = Sentinel ''configstore'' ''config store name contained invalid characters''"
definition cs_ErrStoreNameTooLong :: goerr where
  "cs_ErrStoreNameTooLong = Sentinel ''configstore'' ''config store name too long''"
definition cs_ErrKeyNotFound :: goerr where
  "cs_ErrKeyNotFound = Sentinel ''configstore'' ''key not found''"
definition cs_ErrUnexpected :: goerr where
  "cs_ErrUnexpected = Sentinel ''configstore'' ''unexpected error''"

definition configstore_Open :: "'w store_calls \<Rightarrow> string \<Rightarrow> ('w, goerr + handle) comp" where
  "configstore_Open st name =
     check_c (status_switch
        [(FastlyStatusBadf, cs_ErrStoreNotFound), (FastlyStatusNone, cs_ErrStoreNameEmpty),
         (FastlyStatusUnsupported, cs_ErrStoreNameTooLong), (FastlyStatusInval, cs_ErrStoreNameInvalid)]
        (Some cs_ErrUnexpected))
       (OpenConfigStore st name) (\<lambda>d. finish (Inr d))"

definition cs_lookup_error :: "goerr \<Rightarrow> goerr" where
  "cs_lookup_error = status_switch
     [(FastlyStatusBadf, cs_ErrStoreNotFound), (FastlyStatusNone, cs_ErrKeyNotFound)] (Some cs_ErrUnexpected)"

text \<open>A nil store is \<open>None\<close>.\<close>

definition configstore_Has :: "'w store_calls \<Rightarrow> handle option \<Rightarrow> string \<Rightarrow> ('w, goerr + bool) comp" where
  "configstore_Has st s key =
     (case s of
        None \<Rightarrow> finish (Inl cs_ErrKeyNotFound)
      | Some c \<Rightarrow> check_c cs_lookup_error (ConfigStore_Has st c key) (\<lambda>v. finish (Inr v)))"

definition configstore_GetBytes :: "'w store_calls \<Rightarrow> handle option \<Rightarrow> string \<Rightarrow> ('w, goerr + string) comp" where
  "configstore_GetBytes st s key =
     (case s of
        None \<Rightarrow> finish (Inl cs_ErrKeyNotFound)
      | Some c \<Rightarrow> check_c cs_lookup_error (ConfigStore_GetBytes st c key) (\<lambda>v. finish (Inr v)))"

definition configstore_Get :: "'w store_calls \<Rightarrow> handle option \<Rightarrow> string \<Rightarrow> ('w, goerr + string) comp" where
  "configstore_Get st s key = check_c id (configstore_GetBytes st s key) (\<lambda>buf. finish (Inr buf))"

section \<open>Edge dictionaries\<close>

definition dictionaryMaxKeyLen :: u32 where "dictionaryMaxKeyLen = 255 * 3"
definition dictionaryMaxValueLen :: nat where "dictionaryMaxValueLen = 8000 * 3"

text \<open>The array \<open>valueBuf\<close> is overwritten by every read; its length never changes.\<close>

record Dictionary =
  di_h :: handle
  di_valueBuf :: string

definition OpenDictionary :: "'w store_calls \<Rightarrow> string \<Rightarrow> ('w, goerr + Dictionary) comp" where
  "OpenDictionary st name =
     check_c id (hostcall (c_store_open st name))
       (\<lambda>h. finish (Inr \<lparr>di_h = h, di_valueBuf = zero_bytes dictionaryMaxValueLen\<rparr>))"

definition Dictionary_getBytesUnlocked ::
  "'w store_calls \<Rightarrow> Dictionary \<Rightarrow> string \<Rightarrow> ('w, (goerr + string) \<times> Dictionary) comp" where
  "Dictionary_getBytesUnlocked st d key = (\<lambda>w.
     if dictionaryMaxKeyLen < of_nat (length key)
     then Some (Done (Inl (FastlyError FastlyStatusInval None), d), w)
     else let buf = NewWriteBufferFromBytes (di_valueBuf d) in
       case c_store_get st (di_h d) key (wb_Cap buf) w of (r, w') \<Rightarrow>
         let buf = host_fill (br_written r) (br_nwritten r) buf;
             d = d\<lparr>di_valueBuf := wb_buf buf\<rparr>
         in (case toError (br_status r) of
               Some e \<Rightarrow> Some (Done (Inl e, d), w')
             | None \<Rightarrow> (case wb_AsBytes buf of
                 Panic \<Rightarrow> Some (Panic, w')
               | Done v \<Rightarrow> Some (Done (Inr v, d), w'))))"

definition Dictionary_GetBytes ::
  "'w store_calls \<Rightarrow> Dictionary \<Rightarrow> string \<Rightarrow> ('w, (goerr + string) \<times> Dictionary) comp" where
  "Dictionary_GetBytes st d key =
     and_then (Dictionary_getBytesUnlocked st d key) (\<lambda>(r, d).
       case r of Inl e \<Rightarrow> finish (Inl e, d) | Inr v \<Rightarrow> finish (Inr (take (length v) v), d))"

definition Dictionary_Has :: "'w store_calls \<Rightarrow> Dictionary \<Rightarrow> string \<Rightarrow> ('w, goerr + bool) comp" where
  "Dictionary_Has st d key = store_has st (di_h d) key"

definition ErrDictionaryNotFound :: goerr where
  "ErrDictionaryNotFound = Sentinel ''edgedict'' ''dictionary not found''"
definition ErrDictionaryNameEmpty :: goerr where
  "ErrDictionaryNameEmpty = Sentinel ''edgedict'' ''dictionary name was empty''"
definition ErrDictionaryNameInvalid :: goerr where
  "ErrDictionaryNameInvalid = Sentinel ''edgedict'' ''dictionary name contained invalid characters''"
definition ErrDictionaryNameTooLong :: goerr where
  "ErrDictionaryNameTooLong = Sentinel ''edgedict'' ''dictionary name too long''"
definition ed_ErrKeyNotFound :: goerr where
  "ed_ErrKeyNotFound = Sentinel ''edgedict'' ''key not found''"
definition ed_ErrUnexpected :: goerr where
  "ed_ErrUnexpected = Sentinel ''edgedict'' ''unexpected error''"

definition edgedict_Open :: "'w store_calls \<Rightarrow> string \<Rightarrow> ('w, goerr + Dictionary) comp" where
  "edgedict_Open st name =
     check_c (status_switch
        [(FastlyStatusBadf, ErrDictionaryNotFound), (FastlyStatusNone, ErrDictionaryNameEmpty),
         (FastlyStatusUnsupported, ErrDictionaryNameTooLong), (FastlyStatusInval, ErrDictionaryNameInvalid)]
        None)
       (OpenDictionary st name) (\<lambda>d. finish (Inr d))"

definition ed_lookup_error :: "goerr \<Rightarrow> goerr" where
  "ed_lookup_error = status_switch
     [(FastlyStatusBadf, ErrDictionaryNotFound), (FastlyStatusNone, ed_ErrKeyNotFound)] (Some ed_ErrUnexpected)"

definition edgedict_GetBytes ::
  "'w store_calls \<Rightarrow> Dictionary option \<Rightarrow> string \<Rightarrow> ('w, (goerr + string) \<times> Dictionary option) comp" where
  "edgedict_GetBytes st s key =
     (case s of
        None \<Rightarrow> finish (Inl ed_ErrKeyNotFound, None)
      | Some d \<Rightarrow>
          and_then (Dictionary_GetBytes st d key) (\<lambda>(r, d).
            case r of Inl e \<Rightarrow> finish (Inl (ed_lookup_error e), Some d) | Inr v \<Rightarrow> finish (Inr v, Some d)))"

definition edgedict_Get ::
  "'w store_calls \<Rightarrow> Dictionary option \<Rightarrow> string \<Rightarrow> ('w, (goerr + string) \<times> Dictionary option) comp" where
  "edgedict_Get st s key =
     and_then (edgedict_GetBytes st s key) (\<lambda>(r, s).
       case r of Inl e \<Rightarrow> finish (Inl e, s) | Inr buf \<Rightarrow> finish (Inr buf, s))"

definition edgedict_Has :: "'w store_calls \<Rightarrow> Dictionary option \<Rightarrow> string \<Rightarrow> ('w, goerr + bool) comp" where
  "edgedict_Has st s key =
     (case s of
        None \<Rightarrow> finish (Inl ed_ErrKeyNotFound)
      | Some d \<Rightarrow> check_c ed_lookup_error (Dictionary_Has st d key) (\<lambda>v. finish (Inr v)))"

section \<open>Secret stores\<close>

record 'w secret_calls =
  c_secret_open :: "string \<Rightarrow> ('w, FastlyStatus \<times> handle) prog"
  c_secret_get :: "handle \<Rightarrow> string \<Rightarrow> ('w, FastlyStatus \<times> handle) prog"
  c_secret_plaintext :: "handle \<Rightarrow> u32 \<Rightarrow> ('w, buf_reply) prog"
  c_secret_from_bytes :: "string \<Rightarrow> ('w, FastlyStatus \<times> handle) prog"

definition OpenSecretStore :: "'w secret_calls \<Rightarrow> string \<Rightarrow> ('w, goerr + handle) comp" where
  "OpenSecretStore sc name = hostcall (c_secret_open sc name)"

definition SecretStore_Get :: "'w secret_calls \<Rightarrow> handle \<Rightarrow> string \<Rightarrow> ('w, goerr + handle) comp" where
  "SecretStore_Get sc st name = hostcall (c_secret_get sc st name)"

definition Secret_Plaintext :: "'w secret_calls \<Rightarrow> handle \<Rightarrow> ('w, goerr + string) comp" where
  "Secret_Plaintext sc s = buffered DefaultMediumBufLen (c_secret_plaintext sc s)"

definition abi_SecretFromBytes :: "'w secret_calls \<Rightarrow> string \<Rightarrow> ('w, goerr + handle) comp" where
  "abi_SecretFromBytes sc b = hostcall (c_secret_from_bytes sc b)"

definition ErrSecretStoreNotFound :: goerr where
  "ErrSecretStoreNotFound = Sentinel ''secretstore'' ''secret store not found''"
definition ErrInvalidSecretStoreName :: goerr where
  "ErrInvalidSecretStoreName = Sentinel ''secretstore'' ''invalid secret store name''"
definition ErrSecretNotFound :: goerr where
  "ErrSecretNotFound = Sentinel ''secretstore'' ''secret not found''"
definition ErrInvalidSecretName :: goerr where
  "ErrInvalidSecretName = Sentinel ''secretstore'' ''invalid secret name''"
definition ss_ErrUnexpected :: goerr where
  "ss_ErrUnexpected = Sentinel ''secretstore'' ''unexpected error''"

definition secretstore_Open :: "'w secret_calls \<Rightarrow> string \<Rightarrow> ('w, goerr + handle) comp" where
  "secretstore_Open sc name =
     check_c (status_switch
        [(FastlyStatusNone, ErrSecretStoreNotFound), (FastlyStatusInval, ErrInvalidSecretStoreName)]
        (Some ss_ErrUnexpected))
       (OpenSecretStore sc name) (\<lambda>st. finish (Inr st))"

definition secretstore_Get :: "'w secret_calls \<Rightarrow> handle \<Rightarrow> string \<Rightarrow> ('w, goerr + handle) comp" where
  "secretstore_Get sc st name =
     check_c (status_switch
        [(FastlyStatusNone, ErrSecretNotFound), (FastlyStatusInval, ErrInvalidSecretName)]
        (Some ss_ErrUnexpected))
       (SecretStore_Get sc st name) (\<lambda>s. finish (Inr s))"

definition secretstore_Plaintext :: "'w secret_calls \<Rightarrow> handle \<Rightarrow> ('w, goerr + string) comp" where
  "secretstore_Plaintext sc s =
     check_c (status_switch [] (Some ss_ErrUnexpected)) (Secret_Plaintext sc s) (\<lambda>p. finish (Inr p))"

definition SecretFromBytes :: "'w secret_calls \<Rightarrow> string \<Rightarrow> ('w, goerr + handle) comp" where
  "SecretFromBytes sc b = check_c id (abi_SecretFromBytes sc b) (\<lambda>s. finish (Inr s))"

text \<open>\<open>Plaintext(storeName, secretName)\<close>: open, get and decrypt.\<close>

definition named_Plaintext :: "'w secret_calls \<Rightarrow> string \<Rightarrow> string \<Rightarrow> ('w, goerr + string) comp" where
  "named_Plaintext sc storeName secretName =
     check_c id (secretstore_Open sc storeName) (\<lambda>st.
     check_c id (secretstore_Get sc st secretName) (\<lambda>s.
     secretstore_Plaintext sc s))"

section \<open>What a store promises\<close>

text \<open>
  \<open>get\<close> may change the store it reads from, as the dictionary does; \<open>rep s m\<close> says that the
  store \<open>s\<close> stands for the contents \<open>m\<close>.
\<close>

primrec lookups ::
  "('s \<Rightarrow> string \<Rightarrow> ('w, (goerr + string) \<times> 's) comp) \<Rightarrow> 's \<Rightarrow> string list \<Rightarrow> ('w, (goerr + string) list \<times> 's) comp" where
  "lookups get s [] = finish ([], s)"
| "lookups get s (k # ks) =
     and_then (get s k) (\<lambda>(r, s). and_then (lookups get s ks) (\<lambda>(rs, s). finish (r # rs, s)))"

definition answer :: "goerr \<Rightarrow> (string \<rightharpoonup> string) \<Rightarrow> string \<Rightarrow> goerr + string" where
  "answer missing m k = (case m k of Some v \<Rightarrow> Inr v | None \<Rightarrow> Inl missing)"

locale lookup_store =
  fixes get :: "'s \<Rightarrow> string \<Rightarrow> ('w, (goerr + string) \<times> 's) comp"
    and has :: "'s \<Rightarrow> string \<Rightarrow> ('w, goerr + bool) comp"
    and rep :: "'s \<Rightarrow> (string \<rightharpoonup> string) \<Rightarrow> bool"
    and missing :: goerr
    and key_ok :: "string \<Rightarrow> bool"
  assumes get_answer: "rep s m \<Longrightarrow> key_ok k \<Longrightarrow>
      \<exists>s' w'. get s k w = Some (Done (answer missing m k, s'), w') \<and> rep s' m"
    and has_answer: "rep s m \<Longrightarrow> yields (has s k) (m k \<noteq> None)"
begin

lemma lookups_answer:
  "rep s m \<Longrightarrow> list_all key_ok ks \<Longrightarrow>
   \<exists>s' w'. lookups get s ks w = Some (Done (map (answer missing m) ks, s'), w') \<and> rep s' m"
proof (induction ks arbitrary: s w)
  case (Cons k ks)
  then obtain s1 w1 where 1: "get s k w = Some (Done (answer missing m k, s1), w1)" "rep s1 m"
    using get_answer [of s m k w] by auto
  obtain s2 w2 where "lookups get s1 ks w1 = Some (Done (map (answer missing m) ks, s2), w2)" "rep s2 m"
    using Cons.IH [of s1 w1] Cons.prems 1(2) by auto
  with 1(1) show ?case by (simp add: and_then_Done)
qed simp

end

text \<open>
  A host that holds the contents \<open>m\<close> under a handle: a key of \<open>m\<close> is answered as any value is,
  every other key by the status for nothing found.
\<close>

definition store_host :: "'w store_calls \<Rightarrow> handle \<Rightarrow> (string \<rightharpoonup> string) \<Rightarrow> bool" where
  "store_host st h m \<longleftrightarrow>
     (\<forall>k. case m k of
        Some v \<Rightarrow> value_host (c_store_get st h k) v
      | None \<Rightarrow> (\<forall>cap w. br_status (fst (c_store_get st h k cap w)) = FastlyStatusNone))"

lemma store_host_found: "store_host st h m \<Longrightarrow> m k = Some v \<Longrightarrow> value_host (c_store_get st h k) v"
  unfolding store_host_def by (drule spec [of _ k]) simp

lemma store_host_missing:
  "store_host st h m \<Longrightarrow> m k = None \<Longrightarrow> br_status (fst (c_store_get st h k cap w)) = FastlyStatusNone"
  unfolding store_host_def by (drule spec [of _ k]) simp

lemma store_has_answer:
  assumes "store_host st h m" shows "yields (store_has st h k) (m k \<noteq> None)"
  unfolding yields_def
proof
  fix w
  obtain r w' where c: "c_store_get st h k 0 w = (r, w')" by force
  have "has_status (br_status r) = Inr (m k \<noteq> None)"
  proof (cases "m k")
    case None
    then have "br_status r = FastlyStatusNone" using store_host_missing [OF assms, of k 0 w] c by simp
    then show ?thesis using None by (simp add: has_status_def)
  next
    case (Some v)
    then have "value_host (c_store_get st h k) v" by (rule store_host_found [OF assms])
    then have "br_status r = FastlyStatusOK \<or> br_status r = FastlyStatusBufLen"
      using c value_hostD_fits [of _ v 0 w r w'] value_hostD_small [of _ v 0 w r w'] by fastforce
    then show ?thesis using Some by (auto simp: has_status_def)
  qed
  then show "\<exists>w'. store_has st h k w = Some (Done (Inr (m k \<noteq> None)), w')"
    using c by (simp add: store_has_def)
qed

definition store_key :: "string \<Rightarrow> bool" where "store_key k \<longleftrightarrow> length k \<le> 765"

lemma store_key_len: "store_key k \<Longrightarrow> (of_nat (length k) :: u32) \<le> 765"
  by (simp add: store_key_def word_le_nat_alt unat_of_nat)

subsection \<open>Config stores\<close>

definition config_get :: "'w store_calls \<Rightarrow> handle option \<Rightarrow> string \<Rightarrow> ('w, (goerr + string) \<times> handle option) comp" where
  "config_get st s k = and_then (configstore_Get st s k) (\<lambda>r. finish (r, s))"

definition config_rep :: "'w store_calls \<Rightarrow> handle option \<Rightarrow> (string \<rightharpoonup> string) \<Rightarrow> bool" where
  "config_rep st s m \<longleftrightarrow> (\<exists>h. s = Some h \<and> store_host st h m)"

lemma ConfigStore_GetBytes_found:
  assumes "store_host st h m" "store_key k" "m k = Some v"
  shows "yields (ConfigStore_GetBytes st h k) v"
  using yields_buffered [OF store_host_found [OF assms(1,3)]] store_key_len [OF assms(2)]
  by (simp add: ConfigStore_GetBytes_def configstoreMaxKeyLen_def DefaultSmallBufLen_def leD)

lemma ConfigStore_GetBytes_missing:
  assumes "store_host st h m" "store_key k" "m k = None"
  shows "fails (ConfigStore_GetBytes st h k) (FastlyError FastlyStatusNone None)"
proof -
  have "fails (buffered DefaultSmallBufLen (c_store_get st h k)) (FastlyError FastlyStatusNone None)"
    by (rule buffered_status) (simp_all add: store_host_missing [OF assms(1,3)])
  then show ?thesis using store_key_len [OF assms(2)]
    by (simp add: ConfigStore_GetBytes_def configstoreMaxKeyLen_def leD)
qed

lemma config_get_answer:
  assumes "store_host st h m" "store_key k"
  shows "\<exists>w'. configstore_Get st (Some h) k w = Some (Done (answer cs_ErrKeyNotFound m k), w')"
proof (cases "m k")
  case (Some v)
  have "yields (configstore_Get st (Some h) k) v"
    unfolding configstore_Get_def configstore_GetBytes_def option.case
    by (rule yields_check_c [OF yields_check_c [OF ConfigStore_GetBytes_found [OF assms Some]]];
        rule yields_finish)
  from yieldsD [OF this] show ?thesis by (simp add: answer_def Some)
next
  case None
  have "fails (configstore_Get st (Some h) k) (id (cs_lookup_error (FastlyError FastlyStatusNone None)))"
    unfolding configstore_Get_def configstore_GetBytes_def option.case
    by (rule fails_check_c_error [OF fails_check_c_error [OF ConfigStore_GetBytes_missing [OF assms None]]])
  from failsD [OF this] show ?thesis
    by (simp add: answer_def None cs_lookup_error_def status_switch_FastlyError)
qed

interpretation cs: lookup_store "config_get st" "configstore_Has st" "config_rep st" cs_ErrKeyNotFound store_key
proof
  fix s m k w assume r: "config_rep st s m" and k: "store_key k"
  then obtain h where s: "s = Some h" "store_host st h m" by (auto simp: config_rep_def)
  from config_get_answer [OF s(2) k, of w] r s(1)
  show "\<exists>s' w'. config_get st s k w = Some (Done (answer cs_ErrKeyNotFound m k, s'), w') \<and> config_rep st s' m"
    by (auto simp: config_get_def and_then_Done)
next
  fix s m k assume "config_rep st s m"
  then obtain h where s: "s = Some h" "store_host st h m" by (auto simp: config_rep_def)
  show "yields (configstore_Has st s k) (m k \<noteq> None)"
    unfolding s(1) configstore_Has_def option.case ConfigStore_Has_def
    by (rule yields_check_c [OF store_has_answer [OF s(2)]]) (rule yields_finish)
qed

subsection \<open>Dictionaries\<close>

definition dict_rep :: "'w store_calls \<Rightarrow> Dictionary option \<Rightarrow> (string \<rightharpoonup> string) \<Rightarrow> bool" where
  "dict_rep st s m \<longleftrightarrow>
     (\<exists>d. s = Some d \<and> store_host st (di_h d) m \<and> length (di_valueBuf d) = dictionaryMaxValueLen
        \<and> (\<forall>v \<in> ran m. length v \<le> dictionaryMaxValueLen))"

lemma Dictionary_GetBytes_answer:
  assumes h: "store_host st (di_h d) m" and k: "store_key k"
    and l: "length (di_valueBuf d) = dictionaryMaxValueLen" and v: "\<forall>v \<in> ran m. length v \<le> dictionaryMaxValueLen"
  shows "\<exists>d' w'. Dictionary_GetBytes st d k w
     = Some (Done (case m k of Some v \<Rightarrow> Inr v | None \<Rightarrow> Inl (FastlyError FastlyStatusNone None), d'), w')
     \<and> di_h d' = di_h d \<and> length (di_valueBuf d') = dictionaryMaxValueLen"
proof -
  let ?b = "NewWriteBufferFromBytes (di_valueBuf d)"
  have cap: "unat (wb_Cap ?b) = dictionaryMaxValueLen"
    using l by (simp add: wb_Cap_def NewWriteBufferFromBytes_def dictionaryMaxValueLen_def unat_of_nat)
  obtain r w' where c: "c_store_get st (di_h d) k (wb_Cap ?b) w = (r, w')" by force
  let ?f = "host_fill (br_written r) (br_nwritten r) ?b"
  have key: "\<not> dictionaryMaxKeyLen < of_nat (length k)"
    using store_key_len [OF k] by (simp add: dictionaryMaxKeyLen_def leD)
  have len: "length (wb_buf ?f) = dictionaryMaxValueLen"
    using l by (simp add: NewWriteBufferFromBytes_def)
  show ?thesis
  proof (cases "m k")
    case None
    then have "br_status r = FastlyStatusNone" using store_host_missing [OF h None, of "wb_Cap ?b" w] c by simp
    with c key len None show ?thesis
      by (simp add: Dictionary_GetBytes_def Dictionary_getBytesUnlocked_def Let_def toError_def and_then_def)
  next
    case (Some x)
    then have x: "length x \<le> dictionaryMaxValueLen" using v by (auto simp: ran_def)
    from value_hostD_fits [OF store_host_found [OF h Some] _ c] x cap
    have r: "br_status r = 0" "br_written r = x" "unat (br_nwritten r) = length x" by auto
    have "wb_AsBytes ?f = Done x"
      unfolding r(2) by (rule host_fill_AsBytes) (use r(3) x l in \<open>simp_all add: NewWriteBufferFromBytes_def\<close>)
    with c key len r Some show ?thesis
      by (simp add: Dictionary_GetBytes_def Dictionary_getBytesUnlocked_def Let_def and_then_def)
  qed
qed

lemma edgedict_Get_answer:
  assumes "store_host st (di_h d) m" "store_key k" "length (di_valueBuf d) = dictionaryMaxValueLen"
    "\<forall>v \<in> ran m. length v \<le> dictionaryMaxValueLen"
  shows "\<exists>d' w'. edgedict_Get st (Some d) k w = Some (Done (answer ed_ErrKeyNotFound m k, Some d'), w')
     \<and> di_h d' = di_h d \<and> length (di_valueBuf d') = dictionaryMaxValueLen"
proof -
  obtain d' w' where 1: "Dictionary_GetBytes st d k w
     = Some (Done (case m k of Some v \<Rightarrow> Inr v | None \<Rightarrow> Inl (FastlyError FastlyStatusNone None), d'), w')"
     "di_h d' = di_h d" "length (di_valueBuf d') = dictionaryMaxValueLen"
    using Dictionary_GetBytes_answer [OF assms, of w] by auto
  then show ?thesis
    by (cases "m k") (simp_all add: edgedict_Get_def edgedict_GetBytes_def and_then_def answer_def
        ed_lookup_error_def status_switch_FastlyError)
qed

interpretation ed: lookup_store "edgedict_Get st" "edgedict_Has st" "dict_rep st" ed_ErrKeyNotFound store_key
proof
  fix s m k w assume r: "dict_rep st s m" and k: "store_key k"
  then obtain d where s: "s = Some d" "store_host st (di_h d) m" "length (di_valueBuf d) = dictionaryMaxValueLen"
    "\<forall>v \<in> ran m. length v \<le> dictionaryMaxValueLen" by (auto simp: dict_rep_def)
  from edgedict_Get_answer [OF s(2) k s(3,4), of w] s
  show "\<exists>s' w'. edgedict_Get st s k w = Some (Done (answer ed_ErrKeyNotFound m k, s'), w') \<and> dict_rep st s' m"
    by (auto simp: dict_rep_def)
next
  fix s m k assume "dict_rep st s m"
  then obtain d where s: "s = Some d" "store_host st (di_h d) m" by (auto simp: dict_rep_def)
  show "yields (edgedict_Has st s k) (m k \<noteq> None)"
    unfolding s(1) edgedict_Has_def option.case Dictionary_Has_def
    by (rule yields_check_c [OF store_has_answer [OF s(2)]]) (rule yields_finish)
qed

lemma config_lookups_same: "lookups (config_get st) s ks w = Some (Done (rs, s'), w') \<Longrightarrow> s' = s"
proof (induction ks arbitrary: s rs w w')
  case (Cons k ks)
  from and_then_mono [OF Cons.prems [unfolded lookups.simps]] obtain x w1 where
    1: "config_get st s k w = Some (Done x, w1)"
    and 2: "(case x of (r, s1) \<Rightarrow> and_then (lookups (config_get st) s1 ks) (\<lambda>(rs, s). finish (r # rs, s))) w1
        = Some (Done (rs, s'), w')" by blast
  from and_then_mono [OF 1 [unfolded config_get_def]] have "snd x = s" by auto
  with and_then_mono [OF 2 [unfolded case_prod_beta]] Cons.IH show ?case by auto
qed simp

section \<open>Properties\<close>

text \<open>
  C30: a config store and an edge dictionary over the same contents answer every sequence of
  lookups alike: the values of the keys that exist, each package's error for the others, whatever
  earlier lookups left in the dictionary's buffer; and their \<open>Has\<close> agrees with that.
\<close>

theorem config_store_dictionary_agree:
  assumes "store_host st h m" and "\<forall>v \<in> ran m. length v \<le> 24000" and "\<forall>k \<in> set ks. length k \<le> 765"
    and "length buf = 24000"
  shows "(\<exists>w1 w2 d. lookups (config_get st) (Some h) ks w = Some (Done (map (answer cs_ErrKeyNotFound m) ks, Some h), w1)
      \<and> lookups (edgedict_Get st) (Some \<lparr>di_h = h, di_valueBuf = buf\<rparr>) ks w
          = Some (Done (map (answer ed_ErrKeyNotFound m) ks, Some d), w2))
    \<and> yields (configstore_Has st (Some h) k) (m k \<noteq> None)
    \<and> yields (edgedict_Has st (Some \<lparr>di_h = h, di_valueBuf = buf\<rparr>) k) (m k \<noteq> None)"
proof -
  have c: "config_rep st (Some h) m" using assms(1) by (simp add: config_rep_def)
  have d: "dict_rep st (Some \<lparr>di_h = h, di_valueBuf = buf\<rparr>) m"
    using assms by (simp add: dict_rep_def dictionaryMaxValueLen_def)
  have k: "list_all store_key ks" using assms(3) by (simp add: list_all_iff store_key_def)
  obtain s1 w1 where 1: "lookups (config_get st) (Some h) ks w = Some (Done (map (answer cs_ErrKeyNotFound m) ks, s1), w1)"
    using cs.lookups_answer [OF c k] by blast
  obtain s2 w2 where 2: "lookups (edgedict_Get st) (Some \<lparr>di_h = h, di_valueBuf = buf\<rparr>) ks w
      = Some (Done (map (answer ed_ErrKeyNotFound m) ks, s2), w2)" "dict_rep st s2 m"
    using ed.lookups_answer [OF d k] by blast
  have "yields (configstore_Has st (Some h) k) (m k \<noteq> None)" by (rule cs.has_answer [OF c])
  moreover have "yields (edgedict_Has st (Some \<lparr>di_h = h, di_valueBuf = buf\<rparr>) k) (m k \<noteq> None)"
    by (rule ed.has_answer [OF d])
  ultimately show ?thesis using 1 2 config_lookups_same [OF 1] by (auto simp: dict_rep_def)
qed

text \<open>A host with two keys.\<close>

definition two_keys :: "string \<rightharpoonup> string" where
  "two_keys = [''color'' \<mapsto> ''green'', ''size'' \<mapsto> ''12'']"

definition two_key_store :: "unit store_calls" where
  "two_key_store =
     \<lparr>c_store_open = (\<lambda>name. accept 5),
      c_store_get = (\<lambda>h k cap. case two_keys k of
        Some v \<Rightarrow> one_value_host v cap
      | None \<Rightarrow> (\<lambda>w. (\<lparr>br_status = FastlyStatusNone, br_written = [], br_nwritten = 0\<rparr>, w)))\<rparr>"

lemma two_key_store_host: "store_host two_key_store 5 two_keys"
  by (simp add: store_host_def two_key_store_def two_keys_def value_host_one_value_host)

theorem config_store_dictionary_agree_witness:
  "\<exists>w1 w2 d. lookups (config_get two_key_store) (Some 5) [''size'', ''shape'', ''color''] ()
        = Some (Done ([Inr ''12'', Inl cs_ErrKeyNotFound, Inr ''green''], Some 5), w1)
     \<and> lookups (edgedict_Get two_key_store) (Some \<lparr>di_h = 5, di_valueBuf = replicate 24000 (CHR ''x'')\<rparr>)
          [''size'', ''shape'', ''color''] ()
        = Some (Done ([Inr ''12'', Inl ed_ErrKeyNotFound, Inr ''green''], Some d), w2)"
proof -
  have "\<forall>v \<in> ran two_keys. length v \<le> 24000" by (auto simp: two_keys_def ran_def split: if_splits)
  from config_store_dictionary_agree [OF two_key_store_host this, of "[''size'', ''shape'', ''color'']"
      "replicate 24000 (CHR ''x'')" "()" "''shape''"]
  show ?thesis by (simp add: two_keys_def answer_def del: lookups.simps)
qed

text \<open>
  what \<open>Plaintext(store, secret)\<close> returns: the plaintext when both names are found, of any
  length, and otherwise the error of the first call that failed; the secret is not read then.
\<close>

lemma secret_plaintext_outcome:
  assumes "\<And>w. fst (c_secret_open sc storeName w) = (s1, st)"
    and "\<And>w. fst (c_secret_get sc st secretName w) = (s2, sec)"
    and "s1 = FastlyStatusOK \<Longrightarrow> s2 = FastlyStatusOK \<Longrightarrow> value_host (c_secret_plaintext sc sec) v"
  shows "if s1 = FastlyStatusOK then
           (if s2 = FastlyStatusOK then yields (named_Plaintext sc storeName secretName) v
            else fails (named_Plaintext sc storeName secretName)
              (if s2 = FastlyStatusNone then ErrSecretNotFound
               else if s2 = FastlyStatusInval then ErrInvalidSecretName
               else unexpected_with ss_ErrUnexpected (FastlyStatus_String s2)))
         else fails (named_Plaintext sc storeName secretName)
              (if s1 = FastlyStatusNone then ErrSecretStoreNotFound
               else if s1 = FastlyStatusInval then ErrInvalidSecretStoreName
               else unexpected_with ss_ErrUnexpected (FastlyStatus_String s1))"
proof -
  have o: "yields (hostcall (c_secret_open sc storeName)) st" if "s1 = FastlyStatusOK"
    by (rule answers_Some [where silent = "{}"]) (use assms(1) that in \<open>simp add: answers_def\<close>)
  have oe: "fails (hostcall (c_secret_open sc storeName)) (FastlyError s1 None)" if "s1 \<noteq> FastlyStatusOK"
    by (rule answers_one) (use assms(1) that in \<open>simp_all add: answers_def\<close>)
  have g: "yields (hostcall (c_secret_get sc st secretName)) sec" if "s2 = FastlyStatusOK"
    by (rule answers_Some [where silent = "{}"]) (use assms(2) that in \<open>simp add: answers_def\<close>)
  have ge: "fails (hostcall (c_secret_get sc st secretName)) (FastlyError s2 None)" if "s2 \<noteq> FastlyStatusOK"
    by (rule answers_one) (use assms(2) that in \<open>simp_all add: answers_def\<close>)
  note defs = named_Plaintext_def secretstore_Open_def secretstore_Get_def secretstore_Plaintext_def
    OpenSecretStore_def SecretStore_Get_def Secret_Plaintext_def
  show ?thesis
  proof (cases "s1 = FastlyStatusOK")
    case False
    have "fails (named_Plaintext sc storeName secretName) (id (status_switch
        [(FastlyStatusNone, ErrSecretStoreNotFound), (FastlyStatusInval, ErrInvalidSecretStoreName)]
        (Some ss_ErrUnexpected) (FastlyError s1 None)))"
      unfolding defs by (rule fails_check_c_error [OF fails_check_c_error [OF oe [OF False]]])
    with False show ?thesis by (auto simp: status_switch_FastlyError)
  next
    case s1: True
    have opened: "yields (check_c f (hostcall (c_secret_open sc storeName)) (\<lambda>st. finish (Inr st))) st" for f
      by (rule yields_check_c [OF o [OF s1]]) (rule yields_finish)
    show ?thesis
    proof (cases "s2 = FastlyStatusOK")
      case False
      have "fails (named_Plaintext sc storeName secretName) (id (status_switch
          [(FastlyStatusNone, ErrSecretNotFound), (FastlyStatusInval, ErrInvalidSecretName)]
          (Some ss_ErrUnexpected) (FastlyError s2 None)))"
        unfolding defs
        by (rule fails_check_c [OF opened], rule fails_check_c_error, rule fails_check_c_error, rule ge [OF False])
      with s1 False show ?thesis by (auto simp: status_switch_FastlyError)
    next
      case s2: True
      have read: "yields (buffered DefaultMediumBufLen (c_secret_plaintext sc sec)) v"
        by (rule yields_buffered) (use assms(3) s1 s2 in \<open>simp_all add: DefaultMediumBufLen_def\<close>)
      have "yields (named_Plaintext sc storeName secretName) v"
        unfolding defs
        by (rule yields_check_c [OF opened], rule yields_check_c, rule yields_check_c [OF g [OF s2]],
            rule yields_finish, rule yields_check_c [OF read], rule yields_finish)
      with s1 s2 show ?thesis by simp
    qed
  qed
qed

definition one_secret :: "unit secret_calls" where
  "one_secret =
     \<lparr>c_secret_open = (\<lambda>name. accept 5), c_secret_get = (\<lambda>h k. accept 6),
      c_secret_plaintext = (\<lambda>h. one_value_host ''hunter2''), c_secret_from_bytes = (\<lambda>b. accept 7)\<rparr>"

lemma secret_plaintext_outcome_instance:
  "yields (named_Plaintext one_secret ''vault'' ''password'') ''hunter2''"
  using secret_plaintext_outcome [of one_secret "''vault''" FastlyStatusOK 5 "''password''" FastlyStatusOK 6 "''hunter2''"]
  by (simp add: one_secret_def accept_def value_host_one_value_host)

end
