(* ===== verification/CoreCacheABI.thy ===== *)
theory CoreCacheABI
  imports HttpCacheABI Durations
begin

text \<open>
  The hostcalls of the core cache (\<open>internal/abi/fastly/cache_guest.go\<close>): the option blocks of
  lookups, writes, body reads and purges with their masks, and one definition per call.  An entry
  is its handle.
\<close>

section \<open>Option blocks\<close>

definition cacheLookupOptionsMaskReserved :: u32 where [simp]: "cacheLookupOptionsMaskReserved = 1"
definition cacheLookupOptionsMaskRequestHeaders :: u32 where [simp]: "cacheLookupOptionsMaskRequestHeaders = 2"
definition cacheLookupOptionsMaskAlwaysUseRequestedRange :: u32 where
  [simp]: "cacheLookupOptionsMaskAlwaysUseRequestedRange = 8"

record CacheLookupOptions =
  cl_requestHeaders :: handle
  cl_mask :: u32

definition zero_lookup_block :: CacheLookupOptions where
  "zero_lookup_block = \<lparr>cl_requestHeaders = 0, cl_mask = 0\<rparr>"

definition cl_SetRequest :: "handle \<Rightarrow> CacheLookupOptions \<Rightarrow> CacheLookupOptions" where
  "cl_SetRequest req blk = blk\<lparr>cl_requestHeaders := req, cl_mask := cl_mask blk OR cacheLookupOptionsMaskRequestHeaders\<rparr>"

definition cl_SetAlwaysUseRequestedRange :: "bool \<Rightarrow> CacheLookupOptions \<Rightarrow> CacheLookupOptions" where
  "cl_SetAlwaysUseRequestedRange v blk =
     (if v then blk\<lparr>cl_mask := cl_mask blk OR cacheLookupOptionsMaskAlwaysUseRequestedRange\<rparr>
      else blk\<lparr>cl_mask := cl_mask blk AND NOT cacheLookupOptionsMaskAlwaysUseRequestedRange\<rparr>)"

definition cacheGetBodyOptionsMaskReserved :: u32 where [simp]: "cacheGetBodyOptionsMaskReserved = 1"
definition cacheGetBodyOptionsMaskFrom :: u32 where [simp]: "cacheGetBodyOptionsMaskFrom = 2"
definition cacheGetBodyOptionsMaskTo :: u32 where [simp]: "cacheGetBodyOptionsMaskTo = 4"

record CacheGetBodyOptions =
  gb_from :: u64
  gb_to :: u64
  gb_mask :: u32

definition zero_body_block :: CacheGetBodyOptions where
  "zero_body_block = \<lparr>gb_from = 0, gb_to = 0, gb_mask = 0\<rparr>"

definition gb_From :: "u64 \<Rightarrow> CacheGetBodyOptions \<Rightarrow> CacheGetBodyOptions" where
  "gb_From v blk = blk\<lparr>gb_from := v, gb_mask := gb_mask blk OR cacheGetBodyOptionsMaskFrom\<rparr>"

definition gb_To :: "u64 \<Rightarrow> CacheGetBodyOptions \<Rightarrow> CacheGetBodyOptions" where
  "gb_To v blk = blk\<lparr>gb_to := v, gb_mask := gb_mask blk OR cacheGetBodyOptionsMaskTo\<rparr>"

definition cacheWriteOptionsMaskReserved :: u32 where [simp]: "cacheWriteOptionsMaskReserved = 1"
definition cacheWriteOptionsMaskRequestHeaders :: u32 where [simp]: "cacheWriteOptionsMaskRequestHeaders = 2"
definition cacheWriteOptionsMaskVaryRule :: u32 where [simp]: "cacheWriteOptionsMaskVaryRule = 4"
definition cacheWriteOptionsMaskInitialAgeNs :: u32 where [simp]: "cacheWriteOptionsMaskInitialAgeNs = 8"
definition cacheWriteOptionsMaskStaleWhileRevalidateNs :: u32 where
  [simp]: "cacheWriteOptionsMaskStaleWhileRevalidateNs = 16"
definition cacheWriteOptionsMaskSurrogateKeys :: u32 where [simp]: "cacheWriteOptionsMaskSurrogateKeys = 32"
definition cacheWriteOptionsMaskLength :: u32 where [simp]: "cacheWriteOptionsMaskLength = 64"
definition cacheWriteOptionsMaskUserMetadata :: u32 where [simp]: "cacheWriteOptionsMaskUserMetadata = 128"
definition cacheWriteOptionsMaskSensitiveData :: u32 where [simp]: "cacheWriteOptionsMaskSensitiveData = 256"

record CacheWriteOptions =
  wo_maxAgeNs :: u64
  wo_requestHeaders :: handle
  wo_varyRule :: sent_string
  wo_initialAgeNs :: u64
  wo_staleWhileRevalidateNs :: u64
  wo_surrogateKeys :: sent_string
  wo_length :: u64
  wo_userMetadata :: sent_string
  wo_mask :: u32

definition zero_write_block :: CacheWriteOptions where
  "zero_write_block =
     \<lparr>wo_maxAgeNs = 0, wo_requestHeaders = 0, wo_varyRule = ([], 0), wo_initialAgeNs = 0,
      wo_staleWhileRevalidateNs = 0, wo_surrogateKeys = ([], 0), wo_length = 0,
      wo_userMetadata = ([], 0), wo_mask = 0\<rparr>"

text \<open>A duration in a 64-bit field: a negative one wraps around.\<close>

definition u64_ns :: "Duration \<Rightarrow> u64" where
  "u64_ns d = of_int d"

definition ns_duration :: "u64 \<Rightarrow> Duration" where
  "ns_duration v = sint v"

lemma u64_ns_exact: "0 \<le> d \<Longrightarrow> d < 2 ^ 63 \<Longrightarrow> uint (u64_ns d) = d"
  by (simp add: u64_ns_def uint_word_of_int)

lemma ns_duration_u64: "- (2 ^ 63) \<le> d \<Longrightarrow> d < 2 ^ 63 \<Longrightarrow> ns_duration (u64_ns d) = d"
proof -
  assume "- (2 ^ 63) \<le> d" "d < 2 ^ 63"
  then have "signed_take_bit 63 d = d" by (intro signed_take_bit_int_eq_self) auto
  then show ?thesis by (simp add: ns_duration_def u64_ns_def sint_sbintrunc')
qed

definition wo_MaxAge :: "Duration \<Rightarrow> CacheWriteOptions \<Rightarrow> CacheWriteOptions" where
  "wo_MaxAge v blk = blk\<lparr>wo_maxAgeNs := u64_ns v\<rparr>"

definition wo_SetRequest :: "handle \<Rightarrow> CacheWriteOptions \<Rightarrow> CacheWriteOptions" where
  "wo_SetRequest req blk = blk\<lparr>wo_requestHeaders := req, wo_mask := wo_mask blk OR cacheWriteOptionsMaskRequestHeaders\<rparr>"

definition wo_Vary :: "string list \<Rightarrow> CacheWriteOptions \<Rightarrow> CacheWriteOptions" where
  "wo_Vary v blk = blk\<lparr>wo_varyRule := send_string (str_join '' '' v), wo_mask := wo_mask blk OR cacheWriteOptionsMaskVaryRule\<rparr>"

definition wo_InitialAge :: "Duration \<Rightarrow> CacheWriteOptions \<Rightarrow> CacheWriteOptions" where
  "wo_InitialAge v blk = blk\<lparr>wo_initialAgeNs := u64_ns v, wo_mask := wo_mask blk OR cacheWriteOptionsMaskInitialAgeNs\<rparr>"

definition wo_StaleWhileRevalidate :: "Duration \<Rightarrow> CacheWriteOptions \<Rightarrow> CacheWriteOptions" where
  "wo_StaleWhileRevalidate v blk =
     blk\<lparr>wo_staleWhileRevalidateNs := u64_ns v, wo_mask := wo_mask blk OR cacheWriteOptionsMaskStaleWhileRevalidateNs\<rparr>"

definition wo_SurrogateKeys :: "string list \<Rightarrow> CacheWriteOptions \<Rightarrow> CacheWriteOptions" where
  "wo_SurrogateKeys v blk =
     blk\<lparr>wo_surrogateKeys := send_string (str_join '' '' v), wo_mask := wo_mask blk OR cacheWriteOptionsMaskSurrogateKeys\<rparr>"

definition wo_ContentLength :: "u64 \<Rightarrow> CacheWriteOptions \<Rightarrow> CacheWriteOptions" where
  "wo_ContentLength v blk = blk\<lparr>wo_length := v, wo_mask := wo_mask blk OR cacheWriteOptionsMaskLength\<rparr>"

definition wo_UserMetadata :: "string \<Rightarrow> CacheWriteOptions \<Rightarrow> CacheWriteOptions" where
  "wo_UserMetadata v blk =
     blk\<lparr>wo_userMetadata := send_string v, wo_mask := wo_mask blk OR cacheWriteOptionsMaskUserMetadata\<rparr>"

definition wo_SensitiveData :: "bool \<Rightarrow> CacheWriteOptions \<Rightarrow> CacheWriteOptions" where
  "wo_SensitiveData v blk =
     (if v then blk\<lparr>wo_mask := wo_mask blk OR cacheWriteOptionsMaskSensitiveData\<rparr>
      else blk\<lparr>wo_mask := wo_mask blk AND NOT cacheWriteOptionsMaskSensitiveData\<rparr>)"

definition purgeOptionsMaskSoftPurge :: u32 where [simp]: "purgeOptionsMaskSoftPurge = 1"
definition purgeOptionsMaskRetBuf :: u32 where [simp]: "purgeOptionsMaskRetBuf = 2"

text \<open>The return buffer of a purge is never set by the SDK; only the mask is kept.\<close>

record abi_PurgeOptions =
  pu_mask :: u32

definition SoftPurge :: "bool \<Rightarrow> abi_PurgeOptions \<Rightarrow> abi_PurgeOptions" where
  "SoftPurge v blk =
     (if v then blk\<lparr>pu_mask := pu_mask blk OR purgeOptionsMaskSoftPurge\<rparr>
      else blk\<lparr>pu_mask := pu_mask blk AND NOT purgeOptionsMaskSoftPurge\<rparr>)"

interpretation cl_req: masked_option cl_mask cacheLookupOptionsMaskRequestHeaders cl_SetRequest cl_requestHeaders "\<lambda>_. True"
  by unfold_locales (simp_all add: cl_SetRequest_def)

interpretation cl_range: flag_option cl_mask cacheLookupOptionsMaskAlwaysUseRequestedRange cl_SetAlwaysUseRequestedRange
  by unfold_locales (simp_all add: cl_SetAlwaysUseRequestedRange_def)

interpretation gb_f: masked_option gb_mask cacheGetBodyOptionsMaskFrom gb_From gb_from "\<lambda>_. True"
  by unfold_locales (simp_all add: gb_From_def)

interpretation gb_t: masked_option gb_mask cacheGetBodyOptionsMaskTo gb_To gb_to "\<lambda>_. True"
  by unfold_locales (simp_all add: gb_To_def)

interpretation wo_req: masked_option wo_mask cacheWriteOptionsMaskRequestHeaders wo_SetRequest wo_requestHeaders "\<lambda>_. True"
  by unfold_locales (simp_all add: wo_SetRequest_def)

interpretation wo_age: masked_option wo_mask cacheWriteOptionsMaskInitialAgeNs wo_InitialAge
    "\<lambda>blk. ns_duration (wo_initialAgeNs blk)" "\<lambda>d. - (2 ^ 63) \<le> d \<and> d < 2 ^ 63"
  by unfold_locales (simp_all add: wo_InitialAge_def ns_duration_u64)

interpretation wo_swr: masked_option wo_mask cacheWriteOptionsMaskStaleWhileRevalidateNs wo_StaleWhileRevalidate
    "\<lambda>blk. ns_duration (wo_staleWhileRevalidateNs blk)" "\<lambda>d. - (2 ^ 63) \<le> d \<and> d < 2 ^ 63"
  by unfold_locales (simp_all add: wo_StaleWhileRevalidate_def ns_duration_u64)

interpretation wo_len: masked_option wo_mask cacheWriteOptionsMaskLength wo_ContentLength wo_length "\<lambda>_. True"
  by unfold_locales (simp_all add: wo_ContentLength_def)

interpretation wo_meta: masked_option wo_mask cacheWriteOptionsMaskUserMetadata wo_UserMetadata
    "\<lambda>blk. received (wo_userMetadata blk)" sized
  by unfold_locales (simp_all add: wo_UserMetadata_def)

interpretation wo_sens: flag_option wo_mask cacheWriteOptionsMaskSensitiveData wo_SensitiveData
  by unfold_locales (simp_all add: wo_SensitiveData_def)

interpretation pu_soft: flag_option pu_mask purgeOptionsMaskSoftPurge SoftPurge
  by unfold_locales (simp_all add: SoftPurge_def)

section \<open>Hostcalls\<close>

record 'w core_calls =
  c_cache_lookup :: "string \<Rightarrow> CacheLookupOptions \<Rightarrow> ('w, FastlyStatus \<times> handle) prog"
  c_cache_insert :: "string \<Rightarrow> CacheWriteOptions \<Rightarrow> ('w, FastlyStatus \<times> handle) prog"
  c_cache_tx_lookup :: "string \<Rightarrow> CacheLookupOptions \<Rightarrow> ('w, FastlyStatus \<times> handle) prog"
  c_cache_tx_insert :: "handle \<Rightarrow> CacheWriteOptions \<Rightarrow> ('w, FastlyStatus \<times> handle) prog"
  c_cache_tx_insert_back :: "handle \<Rightarrow> CacheWriteOptions \<Rightarrow> ('w, FastlyStatus \<times> handle \<times> handle) prog"
  c_cache_tx_update :: "handle \<Rightarrow> CacheWriteOptions \<Rightarrow> ('w, FastlyStatus \<times> unit) prog"
  c_cache_tx_cancel :: "handle \<Rightarrow> ('w, FastlyStatus \<times> unit) prog"
  c_cache_close :: "handle \<Rightarrow> ('w, FastlyStatus \<times> unit) prog"
  c_cache_get_state :: "handle \<Rightarrow> ('w, FastlyStatus \<times> u32) prog"
  c_cache_get_user_metadata :: "handle \<Rightarrow> u32 \<Rightarrow> ('w, buf_reply) prog"
  c_cache_get_body :: "handle \<Rightarrow> CacheGetBodyOptions \<Rightarrow> ('w, FastlyStatus \<times> handle) prog"
  c_cache_get_length :: "handle \<Rightarrow> ('w, FastlyStatus \<times> u64) prog"
  c_cache_get_max_age_ns :: "handle \<Rightarrow> ('w, FastlyStatus \<times> u64) prog"
  c_cache_get_swr_ns :: "handle \<Rightarrow> ('w, FastlyStatus \<times> u64) prog"
  c_cache_get_age_ns :: "handle \<Rightarrow> ('w, FastlyStatus \<times> u64) prog"
  c_cache_get_hits :: "handle \<Rightarrow> ('w, FastlyStatus \<times> u64) prog"
  c_purge_surrogate_key :: "string \<Rightarrow> abi_PurgeOptions \<Rightarrow> ('w, FastlyStatus \<times> unit) prog"

definition closable_body :: "handle \<Rightarrow> HTTPBody" where
  "closable_body h = \<lparr>b_h = h, b_closable = True\<rparr>"

definition CacheLookup :: "'w core_calls \<Rightarrow> string \<Rightarrow> CacheLookupOptions \<Rightarrow> ('w, goerr + handle) comp" where
  "CacheLookup cc key opts = hostcall (c_cache_lookup cc key opts)"

definition CacheInsert :: "'w core_calls \<Rightarrow> string \<Rightarrow> CacheWriteOptions \<Rightarrow> ('w, goerr + HTTPBody) comp" where
  "CacheInsert cc key opts = map_result closable_body (hostcall (c_cache_insert cc key opts))"

definition CacheTransactionLookup :: "'w core_calls \<Rightarrow> string \<Rightarrow> CacheLookupOptions \<Rightarrow> ('w, goerr + handle) comp" where
  "CacheTransactionLookup cc key opts = hostcall (c_cache_tx_lookup cc key opts)"

definition CacheEntry_Insert :: "'w core_calls \<Rightarrow> handle \<Rightarrow> CacheWriteOptions \<Rightarrow> ('w, goerr + HTTPBody) comp" where
  "CacheEntry_Insert cc h opts = map_result closable_body (hostcall (c_cache_tx_insert cc h opts))"

definition CacheEntry_InsertAndStreamBack ::
  "'w core_calls \<Rightarrow> handle \<Rightarrow> CacheWriteOptions \<Rightarrow> ('w, goerr + HTTPBody \<times> handle) comp" where
  "CacheEntry_InsertAndStreamBack cc h opts =
     map_result (\<lambda>(body, entry). (closable_body body, entry)) (hostcall (c_cache_tx_insert_back cc h opts))"

definition CacheEntry_Update :: "'w core_calls \<Rightarrow> handle \<Rightarrow> CacheWriteOptions \<Rightarrow> ('w, goerr + unit) comp" where
  "CacheEntry_Update cc h opts = hostcall (c_cache_tx_update cc h opts)"

definition CacheEntry_Cancel :: "'w core_calls \<Rightarrow> handle \<Rightarrow> ('w, goerr + unit) comp" where
  "CacheEntry_Cancel cc h = hostcall (c_cache_tx_cancel cc h)"

definition CacheEntry_Close :: "'w core_calls \<Rightarrow> handle \<Rightarrow> ('w, goerr + unit) comp" where
  "CacheEntry_Close cc h = hostcall (c_cache_close cc h)"

definition CacheEntry_State :: "'w core_calls \<Rightarrow> handle \<Rightarrow> ('w, goerr + u32) comp" where
  "CacheEntry_State cc h = hostcall (c_cache_get_state cc h)"

definition CacheEntry_UserMetadata :: "'w core_calls \<Rightarrow> handle \<Rightarrow> ('w, goerr + string) comp" where
  "CacheEntry_UserMetadata cc h = buffered DefaultMediumBufLen (c_cache_get_user_metadata cc h)"

definition CacheEntry_Body :: "'w core_calls \<Rightarrow> handle \<Rightarrow> CacheGetBodyOptions \<Rightarrow> ('w, goerr + HTTPBody) comp" where
  "CacheEntry_Body cc h opts = map_result closable_body (hostcall (c_cache_get_body cc h opts))"

definition CacheEntry_Length :: "'w core_calls \<Rightarrow> handle \<Rightarrow> ('w, goerr + u64) comp" where
  "CacheEntry_Length cc h = map_result id (hostcall (c_cache_get_length cc h))"

definition CacheEntry_MaxAge :: "'w core_calls \<Rightarrow> handle \<Rightarrow> ('w, goerr + Duration) comp" where
  "CacheEntry_MaxAge cc h = map_result ns_duration (hostcall (c_cache_get_max_age_ns cc h))"

definition CacheEntry_StaleWhileRevalidate :: "'w core_calls \<Rightarrow> handle \<Rightarrow> ('w, goerr + Duration) comp" where
  "CacheEntry_StaleWhileRevalidate cc h = map_result ns_duration (hostcall (c_cache_get_swr_ns cc h))"

definition CacheEntry_Age :: "'w core_calls \<Rightarrow> handle \<Rightarrow> ('w, goerr + Duration) comp" where
  "CacheEntry_Age cc h = map_result ns_duration (hostcall (c_cache_get_age_ns cc h))"

definition CacheEntry_Hits :: "'w core_calls \<Rightarrow> handle \<Rightarrow> ('w, goerr + u64) comp" where
  "CacheEntry_Hits cc h = map_result id (hostcall (c_cache_get_hits cc h))"

definition abi_PurgeSurrogateKey :: "'w core_calls \<Rightarrow> string \<Rightarrow> abi_PurgeOptions \<Rightarrow> ('w, goerr + unit) comp" where
  "abi_PurgeSurrogateKey cc key opts = hostcall (c_purge_surrogate_key cc key opts)"

section \<open>Purging by surrogate key\<close>

text \<open>\<open>purge.PurgeSurrogateKey\<close>: the option is whether the purge is soft.\<close>

definition PurgeSurrogateKey :: "'w core_calls \<Rightarrow> string \<Rightarrow> bool \<Rightarrow> ('w, goerr + unit) comp" where
  "PurgeSurrogateKey cc key soft = abi_PurgeSurrogateKey cc key (SoftPurge soft \<lparr>pu_mask = 0\<rparr>)"

end
