(* ===== verification/CoreCache.thy ===== *)
theory CoreCache
  imports CoreCacheABI BodyReading
begin

text \<open>
  The core cache (\<open>cache/core/core.go\<close>): lookups and inserts outside a transaction, transactions
  with their obligation to insert or update, and the objects found.
\<close>

section \<open>Errors\<close>

definition cc_ErrNotFound :: goerr where "cc_ErrNotFound = Sentinel ''core'' ''cache: object not found''"
definition cc_ErrInvalidArgument :: goerr where "cc_ErrInvalidArgument = Sentinel ''core'' ''cache: invalid argument''"
definition cc_ErrInvalidOperation :: goerr where "cc_ErrInvalidOperation = Sentinel ''core'' ''cache: invalid operation''"
definition cc_ErrLimitExceeded :: goerr where
  "cc_ErrLimitExceeded = Sentinel ''core'' ''cache: operation limit exceeded''"
definition cc_ErrUnsupported :: goerr where "cc_ErrUnsupported = Sentinel ''core'' ''cache: operation not supported''"
definition cc_ErrUnexpected :: goerr where "cc_ErrUnexpected = Sentinel ''core'' ''cache: unexpected error''"

definition cc_mapFastlyError :: "goerr \<Rightarrow> goerr" where
  "cc_mapFastlyError = status_switch
     [(FastlyStatusNone, cc_ErrNotFound), (FastlyStatusInval, cc_ErrInvalidArgument),
      (FastlyStatusLimitExceeded, cc_ErrLimitExceeded), (FastlyStatusBadf, cc_ErrInvalidOperation),
      (FastlyStatusUnsupported, cc_ErrUnsupported)] (Some cc_ErrUnexpected)"

text \<open>Mapping an error twice, as \<open>Found\<close> of a transaction does, is mapping it once.\<close>

lemma cc_mapFastlyError_final: "is_fastly (cc_mapFastlyError e) = None"
proof (cases "is_fastly e")
  case None
  then show ?thesis by (simp add: cc_mapFastlyError_def status_switch_def IsFastlyError_Some)
next
  case (Some s)
  then show ?thesis
    by (simp add: cc_mapFastlyError_def status_switch_def IsFastlyError_Some unexpected_with_def
        cc_ErrNotFound_def cc_ErrInvalidArgument_def cc_ErrLimitExceeded_def cc_ErrInvalidOperation_def
        cc_ErrUnsupported_def cc_ErrUnexpected_def)
qed

lemma cc_mapFastlyError_other: "is_fastly e = None \<Longrightarrow> cc_mapFastlyError e = e"
  by (simp add: cc_mapFastlyError_def status_switch_def IsFastlyError_Some)

lemma cc_mapFastlyError_idem [simp]: "cc_mapFastlyError (cc_mapFastlyError e) = cc_mapFastlyError e"
  by (rule cc_mapFastlyError_other) (rule cc_mapFastlyError_final)

section \<open>Options\<close>

record LookupOptions =
  lo_RequestHeaders :: "Header option"
  lo_From :: u64
  lo_To :: u64
  lo_LegacyReturnWholeBody :: bool

definition zero_LookupOptions :: LookupOptions where
  "zero_LookupOptions = \<lparr>lo_RequestHeaders = None, lo_From = 0, lo_To = 0, lo_LegacyReturnWholeBody = False\<rparr>"

record WriteOptions =
  wp_TTL :: Duration
  wp_RequestHeaders :: Header
  wp_Vary :: "string list"
  wp_InitialAge :: Duration
  wp_StaleWhileRevalidate :: Duration
  wp_SurrogateKeys :: "string list"
  wp_Length :: u64
  wp_UserMetadata :: string
  wp_SensitiveData :: bool

definition requestHeadersBody :: "'w http_calls \<Rightarrow> Header \<Rightarrow> ('w, goerr + handle) comp" where
  "requestHeadersBody host h =
     check_c id (NewHTTPRequest host) (\<lambda>req.
     check_c (annotate ''set headers'')
       (each_c (\<lambda>key. HTTPRequest_SetHeaderValues host req key (Header_Values h key)) (Header_Keys h))
       (\<lambda>_. finish (Inr req)))"

definition abiLookupOptions :: "'w http_calls \<Rightarrow> LookupOptions \<Rightarrow> ('w, goerr + CacheLookupOptions) comp" where
  "abiLookupOptions host opts =
     (let range = cl_SetAlwaysUseRequestedRange (\<not> lo_LegacyReturnWholeBody opts) in
      case lo_RequestHeaders opts of
        Some h \<Rightarrow> check_c id (requestHeadersBody host h)
          (\<lambda>req. finish (Inr (range (cl_SetRequest req zero_lookup_block))))
      | None \<Rightarrow> finish (Inr (range zero_lookup_block)))"

text \<open>The fields after the request headers, in the order of the code.\<close>

definition write_fields :: "WriteOptions \<Rightarrow> CacheWriteOptions \<Rightarrow> CacheWriteOptions" where
  "write_fields opts wopts =
     (let wopts = (if wp_Vary opts \<noteq> [] then wo_Vary (wp_Vary opts) wopts else wopts);
          wopts = (if 0 < wp_InitialAge opts then wo_InitialAge (wp_InitialAge opts) wopts else wopts);
          wopts = (if 0 < wp_StaleWhileRevalidate opts
                   then wo_StaleWhileRevalidate (wp_StaleWhileRevalidate opts) wopts else wopts);
          wopts = (if wp_SurrogateKeys opts \<noteq> [] then wo_SurrogateKeys (wp_SurrogateKeys opts) wopts else wopts);
          wopts = (if 0 < wp_Length opts then wo_ContentLength (wp_Length opts) wopts else wopts);
          wopts = (if wp_UserMetadata opts \<noteq> [] then wo_UserMetadata (wp_UserMetadata opts) wopts else wopts)
      in wo_SensitiveData (wp_SensitiveData opts) wopts)"

definition abiWriteOptions :: "'w http_calls \<Rightarrow> WriteOptions \<Rightarrow> ('w, goerr + CacheWriteOptions) comp" where
  "abiWriteOptions host opts =
     (let wopts = wo_MaxAge (wp_TTL opts) zero_write_block in
      if wp_RequestHeaders opts \<noteq> [] then
        check_c id (requestHeadersBody host (wp_RequestHeaders opts))
          (\<lambda>req. finish (Inr (write_fields opts (wo_SetRequest req wopts))))
      else finish (Inr (write_fields opts wopts)))"

section \<open>Objects found\<close>

text \<open>The body of an object is wrapped: a nil body (\<open>None\<close>) reads as empty.\<close>

record Found =
  fo_abiEntry :: handle
  fo_state :: u32
  fo_userMetadata :: "string option"
  fo_Key :: string
  fo_TTL :: Duration
  fo_Length :: u64
  fo_Age :: Duration
  fo_StaleWhileRevalidate :: Duration
  fo_Hits :: u64
  fo_Body :: "HTTPBody option"

definition range_block :: "u64 \<Rightarrow> u64 \<Rightarrow> CacheGetBodyOptions" where
  "range_block from to =
     (let bopts = zero_body_block;
          bopts = (if 0 < from then gb_From from bopts else bopts);
          bopts = (if 0 < to then gb_To to bopts else bopts)
      in bopts)"

definition newFound :: "'w core_calls \<Rightarrow> string \<Rightarrow> handle \<Rightarrow> u32 \<Rightarrow> LookupOptions \<Rightarrow> ('w, goerr + Found) comp" where
  "newFound cc key e state opts =
     check_c cc_mapFastlyError (tolerate ignoreNoneError 0 (CacheEntry_MaxAge cc e)) (\<lambda>ttl.
     check_c cc_mapFastlyError (tolerate ignoreNoneError 0 (CacheEntry_Length cc e)) (\<lambda>len.
     check_c cc_mapFastlyError (tolerate ignoreNoneError 0 (CacheEntry_Age cc e)) (\<lambda>age.
     check_c cc_mapFastlyError (tolerate ignoreNoneError 0 (CacheEntry_StaleWhileRevalidate cc e)) (\<lambda>swr.
     check_c cc_mapFastlyError (tolerate ignoreNoneError 0 (CacheEntry_Hits cc e)) (\<lambda>hits.
     check_c cc_mapFastlyError
       (tolerate ignoreNoneError None
          (map_result Some (CacheEntry_Body cc e (range_block (lo_From opts) (lo_To opts))))) (\<lambda>body.
     finish (Inr \<lparr>fo_abiEntry = e, fo_state = state, fo_userMetadata = None, fo_Key = key, fo_TTL = ttl,
                  fo_Length = len, fo_Age = age, fo_StaleWhileRevalidate = swr, fo_Hits = hits,
                  fo_Body = body\<rparr>)))))))"

definition Found_Stale :: "Found \<Rightarrow> bool" where
  "Found_Stale f \<longleftrightarrow> fo_state f AND CacheLookupStateStale \<noteq> 0"

definition Found_Usable :: "Found \<Rightarrow> bool" where
  "Found_Usable f \<longleftrightarrow> fo_state f AND CacheLookupStateUsable \<noteq> 0"

text \<open>The metadata is read once; metadata that is not there stays nil and is asked for again.\<close>

definition Found_UserMetadata ::
  "'w core_calls \<Rightarrow> Found \<Rightarrow> ('w, (goerr + string option) \<times> Found) comp" where
  "Found_UserMetadata cc f =
     (case fo_userMetadata f of
        Some m \<Rightarrow> finish (Inr (Some m), f)
      | None \<Rightarrow>
          try_c (tolerate ignoreNoneError None (map_result Some (CacheEntry_UserMetadata cc (fo_abiEntry f))))
            (\<lambda>e. finish (Inl (cc_mapFastlyError e), f))
            (\<lambda>m. finish (Inr m, f\<lparr>fo_userMetadata := m\<rparr>)))"

definition range_error :: "u64 \<Rightarrow> u64 \<Rightarrow> goerr" where
  "range_error from to =
     Text (''GetRange from ('' @ nat_str (unat from) @ '') > to ('' @ nat_str (unat to) @ '')'')"

definition Found_GetRange :: "'w core_calls \<Rightarrow> Found \<Rightarrow> u64 \<Rightarrow> u64 \<Rightarrow> ('w, goerr + HTTPBody option) comp" where
  "Found_GetRange cc f from to =
     (let bopts = range_block from to in
      if to \<noteq> 0 \<and> to < from then finish (Inl (range_error from to))
      else check_c cc_mapFastlyError
             (tolerate ignoreNoneError None (map_result Some (CacheEntry_Body cc (fo_abiEntry f) bopts)))
             (\<lambda>body. finish (Inr body)))"

definition wrapper_Read :: "'w http_calls \<Rightarrow> HTTPBody option \<Rightarrow> nat \<Rightarrow> ('w, goerr + string) comp" where
  "wrapper_Read host b n = (case b of None \<Rightarrow> finish (Inl EOF) | Some abiBody \<Rightarrow> HTTPBody_Read host abiBody n)"

text \<open>
  \<open>io.Copy(io.Discard, body)\<close> reads the body to its end in steps of 8 KiB and drops it; the
  wrapper has no body afterwards.
\<close>

definition wrapper_Close ::
  "'w http_calls \<Rightarrow> HTTPBody option \<Rightarrow> ('w, (goerr + unit) \<times> HTTPBody option) comp" where
  "wrapper_Close host b =
     (case b of
        None \<Rightarrow> finish (Inr (), None)
      | Some abiBody \<Rightarrow>
          drop_error (ReadAll host (\<lambda>_. 8192) abiBody)
          (and_then (HTTPBody_Close host abiBody) (\<lambda>r. finish (r, None))))"

section \<open>Outside a transaction\<close>

definition core_Lookup ::
  "'w http_calls \<Rightarrow> 'w core_calls \<Rightarrow> string \<Rightarrow> LookupOptions \<Rightarrow> ('w, goerr + Found) comp" where
  "core_Lookup host cc key opts =
     check_c id (abiLookupOptions host opts) (\<lambda>abiOpts.
     check_c cc_mapFastlyError (CacheLookup cc key abiOpts) (\<lambda>e.
     try_c (CacheEntry_State cc e)
       (\<lambda>err. drop_error (CacheEntry_Close cc e) (finish (Inl (cc_mapFastlyError err))))
       (\<lambda>state.
         if state AND CacheLookupStateFound = 0
         then drop_error (CacheEntry_Close cc e) (finish (Inl cc_ErrNotFound))
         else try_c (newFound cc key e state opts)
                (\<lambda>err. drop_error (CacheEntry_Close cc e) (finish (Inl err)))
                (\<lambda>f. finish (Inr f)))))"

definition core_Insert ::
  "'w http_calls \<Rightarrow> 'w core_calls \<Rightarrow> string \<Rightarrow> WriteOptions \<Rightarrow> ('w, goerr + HTTPBody) comp" where
  "core_Insert host cc key opts =
     check_c id (abiWriteOptions host opts) (\<lambda>wopts.
     check_c cc_mapFastlyError (CacheInsert cc key wopts) (\<lambda>wca. finish (Inr wca)))"

section \<open>Transactions\<close>

record Transaction =
  tx_abiEntry :: handle
  tx_key :: string
  tx_state :: u32
  tx_opts :: LookupOptions
  tx_found :: "Found option"
  tx_ended :: bool

definition NewTransaction ::
  "'w http_calls \<Rightarrow> 'w core_calls \<Rightarrow> string \<Rightarrow> LookupOptions \<Rightarrow> ('w, goerr + Transaction) comp" where
  "NewTransaction host cc key opts =
     check_c id (abiLookupOptions host opts) (\<lambda>abiOpts.
     check_c cc_mapFastlyError (CacheTransactionLookup cc key abiOpts) (\<lambda>e.
     try_c (CacheEntry_State cc e)
       (\<lambda>err. drop_error (CacheEntry_Close cc e) (finish (Inl (cc_mapFastlyError err))))
       (\<lambda>state. finish (Inr \<lparr>tx_abiEntry = e, tx_key = key, tx_state = state, tx_opts = opts,
                             tx_found = None, tx_ended = False\<rparr>))))"

definition Transaction_Found ::
  "'w core_calls \<Rightarrow> Transaction \<Rightarrow> ('w, (goerr + Found) \<times> Transaction) comp" where
  "Transaction_Found cc t =
     (if tx_state t AND CacheLookupStateFound = 0 then finish (Inl cc_ErrNotFound, t)
      else case tx_found t of
        Some f \<Rightarrow> finish (Inr f, t)
      | None \<Rightarrow>
          try_c (newFound cc (tx_key t) (tx_abiEntry t) (tx_state t) (tx_opts t))
            (\<lambda>err. finish (Inl (cc_mapFastlyError err), t))
            (\<lambda>f. finish (Inr f, t\<lparr>tx_found := Some f\<rparr>)))"

definition Transaction_MustInsert :: "Transaction \<Rightarrow> bool" where
  "Transaction_MustInsert t \<longleftrightarrow>
     tx_state t AND CacheLookupStateFound = 0 \<and> tx_state t AND CacheLookupStateMustInsertOrUpdate \<noteq> 0"

definition Transaction_MustInsertOrUpdate :: "Transaction \<Rightarrow> bool" where
  "Transaction_MustInsertOrUpdate t \<longleftrightarrow> tx_state t AND CacheLookupStateMustInsertOrUpdate \<noteq> 0"

definition Transaction_Insert ::
  "'w http_calls \<Rightarrow> 'w core_calls \<Rightarrow> Transaction \<Rightarrow> WriteOptions \<Rightarrow> ('w, goerr + HTTPBody) comp" where
  "Transaction_Insert host cc t opts =
     check_c id (abiWriteOptions host opts) (\<lambda>wopts.
     check_c cc_mapFastlyError (CacheEntry_Insert cc (tx_abiEntry t) wopts) (\<lambda>wca. finish (Inr wca)))"

definition Transaction_InsertAndStreamBack ::
  "'w http_calls \<Rightarrow> 'w core_calls \<Rightarrow> Transaction \<Rightarrow> WriteOptions \<Rightarrow> ('w, goerr + HTTPBody \<times> Found) comp" where
  "Transaction_InsertAndStreamBack host cc t opts =
     check_c id (abiWriteOptions host opts) (\<lambda>wopts.
     check_c cc_mapFastlyError (CacheEntry_InsertAndStreamBack cc (tx_abiEntry t) wopts) (\<lambda>(writeBody, abiEntry).
     let give_up = (\<lambda>err. drop_error (HTTPBody_Abandon host writeBody)
                          (drop_error (CacheEntry_Close cc abiEntry) (finish (Inl err))))
     in try_c (CacheEntry_State cc abiEntry) (\<lambda>err. give_up (cc_mapFastlyError err)) (\<lambda>newState.
        try_c (newFound cc (tx_key t) abiEntry newState zero_LookupOptions) (\<lambda>err. give_up err)
          (\<lambda>f. finish (Inr (writeBody, f))))))"

definition Transaction_Update ::
  "'w http_calls \<Rightarrow> 'w core_calls \<Rightarrow> Transaction \<Rightarrow> WriteOptions \<Rightarrow> ('w, goerr + unit) comp" where
  "Transaction_Update host cc t opts =
     check_c id (abiWriteOptions host opts) (\<lambda>wopts.
     check_c cc_mapFastlyError (CacheEntry_Update cc (tx_abiEntry t) wopts) (\<lambda>u. finish (Inr u)))"

definition Transaction_Cancel :: "'w core_calls \<Rightarrow> Transaction \<Rightarrow> ('w, goerr + unit) comp" where
  "Transaction_Cancel cc t =
     check_c cc_mapFastlyError (CacheEntry_Cancel cc (tx_abiEntry t)) (\<lambda>u. finish (Inr u))"

definition Transaction_Close :: "'w core_calls \<Rightarrow> Transaction \<Rightarrow> ('w, (goerr + unit) \<times> Transaction) comp" where
  "Transaction_Close cc t =
     (if tx_ended t then finish (Inr (), t)
      else let t = t\<lparr>tx_ended := True\<rparr> in
        and_then (CacheEntry_Close cc (tx_abiEntry t)) (\<lambda>r. finish (r, t)))"

end
