(* ===== verification/CoreOperations.thy ===== *)
theory CoreOperations
  imports CoreCache EventLogs
begin

text \<open>
  What the core cache does with the handles it is given.  The cache records every entry that is
  opened and closed and every body that is opened for writing; the HTTP host records how such a
  body ends.
\<close>

section \<open>Recording handles\<close>

datatype core_event =
    Opened handle
  | Closed handle
  | Writer handle
  | WriterClosed handle
  | WriterAbandoned handle
  | Computed

definition watched_cache :: "'w core_calls \<Rightarrow> ('w \<times> core_event list) core_calls" where
  "watched_cache cc =
     \<lparr>c_cache_lookup = (\<lambda>k opts. noting (\<lambda>h. [Opened h]) (c_cache_lookup cc k opts)),
      c_cache_insert = (\<lambda>k opts. noting (\<lambda>b. [Writer b]) (c_cache_insert cc k opts)),
      c_cache_tx_lookup = (\<lambda>k opts. noting (\<lambda>h. [Opened h]) (c_cache_tx_lookup cc k opts)),
      c_cache_tx_insert = (\<lambda>h opts. noting (\<lambda>b. [Writer b]) (c_cache_tx_insert cc h opts)),
      c_cache_tx_insert_back = (\<lambda>h opts. noting (\<lambda>(b, e). [Writer b, Opened e]) (c_cache_tx_insert_back cc h opts)),
      c_cache_tx_update = (\<lambda>h opts. unlogged (c_cache_tx_update cc h opts)),
      c_cache_tx_cancel = (\<lambda>h. unlogged (c_cache_tx_cancel cc h)),
      c_cache_close = (\<lambda>h. logged (Closed h) (c_cache_close cc h)),
      c_cache_get_state = (\<lambda>h. unlogged (c_cache_get_state cc h)),
      c_cache_get_user_metadata = (\<lambda>h n. unlogged (c_cache_get_user_metadata cc h n)),
      c_cache_get_body = (\<lambda>h opts. unlogged (c_cache_get_body cc h opts)),
      c_cache_get_length = (\<lambda>h. unlogged (c_cache_get_length cc h)),
      c_cache_get_max_age_ns = (\<lambda>h. unlogged (c_cache_get_max_age_ns cc h)),
      c_cache_get_swr_ns = (\<lambda>h. unlogged (c_cache_get_swr_ns cc h)),
      c_cache_get_age_ns = (\<lambda>h. unlogged (c_cache_get_age_ns cc h)),
      c_cache_get_hits = (\<lambda>h. unlogged (c_cache_get_hits cc h)),
      c_purge_surrogate_key = (\<lambda>k opts. unlogged (c_purge_surrogate_key cc k opts))\<rparr>"

definition watched_host :: "'w http_calls \<Rightarrow> ('w \<times> core_event list) http_calls" where
  "watched_host host = (silent host)
     \<lparr>c_body_close := (\<lambda>h. logged (WriterClosed h) (c_body_close host h)),
      c_body_abandon := (\<lambda>h. logged (WriterAbandoned h) (c_body_abandon host h))\<rparr>"

lemma watched_cache_calls [simp]:
  "c_cache_lookup (watched_cache cc) k lo = noting (\<lambda>h. [Opened h]) (c_cache_lookup cc k lo)"
  "c_cache_insert (watched_cache cc) k wo = noting (\<lambda>b. [Writer b]) (c_cache_insert cc k wo)"
  "c_cache_tx_lookup (watched_cache cc) k lo = noting (\<lambda>h. [Opened h]) (c_cache_tx_lookup cc k lo)"
  "c_cache_tx_insert (watched_cache cc) h wo = noting (\<lambda>b. [Writer b]) (c_cache_tx_insert cc h wo)"
  "c_cache_tx_insert_back (watched_cache cc) h wo
     = noting (\<lambda>(b, e). [Writer b, Opened e]) (c_cache_tx_insert_back cc h wo)"
  "c_cache_tx_update (watched_cache cc) h wo = unlogged (c_cache_tx_update cc h wo)"
  "c_cache_tx_cancel (watched_cache cc) h = unlogged (c_cache_tx_cancel cc h)"
  "c_cache_close (watched_cache cc) h = logged (Closed h) (c_cache_close cc h)"
  "c_cache_get_state (watched_cache cc) h = unlogged (c_cache_get_state cc h)"
  "c_cache_get_body (watched_cache cc) h bo = unlogged (c_cache_get_body cc h bo)"
  "c_cache_get_length (watched_cache cc) h = unlogged (c_cache_get_length cc h)"
  "c_cache_get_max_age_ns (watched_cache cc) h = unlogged (c_cache_get_max_age_ns cc h)"
  "c_cache_get_swr_ns (watched_cache cc) h = unlogged (c_cache_get_swr_ns cc h)"
  "c_cache_get_age_ns (watched_cache cc) h = unlogged (c_cache_get_age_ns cc h)"
  "c_cache_get_hits (watched_cache cc) h = unlogged (c_cache_get_hits cc h)"
  by (simp_all add: watched_cache_def)

lemma watched_host_calls [simp]:
  "c_body_close (watched_host host) h = logged (WriterClosed h) (c_body_close host h)"
  "c_body_abandon (watched_host host) h = logged (WriterAbandoned h) (c_body_abandon host h)"
  "c_req_new (watched_host host) = unlogged (c_req_new host)"
  "c_req_header_values_set (watched_host host) h k v = unlogged (c_req_header_values_set host h k v)"
  by (simp_all add: watched_host_def silent_def)

section \<open>The steps without events\<close>

lemma quiet_each_c: "(\<And>k. quiet (f k)) \<Longrightarrow> quiet (each_c f ks)"
  by (induction ks) (auto intro!: quiet_intros)

lemma quiet_requestHeadersBody: "quiet (requestHeadersBody (watched_host host) h)"
  unfolding requestHeadersBody_def NewHTTPRequest_def HTTPRequest_SetHeaderValues_def
  by (auto intro!: quiet_intros quiet_each_c)

lemma quiet_abiLookupOptions: "quiet (abiLookupOptions (watched_host host) opts)"
  unfolding abiLookupOptions_def
  by (auto simp: Let_def intro!: quiet_intros quiet_requestHeadersBody split: option.splits)

lemma quiet_abiWriteOptions: "quiet (abiWriteOptions (watched_host host) opts)"
  unfolding abiWriteOptions_def
  by (auto simp: Let_def intro!: quiet_intros quiet_requestHeadersBody)

lemma quiet_State: "quiet (CacheEntry_State (watched_cache cc) h)"
  by (simp add: CacheEntry_State_def quiet_unlogged)

lemma quiet_newFound: "quiet (newFound (watched_cache cc) key e state opts)"
  unfolding newFound_def CacheEntry_MaxAge_def CacheEntry_Length_def CacheEntry_Age_def
    CacheEntry_StaleWhileRevalidate_def CacheEntry_Hits_def CacheEntry_Body_def
  by (auto intro!: quiet_intros)

lemma newFound_entry:
  "newFound cc key e state opts w = Some (Done (Inr f), w') \<Longrightarrow> fo_abiEntry f = e"
  unfolding newFound_def by (fastforce dest!: check_c_Done)

lemma emits_newFound:
  "(\<And>f. fo_abiEntry f = e \<Longrightarrow> Q (Done (Inr f)) []) \<Longrightarrow> (\<And>err. Q (Done (Inl err)) []) \<Longrightarrow>
   emits (newFound (watched_cache cc) key e state opts) Q"
proof (rule emitsI)
  fix w l r w' l'
  assume Q: "\<And>f. fo_abiEntry f = e \<Longrightarrow> Q (Done (Inr f)) []" "\<And>err. Q (Done (Inl err)) []"
    and run: "newFound (watched_cache cc) key e state opts (w, l) = Some (r, (w', l'))"
  from emitsD [OF quiet_newFound [unfolded quiet_def] run] have "l' = l" "r \<noteq> Panic" by auto
  with Q newFound_entry [of "watched_cache cc" key e state opts "(w, l)"] run
  show "\<exists>es. l' = l @ es \<and> Q r es" by (cases r; cases "case r of Done x \<Rightarrow> x") auto
qed

lemma emits_entry_close:
  "(\<And>r. Q (Done r) [Closed h]) \<Longrightarrow> emits (CacheEntry_Close (watched_cache cc) h) Q"
  unfolding CacheEntry_Close_def by (simp add: emits_logged)

lemma emits_abandon:
  "(\<And>r. Q (Done r) (if b_closable b then [WriterAbandoned (b_h b)] else [])) \<Longrightarrow>
   emits (HTTPBody_Abandon (watched_host host) b) Q"
  unfolding HTTPBody_Abandon_def by (auto intro: emits_finish emits_logged split: if_splits)

lemma emits_body_close:
  "(\<And>r. Q (Done r) (if b_closable b then [WriterClosed (b_h b)] else [])) \<Longrightarrow>
   emits (HTTPBody_Close (watched_host host) b) Q"
  unfolding HTTPBody_Close_def by (auto intro: emits_finish emits_logged split: if_splits)

section \<open>No entry is lost\<close>

lemma Lookup_events:
  "emits (core_Lookup (watched_host host) (watched_cache cc) key opts)
     (\<lambda>r es. case r of
        Done (Inr f) \<Rightarrow> es = [Opened (fo_abiEntry f)]
      | Done (Inl e) \<Rightarrow> es = [] \<or> (\<exists>h. es = [Opened h, Closed h])
      | Panic \<Rightarrow> False)"
  unfolding core_Lookup_def CacheLookup_def
  by (auto intro!: emits_check_c emits_try_c emits_drop_error emits_finish emits_noting emits_newFound
      emits_entry_close emits_quiet [OF quiet_abiLookupOptions] emits_quiet [OF quiet_State]
      split: sum.splits if_splits)

lemma NewTransaction_events:
  "emits (NewTransaction (watched_host host) (watched_cache cc) key opts)
     (\<lambda>r es. case r of
        Done (Inr t) \<Rightarrow> es = [Opened (tx_abiEntry t)] \<and> \<not> tx_ended t
      | Done (Inl e) \<Rightarrow> es = [] \<or> (\<exists>h. es = [Opened h, Closed h])
      | Panic \<Rightarrow> False)"
  unfolding NewTransaction_def CacheTransactionLookup_def
  by (auto intro!: emits_check_c emits_try_c emits_drop_error emits_finish emits_noting
      emits_entry_close emits_quiet [OF quiet_abiLookupOptions] emits_quiet [OF quiet_State]
      split: sum.splits if_splits)

lemma InsertAndStreamBack_events:
  "emits (Transaction_InsertAndStreamBack (watched_host host) (watched_cache cc) t opts)
     (\<lambda>r es. case r of
        Done (Inr (b, f)) \<Rightarrow> b_closable b \<and> es = [Writer (b_h b), Opened (fo_abiEntry f)]
      | Done (Inl e) \<Rightarrow> es = [] \<or> (\<exists>b h. es = [Writer b, Opened h, WriterAbandoned b, Closed h])
      | Panic \<Rightarrow> False)"
  unfolding Transaction_InsertAndStreamBack_def CacheEntry_InsertAndStreamBack_def
  by (auto simp: Let_def closable_body_def intro!: emits_check_c emits_try_c emits_drop_error emits_finish
      emits_map_result emits_noting emits_newFound emits_entry_close emits_abandon
      emits_quiet [OF quiet_abiWriteOptions] emits_quiet [OF quiet_State]
      split: sum.splits if_splits prod.splits)

lemma Insert_events:
  "emits (Transaction_Insert (watched_host host) (watched_cache cc) t opts)
     (\<lambda>r es. case r of Done (Inr b) \<Rightarrow> b_closable b \<and> es = [Writer (b_h b)] | Done (Inl e) \<Rightarrow> es = [] | Panic \<Rightarrow> False)"
  unfolding Transaction_Insert_def CacheEntry_Insert_def
  by (auto simp: closable_body_def intro!: emits_check_c emits_finish emits_map_result emits_noting
      emits_quiet [OF quiet_abiWriteOptions] split: sum.splits)

lemma quiet_Update: "quiet (Transaction_Update (watched_host host) (watched_cache cc) t opts)"
  unfolding Transaction_Update_def CacheEntry_Update_def
  by (auto intro!: quiet_intros quiet_abiWriteOptions)

lemma quiet_Cancel: "quiet (Transaction_Cancel (watched_cache cc) t)"
  unfolding Transaction_Cancel_def CacheEntry_Cancel_def by (auto intro!: quiet_intros)

lemma emits_run: "emits m Q \<Longrightarrow> m (w, l) = Some (r, (w', l')) \<Longrightarrow> (\<And>es. Q r es \<Longrightarrow> P (l @ es)) \<Longrightarrow> P l'"
  by (drule emitsD, assumption) blast

text \<open>
  a lookup that fails has closed the entry it opened, on every path; the entry of the object
  it returns stays open.
\<close>

lemma core_lookup_no_leak:
  assumes "core_Lookup (watched_host host) (watched_cache cc) key opts (w, l) = Some (r, (w', l'))"
  shows "case r of
      Done (Inr f) \<Rightarrow> l' = l @ [Opened (fo_abiEntry f)]
    | Done (Inl e) \<Rightarrow> l' = l \<or> (\<exists>h. l' = l @ [Opened h, Closed h])
    | Panic \<Rightarrow> False"
  by (rule emits_run [OF Lookup_events assms]) (auto split: outcome.splits sum.splits)

section \<open>The life of a transaction\<close>

datatype tx_op = OpFound | OpInsert WriteOptions | OpInsertBack WriteOptions | OpUpdate WriteOptions | OpCancel | OpClose

text \<open>One call on a transaction, its result dropped.\<close>

fun tx_step :: "'w http_calls \<Rightarrow> 'w core_calls \<Rightarrow> tx_op \<Rightarrow> Transaction \<Rightarrow> ('w, Transaction) comp" where
  "tx_step host cc OpFound t = and_then (Transaction_Found cc t) (\<lambda>(r, t). finish t)"
| "tx_step host cc (OpInsert opts) t = drop_error (Transaction_Insert host cc t opts) (finish t)"
| "tx_step host cc (OpInsertBack opts) t = drop_error (Transaction_InsertAndStreamBack host cc t opts) (finish t)"
| "tx_step host cc (OpUpdate opts) t = drop_error (Transaction_Update host cc t opts) (finish t)"
| "tx_step host cc OpCancel t = drop_error (Transaction_Cancel cc t) (finish t)"
| "tx_step host cc OpClose t = and_then (Transaction_Close cc t) (\<lambda>(r, t). finish t)"

text \<open>
  The transactions a caller can reach, with the world and the record: a transaction is opened and
  then used by any calls.
\<close>

inductive tx_reachable ::
  "'w http_calls \<Rightarrow> 'w core_calls \<Rightarrow> Transaction \<Rightarrow> bool \<Rightarrow> 'w \<times> core_event list \<Rightarrow> bool"
  for host :: "'w http_calls" and cc :: "'w core_calls" where
  opened: "NewTransaction (watched_host host) (watched_cache cc) key opts (w, []) = Some (Done (Inr t), s)
     \<Longrightarrow> tx_reachable host cc t False s"
| step: "tx_reachable host cc t closed s \<Longrightarrow> tx_step (watched_host host) (watched_cache cc) a t s = Some (Done t', s')
     \<Longrightarrow> tx_reachable host cc t' (closed \<or> a = OpClose) s'"

text \<open>
  The record of a transaction on the entry \<open>h\<close>: the entry is opened, then the calls add their
  groups of events one after the other; \<open>None\<close> is the group of the close that closes \<open>h\<close>.
\<close>

definition tx_group :: "core_event list \<Rightarrow> bool" where
  "tx_group es \<longleftrightarrow> es = [] \<or> (\<exists>b. es = [Writer b]) \<or> (\<exists>b e. es = [Writer b, Opened e])
     \<or> (\<exists>b e. es = [Writer b, Opened e, WriterAbandoned b, Closed e])"

definition tx_log :: "handle \<Rightarrow> bool \<Rightarrow> core_event list \<Rightarrow> bool" where
  "tx_log h closed l \<longleftrightarrow>
     (\<exists>gs. l = Opened h # concat (map (\<lambda>g. case g of None \<Rightarrow> [Closed h] | Some es \<Rightarrow> es) gs)
        \<and> (\<forall>g \<in> set gs. \<forall>es. g = Some es \<longrightarrow> tx_group es)
        \<and> count_list gs None = (if closed then 1 else 0))"

lemma tx_log_group:
  assumes "tx_log h closed l" "tx_group es" shows "tx_log h closed (l @ es)"
proof -
  from assms(1) obtain gs where "l = Opened h # concat (map (\<lambda>g. case g of None \<Rightarrow> [Closed h] | Some es \<Rightarrow> es) gs)"
    "\<forall>g \<in> set gs. \<forall>es. g = Some es \<longrightarrow> tx_group es" "count_list gs None = (if closed then 1 else 0)"
    unfolding tx_log_def by blast
  with assms(2) show ?thesis unfolding tx_log_def by (intro exI [of _ "gs @ [Some es]"]) auto
qed

lemma tx_log_close:
  assumes "tx_log h False l" shows "tx_log h True (l @ [Closed h])"
proof -
  from assms obtain gs where "l = Opened h # concat (map (\<lambda>g. case g of None \<Rightarrow> [Closed h] | Some es \<Rightarrow> es) gs)"
    "\<forall>g \<in> set gs. \<forall>es. g = Some es \<longrightarrow> tx_group es" "count_list gs None = 0"
    unfolding tx_log_def by auto
  then show ?thesis unfolding tx_log_def by (intro exI [of _ "gs @ [None]"]) auto
qed

text \<open>What each call adds to the record, for a streamed entry that is not the transaction's own.\<close>

lemma Transaction_Close_events:
  "emits (Transaction_Close (watched_cache cc) t)
     (\<lambda>r es. \<exists>x t'. r = Done (x, t') \<and> t' = t\<lparr>tx_ended := True\<rparr>
        \<and> es = (if tx_ended t then [] else [Closed (tx_abiEntry t)]))"
  unfolding Transaction_Close_def
  by (auto simp: Let_def intro!: emits_and_then emits_finish emits_entry_close)

lemma Transaction_Found_events:
  "emits (Transaction_Found (watched_cache cc) t)
     (\<lambda>r es. \<exists>x t'. r = Done (x, t') \<and> tx_abiEntry t' = tx_abiEntry t \<and> tx_ended t' = tx_ended t \<and> es = [])"
  unfolding Transaction_Found_def
  by (auto intro!: emits_try_c emits_finish emits_quiet [OF quiet_newFound] split: option.splits sum.splits)

text \<open>A step keeps the entry; closing sets \<open>ended\<close> and closes the entry unless that was done before.\<close>

lemma tx_step_events:
  "emits (tx_step (watched_host host) (watched_cache cc) a t)
     (\<lambda>r es. \<exists>t'. r = Done t' \<and> tx_abiEntry t' = tx_abiEntry t \<and> tx_ended t' = (tx_ended t \<or> a = OpClose)
        \<and> (if a = OpClose \<and> \<not> tx_ended t then es = [Closed (tx_abiEntry t)] else tx_group es))"
proof (cases a)
  case OpFound
  then show ?thesis
    by (auto simp: tx_group_def intro!: emits_and_then emits_mono [OF Transaction_Found_events] emits_finish)
next
  case (OpInsert opts)
  then show ?thesis
    by (auto simp: tx_group_def intro!: emits_drop_error emits_mono [OF Insert_events] emits_finish
        split: outcome.splits sum.splits)
next
  case (OpInsertBack opts)
  then show ?thesis
    by (auto simp: tx_group_def intro!: emits_drop_error emits_mono [OF InsertAndStreamBack_events] emits_finish
        split: outcome.splits sum.splits)
next
  case (OpUpdate opts)
  then show ?thesis
    by (auto simp: tx_group_def intro!: emits_drop_error emits_quiet [OF quiet_Update] emits_finish)
next
  case OpCancel
  then show ?thesis
    by (auto simp: tx_group_def intro!: emits_drop_error emits_quiet [OF quiet_Cancel] emits_finish)
next
  case OpClose
  then show ?thesis
    by (auto simp: tx_group_def intro!: emits_and_then emits_mono [OF Transaction_Close_events] emits_finish)
qed

text \<open>
  C21: whatever calls are made on a transaction, in any order and however often, and whatever the
  host answers: once \<open>Close\<close> has been called its entry has been closed exactly once, and before
  that never; every entry opened beside it by a failed streaming insert is closed, with its
  body abandoned.
\<close>

theorem transaction_closed_once:
  assumes "tx_reachable host cc t closed s"
  shows "tx_ended t = closed \<and> tx_log (tx_abiEntry t) closed (snd s)"
  using assms
proof induction
  case (opened key opts w t s)
  obtain w' l' where s: "s = (w', l')" by force
  from emitsD [OF NewTransaction_events opened [unfolded s]]
  show ?case unfolding s tx_log_def by (auto intro!: exI [of _ "[]"])
next
  case (step t closed s a t' s')
  obtain w l w' l' where s: "s = (w, l)" "s' = (w', l')" by force
  from emitsD [OF tx_step_events step.hyps(2) [unfolded s]] obtain es where es: "l' = l @ es"
    "tx_abiEntry t' = tx_abiEntry t" "tx_ended t' = (tx_ended t \<or> a = OpClose)"
    "if a = OpClose \<and> \<not> tx_ended t then es = [Closed (tx_abiEntry t)] else tx_group es" by auto
  with step.IH s show ?case by (cases "a = OpClose \<and> \<not> closed") (auto simp: tx_log_group tx_log_close)
qed

section \<open>Witnesses\<close>

text \<open>A cache that accepts every call: a lookup finds a fresh object and need not insert.\<close>

definition accepting_core :: "u32 \<Rightarrow> 'w core_calls" where
  "accepting_core state =
     \<lparr>c_cache_lookup = (\<lambda>k opts. accept 20),
      c_cache_insert = (\<lambda>k opts. accept 21),
      c_cache_tx_lookup = (\<lambda>k opts. accept 20),
      c_cache_tx_insert = (\<lambda>h opts. accept 21),
      c_cache_tx_insert_back = (\<lambda>h opts. accept (21, 22)),
      c_cache_tx_update = (\<lambda>h opts. accept ()),
      c_cache_tx_cancel = (\<lambda>h. accept ()),
      c_cache_close = (\<lambda>h. accept ()),
      c_cache_get_state = (\<lambda>h. accept state),
      c_cache_get_user_metadata = (\<lambda>h. one_value_host ''meta''),
      c_cache_get_body = (\<lambda>h opts. accept 23),
      c_cache_get_length = (\<lambda>h w. ((FastlyStatusNone, 0), w)),
      c_cache_get_max_age_ns = (\<lambda>h. accept 60000000000),
      c_cache_get_swr_ns = (\<lambda>h. accept 0),
      c_cache_get_age_ns = (\<lambda>h. accept 1000000000),
      c_cache_get_hits = (\<lambda>h. accept 1),
      c_purge_surrogate_key = (\<lambda>k opts. accept ())\<rparr>"

lemmas run_core = hostcall_def check_c_def try_c_def and_then_def drop_error_def noting_def logged_def unlogged_def
  accept_def toError_def map_result_def tolerate_def

lemma core_lookup_no_leak_instance:
  "\<exists>w'. core_Lookup (watched_host accepting_host) (watched_cache (accepting_core 0)) ''key'' zero_LookupOptions ((), [])
     = Some (Done (Inl cc_ErrNotFound), w') \<and> snd w' = [Opened 20, Closed 20]"
proof -
  obtain w' where run: "core_Lookup (watched_host accepting_host) (watched_cache (accepting_core 0)) ''key''
      zero_LookupOptions ((), []) = Some (Done (Inl cc_ErrNotFound), ((), w')) \<and> w' \<noteq> [] \<and> hd w' = Opened 20"
    by (simp add: core_Lookup_def abiLookupOptions_def zero_LookupOptions_def run_core CacheLookup_def
        CacheEntry_State_def CacheEntry_Close_def accepting_core_def)
  then show ?thesis using core_lookup_no_leak [of accepting_host "accepting_core 0" "''key''" zero_LookupOptions "()" "[]"]
    by fastforce
qed

theorem transaction_closed_once_witness:
  "\<exists>t (s :: unit \<times> core_event list). tx_reachable accepting_host (accepting_core 0) t True s \<and> tx_ended t \<and> tx_log (tx_abiEntry t) True (snd s)"
proof -
  let ?H = "watched_host accepting_host :: (unit \<times> core_event list) http_calls"
  let ?C = "watched_cache (accepting_core 0) :: (unit \<times> core_event list) core_calls"
  let ?t = "\<lparr>tx_abiEntry = 20, tx_key = ''key'', tx_state = 0, tx_opts = zero_LookupOptions, tx_found = None, tx_ended = False\<rparr>"
  have "NewTransaction ?H ?C ''key'' zero_LookupOptions ((), []) = Some (Done (Inr ?t), ((), [Opened 20]))"
    by (simp add: NewTransaction_def abiLookupOptions_def zero_LookupOptions_def run_core CacheTransactionLookup_def
        CacheEntry_State_def accepting_core_def)
  then have "tx_reachable accepting_host (accepting_core 0) ?t False ((), [Opened 20])" by (rule tx_reachable.opened)
  moreover have "tx_step ?H ?C OpClose ?t ((), [Opened 20])
      = Some (Done (?t\<lparr>tx_ended := True\<rparr>), ((), [Opened 20, Closed 20]))"
    by (simp add: Transaction_Close_def run_core CacheEntry_Close_def accepting_core_def)
  ultimately have "tx_reachable accepting_host (accepting_core 0) (?t\<lparr>tx_ended := True\<rparr>) (False \<or> OpClose = OpClose)
      ((), [Opened 20, Closed 20])" by (rule tx_reachable.step)
  then have r: "tx_reachable accepting_host (accepting_core 0) (?t\<lparr>tx_ended := True\<rparr>) True ((), [Opened 20, Closed 20])"
    by simp
  from transaction_closed_once [OF r] r show ?thesis
    by (intro exI [of _ "?t\<lparr>tx_ended := True\<rparr>"] exI [of _ "((), [Opened 20, Closed 20])"]) simp
qed

end
