(* ===== verification/CoreOptions.thy ===== *)
theory CoreOptions
  imports CoreCache
begin

text \<open>
  What the core cache passes to the host and reads back: the option block of a write, flag by
  flag, and the object that a lookup returns.
\<close>

section \<open>The option block of a write\<close>

text \<open>What the host reads from a block: a field only when its flag is set.\<close>

record write_view =
  wv_maxAge :: int
  wv_request :: bool
  wv_vary :: "string option"
  wv_initialAge :: "int option"
  wv_staleWhileRevalidate :: "int option"
  wv_surrogateKeys :: "string option"
  wv_length :: "int option"
  wv_userMetadata :: "string option"
  wv_sensitive :: bool

definition flagged :: "u32 \<Rightarrow> u32 \<Rightarrow> 'a \<Rightarrow> 'a option" where
  "flagged m flag x = (if m AND flag = flag then Some x else None)"

definition write_view :: "CacheWriteOptions \<Rightarrow> write_view" where
  "write_view b =
     \<lparr>wv_maxAge = uint (wo_maxAgeNs b),
      wv_request = (wo_mask b AND cacheWriteOptionsMaskRequestHeaders \<noteq> 0),
      wv_vary = flagged (wo_mask b) cacheWriteOptionsMaskVaryRule (received (wo_varyRule b)),
      wv_initialAge = flagged (wo_mask b) cacheWriteOptionsMaskInitialAgeNs (uint (wo_initialAgeNs b)),
      wv_staleWhileRevalidate =
        flagged (wo_mask b) cacheWriteOptionsMaskStaleWhileRevalidateNs (uint (wo_staleWhileRevalidateNs b)),
      wv_surrogateKeys = flagged (wo_mask b) cacheWriteOptionsMaskSurrogateKeys (received (wo_surrogateKeys b)),
      wv_length = flagged (wo_mask b) cacheWriteOptionsMaskLength (uint (wo_length b)),
      wv_userMetadata = flagged (wo_mask b) cacheWriteOptionsMaskUserMetadata (received (wo_userMetadata b)),
      wv_sensitive = (wo_mask b AND cacheWriteOptionsMaskSensitiveData \<noteq> 0)\<rparr>"

text \<open>The options as the documentation of \<open>WriteOptions\<close> gives them: zero values are left out.\<close>

definition write_spec :: "WriteOptions \<Rightarrow> write_view" where
  "write_spec o' =
     \<lparr>wv_maxAge = (if wp_TTL o' < 0 then 2 ^ 64 + wp_TTL o' else wp_TTL o'),
      wv_request = (wp_RequestHeaders o' \<noteq> []),
      wv_vary = (if wp_Vary o' = [] then None else Some (str_join '' '' (wp_Vary o'))),
      wv_initialAge = (if 0 < wp_InitialAge o' then Some (wp_InitialAge o') else None),
      wv_staleWhileRevalidate =
        (if 0 < wp_StaleWhileRevalidate o' then Some (wp_StaleWhileRevalidate o') else None),
      wv_surrogateKeys = (if wp_SurrogateKeys o' = [] then None else Some (str_join '' '' (wp_SurrogateKeys o'))),
      wv_length = (if wp_Length o' = 0 then None else Some (uint (wp_Length o'))),
      wv_userMetadata = (if wp_UserMetadata o' = [] then None else Some (wp_UserMetadata o')),
      wv_sensitive = wp_SensitiveData o'\<rparr>"

definition int64 :: "int \<Rightarrow> bool" where "int64 d \<longleftrightarrow> - (2 ^ 63) \<le> d \<and> d < 2 ^ 63"

definition write_sized :: "WriteOptions \<Rightarrow> bool" where
  "write_sized o' \<longleftrightarrow> int64 (wp_TTL o') \<and> int64 (wp_InitialAge o') \<and> int64 (wp_StaleWhileRevalidate o')
     \<and> sized (str_join '' '' (wp_Vary o')) \<and> sized (str_join '' '' (wp_SurrogateKeys o')) \<and> sized (wp_UserMetadata o')"

lemma u64_ns_wrap: "int64 d \<Longrightarrow> uint (u64_ns d) = (if d < 0 then 2 ^ 64 + d else d)"
proof -
  assume d: "int64 d"
  have "uint (u64_ns d) = d mod 2 ^ 64" by (simp add: u64_ns_def uint_word_of_int)
  moreover have "d mod 2 ^ 64 = 2 ^ 64 + d" if "d < 0"
  proof -
    have "d mod 2 ^ 64 = (2 ^ 64 + d) mod 2 ^ 64" by simp
    also have "\<dots> = 2 ^ 64 + d" using that d by (intro mod_pos_pos_trivial) (auto simp: int64_def)
    finally show ?thesis .
  qed
  moreover have "d mod 2 ^ 64 = d" if "\<not> d < 0"
    using that d by (intro mod_pos_pos_trivial) (auto simp: int64_def)
  ultimately show ?thesis by simp
qed

lemmas write_setters = wo_MaxAge_def wo_SetRequest_def wo_Vary_def wo_InitialAge_def wo_StaleWhileRevalidate_def
  wo_SurrogateKeys_def wo_ContentLength_def wo_UserMetadata_def wo_SensitiveData_def

text \<open>Bit \<open>k\<close> of the mask, and the fields, after an optional setter.\<close>

lemma flag_bits:
  "bit (2 :: int) k \<longleftrightarrow> k = 1" "bit (4 :: int) k \<longleftrightarrow> k = 2" "bit (8 :: int) k \<longleftrightarrow> k = 3"
  "bit (16 :: int) k \<longleftrightarrow> k = 4" "bit (32 :: int) k \<longleftrightarrow> k = 5" "bit (64 :: int) k \<longleftrightarrow> k = 6"
  "bit (128 :: int) k \<longleftrightarrow> k = 7" "bit (256 :: int) k \<longleftrightarrow> k = 8"
  using bit_exp_iff [of 1 k, where 'a = int] bit_exp_iff [of 2 k, where 'a = int] bit_exp_iff [of 3 k, where 'a = int]
    bit_exp_iff [of 4 k, where 'a = int] bit_exp_iff [of 5 k, where 'a = int] bit_exp_iff [of 6 k, where 'a = int]
    bit_exp_iff [of 7 k, where 'a = int] bit_exp_iff [of 8 k, where 'a = int]
  by simp_all

lemma write_mask_bits:
  "bit (wo_mask (if c then wo_Vary v b else b)) k \<longleftrightarrow> bit (wo_mask b) k \<or> (c \<and> k = 2)"
  "bit (wo_mask (if c then wo_InitialAge d b else b)) k \<longleftrightarrow> bit (wo_mask b) k \<or> (c \<and> k = 3)"
  "bit (wo_mask (if c then wo_StaleWhileRevalidate d b else b)) k \<longleftrightarrow> bit (wo_mask b) k \<or> (c \<and> k = 4)"
  "bit (wo_mask (if c then wo_SurrogateKeys v b else b)) k \<longleftrightarrow> bit (wo_mask b) k \<or> (c \<and> k = 5)"
  "bit (wo_mask (if c then wo_ContentLength n b else b)) k \<longleftrightarrow> bit (wo_mask b) k \<or> (c \<and> k = 6)"
  "bit (wo_mask (if c then wo_UserMetadata m b else b)) k \<longleftrightarrow> bit (wo_mask b) k \<or> (c \<and> k = 7)"
  "bit (wo_mask (wo_SensitiveData s b)) k \<longleftrightarrow> (if k = 8 then s else bit (wo_mask b) k)"
  by (auto simp: write_setters bit_simps flag_bits dest: bit_imp_possible_bit)

lemma write_mask_init:
  "bit (wo_mask (wo_MaxAge d zero_write_block)) k \<longleftrightarrow> False"
  "bit (wo_mask (wo_SetRequest r (wo_MaxAge d zero_write_block))) k \<longleftrightarrow> k = 1"
  by (auto simp: write_setters zero_write_block_def bit_simps flag_bits)

lemma write_field_reads:
  "wo_varyRule (if c then wo_Vary v b else b) = (if c then send_string (str_join '' '' v) else wo_varyRule b)"
  "wo_initialAgeNs (if c then wo_Vary v b else b) = wo_initialAgeNs b"
  "wo_staleWhileRevalidateNs (if c then wo_Vary v b else b) = wo_staleWhileRevalidateNs b"
  "wo_surrogateKeys (if c then wo_Vary v b else b) = wo_surrogateKeys b"
  "wo_length (if c then wo_Vary v b else b) = wo_length b"
  "wo_userMetadata (if c then wo_Vary v b else b) = wo_userMetadata b"
  "wo_maxAgeNs (if c then wo_Vary v b else b) = wo_maxAgeNs b"
  "wo_varyRule (if c then wo_InitialAge d b else b) = wo_varyRule b"
  "wo_initialAgeNs (if c then wo_InitialAge d b else b) = (if c then u64_ns d else wo_initialAgeNs b)"
  "wo_staleWhileRevalidateNs (if c then wo_InitialAge d b else b) = wo_staleWhileRevalidateNs b"
  "wo_surrogateKeys (if c then wo_InitialAge d b else b) = wo_surrogateKeys b"
  "wo_length (if c then wo_InitialAge d b else b) = wo_length b"
  "wo_userMetadata (if c then wo_InitialAge d b else b) = wo_userMetadata b"
  "wo_maxAgeNs (if c then wo_InitialAge d b else b) = wo_maxAgeNs b"
  "wo_varyRule (if c then wo_StaleWhileRevalidate d b else b) = wo_varyRule b"
  "wo_initialAgeNs (if c then wo_StaleWhileRevalidate d b else b) = wo_initialAgeNs b"
  "wo_staleWhileRevalidateNs (if c then wo_StaleWhileRevalidate d b else b) = (if c then u64_ns d else wo_staleWhileRevalidateNs b)"
  "wo_surrogateKeys (if c then wo_StaleWhileRevalidate d b else b) = wo_surrogateKeys b"
  "wo_length (if c then wo_StaleWhileRevalidate d b else b) = wo_length b"
  "wo_userMetadata (if c then wo_StaleWhileRevalidate d b else b) = wo_userMetadata b"
  "wo_maxAgeNs (if c then wo_StaleWhileRevalidate d b else b) = wo_maxAgeNs b"
  "wo_varyRule (if c then wo_SurrogateKeys v b else b) = wo_varyRule b"
  "wo_initialAgeNs (if c then wo_SurrogateKeys v b else b) = wo_initialAgeNs b"
  "wo_staleWhileRevalidateNs (if c then wo_SurrogateKeys v b else b) = wo_staleWhileRevalidateNs b"
  "wo_surrogateKeys (if c then wo_SurrogateKeys v b else b) = (if c then send_string (str_join '' '' v) else wo_surrogateKeys b)"
  "wo_length (if c then wo_SurrogateKeys v b else b) = wo_length b"
  "wo_userMetadata (if c then wo_SurrogateKeys v b else b) = wo_userMetadata b"
  "wo_maxAgeNs (if c then wo_SurrogateKeys v b else b) = wo_maxAgeNs b"
  "wo_varyRule (if c then wo_ContentLength n b else b) = wo_varyRule b"
  "wo_initialAgeNs (if c then wo_ContentLength n b else b) = wo_initialAgeNs b"
  "wo_staleWhileRevalidateNs (if c then wo_ContentLength n b else b) = wo_staleWhileRevalidateNs b"
  "wo_surrogateKeys (if c then wo_ContentLength n b else b) = wo_surrogateKeys b"
  "wo_length (if c then wo_ContentLength n b else b) = (if c then n else wo_length b)"
  "wo_userMetadata (if c then wo_ContentLength n b else b) = wo_userMetadata b"
  "wo_maxAgeNs (if c then wo_ContentLength n b else b) = wo_maxAgeNs b"
  "wo_varyRule (if c then wo_UserMetadata m b else b) = wo_varyRule b"
  "wo_initialAgeNs (if c then wo_UserMetadata m b else b) = wo_initialAgeNs b"
  "wo_staleWhileRevalidateNs (if c then wo_UserMetadata m b else b) = wo_staleWhileRevalidateNs b"
  "wo_surrogateKeys (if c then wo_UserMetadata m b else b) = wo_surrogateKeys b"
  "wo_length (if c then wo_UserMetadata m b else b) = wo_length b"
  "wo_userMetadata (if c then wo_UserMetadata m b else b) = (if c then send_string m else wo_userMetadata b)"
  "wo_maxAgeNs (if c then wo_UserMetadata m b else b) = wo_maxAgeNs b"
  "wo_varyRule (wo_SensitiveData s b) = wo_varyRule b"
  "wo_initialAgeNs (wo_SensitiveData s b) = wo_initialAgeNs b"
  "wo_staleWhileRevalidateNs (wo_SensitiveData s b) = wo_staleWhileRevalidateNs b"
  "wo_surrogateKeys (wo_SensitiveData s b) = wo_surrogateKeys b"
  "wo_length (wo_SensitiveData s b) = wo_length b"
  "wo_userMetadata (wo_SensitiveData s b) = wo_userMetadata b"
  "wo_maxAgeNs (wo_SensitiveData s b) = wo_maxAgeNs b"
  by (simp_all add: write_setters)

lemma and_flag:
  fixes m :: u32
  shows "m AND 2 ^ k = 2 ^ k \<longleftrightarrow> bit m k \<or> 32 \<le> k" "m AND 2 ^ k = 0 \<longleftrightarrow> \<not> bit m k"
proof -
  show "m AND 2 ^ k = 0 \<longleftrightarrow> \<not> bit m k" by (simp add: and_exp_eq_0_iff_not_bit)
  show "m AND 2 ^ k = 2 ^ k \<longleftrightarrow> bit m k \<or> 32 \<le> k"
  proof
    assume "m AND 2 ^ k = 2 ^ k"
    then have "bit (m AND 2 ^ k) k = bit (2 ^ k :: u32) k" by simp
    then show "bit m k \<or> 32 \<le> k" by (auto simp: bit_simps)
  next
    assume "bit m k \<or> 32 \<le> k"
    then show "m AND 2 ^ k = 2 ^ k"
      by (intro bit_word_eqI) (auto simp: bit_simps)
  qed
qed

lemma mask_flag:
  fixes m :: u32
  shows "m AND 2 = 2 \<longleftrightarrow> bit m 1" "m AND 4 = 4 \<longleftrightarrow> bit m 2" "m AND 8 = 8 \<longleftrightarrow> bit m 3" "m AND 16 = 16 \<longleftrightarrow> bit m 4"
    "m AND 32 = 32 \<longleftrightarrow> bit m 5" "m AND 64 = 64 \<longleftrightarrow> bit m 6" "m AND 128 = 128 \<longleftrightarrow> bit m 7"
    "m AND 2 = 0 \<longleftrightarrow> \<not> bit m 1" "m AND 256 = 0 \<longleftrightarrow> \<not> bit m 8"
  using and_flag [of m 1] and_flag [of m 2] and_flag [of m 3] and_flag [of m 4] and_flag [of m 5]
    and_flag [of m 6] and_flag [of m 7] and_flag [of m 8] by simp_all

lemma write_fields_view:
  assumes "write_sized o'"
    and "b = (if req then wo_SetRequest r (wo_MaxAge (wp_TTL o') zero_write_block) else wo_MaxAge (wp_TTL o') zero_write_block)"
  shows "write_view (write_fields o' b) = (write_spec o')\<lparr>wv_request := req\<rparr>"
proof -
  have bits: "bit (wo_mask b) k \<longleftrightarrow> req \<and> k = 1" for k using assms(2) by (simp add: write_mask_init)
  have age: "wo_maxAgeNs b = u64_ns (wp_TTL o')" using assms(2) by (simp add: wo_MaxAge_def wo_SetRequest_def)
  have ns: "0 < d \<Longrightarrow> int64 d \<Longrightarrow> uint (u64_ns d) = d" for d by (simp add: u64_ns_wrap)
  show ?thesis
    using assms(1)
    by (simp add: write_view_def write_spec_def flagged_def mask_flag write_fields_def Let_def write_mask_bits
        write_field_reads bits age write_sized_def u64_ns_wrap ns word_gt_0)
qed

text \<open>
  C39: the option block of a write holds exactly the options that were given: every field that is
  not zero with its flag, and no other; the time to live always, one that is negative as a
  duration of nearly \<open>2 ^ 64\<close> nanoseconds.
\<close>

theorem core_write_block_exact:
  assumes "write_sized opts" and "abiWriteOptions host opts w = Some (Done (Inr b), w')"
  shows "write_view b = write_spec opts"
proof (cases "wp_RequestHeaders opts = []")
  case True
  with assms(2) have "b = write_fields opts (wo_MaxAge (wp_TTL opts) zero_write_block)"
    by (simp add: abiWriteOptions_def Let_def)
  then show ?thesis using write_fields_view [OF assms(1), where req = False and r = 0] True
    by (simp add: write_spec_def)
next
  case False
  with assms(2) obtain r where "b = write_fields opts (wo_SetRequest r (wo_MaxAge (wp_TTL opts) zero_write_block))"
    by (auto simp: abiWriteOptions_def Let_def dest!: check_c_Done)
  then show ?thesis using write_fields_view [OF assms(1), where req = True and r = r] False
    by (simp add: write_spec_def)
qed

theorem core_write_block_exact_witness:
  "\<exists>b. abiWriteOptions accepting_host
       \<lparr>wp_TTL = -1, wp_RequestHeaders = [], wp_Vary = [''accept'', ''dnt''], wp_InitialAge = 0,
        wp_StaleWhileRevalidate = 30000000000, wp_SurrogateKeys = [], wp_Length = 7, wp_UserMetadata = [],
        wp_SensitiveData = True\<rparr> () = Some (Done (Inr b), ())
     \<and> wv_maxAge (write_view b) = 18446744073709551615 \<and> wv_vary (write_view b) = Some ''accept dnt''
     \<and> wv_initialAge (write_view b) = None \<and> wv_length (write_view b) = Some 7"
proof -
  let ?o = "\<lparr>wp_TTL = -1, wp_RequestHeaders = [], wp_Vary = [''accept'', ''dnt''], wp_InitialAge = 0,
        wp_StaleWhileRevalidate = 30000000000, wp_SurrogateKeys = [], wp_Length = 7, wp_UserMetadata = [],
        wp_SensitiveData = True\<rparr>"
  obtain b where run: "abiWriteOptions accepting_host ?o () = Some (Done (Inr b), ())"
    by (simp add: abiWriteOptions_def Let_def)
  have "write_sized ?o" by (simp add: write_sized_def int64_def sized_def)
  from core_write_block_exact [OF this run] run show ?thesis by (simp add: write_spec_def)
qed

section \<open>What a lookup finds\<close>

text \<open>The host's knowledge of an object; what it does not know is \<open>None\<close>.\<close>

record cached_object =
  ob_ttl :: "u64 option"
  ob_length :: "u64 option"
  ob_age :: "u64 option"
  ob_swr :: "u64 option"
  ob_hits :: "u64 option"
  ob_body :: "handle option"

definition object_host :: "'w core_calls \<Rightarrow> handle \<Rightarrow> CacheGetBodyOptions \<Rightarrow> cached_object \<Rightarrow> bool" where
  "object_host cc e rng ob \<longleftrightarrow>
     answers {FastlyStatusNone} (c_cache_get_max_age_ns cc e) (ob_ttl ob)
     \<and> answers {FastlyStatusNone} (c_cache_get_length cc e) (ob_length ob)
     \<and> answers {FastlyStatusNone} (c_cache_get_age_ns cc e) (ob_age ob)
     \<and> answers {FastlyStatusNone} (c_cache_get_swr_ns cc e) (ob_swr ob)
     \<and> answers {FastlyStatusNone} (c_cache_get_hits cc e) (ob_hits ob)
     \<and> answers {FastlyStatusNone} (c_cache_get_body cc e rng) (ob_body ob)"

definition or_zero :: "('a \<Rightarrow> 'b) \<Rightarrow> 'b \<Rightarrow> 'a option \<Rightarrow> 'b" where
  "or_zero g z v = (case v of Some x \<Rightarrow> g x | None \<Rightarrow> z)"

definition found_of :: "string \<Rightarrow> handle \<Rightarrow> u32 \<Rightarrow> cached_object \<Rightarrow> Found" where
  "found_of key e state ob =
     \<lparr>fo_abiEntry = e, fo_state = state, fo_userMetadata = None, fo_Key = key,
      fo_TTL = or_zero ns_duration 0 (ob_ttl ob), fo_Length = or_zero id 0 (ob_length ob),
      fo_Age = or_zero ns_duration 0 (ob_age ob), fo_StaleWhileRevalidate = or_zero ns_duration 0 (ob_swr ob),
      fo_Hits = or_zero id 0 (ob_hits ob), fo_Body = map_option closable_body (ob_body ob)\<rparr>"

lemma read_or_none:
  "answers {FastlyStatusNone} p v \<Longrightarrow> yields (tolerate ignoreNoneError z (map_result g (hostcall p))) (or_zero g z v)"
  unfolding or_zero_def by (rule yields_tolerate_answers) (auto simp: ignoreNoneError_iff)

lemma yields_newFound:
  assumes "object_host cc e (range_block (lo_From opts) (lo_To opts)) ob"
  shows "yields (newFound cc key e state opts) (found_of key e state ob)"
proof -
  note ob = assms [unfolded object_host_def]
  have body: "yields (tolerate ignoreNoneError None
      (map_result Some (CacheEntry_Body cc e (range_block (lo_From opts) (lo_To opts)))))
      (map_option closable_body (ob_body ob))"
  proof -
    have eq: "map_result Some (map_result closable_body m) = map_result (\<lambda>h. Some (closable_body h)) m"
      for m :: "('a, goerr + handle) comp"
      by (rule ext) (simp add: map_result_def check_c_def try_c_def and_then_def split: option.split outcome.split sum.split)
    have "yields (tolerate ignoreNoneError None (map_result (\<lambda>h. Some (closable_body h))
        (hostcall (c_cache_get_body cc e (range_block (lo_From opts) (lo_To opts))))))
      (or_zero (\<lambda>h. Some (closable_body h)) None (ob_body ob))"
      by (rule read_or_none) (use ob in blast)
    moreover have "or_zero (\<lambda>h. Some (closable_body h)) None (ob_body ob) = map_option closable_body (ob_body ob)"
      by (cases "ob_body ob") (simp_all add: or_zero_def)
    ultimately show ?thesis by (simp add: CacheEntry_Body_def eq)
  qed
  show ?thesis
    unfolding newFound_def found_of_def CacheEntry_MaxAge_def CacheEntry_Length_def CacheEntry_Age_def
      CacheEntry_StaleWhileRevalidate_def CacheEntry_Hits_def
    by (rule yields_check_c [OF read_or_none], use ob in blast)+
      (rule yields_check_c [OF body], rule yields_finish)
qed

text \<open>
  A lookup of an object the host has returns it with every piece of metadata the host knows,
  zero for what it does not know, and the body of the range that was asked for; a lookup of
  anything else fails with \<open>ErrNotFound\<close>.
\<close>

lemma core_lookup_found:
  assumes "lo_RequestHeaders opts = None"
    and "answers {} (c_cache_lookup cc key \<lparr>cl_requestHeaders = 0, cl_mask = (if lo_LegacyReturnWholeBody opts then 0 else 8)\<rparr>) (Some e)"
    and "answers {} (c_cache_get_state cc e) (Some state)"
    and "object_host cc e (range_block (lo_From opts) (lo_To opts)) ob"
  shows "if state AND CacheLookupStateFound = 0 then fails (core_Lookup host cc key opts) cc_ErrNotFound
     else yields (core_Lookup host cc key opts) (found_of key e state ob)"
proof -
  have abi: "abiLookupOptions host opts
      = finish (Inr \<lparr>cl_requestHeaders = 0, cl_mask = (if lo_LegacyReturnWholeBody opts then 0 else 8)\<rparr>)"
    using assms(1)
    by (simp add: abiLookupOptions_def cl_SetAlwaysUseRequestedRange_def zero_lookup_block_def Let_def)
  note start = yields_check_c [OF yields_finish] fails_check_c [OF yields_finish]
  have lookup: "yields (CacheLookup cc key \<lparr>cl_requestHeaders = 0, cl_mask = (if lo_LegacyReturnWholeBody opts then 0 else 8)\<rparr>) e"
    unfolding CacheLookup_def by (rule answers_Some [OF assms(2)])
  have st: "yields (CacheEntry_State cc e) state" unfolding CacheEntry_State_def by (rule answers_Some [OF assms(3)])
  show ?thesis
  proof (cases "state AND CacheLookupStateFound = 0")
    case True
    have "fails (drop_error (CacheEntry_Close cc e) (finish (Inl cc_ErrNotFound))) cc_ErrNotFound"
      unfolding fails_def
    proof
      fix w
      obtain r w' where "CacheEntry_Close cc e w = Some (Done r, w')"
        unfolding CacheEntry_Close_def by (metis hostcall_cases)
      then show "\<exists>w'. drop_error (CacheEntry_Close cc e) (finish (Inl cc_ErrNotFound)) w = Some (Done (Inl cc_ErrNotFound), w')"
        by (simp add: drop_error_Done)
    qed
    then have "fails (core_Lookup host cc key opts) cc_ErrNotFound"
      unfolding core_Lookup_def abi
      by (intro start(2) fails_check_c [OF lookup] fails_try_c [OF st]) (simp only: True if_True refl)
    with True show ?thesis by simp
  next
    case False
    have "yields (core_Lookup host cc key opts) (found_of key e state ob)"
      unfolding core_Lookup_def abi
      by (rule start(1), rule yields_check_c [OF lookup], rule yields_try_c [OF st], simp only: False if_False,
          rule yields_try_c [OF yields_newFound [OF assms(4)]], rule yields_finish)
    with False show ?thesis by simp
  qed
qed

text \<open>A host with one object, of unknown length.\<close>

definition one_object :: cached_object where
  "one_object = \<lparr>ob_ttl = Some 60000000000, ob_length = None, ob_age = Some 1000000000, ob_swr = None,
     ob_hits = Some 4, ob_body = Some 23\<rparr>"

definition reply_or_none :: "'a \<Rightarrow> 'a option \<Rightarrow> ('w, FastlyStatus \<times> 'a) prog" where
  "reply_or_none z v = (\<lambda>w. ((case v of Some x \<Rightarrow> (FastlyStatusOK, x) | None \<Rightarrow> (FastlyStatusNone, z)), w))"

lemma answers_reply_or_none: "FastlyStatusNone \<in> S \<Longrightarrow> answers S (reply_or_none z v) v"
  by (simp add: answers_def reply_or_none_def split: option.split)

lemma answers_accept: "answers S (accept x) (Some x)"
  by (simp add: answers_def accept_def)

definition one_object_core :: "unit core_calls" where
  "one_object_core =
     \<lparr>c_cache_lookup = (\<lambda>k opts. accept 20), c_cache_insert = (\<lambda>k opts. accept 21),
      c_cache_tx_lookup = (\<lambda>k opts. accept 20), c_cache_tx_insert = (\<lambda>h opts. accept 21),
      c_cache_tx_insert_back = (\<lambda>h opts. accept (21, 22)), c_cache_tx_update = (\<lambda>h opts. accept ()),
      c_cache_tx_cancel = (\<lambda>h. accept ()), c_cache_close = (\<lambda>h. accept ()),
      c_cache_get_state = (\<lambda>h. accept 3), c_cache_get_user_metadata = (\<lambda>h. one_value_host []),
      c_cache_get_body = (\<lambda>h opts. reply_or_none 0 (ob_body one_object)),
      c_cache_get_length = (\<lambda>h. reply_or_none 0 (ob_length one_object)),
      c_cache_get_max_age_ns = (\<lambda>h. reply_or_none 0 (ob_ttl one_object)),
      c_cache_get_swr_ns = (\<lambda>h. reply_or_none 0 (ob_swr one_object)),
      c_cache_get_age_ns = (\<lambda>h. reply_or_none 0 (ob_age one_object)),
      c_cache_get_hits = (\<lambda>h. reply_or_none 0 (ob_hits one_object)),
      c_purge_surrogate_key = (\<lambda>k opts. accept ())\<rparr>"

lemma core_lookup_found_instance:
  "\<exists>f. yields (core_Lookup accepting_host one_object_core ''key'' zero_LookupOptions) f
     \<and> fo_TTL f = 60 * Second \<and> fo_Length f = 0 \<and> fo_Hits f = 4 \<and> fo_Body f = Some (closable_body 23)"
proof -
  have "object_host one_object_core 20 (range_block 0 0) one_object"
    by (simp add: object_host_def one_object_core_def answers_reply_or_none)
  moreover have "ns_duration 60000000000 = 60000000000" by (simp add: ns_duration_def)
  ultimately show ?thesis
    using core_lookup_found [of zero_LookupOptions one_object_core "''key''" 20 3 one_object accepting_host]
    by (intro exI [of _ "found_of ''key'' 20 3 one_object"])
      (simp add: zero_LookupOptions_def one_object_core_def answers_accept found_of_def or_zero_def one_object_def)
qed

end
