(* ===== verification/SimpleCache.thy ===== *)
theory SimpleCache
  imports CoreOperations CoreOptions
begin

text \<open>
  The simple cache (\<open>cache/simple/simple.go\<close>), a client of the core cache and of purging.  SHA-256
  and the name of the POP (\<open>os.Getenv\<close>) are parameters; so are the function that computes a
  missing value and \<open>io.Copy\<close> from its reader.
\<close>

section \<open>Surrogate keys\<close>

definition PurgeScopePOP :: u32 where [simp]: "PurgeScopePOP = 0"
definition PurgeScopeGlobal :: u32 where [simp]: "PurgeScopeGlobal = 1"

definition SurrogateKeyForCacheKey :: "(string \<Rightarrow> string) \<Rightarrow> string \<Rightarrow> string \<Rightarrow> u32 \<Rightarrow> string" where
  "SurrogateKeyForCacheKey sha256 pop cacheKey scope =
     ascii_upper (hex_encode (sha256 (if scope = PurgeScopePOP then cacheKey @ pop else cacheKey)))"

definition simple_Purge ::
  "'w core_calls \<Rightarrow> (string \<Rightarrow> string) \<Rightarrow> string \<Rightarrow> string \<Rightarrow> u32 \<Rightarrow> ('w, goerr + unit) comp" where
  "simple_Purge cc sha256 pop key scope =
     (let sk = SurrogateKeyForCacheKey sha256 pop key scope in PurgeSurrogateKey cc sk False)"

section \<open>Reading and setting\<close>

definition simple_Get ::
  "'w http_calls \<Rightarrow> 'w core_calls \<Rightarrow> string \<Rightarrow> ('w, goerr + HTTPBody option) comp" where
  "simple_Get host cc key =
     check_c id (core_Lookup host cc key zero_LookupOptions) (\<lambda>f. finish (Inr (fo_Body f)))"

record 'r SimpleEntry =
  se_Body :: 'r
  se_TTL :: Duration

definition simple_write_options ::
  "(string \<Rightarrow> string) \<Rightarrow> string \<Rightarrow> string \<Rightarrow> Duration \<Rightarrow> WriteOptions" where
  "simple_write_options sha256 pop key ttl =
     \<lparr>wp_TTL = ttl, wp_RequestHeaders = [], wp_Vary = [], wp_InitialAge = 0, wp_StaleWhileRevalidate = 0,
      wp_SurrogateKeys = [SurrogateKeyForCacheKey sha256 pop key PurgeScopePOP,
                          SurrogateKeyForCacheKey sha256 pop key PurgeScopeGlobal],
      wp_Length = 0, wp_UserMetadata = [], wp_SensitiveData = False\<rparr>"

text \<open>The body is closed once by the code and once more by its deferred call.\<close>

definition fill_and_close ::
  "'w http_calls \<Rightarrow> (HTTPBody \<Rightarrow> 'r \<Rightarrow> ('w, nat \<times> goerr option) comp) \<Rightarrow> HTTPBody \<Rightarrow> 'r \<Rightarrow> Found \<Rightarrow>
   ('w, goerr + HTTPBody option) comp" where
  "fill_and_close host io_copy wr src f =
     defer_c (HTTPBody_Close host wr)
       (and_then (io_copy wr src) (\<lambda>(n, err).
          case err of
            Some e \<Rightarrow> drop_error (HTTPBody_Abandon host wr) (finish (Inl e))
          | None \<Rightarrow>
              try_c (HTTPBody_Close host wr)
                (\<lambda>e. drop_error (HTTPBody_Abandon host wr) (finish (Inl e)))
                (\<lambda>_. finish (Inr (fo_Body f)))))"

definition GetOrSet ::
  "'w http_calls \<Rightarrow> 'w core_calls \<Rightarrow> (string \<Rightarrow> string) \<Rightarrow> string \<Rightarrow>
   (HTTPBody \<Rightarrow> 'r \<Rightarrow> ('w, nat \<times> goerr option) comp) \<Rightarrow> string \<Rightarrow> ('w, goerr + 'r SimpleEntry) comp \<Rightarrow>
   ('w, goerr + HTTPBody option) comp" where
  "GetOrSet host cc sha256 pop io_copy key setFn =
     check_c id (NewTransaction host cc key zero_LookupOptions) (\<lambda>tx.
     defer_c (Transaction_Close cc tx)
       (if Transaction_MustInsertOrUpdate tx then
          check_c id setFn (\<lambda>e.
          check_c id (Transaction_InsertAndStreamBack host cc tx (simple_write_options sha256 pop key (se_TTL e)))
            (\<lambda>(wr, f). fill_and_close host io_copy wr (se_Body e) f))
        else
          and_then (Transaction_Found cc tx) (\<lambda>(r, tx).
            case r of Inl e \<Rightarrow> finish (Inl e) | Inr f \<Rightarrow> finish (Inr (fo_Body f)))))"

definition GetOrSetEntry ::
  "'w http_calls \<Rightarrow> 'w core_calls \<Rightarrow> (string \<Rightarrow> string) \<Rightarrow> string \<Rightarrow>
   (HTTPBody \<Rightarrow> 'r \<Rightarrow> ('w, nat \<times> goerr option) comp) \<Rightarrow> string \<Rightarrow> 'r SimpleEntry \<Rightarrow>
   ('w, goerr + HTTPBody option) comp" where
  "GetOrSetEntry host cc sha256 pop io_copy key entry =
     GetOrSet host cc sha256 pop io_copy key (finish (Inr entry))"

section \<open>The calls of \<open>GetOrSet\<close>\<close>

text \<open>
  What \<open>GetOrSet\<close> may do to the entry \<open>h\<close> of its transaction between opening and closing it, with
  the way it ends: nothing, when an object was found or an error ended it; the computation of the
  value; the computation, and an insertion that is given up, abandoned or completed.
\<close>

definition set_events :: "(goerr + HTTPBody option) outcome \<Rightarrow> core_event list \<Rightarrow> bool" where
  "set_events r es \<longleftrightarrow>
     (es = [] \<and> r \<noteq> Panic)
   \<or> (es = [Computed] \<and> (\<forall>b. r \<noteq> Done (Inr b)))
   \<or> (\<exists>b h. es = [Computed, Writer b, Opened h, WriterAbandoned b, Closed h] \<and> (\<exists>e. r = Done (Inl e)))
   \<or> (\<exists>b h. es = [Computed, Writer b, Opened h, WriterClosed b] \<and> r = Panic)
   \<or> (\<exists>b h. es = [Computed, Writer b, Opened h, WriterAbandoned b, WriterClosed b] \<and> (\<exists>e. r = Done (Inl e)))
   \<or> (\<exists>b h. es = [Computed, Writer b, Opened h, WriterClosed b, WriterAbandoned b, WriterClosed b] \<and> (\<exists>e. r = Done (Inl e)))
   \<or> (\<exists>b h. es = [Computed, Writer b, Opened h, WriterClosed b, WriterClosed b] \<and> (\<exists>x. r = Done (Inr x)))"

lemma emits_Transaction_Close:
  "(\<And>x. \<not> tx_ended t \<Longrightarrow> Q (Done x) [Closed (tx_abiEntry t)]) \<Longrightarrow> \<not> tx_ended t \<Longrightarrow>
   emits (Transaction_Close (watched_cache cc) t) Q"
  by (rule emits_mono [OF Transaction_Close_events]) auto

lemma fill_and_close_events:
  assumes "\<And>b s. emits (io_copy b s) (\<lambda>r es. es = [])" "b_closable wr"
  shows "emits (fill_and_close (watched_host host) io_copy wr src f)
     (\<lambda>r es. (es = [WriterClosed (b_h wr)] \<and> r = Panic)
        \<or> (es = [WriterAbandoned (b_h wr), WriterClosed (b_h wr)] \<and> (\<exists>e. r = Done (Inl e)))
        \<or> (es = [WriterClosed (b_h wr), WriterAbandoned (b_h wr), WriterClosed (b_h wr)] \<and> (\<exists>e. r = Done (Inl e)))
        \<or> (es = [WriterClosed (b_h wr), WriterClosed (b_h wr)] \<and> (\<exists>x. r = Done (Inr x))))"
  unfolding fill_and_close_def
  by (rule emits_defer_c, rule emits_and_then, rule emits_mono [OF assms(1)])
    (auto simp: assms(2) intro!: emits_drop_error emits_try_c emits_finish emits_abandon emits_body_close
      split: outcome.splits option.splits sum.splits)

lemma GetOrSet_body_events:
  assumes copy: "\<And>b s. emits (io_copy b s) (\<lambda>r es. es = [])"
    and set: "emits setFn (\<lambda>r es. es = [Computed])"
  shows "emits (check_c id setFn (\<lambda>e.
          check_c id (Transaction_InsertAndStreamBack (watched_host host) (watched_cache cc) tx (wo e))
            (\<lambda>(wr, f). fill_and_close (watched_host host) io_copy wr (se_Body e) f))) set_events"
  by (rule emits_check_c, rule emits_mono [OF set])
    (auto simp: set_events_def split: outcome.splits sum.splits intro!: emits_check_c
      emits_mono [OF InsertAndStreamBack_events] emits_mono [OF fill_and_close_events [OF copy]])

lemma GetOrSet_found_events:
  "emits (and_then (Transaction_Found (watched_cache cc) tx) (\<lambda>(r, tx).
            case r of Inl e \<Rightarrow> finish (Inl e) | Inr f \<Rightarrow> finish (Inr (fo_Body f)))) set_events"
  by (rule emits_and_then, rule emits_mono [OF Transaction_Found_events])
    (auto simp: set_events_def intro!: emits_finish split: sum.splits)

lemma GetOrSet_events:
  assumes copy: "\<And>b s. emits (io_copy b s) (\<lambda>r es. es = [])"
    and set: "emits setFn (\<lambda>r es. es = [Computed])"
  shows "emits (GetOrSet (watched_host host) (watched_cache cc) sha256 pop io_copy key setFn)
     (\<lambda>r es. (es = [] \<and> (\<exists>e. r = Done (Inl e))) \<or> (\<exists>h. es = [Opened h, Closed h] \<and> (\<exists>e. r = Done (Inl e)))
        \<or> (\<exists>h es'. es = Opened h # es' @ [Closed h] \<and> set_events r es'))"
  unfolding GetOrSet_def
  by (rule emits_check_c, rule emits_mono [OF NewTransaction_events])
    (auto split: outcome.splits sum.splits intro!: emits_defer_c emits_Transaction_Close
      emits_mono [OF GetOrSet_body_events [OF copy set]] emits_mono [OF GetOrSet_found_events])

text \<open>
  C20: \<open>GetOrSet\<close> closes the transaction it opens, last and exactly once, on every path, a panic
  of the caller's function included; it computes the value at most once; an insertion that it
  starts is closed when it returns a body, and abandoned when it returns an error.
\<close>

theorem get_or_set_protocol:
  assumes copy: "\<And>b s. emits (io_copy b s) (\<lambda>r es. es = [])"
    and set: "emits setFn (\<lambda>r es. es = [Computed])"
    and run: "GetOrSet (watched_host host) (watched_cache cc) sha256 pop io_copy key setFn (w, l) = Some (r, (w', l'))"
  shows "(l' = l \<and> (\<exists>e. r = Done (Inl e)))
    \<or> (\<exists>h es. l' = l @ Opened h # es @ [Closed h] \<and> set_events r es)"
proof -
  have error: "set_events (Done (Inl e)) []" for e by (simp add: set_events_def)
  show ?thesis by (rule emits_run [OF GetOrSet_events [OF copy set] run]) (auto intro: error)
qed

lemma accepting_ttl [simp]: "ns_duration 0 = 0"
  by (simp add: ns_duration_def)

definition computed :: "'a \<Rightarrow> ('w \<times> core_event list, goerr + 'a) comp" where
  "computed x = (\<lambda>(w, l). Some (Done (Inr x), (w, l @ [Computed])))"

theorem get_or_set_protocol_witness:
  "\<exists>x es. GetOrSet (watched_host accepting_host) (watched_cache (accepting_core 8)) (\<lambda>s. s) ''POP''
       (\<lambda>b s. finish (1, None)) ''key'' (computed \<lparr>se_Body = ''v'', se_TTL = 1\<rparr>) ((), [])
     = Some (Done (Inr x), ((), Opened 20 # es @ [Closed 20])) \<and> set_events (Done (Inr x)) es"
proof -
  have copy: "emits (finish (1, None) :: (unit \<times> core_event list, nat \<times> goerr option) comp) (\<lambda>r es. es = [])"
    by (rule emits_finish) simp
  have set: "emits (computed \<lparr>se_Body = ''v'', se_TTL = 1\<rparr> :: (unit \<times> core_event list, goerr + string SimpleEntry) comp)
      (\<lambda>r es. es = [Computed])" by (auto simp: emits_def computed_def)
  obtain x l' where run: "GetOrSet (watched_host accepting_host) (watched_cache (accepting_core 8)) (\<lambda>s. s) ''POP''
       (\<lambda>b s. finish (1, None)) ''key'' (computed \<lparr>se_Body = ''v'', se_TTL = 1\<rparr>) ((), [])
     = Some (Done (Inr x), ((), l')) \<and> l' \<noteq> [] \<and> hd l' = Opened 20"
    by (simp add: GetOrSet_def NewTransaction_def abiLookupOptions_def zero_LookupOptions_def run_core
        CacheTransactionLookup_def CacheEntry_State_def Transaction_MustInsertOrUpdate_def computed_def
        Transaction_InsertAndStreamBack_def abiWriteOptions_def simple_write_options_def defer_c_def
        CacheEntry_InsertAndStreamBack_def newFound_def CacheEntry_MaxAge_def CacheEntry_Length_def CacheEntry_Age_def
        CacheEntry_StaleWhileRevalidate_def CacheEntry_Hits_def CacheEntry_Body_def accepting_core_def
        ignoreNoneError_iff fill_and_close_def HTTPBody_Close_def closable_body_def Transaction_Close_def
        CacheEntry_Close_def accepting_host_def)
  from get_or_set_protocol [OF copy set conjunct1 [OF run]] run show ?thesis by auto
qed

section \<open>Purging what was set\<close>

lemma hex_upper_no_space: "CHR '' '' \<notin> set (ascii_upper (hex_encode s))"
proof -
  have d: "upper_byte (hex_digit n) \<noteq> CHR '' ''" if "n < 16" for n
  proof -
    have "byte (char_of (48 + n)) = 48 + n" "byte (char_of (87 + n)) = 87 + n" "byte (char_of (55 + n)) = 55 + n"
      using that by (simp_all add: byte_def)
    moreover have "byte (CHR '' '') = 32" by (simp add: byte_def)
    ultimately show ?thesis
      using that by (auto simp: hex_digit_def upper_byte_def is_lower_def simp flip: byte_eq_iff)
  qed
  have lt: "byte c div 16 < 16" "byte c mod 16 < 16" for c
    using byte_lt_256 [of c] by (simp_all add: less_mult_imp_div_less)
  have "\<forall>y \<in> set (hex_encode s). upper_byte y \<noteq> CHR '' ''"
    using d lt by (auto simp: hex_encode_def)
  then show ?thesis by (auto simp: ascii_upper_def)
qed

lemma length_surrogate_key:
  "length (sha256 (if scope = 0 then key @ pop else key)) = 32 \<Longrightarrow> length (SurrogateKeyForCacheKey sha256 pop key scope) = 64"
  by (simp add: SurrogateKeyForCacheKey_def ascii_upper_def)

text \<open>
  C40: an entry set by \<open>GetOrSet\<close> is stored under exactly two surrogate keys, and \<open>Purge\<close> of the
  same cache key, in either scope, makes one hard purge of one of them: the one of its scope.
\<close>

theorem simple_purge_stored_key:
  assumes "\<And>s. length (sha256 s) = 32"
    and "abiWriteOptions host (simple_write_options sha256 pop key ttl) w = Some (Done (Inr b), w')"
  shows "wo_mask b AND cacheWriteOptionsMaskSurrogateKeys = cacheWriteOptionsMaskSurrogateKeys
    \<and> split_byte (CHR '' '') (received (wo_surrogateKeys b))
        = [SurrogateKeyForCacheKey sha256 pop key PurgeScopePOP, SurrogateKeyForCacheKey sha256 pop key PurgeScopeGlobal]
    \<and> simple_Purge cc sha256 pop key scope
        = hostcall (c_purge_surrogate_key cc (SurrogateKeyForCacheKey sha256 pop key scope) \<lparr>pu_mask = 0\<rparr>)
    \<and> SurrogateKeyForCacheKey sha256 pop key scope \<in> set (split_byte (CHR '' '') (received (wo_surrogateKeys b)))"
proof -
  let ?k = "SurrogateKeyForCacheKey sha256 pop key"
  let ?ks = "[?k PurgeScopePOP, ?k PurgeScopeGlobal]"
  have len: "length (?k s) = 64" for s by (rule length_surrogate_key) (rule assms(1))
  then have sized: "sized (str_join '' '' ?ks)" by (simp add: sized_def)
  have b: "b = write_fields (simple_write_options sha256 pop key ttl) (wo_MaxAge ttl zero_write_block)"
    using assms(2) by (simp add: abiWriteOptions_def simple_write_options_def)
  have sks: "received (wo_surrogateKeys b) = str_join '' '' ?ks"
    using sized by (simp add: b write_fields_def simple_write_options_def Let_def write_field_reads wo_SurrogateKeys_def)
  have "\<forall>x \<in> set ?ks. CHR '' '' \<notin> set x" by (simp add: SurrogateKeyForCacheKey_def hex_upper_no_space)
  from split_join [OF _ this] have split: "split_byte (CHR '' '') (received (wo_surrogateKeys b)) = ?ks"
    unfolding sks by simp
  have mask: "bit (wo_mask b) 5"
    by (simp add: b write_fields_def simple_write_options_def Let_def write_mask_bits wo_SurrogateKeys_def
        bit_simps flag_bits)
  have "?k scope \<in> set ?ks" by (cases "scope = 0") (simp_all add: SurrogateKeyForCacheKey_def)
  with split mask show ?thesis
    by (simp add: mask_flag simple_Purge_def Let_def PurgeSurrogateKey_def abi_PurgeSurrogateKey_def SoftPurge_def)
qed

theorem simple_purge_stored_key_witness:
  "\<exists>b. abiWriteOptions accepting_host (simple_write_options (\<lambda>s. replicate 32 (CHR 0xAB)) ''SYD'' ''key'' 1) ()
       = Some (Done (Inr b), ())
     \<and> concat (replicate 32 ''AB'') \<in> set (split_byte (CHR '' '') (received (wo_surrogateKeys b)))"
proof -
  let ?h = "\<lambda>s :: string. replicate 32 (CHR 0xAB)"
  obtain b where run: "abiWriteOptions accepting_host (simple_write_options ?h ''SYD'' ''key'' 1) () = Some (Done (Inr b), ())"
    by (simp add: abiWriteOptions_def simple_write_options_def)
  have "SurrogateKeyForCacheKey ?h ''SYD'' ''key'' 1 = concat (replicate 32 ''AB'')" by code_simp
  then show ?thesis using simple_purge_stored_key [OF _ run, of _ 1] run by auto
qed

end
