(* ===== verification/SimpleCacheMap.thy ===== *)
theory SimpleCacheMap
  imports SimpleCache
begin

text \<open>
  The simple cache is a map.  The abstract specification is a map from keys to texts with two
  operations: look a key up, and set it if it is missing.  The theorem is that \<open>simple_Get\<close> and
  \<open>GetOrSet\<close>, with their transactions, writers and streamed bodies, implement it on every cache
  that follows the documented meaning of the hostcalls, as long as no object expires.
\<close>

section \<open>A calculus of outcomes\<close>

text \<open>
  What the host knows is seen through an abstraction \<open>view\<close> of the world.  \<open>lands view m v Q\<close>: from
  every world with the view \<open>v\<close>, \<open>m\<close> returns, with a result and a view in \<open>Q\<close>.
\<close>

definition lands :: "('w \<Rightarrow> 'v) \<Rightarrow> ('w, 'a) comp \<Rightarrow> 'v \<Rightarrow> ('a \<Rightarrow> 'v \<Rightarrow> bool) \<Rightarrow> bool" where
  "lands view m v Q \<longleftrightarrow> (\<forall>w. view w = v \<longrightarrow> (\<exists>r w'. m w = Some (Done r, w') \<and> Q r (view w')))"

definition replies :: "('w \<Rightarrow> 'v) \<Rightarrow> ('w, FastlyStatus \<times> 'a) prog \<Rightarrow> 'v \<Rightarrow> (FastlyStatus \<Rightarrow> 'a \<Rightarrow> 'v \<Rightarrow> bool) \<Rightarrow> bool" where
  "replies view p v Q \<longleftrightarrow> (\<forall>w. view w = v \<longrightarrow> (\<exists>s x w'. p w = ((s, x), w') \<and> Q s x (view w')))"

lemma landsD: "lands view m (view w) Q \<Longrightarrow> \<exists>r w'. m w = Some (Done r, w') \<and> Q r (view w')"
  unfolding lands_def by blast

lemma lands_mono: "lands view m v P \<Longrightarrow> (\<And>r v'. P r v' \<Longrightarrow> Q r v') \<Longrightarrow> lands view m v Q"
  unfolding lands_def by blast

lemma lands_finish: "Q x v \<Longrightarrow> lands view (finish x) v Q"
  by (simp add: lands_def)

lemma lands_and_then:
  assumes "lands view m v (\<lambda>x v'. lands view (k x) v' Q)"
  shows "lands view (and_then m k) v Q"
  unfolding lands_def
proof (intro allI impI)
  fix w assume "view w = v"
  from landsD [OF assms [folded this]] obtain x w1 where
    1: "m w = Some (Done x, w1)" "lands view (k x) (view w1) Q" by blast
  from landsD [OF 1(2)] show "\<exists>r w'. and_then m k w = Some (Done r, w') \<and> Q r (view w')"
    using 1(1) by (simp add: and_then_def)
qed

lemma lands_try_c:
  assumes "lands view m v (\<lambda>r v'. case r of Inl e \<Rightarrow> lands view (h e) v' Q | Inr x \<Rightarrow> lands view (k x) v' Q)"
  shows "lands view (try_c m h k) v Q"
  unfolding try_c_def
  by (rule lands_and_then, rule lands_mono [OF assms]) (auto split: sum.splits)

lemma lands_check_c:
  assumes "lands view m v (\<lambda>r v'. case r of Inl e \<Rightarrow> Q (Inl (f e)) v' | Inr x \<Rightarrow> lands view (k x) v' Q)"
  shows "lands view (check_c f m k) v Q"
  unfolding check_c_def
  by (rule lands_try_c, rule lands_mono [OF assms]) (auto split: sum.splits intro: lands_finish)

lemma lands_drop_error: "lands view m v (\<lambda>_ v'. lands view k v' Q) \<Longrightarrow> lands view (drop_error m k) v Q"
  unfolding drop_error_def by (rule lands_and_then)

lemma lands_defer_c:
  assumes "lands view m v (\<lambda>r v'. lands view d v' (\<lambda>_. Q r))"
  shows "lands view (defer_c d m) v Q"
  unfolding lands_def
proof (intro allI impI)
  fix w assume "view w = v"
  from landsD [OF assms [folded this]] obtain r w1 where
    1: "m w = Some (Done r, w1)" "lands view d (view w1) (\<lambda>_. Q r)" by blast
  from landsD [OF 1(2)] obtain x w2 where "d w1 = Some (Done x, w2)" "Q r (view w2)" by blast
  with 1 show "\<exists>r w'. defer_c d m w = Some (Done r, w') \<and> Q r (view w')" by (simp add: defer_c_def)
qed

lemma lands_hostcall:
  assumes "replies view p v (\<lambda>s x v'. case toError s of None \<Rightarrow> Q (Inr x) v' | Some e \<Rightarrow> Q (Inl e) v')"
  shows "lands view (hostcall p) v Q"
  unfolding lands_def
proof (intro allI impI)
  fix w assume "view w = v"
  with assms obtain s x w' where "p w = ((s, x), w')" "case toError s of None \<Rightarrow> Q (Inr x) (view w') | Some e \<Rightarrow> Q (Inl e) (view w')"
    unfolding replies_def by blast
  then show "\<exists>r w'. hostcall p w = Some (Done r, w') \<and> Q r (view w')"
    by (auto simp: hostcall_def split: option.splits)
qed

lemma replies_mono: "replies view p v P \<Longrightarrow> (\<And>s x v'. P s x v' \<Longrightarrow> Q s x v') \<Longrightarrow> replies view p v Q"
  unfolding replies_def by blast

text \<open>A successful call, and a call whose result is not used.\<close>

lemma lands_ok:
  assumes "replies view p v (\<lambda>s x v'. s = FastlyStatusOK \<and> P x v')" and "\<And>x v'. P x v' \<Longrightarrow> Q (Inr x) v'"
  shows "lands view (hostcall p) v Q"
  by (rule lands_hostcall, rule replies_mono [OF assms(1)]) (use assms(2) in \<open>auto simp: toError_def\<close>)

lemma lands_any:
  assumes "replies view p v (\<lambda>s x v'. v' = v)" and "\<And>r. Q r v"
  shows "lands view (hostcall p) v Q"
  by (rule lands_hostcall, rule replies_mono [OF assms(1)]) (use assms(2) in \<open>auto split: option.splits\<close>)

lemma lands_map_result:
  assumes "lands view m v (\<lambda>r v'. case r of Inl e \<Rightarrow> Q (Inl e) v' | Inr x \<Rightarrow> Q (Inr (f x)) v')"
  shows "lands view (map_result f m) v Q"
  unfolding map_result_def
  by (rule lands_check_c, rule lands_mono [OF assms]) (auto split: sum.splits intro: lands_finish)

section \<open>What a cache does\<close>

text \<open>
  The state of a cache as a client sees it: the objects that are usable, the entries it has given
  out (by a lookup, by a lookup that began a transaction, or for an object that is being written),
  the texts of the bodies that can be read, and the bodies that are being written.
\<close>

datatype cache_entry = Looked string | Began string | Filling handle

datatype readable = Holding string | Following handle

record cache_view =
  cv_objects :: "string \<rightharpoonup> string"
  cv_entry :: "handle \<rightharpoonup> cache_entry"
  cv_reader :: "handle \<rightharpoonup> readable"
  cv_writer :: "handle \<rightharpoonup> string \<times> string"

definition stored_under :: "string \<Rightarrow> string \<Rightarrow> handle \<Rightarrow> cache_view \<Rightarrow> cache_view" where
  "stored_under k t wb v =
     v\<lparr>cv_objects := (cv_objects v)(k \<mapsto> t),
       cv_reader := (\<lambda>b. if cv_reader v b = Some (Following wb) then Some (Holding t) else cv_reader v b),
       cv_writer := (cv_writer v)(wb := None)\<rparr>"

text \<open>
  The documented meaning of the calls that the simple cache makes: lookups, the state and the
  body of an entry, the metadata (which may be missing), inserting with a body to read back,
  and closing; an object is stored when the body that is written to it is closed.  Lookups need
  only be answered for the keys in \<open>K\<close>: the platform takes keys of up to 4096 bytes.  No object
  expires while the operations run.
\<close>

definition lookup_calls :: "string set \<Rightarrow> ('w \<Rightarrow> cache_view) \<Rightarrow> 'w core_calls \<Rightarrow> bool" where
  "lookup_calls K view cc \<longleftrightarrow>
     (\<forall>k \<in> K. \<forall>opts v. replies view (c_cache_lookup cc k opts) v (\<lambda>s e v'. s = FastlyStatusOK
        \<and> v' = v\<lparr>cv_entry := (cv_entry v)(e \<mapsto> Looked k)\<rparr>))
     \<and> (\<forall>k \<in> K. \<forall>opts v. replies view (c_cache_tx_lookup cc k opts) v (\<lambda>s e v'. s = FastlyStatusOK
        \<and> v' = v\<lparr>cv_entry := (cv_entry v)(e \<mapsto> Began k)\<rparr>))"

definition state_calls :: "('w \<Rightarrow> cache_view) \<Rightarrow> 'w core_calls \<Rightarrow> bool" where
  "state_calls view cc \<longleftrightarrow>
     (\<forall>e x v. cv_entry v e = Some x \<longrightarrow> replies view (c_cache_get_state cc e) v (\<lambda>s state v'. s = FastlyStatusOK
        \<and> v' = v
        \<and> (case x of
             Looked k \<Rightarrow> (state AND CacheLookupStateFound \<noteq> 0 \<longleftrightarrow> cv_objects v k \<noteq> None)
           | Began k \<Rightarrow> (state AND CacheLookupStateFound \<noteq> 0 \<longleftrightarrow> cv_objects v k \<noteq> None)
               \<and> (state AND CacheLookupStateMustInsertOrUpdate \<noteq> 0 \<longleftrightarrow> cv_objects v k = None)
           | Filling wb \<Rightarrow> True)))"

definition metadata_call :: "('w \<Rightarrow> cache_view) \<Rightarrow> ('w, FastlyStatus \<times> 'a) prog \<Rightarrow> bool" where
  "metadata_call view p \<longleftrightarrow>
     (\<forall>v. replies view p v (\<lambda>s x v'. (s = FastlyStatusOK \<or> s = FastlyStatusNone) \<and> v' = v))"

definition entry_calls :: "('w \<Rightarrow> cache_view) \<Rightarrow> 'w core_calls \<Rightarrow> bool" where
  "entry_calls view cc \<longleftrightarrow>
     (\<forall>e. metadata_call view (c_cache_get_max_age_ns cc e) \<and> metadata_call view (c_cache_get_length cc e)
        \<and> metadata_call view (c_cache_get_age_ns cc e) \<and> metadata_call view (c_cache_get_swr_ns cc e)
        \<and> metadata_call view (c_cache_get_hits cc e))
     \<and> (\<forall>e k t v. (cv_entry v e = Some (Looked k) \<or> cv_entry v e = Some (Began k)) \<and> cv_objects v k = Some t \<longrightarrow>
          replies view (c_cache_get_body cc e zero_body_block) v (\<lambda>s b v'. s = FastlyStatusOK
            \<and> v' = v\<lparr>cv_reader := (cv_reader v)(b \<mapsto> Holding t)\<rparr>))
     \<and> (\<forall>e wb v. cv_entry v e = Some (Filling wb) \<longrightarrow>
          replies view (c_cache_get_body cc e zero_body_block) v (\<lambda>s b v'. s = FastlyStatusOK
            \<and> v' = v\<lparr>cv_reader := (cv_reader v)(b \<mapsto> Following wb)\<rparr>))
     \<and> (\<forall>e v. replies view (c_cache_close cc e) v (\<lambda>s u v'. v' = v))"

definition write_calls :: "('w \<Rightarrow> cache_view) \<Rightarrow> 'w http_calls \<Rightarrow> 'w core_calls \<Rightarrow> bool" where
  "write_calls view host cc \<longleftrightarrow>
     (\<forall>e k opts v. cv_entry v e = Some (Began k) \<and> cv_objects v k = None \<longrightarrow>
        replies view (c_cache_tx_insert_back cc e opts) v (\<lambda>s x v'. s = FastlyStatusOK
          \<and> v' = v\<lparr>cv_writer := (cv_writer v)(fst x \<mapsto> (k, [])), cv_entry := (cv_entry v)(snd x \<mapsto> Filling (fst x))\<rparr>))
     \<and> (\<forall>wb k t v. cv_writer v wb = Some (k, t) \<longrightarrow>
          replies view (c_body_close host wb) v (\<lambda>s u v'. s = FastlyStatusOK \<and> v' = stored_under k t wb v))
     \<and> (\<forall>wb v. cv_writer v wb = None \<longrightarrow> replies view (c_body_close host wb) v (\<lambda>s u v'. v' = v))"

definition map_cache :: "string set \<Rightarrow> ('w \<Rightarrow> cache_view) \<Rightarrow> 'w http_calls \<Rightarrow> 'w core_calls \<Rightarrow> bool" where
  "map_cache K view host cc \<longleftrightarrow> lookup_calls K view cc \<and> state_calls view cc \<and> entry_calls view cc \<and> write_calls view host cc"

text \<open>The copy of a source whose text is \<open>t\<close> into a body that is being written.\<close>

definition copies :: "('w \<Rightarrow> cache_view) \<Rightarrow> (HTTPBody \<Rightarrow> 'r \<Rightarrow> ('w, nat \<times> goerr option) comp) \<Rightarrow> 'r \<Rightarrow> string \<Rightarrow> bool" where
  "copies view io_copy src t \<longleftrightarrow>
     (\<forall>wb k t0 v. cv_writer v wb = Some (k, t0) \<longrightarrow>
        lands view (io_copy (closable_body wb) src) v (\<lambda>(n, err) v'. err = None
          \<and> v' = v\<lparr>cv_writer := (cv_writer v)(wb \<mapsto> (k, t0 @ t))\<rparr>))"

section \<open>The abstract map\<close>

definition map_get :: "(string \<rightharpoonup> string) \<Rightarrow> string \<Rightarrow> goerr + string" where
  "map_get m k = (case m k of None \<Rightarrow> Inl cc_ErrNotFound | Some t \<Rightarrow> Inr t)"

text \<open>The value comes from a computation that may fail; it is only asked for a missing key.\<close>

definition map_get_or_set ::
  "(string \<rightharpoonup> string) \<Rightarrow> string \<Rightarrow> goerr + string \<Rightarrow> (goerr + string) \<times> (string \<rightharpoonup> string)" where
  "map_get_or_set m k x =
     (case m k of
        Some t \<Rightarrow> (Inr t, m)
      | None \<Rightarrow> (case x of Inl e \<Rightarrow> (Inl e, m) | Inr t \<Rightarrow> (Inr t, m(k \<mapsto> t))))"

text \<open>A result of the code stands for a text when its body holds the text.\<close>

definition stands_for :: "goerr + HTTPBody option \<Rightarrow> cache_view \<Rightarrow> goerr + string \<Rightarrow> bool" where
  "stands_for r v x \<longleftrightarrow>
     (case x of
        Inl e \<Rightarrow> r = Inl e
      | Inr t \<Rightarrow> \<exists>b. r = Inr (Some (closable_body b)) \<and> cv_reader v b = Some (Holding t))"

section \<open>The parts of the operations\<close>

lemma closable_body_eq [simp]: "closable_body a = closable_body b \<longleftrightarrow> a = b"
  by (simp add: closable_body_def)

lemma lands_present:
  assumes "metadata_call view p"
  shows "lands view (hostcall p) v (\<lambda>r v'. v' = v \<and> (\<forall>e. r = Inl e \<longrightarrow> ignoreNoneError (Some e) = None))"
  by (rule lands_hostcall, rule replies_mono [OF assms [unfolded metadata_call_def, rule_format]])
    (auto simp: toError_def ignoreNoneError_def IsFastlyError_Some)

lemma lands_metadata:
  assumes "metadata_call view p" "\<And>x. Q (Inr x) v"
  shows "lands view (tolerate ignoreNoneError z (map_result f (hostcall p))) v Q"
  unfolding tolerate_def
  by (rule lands_try_c, rule lands_map_result, rule lands_mono [OF lands_present [OF assms(1)]])
    (use assms(2) in \<open>auto intro: lands_finish split: sum.splits\<close>)

lemma lands_body:
  assumes "replies view (c_cache_get_body cc e zero_body_block) v (\<lambda>s b v'. s = FastlyStatusOK
            \<and> v' = v\<lparr>cv_reader := (cv_reader v)(b \<mapsto> x)\<rparr>)"
  shows "lands view (tolerate ignoreNoneError None (map_result Some (CacheEntry_Body cc e zero_body_block))) v
    (\<lambda>r v'. \<exists>b. r = Inr (Some (closable_body b)) \<and> v' = v\<lparr>cv_reader := (cv_reader v)(b \<mapsto> x)\<rparr>)"
  unfolding tolerate_def CacheEntry_Body_def
  by (rule lands_try_c, rule lands_map_result, rule lands_map_result, rule lands_ok [OF assms])
    (auto intro: lands_finish)

text \<open>Opening an object leaves the reader of its body, and nothing else.\<close>

lemma lands_newFound:
  assumes "entry_calls view cc"
    and body: "replies view (c_cache_get_body cc e zero_body_block) v (\<lambda>s b v'. s = FastlyStatusOK
            \<and> v' = v\<lparr>cv_reader := (cv_reader v)(b \<mapsto> x)\<rparr>)"
  shows "lands view (newFound cc key e state zero_LookupOptions) v (\<lambda>r v'. \<exists>f b. r = Inr f
    \<and> fo_Body f = Some (closable_body b) \<and> v' = v\<lparr>cv_reader := (cv_reader v)(b \<mapsto> x)\<rparr>)"
proof -
  have zero: "range_block (lo_From zero_LookupOptions) (lo_To zero_LookupOptions) = zero_body_block"
    by (simp add: range_block_def zero_LookupOptions_def)
  have calls: "metadata_call view (c_cache_get_max_age_ns cc e)" "metadata_call view (c_cache_get_length cc e)"
    "metadata_call view (c_cache_get_age_ns cc e)" "metadata_call view (c_cache_get_swr_ns cc e)"
    "metadata_call view (c_cache_get_hits cc e)"
    using assms(1) by (auto simp: entry_calls_def)
  show ?thesis
    unfolding newFound_def zero CacheEntry_MaxAge_def CacheEntry_Length_def CacheEntry_Age_def
      CacheEntry_StaleWhileRevalidate_def CacheEntry_Hits_def
    by (rule lands_check_c, rule lands_metadata [OF calls(1)], simp,
        rule lands_check_c, rule lands_metadata [OF calls(2)], simp,
        rule lands_check_c, rule lands_metadata [OF calls(3)], simp,
        rule lands_check_c, rule lands_metadata [OF calls(4)], simp,
        rule lands_check_c, rule lands_metadata [OF calls(5)], simp,
        rule lands_check_c, rule lands_mono [OF lands_body [OF body]])
      (auto intro!: lands_finish)
qed

text \<open>The calls of the contract, one by one.\<close>

lemma map_cache_calls:
  assumes "map_cache K view host cc"
  shows "k \<in> K \<Longrightarrow> replies view (c_cache_lookup cc k lopts) v (\<lambda>s e v'. s = FastlyStatusOK
      \<and> v' = v\<lparr>cv_entry := (cv_entry v)(e \<mapsto> Looked k)\<rparr>)"
    and "k \<in> K \<Longrightarrow> replies view (c_cache_tx_lookup cc k lopts) v (\<lambda>s e v'. s = FastlyStatusOK
      \<and> v' = v\<lparr>cv_entry := (cv_entry v)(e \<mapsto> Began k)\<rparr>)"
    and "replies view (c_cache_close cc e) v (\<lambda>s u v'. v' = v)"
    and "cv_entry v e = Some (Looked k) \<Longrightarrow> replies view (c_cache_get_state cc e) v (\<lambda>s state v'. s = FastlyStatusOK
      \<and> v' = v \<and> (state AND CacheLookupStateFound \<noteq> 0 \<longleftrightarrow> cv_objects v k \<noteq> None))"
    and "cv_entry v e = Some (Began k) \<Longrightarrow> replies view (c_cache_get_state cc e) v (\<lambda>s state v'. s = FastlyStatusOK
      \<and> v' = v \<and> (state AND CacheLookupStateFound \<noteq> 0 \<longleftrightarrow> cv_objects v k \<noteq> None)
      \<and> (state AND CacheLookupStateMustInsertOrUpdate \<noteq> 0 \<longleftrightarrow> cv_objects v k = None))"
    and "cv_entry v e = Some (Filling wb) \<Longrightarrow> replies view (c_cache_get_state cc e) v (\<lambda>s state v'. s = FastlyStatusOK
      \<and> v' = v)"
    and "cv_entry v e = Some (Began k) \<Longrightarrow> cv_objects v k = None \<Longrightarrow>
      replies view (c_cache_tx_insert_back cc e wopts) v (\<lambda>s x v'. s = FastlyStatusOK
      \<and> v' = v\<lparr>cv_writer := (cv_writer v)(fst x \<mapsto> (k, [])), cv_entry := (cv_entry v)(snd x \<mapsto> Filling (fst x))\<rparr>)"
    and "cv_writer v wb = Some (k, t) \<Longrightarrow>
      replies view (c_body_close host wb) v (\<lambda>s u v'. s = FastlyStatusOK \<and> v' = stored_under k t wb v)"
    and "cv_writer v wb = None \<Longrightarrow> replies view (c_body_close host wb) v (\<lambda>s u v'. v' = v)"
proof -
  have c: "lookup_calls K view cc" "state_calls view cc" "entry_calls view cc" "write_calls view host cc"
    using assms by (simp_all add: map_cache_def)
  note state = c(2) [unfolded state_calls_def, rule_format, of v e]
  show "replies view (c_cache_lookup cc k lopts) v (\<lambda>s e v'. s = FastlyStatusOK
      \<and> v' = v\<lparr>cv_entry := (cv_entry v)(e \<mapsto> Looked k)\<rparr>)"
    and "replies view (c_cache_tx_lookup cc k lopts) v (\<lambda>s e v'. s = FastlyStatusOK
      \<and> v' = v\<lparr>cv_entry := (cv_entry v)(e \<mapsto> Began k)\<rparr>)" if "k \<in> K"
    using c(1) that by (simp_all add: lookup_calls_def)
  show "replies view (c_cache_close cc e) v (\<lambda>s u v'. v' = v)"
    using c(3) by (simp add: entry_calls_def)
  show "replies view (c_cache_get_state cc e) v (\<lambda>s state v'. s = FastlyStatusOK
      \<and> v' = v \<and> (state AND CacheLookupStateFound \<noteq> 0 \<longleftrightarrow> cv_objects v k \<noteq> None))"
    if "cv_entry v e = Some (Looked k)" using state [OF that] by simp
  show "replies view (c_cache_get_state cc e) v (\<lambda>s state v'. s = FastlyStatusOK
      \<and> v' = v \<and> (state AND CacheLookupStateFound \<noteq> 0 \<longleftrightarrow> cv_objects v k \<noteq> None)
      \<and> (state AND CacheLookupStateMustInsertOrUpdate \<noteq> 0 \<longleftrightarrow> cv_objects v k = None))"
    if "cv_entry v e = Some (Began k)" using state [OF that] by simp
  show "replies view (c_cache_get_state cc e) v (\<lambda>s state v'. s = FastlyStatusOK \<and> v' = v)"
    if "cv_entry v e = Some (Filling wb)" using state [OF that] by simp
  show "replies view (c_cache_tx_insert_back cc e wopts) v (\<lambda>s x v'. s = FastlyStatusOK
      \<and> v' = v\<lparr>cv_writer := (cv_writer v)(fst x \<mapsto> (k, [])), cv_entry := (cv_entry v)(snd x \<mapsto> Filling (fst x))\<rparr>)"
    if "cv_entry v e = Some (Began k)" "cv_objects v k = None"
    using c(4) that by (simp add: write_calls_def)
  show "replies view (c_body_close host wb) v (\<lambda>s u v'. s = FastlyStatusOK \<and> v' = stored_under k t wb v)"
    if "cv_writer v wb = Some (k, t)" using c(4) that by (simp add: write_calls_def)
  show "replies view (c_body_close host wb) v (\<lambda>s u v'. v' = v)"
    if "cv_writer v wb = None" using c(4) that by (simp add: write_calls_def)
qed

lemma lands_open:
  assumes "map_cache K view host cc"
  shows "cv_entry v e = Some (Looked k) \<or> cv_entry v e = Some (Began k) \<Longrightarrow> cv_objects v k = Some t \<Longrightarrow>
    lands view (newFound cc key e state zero_LookupOptions) v (\<lambda>r v'. \<exists>f b. r = Inr f
      \<and> fo_Body f = Some (closable_body b) \<and> v' = v\<lparr>cv_reader := (cv_reader v)(b \<mapsto> Holding t)\<rparr>)"
    and "cv_entry v e = Some (Filling wb) \<Longrightarrow>
    lands view (newFound cc key e state zero_LookupOptions) v (\<lambda>r v'. \<exists>f b. r = Inr f
      \<and> fo_Body f = Some (closable_body b) \<and> v' = v\<lparr>cv_reader := (cv_reader v)(b \<mapsto> Following wb)\<rparr>)"
proof -
  have calls: "entry_calls view cc" using assms by (simp add: map_cache_def)
  show "lands view (newFound cc key e state zero_LookupOptions) v (\<lambda>r v'. \<exists>f b. r = Inr f
      \<and> fo_Body f = Some (closable_body b) \<and> v' = v\<lparr>cv_reader := (cv_reader v)(b \<mapsto> Holding t)\<rparr>)"
    if "cv_entry v e = Some (Looked k) \<or> cv_entry v e = Some (Began k)" "cv_objects v k = Some t"
    by (rule lands_newFound [OF calls]) (use calls that in \<open>simp add: entry_calls_def\<close>)
  show "lands view (newFound cc key e state zero_LookupOptions) v (\<lambda>r v'. \<exists>f b. r = Inr f
      \<and> fo_Body f = Some (closable_body b) \<and> v' = v\<lparr>cv_reader := (cv_reader v)(b \<mapsto> Following wb)\<rparr>)"
    if "cv_entry v e = Some (Filling wb)"
    by (rule lands_newFound [OF calls]) (use calls that in \<open>simp add: entry_calls_def\<close>)
qed

lemma lands_lookup_options:
  "lands view (abiLookupOptions host zero_LookupOptions) v (\<lambda>r v'. (\<exists>lopts. r = Inr lopts) \<and> v' = v)"
  by (simp add: abiLookupOptions_def zero_LookupOptions_def Let_def lands_finish)

lemma lands_simple_Get:
  assumes "map_cache K view host cc" "key \<in> K"
  shows "lands view (simple_Get host cc key) v (\<lambda>r v'. cv_objects v' = cv_objects v
    \<and> stands_for r v' (map_get (cv_objects v) key))"
proof -
  note calls = map_cache_calls [OF assms(1)]
  have "lands view (core_Lookup host cc key zero_LookupOptions) v (\<lambda>r v'. cv_objects v' = cv_objects v
      \<and> stands_for (map_sum id fo_Body r) v' (map_get (cv_objects v) key))"
    unfolding core_Lookup_def CacheLookup_def CacheEntry_State_def CacheEntry_Close_def
    apply (rule lands_check_c, rule lands_mono [OF lands_lookup_options], clarsimp)
    apply (rule lands_check_c, rule lands_ok [OF calls(1) [OF assms(2)]], clarsimp)
    apply (rule lands_try_c, rule lands_ok [OF calls(4)], simp, clarsimp)
    apply (intro conjI impI)
     apply (rule lands_drop_error, rule lands_any [OF calls(3)], rule lands_finish)
     apply (simp add: stands_for_def map_get_def)
    apply clarsimp
    apply (rule lands_try_c, rule lands_mono [OF lands_open(1) [OF assms(1)]], simp, simp)
    apply (auto simp: stands_for_def map_get_def intro!: lands_finish)
    done
  then show ?thesis
    unfolding simple_Get_def
    by (rule lands_check_c [OF lands_mono])
      (auto simp: stands_for_def intro!: lands_finish split: option.splits sum.splits)
qed

text \<open>Closing the body that is written to, also a second time.\<close>

lemma lands_close_writer:
  assumes "map_cache K view host cc"
  shows "cv_writer v wb = Some (k, t) \<Longrightarrow>
      lands view (HTTPBody_Close host (closable_body wb)) v (\<lambda>r v'. r = Inr () \<and> v' = stored_under k t wb v)"
    and "cv_writer v wb = None \<Longrightarrow> lands view (HTTPBody_Close host (closable_body wb)) v (\<lambda>r v'. v' = v)"
  using map_cache_calls(8) [OF assms, of v wb k t] map_cache_calls(9) [OF assms, of v wb]
  by (auto simp: HTTPBody_Close_def closable_body_def intro: lands_ok lands_any)

lemma lands_fill:
  assumes "map_cache K view host cc" "copies view io_copy src t"
    and "cv_writer v wb = Some (key, [])" "cv_reader v b = Some (Following wb)"
  shows "lands view (fill_and_close host io_copy (closable_body wb) src f) v
    (\<lambda>r v'. r = Inr (fo_Body f) \<and> cv_objects v' = (cv_objects v)(key \<mapsto> t) \<and> cv_reader v' b = Some (Holding t))"
proof -
  let ?v1 = "v\<lparr>cv_writer := (cv_writer v)(wb \<mapsto> (key, t))\<rparr>"
  have copy: "lands view (io_copy (closable_body wb) src) v (\<lambda>(n, err) v'. err = None \<and> v' = ?v1)"
    using assms(2,3) unfolding copies_def by fastforce
  have close: "lands view (HTTPBody_Close host (closable_body wb)) ?v1 (\<lambda>r v'. r = Inr () \<and> v' = stored_under key t wb ?v1)"
    by (rule lands_close_writer(1) [OF assms(1)]) simp
  have again: "lands view (HTTPBody_Close host (closable_body wb)) (stored_under key t wb ?v1)
      (\<lambda>r v'. v' = stored_under key t wb ?v1)"
    by (rule lands_close_writer(2) [OF assms(1)]) (simp add: stored_under_def)
  show ?thesis unfolding fill_and_close_def
    apply (rule lands_defer_c, rule lands_and_then, rule lands_mono [OF copy], clarsimp)
    apply (rule lands_try_c, rule lands_mono [OF close], clarsimp)
    apply (rule lands_finish, rule lands_mono [OF again])
    apply (simp add: stored_under_def assms(4))
    done
qed

lemma lands_insert_back:
  assumes "map_cache K view host cc" "cv_entry v (tx_abiEntry tx) = Some (Began key)" "cv_objects v key = None"
  shows "lands view (Transaction_InsertAndStreamBack host cc tx (simple_write_options sha256 pop key ttl)) v
    (\<lambda>r v'. \<exists>wb f b. r = Inr (closable_body wb, f) \<and> fo_Body f = Some (closable_body b)
      \<and> cv_objects v' = cv_objects v \<and> cv_writer v' wb = Some (key, []) \<and> cv_reader v' b = Some (Following wb))"
proof -
  note calls = map_cache_calls [OF assms(1)]
  have opts: "lands view (abiWriteOptions host (simple_write_options sha256 pop key ttl)) v
      (\<lambda>r v'. (\<exists>wopts. r = Inr wopts) \<and> v' = v)"
    by (simp add: abiWriteOptions_def simple_write_options_def Let_def lands_finish)
  show ?thesis
    unfolding Transaction_InsertAndStreamBack_def CacheEntry_InsertAndStreamBack_def CacheEntry_State_def Let_def
    apply (rule lands_check_c, rule lands_mono [OF opts], clarsimp)
    apply (rule lands_check_c, rule lands_map_result, rule lands_ok [OF calls(7) [OF assms(2,3)]], clarsimp)
    apply (rule lands_try_c, rule lands_ok [OF calls(6)], simp, clarsimp)
    apply (rule lands_try_c, rule lands_mono [OF lands_open(2) [OF assms(1)]], simp)
    apply (clarsimp intro!: lands_finish)
    done
qed

lemma lands_Transaction_Close:
  assumes "map_cache K view host cc" "Q v"
  shows "lands view (Transaction_Close cc tx) v (\<lambda>_. Q)"
  unfolding Transaction_Close_def CacheEntry_Close_def Let_def
  using assms(2) by (auto intro!: lands_finish lands_and_then lands_any [OF map_cache_calls(3) [OF assms(1)]])

text \<open>A computation of a value: it fails, or yields an entry whose body has the text \<open>t\<close>.\<close>

definition computes ::
  "('w \<Rightarrow> cache_view) \<Rightarrow> (HTTPBody \<Rightarrow> 'r \<Rightarrow> ('w, nat \<times> goerr option) comp) \<Rightarrow>
   ('w, goerr + 'r SimpleEntry) comp \<Rightarrow> goerr + string \<Rightarrow> bool" where
  "computes view io_copy m x \<longleftrightarrow>
     (\<forall>v. lands view m v (\<lambda>r v'. v' = v \<and> (case x of
        Inl e \<Rightarrow> r = Inl e
      | Inr t \<Rightarrow> \<exists>entry. r = Inr entry \<and> copies view io_copy (se_Body entry) t)))"

lemma lands_GetOrSet:
  assumes "map_cache K view host cc" "computes view io_copy setFn x" "key \<in> K"
  shows "lands view (GetOrSet host cc sha256 pop io_copy key setFn) v (\<lambda>r v'.
    case map_get_or_set (cv_objects v) key x of (y, m) \<Rightarrow> cv_objects v' = m \<and> stands_for r v' y)"
    (is "lands _ _ _ ?Q")
proof -
  note calls = map_cache_calls [OF assms(1)]
  have compute: "lands view setFn v' (\<lambda>r v''. v'' = v' \<and> (case x of
        Inl e \<Rightarrow> r = Inl e
      | Inr t \<Rightarrow> \<exists>entry. r = Inr entry \<and> copies view io_copy (se_Body entry) t))" for v'
    using assms(2) by (simp add: computes_def)
  have new: "lands view (NewTransaction host cc key zero_LookupOptions) v (\<lambda>r v'. \<exists>tx. r = Inr tx
      \<and> tx_opts tx = zero_LookupOptions \<and> tx_found tx = None
      \<and> cv_entry v' (tx_abiEntry tx) = Some (Began key) \<and> cv_objects v' = cv_objects v
      \<and> (tx_state tx AND CacheLookupStateFound \<noteq> 0 \<longleftrightarrow> cv_objects v key \<noteq> None)
      \<and> (tx_state tx AND CacheLookupStateMustInsertOrUpdate \<noteq> 0 \<longleftrightarrow> cv_objects v key = None))"
    unfolding NewTransaction_def CacheTransactionLookup_def CacheEntry_State_def
    apply (rule lands_check_c, rule lands_mono [OF lands_lookup_options], clarsimp)
    apply (rule lands_check_c, rule lands_ok [OF calls(2) [OF assms(3)]], clarsimp)
    apply (rule lands_try_c, rule lands_ok [OF calls(5)], simp, clarsimp)
    apply (clarsimp intro!: lands_finish)
    done
  have set: "lands view (check_c id setFn (\<lambda>e.
          check_c id (Transaction_InsertAndStreamBack host cc tx (simple_write_options sha256 pop key (se_TTL e)))
            (\<lambda>(wr, f). fill_and_close host io_copy wr (se_Body e) f))) v' ?Q"
    if "cv_entry v' (tx_abiEntry tx) = Some (Began key)" "cv_objects v' = cv_objects v" "cv_objects v key = None" for tx v'
  proof (cases x)
    case (Inl e)
    show ?thesis
      by (rule lands_check_c, rule lands_mono [OF compute])
        (use that Inl in \<open>auto simp: map_get_or_set_def stands_for_def\<close>)
  next
    case (Inr t)
    have insert: "lands view (Transaction_InsertAndStreamBack host cc tx (simple_write_options sha256 pop key ttl)) v'
      (\<lambda>r v''. \<exists>wb f b. r = Inr (closable_body wb, f) \<and> fo_Body f = Some (closable_body b)
        \<and> cv_objects v'' = cv_objects v \<and> cv_writer v'' wb = Some (key, []) \<and> cv_reader v'' b = Some (Following wb))" for ttl
      using lands_insert_back [OF assms(1) that(1)] that by simp
    show ?thesis
      apply (rule lands_check_c, rule lands_mono [OF compute], clarsimp simp: Inr)
      apply (rule lands_check_c, rule lands_mono [OF insert], clarsimp)
      apply (rule lands_mono [OF lands_fill [OF assms(1)]], assumption+)
      apply (simp add: map_get_or_set_def stands_for_def that(3))
      done
  qed
  have get: "lands view (and_then (Transaction_Found cc tx) (\<lambda>(r, tx).
            case r of Inl e \<Rightarrow> finish (Inl e) | Inr f \<Rightarrow> finish (Inr (fo_Body f)))) v' ?Q"
    if "cv_entry v' (tx_abiEntry tx) = Some (Began key)" "cv_objects v' = cv_objects v" "cv_objects v key = Some t"
      "tx_opts tx = zero_LookupOptions" "tx_found tx = None" "tx_state tx AND CacheLookupStateFound \<noteq> 0" for tx v' t
    unfolding Transaction_Found_def
    apply (rule lands_and_then)
    using that apply (simp add: that)
    apply (rule lands_try_c, rule lands_mono [OF lands_open(1) [OF assms(1)]])
    using that by (auto simp: map_get_or_set_def stands_for_def intro!: lands_finish)
  have closing: "lands view (defer_c (Transaction_Close cc tx) m) v' ?Q" if "lands view m v' ?Q" for tx m v'
    by (rule lands_defer_c, rule lands_mono [OF that]) (rule lands_Transaction_Close [OF assms(1)])
  have main: "lands view (defer_c (Transaction_Close cc tx)
        (if tx_state tx AND CacheLookupStateMustInsertOrUpdate \<noteq> 0
         then check_c id setFn (\<lambda>e.
          check_c id (Transaction_InsertAndStreamBack host cc tx (simple_write_options sha256 pop key (se_TTL e)))
            (\<lambda>(wr, f). fill_and_close host io_copy wr (se_Body e) f))
         else and_then (Transaction_Found cc tx) (\<lambda>(r, tx).
            case r of Inl e \<Rightarrow> finish (Inl e) | Inr f \<Rightarrow> finish (Inr (fo_Body f))))) v' ?Q"
    if "tx_opts tx = zero_LookupOptions" "tx_found tx = None" "cv_entry v' (tx_abiEntry tx) = Some (Began key)"
      "cv_objects v' = cv_objects v" "(tx_state tx AND CacheLookupStateFound \<noteq> 0) = (cv_objects v key \<noteq> None)"
      "(tx_state tx AND CacheLookupStateMustInsertOrUpdate \<noteq> 0) = (cv_objects v key = None)" for v' tx
    using set [OF that(3,4)] get [OF that(3,4) _ that(1,2)] that(5,6) closing by (cases "cv_objects v key") simp_all
  show ?thesis
    unfolding GetOrSet_def Transaction_MustInsertOrUpdate_def
    apply (rule lands_check_c, rule lands_mono [OF new])
    apply (elim exE conjE)
    apply (hypsubst, simp (no_asm) only: sum.case)
    apply (rule main; assumption)
    done
qed

section \<open>The simple cache\<close>

text \<open>
  C19: the simple cache implements a map.  On a cache that follows the documented meaning of its
  calls, \<open>Get\<close> returns a body with the stored text or \<open>ErrNotFound\<close> and stores nothing;
  \<open>GetOrSet\<close> returns a body with the stored text when there is one, and otherwise the computed
  value, which is then the stored text of this key and no other; a failed computation stores
  nothing.  Both always return.  This is for the keys \<open>K\<close> that the cache answers for (the
  documentation limits them to 4096 bytes), and while no object expires.
\<close>

theorem simple_cache_is_map:
  assumes "map_cache K view host cc" "computes view io_copy setFn x" "key \<in> K"
  shows "lands view (simple_Get host cc key) v (\<lambda>r v'.
      cv_objects v' = cv_objects v \<and> stands_for r v' (map_get (cv_objects v) key))
    \<and> lands view (GetOrSet host cc sha256 pop io_copy key setFn) v (\<lambda>r v'.
      case map_get_or_set (cv_objects v) key x of (y, m) \<Rightarrow> cv_objects v' = m \<and> stands_for r v' y)"
  using lands_simple_Get [OF assms(1,3)] lands_GetOrSet [OF assms] by blast

subsection \<open>A cache in memory\<close>

definition memory_core :: "cache_view core_calls" where
  "memory_core = (accepting_core 0)
     \<lparr>c_cache_lookup := (\<lambda>k opts v. ((FastlyStatusOK, 1), v\<lparr>cv_entry := (cv_entry v)(1 \<mapsto> Looked k)\<rparr>)),
      c_cache_tx_lookup := (\<lambda>k opts v. ((FastlyStatusOK, 1), v\<lparr>cv_entry := (cv_entry v)(1 \<mapsto> Began k)\<rparr>)),
      c_cache_get_state := (\<lambda>e v. ((FastlyStatusOK, case cv_entry v e of
          Some (Looked k) \<Rightarrow> if cv_objects v k = None then 0 else 3
        | Some (Began k) \<Rightarrow> if cv_objects v k = None then 8 else 3
        | _ \<Rightarrow> 0), v)),
      c_cache_get_body := (\<lambda>e opts v. case cv_entry v e of
          Some (Looked k) \<Rightarrow> ((FastlyStatusOK, 2), v\<lparr>cv_reader := (cv_reader v)(2 \<mapsto> Holding (the (cv_objects v k)))\<rparr>)
        | Some (Began k) \<Rightarrow> ((FastlyStatusOK, 2), v\<lparr>cv_reader := (cv_reader v)(2 \<mapsto> Holding (the (cv_objects v k)))\<rparr>)
        | Some (Filling wb) \<Rightarrow> ((FastlyStatusOK, 2), v\<lparr>cv_reader := (cv_reader v)(2 \<mapsto> Following wb)\<rparr>)
        | None \<Rightarrow> ((FastlyStatusBadf, 0), v)),
      c_cache_tx_insert_back := (\<lambda>e opts v. case cv_entry v e of
          Some (Began k) \<Rightarrow> ((FastlyStatusOK, 4, 3),
            v\<lparr>cv_writer := (cv_writer v)(4 \<mapsto> (k, [])), cv_entry := (cv_entry v)(3 \<mapsto> Filling 4)\<rparr>)
        | _ \<Rightarrow> ((FastlyStatusBadf, 0, 0), v))\<rparr>"

definition memory_host :: "cache_view http_calls" where
  "memory_host = accepting_host\<lparr>c_body_close := (\<lambda>wb v. case cv_writer v wb of
       Some (k, t) \<Rightarrow> ((FastlyStatusOK, ()), stored_under k t wb v)
     | None \<Rightarrow> ((FastlyStatusBadf, ()), v))\<rparr>"

definition memory_copy :: "HTTPBody \<Rightarrow> string \<Rightarrow> (cache_view, nat \<times> goerr option) comp" where
  "memory_copy b t v = (case cv_writer v (b_h b) of
       Some (k, t0) \<Rightarrow> Some (Done (length t, None), v\<lparr>cv_writer := (cv_writer v)(b_h b \<mapsto> (k, t0 @ t))\<rparr>)
     | None \<Rightarrow> Some (Done (0, Some EOF), v))"

lemma memory_is_map: "map_cache UNIV id memory_host memory_core"
  unfolding map_cache_def lookup_calls_def state_calls_def entry_calls_def write_calls_def metadata_call_def replies_def
  by (auto simp: memory_core_def memory_host_def accepting_core_def accept_def split: cache_entry.splits)

lemma memory_copies: "copies id memory_copy t t"
  by (auto simp: copies_def lands_def memory_copy_def closable_body_def)

text \<open>A value that is set is what is then read.\<close>

theorem simple_cache_is_map_witness:
  "\<exists>r v1 b v2.
     GetOrSet memory_host memory_core (\<lambda>s. s) ''FRA'' memory_copy ''k'' (finish (Inr \<lparr>se_Body = ''hello'', se_TTL = 9\<rparr>))
       \<lparr>cv_objects = Map.empty, cv_entry = Map.empty, cv_reader = Map.empty, cv_writer = Map.empty\<rparr> = Some (Done (Inr r), v1)
     \<and> simple_Get memory_host memory_core ''k'' v1 = Some (Done (Inr (Some (closable_body b))), v2)
     \<and> cv_reader v2 b = Some (Holding ''hello'')"
proof -
  let ?v = "\<lparr>cv_objects = Map.empty, cv_entry = Map.empty, cv_reader = Map.empty, cv_writer = Map.empty\<rparr>"
  let ?e = "\<lparr>se_Body = ''hello'', se_TTL = 9\<rparr>"
  have "computes id memory_copy (finish (Inr ?e)) (Inr ''hello'')"
    using memory_copies by (simp add: computes_def lands_finish)
  note is_map = simple_cache_is_map [OF memory_is_map this UNIV_I, of "''k''" _ "\<lambda>s. s" "''FRA''"]
  from landsD [OF conjunct2 [OF is_map [of "id ?v"]]] obtain r v1 where
    1: "GetOrSet memory_host memory_core (\<lambda>s. s) ''FRA'' memory_copy ''k'' (finish (Inr ?e)) ?v = Some (Done r, v1)"
      "cv_objects v1 = [''k'' \<mapsto> ''hello'']" "stands_for r v1 (Inr ''hello'')"
    by (auto simp: map_get_or_set_def)
  from landsD [OF conjunct1 [OF is_map [of "id v1"]]] obtain r2 v2 where
    2: "simple_Get memory_host memory_core ''k'' v1 = Some (Done r2, v2)" "stands_for r2 v2 (Inr ''hello'')"
    using 1(2) by (auto simp: map_get_def)
  from 1 2 show ?thesis by (auto simp: stands_for_def)
qed

end
