(* ===== verification/EdgeServices.thy ===== *)
theory EdgeServices
  imports OptionMasks Durations
begin

text \<open>
  The small services of the platform: access control lists, edge rate limiting, shielding, log
  endpoints and the runtime counters, each with its hostcalls and the package over them.
\<close>

section \<open>Write loops\<close>

text \<open>
  \<open>HTTPBody.Write\<close> and \<open>LogEndpoint.Write\<close> are the same loop over two hostcalls.  The interface is
  its unfolding; a sink takes at least one byte of a non-empty slice, or answers an error.
\<close>

definition byte_sink :: "(string \<Rightarrow> ('w, FastlyStatus \<times> u32) prog) \<Rightarrow> ('w \<Rightarrow> string) \<Rightarrow> bool" where
  "byte_sink call content \<longleftrightarrow>
     (\<forall>q w. q \<noteq> [] \<longrightarrow> (case call q w of ((s, nw), w') \<Rightarrow>
        if s = FastlyStatusOK
        then 0 < unat nw \<and> unat nw \<le> length q \<and> content w' = content w @ take (unat nw) q
        else content w' = content w))"

locale write_loop =
  fixes loop :: "string \<Rightarrow> nat \<Rightarrow> ('w, nat \<times> goerr option) comp"
    and call :: "string \<Rightarrow> ('w, FastlyStatus \<times> u32) prog"
  assumes step: "loop p n w =
     (if \<not> n < length p then Some (Done (n, None), w)
      else case call (drop n p) w of ((s, nWritten), w') \<Rightarrow>
        (case toError s of
           Some e \<Rightarrow> Some (Done (n, Some e), w')
         | None \<Rightarrow> loop p (n + unat nWritten) w'))"
begin

lemma delivers_from:
  assumes "byte_sink call content" and "n \<le> length p"
  shows "\<exists>m err w'. loop p n w = Some (Done (m, err), w') \<and> n \<le> m \<and> m \<le> length p
    \<and> content w' = content w @ take (m - n) (drop n p) \<and> (err = None \<longleftrightarrow> m = length p)"
  using assms(2)
proof (induction "length p - n" arbitrary: n w rule: less_induct)
  case less
  show ?case
  proof (cases "n < length p")
    case False
    with less.prems show ?thesis by (subst step) simp
  next
    case True
    obtain s nw w1 where c: "call (drop n p) w = ((s, nw), w1)" by (metis surj_pair)
    from assms(1) True c have sink: "if s = FastlyStatusOK
        then 0 < unat nw \<and> unat nw \<le> length (drop n p) \<and> content w1 = content w @ take (unat nw) (drop n p)
        else content w1 = content w"
      unfolding byte_sink_def by (auto dest!: spec [of _ "drop n p"] spec [of _ w])
    show ?thesis
    proof (cases "s = FastlyStatusOK")
      case False
      with True c sink show ?thesis by (subst step) (simp add: toError_def)
    next
      case ok: True
      let ?n = "n + unat nw"
      have n: "length p - ?n < length p - n" "?n \<le> length p" using ok sink True by auto
      from less.hyps [OF n, of w1] obtain m err w' where
        m: "loop p ?n w1 = Some (Done (m, err), w')" "?n \<le> m" "m \<le> length p"
          "content w' = content w1 @ take (m - ?n) (drop ?n p)" "err = None \<longleftrightarrow> m = length p" by blast
      have "take (m - n) (drop n p) = take (unat nw) (drop n p) @ take (m - ?n) (drop ?n p)"
        using m(2) take_add [of "unat nw" "m - ?n" "drop n p"] by (simp add: add.commute)
      with True c ok sink m show ?thesis by (subst step) (simp add: toError_def)
    qed
  qed
qed

lemma delivers:
  assumes "byte_sink call content"
  shows "\<exists>m err w'. loop p 0 w = Some (Done (m, err), w') \<and> m \<le> length p
    \<and> content w' = content w @ take m p \<and> (err = None \<longleftrightarrow> m = length p)"
  using delivers_from [OF assms, of 0 p w] by auto

end

interpretation body: write_loop "body_write_from host h" "\<lambda>q. c_body_write host h q bodyWriteEndBack"
  by unfold_locales (rule body_write_from.simps)

section \<open>Log endpoints\<close>

record 'w log_calls =
  c_log_endpoint_get :: "string \<Rightarrow> ('w, FastlyStatus \<times> handle) prog"
  c_log_write :: "handle \<Rightarrow> string \<Rightarrow> ('w, FastlyStatus \<times> u32) prog"

definition GetLogEndpoint :: "'w log_calls \<Rightarrow> string \<Rightarrow> ('w, goerr + handle) comp" where
  "GetLogEndpoint lc name = hostcall (c_log_endpoint_get lc name)"

partial_function (option) log_write_from ::
  "'w log_calls \<Rightarrow> handle \<Rightarrow> string \<Rightarrow> nat \<Rightarrow> 'w \<Rightarrow> ((nat \<times> goerr option) outcome \<times> 'w) option" where
  "log_write_from lc h p n w =
     (if \<not> n < length p then Some (Done (n, None), w)
      else case c_log_write lc h (drop n p) w of ((s, nWritten), w') \<Rightarrow>
        (case toError s of
           Some e \<Rightarrow> Some (Done (n, Some e), w')
         | None \<Rightarrow> log_write_from lc h p (n + unat nWritten) w'))"

definition LogEndpoint_Write :: "'w log_calls \<Rightarrow> handle \<Rightarrow> string \<Rightarrow> ('w, nat \<times> goerr option) comp" where
  "LogEndpoint_Write lc h p = log_write_from lc h p 0"

interpretation log: write_loop "log_write_from lc h" "c_log_write lc h"
  by unfold_locales (rule log_write_from.simps)

text \<open>An endpoint of \<open>rtlog\<close> keeps the error of opening it for its writes.\<close>

type_synonym Endpoint = "goerr + handle"

definition rtlog_Open :: "'w log_calls \<Rightarrow> string \<Rightarrow> ('w, Endpoint) comp" where
  "rtlog_Open lc name = and_then (GetLogEndpoint lc name) (\<lambda>e. finish e)"

definition Endpoint_Write :: "'w log_calls \<Rightarrow> Endpoint \<Rightarrow> string \<Rightarrow> ('w, nat \<times> goerr option) comp" where
  "Endpoint_Write lc e p =
     (case e of Inl err \<Rightarrow> finish (0, Some err) | Inr h \<Rightarrow> LogEndpoint_Write lc h p)"

section \<open>Access control lists\<close>

definition v4InV6Prefix :: string where
  "v4InV6Prefix = replicate 10 (CHR 0x00) @ replicate 2 (CHR 0xFF)"

text \<open>\<open>net.IP\<close> is a byte slice; \<open>To4\<close> and \<open>To16\<close> of the standard library return nil for other lengths.\<close>

definition ip_To4 :: "string \<Rightarrow> string option" where
  "ip_To4 ip =
     (if length ip = 4 then Some ip
      else if length ip = 16 \<and> take 12 ip = v4InV6Prefix then Some (drop 12 ip) else None)"

definition ip_To16 :: "string \<Rightarrow> string option" where
  "ip_To16 ip = (if length ip = 4 then Some (v4InV6Prefix @ ip) else if length ip = 16 then Some ip else None)"

definition ip_bytes :: "string \<Rightarrow> string" where
  "ip_bytes ip =
     (case ip_To4 ip of
        Some b \<Rightarrow> b
      | None \<Rightarrow> (case ip_To16 ip of Some b \<Rightarrow> b | None \<Rightarrow> []))"

record 'w acl_calls =
  c_acl_open :: "string \<Rightarrow> ('w, FastlyStatus \<times> handle) prog"
  c_acl_lookup :: "handle \<Rightarrow> string \<Rightarrow> ('w, FastlyStatus \<times> handle \<times> u32) prog"

definition OpenACL :: "'w acl_calls \<Rightarrow> string \<Rightarrow> ('w, goerr + handle) comp" where
  "OpenACL ac name = hostcall (c_acl_open ac name)"

definition ACLHandle_Lookup :: "'w acl_calls \<Rightarrow> handle \<Rightarrow> string \<Rightarrow> ('w, goerr + HTTPBody) comp" where
  "ACLHandle_Lookup ac h ip =
     check_c id (hostcall (c_acl_lookup ac h (ip_bytes ip))) (\<lambda>(body, aclErr).
       if aclErr \<noteq> ACLErrorOK then finish (Inl (ACLErr aclErr))
       else if body = invalidHandle then finish (Inl (ACLErr ACLErrorNoContent))
       else finish (Inr \<lparr>b_h = body, b_closable = False\<rparr>))"

definition acl_ErrNotFound :: goerr where "acl_ErrNotFound = Sentinel ''acl'' ''acl: not found''"
definition acl_ErrInvalidHandle :: goerr where "acl_ErrInvalidHandle = Sentinel ''acl'' ''acl: invalid handle''"
definition acl_ErrInvalidResponseBody :: goerr where
  "acl_ErrInvalidResponseBody = Sentinel ''acl'' ''acl: invalid response body''"
definition acl_ErrInvalidArgument :: goerr where "acl_ErrInvalidArgument = Sentinel ''acl'' ''acl: invalid argument''"
definition acl_ErrNoContent :: goerr where "acl_ErrNoContent = Sentinel ''acl'' ''acl: no content''"
definition acl_ErrTooManyRequests :: goerr where
  "acl_ErrTooManyRequests = Sentinel ''acl'' ''acl: too many requests''"
definition acl_ErrUnexpected :: goerr where "acl_ErrUnexpected = Sentinel ''acl'' ''acl: unexepected error''"

definition acl_mapFastlyErr :: "goerr \<Rightarrow> goerr" where
  "acl_mapFastlyErr err =
     (case err of
        ACLErr k \<Rightarrow>
          if k = ACLErrorUninitialized then acl_ErrUnexpected
          else if k = ACLErrorOK then unexpected_with acl_ErrUnexpected (ACLError_Error k)
          else if k = ACLErrorNoContent then acl_ErrNoContent
          else if k = ACLErrorTooManyRequests then acl_ErrTooManyRequests
          else unexpected_with acl_ErrUnexpected (ACLError_Error k)
      | _ \<Rightarrow> status_switch [(FastlyStatusBadf, acl_ErrInvalidHandle), (FastlyStatusInval, acl_ErrInvalidArgument)]
               (Some acl_ErrUnexpected) err)"

definition acl_Open :: "'w acl_calls \<Rightarrow> string \<Rightarrow> ('w, goerr + handle) comp" where
  "acl_Open ac name =
     check_c (status_switch [(FastlyStatusNone, acl_ErrNotFound)] (Some acl_ErrUnexpected))
       (OpenACL ac name) (\<lambda>a. finish (Inr a))"

record acl_Response =
  ar_Prefix :: string
  ar_Action :: string

text \<open>Decoding the JSON body is the parameter \<open>decode\<close>.\<close>

definition acl_Lookup ::
  "'w acl_calls \<Rightarrow> (HTTPBody \<Rightarrow> ('w, goerr + acl_Response) comp) \<Rightarrow> handle \<Rightarrow> string \<Rightarrow> ('w, goerr + acl_Response) comp" where
  "acl_Lookup ac decode h ip =
     check_c acl_mapFastlyErr (ACLHandle_Lookup ac h ip) (\<lambda>body.
     check_c id (decode body) (\<lambda>r. finish (Inr r)))"

section \<open>Edge rate limiting\<close>

type_synonym RateWindow = u32
type_synonym CounterDuration = u32

definition RateWindow1s :: RateWindow where "RateWindow1s = 1"
definition RateWindow10s :: RateWindow where "RateWindow10s = 10"
definition RateWindow60s :: RateWindow where "RateWindow60s = 60"
definition CounterDuration10s :: CounterDuration where "CounterDuration10s = 10"
definition CounterDuration20s :: CounterDuration where "CounterDuration20s = 20"
definition CounterDuration30s :: CounterDuration where "CounterDuration30s = 30"
definition CounterDuration40s :: CounterDuration where "CounterDuration40s = 40"
definition CounterDuration50s :: CounterDuration where "CounterDuration50s = 50"
definition CounterDuration60s :: CounterDuration where "CounterDuration60s = 60"

definition RateWindow_String :: "RateWindow \<Rightarrow> string" where "RateWindow_String r = nat_str (unat r)"
definition CounterDuration_String :: "CounterDuration \<Rightarrow> string" where "CounterDuration_String c = nat_str (unat c)"

record 'w erl_calls =
  c_erl_check_rate :: "string \<Rightarrow> string \<Rightarrow> u32 \<Rightarrow> u32 \<Rightarrow> u32 \<Rightarrow> string \<Rightarrow> u32 \<Rightarrow> ('w, FastlyStatus \<times> u32) prog"
  c_erl_increment :: "string \<Rightarrow> string \<Rightarrow> u32 \<Rightarrow> ('w, FastlyStatus \<times> unit) prog"
  c_erl_lookup_rate :: "string \<Rightarrow> string \<Rightarrow> u32 \<Rightarrow> ('w, FastlyStatus \<times> u32) prog"
  c_erl_lookup_count :: "string \<Rightarrow> string \<Rightarrow> u32 \<Rightarrow> ('w, FastlyStatus \<times> u32) prog"
  c_erl_penaltybox_add :: "string \<Rightarrow> string \<Rightarrow> u32 \<Rightarrow> ('w, FastlyStatus \<times> unit) prog"
  c_erl_penaltybox_has :: "string \<Rightarrow> string \<Rightarrow> ('w, FastlyStatus \<times> u32) prog"

definition ERLCheckRate ::
  "'w erl_calls \<Rightarrow> (Duration \<Rightarrow> u32) \<Rightarrow> string \<Rightarrow> string \<Rightarrow> u32 \<Rightarrow> RateWindow \<Rightarrow> u32 \<Rightarrow> string \<Rightarrow> Duration \<Rightarrow>
   ('w, goerr + bool) comp" where
  "ERLCheckRate er float_u32 rateCounter entry delta window limit penaltyBox ttl =
     map_result nonzero
       (hostcall (c_erl_check_rate er rateCounter entry delta window limit penaltyBox (u32_seconds float_u32 ttl)))"

definition RateCounterIncrement :: "'w erl_calls \<Rightarrow> string \<Rightarrow> string \<Rightarrow> u32 \<Rightarrow> ('w, goerr + unit) comp" where
  "RateCounterIncrement er rateCounter entry delta = hostcall (c_erl_increment er rateCounter entry delta)"

definition RateCounterLookupRate :: "'w erl_calls \<Rightarrow> string \<Rightarrow> string \<Rightarrow> RateWindow \<Rightarrow> ('w, goerr + u32) comp" where
  "RateCounterLookupRate er rateCounter entry window = hostcall (c_erl_lookup_rate er rateCounter entry window)"

definition RateCounterLookupCount :: "'w erl_calls \<Rightarrow> string \<Rightarrow> string \<Rightarrow> CounterDuration \<Rightarrow> ('w, goerr + u32) comp" where
  "RateCounterLookupCount er rateCounter entry duration = hostcall (c_erl_lookup_count er rateCounter entry duration)"

definition PenaltyBoxAdd ::
  "'w erl_calls \<Rightarrow> (Duration \<Rightarrow> u32) \<Rightarrow> string \<Rightarrow> string \<Rightarrow> Duration \<Rightarrow> ('w, goerr + unit) comp" where
  "PenaltyBoxAdd er float_u32 penaltyBox entry ttl =
     hostcall (c_erl_penaltybox_add er penaltyBox entry (u32_seconds float_u32 ttl))"

definition PenaltyBoxHas :: "'w erl_calls \<Rightarrow> string \<Rightarrow> string \<Rightarrow> ('w, goerr + bool) comp" where
  "PenaltyBoxHas er penaltyBox entry = map_result nonzero (hostcall (c_erl_penaltybox_has er penaltyBox entry))"

definition erl_ErrInvalidArgument :: goerr where "erl_ErrInvalidArgument = Sentinel ''erl'' ''invalid argument''"
definition erl_ErrUnexpected :: goerr where "erl_ErrUnexpected = Sentinel ''erl'' ''unexpected error''"

definition erl_mapFastlyError :: "goerr \<Rightarrow> goerr" where
  "erl_mapFastlyError = status_switch [(FastlyStatusInval, erl_ErrInvalidArgument)] (Some erl_ErrUnexpected)"

text \<open>A rate counter and a penalty box are their names.\<close>

definition RateCounter_Increment :: "'w erl_calls \<Rightarrow> string \<Rightarrow> string \<Rightarrow> u32 \<Rightarrow> ('w, goerr + unit) comp" where
  "RateCounter_Increment er rc entry delta =
     check_c erl_mapFastlyError (RateCounterIncrement er rc entry delta) (\<lambda>u. finish (Inr u))"

definition RateCounter_LookupRate :: "'w erl_calls \<Rightarrow> string \<Rightarrow> string \<Rightarrow> RateWindow \<Rightarrow> ('w, goerr + u32) comp" where
  "RateCounter_LookupRate er rc entry window =
     check_c erl_mapFastlyError (RateCounterLookupRate er rc entry window) (\<lambda>v. finish (Inr v))"

definition RateCounter_LookupCount :: "'w erl_calls \<Rightarrow> string \<Rightarrow> string \<Rightarrow> CounterDuration \<Rightarrow> ('w, goerr + u32) comp" where
  "RateCounter_LookupCount er rc entry duration =
     check_c erl_mapFastlyError (RateCounterLookupCount er rc entry duration) (\<lambda>v. finish (Inr v))"

definition PenaltyBox_Add :: "'w erl_calls \<Rightarrow> (Duration \<Rightarrow> u32) \<Rightarrow> string \<Rightarrow> string \<Rightarrow> Duration \<Rightarrow> ('w, goerr + unit) comp" where
  "PenaltyBox_Add er float_u32 pb entry ttl =
     check_c erl_mapFastlyError (PenaltyBoxAdd er float_u32 pb entry ttl) (\<lambda>u. finish (Inr u))"

definition PenaltyBox_Has :: "'w erl_calls \<Rightarrow> string \<Rightarrow> string \<Rightarrow> ('w, goerr + bool) comp" where
  "PenaltyBox_Has er pb entry =
     check_c erl_mapFastlyError (PenaltyBoxHas er pb entry) (\<lambda>ok. finish (Inr ok))"

record Policy =
  po_RateWindow :: RateWindow
  po_MaxRate :: u32
  po_PenaltyBoxDuration :: Duration

record RateLimiter =
  rl_RateCounter :: string
  rl_PenaltyBox :: string

definition RateLimiter_CheckRate ::
  "'w erl_calls \<Rightarrow> (Duration \<Rightarrow> u32) \<Rightarrow> RateLimiter \<Rightarrow> string \<Rightarrow> u32 \<Rightarrow> Policy \<Rightarrow> ('w, goerr + bool) comp" where
  "RateLimiter_CheckRate er float_u32 rl entry delta policy =
     check_c erl_mapFastlyError
       (ERLCheckRate er float_u32 (rl_RateCounter rl) entry delta (po_RateWindow policy) (po_MaxRate policy)
          (rl_PenaltyBox rl) (po_PenaltyBoxDuration policy))
       (\<lambda>blocked. finish (Inr blocked))"

section \<open>Shielding\<close>

record ShieldInfo =
  si_me :: bool
  si_target :: string
  si_sslTarget :: string

text \<open>The info block: a byte that says whether this is the shield, then two targets ended by NUL.\<close>

definition parse_shield_info :: "string \<Rightarrow> goerr + ShieldInfo" where
  "parse_shield_info bufb =
     (if bufb = [] then Inl (FastlyError FastlyStatusBadAlign None)
      else if hd bufb = CHR 0x01 then Inr \<lparr>si_me = True, si_target = [], si_sslTarget = []\<rparr>
      else let vals = split_byte (CHR 0x00) (tl bufb) in
        if length vals \<noteq> 3 then Inl (FastlyError FastlyStatusBadAlign None)
        else Inr \<lparr>si_me = False, si_target = vals ! 0, si_sslTarget = vals ! 1\<rparr>)"

definition shieldingBackendOptionsFlagUseCacheKey :: u32 where
  [simp]: "shieldingBackendOptionsFlagUseCacheKey = 2"

record ShieldingBackendOptions =
  sb_mask :: u32
  sb_cacheKey :: sent_string

definition sb_CacheKey :: "string \<Rightarrow> ShieldingBackendOptions \<Rightarrow> ShieldingBackendOptions" where
  "sb_CacheKey key s =
     s\<lparr>sb_mask := sb_mask s OR shieldingBackendOptionsFlagUseCacheKey, sb_cacheKey := send_string key\<rparr>"

interpretation sb_key: masked_option sb_mask shieldingBackendOptionsFlagUseCacheKey sb_CacheKey
    "\<lambda>s. received (sb_cacheKey s)" sized
  by unfold_locales (simp_all add: sb_CacheKey_def)

record 'w shield_calls =
  c_shield_info :: "string \<Rightarrow> u32 \<Rightarrow> ('w, buf_reply) prog"
  c_backend_for_shield :: "string \<Rightarrow> ShieldingBackendOptions \<Rightarrow> u32 \<Rightarrow> ('w, buf_reply) prog"

definition ShieldingShieldInfo :: "'w shield_calls \<Rightarrow> string \<Rightarrow> ('w, goerr + ShieldInfo) comp" where
  "ShieldingShieldInfo sc name =
     check_c id (buffered DefaultMediumBufLen (c_shield_info sc name)) (\<lambda>bufb. finish (parse_shield_info bufb))"

definition ShieldingBackendForShield ::
  "'w shield_calls \<Rightarrow> string \<Rightarrow> ShieldingBackendOptions \<Rightarrow> ('w, goerr + string) comp" where
  "ShieldingBackendForShield sc name opts = buffered DefaultMediumBufLen (c_backend_for_shield sc name opts)"

record Shield =
  sh_name :: string
  sh_runningOn :: bool

definition ShieldFromName :: "'w shield_calls \<Rightarrow> string \<Rightarrow> ('w, goerr + Shield) comp" where
  "ShieldFromName sc n =
     check_c id (ShieldingShieldInfo sc n) (\<lambda>info. finish (Inr \<lparr>sh_name = n, sh_runningOn = si_me info\<rparr>))"

definition Shield_Backend :: "'w shield_calls \<Rightarrow> Shield \<Rightarrow> ('w, goerr + string) comp" where
  "Shield_Backend sc s = ShieldingBackendForShield sc (sh_name s) \<lparr>sb_mask = 0, sb_cacheKey = ([], 0)\<rparr>"

section \<open>Runtime counters\<close>

record 'w runtime_calls =
  c_vcpu_ms :: "('w, FastlyStatus \<times> u64) prog"
  c_heap_mib :: "('w, FastlyStatus \<times> u32) prog"

definition GetVCPUMilliseconds :: "'w runtime_calls \<Rightarrow> ('w, goerr + u64) comp" where
  "GetVCPUMilliseconds rt = hostcall (c_vcpu_ms rt)"

definition abi_GetHeapMiB :: "'w runtime_calls \<Rightarrow> ('w, goerr + u32) comp" where
  "abi_GetHeapMiB rt = hostcall (c_heap_mib rt)"

text \<open>The conversion to nanoseconds multiplies in 64 bits.\<close>

definition GetVCPUTime :: "'w runtime_calls \<Rightarrow> ('w, goerr + Duration) comp" where
  "GetVCPUTime rt =
     check_c id (GetVCPUMilliseconds rt) (\<lambda>milliseconds. finish (Inr (sint (milliseconds * 1000000))))"

definition GetHeapMiB :: "'w runtime_calls \<Rightarrow> ('w, goerr + u32) comp" where
  "GetHeapMiB rt = abi_GetHeapMiB rt"

section \<open>Properties\<close>

text \<open>
  C34: \<open>Write\<close> on a body and on a log endpoint keep the contract of \<open>io.Writer\<close> and return, when
  every call takes at least one byte or fails: the bytes counted are exactly the ones delivered,
  in order, and the error is nil exactly when all of them were.
\<close>

theorem write_contract:
  assumes "byte_sink (\<lambda>q. c_body_write host (b_h b) q bodyWriteEndBack) content"
    and "byte_sink (c_log_write lc h) journal"
  shows "(\<exists>n err w'. HTTPBody_Write host b p w = Some (Done (n, err), w') \<and> n \<le> length p
      \<and> content w' = content w @ take n p \<and> (err = None \<longleftrightarrow> n = length p))
    \<and> (\<exists>n err v'. Endpoint_Write lc (Inr h) p v = Some (Done (n, err), v') \<and> n \<le> length p
      \<and> journal v' = journal v @ take n p \<and> (err = None \<longleftrightarrow> n = length p))"
  unfolding HTTPBody_Write_def Endpoint_Write_def sum.case LogEndpoint_Write_def
  using body.delivers [OF assms(1), of p w] log.delivers [OF assms(2), of p v] by blast

text \<open>A log that takes two bytes at a time and is full after five.\<close>

definition small_log :: "string log_calls" where
  "small_log =
     \<lparr>c_log_endpoint_get = (\<lambda>name. accept 6),
      c_log_write = (\<lambda>h q w.
        if 5 \<le> length w then ((FastlyStatusLimitExceeded, 0), w)
        else let n = min (min 2 (length q)) (5 - length w) in ((FastlyStatusOK, of_nat n), w @ take n q))\<rparr>"

lemma small_log_sink: "byte_sink (c_log_write small_log h) (\<lambda>w. w)"
proof -
  have "unat (of_nat (min (min 2 a) b) :: u32) = min (min 2 a) b" for a b
    by (rule unat_of_nat_u32) (simp add: min_def)
  then show ?thesis by (auto simp: byte_sink_def small_log_def Let_def)
qed

definition body_log :: "string http_calls" where
  "body_log = accepting_host\<lparr>c_body_write := (\<lambda>h q e. c_log_write small_log h q)\<rparr>"

theorem write_contract_witness:
  "\<exists>n err w'. Endpoint_Write small_log (Inr 6) ''too long'' [] = Some (Done (n, err), w')
     \<and> w' = take n ''too long'' \<and> (err = None \<longleftrightarrow> n = 8)"
proof -
  have "byte_sink (\<lambda>q. c_body_write body_log (b_h \<lparr>b_h = 1, b_closable = True\<rparr>) q bodyWriteEndBack) (\<lambda>w. w)"
    using small_log_sink [of 1] by (simp add: body_log_def)
  from write_contract [OF this small_log_sink [of 6], of "''too long''" "[]" "[]"]
  show ?thesis by (auto simp: numeral_eq_Suc)
qed

text \<open>
  an ACL lookup returns the decoded entry exactly when the host found one, and for every other
  answer the error of its status or of its code; an IPv4 address is looked up by the same four
  bytes in both of its forms.
\<close>

lemma acl_lookup_outcome:
  assumes "\<And>w. fst (c_acl_lookup ac h (ip_bytes ip) w) = (s, (body, k))"
    and "yields (decode \<lparr>b_h = body, b_closable = False\<rparr>) r"
  shows "(if s \<noteq> FastlyStatusOK then
            fails (acl_Lookup ac decode h ip)
              (if s = FastlyStatusBadf then acl_ErrInvalidHandle
               else if s = FastlyStatusInval then acl_ErrInvalidArgument
               else unexpected_with acl_ErrUnexpected (FastlyStatus_String s))
          else if k = ACLErrorOK \<and> body \<noteq> invalidHandle then yields (acl_Lookup ac decode h ip) r
          else fails (acl_Lookup ac decode h ip)
              (if k = ACLErrorOK \<or> k = ACLErrorNoContent then acl_ErrNoContent
               else if k = ACLErrorTooManyRequests then acl_ErrTooManyRequests
               else if k = ACLErrorUninitialized then acl_ErrUnexpected
               else unexpected_with acl_ErrUnexpected ''unknown''))
    \<and> (length a = 4 \<longrightarrow> ip_bytes (v4InV6Prefix @ a) = a \<and> ip_bytes a = a)"
proof -
  let ?B = "\<lparr>b_h = body, b_closable = False\<rparr>"
  have addr: "length a = 4 \<longrightarrow> ip_bytes (v4InV6Prefix @ a) = a \<and> ip_bytes a = a"
    by (simp add: ip_bytes_def ip_To4_def v4InV6Prefix_def)
  have ok: "yields (hostcall (c_acl_lookup ac h (ip_bytes ip))) (body, k)" if "s = FastlyStatusOK"
    by (rule answers_Some [where silent = "{}"]) (use assms(1) that in \<open>simp add: answers_def\<close>)
  have err: "fails (acl_Lookup ac decode h ip) (acl_mapFastlyErr e)" if "fails (ACLHandle_Lookup ac h ip) e" for e
    unfolding acl_Lookup_def by (rule fails_check_c_error [OF that])
  show ?thesis
  proof (cases "s = FastlyStatusOK")
    case False
    have "fails (hostcall (c_acl_lookup ac h (ip_bytes ip))) (FastlyError s None)"
      by (rule answers_one) (use assms(1) False in \<open>simp_all add: answers_def\<close>)
    then have "fails (ACLHandle_Lookup ac h ip) (id (FastlyError s None))"
      unfolding ACLHandle_Lookup_def by (rule fails_check_c_error)
    from err [OF this] addr False show ?thesis
      by (auto simp: acl_mapFastlyErr_def status_switch_FastlyError)
  next
    case s: True
    show ?thesis
    proof (cases "k = ACLErrorOK \<and> body \<noteq> invalidHandle")
      case True
      have "yields (ACLHandle_Lookup ac h ip) ?B"
        unfolding ACLHandle_Lookup_def
        by (rule yields_check_c [OF ok [OF s]]) (use True in \<open>simp add: yields_finish\<close>)
      then have "yields (acl_Lookup ac decode h ip) r"
        unfolding acl_Lookup_def by (rule yields_check_c) (rule yields_check_c [OF assms(2)], rule yields_finish)
      with s True addr show ?thesis by simp
    next
      case False
      have "fails (ACLHandle_Lookup ac h ip) (ACLErr (if k \<noteq> ACLErrorOK then k else ACLErrorNoContent))"
        unfolding ACLHandle_Lookup_def
        by (rule fails_check_c [OF ok [OF s]]) (use False in \<open>auto simp: fails_finish\<close>)
      from err [OF this] s False addr show ?thesis
        by (auto simp: acl_mapFastlyErr_def ACLError_Error_def)
    qed
  qed
qed

definition one_acl :: "unit acl_calls" where
  "one_acl = \<lparr>c_acl_open = (\<lambda>name. accept 8), c_acl_lookup = (\<lambda>h ip. accept (9, ACLErrorOK))\<rparr>"

lemma acl_lookup_outcome_instance:
  "yields (acl_Lookup one_acl (\<lambda>b. finish (Inr \<lparr>ar_Prefix = ''10.0.0.0/8'', ar_Action = ''BLOCK''\<rparr>)) 8
       [CHR 0x0A, CHR 0x00, CHR 0x00, CHR 0x01]) \<lparr>ar_Prefix = ''10.0.0.0/8'', ar_Action = ''BLOCK''\<rparr>"
  using acl_lookup_outcome [of one_acl 8 "[CHR 0x0A, CHR 0x00, CHR 0x00, CHR 0x01]" FastlyStatusOK 9 ACLErrorOK
      "\<lambda>b. finish (Inr \<lparr>ar_Prefix = ''10.0.0.0/8'', ar_Action = ''BLOCK''\<rparr>)"
      "\<lparr>ar_Prefix = ''10.0.0.0/8'', ar_Action = ''BLOCK''\<rparr>" "[]"]
  by (simp add: one_acl_def accept_def yields_finish)

text \<open>
  which info blocks of a shield are accepted, and what is read from them: any block that
  starts with 1, as running on the shield; and a block with another first byte and exactly two
  more NUL bytes, as its two targets.  Everything else is \<open>BadAlign\<close>.
\<close>

lemma shield_info_exact:
  "(parse_shield_info blk = Inr info \<longleftrightarrow>
      (\<exists>rest. blk = CHR 0x01 # rest \<and> info = \<lparr>si_me = True, si_target = [], si_sslTarget = []\<rparr>)
    \<or> (\<exists>x target ssl rest. x \<noteq> CHR 0x01 \<and> blk = x # target @ CHR 0x00 # ssl @ CHR 0x00 # rest
        \<and> CHR 0x00 \<notin> set target \<and> CHR 0x00 \<notin> set ssl \<and> CHR 0x00 \<notin> set rest
        \<and> info = \<lparr>si_me = False, si_target = target, si_sslTarget = ssl\<rparr>))
   \<and> ((\<exists>i. parse_shield_info blk = Inr i) \<or> parse_shield_info blk = Inl (FastlyError FastlyStatusBadAlign None))"
proof (cases blk)
  case Nil
  then show ?thesis by (simp add: parse_shield_info_def)
next
  case (Cons x xs)
  have three: "length (split_byte c s) = 3 \<longleftrightarrow>
      (\<exists>t u r. s = t @ c # u @ c # r \<and> c \<notin> set t \<and> c \<notin> set u \<and> c \<notin> set r)" for c s
  proof
    assume "length (split_byte c s) = 3"
    then obtain t u r where sp: "split_byte c s = [t, u, r]"
      by (auto simp: numeral_eq_Suc length_Suc_conv)
    have "c \<notin> set t" "c \<notin> set u" "c \<notin> set r" using split_byte_parts [of _ c s] unfolding sp by simp_all
    moreover have "s = t @ c # u @ c # r" using join_split [of c s] unfolding sp by simp
    ultimately show "\<exists>t u r. s = t @ c # u @ c # r \<and> c \<notin> set t \<and> c \<notin> set u \<and> c \<notin> set r" by blast
  next
    assume "\<exists>t u r. s = t @ c # u @ c # r \<and> c \<notin> set t \<and> c \<notin> set u \<and> c \<notin> set r"
    then obtain t u r where "s = t @ c # u @ c # r" "c \<notin> set t" "c \<notin> set u" "c \<notin> set r" by blast
    then show "length (split_byte c s) = 3" by simp
  qed
  show ?thesis
  proof (cases "x = CHR 0x01")
    case True
    with Cons show ?thesis by (auto simp: parse_shield_info_def)
  next
    case False
    show ?thesis
    proof (cases "length (split_byte (CHR 0x00) xs) = 3")
      case no: False
      with Cons False three [of "CHR 0x00" xs] show ?thesis by (auto simp: parse_shield_info_def Let_def)
    next
      case True
      then obtain t u r where xs: "xs = t @ CHR 0x00 # u @ CHR 0x00 # r"
        "CHR 0x00 \<notin> set t" "CHR 0x00 \<notin> set u" "CHR 0x00 \<notin> set r" using three by blast
      have uniq: "t' = t \<and> u' = u"
        if "t' @ CHR 0x00 # u' @ CHR 0x00 # r' = xs" "CHR 0x00 \<notin> set t'" "CHR 0x00 \<notin> set u'" "CHR 0x00 \<notin> set r'"
        for t' u' r'
      proof -
        have "split_byte (CHR 0x00) xs = [t', u', r']" unfolding that(1) [symmetric] using that(2-4) by simp
        moreover have "split_byte (CHR 0x00) xs = [t, u, r]" unfolding xs(1) using xs(2-4) by simp
        ultimately show ?thesis by simp
      qed
      have "parse_shield_info blk = Inr \<lparr>si_me = False, si_target = t, si_sslTarget = u\<rparr>"
        using Cons False xs by (simp add: parse_shield_info_def)
      moreover have "(\<exists>x target ssl rest. x \<noteq> CHR 0x01 \<and> blk = x # target @ CHR 0x00 # ssl @ CHR 0x00 # rest
          \<and> CHR 0x00 \<notin> set target \<and> CHR 0x00 \<notin> set ssl \<and> CHR 0x00 \<notin> set rest
          \<and> info = \<lparr>si_me = False, si_target = target, si_sslTarget = ssl\<rparr>)
          \<longleftrightarrow> info = \<lparr>si_me = False, si_target = t, si_sslTarget = u\<rparr>" (is "?L \<longleftrightarrow> ?R")
      proof
        assume ?L
        then obtain t' u' r' where "t' @ CHR 0x00 # u' @ CHR 0x00 # r' = xs" "CHR 0x00 \<notin> set t'"
          "CHR 0x00 \<notin> set u'" "CHR 0x00 \<notin> set r'" "info = \<lparr>si_me = False, si_target = t', si_sslTarget = u'\<rparr>"
          using Cons by blast
        with uniq [of t' u' r'] show ?R by simp
      next
        assume ?R
        with Cons False xs show ?L by (intro exI [of _ x] exI [of _ t] exI [of _ u] exI [of _ r]) simp
      qed
      moreover have "\<not> (\<exists>rest. blk = CHR 0x01 # rest)" using Cons False by simp
      ultimately show ?thesis by auto
    qed
  qed
qed

end
