(* ===== verification/GoFloats.thy ===== *)
theory GoFloats
  imports Complex_Main
begin

text \<open>What the code uses of Go's floating point numbers.\<close>

section \<open>Numbers\<close>

text \<open>
  IEEE numbers by their values; the sign of a zero is kept.  Comparisons are exact.  The rounding
  of an exact result to a \<open>float64\<close> and the shortest text of a number (\<open>strconv.FormatFloat\<close> with
  format \<open>'g'\<close>, for 32 or 64 bits) are parameters.
\<close>

datatype go_float = NaN | Inf bool | Zero bool | Num rat

fun fl_less :: "go_float \<Rightarrow> go_float \<Rightarrow> bool" where
  "fl_less NaN y = False"
| "fl_less x NaN = False"
| "fl_less (Inf s) y = (s \<and> y \<noteq> Inf True)"
| "fl_less x (Inf s) = (\<not> s)"
| "fl_less (Zero s) (Zero t) = False"
| "fl_less (Zero s) (Num q) = (0 < q)"
| "fl_less (Num p) (Zero t) = (p < 0)"
| "fl_less (Num p) (Num q) = (p < q)"

definition fl_nonzero :: "go_float \<Rightarrow> bool" where
  "fl_nonzero x \<longleftrightarrow> (case x of Zero s \<Rightarrow> False | _ \<Rightarrow> True)"

record float_ops =
  fo_round :: "rat \<Rightarrow> go_float"
  fo_text :: "nat \<Rightarrow> go_float \<Rightarrow> string"

text \<open>A product with a positive constant, and \<open>math.Round\<close>, which rounds halves away from zero.\<close>

definition fl_scale :: "float_ops \<Rightarrow> rat \<Rightarrow> go_float \<Rightarrow> go_float" where
  "fl_scale ops c x = (case x of Num q \<Rightarrow> fo_round ops (c * q) | _ \<Rightarrow> x)"

definition math_Round :: "go_float \<Rightarrow> go_float" where
  "math_Round x =
     (case x of
        Num q \<Rightarrow>
          let n = (if q < 0 then - \<lfloor>1 / 2 - q\<rfloor> else \<lfloor>q + 1 / 2\<rfloor>)
          in if n = 0 then Zero (q < 0) else Num (of_int n)
      | _ \<Rightarrow> x)"

end
