(* ===== verification/Lookups.thy ===== *)
theory Lookups
  imports EdgeServices GoFloats
begin

text \<open>
  \<open>device/device_detection.go\<close> and \<open>geo/geodata.go\<close>: what the host knows about a user agent and
  about an address.  Both read a JSON document from the host; \<open>json.Unmarshal\<close> is a parameter,
  which also returns what it had decoded when it failed.
\<close>

section \<open>Devices\<close>

definition device_ErrDeviceNotFound :: goerr where
  "device_ErrDeviceNotFound = Sentinel ''device'' ''device not found''"

definition device_ErrUnexpected :: goerr where
  "device_ErrUnexpected = Sentinel ''device'' ''unexpected error''"

record UserAgentInfo =
  ua_Name :: string
  ua_Major :: string
  ua_Minor :: string
  ua_Patch :: string
  ua_BotName :: string
  ua_IsBot :: bool
  ua_IsDownloader :: bool
  ua_IsFeedreader :: bool
  ua_Identified :: bool

record DeviceHardware =
  dv_Name :: string
  dv_Brand :: string
  dv_Model :: string
  dv_HWType :: string
  dv_IsEReader :: bool
  dv_IsGameConsole :: bool
  dv_IsMediaPlayer :: bool
  dv_IsMobile :: bool
  dv_IsSmartTV :: bool
  dv_IsTablet :: bool
  dv_IsTVPlayer :: bool
  dv_IsDesktop :: bool
  dv_IsTouchscreen :: bool

record deviceInfo =
  di_UserAgent :: UserAgentInfo
  di_Device :: DeviceHardware

record Device =
  dev_info :: deviceInfo

definition DeviceLookup :: "(string \<Rightarrow> u32 \<Rightarrow> ('w, buf_reply) prog) \<Rightarrow> string \<Rightarrow> ('w, goerr + string) comp" where
  "DeviceLookup host userAgent = buffered DefaultMediumBufLen (host userAgent)"

definition zero_device :: Device where
  "zero_device = \<lparr>dev_info =
     \<lparr>di_UserAgent = \<lparr>ua_Name = [], ua_Major = [], ua_Minor = [], ua_Patch = [], ua_BotName = [], ua_IsBot = False,
        ua_IsDownloader = False, ua_IsFeedreader = False, ua_Identified = False\<rparr>,
      di_Device = \<lparr>dv_Name = [], dv_Brand = [], dv_Model = [], dv_HWType = [], dv_IsEReader = False,
        dv_IsGameConsole = False, dv_IsMediaPlayer = False, dv_IsMobile = False, dv_IsSmartTV = False,
        dv_IsTablet = False, dv_IsTVPlayer = False, dv_IsDesktop = False, dv_IsTouchscreen = False\<rparr>\<rparr>\<rparr>"

definition device_Lookup ::
  "(string \<Rightarrow> u32 \<Rightarrow> ('w, buf_reply) prog) \<Rightarrow> (string \<Rightarrow> deviceInfo \<times> goerr option) \<Rightarrow> string \<Rightarrow>
   ('w, Device \<times> goerr option) comp" where
  "device_Lookup host unmarshal userAgent =
     try_c (DeviceLookup host userAgent)
       (\<lambda>e. finish (zero_device,
              Some (status_switch [(FastlyStatusNone, device_ErrDeviceNotFound)] (Some device_ErrUnexpected) e)))
       (\<lambda>raw. case unmarshal raw of (info, err) \<Rightarrow> finish (\<lparr>dev_info = info\<rparr>, err))"

definition Device_Name :: "Device \<Rightarrow> string" where "Device_Name d = dv_Name (di_Device (dev_info d))"
definition Device_Brand :: "Device \<Rightarrow> string" where "Device_Brand d = dv_Brand (di_Device (dev_info d))"
definition Device_Model :: "Device \<Rightarrow> string" where "Device_Model d = dv_Model (di_Device (dev_info d))"
definition Device_HWType :: "Device \<Rightarrow> string" where "Device_HWType d = dv_HWType (di_Device (dev_info d))"
definition Device_IsEReader :: "Device \<Rightarrow> bool" where "Device_IsEReader d = dv_IsEReader (di_Device (dev_info d))"
definition Device_IsGameConsole :: "Device \<Rightarrow> bool" where "Device_IsGameConsole d = dv_IsGameConsole (di_Device (dev_info d))"
definition Device_IsMediaPlayer :: "Device \<Rightarrow> bool" where "Device_IsMediaPlayer d = dv_IsMediaPlayer (di_Device (dev_info d))"
definition Device_IsMobile :: "Device \<Rightarrow> bool" where "Device_IsMobile d = dv_IsMobile (di_Device (dev_info d))"
definition Device_IsSmartTV :: "Device \<Rightarrow> bool" where "Device_IsSmartTV d = dv_IsSmartTV (di_Device (dev_info d))"
definition Device_IsTablet :: "Device \<Rightarrow> bool" where "Device_IsTablet d = dv_IsTablet (di_Device (dev_info d))"
definition Device_IsTVPlayer :: "Device \<Rightarrow> bool" where "Device_IsTVPlayer d = dv_IsTVPlayer (di_Device (dev_info d))"
definition Device_IsDesktop :: "Device \<Rightarrow> bool" where "Device_IsDesktop d = dv_IsDesktop (di_Device (dev_info d))"
definition Device_IsTouchscreen :: "Device \<Rightarrow> bool" where "Device_IsTouchscreen d = dv_IsTouchscreen (di_Device (dev_info d))"
definition Device_UserAgentName :: "Device \<Rightarrow> string" where "Device_UserAgentName d = ua_Name (di_UserAgent (dev_info d))"
definition Device_UserAgentMajor :: "Device \<Rightarrow> string" where "Device_UserAgentMajor d = ua_Major (di_UserAgent (dev_info d))"
definition Device_UserAgentMinor :: "Device \<Rightarrow> string" where "Device_UserAgentMinor d = ua_Minor (di_UserAgent (dev_info d))"
definition Device_UserAgentPatch :: "Device \<Rightarrow> string" where "Device_UserAgentPatch d = ua_Patch (di_UserAgent (dev_info d))"
definition Device_UserAgentBotName :: "Device \<Rightarrow> string" where "Device_UserAgentBotName d = ua_BotName (di_UserAgent (dev_info d))"
definition Device_UserAgentIsBot :: "Device \<Rightarrow> bool" where "Device_UserAgentIsBot d = ua_IsBot (di_UserAgent (dev_info d))"
definition Device_IsDownloader :: "Device \<Rightarrow> bool" where "Device_IsDownloader d = ua_IsDownloader (di_UserAgent (dev_info d))"
definition Device_IsFeedreader :: "Device \<Rightarrow> bool" where "Device_IsFeedreader d = ua_IsFeedreader (di_UserAgent (dev_info d))"
definition Device_Identified :: "Device \<Rightarrow> bool" where "Device_Identified d = ua_Identified (di_UserAgent (dev_info d))"

section \<open>Addresses\<close>

definition geo_ErrInvalidIP :: goerr where
  "geo_ErrInvalidIP = Sentinel ''geo'' ''geo: invalid IP''"

definition geo_ErrUnexpected :: goerr where
  "geo_ErrUnexpected = Sentinel ''geo'' ''geo: unexpected error''"

record Geo =
  ge_AsName :: string
  ge_AsNumber :: int
  ge_AreaCode :: int
  ge_City :: string
  ge_ConnSpeed :: string
  ge_ConnType :: string
  ge_ContinentCode :: string
  ge_CountryCode :: string
  ge_CountryCode3 :: string
  ge_CountryName :: string
  ge_Latitude :: go_float
  ge_Longitude :: go_float
  ge_MetroCode :: int
  ge_PostalCode :: string
  ge_ProxyDescription :: string
  ge_ProxyType :: string
  ge_Region :: string
  ge_UTCOffset :: int

definition zero_geo :: Geo where
  "zero_geo = \<lparr>ge_AsName = [], ge_AsNumber = 0, ge_AreaCode = 0, ge_City = [], ge_ConnSpeed = [],
     ge_ConnType = [], ge_ContinentCode = [], ge_CountryCode = [], ge_CountryCode3 = [], ge_CountryName = [],
     ge_Latitude = Zero False, ge_Longitude = Zero False, ge_MetroCode = 0, ge_PostalCode = [], ge_ProxyDescription = [],
     ge_ProxyType = [], ge_Region = [], ge_UTCOffset = 0\<rparr>"

text \<open>An address that has four bytes is sent as four bytes, any other one as it is.\<close>

definition GeoLookup :: "(string \<Rightarrow> u32 \<Rightarrow> ('w, buf_reply) prog) \<Rightarrow> string \<Rightarrow> ('w, goerr + string) comp" where
  "GeoLookup host ip =
     buffered DefaultMediumBufLen (host (case ip_To4 ip of Some x \<Rightarrow> x | None \<Rightarrow> ip))"

definition geo_Lookup ::
  "(string \<Rightarrow> u32 \<Rightarrow> ('w, buf_reply) prog) \<Rightarrow> (string \<Rightarrow> goerr + Geo) \<Rightarrow> string \<Rightarrow> ('w, goerr + Geo) comp" where
  "geo_Lookup host unmarshal ip =
     try_c (GeoLookup host ip)
       (\<lambda>e. case IsFastlyError (Some e) of (status, ok) \<Rightarrow>
              if ok \<and> status = FastlyStatusNone then finish (Inr zero_geo)
              else if ok \<and> status = FastlyStatusInval then finish (Inl geo_ErrInvalidIP)
              else if ok then finish (Inl (unexpected_with geo_ErrUnexpected (FastlyStatus_String status)))
              else finish (Inl e))
       (\<lambda>buf. if buf = [] then finish (Inr zero_geo) else finish (unmarshal buf))"

end
