(* ===== verification/Regexp.thy ===== *)
theory Regexp
  imports GoStd
begin

text \<open>
  What the code uses of package \<open>regexp\<close>: \<open>MatchString\<close> for patterns built from literals, runs of
  digits, options, alternatives and the anchors of the beginning and the end of the text.
\<close>

section \<open>Patterns\<close>

datatype regexp = Bol | Eol | Lit string | Digits | Seq regexp regexp | Alt regexp regexp | Opt regexp

text \<open>The rests of a text after one or more digits.\<close>

fun digit_rests :: "string \<Rightarrow> string list" where
  "digit_rests [] = []"
| "digit_rests (c # s) = (if is_digit c then s # digit_rests s else [])"

text \<open>
  A place in a text is the rest from there on, and whether it is the beginning.  \<open>places r\<close> are the
  places where a match of \<open>r\<close> may end.
\<close>

primrec places :: "regexp \<Rightarrow> bool \<times> string \<Rightarrow> (bool \<times> string) list" where
  "places Bol x = (if fst x then [x] else [])"
| "places Eol x = (if snd x = [] then [x] else [])"
| "places (Lit w) x = (case cut_prefix (snd x) w of (s, found) \<Rightarrow> if found then [(fst x \<and> w = [], s)] else [])"
| "places Digits x = map (Pair False) (digit_rests (snd x))"
| "places (Seq r r') x = concat (map (places r') (places r x))"
| "places (Alt r r') x = places r x @ places r' x"
| "places (Opt r) x = x # places r x"

definition MatchString :: "regexp \<Rightarrow> string \<Rightarrow> bool" where
  "MatchString r s = list_ex (\<lambda>i. places r (i = 0, drop i s) \<noteq> []) [0..<Suc (length s)]"

section \<open>What they match\<close>

definition digits :: "string \<Rightarrow> bool" where
  "digits d \<longleftrightarrow> d \<noteq> [] \<and> list_all is_digit d"

lemma digits_simps [simp]: "\<not> digits []" "digits (c # d) \<longleftrightarrow> is_digit c \<and> list_all is_digit d"
  by (auto simp: digits_def)

lemma digits_list_all: "digits d \<Longrightarrow> list_all is_digit d"
  by (simp add: digits_def)

lemma digit_rests_iff: "r \<in> set (digit_rests s) \<longleftrightarrow> (\<exists>d. digits d \<and> s = d @ r)"
proof (induction s)
  case (Cons c s)
  have "(\<exists>d. digits d \<and> c # s = d @ r) \<longleftrightarrow> is_digit c \<and> (\<exists>d. list_all is_digit d \<and> s = d @ r)"
    by (auto simp: Cons_eq_append_conv digits_def)
  also have "(\<exists>d. list_all is_digit d \<and> s = d @ r) \<longleftrightarrow> r = s \<or> (\<exists>d. digits d \<and> s = d @ r)"
    by (auto simp: digits_def intro: exI [of _ "[]"])
  finally show ?case using Cons.IH by auto
qed (simp add: digits_def)

lemma places_Lit: "y \<in> set (places (Lit w) (b, s)) \<longleftrightarrow> s = w @ snd y \<and> fst y = (b \<and> w = [])"
proof (cases y)
  case (Pair b' t)
  have "take (length w) s = w \<and> t = drop (length w) s \<longleftrightarrow> s = w @ t"
    by (auto simp: append_eq_conv_conj intro: append_take_drop_id [symmetric] trans)
  then show ?thesis using Pair by (auto simp: cut_prefix.simps)
qed

lemma places_Digits: "y \<in> set (places Digits (b, s)) \<longleftrightarrow> (\<exists>d. digits d \<and> s = d @ snd y) \<and> \<not> fst y"
  by (cases y) (auto simp: digit_rests_iff [symmetric])

lemma places_Seq: "y \<in> set (places (Seq r r') x) \<longleftrightarrow> (\<exists>z \<in> set (places r x). y \<in> set (places r' z))"
  by simp

lemma MatchString_places:
  "MatchString r s \<longleftrightarrow> (\<exists>i y. i \<le> length s \<and> y \<in> set (places r (i = 0, drop i s)))"
proof -
  have "MatchString r s \<longleftrightarrow> (\<exists>i \<le> length s. places r (i = 0, drop i s) \<noteq> [])"
    unfolding MatchString_def list_ex_iff set_upt by (auto simp: less_Suc_eq_le)
  moreover have "xs \<noteq> [] \<longleftrightarrow> (\<exists>y. y \<in> set xs)" for xs :: "(bool \<times> string) list"
    by (cases xs) auto
  ultimately show ?thesis by auto
qed

lemma MatchString_Bol: "MatchString (Seq Bol r) s \<longleftrightarrow> (\<exists>y. y \<in> set (places r (True, s)))"
  by (auto simp: MatchString_places split: if_splits)

text \<open>A pattern that consumes something matches anywhere, and its place is not the beginning.\<close>

lemma MatchString_Alt: "MatchString (Alt r r') s \<longleftrightarrow> MatchString r s \<or> MatchString r' s"
  by (auto simp: MatchString_places)

lemma MatchString_suffix:
  "w \<noteq> [] \<Longrightarrow> MatchString (Seq (Lit w) r) s \<longleftrightarrow> (\<exists>u t y. s = u @ w @ t \<and> y \<in> set (places r (False, t)))"
proof
  assume w: "w \<noteq> []" and "MatchString (Seq (Lit w) r) s"
  then obtain i y z where "i \<le> length s" "z \<in> set (places (Lit w) (i = 0, drop i s))" "y \<in> set (places r z)"
    unfolding MatchString_places places_Seq by blast
  with w have z: "drop i s = w @ snd z" "z = (False, snd z)" "y \<in> set (places r z)"
    by (auto simp: places_Lit prod_eq_iff simp del: places.simps)
  then have "s = take i s @ w @ snd z" "y \<in> set (places r (False, snd z))"
    by (metis append_take_drop_id, simp)
  then show "\<exists>u t y. s = u @ w @ t \<and> y \<in> set (places r (False, t))" by blast
next
  assume "w \<noteq> []" "\<exists>u t y. s = u @ w @ t \<and> y \<in> set (places r (False, t))"
  then obtain u t y where s: "s = u @ w @ t" and y: "y \<in> set (places r (False, t))" and w: "w \<noteq> []" by blast
  have "(False, t) \<in> set (places (Lit w) (length u = 0, drop (length u) s))"
    using s w by (simp only: places_Lit) simp
  with y show "MatchString (Seq (Lit w) r) s"
    unfolding MatchString_places places_Seq using s by (intro exI [of _ "length u"] exI [of _ y] conjI bexI [of _ "(False, t)"]) auto
qed

text \<open>The rules that take a pattern apart from the left.\<close>

lemma places_Seq_Lit:
  "w \<noteq> [] \<Longrightarrow> y \<in> set (places (Seq (Lit w) r) (b, s)) \<longleftrightarrow> (\<exists>t. s = w @ t \<and> y \<in> set (places r (False, t)))"
  by (simp only: places_Seq Bex_def places_Lit split_paired_Ex fst_conv snd_conv simp_thms) auto

lemma places_Seq_Digits:
  "y \<in> set (places (Seq Digits r) (b, s)) \<longleftrightarrow> (\<exists>d t. digits d \<and> s = d @ t \<and> y \<in> set (places r (False, t)))"
  by (simp only: places_Seq Bex_def places_Digits split_paired_Ex fst_conv snd_conv ex_bool_eq simp_thms) blast

lemma places_Seq_Opt:
  "y \<in> set (places (Seq (Opt r) r') x) \<longleftrightarrow> y \<in> set (places r' x) \<or> y \<in> set (places (Seq r r') x)"
  by auto

lemma concat_map_concat: "concat (map g (concat (map f xs))) = concat (map (\<lambda>x. concat (map g (f x))) xs)"
  by (induction xs) simp_all

lemma places_Seq_Seq: "places (Seq (Seq r r') r'') x = places (Seq r (Seq r' r'')) x"
proof -
  have "places (Seq r' r'') = (\<lambda>x. concat (map (places r'') (places r' x)))" by (rule ext) simp
  then show ?thesis by (simp add: concat_map_concat)
qed

lemma places_Opt: "y \<in> set (places (Opt r) x) \<longleftrightarrow> y = x \<or> y \<in> set (places r x)"
  by simp

lemma places_Eol: "y \<in> set (places Eol (b, s)) \<longleftrightarrow> s = [] \<and> y = (b, s)"
  by auto

lemmas pattern_rules = places_Seq_Seq places_Seq_Opt places_Seq_Lit places_Seq_Digits places_Opt places_Eol
  places_Lit places_Digits

declare places.simps [simp del]

end
