(* ===== verification/ImageOptions.thy ===== *)
theory ImageOptions
  imports GoFloats Regexp Headers
begin

text \<open>
  \<open>fsthttp/imageopto/imageopto.go\<close>: the options of the image optimizer, which of them are accepted,
  and the query string that carries them.
\<close>

section \<open>Texts of numbers\<close>

definition fmtFloat :: "float_ops \<Rightarrow> go_float \<Rightarrow> string" where
  "fmtFloat ops f =
     (let nearest3 = fl_scale ops (1 / 1000) (math_Round (fl_scale ops 1000 f))
      in fo_text ops 64 nearest3)"

section \<open>Lengths and areas\<close>

text \<open>The Go types that are strings (\<open>Region\<close>, \<open>Format\<close>, \<open>PixelsOrPercentage\<close> and so on) are set when not empty.\<close>

definition isSet :: "string \<Rightarrow> bool" where
  "isSet s \<longleftrightarrow> s \<noteq> []"

definition number :: regexp where
  "number = Seq Digits (Opt (Seq (Lit ''.'') Digits))"

definition rePixelsOrPercentage :: regexp where
  "rePixelsOrPercentage = Seq Bol (Seq number (Seq (Opt (Lit ''p'')) Eol))"

definition PixelsOrPercentage_validate :: "string \<Rightarrow> goerr option" where
  "PixelsOrPercentage_validate p =
     (if \<not> MatchString rePixelsOrPercentage p
      then Some (Text (''imageopto: pixels or percentage: invalid: '' @ quoted p)) else None)"

text \<open>The first error of a sequence of checks that return early.\<close>

fun first_of :: "goerr option list \<Rightarrow> goerr option" where
  "first_of [] = None"
| "first_of (None # es) = first_of es"
| "first_of (Some e # es) = Some e"

definition check_set :: "(string \<Rightarrow> goerr option) \<Rightarrow> string \<Rightarrow> goerr option" where
  "check_set validate s = (if isSet s then validate s else None)"

type_synonym areaState = u8

definition areaStateNone :: areaState where [simp]: "areaStateNone = 0"
definition areaStateAspectRatio :: areaState where [simp]: "areaStateAspectRatio = 1"
definition areaStateWidthHeight :: areaState where [simp]: "areaStateWidthHeight = 2"

record Area =
  ar_aspect :: "u32 \<times> u32"
  ar_widthHeight :: "string \<times> string"
  ar_state :: areaState

definition NewAreaAspectRatio :: "u32 \<Rightarrow> u32 \<Rightarrow> Area" where
  "NewAreaAspectRatio w h = \<lparr>ar_aspect = (w, h), ar_widthHeight = ([], []), ar_state = areaStateAspectRatio\<rparr>"

definition NewAreaWidthHeight :: "string \<Rightarrow> string \<Rightarrow> Area" where
  "NewAreaWidthHeight w h = \<lparr>ar_aspect = (0, 0), ar_widthHeight = (w, h), ar_state = areaStateWidthHeight\<rparr>"

definition Area_validate :: "Area \<Rightarrow> goerr option" where
  "Area_validate a =
     (if ar_state a = areaStateWidthHeight
      then first_of [check_set PixelsOrPercentage_validate (fst (ar_widthHeight a)),
                     check_set PixelsOrPercentage_validate (snd (ar_widthHeight a))]
      else None)"

definition Area_String :: "Area \<Rightarrow> string" where
  "Area_String area =
     (if ar_state area = areaStateNone then []
      else if ar_state area = areaStateAspectRatio
      then nat_str (unat (fst (ar_aspect area))) @ '':'' @ nat_str (unat (snd (ar_aspect area)))
      else if ar_state area = areaStateWidthHeight
      then fst (ar_widthHeight area) @ '','' @ snd (ar_widthHeight area)
      else ''error'')"

section \<open>Positions\<close>

record Position =
  ps_X :: string
  ps_Y :: string

definition Position_String :: "Position \<Rightarrow> string" where
  "Position_String p =
     (if isSet (ps_X p) \<and> isSet (ps_Y p) then ps_X p @ '','' @ ps_Y p
      else if isSet (ps_X p) then ps_X p
      else ps_Y p)"

text \<open>The alternatives bind weaker than the anchors.\<close>

definition reXPosition :: regexp where
  "reXPosition =
     Alt (Seq Bol (Seq (Lit ''x'') (Seq number (Opt (Lit ''p''))))) (Seq (Lit ''offset-x'') (Seq Digits Eol))"

definition reYPosition :: regexp where
  "reYPosition =
     Alt (Seq Bol (Seq (Lit ''y'') (Seq number (Opt (Lit ''p''))))) (Seq (Lit ''offset-y'') (Seq Digits Eol))"

definition Position_validate :: "Position \<Rightarrow> goerr option" where
  "Position_validate p =
     (if ps_X p \<noteq> [] \<and> \<not> MatchString reXPosition (ps_X p)
      then Some (Text (''imageopto: position.x : invalid '' @ quoted (ps_X p)))
      else if ps_Y p \<noteq> [] \<and> \<not> MatchString reYPosition (ps_Y p)
      then Some (Text (''imageopto: position.y: invalid '' @ quoted (ps_Y p)))
      else None)"

definition check_ptr :: "('a \<Rightarrow> goerr option) \<Rightarrow> 'a option \<Rightarrow> goerr option" where
  "check_ptr validate p = (case p of None \<Rightarrow> None | Some x \<Rightarrow> validate x)"

record Crop =
  cr_Size :: Area
  cr_Position :: "Position option"
  cr_Mode :: string

definition Crop_validate :: "Crop \<Rightarrow> goerr option" where
  "Crop_validate c = first_of [Area_validate (cr_Size c), check_ptr Position_validate (cr_Position c)]"

definition Crop_String :: "Crop \<Rightarrow> string" where
  "Crop_String c =
     (let s = Area_String (cr_Size c);
          s = (case cr_Position c of None \<Rightarrow> s | Some p \<Rightarrow> s @ '','' @ Position_String p)
      in if isSet (cr_Mode c) then s @ '','' @ cr_Mode c else s)"

record Sides =
  sd_Top :: string
  sd_Right :: string
  sd_Bottom :: string
  sd_Left :: string

definition Sides_String :: "Sides \<Rightarrow> string" where
  "Sides_String s = sd_Top s @ '','' @ sd_Right s @ '','' @ sd_Bottom s @ '','' @ sd_Left s"

definition Sides_validate :: "Sides \<Rightarrow> goerr option" where
  "Sides_validate s =
     first_of (map (check_set PixelsOrPercentage_validate) [sd_Top s, sd_Right s, sd_Bottom s, sd_Left s])"

text \<open>An invalid size makes \<open>validate\<close> of a canvas return nil at once.\<close>

record Canvas =
  ca_Size :: Area
  ca_Position :: "Position option"

definition Canvas_validate :: "Canvas \<Rightarrow> goerr option" where
  "Canvas_validate c =
     (if Area_validate (ca_Size c) \<noteq> None then None
      else check_ptr Position_validate (ca_Position c))"

definition Canvas_String :: "Canvas \<Rightarrow> string" where
  "Canvas_String c =
     (case ca_Position c of
        Some p \<Rightarrow> Area_String (ca_Size c) @ '','' @ Position_String p
      | None \<Rightarrow> Area_String (ca_Size c))"

section \<open>Colours and filters\<close>

record HexColor =
  hx_R :: u8
  hx_G :: u8
  hx_B :: u8
  hx_A :: go_float

definition HexColor_String :: "float_ops \<Rightarrow> HexColor \<Rightarrow> string" where
  "HexColor_String ops h =
     nat_str (unat (hx_R h)) @ '','' @ nat_str (unat (hx_G h)) @ '','' @ nat_str (unat (hx_B h)) @ '','' @
     fo_text ops 32 (hx_A h)"

definition outside :: "rat \<Rightarrow> rat \<Rightarrow> go_float \<Rightarrow> bool" where
  "outside lo hi x \<longleftrightarrow>
     fl_less x (if lo = 0 then Zero False else Num lo) \<or> fl_less (if hi = 0 then Zero False else Num hi) x"

definition HexColor_validate :: "HexColor \<Rightarrow> goerr option" where
  "HexColor_validate h =
     (if outside 0 1 (hx_A h) then Some (Text ''imageopto: hexcolor alpha out of range'') else None)"

record TrimColor =
  tr_Color :: HexColor
  tr_Threshold :: go_float

definition TrimColor_String :: "float_ops \<Rightarrow> TrimColor \<Rightarrow> string" where
  "TrimColor_String ops t =
     (if fl_nonzero (tr_Threshold t)
      then HexColor_String ops (tr_Color t) @ '',t'' @ fmtFloat ops (tr_Threshold t)
      else HexColor_String ops (tr_Color t))"

definition TrimColor_validate :: "TrimColor \<Rightarrow> goerr option" where
  "TrimColor_validate t =
     first_of [HexColor_validate (tr_Color t),
       if outside 0 1 (tr_Threshold t)
       then Some (Text ''imageopto: trimcolor threshold out of range 0.0 .. 1.0'') else None]"

definition bwModeStateNone :: int where [simp]: "bwModeStateNone = 0"
definition bwModeStateDefaultThreshold :: int where [simp]: "bwModeStateDefaultThreshold = 1"
definition bwModeStateAtkinson :: int where [simp]: "bwModeStateAtkinson = 2"
definition bwModeStateThreshold :: int where [simp]: "bwModeStateThreshold = 3"

record BWMode =
  bw_state :: int
  bw_luminance :: u32

definition BWMode_isSet :: "BWMode \<Rightarrow> bool" where
  "BWMode_isSet bw \<longleftrightarrow> bw_state bw \<noteq> bwModeStateNone"

definition NewBWModeDefaultThreshold :: BWMode where
  "NewBWModeDefaultThreshold = \<lparr>bw_state = bwModeStateDefaultThreshold, bw_luminance = 0\<rparr>"

definition NewBWModeAtkinson :: BWMode where
  "NewBWModeAtkinson = \<lparr>bw_state = bwModeStateAtkinson, bw_luminance = 0\<rparr>"

definition NewBWModeThreshold :: "u32 \<Rightarrow> BWMode" where
  "NewBWModeThreshold luminance = \<lparr>bw_state = bwModeStateThreshold, bw_luminance = luminance\<rparr>"

definition BWMode_String :: "BWMode \<Rightarrow> string" where
  "BWMode_String bw =
     (if bw_state bw = bwModeStateNone then []
      else if bw_state bw = bwModeStateAtkinson then ''atkinson''
      else if bw_state bw = bwModeStateDefaultThreshold then ''threshold''
      else if bw_state bw = bwModeStateThreshold then ''threshold,'' @ nat_str (unat (bw_luminance bw))
      else ''error'')"

definition blurModeStateNone :: int where [simp]: "blurModeStateNone = 0"
definition blurModeStatePixels :: int where [simp]: "blurModeStatePixels = 1"
definition blurModeStatePercentage :: int where [simp]: "blurModeStatePercentage = 2"

record BlurMode =
  bl_state :: int
  bl_pixels :: go_float
  bl_percentage :: go_float

definition BlurMode_isSet :: "BlurMode \<Rightarrow> bool" where
  "BlurMode_isSet b \<longleftrightarrow> bl_state b \<noteq> blurModeStateNone"

definition BlurMode_String :: "float_ops \<Rightarrow> BlurMode \<Rightarrow> string" where
  "BlurMode_String ops b =
     (if bl_state b = blurModeStateNone then []
      else if bl_state b = blurModeStatePercentage then fo_text ops 64 (bl_percentage b) @ ''p''
      else if bl_state b = blurModeStatePixels then fo_text ops 64 (bl_pixels b)
      else ''error'')"

definition NewBlurModePixels :: "go_float \<Rightarrow> BlurMode" where
  "NewBlurModePixels p = \<lparr>bl_state = blurModeStatePixels, bl_pixels = p, bl_percentage = Zero False\<rparr>"

definition NewBlurModePercentage :: "go_float \<Rightarrow> BlurMode" where
  "NewBlurModePercentage p = \<lparr>bl_state = blurModeStatePercentage, bl_pixels = Zero False, bl_percentage = p\<rparr>"

record Sharpen =
  sh_Amount :: u8
  sh_Radius :: go_float
  sh_Threshold :: u8

definition Sharpen_String :: "float_ops \<Rightarrow> Sharpen \<Rightarrow> string" where
  "Sharpen_String ops s =
     ''a'' @ nat_str (unat (sh_Amount s)) @ '',r'' @ fmtFloat ops (sh_Radius s) @ '',t'' @
     nat_str (unat (sh_Threshold s))"

definition Sharpen_validate :: "Sharpen \<Rightarrow> goerr option" where
  "Sharpen_validate s =
     (if 10 < sh_Amount s then Some (Text ''imageopto: sharpen amount out of range 0 .. 10'')
      else if outside (1 / 2) 1000 (sh_Radius s) then Some (Text ''imageopto: sharpen radius out of range 0.5 .. 1000'')
      else None)"

section \<open>The options\<close>

record Options =
  im_Region :: string
  im_Auto :: string
  im_BgColor :: "HexColor option"
  im_Blur :: BlurMode
  im_Brightness :: int
  im_Bw :: BWMode
  im_Canvas :: "Canvas option"
  im_Contrast :: int
  im_Crop :: "Crop option"
  im_Dpr :: go_float
  im_Enable :: string
  im_Fit :: string
  im_Format :: string
  im_Frame :: u32
  im_Height :: string
  im_Level :: string
  im_Metadata :: string
  im_Optimize :: string
  im_Orient :: int
  im_Pad :: "Sides option"
  im_Precrop :: "Crop option"
  im_Profile :: string
  im_Quality :: u32
  im_ResizeFilter :: string
  im_Saturation :: int
  im_Sharpen :: "Sharpen option"
  im_Trim :: "Sides option"
  im_TrimColor :: "TrimColor option"
  im_Width :: string
  im_PreserveQueryStringOnOriginRequest :: bool

definition percent :: "string \<Rightarrow> int \<Rightarrow> goerr option" where
  "percent what n =
     (if n \<noteq> 0 \<and> (n < -100 \<or> 100 < n)
      then Some (Text (''imageopto: '' @ what @ '' out of range -100 .. 100'')) else None)"

definition validateParams :: "Options \<Rightarrow> goerr option" where
  "validateParams o' =
     first_of
       [if \<not> isSet (im_Region o') then Some (Text ''imageopto: region is not set'') else None,
        check_ptr (\<lambda>b. if outside 0 1 (hx_A b) then Some (Text ''imageopto: alpha out of range 0..1'') else None)
          (im_BgColor o'),
        percent ''brightness'' (im_Brightness o'),
        percent ''contrast'' (im_Contrast o'),
        check_ptr Canvas_validate (im_Canvas o'),
        check_ptr Crop_validate (im_Crop o'),
        if fl_nonzero (im_Dpr o') \<and> outside 0 10 (im_Dpr o')
        then Some (Text ''imageopto: dpr out of range 0 .. 10'') else None,
        check_set PixelsOrPercentage_validate (im_Height o'),
        check_ptr Sides_validate (im_Pad o'),
        check_ptr Crop_validate (im_Precrop o'),
        if im_Quality o' \<noteq> 0 \<and> 100 < im_Quality o'
        then Some (Text ''imageopto: quality out of range 0 .. 10'') else None,
        percent ''saturation'' (im_Saturation o'),
        check_ptr Sharpen_validate (im_Sharpen o'),
        check_ptr Sides_validate (im_Trim o'),
        check_ptr TrimColor_validate (im_TrimColor o'),
        check_set PixelsOrPercentage_validate (im_Width o')]"

text \<open>The arguments in their order: one when its option is set.\<close>

definition arg :: "bool \<Rightarrow> string \<Rightarrow> string \<Rightarrow> (string \<times> string) list" where
  "arg present name v = (if present then [(name, v)] else [])"

definition arg_set :: "string \<Rightarrow> string \<Rightarrow> (string \<times> string) list" where
  "arg_set name s = arg (isSet s) name s"

definition arg_ptr :: "string \<Rightarrow> ('a \<Rightarrow> string) \<Rightarrow> 'a option \<Rightarrow> (string \<times> string) list" where
  "arg_ptr name text p = (case p of None \<Rightarrow> [] | Some x \<Rightarrow> [(name, text x)])"

definition query_args :: "float_ops \<Rightarrow> Options \<Rightarrow> (string \<times> string) list" where
  "query_args ops o' =
     arg_set ''region'' (im_Region o') @
     arg_set ''auto'' (im_Auto o') @
     arg_ptr ''bg-color'' (HexColor_String ops) (im_BgColor o') @
     arg (BlurMode_isSet (im_Blur o')) ''blur'' (BlurMode_String ops (im_Blur o')) @
     arg (im_Brightness o' \<noteq> 0) ''brightness'' (itoa (im_Brightness o')) @
     arg (BWMode_isSet (im_Bw o')) ''bw'' (BWMode_String (im_Bw o')) @
     arg_ptr ''canvas'' Canvas_String (im_Canvas o') @
     arg (im_Contrast o' \<noteq> 0) ''contrast'' (itoa (im_Contrast o')) @
     arg_ptr ''crop'' Crop_String (im_Crop o') @
     arg (fl_nonzero (im_Dpr o')) ''dpr'' (fo_text ops 32 (im_Dpr o')) @
     arg_set ''enable'' (im_Enable o') @
     arg_set ''fit'' (im_Fit o') @
     arg_set ''format'' (im_Format o') @
     arg (im_Frame o' \<noteq> 0) ''frame'' (nat_str (unat (im_Frame o'))) @
     arg_set ''height'' (im_Height o') @
     arg_set ''level'' (im_Level o') @
     arg_set ''profile'' (im_Profile o') @
     arg_set ''metadata'' (im_Metadata o') @
     arg_set ''optimize'' (im_Optimize o') @
     arg (im_Orient o' \<noteq> 0) ''orient'' (itoa (im_Orient o')) @
     arg_ptr ''pad'' Sides_String (im_Pad o') @
     arg_ptr ''precrop'' Crop_String (im_Precrop o') @
     arg_set ''resize-filter'' (im_ResizeFilter o') @
     arg_ptr ''sharpen'' (Sharpen_String ops) (im_Sharpen o') @
     arg_ptr ''trim'' Sides_String (im_Trim o') @
     arg_ptr ''trim-color'' (TrimColor_String ops) (im_TrimColor o') @
     arg_set ''width'' (im_Width o')"

definition QueryString :: "float_ops \<Rightarrow> Options \<Rightarrow> goerr + string" where
  "QueryString ops o' =
     (case validateParams o' of
        Some e \<Rightarrow> Inl e
      | None \<Rightarrow> Inr (str_join ''&'' (map (\<lambda>(name, v). name @ ''='' @ v) (query_args ops o'))))"

end
