(* ===== verification/ImageQueries.thy ===== *)
theory ImageQueries
  imports ImageOptions "HOL-Library.Sublist"
begin

text \<open>
  What \<open>imageopto.go\<close> guarantees: exactly which options are accepted, and that the query string can
  be taken apart into the options again.
\<close>

section \<open>The patterns\<close>

definition number_text :: "string \<Rightarrow> bool" where
  "number_text n \<longleftrightarrow> (\<exists>d f. n = d @ f \<and> digits d \<and> (f = [] \<or> (\<exists>e. f = CHR ''.'' # e \<and> digits e)))"

lemma places_number:
  "y \<in> set (places (Seq number r) (b, s)) \<longleftrightarrow> (\<exists>n t. number_text n \<and> s = n @ t \<and> y \<in> set (places r (False, t)))"
proof -
  have "y \<in> set (places (Seq number r) (b, s)) \<longleftrightarrow> (\<exists>d t. digits d \<and> s = d @ t \<and>
      (y \<in> set (places r (False, t))
       \<or> (\<exists>u. t = CHR ''.'' # u \<and> (\<exists>e v. digits e \<and> u = e @ v \<and> y \<in> set (places r (False, v))))))"
    unfolding number_def by (simp add: pattern_rules)
  also have "\<dots> \<longleftrightarrow> (\<exists>n t. number_text n \<and> s = n @ t \<and> y \<in> set (places r (False, t)))"
    (is "?split \<longleftrightarrow> ?text")
  proof
    assume ?split
    then obtain d t where d: "digits d" "s = d @ t" and t: "y \<in> set (places r (False, t))
        \<or> (\<exists>u. t = CHR ''.'' # u \<and> (\<exists>e v. digits e \<and> u = e @ v \<and> y \<in> set (places r (False, v))))" by blast
    from t show ?text
    proof (elim disjE exE conjE)
      assume "y \<in> set (places r (False, t))"
      moreover have "number_text d" using d by (auto simp: number_text_def)
      ultimately show ?text using d by blast
    next
      fix u e v assume "t = CHR ''.'' # u" "digits e" "u = e @ v" "y \<in> set (places r (False, v))"
      moreover have "number_text (d @ CHR ''.'' # e)" using d \<open>digits e\<close> by (auto simp: number_text_def)
      ultimately show ?text using d by (intro exI [of _ "d @ CHR ''.'' # e"] exI [of _ v]) simp
    qed
  next
    assume ?text
    then obtain n t where n: "number_text n" "s = n @ t" "y \<in> set (places r (False, t))" by blast
    then obtain d f where d: "n = d @ f" "digits d" and "f = [] \<or> (\<exists>e. f = CHR ''.'' # e \<and> digits e)"
      unfolding number_text_def by blast
    with n show ?split by (elim disjE exE conjE) (rule exI [of _ d]; auto)+
  qed
  finally show ?thesis .
qed

lemma number_text_chars: "number_text n \<Longrightarrow> c \<in> set n \<Longrightarrow> is_digit c \<or> c = CHR ''.''"
  by (auto simp: number_text_def digits_def list_all_iff)

lemma length_valid:
  "PixelsOrPercentage_validate p = None \<longleftrightarrow> (\<exists>n. number_text n \<and> (p = n \<or> p = n @ ''p''))"
proof -
  have "MatchString rePixelsOrPercentage p \<longleftrightarrow>
      (\<exists>y n t. number_text n \<and> p = n @ t \<and> (t = [] \<and> y = (False, t) \<or> t = ''p'' \<and> y = (False, [])))"
    by (simp add: rePixelsOrPercentage_def MatchString_Bol places_number pattern_rules cong: conj_cong del: split_paired_Ex)
  also have "\<dots> \<longleftrightarrow> (\<exists>n. number_text n \<and> (p = n \<or> p = n @ ''p''))"
    by (simp del: split_paired_Ex) blast
  finally show ?thesis by (simp add: PixelsOrPercentage_validate_def)
qed

lemma axis_match:
  "MatchString (Alt (Seq Bol (Seq (Lit [a]) (Seq number (Opt (Lit ''p''))))) (Seq (Lit (''offset-'' @ [a])) (Seq Digits Eol))) p
   \<longleftrightarrow> (\<exists>n u. number_text n \<and> p = a # n @ u) \<or> (\<exists>u d. digits d \<and> p = u @ ''offset-'' @ a # d)"
proof -
  have "(\<exists>y. y \<in> set (places (Seq (Lit [a]) (Seq number (Opt (Lit ''p'')))) (True, p)))
      \<longleftrightarrow> (\<exists>n u. number_text n \<and> p = a # n @ u)"
    by (simp add: places_number pattern_rules del: split_paired_Ex) blast
  moreover have "MatchString (Seq (Lit (''offset-'' @ [a])) (Seq Digits Eol)) p
      \<longleftrightarrow> (\<exists>u d. digits d \<and> p = u @ ''offset-'' @ a # d)"
    by (subst MatchString_suffix) (auto simp: pattern_rules)
  ultimately show ?thesis unfolding MatchString_Alt MatchString_Bol by blast
qed

text \<open>
  What the documentation calls valid: a whole number of pixels, or a percentage with a \<open>p\<close> after it;
  a side of a position is such a length after the letter of its axis, or an offset.
\<close>

definition doc_length :: "string \<Rightarrow> bool" where
  "doc_length p \<longleftrightarrow> digits p \<or> (\<exists>n. number_text n \<and> p = n @ ''p'')"

definition doc_point :: "char \<Rightarrow> string \<Rightarrow> bool" where
  "doc_point a p \<longleftrightarrow> (\<exists>l. doc_length l \<and> p = a # l)"

definition doc_offset :: "char \<Rightarrow> string \<Rightarrow> bool" where
  "doc_offset a p \<longleftrightarrow> (\<exists>d. digits d \<and> p = ''offset-'' @ a # d)"

lemma number_documented: "number_text n \<or> (\<exists>m. number_text m \<and> n = m @ ''p'')
    \<longleftrightarrow> doc_length n \<or> (\<exists>d e. digits d \<and> digits e \<and> n = d @ ''.'' @ e)"
  by (auto simp: doc_length_def number_text_def)

lemma point_documented:
  "(\<exists>n u. number_text n \<and> p = a # n @ u) \<longleftrightarrow> (\<exists>t u. doc_point a t \<and> p = t @ u)"
proof
  assume "\<exists>n u. number_text n \<and> p = a # n @ u"
  then obtain n u where "number_text n" "p = a # n @ u" by blast
  moreover from this obtain d f where "n = d @ f" "digits d" unfolding number_text_def by blast
  ultimately have "digits d" "p = (a # d) @ f @ u" by simp_all
  then show "\<exists>t u. doc_point a t \<and> p = t @ u" unfolding doc_point_def doc_length_def by blast
next
  assume "\<exists>t u. doc_point a t \<and> p = t @ u"
  then obtain l u where "doc_length l" "p = a # l @ u" by (auto simp: doc_point_def)
  then show "\<exists>n u. number_text n \<and> p = a # n @ u"
    by (fastforce simp: doc_length_def number_text_def)
qed

lemma side_accepted:
  "MatchString (Alt (Seq Bol (Seq (Lit [a]) (Seq number (Opt (Lit ''p''))))) (Seq (Lit (''offset-'' @ [a])) (Seq Digits Eol))) p
   \<longleftrightarrow> (\<exists>t u. doc_point a t \<and> p = t @ u) \<or> (\<exists>u t. doc_offset a t \<and> p = u @ t)"
  unfolding axis_match point_documented doc_offset_def by auto

text \<open>
  C32: every length that the documentation calls valid is accepted, and nothing else but a fraction
  without a \<open>p\<close>, which the documentation does not allow (a fractional number of pixels).  A position
  is accepted exactly when each of its sides that is given starts with a documented point of its
  axis, whatever follows, or ends in a documented offset, whatever precedes it.
\<close>

theorem image_lengths_positions:
  "(PixelsOrPercentage_validate p = None
     \<longleftrightarrow> doc_length p \<or> (\<exists>d e. digits d \<and> digits e \<and> p = d @ ''.'' @ e))
   \<and> (Position_validate q = None \<longleftrightarrow>
     (ps_X q = [] \<or> (\<exists>t u. doc_point CHR ''x'' t \<and> ps_X q = t @ u) \<or> (\<exists>u t. doc_offset CHR ''x'' t \<and> ps_X q = u @ t))
     \<and> (ps_Y q = [] \<or> (\<exists>t u. doc_point CHR ''y'' t \<and> ps_Y q = t @ u) \<or> (\<exists>u t. doc_offset CHR ''y'' t \<and> ps_Y q = u @ t)))"
proof
  show "PixelsOrPercentage_validate p = None \<longleftrightarrow> doc_length p \<or> (\<exists>d e. digits d \<and> digits e \<and> p = d @ ''.'' @ e)"
    unfolding length_valid number_documented [symmetric] by blast
next
  show "Position_validate q = None \<longleftrightarrow>
     (ps_X q = [] \<or> (\<exists>t u. doc_point CHR ''x'' t \<and> ps_X q = t @ u) \<or> (\<exists>u t. doc_offset CHR ''x'' t \<and> ps_X q = u @ t))
     \<and> (ps_Y q = [] \<or> (\<exists>t u. doc_point CHR ''y'' t \<and> ps_Y q = t @ u) \<or> (\<exists>u t. doc_offset CHR ''y'' t \<and> ps_Y q = u @ t))"
    using side_accepted [of "CHR ''x''" "ps_X q"] side_accepted [of "CHR ''y''" "ps_Y q"]
    by (simp add: Position_validate_def reXPosition_def reYPosition_def)
qed

text \<open>A fraction of a pixel, which the documentation excludes.\<close>

lemma fractional_pixels: "PixelsOrPercentage_validate ''12.5'' = None \<and> \<not> doc_length ''12.5''"
proof
  show "PixelsOrPercentage_validate ''12.5'' = None" by code_simp
  have "\<not> digits ''12.5''" by code_simp
  moreover have "''12.5'' \<noteq> n @ ''p''" for n by (auto dest: arg_cong [where f = last])
  ultimately show "\<not> doc_length ''12.5''" unfolding doc_length_def by blast
qed

section \<open>What is accepted\<close>

lemma first_of_None: "first_of es = None \<longleftrightarrow> (\<forall>e \<in> set es. e = None)"
  by (induction es rule: first_of.induct) auto

lemma check_ptr_None: "check_ptr v p = None \<longleftrightarrow> pred_option (\<lambda>x. v x = None) p"
  by (cases p) (auto simp: check_ptr_def)

lemma check_set_None: "check_set v s = None \<longleftrightarrow> s = [] \<or> v s = None"
  by (auto simp: check_set_def isSet_def)

lemma percent_None: "percent what n = None \<longleftrightarrow> -100 \<le> n \<and> n \<le> 100"
  by (auto simp: percent_def)

text \<open>A number is between two bounds that are not negative, or is not a number at all.\<close>

definition between :: "rat \<Rightarrow> rat \<Rightarrow> go_float \<Rightarrow> bool" where
  "between lo hi x \<longleftrightarrow> (case x of NaN \<Rightarrow> True | Inf s \<Rightarrow> False | Zero s \<Rightarrow> lo = 0 | Num q \<Rightarrow> lo \<le> q \<and> q \<le> hi)"

lemma outside_between: "0 \<le> lo \<Longrightarrow> 0 < hi \<Longrightarrow> \<not> outside lo hi x \<longleftrightarrow> between lo hi x"
  by (cases x) (auto simp: outside_def between_def)

definition area_ok :: "Area \<Rightarrow> bool" where
  "area_ok a \<longleftrightarrow> ar_state a \<noteq> areaStateWidthHeight \<or>
     list_all (\<lambda>s. s = [] \<or> PixelsOrPercentage_validate s = None) [fst (ar_widthHeight a), snd (ar_widthHeight a)]"

definition sides_ok :: "Sides \<Rightarrow> bool" where
  "sides_ok s \<longleftrightarrow> list_all (\<lambda>s. s = [] \<or> PixelsOrPercentage_validate s = None) [sd_Top s, sd_Right s, sd_Bottom s, sd_Left s]"

definition crop_ok :: "Crop \<Rightarrow> bool" where
  "crop_ok c \<longleftrightarrow> area_ok (cr_Size c) \<and> pred_option (\<lambda>p. Position_validate p = None) (cr_Position c)"

lemma area_valid: "Area_validate a = None \<longleftrightarrow> area_ok a"
  by (auto simp: Area_validate_def area_ok_def first_of_None check_set_None)

lemma sides_valid: "Sides_validate s = None \<longleftrightarrow> sides_ok s"
  by (auto simp: Sides_validate_def sides_ok_def first_of_None check_set_None)

lemma crop_valid: "Crop_validate c = None \<longleftrightarrow> crop_ok c"
  by (auto simp: Crop_validate_def crop_ok_def first_of_None check_ptr_None area_valid)

lemma error_if_None: "(if c then Some e else None) = None \<longleftrightarrow> \<not> c"
  by simp

text \<open>
  The options \<open>QueryString\<close> accepts, each by its bounds.  A canvas with an invalid size is
  accepted, whatever its position, and so is any amount that is not a number.
\<close>

lemma image_options_valid:
  "validateParams im = None \<longleftrightarrow>
     im_Region im \<noteq> []
     \<and> pred_option (\<lambda>b. between 0 1 (hx_A b)) (im_BgColor im)
     \<and> (-100 \<le> im_Brightness im \<and> im_Brightness im \<le> 100)
     \<and> (-100 \<le> im_Contrast im \<and> im_Contrast im \<le> 100)
     \<and> pred_option (\<lambda>c. \<not> area_ok (ca_Size c) \<or> pred_option (\<lambda>p. Position_validate p = None) (ca_Position c)) (im_Canvas im)
     \<and> pred_option crop_ok (im_Crop im)
     \<and> between 0 10 (im_Dpr im)
     \<and> (im_Height im = [] \<or> PixelsOrPercentage_validate (im_Height im) = None)
     \<and> pred_option sides_ok (im_Pad im)
     \<and> pred_option crop_ok (im_Precrop im)
     \<and> im_Quality im \<le> 100
     \<and> (-100 \<le> im_Saturation im \<and> im_Saturation im \<le> 100)
     \<and> pred_option (\<lambda>s. sh_Amount s \<le> 10 \<and> between (1 / 2) 1000 (sh_Radius s)) (im_Sharpen im)
     \<and> pred_option sides_ok (im_Trim im)
     \<and> pred_option (\<lambda>t. between 0 1 (hx_A (tr_Color t)) \<and> between 0 1 (tr_Threshold t)) (im_TrimColor im)
     \<and> (im_Width im = [] \<or> PixelsOrPercentage_validate (im_Width im) = None)"
proof -
  have out: "outside 0 1 x \<longleftrightarrow> \<not> between 0 1 x" for x
    using outside_between [of 0 1 x] by auto
  have trim: "TrimColor_validate t = None \<longleftrightarrow> between 0 1 (hx_A (tr_Color t)) \<and> between 0 1 (tr_Threshold t)" for t
    by (simp add: TrimColor_validate_def HexColor_validate_def first_of_None error_if_None out)
  have sharp: "Sharpen_validate s = None \<longleftrightarrow> sh_Amount s \<le> 10 \<and> between (1 / 2) 1000 (sh_Radius s)" for s
    using outside_between [of "1 / 2" 1000 "sh_Radius s"] by (auto simp: Sharpen_validate_def not_less)
  have canvas: "Canvas_validate c = None
      \<longleftrightarrow> \<not> area_ok (ca_Size c) \<or> pred_option (\<lambda>p. Position_validate p = None) (ca_Position c)" for c
    by (auto simp: Canvas_validate_def area_valid check_ptr_None)
  have dpr: "fl_nonzero x \<and> outside 0 10 x \<longleftrightarrow> \<not> between 0 10 x" for x
    by (cases x) (auto simp: fl_nonzero_def between_def outside_def)
  have quality: "q \<noteq> 0 \<and> 100 < q \<longleftrightarrow> \<not> q \<le> 100" for q :: u32
    by (auto simp: not_less)
  show ?thesis
    unfolding validateParams_def
    by (simp only: first_of_None list.set ball_simps simp_thms check_ptr_None crop_valid sides_valid trim sharp canvas
        check_set_None percent_None error_if_None dpr quality isSet_def out not_not)
qed

section \<open>The query string\<close>

text \<open>How a query string is taken apart: at every \<open>&\<close>, and each part at its first \<open>=\<close>.\<close>

definition parse_query :: "string \<Rightarrow> (string \<times> string) list" where
  "parse_query q = map (\<lambda>p. case cut_byte (CHR ''='') p of (name, v, found) \<Rightarrow> (name, v)) (split_byte (CHR ''&'') q)"

definition no_amp :: "string \<Rightarrow> bool" where
  "no_amp s \<longleftrightarrow> CHR ''&'' \<notin> set s"

lemma no_amp_simps [simp]:
  "no_amp []" "no_amp (c # s) \<longleftrightarrow> c \<noteq> CHR ''&'' \<and> no_amp s" "no_amp (s @ t) \<longleftrightarrow> no_amp s \<and> no_amp t"
  by (auto simp: no_amp_def)

lemma digit_no_amp: "list_all is_digit d \<Longrightarrow> no_amp d"
  by (auto simp: no_amp_def list_all_iff is_digit_def byte_def)

lemma no_amp_numbers [simp]: "no_amp (nat_str n)" "no_amp (itoa i)"
  using nat_str_digits itoa_chars by (fastforce simp: no_amp_def is_digit_def byte_def)+

lemma no_amp_length: "s = [] \<or> PixelsOrPercentage_validate s = None \<Longrightarrow> no_amp s"
  by (auto simp: length_valid number_text_def digits_def digit_no_amp)

text \<open>
  The strings that are not checked hold no \<open>&\<close>: the names of regions, formats and so on, the
  sides of positions, and the texts of floating point numbers.
\<close>

definition plain_position :: "Position \<Rightarrow> bool" where
  "plain_position p \<longleftrightarrow> no_amp (ps_X p) \<and> no_amp (ps_Y p)"

definition plain_options :: "float_ops \<Rightarrow> Options \<Rightarrow> bool" where
  "plain_options ops im \<longleftrightarrow>
     (\<forall>b x. no_amp (fo_text ops b x))
     \<and> list_all no_amp [im_Region im, im_Auto im, im_Enable im, im_Fit im, im_Format im, im_Level im, im_Profile im,
         im_Metadata im, im_Optimize im, im_ResizeFilter im]
     \<and> pred_option (\<lambda>c. area_ok (ca_Size c) \<and> pred_option plain_position (ca_Position c)) (im_Canvas im)
     \<and> list_all (pred_option (\<lambda>c. no_amp (cr_Mode c) \<and> pred_option plain_position (cr_Position c))) [im_Crop im, im_Precrop im]"

definition arg_ok :: "string \<times> string \<Rightarrow> bool" where
  "arg_ok a \<longleftrightarrow> CHR ''='' \<notin> set (fst a) \<and> no_amp (fst a) \<and> no_amp (snd a)"

lemma args_ok:
  "list_all arg_ok (arg b name v) \<longleftrightarrow> (b \<longrightarrow> arg_ok (name, v))"
  "list_all arg_ok (arg_set name s) \<longleftrightarrow> (s \<noteq> [] \<longrightarrow> arg_ok (name, s))"
  "list_all arg_ok (arg_ptr name text p) \<longleftrightarrow> pred_option (\<lambda>x. arg_ok (name, text x)) p"
  by (cases p; auto simp: arg_def arg_set_def arg_ptr_def isSet_def)+

lemma no_amp_area: "area_ok a \<Longrightarrow> no_amp (Area_String a)"
  by (auto simp: Area_String_def area_ok_def no_amp_length)

lemma no_amp_position: "plain_position p \<Longrightarrow> no_amp (Position_String p)"
  by (simp add: Position_String_def plain_position_def)

lemma no_amp_crop:
  "crop_ok c \<Longrightarrow> no_amp (cr_Mode c) \<Longrightarrow> pred_option plain_position (cr_Position c) \<Longrightarrow> no_amp (Crop_String c)"
  by (cases "cr_Position c") (auto simp: Crop_String_def crop_ok_def no_amp_area no_amp_position Let_def)

lemma no_amp_sides: "sides_ok s \<Longrightarrow> no_amp (Sides_String s)"
  by (auto simp: Sides_String_def sides_ok_def no_amp_length)

lemma query_args_ok:
  assumes valid: "validateParams im = None" and plain: "plain_options ops im"
  shows "list_all arg_ok (query_args ops im)"
proof -
  note ok = valid [unfolded image_options_valid]
  have floats [simp]: "no_amp (fo_text ops b x)" for b x using plain by (simp add: plain_options_def)
  have names: "list_all no_amp [im_Region im, im_Auto im, im_Enable im, im_Fit im, im_Format im, im_Level im, im_Profile im,
         im_Metadata im, im_Optimize im, im_ResizeFilter im]" using plain by (simp add: plain_options_def)
  have crop: "pred_option (\<lambda>c. no_amp (Crop_String c)) (im_Crop im)" "pred_option (\<lambda>c. no_amp (Crop_String c)) (im_Precrop im)"
    using ok plain by (cases "im_Crop im"; cases "im_Precrop im"; auto simp: plain_options_def intro: no_amp_crop)+
  have canvas: "pred_option (\<lambda>c. no_amp (Canvas_String c)) (im_Canvas im)"
    using plain by (cases "im_Canvas im") (auto simp: plain_options_def Canvas_String_def no_amp_area no_amp_position split: option.splits)
  have sides: "pred_option (\<lambda>s. no_amp (Sides_String s)) (im_Pad im)" "pred_option (\<lambda>s. no_amp (Sides_String s)) (im_Trim im)"
    using ok by (cases "im_Pad im"; cases "im_Trim im"; auto intro: no_amp_sides)+
  have lengths: "no_amp (im_Height im)" "no_amp (im_Width im)" using ok by (auto intro: no_amp_length)
  have colours: "no_amp (HexColor_String ops h)" "no_amp (TrimColor_String ops t)" "no_amp (Sharpen_String ops s)"
    "no_amp (BlurMode_String ops b)" "no_amp (BWMode_String bw)" for h t s b bw
    by (simp_all add: HexColor_String_def TrimColor_String_def Sharpen_String_def BlurMode_String_def BWMode_String_def
        fmtFloat_def Let_def)
  show ?thesis
    unfolding query_args_def list_all_append args_ok arg_ok_def fst_conv snd_conv
    using names crop canvas sides lengths
    by (simp add: colours option.pred_True [unfolded fun_eq_iff, rule_format])
qed


definition arg_names :: "string list" where
  "arg_names =
     [''region''] @ [''auto''] @ [''bg-color''] @ [''blur''] @ [''brightness''] @ [''bw''] @ [''canvas''] @
     [''contrast''] @ [''crop''] @ [''dpr''] @ [''enable''] @ [''fit''] @ [''format''] @ [''frame''] @ [''height''] @
     [''level''] @ [''profile''] @ [''metadata''] @ [''optimize''] @ [''orient''] @ [''pad''] @ [''precrop''] @
     [''resize-filter''] @ [''sharpen''] @ [''trim''] @ [''trim-color''] @ [''width'']"

lemma arg_name:
  "subseq (map fst (arg b name v)) [name]" "subseq (map fst (arg_set name s)) [name]"
  "subseq (map fst (arg_ptr name text p)) [name]"
  by (cases p; simp add: arg_def arg_set_def arg_ptr_def)+

lemma map_of_args:
  "map_of (arg b name v) k = (if b \<and> k = name then Some v else None)"
  "map_of (arg_set name s) k = (if s \<noteq> [] \<and> k = name then Some s else None)"
  "map_of (arg_ptr name text p) k = (if k = name then map_option text p else None)"
  by (cases p; simp add: arg_def arg_set_def arg_ptr_def isSet_def)+

lemma query_args_names: "subseq (map fst (query_args ops im)) arg_names"
  unfolding query_args_def arg_names_def map_append
  by (intro list_emb_append_mono arg_name)

lemma query_args_distinct: "distinct (map fst (query_args ops im))"
proof -
  have "subseq (map fst (query_args ops im)) arg_names" by (rule query_args_names)
  moreover have "distinct arg_names" by code_simp
  ultimately show ?thesis by (metis subseq_conv_nths distinct_nthsI)
qed

text \<open>
  What the image optimizer is to be told, parameter by parameter: the option behind each name and
  its text, nothing when it is not set, and no other name.
\<close>

definition text_of :: "string \<Rightarrow> string option" where
  "text_of s = (if s = [] then None else Some s)"

definition number_of :: "int \<Rightarrow> string option" where
  "number_of n = (if n = 0 then None else Some (itoa n))"

definition image_params :: "float_ops \<Rightarrow> Options \<Rightarrow> (string \<times> string option) list" where
  "image_params ops im =
     [(''region'', text_of (im_Region im)),
      (''auto'', text_of (im_Auto im)),
      (''bg-color'', map_option (HexColor_String ops) (im_BgColor im)),
      (''blur'', if bl_state (im_Blur im) = blurModeStateNone then None else Some (BlurMode_String ops (im_Blur im))),
      (''brightness'', number_of (im_Brightness im)),
      (''bw'', if bw_state (im_Bw im) = bwModeStateNone then None else Some (BWMode_String (im_Bw im))),
      (''canvas'', map_option Canvas_String (im_Canvas im)),
      (''contrast'', number_of (im_Contrast im)),
      (''crop'', map_option Crop_String (im_Crop im)),
      (''dpr'', if fl_nonzero (im_Dpr im) then Some (fo_text ops 32 (im_Dpr im)) else None),
      (''enable'', text_of (im_Enable im)),
      (''fit'', text_of (im_Fit im)),
      (''format'', text_of (im_Format im)),
      (''frame'', number_of (uint (im_Frame im))),
      (''height'', text_of (im_Height im)),
      (''level'', text_of (im_Level im)),
      (''profile'', text_of (im_Profile im)),
      (''metadata'', text_of (im_Metadata im)),
      (''optimize'', text_of (im_Optimize im)),
      (''orient'', number_of (im_Orient im)),
      (''pad'', map_option Sides_String (im_Pad im)),
      (''precrop'', map_option Crop_String (im_Precrop im)),
      (''resize-filter'', text_of (im_ResizeFilter im)),
      (''sharpen'', map_option (Sharpen_String ops) (im_Sharpen im)),
      (''trim'', map_option Sides_String (im_Trim im)),
      (''trim-color'', map_option (TrimColor_String ops) (im_TrimColor im)),
      (''width'', text_of (im_Width im))]"

definition image_param :: "float_ops \<Rightarrow> Options \<Rightarrow> string \<Rightarrow> string option" where
  "image_param ops im name = (case map_of (image_params ops im) name of Some v \<Rightarrow> v | None \<Rightarrow> None)"

definition given_params :: "(string \<times> string option) list \<Rightarrow> (string \<times> string) list" where
  "given_params t = concat (map (\<lambda>(name, v). case v of None \<Rightarrow> [] | Some s \<Rightarrow> [(name, s)]) t)"

lemma given_params_simps [simp]:
  "given_params [] = []" "given_params ((name, v) # t) = (case v of None \<Rightarrow> [] | Some s \<Rightarrow> [(name, s)]) @ given_params t"
  by (simp_all add: given_params_def)

lemma map_of_given:
  "distinct (map fst t) \<Longrightarrow> map_of (given_params t) name = (case map_of t name of Some v \<Rightarrow> v | None \<Rightarrow> None)"
proof (induction t)
  case (Cons p t)
  obtain n v where p: "p = (n, v)" by (cases p)
  have "map_of t n = None" using Cons.prems by (simp add: p map_of_eq_None_iff)
  with Cons show ?case by (auto simp: p map_add_def split: option.splits)
qed simp

lemma arg_given:
  "arg_set name s = given_params [(name, text_of s)]"
  "arg (n \<noteq> 0) name (itoa n) = given_params [(name, number_of n)]"
  "arg_ptr name text q = given_params [(name, map_option text q)]"
  "arg b name v = given_params [(name, if b then Some v else None)]"
  by (auto simp: arg_set_def arg_def arg_ptr_def isSet_def text_of_def number_of_def split: option.split)

lemma given_append: "given_params (t @ u) = given_params t @ given_params u"
  by (simp add: given_params_def)

lemma args_params: "query_args ops im = given_params (image_params ops im)"
  unfolding query_args_def image_params_def arg_given
  unfolding given_append [symmetric] append.simps
  by (rule arg_cong [where f = given_params])
    (simp add: BlurMode_isSet_def BWMode_isSet_def number_of_def itoa_def uint_0_iff)

lemma params_distinct: "distinct (map fst (image_params ops im))"
  unfolding image_params_def list.map fst_conv by code_simp

text \<open>
  C31: when the options are accepted, and what is not checked holds no \<open>&\<close>, taking the query string
  apart gives for every name the text of the option behind it, exactly when the option is set, and
  no name twice; numbers and lengths need no condition.  \<open>Quality\<close>, \<open>Saturation\<close> and
  \<open>PreserveQueryStringOnOriginRequest\<close> have no name: they are never sent.
\<close>

theorem image_query_roundtrip:
  assumes "validateParams im = None" and "plain_options ops im"
  shows "\<exists>q. QueryString ops im = Inr q \<and> distinct (map fst (parse_query q))
    \<and> (\<forall>name. map_of (parse_query q) name = image_param ops im name)"
proof -
  let ?parts = "map (\<lambda>(name, v). name @ ''='' @ v) (query_args ops im)"
  have region: "im_Region im \<noteq> []" using assms(1) by (simp add: image_options_valid)
  have ok: "\<forall>a \<in> set (query_args ops im). arg_ok a"
    using query_args_ok [OF assms] by (simp add: list_all_iff)
  have "split_byte (CHR ''&'') (str_join ''&'' ?parts) = ?parts"
  proof (rule split_join)
    show "?parts \<noteq> []" using region by (simp add: query_args_def arg_set_def arg_def isSet_def)
    show "\<forall>p \<in> set ?parts. CHR ''&'' \<notin> set p" using ok by (auto simp: arg_ok_def no_amp_def)
  qed
  moreover have "cut_byte (CHR ''='') (name @ ''='' @ v) = (name, v, True)" if "(name, v) \<in> set (query_args ops im)" for name v
    using that ok by (fastforce simp: arg_ok_def)
  ultimately have "parse_query (str_join ''&'' ?parts) = query_args ops im"
    by (auto simp: parse_query_def comp_def intro!: map_idI)
  then show ?thesis
    using assms(1) query_args_distinct [of ops im] map_of_given [OF params_distinct, of ops im]
    by (simp add: QueryString_def args_params image_param_def)
qed

text \<open>Three options never reach the query string.\<close>

lemma image_query_ignores:
  assumes "validateParams im = None" and "q \<le> 100" and "-100 \<le> s" and "s \<le> 100"
  shows "QueryString ops (im\<lparr>im_Quality := q, im_Saturation := s, im_PreserveQueryStringOnOriginRequest := b\<rparr>)
    = QueryString ops im"
proof -
  have "validateParams (im\<lparr>im_Quality := q, im_Saturation := s, im_PreserveQueryStringOnOriginRequest := b\<rparr>) = None"
    using assms by (simp add: image_options_valid)
  with assms(1) show ?thesis by (simp add: QueryString_def query_args_def)
qed

section \<open>Examples\<close>

definition no_floats :: float_ops where
  "no_floats = \<lparr>fo_round = (\<lambda>q. if q = 0 then Zero False else Num q), fo_text = (\<lambda>b x. ''0'')\<rparr>"

definition region_only :: Options where
  "region_only =
     \<lparr>im_Region = ''asia'', im_Auto = [], im_BgColor = None, im_Blur = \<lparr>bl_state = 0, bl_pixels = Zero False, bl_percentage = Zero False\<rparr>,
      im_Brightness = 0, im_Bw = \<lparr>bw_state = 0, bw_luminance = 0\<rparr>, im_Canvas = None, im_Contrast = 0, im_Crop = None,
      im_Dpr = Zero False, im_Enable = [], im_Fit = [], im_Format = [], im_Frame = 0, im_Height = [], im_Level = [],
      im_Metadata = [], im_Optimize = [], im_Orient = 0, im_Pad = None, im_Precrop = None, im_Profile = [],
      im_Quality = 0, im_ResizeFilter = [], im_Saturation = 0, im_Sharpen = None, im_Trim = None, im_TrimColor = None,
      im_Width = [], im_PreserveQueryStringOnOriginRequest = False\<rparr>"

theorem image_query_roundtrip_witness:
  "\<exists>q. QueryString no_floats (region_only\<lparr>im_Width := ''50p'', im_Contrast := -7, im_Frame := 1\<rparr>) = Inr q
     \<and> map_of (parse_query q) ''region'' = Some ''asia'' \<and> map_of (parse_query q) ''contrast'' = Some ''-7''
     \<and> map_of (parse_query q) ''width'' = Some ''50p'' \<and> map_of (parse_query q) ''frame'' = Some ''1''
     \<and> map_of (parse_query q) ''height'' = None \<and> map_of (parse_query q) ''quality'' = None"
proof -
  let ?im = "region_only\<lparr>im_Width := ''50p'', im_Contrast := -7, im_Frame := 1\<rparr>"
  have "validateParams ?im = None" by code_simp
  moreover have "plain_options no_floats ?im"
    by (simp add: plain_options_def region_only_def no_floats_def)
  ultimately obtain q where "QueryString no_floats ?im = Inr q" "\<forall>name. map_of (parse_query q) name = image_param no_floats ?im name"
    using image_query_roundtrip by blast
  moreover have "image_param no_floats ?im ''region'' = Some ''asia''" "image_param no_floats ?im ''contrast'' = Some ''-7''"
    "image_param no_floats ?im ''width'' = Some ''50p''" "image_param no_floats ?im ''frame'' = Some ''1''"
    "image_param no_floats ?im ''height'' = None" "image_param no_floats ?im ''quality'' = None"
    by code_simp+
  ultimately show ?thesis by simp
qed

text \<open>A position may hold more than a position: here it sets the width.\<close>

lemma position_smuggles_width:
  "\<exists>q. QueryString no_floats (region_only\<lparr>im_Canvas := Some \<lparr>ca_Size = NewAreaAspectRatio 1 1,
      ca_Position = Some \<lparr>ps_X = ''x0&width=9999'', ps_Y = []\<rparr>\<rparr>\<rparr>) = Inr q
    \<and> map_of (parse_query q) ''width'' = Some ''9999''"
proof -
  have "QueryString no_floats (region_only\<lparr>im_Canvas := Some \<lparr>ca_Size = NewAreaAspectRatio 1 1,
      ca_Position = Some \<lparr>ps_X = ''x0&width=9999'', ps_Y = []\<rparr>\<rparr>\<rparr>) = Inr ''region=asia&canvas=1:1,x0&width=9999''"
    by code_simp
  moreover have "map_of (parse_query ''region=asia&canvas=1:1,x0&width=9999'') ''width'' = Some ''9999''"
    by code_simp
  ultimately show ?thesis by blast
qed

text \<open>A canvas with an invalid size is accepted.\<close>

lemma invalid_canvas_accepted:
  "validateParams (region_only\<lparr>im_Canvas := Some \<lparr>ca_Size = NewAreaWidthHeight ''wide'' ''10'', ca_Position = None\<rparr>\<rparr>) = None"
  by code_simp

end
