(* ===== verification/PublicNames.thy ===== *)
theory PublicNames
  imports Sending KVStore
begin

text \<open>
  The names the SDK gives to values of its lower layers, and the small deprecated interfaces: the
  causes of a failed send (\<open>fsthttp/senderror.go\<close>), methods (\<open>methods.go\<close>), limits (\<open>limits.go\<close>) and the
  package \<open>objectstore\<close>.
\<close>

section \<open>Causes of a failed send\<close>

definition SendError_names :: "(string \<times> SendErrorDetailTag) list" where
  "SendError_names =
     [(''SendErrorDNSTimeout'', SendErrorDetailTagDNSTimeout),
      (''SendErrorDNSError'', SendErrorDetailTagDNSError),
      (''SendErrorDestinationNotFound'', SendErrorDetailTagDestinationNotFound),
      (''SendErrorDestinationUnavailable'', SendErrorDetailTagDestinationUnavailable),
      (''SendErrorDestinationIPUnroutable'', SendErrorDetailTagDestinationIPUnroutable),
      (''SendErrorConnectionRefused'', SendErrorDetailTagConnectionRefused),
      (''SendErrorConnectionTerminated'', SendErrorDetailTagConnectionTerminated),
      (''SendErrorConnectionTimeout'', SendErrorDetailTagConnectionTimeout),
      (''SendErrorConnectionLimitReached'', SendErrorDetailTagConnectionLimitReached),
      (''SendErrorTLSCertificateError'', SendErrorDetailTagTLSCertificateError),
      (''SendErrorTLSConfigurationError'', SendErrorDetailTagTLSConfigurationError),
      (''SendErrorTLSAlertReceived'', SendErrorDetailTagTLSAlertReceived),
      (''SendErrorTLSProtocolError'', SendErrorDetailTagTLSProtocolError),
      (''SendErrorHTTPIncompleteResponse'', SendErrorDetailTagHTTPIncompleteResponse),
      (''SendErrorHTTPResponseHeaderSectionTooLarge'', SendErrorDetailTagHTTPResponseHeaderSectionTooLarge),
      (''SendErrorHTTPResponseBodyTooLarge'', SendErrorDetailTagHTTPResponseBodyTooLarge),
      (''SendErrorHTTPResponseTimeout'', SendErrorDetailTagHTTPResponseTimeout),
      (''SendErrorHTTPResponseStatusInvalid'', SendErrorDetailTagHTTPResponseStatusInvalid),
      (''SendErrorHTTPUpgradeFailed'', SendErrorDetailTagHTTPUpgradeFailed),
      (''SendErrorHTTPProtocolError'', SendErrorDetailTagHTTPProtocolError),
      (''SendErrorHTTPRequestCacheKeyInvalid'', SendErrorDetailTagHTTPRequestCacheKeyInvalid),
      (''SendErrorHTTPRequestURIInvalid'', SendErrorDetailTagHTTPRequestURIInvalid),
      (''SendErrorInternalError'', SendErrorDetailTagInternalError)]"

definition cause_name :: "SendErrorDetailTag \<Rightarrow> string option" where
  "cause_name tag = map_of (map prod.swap SendError_names) tag"

text \<open>No two names stand for one cause, and a cause a name stands for makes an error.\<close>

lemma SendError_names_distinct: "distinct (map snd SendError_names)"
  by (simp add: SendError_names_def)

lemma SendError_names_valid:
  assumes "(name, Tag d) \<in> set SendError_names"
  shows "sed_valid d \<and> sed_Cause d = Tag d"
  using assms by (auto simp: SendError_names_def sed_valid_def sed_Cause_def)

text \<open>
  Every cause that the layer below knows has a name, but one: an error of HTTP/2 (tag 25) has a text
  and no constant with which \<open>Cause()\<close> could be compared.
\<close>

lemma causes_named:
  "2 \<le> tag \<Longrightarrow> tag < SendErrorDetailTagH2Error \<Longrightarrow> cause_name tag \<noteq> None"
proof -
  assume tag: "2 \<le> tag" "tag < SendErrorDetailTagH2Error"
  have "unat tag \<in> set [2..<25]"
    unfolding set_upt atLeastLessThan_iff using tag by (simp add: word_le_nat_alt word_less_nat_alt)
  then have "tag \<in> of_nat ` set [2..<25]"
    by (intro image_eqI [of _ _ "unat tag"]) simp
  then show ?thesis
    by (auto simp: upt_conv_Cons cause_name_def SendError_names_def)
qed

lemma h2_error_unnamed:
  "cause_name SendErrorDetailTagH2Error = None" "Tag d = SendErrorDetailTagH2Error \<Longrightarrow> sed_valid d"
  by (simp_all add: cause_name_def SendError_names_def sed_valid_def)

section \<open>Methods and limits\<close>

definition MethodGet :: string where "MethodGet = ''GET''"
definition MethodHead :: string where "MethodHead = ''HEAD''"
definition MethodPost :: string where "MethodPost = ''POST''"
definition MethodPut :: string where "MethodPut = ''PUT''"
definition MethodPatch :: string where "MethodPatch = ''PATCH''"
definition MethodDelete :: string where "MethodDelete = ''DELETE''"
definition MethodConnect :: string where "MethodConnect = ''CONNECT''"
definition MethodOptions :: string where "MethodOptions = ''OPTIONS''"
definition MethodTrace :: string where "MethodTrace = ''TRACE''"

text \<open>Limits have no state: the setters do nothing and the getters return constants.\<close>

datatype Limits = Limits

definition MaxHeaderNameLen :: "Limits \<Rightarrow> nat" where "MaxHeaderNameLen l = DefaultLargeBufLen"
definition SetMaxHeaderNameLen :: "int \<Rightarrow> Limits \<Rightarrow> Limits" where "SetMaxHeaderNameLen n l = l"
definition MaxHeaderValueLen :: "Limits \<Rightarrow> nat" where "MaxHeaderValueLen l = DefaultLargeBufLen"
definition SetMaxHeaderValueLen :: "int \<Rightarrow> Limits \<Rightarrow> Limits" where "SetMaxHeaderValueLen n l = l"
definition MaxMethodLen :: "Limits \<Rightarrow> nat" where "MaxMethodLen l = DefaultMediumBufLen"
definition SetMaxMethodLen :: "int \<Rightarrow> Limits \<Rightarrow> Limits" where "SetMaxMethodLen n l = l"
definition MaxURLLen :: "Limits \<Rightarrow> nat" where "MaxURLLen l = DefaultLargeBufLen"
definition SetMaxURLLen :: "int \<Rightarrow> Limits \<Rightarrow> Limits" where "SetMaxURLLen n l = l"

section \<open>The object store\<close>

definition os_ErrKeyNotFound :: goerr where
  "os_ErrKeyNotFound = ErrKeyNotFound"

definition os_Open :: "'w kv_calls \<Rightarrow> string \<Rightarrow> ('w, goerr + handle) comp" where
  "os_Open kv name = kv_Open kv name"

end
