(* ===== verification/Deadlines.thy ===== *)
theory Deadlines
  imports Durations
begin

text \<open>
  Contexts that are cancelled after a time (\<open>x/fstctx/ctxutil.go\<close>): a goroutine sleeps and cancels a
  context of the standard library.  The goroutine, the calls of the cancel function, the parent
  and the clock take steps in any order; the lemmas say what a program can rely on in all orders.
\<close>

section \<open>The state\<close>

datatype ctx_err = Canceled | DeadlineExceeded

text \<open>
  The error of a cancellable context is set once: by its cancel function, or when its parent ends,
  with the parent's error.  \<open>tc_sleeping\<close> tells whether the goroutine is still in \<open>time.Sleep\<close>.
\<close>

record timeout_ctx =
  tc_parent :: "ctx_err option"
  tc_err :: "ctx_err option"
  tc_now :: int
  tc_wake :: int
  tc_sleeping :: bool

definition WithTimeout :: "ctx_err option \<Rightarrow> int \<Rightarrow> int \<Rightarrow> timeout_ctx" where
  "WithTimeout parent now timeout =
     \<lparr>tc_parent = parent, tc_err = parent, tc_now = now, tc_wake = now + max 0 timeout, tc_sleeping = True\<rparr>"

definition time_Until :: "int \<Rightarrow> int \<Rightarrow> int" where
  "time_Until now d = max (- (2 ^ 63)) (min (2 ^ 63 - 1) (d - now))"

definition WithDeadline :: "ctx_err option \<Rightarrow> int \<Rightarrow> int \<Rightarrow> timeout_ctx" where
  "WithDeadline parent now d = WithTimeout parent now (time_Until now d)"

section \<open>Its steps\<close>

definition ctx_cancel :: "ctx_err \<Rightarrow> timeout_ctx \<Rightarrow> timeout_ctx" where
  "ctx_cancel e c = (if tc_err c = None then c\<lparr>tc_err := Some e\<rparr> else c)"

text \<open>The goroutine after its sleep.\<close>

definition ctx_goroutine :: "timeout_ctx \<Rightarrow> timeout_ctx" where
  "ctx_goroutine c = (if tc_err c = None then ctx_cancel Canceled c else c)\<lparr>tc_sleeping := False\<rparr>"

datatype ctx_event = TimePasses int | GoroutineRuns | CancelCalled | ParentEnds ctx_err

inductive ctx_step :: "timeout_ctx \<Rightarrow> ctx_event \<Rightarrow> timeout_ctx \<Rightarrow> bool" where
  TimePasses: "0 < d \<Longrightarrow> ctx_step c (TimePasses d) (c\<lparr>tc_now := tc_now c + d\<rparr>)"
| GoroutineRuns: "tc_sleeping c \<Longrightarrow> tc_wake c \<le> tc_now c \<Longrightarrow> ctx_step c GoroutineRuns (ctx_goroutine c)"
| CancelCalled: "ctx_step c CancelCalled (ctx_cancel Canceled c)"
| ParentEnds: "tc_parent c = None \<Longrightarrow> ctx_step c (ParentEnds e) (ctx_cancel e (c\<lparr>tc_parent := Some e\<rparr>))"

inductive_simps ctx_step_simps:
  "ctx_step c (TimePasses d) c'" "ctx_step c GoroutineRuns c'" "ctx_step c CancelCalled c'" "ctx_step c (ParentEnds e) c'"

inductive ctx_run :: "timeout_ctx \<Rightarrow> ctx_event list \<Rightarrow> timeout_ctx \<Rightarrow> bool" where
  Start: "ctx_run c [] c"
| Step: "ctx_run c es c' \<Longrightarrow> ctx_step c' e c'' \<Longrightarrow> ctx_run c (es @ [e]) c''"

lemma ctx_step_cases [consumes 1, case_names TimePasses GoroutineRuns CancelCalled ParentEnds]:
  assumes "ctx_step c e c'"
  obtains d where "e = TimePasses d" "0 < d" "c' = c\<lparr>tc_now := tc_now c + d\<rparr>"
  | "e = GoroutineRuns" "tc_sleeping c" "tc_wake c \<le> tc_now c" "c' = ctx_goroutine c"
  | "e = CancelCalled" "c' = ctx_cancel Canceled c"
  | x where "e = ParentEnds x" "tc_parent c = None" "c' = ctx_cancel x (c\<lparr>tc_parent := Some x\<rparr>)"
  using assms by (cases rule: ctx_step.cases) auto

section \<open>What holds in all orders\<close>

text \<open>An error is never replaced.\<close>

lemma ctx_err_kept: "ctx_step c e c' \<Longrightarrow> tc_err c = Some x \<Longrightarrow> tc_err c' = Some x"
  by (cases rule: ctx_step_cases) (auto simp: ctx_cancel_def ctx_goroutine_def)

text \<open>
  A context ended because of exactly one of the reasons: the cancel function was called, the time
  was over, or the parent ended.  In the first two cases the error is \<open>Canceled\<close>.
\<close>

definition ctx_explained :: "timeout_ctx \<Rightarrow> ctx_event list \<Rightarrow> timeout_ctx \<Rightarrow> bool" where
  "ctx_explained c0 es c \<longleftrightarrow>
     tc_wake c = tc_wake c0 \<and> tc_now c0 \<le> tc_now c
     \<and> (\<not> tc_sleeping c \<longrightarrow> tc_err c \<noteq> None \<and> tc_wake c \<le> tc_now c)
     \<and> (tc_parent c \<noteq> None \<longrightarrow> tc_err c \<noteq> None)
     \<and> (case tc_err c of
          None \<Rightarrow> CancelCalled \<notin> set es
        | Some x \<Rightarrow> tc_parent c = Some x \<or> x = Canceled \<and> (CancelCalled \<in> set es \<or> tc_wake c \<le> tc_now c))"

lemma ctx_run_explained:
  assumes "ctx_run c es c'" "c = WithTimeout parent now timeout"
  shows "ctx_explained c es c'"
  using assms
proof induction
  case (Start c)
  then show ?case by (auto simp: ctx_explained_def WithTimeout_def split: option.splits)
next
  case (Step c es c' e c'')
  from Step(3)[OF Step(4)] show ?case
    using Step(2)
    by (cases rule: ctx_step_cases [OF Step(2)])
      (auto simp: ctx_explained_def ctx_cancel_def ctx_goroutine_def split: option.splits if_splits)
qed

text \<open>The documented guarantee: unless its parent ended, the error is \<open>Canceled\<close>, not \<open>DeadlineExceeded\<close>.\<close>

lemma timeout_error:
  assumes "ctx_run (WithTimeout None now timeout) es c" "tc_parent c = None" "tc_err c = Some x"
  shows "x = Canceled"
  using ctx_run_explained [OF assms(1) refl] assms by (auto simp: ctx_explained_def)

text \<open>Nobody cancels a context before its time but the program.\<close>

lemma timeout_not_early:
  assumes "ctx_run (WithTimeout None now timeout) es c" "tc_parent c = None"
    "CancelCalled \<notin> set es" "tc_now c < now + max 0 timeout"
  shows "tc_err c = None \<and> tc_sleeping c"
  using ctx_run_explained [OF assms(1) refl] assms
  by (auto simp: ctx_explained_def WithTimeout_def split: option.splits)

text \<open>Calling the cancel function does not end the goroutine; it then changes nothing any more.\<close>

lemma cancel_keeps_goroutine: "tc_sleeping (ctx_cancel x c) = tc_sleeping c"
  by (simp add: ctx_cancel_def)

lemma late_goroutine: "tc_err c = Some x \<Longrightarrow> ctx_goroutine c = c\<lparr>tc_sleeping := False\<rparr>"
  by (simp add: ctx_goroutine_def)

text \<open>Whatever happened, letting the time pass and the goroutine run ends the context.\<close>

lemma timeout_ends:
  assumes "ctx_run (WithTimeout parent now timeout) es c"
  shows "\<exists>es' c'. ctx_run (WithTimeout parent now timeout) (es @ es') c' \<and> tc_err c' \<noteq> None \<and> \<not> tc_sleeping c'"
proof (cases "tc_sleeping c")
  case False
  then show ?thesis
    using ctx_run_explained [OF assms refl] assms by (intro exI [of _ "[]"] exI [of _ c]) (auto simp: ctx_explained_def)
next
  case True
  define d where "d = max 1 (tc_wake c - tc_now c)"
  have "ctx_run (WithTimeout parent now timeout) ((es @ [TimePasses d]) @ [GoroutineRuns])
      (ctx_goroutine (c\<lparr>tc_now := tc_now c + d\<rparr>))"
    using True by (intro ctx_run.Step [OF ctx_run.Step [OF assms]]) (auto simp: ctx_step_simps d_def)
  then show ?thesis
    by (intro exI [of _ "[TimePasses d, GoroutineRuns]"] exI [of _ "ctx_goroutine (c\<lparr>tc_now := tc_now c + d\<rparr>)"])
      (auto simp: ctx_goroutine_def ctx_cancel_def)
qed

text \<open>A deadline that has passed ends the context as soon as the goroutine runs.\<close>

lemma past_deadline:
  "d \<le> now \<Longrightarrow> ctx_run (WithDeadline None now d) [GoroutineRuns] (ctx_goroutine (WithDeadline None now d))"
  using ctx_run.Step [OF ctx_run.Start, of "WithDeadline None now d" GoroutineRuns]
  by (auto simp: ctx_step_simps WithDeadline_def WithTimeout_def time_Until_def)

end
