(* ===== verification/Spec2Isabelle.thy ===== *)
theory Spec2Isabelle
  imports RequestStates HeaderTransport KVOperations Stores SimpleCacheMap Lookups ImageQueries PublicNames
    Deadlines
begin

text \<open>
  A verification development for the Fastly Compute SDK for Go.

  The SDK turns the hostcalls of the Fastly Compute platform into Go types.  A hostcall returns a
  status and writes its results into memory the program provides; everything the program knows
  about the outside passes through one.  Code that calls the host is written as a function of the
  world that returns a result with the world after it (\<open>comp\<close> in \<open>Prelude\<close>): the result is \<open>None\<close> when
  the code does not return, \<open>Panic\<close> when it panics, and otherwise a value, in which \<open>goerr + 'a\<close>
  stands for Go's pair of a value and an error.  The hostcalls are the fields of records that are
  parameters of the model (\<open>http_calls\<close>, \<open>request_calls\<close>, \<open>downstream_calls\<close>, \<open>httpcache_calls\<close>,
  \<open>core_calls\<close>, \<open>backend_calls\<close>, \<open>kv_calls\<close> and a few small ones): the theorems hold for every host,
  and those that need the host to keep a documented contract say so in a hypothesis
  (\<open>value_host\<close>, \<open>multi_value_host\<close>, \<open>body_source\<close>, \<open>client_host\<close> and so on).  Machine integers
  are words, durations are integers with their conversions to words written out.

  \<^bold>\<open>Foundations.\<close>

  \<^item> \<open>Prelude\<close>: words, the combinators for Go's error idioms (\<open>check_c\<close>, \<open>try_c\<close>, \<open>drop_error\<close>,
    \<open>defer_c\<close>), shared lemmas.  \<open>GoStd\<close>, \<open>GoFloats\<close>, \<open>Regexp\<close>, \<open>Durations\<close>: what the code uses of the
    Go standard library (strings, numbers, floating point, patterns, \<open>time.Duration\<close>).
  \<^item> \<open>Errors\<close>: status codes, \<open>FastlyError\<close>, send error details (\<open>types.go\<close>, \<open>senderror.go\<close>).
  \<^item> \<open>HostBuffers\<close>, \<open>MultiValues\<close>: write buffers, the adaptive buffer loop (\<open>adaptivebuf.go\<close>) and the
    \<open>Values\<close> iterator (\<open>types.go\<close>); the interface \<open>value_source\<close> of iterators.
  \<^item> \<open>OptionMasks\<close>: the interfaces \<open>masked_option\<close> and \<open>flag_option\<close> of option blocks with a mask,
    interpreted for every block of the SDK.
  \<^item> \<open>EventLogs\<close>, \<open>WorldRelations\<close>: hosts that record calls, what a computation may record (\<open>emits\<close>),
    and computations that keep a relation on worlds (\<open>world_relation\<close>).

  \<^bold>\<open>HTTP messages\<close> (package \<open>fsthttp\<close> over \<open>internal/abi/fastly/http_guest.go\<close>).

  \<^item> \<open>HttpABI\<close>, \<open>RequestABI\<close>: the wrappers of the hostcalls on bodies, requests, responses, pending
    requests and on what the host knows of the client.
  \<^item> \<open>Headers\<close>, \<open>Cookies\<close>: \<open>headers.go\<close> and \<open>cookie.go\<close>; round trips of cookies, and that no field of a
    cookie reaches outside its place.  \<open>BodyReading\<close>: \<open>io.ReadAll\<close> on a body.
  \<^item> \<open>Responses\<close>, \<open>ResponseWriter\<close>, \<open>WriterStates\<close>: \<open>response.go\<close>; the states of a response writer
    under any calls of a handler, with a host that records what it gets, and the protocol it follows.
  \<^item> \<open>Requests\<close>, \<open>Sending\<close>: \<open>request.go\<close>; requests, their copies and bodies, and \<open>Send\<close> with its three
    ways to the host (the host's cache, the SDK's cache, the image optimizer), the poll loop and
    the goroutine that copies a streamed body.  \<open>SendRules\<close>: the poll loop ends, which requests the
    SDK caches itself and that only those have their hooks called, when a request counts as sent.  \<open>SendProtocol\<close>: what sending does to the
    handles of cache transactions.  \<open>RequestStates\<close>: the well-formedness every request keeps.
    \<open>HeaderTransport\<close>: the response or request one program sends is the one another reads.
  \<^item> \<open>Serving\<close>: the request of a client, \<open>Serve\<close> and \<open>ServeMany\<close> (\<open>handle.go\<close>, \<open>request.go\<close>, \<open>bot.go\<close>,
    \<open>resvpnproxy.go\<close>).  \<open>Transports\<close>: status texts, contexts, the transport for \<open>http.Client\<close> and the
    adapter for \<open>http.Handler\<close>.  \<open>Recorders\<close>: accessors of a response, error replies, and when the
    recorder of \<open>fsttest\<close> shows what the host would get.  \<open>PublicNames\<close>: the names of causes and methods,
    limits, \<open>objectstore\<close>.  \<open>Deadlines\<close>: \<open>x/fstctx\<close>, what holds in all orders of its goroutine, the cancel
    function, the parent and the clock.
  \<^item> \<open>HttpCacheABI\<close>, \<open>Candidates\<close>, \<open>CacheProtocol\<close>: \<open>httpcache_guest.go\<close> and \<open>cache.go\<close>; candidate
    responses, the interface \<open>override_slot\<close> of what an \<open>AfterSend\<close> hook may override, and the calls
    that end a cache transaction.

  \<^bold>\<open>Services.\<close>

  \<^item> \<open>BackendABI\<close>, \<open>Backends\<close>: \<open>fsthttp/backend.go\<close>; the option builder refines a record of optional
    settings, and what the host holds is read back.
  \<^item> \<open>KVStore\<close>, \<open>KVOperations\<close>: \<open>kvstore.go\<close>; the outcome of every operation, and the list iterator (an
    instance of \<open>value_source\<close>) against the chain of pages a store holds.  \<open>Stores\<close>: config stores, edge dictionaries and secret stores, with
    the interface \<open>lookup_store\<close>.
  \<^item> \<open>CoreCacheABI\<close>, \<open>CoreCache\<close>, \<open>CoreOperations\<close>, \<open>CoreOptions\<close>, \<open>SimpleCache\<close>: \<open>cache/core\<close> and
    \<open>cache/simple\<close>; transactions are closed once, option blocks hold what was asked for, \<open>GetOrSet\<close>
    keeps its protocol.  \<open>SimpleCacheMap\<close>: \<open>simple_Get\<close> and \<open>GetOrSet\<close> refine a map from keys to texts.
  \<^item> \<open>EdgeServices\<close>: access control lists, rate limiting, shielding, purging, logging (the loop
    \<open>write_loop\<close>) and runtime counters.  \<open>Lookups\<close>: devices and places.
  \<^item> \<open>ImageOptions\<close>, \<open>ImageQueries\<close>: \<open>fsthttp/imageopto\<close>; which options are accepted, and that the query
    string holds each option it has a parameter for, once, under its name.

  \<^bold>\<open>Parameters.\<close>  The parsers \<open>url.Parse\<close>, \<open>net.ParseIP\<close>, \<open>time.Parse\<close> and \<open>json.Unmarshal\<close>, SHA-256,
  \<open>io.Copy\<close> from a reader of the program, rounding and printing of floats, the hooks of a request
  (known by their names) and the clock are parameters, as functions or fields of the records
  \<open>sending\<close> and \<open>serving\<close>.  So is the order in which a loop ranges over a map, which Go leaves open
  (\<open>c_range_order\<close>, \<open>map_range\<close> in \<open>HttpABI\<close>).  Goroutines run at fixed points: the copy of a streamed body when the
  poll loop first sleeps, a revalidation in the background as a job that a send returns, and only
  the timer of \<open>Deadlines\<close> in any order with the other steps.  Loops
  that the host can keep going are partial functions, not fuel: not returning is \<open>None\<close>, and the
  theorems on them state that they return.

  \<^bold>\<open>Not modelled.\<close>  The memory of pointers (\<open>internal/abi/prim\<close>, apart from the write buffers), the
  declarations of \<open>internal/abi/wasi\<close>, the stubs for builds without a host
  (\<open>hostcalls_noguest.go\<close>), the build switches of the cache (one constant each, an argument of the
  model), mutexes (a guest has one thread), and examples and tests.  The hostcalls are declarations
  without a body: they are the fields of the records above.
\<close>

section \<open>Serving and the response writer\<close>

lemma WriteHeader_wrote: "ensures (WriteHeader host 200 rw) w_wroteHeaders"
  unfolding WriteHeader_def StatusEarlyHints_def
  by (auto simp: Let_def intro!: ensures_finish ensures_drop_error ensures_and_then [OF ensures_any])

lemma implicit_wrote: "ensures (implicit_header host rw) w_wroteHeaders"
  unfolding implicit_header_def by (auto intro: WriteHeader_wrote ensures_finish)

lemma rw_Close_wrote:
  assumes "w_sendErr rw = None"
  shows "ensures (rw_Close host rw) (\<lambda>(e, rw'). w_wroteHeaders rw')"
proof -
  have close: "ensures (and_then (HTTPBody_Close host b) (\<lambda>r. finish (f r, s))) (\<lambda>(e, rw'). w_wroteHeaders rw')"
    if "w_wroteHeaders s" for b s and f :: "goerr + unit \<Rightarrow> goerr option"
    using that by (intro ensures_and_then ensures_any ensures_finish) auto
  have trailers: "ensures (writeTrailers host s) (\<lambda>x. True)" for s
    by (rule ensures_any) simp
  show ?thesis unfolding rw_Close_def assms option.case
    by (rule ensures_then_ok [OF implicit_wrote])
      (auto simp: Let_def intro!: ensures_finish close ensures_then_ok [OF trailers] split: sum.splits)
qed

text \<open>
  C2: a request that is served to its end has been answered by one response.  Whatever calls the
  handler makes on its writer, and whatever the host answers, when \<open>serve\<close> returns the host has got
  framing, status and headers (and early hints), then exactly one response, and after it only its
  body, which is closed at most once.
\<close>

theorem serve_sends_one_response:
  fixes ops :: "('b, 'k, 'i) Request \<Rightarrow> handler_op list"
    and env :: "('w \<times> http_event list) serving" and log :: "http_event list"
  assumes "keeps (\<lambda>w w'. snd w' = snd w)
      (newClientRequest env abireq abibody :: (_, goerr + ('b, 'k, 'i) Request) comp)" and "v_http env = recorded host"
    and "serve env (\<lambda>req. run_ops (recorded host) (ops req)) abireq abibody n (w, []) = Some (Done (), (w', log))"
  shows "\<exists>head body. log = head @ EvSend 1 # body \<and> list_all head_event head \<and> list_all body_event body
    \<and> closes body \<le> 1"
proof -
  from assms(3) obtain req w1 l1 where
    1: "newClientRequest env abireq abibody (w, []) = Some (Done (Inr req), (w1, l1))"
    and rest: "or_panic (newResponseWriter (v_http env)) (\<lambda>rw.
      and_then (run_ops (recorded host) (ops (req\<lparr>q_sandboxRequests := n\<rparr>)) rw) (\<lambda>rw.
      if w_sendErr rw \<noteq> None then panic
      else and_then (rw_Close (v_http env) rw) (\<lambda>_. finish ()))) (w1, l1) = Some (Done (), (w', log))"
    by (auto simp: serve_def or_panic_def try_c_def and_then_def Let_def split: option.splits outcome.splits sum.splits)
  have "l1 = []" using keepsD [OF assms(1) 1] by simp
  with rest [unfolded assms(2)] obtain rw w2 l2 where
    2: "newResponseWriter (recorded host) (w1, []) = Some (Done (Inr rw), (w2, l2))"
    and rest: "and_then (run_ops (recorded host) (ops (req\<lparr>q_sandboxRequests := n\<rparr>)) rw) (\<lambda>rw.
      if w_sendErr rw \<noteq> None then panic
      else and_then (rw_Close (recorded host) rw) (\<lambda>_. finish ())) (w2, l2) = Some (Done (), (w', log))"
    by (auto simp: or_panic_def try_c_def and_then_def [of "newResponseWriter _"]
        split: option.splits outcome.splits sum.splits)
  from and_then_mono [OF rest] obtain rw1 w3 l3 where
    3: "run_ops (recorded host) (ops (req\<lparr>q_sandboxRequests := n\<rparr>)) rw (w2, l2) = Some (Done rw1, (w3, l3))"
    and rest: "(if w_sendErr rw1 \<noteq> None then panic
      else and_then (rw_Close (recorded host) rw1) (\<lambda>_. finish ())) (w3, l3) = Some (Done (), (w', log))" by auto
  from rest have err: "w_sendErr rw1 = None" by (auto split: if_splits)
  with rest obtain r where 4: "rw_Close (recorded host) rw1 (w3, l3) = Some (Done r, (w', log))"
    by (auto dest: and_then_mono)
  have "writer_reach host (rw1, w3, l3)"
    by (rule run_ops_reach [OF writer_start [OF 2] 3])
  moreover have "run_op (recorded host) handler_op.OpClose rw1 (w3, l3) = Some (Done (snd r), (w', log))"
    using 4 by (simp add: run_op_def and_then_Done)
  ultimately have "writer_protocol (snd r) log"
    by (rule writer_reach_protocol [OF writer_step])
  moreover have "w_wroteHeaders (snd r)"
    using ensuresD [OF rw_Close_wrote [OF err] 4] by (auto split: prod.splits)
  ultimately obtain head body where "log = head @ [EvSend 1] @ body" "list_all head_event head" "list_all body_event body"
    "closes log \<le> 1"
    by (auto simp: writer_protocol_def split: if_splits)
  moreover from this have "closes body \<le> 1" by (auto simp: closes_def)
  ultimately show ?thesis by (intro exI [of _ head] exI [of _ body]) simp
qed

text \<open>A host that records, for a handler that sends an empty response.\<close>

definition recording_env :: "(unit \<times> http_event list) serving" where
  "recording_env =
     \<lparr>v_http = recorded accepting_host, v_req = accepting_requests,
      v_down = accepting_downstream\<lparr>ds_client_ip_addr := (\<lambda>h. one_value_host local_address 16)\<rparr>,
      v_parse = (\<lambda>s. Inr plain_url), v_getenv = (\<lambda>s. []), v_since = (\<lambda>w. (0, w)), v_wait = finish ()\<rparr>"

lemma unlogged_one_value: "unlogged (one_value_host v n) = one_value_host v n"
  by (auto simp: fun_eq_iff unlogged_def one_value_host_def Let_def)

lemma recording_calls:
  "v_http recording_env = recorded accepting_host" "v_req recording_env = accepting_requests"
  "ds_client_ip_addr (v_down recording_env) = (\<lambda>h. one_value_host local_address 16)"
  "ds_server_ip_addr (v_down recording_env) = (\<lambda>h. one_value_host [] 16)"
  "c_req_method_get (recorded accepting_host) = (\<lambda>h. one_value_host ''GET'')"
  "c_req_uri_get (recorded accepting_host) = (\<lambda>h. one_value_host ''/'')"
  by (simp_all add: recording_env_def recorded_def accepting_host_def accepting_downstream_def unlogged_one_value)

lemma recording_client_host:
  "client_host recording_env h ''GET'' ''/'' HTTPVersionHTTP11 [] local_address []"
  by (auto simp: client_host_def recording_calls accepting_requests_def accepting_downstream_def
      answers_def accept_def header_host_def ipBufLen_def local_address_def
      intro!: value_host_one_value_host multi_value_host_greedy sized_one_value)

lemma recording_downstream: "keeps (=) (downstream_tls (v_down recording_env) h)"
  unfolding downstream_tls_def DownstreamTLSProtocol_def DownstreamTLSClientHello_def
    DownstreamTLSClientServername_def DownstreamTLSCipherOpenSSLName_def DownstreamTLSJA3MD5_def DownstreamTLSJA4_def
  by (auto simp: recording_env_def accepting_downstream_def
      intro!: still.keeps_check_c still.keeps_buffered still.keeps_pure still_calls still_fixed_buffer)

lemma recording_client_request: "keeps (=) (newClientRequest recording_env h b)"
  unfolding newClientRequest_def HTTPRequest_GetMethod_def HTTPRequest_GetURI_def HTTPRequest_GetVersion_def
    DownstreamClientIPAddr_def DownstreamServerIPAddr_def
  by (auto simp: recording_calls counting_calls
      intro!: still.keeps_check_c still.keeps_buffered still.keeps_pure still.keeps_read_headers keeps_hostcall
        still_calls still_fixed_buffer recording_downstream split: option.splits)

lemma recording_serve:
  "serve recording_env (\<lambda>req :: (unit, unit, unit) Request. run_ops (recorded accepting_host) [OpWriteHeader 204])
      h b n ((), []) = Some (Done (), ((), [EvFraming 0, EvStatus 204, EvSend 1, EvBodyClose]))"
proof -
  have parse: "v_parse recording_env ''/'' = Inr plain_url" and v: "splat HTTPVersionHTTP11 = Inr (''HTTP/1.1'', 1, 1)"
    and s: "u_Scheme plain_url \<noteq> ''https''"
    by (simp_all add: recording_env_def splat_def plain_url_def)
  obtain req w' where r: "newClientRequest recording_env h b ((), []) = Some (Done (Inr (req :: (unit, unit, unit) Request)), w')"
    using client_request_reads [of recording_env h _ _ _ _ _ _ _ _ zero_tls_info b, OF recording_client_host parse v] s
    unfolding reaches_def by (metis (no_types, lifting))
  have "w' = ((), [])" using keepsD [OF recording_client_request r] by simp
  with r show ?thesis
    by (simp add: serve_def or_panic_def try_c_def and_then_def newResponseWriter_def check_c_def NewHTTPResponse_def
        hostcall_def recording_calls recorded_def logged_def unlogged_def accepting_host_def accept_def toError_def
        NewHTTPBody_def run_op_def rw_Close_def implicit_header_def WriteHeader_def StatusEarlyHints_def drop_error_def framing_mode_def
        HTTPResponse_SetFramingHeadersMode_def
        HTTPResponse_SetStatusCode_def send_headers_def Header_Keys_def NewHeader_def HTTPResponse_SendDownstream_def
        writeTrailers_def trailer_map_def Header_Values_def hindex_def parseTrailers_def HTTPBody_Close_def Let_def)
qed

theorem serve_sends_one_response_witness:
  "\<exists>log w'. serve recording_env (\<lambda>req :: (unit, unit, unit) Request. run_ops (recorded accepting_host) [OpWriteHeader 204])
      1 (plain_body 2) 1 ((), []) = Some (Done (), (w', log))
    \<and> (\<exists>head body. log = head @ EvSend 1 # body \<and> list_all head_event head \<and> list_all body_event body
         \<and> closes body \<le> 1)"
proof -
  have "keeps (\<lambda>w w'. snd w' = snd w)
      (newClientRequest recording_env 1 (plain_body 2) :: (_, goerr + (unit, unit, unit) Request) comp)"
    by (intro keepsI) (auto dest!: keepsD [OF recording_client_request])
  from serve_sends_one_response [OF this recording_calls(1) recording_serve] show ?thesis
    using recording_serve by blast
qed

end
